(* ===== verification/Prelude.thy ===== *)
theory Prelude
  imports Main "HOL-Library.AList" "HOL-Library.Sublist" "HOL-Library.Char_ord"
    "HOL-Library.List_Lexorder" "HOL-Library.Product_Lexorder"
begin

text \<open>
  What every component theory shares: the two theorem collections of the development, results
  that may be an exception, and the Python string operations of the source
  (\<open>strip\<close>, \<open>lower\<close>, \<open>split\<close>, \<open>join\<close>, \<open>startswith\<close>, \<open>rsplit\<close>) with their laws.

  A Python string is a \<^typ>\<open>string\<close>, a list of code points below 256 (Latin-1). The operations below
  agree with Python's on that range; code points above it are outside the model.
\<close>

named_theorems table_laws "what a table of the metadata database returns after an operation"
named_theorems py_eval "equations that evaluate the Python operations of the source"

section \<open>Results that may be an exception\<close>

text \<open>\<open>Inl e\<close> is the raised exception, \<open>Inr x\<close> the returned value.\<close>

fun bindR :: "'e + 'a \<Rightarrow> ('a \<Rightarrow> 'e + 'b) \<Rightarrow> 'e + 'b" where
  "bindR (Inl e) f = Inl e"
| "bindR (Inr x) f = f x"

lemma bindR_Inr_iff: "bindR m f = Inr y \<longleftrightarrow> (\<exists>x. m = Inr x \<and> f x = Inr y)"
  by (cases m) auto

lemma bindR_InrE: "bindR m f = Inr y \<Longrightarrow> (\<And>x. m = Inr x \<Longrightarrow> f x = Inr y \<Longrightarrow> P) \<Longrightarrow> P"
  by (auto simp: bindR_Inr_iff)

lemma bindR_Inl_iff: "bindR m f = Inl e \<longleftrightarrow> m = Inl e \<or> (\<exists>x. m = Inr x \<and> f x = Inl e)"
  by (cases m) auto

lemma bindR_cong [fundef_cong]:
  "m = m' \<Longrightarrow> (\<And>x. m' = Inr x \<Longrightarrow> f x = f' x) \<Longrightarrow> bindR m f = bindR m' f'"
  by (cases m') auto

text \<open>A loop that stops at the first exception.\<close>

fun mapR :: "('a \<Rightarrow> 'e + 'b) \<Rightarrow> 'a list \<Rightarrow> 'e + 'b list" where
  "mapR f [] = Inr []"
| "mapR f (x # xs) = bindR (f x) (\<lambda>y. bindR (mapR f xs) (\<lambda>ys. Inr (y # ys)))"

lemma mapR_Inr_length: "mapR f xs = Inr ys \<Longrightarrow> length ys = length xs"
  by (induction xs arbitrary: ys) (auto simp: bindR_Inr_iff)

lemma mapR_Inr_set: "mapR f xs = Inr ys \<Longrightarrow> y \<in> set ys \<Longrightarrow> \<exists>x \<in> set xs. f x = Inr y"
  by (induction xs arbitrary: ys) (auto simp: bindR_Inr_iff)

lemma mapR_nth: "mapR f xs = Inr ys \<Longrightarrow> i < length xs \<Longrightarrow> f (xs ! i) = Inr (ys ! i)"
  by (induction xs arbitrary: ys i) (auto simp: bindR_Inr_iff nth_Cons split: nat.splits)

section \<open>Characters\<close>

definition code_point :: "char \<Rightarrow> nat" where
  "code_point c = of_char c"

definition py_isspace :: "char \<Rightarrow> bool" where
  "py_isspace c = (let n = code_point c in
     (9 \<le> n \<and> n \<le> 13) \<or> (28 \<le> n \<and> n \<le> 32) \<or> n = 133 \<or> n = 160)"

definition py_lower_char :: "char \<Rightarrow> char" where
  "py_lower_char c = (let n = code_point c in
     if (65 \<le> n \<and> n \<le> 90) \<or> (192 \<le> n \<and> n \<le> 222 \<and> n \<noteq> 215) then char_of (n + 32) else c)"

lemma py_isspace_slash [simp, py_eval]: "\<not> py_isspace CHR ''/''"
  by (simp add: py_isspace_def code_point_def)

lemma py_isspace_dot [simp, py_eval]: "\<not> py_isspace CHR ''.''"
  by (simp add: py_isspace_def code_point_def)

section \<open>Strings\<close>

abbreviation startswith :: "string \<Rightarrow> string \<Rightarrow> bool" where
  "startswith s p \<equiv> prefix p s"

definition py_lstrip :: "string \<Rightarrow> string" where
  "py_lstrip s = dropWhile py_isspace s"

definition py_strip :: "string \<Rightarrow> string" where
  "py_strip s = rev (dropWhile py_isspace (rev (dropWhile py_isspace s)))"

definition py_lower :: "string \<Rightarrow> string" where
  "py_lower s = map py_lower_char s"

text \<open>\<open>s.split(d)\<close> for a one-character separator, and \<open>sep.join(parts)\<close>.\<close>

fun split_on :: "char \<Rightarrow> string \<Rightarrow> string list" where
  "split_on d [] = [[]]"
| "split_on d (c # cs) =
     (if c = d then [] # split_on d cs
      else (case split_on d cs of [] \<Rightarrow> [[c]] | w # ws \<Rightarrow> (c # w) # ws))"

fun join_with :: "string \<Rightarrow> string list \<Rightarrow> string" where
  "join_with sep [] = []"
| "join_with sep [x] = x"
| "join_with sep (x # y # ys) = x @ sep @ join_with sep (y # ys)"

text \<open>\<open>s.rsplit(d, 1)[-1]\<close>: what follows the last separator, or the whole string.\<close>

definition last_segment :: "char \<Rightarrow> string \<Rightarrow> string" where
  "last_segment d s = rev (takeWhile (\<lambda>c. c \<noteq> d) (rev s))"

subsection \<open>Laws\<close>

lemma dropWhile_hd: "dropWhile P xs = y # ys \<Longrightarrow> \<not> P y"
  using hd_dropWhile[of P xs] by auto

lemma dropWhile_idem: "dropWhile P (dropWhile P xs) = dropWhile P xs"
  by (induction xs) auto

lemma dropWhile_rev_front:
  assumes "\<And>y ys. xs = y # ys \<Longrightarrow> \<not> P y"
  shows "dropWhile P (rev (dropWhile P (rev xs))) = rev (dropWhile P (rev xs))"
proof (cases "rev (dropWhile P (rev xs))")
  case Nil
  show ?thesis unfolding Nil by simp
next
  case (Cons z zs)
  have "suffix (dropWhile P (rev xs)) (rev xs)" by (rule suffix_dropWhile)
  then have "prefix (z # zs) xs"
    using Cons by (simp add: suffix_to_prefix)
  then obtain r where "xs = z # r" by (auto simp: prefix_def)
  then have "\<not> P z" using assms by blast
  then show ?thesis using Cons by simp
qed

lemma py_strip_idem [simp]: "py_strip (py_strip s) = py_strip s"
proof -
  let ?d = "dropWhile py_isspace"
  have front: "?d (rev (?d (rev (?d s)))) = rev (?d (rev (?d s)))"
    by (rule dropWhile_rev_front) (rule dropWhile_hd)
  show ?thesis
    unfolding py_strip_def front by (simp add: dropWhile_idem)
qed

lemma py_strip_Nil [simp, py_eval]: "py_strip [] = []"
  by (simp add: py_strip_def)

lemma set_py_strip: "set (py_strip s) \<subseteq> set s"
  unfolding py_strip_def by (auto dest!: set_dropWhileD)

lemma split_on_nonempty [simp]: "split_on d s \<noteq> []"
  by (induction s) (auto split: list.splits)

lemma split_on_no_sep: "w \<in> set (split_on d s) \<Longrightarrow> d \<notin> set w"
  by (induction s arbitrary: w) (auto split: list.splits if_splits)

lemma split_on_set: "w \<in> set (split_on d s) \<Longrightarrow> set w \<subseteq> set s"
  by (induction s arbitrary: w) (fastforce split: list.splits if_splits)+

lemma split_on_plain: "d \<notin> set w \<Longrightarrow> split_on d w = [w]"
  by (induction w) auto

lemma split_on_append: "d \<notin> set w \<Longrightarrow> split_on d (w @ d # s) = w # split_on d s"
  by (induction w) auto

lemma split_on_join:
  "ws \<noteq> [] \<Longrightarrow> (\<And>w. w \<in> set ws \<Longrightarrow> d \<notin> set w) \<Longrightarrow> split_on d (join_with [d] ws) = ws"
proof (induction ws rule: induct_list012)
  case (3 x y ys)
  then have "split_on d (join_with [d] (y # ys)) = y # ys" and "d \<notin> set x" by simp_all
  then show ?case by (simp add: split_on_append)
qed (simp_all add: split_on_plain)

lemma join_split_on [simp]: "join_with [d] (split_on d s) = s"
proof (induction s)
  case (Cons c cs)
  then show ?case
    by (cases "split_on d cs") (auto split: list.splits elim: list.set_cases
        intro: list.exhaust[of "tl (split_on d cs)"])
qed simp

lemma join_with_Cons: "ws \<noteq> [] \<Longrightarrow> join_with sep (w # ws) = w @ sep @ join_with sep ws"
  by (cases ws) auto

lemma last_segment_no_sep: "d \<notin> set (last_segment d s)"
  unfolding last_segment_def by (auto dest: set_takeWhileD)

section \<open>Lists: stable descending sort, slices, last and reversed search\<close>

text \<open>
  \<open>xs.sort(key=key, reverse=True)\<close>: descending by key, equal elements in their original order.
  \<open>xs[:n]\<close> and \<open>xs[n:]\<close> with Python's reading of a negative bound.
\<close>

definition py_sort_desc :: "('a \<Rightarrow> 'k::linorder) \<Rightarrow> 'a list \<Rightarrow> 'a list" where
  "py_sort_desc key xs = rev (sort_key key (rev xs))"

definition py_bound :: "'a list \<Rightarrow> int \<Rightarrow> nat" where
  "py_bound xs n = (if n < 0 then nat (int (length xs) + n) else nat n)"

definition py_take :: "int \<Rightarrow> 'a list \<Rightarrow> 'a list" where
  "py_take n xs = take (py_bound xs n) xs"

definition py_drop :: "int \<Rightarrow> 'a list \<Rightarrow> 'a list" where
  "py_drop n xs = drop (py_bound xs n) xs"

lemma set_py_sort_desc [simp]: "set (py_sort_desc key xs) = set xs"
  by (simp add: py_sort_desc_def)

lemma length_py_sort_desc [simp]: "length (py_sort_desc key xs) = length xs"
  by (simp add: py_sort_desc_def)

lemma sorted_py_sort_desc: "sorted_wrt (\<lambda>a b. key b \<le> key a) (py_sort_desc key xs)"
proof -
  have "sorted_wrt (\<lambda>a b. key a \<le> key b) (sort_key key (rev xs))"
    using sorted_sort_key[of key "rev xs"] by (simp add: sorted_wrt_map)
  then show ?thesis by (simp add: py_sort_desc_def sorted_wrt_rev)
qed

lemma filter_sort_key: "filter (\<lambda>x. key x = k) (sort_key key xs) = filter (\<lambda>x. key x = k) xs"
  using sort_key_stable[of key k xs] by (simp add: eq_commute)

lemma stable_py_sort_desc: "filter (\<lambda>x. key x = k) (py_sort_desc key xs) = filter (\<lambda>x. key x = k) xs"
  by (simp add: py_sort_desc_def rev_filter[symmetric] filter_sort_key)

lemma distinct_py_sort_desc: "distinct (map f xs) \<Longrightarrow> distinct (map f (py_sort_desc key xs))"
  by (simp add: py_sort_desc_def rev_map[symmetric] distinct_map inj_on_def)

lemma py_take_nat [simp]: "py_take (int n) xs = take n xs"
  by (simp add: py_take_def py_bound_def)

lemma set_py_take: "set (py_take n xs) \<subseteq> set xs"
  by (auto simp: py_take_def dest: in_set_takeD)

lemma sorted_wrt_py_take: "sorted_wrt P xs \<Longrightarrow> sorted_wrt P (py_take n xs)"
  by (simp add: py_take_def sorted_wrt_take)

text \<open>An element not below any other goes to the end of a stable ascending sort.\<close>

lemma insort_key_snoc: "f y \<le> f x \<Longrightarrow> insort_key f y (zs @ [x]) = insort_key f y zs @ [x]"
  by (induction zs) auto

lemma sort_key_snoc_max:
  "\<forall>y \<in> set xs. f y \<le> f x \<Longrightarrow> sort_key f (xs @ [x]) = sort_key f xs @ [x]"
  by (induction xs) (simp_all add: insort_key_snoc)

lemma filter_splitD:
  "filter P zs = xs @ p # ys \<Longrightarrow> \<exists>us vs. zs = us @ p # vs \<and> filter P us = xs \<and> filter P vs = ys"
proof (induction zs arbitrary: xs)
  case (Cons z zs)
  show ?case
  proof (cases "P z \<and> xs = []")
    case True
    then have "z # zs = [] @ p # zs \<and> filter P [] = xs \<and> filter P zs = ys" using Cons.prems by auto
    then show ?thesis by blast
  next
    case False
    then obtain xs' where "filter P zs = xs' @ p # ys" "xs = (if P z then z # xs' else xs')"
      using Cons.prems by (cases xs) (auto split: if_splits)
    then obtain us vs where "zs = us @ p # vs \<and> filter P us = xs' \<and> filter P vs = ys"
      using Cons.IH by blast
    then have "z # zs = (z # us) @ p # vs \<and> filter P (z # us) = xs \<and> filter P vs = ys"
      using \<open>xs = _\<close> by auto
    then show ?thesis by blast
  qed
qed simp

text \<open>The first element of the reversed list that a partial function accepts.\<close>

fun first_some :: "('a \<Rightarrow> 'b option) \<Rightarrow> 'a list \<Rightarrow> 'b option" where
  "first_some f [] = None"
| "first_some f (x # xs) = (case f x of None \<Rightarrow> first_some f xs | Some y \<Rightarrow> Some y)"

lemma first_some_append:
  "first_some f (xs @ ys) = (case first_some f xs of None \<Rightarrow> first_some f ys | Some y \<Rightarrow> Some y)"
  by (induction xs) (auto split: option.splits)

lemma first_some_None: "first_some f xs = None \<longleftrightarrow> (\<forall>x \<in> set xs. f x = None)"
  by (induction xs) (auto split: option.splits)

end
