(* ===== verification/Py_Values.thy ===== *)
theory Py_Values
  imports Prelude
begin

text \<open>
  The dynamic values the source passes around as \<open>Any\<close>, \<open>dict[str, Any]\<close> and JSON payloads, with
  the operations it applies to them: \<open>dict.get\<close>, item assignment, truth value, \<open>str\<close>,
  \<open>repr\<close>, \<open>isinstance\<close> tests, and the effect of a round trip through
  \<open>json.dumps(..., sort_keys=True)\<close> and \<open>json.loads\<close>.

  A dict is an association list in insertion order (\<^const>\<open>AList.update\<close> keeps the position of a
  key that is present and appends a new one, as Python's dict does). A float is kept as its \<open>repr\<close>, which
  determines it; arithmetic on floats is outside the model.
\<close>

datatype pyval =
    PNone
  | PBool bool
  | PInt int
  | PFloat string
  | PStr string
  | PList "pyval list"
  | PDict "(string \<times> pyval) list"

type_synonym pydict = "(string \<times> pyval) list"

section \<open>Dict operations\<close>

definition dict_get :: "pydict \<Rightarrow> string \<Rightarrow> pyval" where
  "dict_get d k = (case map_of d k of None \<Rightarrow> PNone | Some v \<Rightarrow> v)"

definition dict_get_or :: "pydict \<Rightarrow> string \<Rightarrow> pyval \<Rightarrow> pyval" where
  "dict_get_or d k dflt = (case map_of d k of None \<Rightarrow> dflt | Some v \<Rightarrow> v)"

abbreviation dict_set :: "pydict \<Rightarrow> string \<Rightarrow> pyval \<Rightarrow> pydict" where
  "dict_set d k v \<equiv> AList.update k v d"

lemma dict_get_Nil [simp, py_eval]: "dict_get [] k = PNone"
  by (simp add: dict_get_def)

lemma dict_get_Cons [simp, py_eval]:
  "dict_get ((k', v) # d) k = (if k' = k then v else dict_get d k)"
  by (simp add: dict_get_def)

lemma dict_get_set [simp]: "dict_get (dict_set d k v) k' = (if k' = k then v else dict_get d k')"
  by (simp add: dict_get_def update_conv')

lemma dict_get_or_PNone: "dict_get_or d k PNone = dict_get d k"
  by (simp add: dict_get_or_def dict_get_def)

section \<open>Truth value, \<open>str\<close> and \<open>repr\<close>\<close>

fun py_truthy :: "pyval \<Rightarrow> bool" where
  "py_truthy PNone = False"
| "py_truthy (PBool b) = b"
| "py_truthy (PInt i) = (i \<noteq> 0)"
| "py_truthy (PFloat r) = (r \<noteq> ''0.0'' \<and> r \<noteq> ''-0.0'')"
| "py_truthy (PStr s) = (s \<noteq> [])"
| "py_truthy (PList xs) = (xs \<noteq> [])"
| "py_truthy (PDict d) = (d \<noteq> [])"

fun dec_nat :: "nat \<Rightarrow> string" where
  "dec_nat n = (if n < 10 then [char_of (48 + n)] else dec_nat (n div 10) @ [char_of (48 + n mod 10)])"

declare dec_nat.simps [simp del]

definition dec_int :: "int \<Rightarrow> string" where
  "dec_int i = (if i < 0 then CHR ''-'' # dec_nat (nat (- i)) else dec_nat (nat i))"

definition hex_digit :: "nat \<Rightarrow> char" where
  "hex_digit n = char_of (if n < 10 then 48 + n else 87 + n)"

definition repr_char :: "char \<Rightarrow> char \<Rightarrow> string" where
  "repr_char q c = (let n = code_point c in
     if c = q \<or> n = 92 then [CHR 0x5C, c]
     else if n = 10 then [CHR 0x5C, CHR ''n'']
     else if n = 13 then [CHR 0x5C, CHR ''r'']
     else if n = 9 then [CHR 0x5C, CHR ''t'']
     else if n < 32 \<or> (127 \<le> n \<and> n \<le> 160) \<or> n = 173
       then [CHR 0x5C, CHR ''x'', hex_digit (n div 16), hex_digit (n mod 16)]
     else [c])"

definition repr_str :: "string \<Rightarrow> string" where
  "repr_str s = (let q = (if CHR 0x27 \<in> set s \<and> CHR 0x22 \<notin> set s then CHR 0x22 else CHR 0x27)
     in [q] @ concat (map (repr_char q) s) @ [q])"

fun py_repr :: "pyval \<Rightarrow> string" where
  "py_repr PNone = ''None''"
| "py_repr (PBool b) = (if b then ''True'' else ''False'')"
| "py_repr (PInt i) = dec_int i"
| "py_repr (PFloat r) = r"
| "py_repr (PStr s) = repr_str s"
| "py_repr (PList xs) = ''['' @ join_with '', '' (map py_repr xs) @ '']''"
| "py_repr (PDict d) =
     ''{'' @ join_with '', '' (map (\<lambda>kv. repr_str (fst kv) @ '': '' @ py_repr (snd kv)) d) @ ''}''"

definition py_str :: "pyval \<Rightarrow> string" where
  "py_str v = (case v of PStr s \<Rightarrow> s | _ \<Rightarrow> py_repr v)"

lemma py_str_PStr [simp, py_eval]: "py_str (PStr s) = s"
  by (simp add: py_str_def)

text \<open>The idiom \<open>str(d.get(k) or default)\<close>.\<close>

definition str_or :: "pyval \<Rightarrow> string \<Rightarrow> string" where
  "str_or v dflt = (if py_truthy v then py_str v else dflt)"

lemma str_or_simps [simp, py_eval]:
  "str_or PNone d = d" "str_or (PStr s) d = (if s = [] then d else s)"
  by (simp_all add: str_or_def)

text \<open>\<open>value or default\<close> on an optional string.\<close>

definition or_default :: "string option \<Rightarrow> string \<Rightarrow> string" where
  "or_default v d = (case v of None \<Rightarrow> d | Some s \<Rightarrow> if s = [] then d else s)"

lemma or_default_simps [simp, py_eval]:
  "or_default None d = d" "or_default (Some s) d = (if s = [] then d else s)"
  by (simp_all add: or_default_def)

section \<open>\<open>isinstance\<close> tests\<close>

fun is_str :: "pyval \<Rightarrow> bool" where
  "is_str (PStr s) = True" | "is_str _ = False"

fun as_str :: "pyval \<Rightarrow> string option" where
  "as_str (PStr s) = Some s" | "as_str _ = None"

fun as_list :: "pyval \<Rightarrow> pyval list option" where
  "as_list (PList xs) = Some xs" | "as_list _ = None"

fun as_dict :: "pyval \<Rightarrow> pydict option" where
  "as_dict (PDict d) = Some d" | "as_dict _ = None"

text \<open>\<open>isinstance(v, list) and all(isinstance(item, str) for item in v)\<close>.\<close>

definition as_str_list :: "pyval \<Rightarrow> string list option" where
  "as_str_list v = (case v of
     PList xs \<Rightarrow> if list_all is_str xs then Some (List.map_filter as_str xs) else None
   | _ \<Rightarrow> None)"

lemma as_str_list_strs [simp]: "as_str_list (PList (map PStr ss)) = Some ss"
  by (induction ss) (auto simp: as_str_list_def list_all_iff List.map_filter_simps)

text \<open>\<open>value if isinstance(value, str) and value.strip() else None\<close>.\<close>

definition nonblank_str :: "pyval \<Rightarrow> string option" where
  "nonblank_str v = (case v of PStr s \<Rightarrow> if py_strip s \<noteq> [] then Some s else None | _ \<Rightarrow> None)"

lemma nonblank_str_Some: "nonblank_str v = Some s \<longleftrightarrow> v = PStr s \<and> py_strip s \<noteq> []"
  by (auto simp: nonblank_str_def split: pyval.splits)

fun opt_str :: "string option \<Rightarrow> pyval" where
  "opt_str None = PNone" | "opt_str (Some s) = PStr s"

section \<open>A JSON column\<close>

text \<open>
  The stores write \<open>json.dumps(v, sort_keys=True)\<close> and read it back with \<open>json.loads\<close>. On the
  values of the model this changes only the order of dict keys.
\<close>

fun json_sorted :: "pyval \<Rightarrow> pyval" where
  "json_sorted (PList xs) = PList (map json_sorted xs)"
| "json_sorted (PDict d) =
     PDict (sort_key fst (map (\<lambda>kv. (fst kv, json_sorted (snd kv))) d))"
| "json_sorted v = v"

definition json_dict :: "pydict \<Rightarrow> pydict" where
  "json_dict d = sort_key fst (map (\<lambda>kv. (fst kv, json_sorted (snd kv))) d)"

lemma map_of_insort_key_fst:
  "k \<notin> fst ` set d \<Longrightarrow> map_of (insort_key fst (k, v) d) = (map_of d)(k \<mapsto> v)"
  by (induction d) (auto simp: fun_eq_iff)

lemma set_sort_key_fst: "fst ` set (sort_key fst d) = fst ` set d"
  by simp

lemma map_of_sort_key_fst:
  "distinct (map fst d) \<Longrightarrow> map_of (sort_key fst d) = map_of d"
proof (induction d)
  case (Cons kv d)
  obtain k v where kv: "kv = (k, v)" by force
  have "k \<notin> fst ` set (sort_key fst d)" using Cons.prems kv by force
  then show ?case using Cons kv by (simp add: map_of_insort_key_fst)
qed simp

lemma map_of_map_snd: "map_of (map (\<lambda>kv. (fst kv, f (snd kv))) d) k = map_option f (map_of d k)"
  by (induction d) auto

lemma map_of_json_dict:
  "distinct (map fst d) \<Longrightarrow> map_of (json_dict d) k = map_option json_sorted (map_of d k)"
  unfolding json_dict_def
  by (subst map_of_sort_key_fst) (simp_all add: comp_def map_of_map_snd)

lemma json_sorted_atoms [simp]:
  "json_sorted v = PStr s \<longleftrightarrow> v = PStr s" "json_sorted v = PNone \<longleftrightarrow> v = PNone"
  by (cases v; simp)+

lemma dict_get_json_dict:
  "distinct (map fst d) \<Longrightarrow> dict_get (json_dict d) k = json_sorted (dict_get d k)"
  by (simp add: dict_get_def map_of_json_dict split: option.splits)

end
