(* ===== verification/Task_Model.thy ===== *)
theory Task_Model
  imports Py_Values
begin

text \<open>
  \<open>packages/task_model/local_agent_task_model/models.py\<close>: the enums with their wire values, the run
  state the runtime keeps per task and run, to-do items with their normalisation, and the exceptions
  of the runtime (\<open>models.py\<close> and \<open>interrupt_bridge.py\<close>) together with the built-in ones the code
  raises or catches, as one type.
\<close>

section \<open>Enums\<close>

datatype event_type =
    TASK_CREATED | TASK_STARTED | CHECKPOINT_SAVED | TASK_PAUSED | TASK_CANCELLED | TASK_RESUMED
  | TASK_USER_INPUT_RECEIVED | APPROVAL_REQUESTED | POLICY_DENIED | RECOVERY_DISCOVERED
  | PLAN_UPDATED | SUBAGENT_STARTED | SUBAGENT_COMPLETED | TOOL_CALLED | TOOL_REJECTED
  | ARTIFACT_CREATED | MEMORY_UPDATED | SKILL_INSTALL_REQUESTED | SKILL_INSTALL_VALIDATED
  | SKILL_INSTALL_APPROVAL_REQUESTED | SKILL_INSTALL_COMPLETED | SKILL_INSTALL_FAILED
  | CONVERSATION_COMPACTED | TASK_COMPLETED | TASK_FAILED

fun event_value :: "event_type \<Rightarrow> string" where
  "event_value TASK_CREATED = ''task.created''"
| "event_value TASK_STARTED = ''task.started''"
| "event_value CHECKPOINT_SAVED = ''checkpoint.saved''"
| "event_value TASK_PAUSED = ''task.paused''"
| "event_value TASK_CANCELLED = ''task.cancelled''"
| "event_value TASK_RESUMED = ''task.resumed''"
| "event_value TASK_USER_INPUT_RECEIVED = ''task.user_input_received''"
| "event_value APPROVAL_REQUESTED = ''approval.requested''"
| "event_value POLICY_DENIED = ''policy.denied''"
| "event_value RECOVERY_DISCOVERED = ''recovery.discovered''"
| "event_value PLAN_UPDATED = ''plan.updated''"
| "event_value SUBAGENT_STARTED = ''subagent.started''"
| "event_value SUBAGENT_COMPLETED = ''subagent.completed''"
| "event_value TOOL_CALLED = ''tool.called''"
| "event_value TOOL_REJECTED = ''tool.rejected''"
| "event_value ARTIFACT_CREATED = ''artifact.created''"
| "event_value MEMORY_UPDATED = ''memory.updated''"
| "event_value SKILL_INSTALL_REQUESTED = ''skill.install.requested''"
| "event_value SKILL_INSTALL_VALIDATED = ''skill.install.validated''"
| "event_value SKILL_INSTALL_APPROVAL_REQUESTED = ''skill.install.approval_requested''"
| "event_value SKILL_INSTALL_COMPLETED = ''skill.install.completed''"
| "event_value SKILL_INSTALL_FAILED = ''skill.install.failed''"
| "event_value CONVERSATION_COMPACTED = ''conversation.compacted''"
| "event_value TASK_COMPLETED = ''task.completed''"
| "event_value TASK_FAILED = ''task.failed''"

lemma event_value_inj: "event_value a = event_value b \<longleftrightarrow> a = b"
  by (cases a; cases b; simp)

datatype compaction_trigger =
  THRESHOLD | OVERFLOW_FALLBACK | EXPLICIT_AGENT | EXPLICIT_CLIENT | RESUME_BOUNDARY

fun trigger_value :: "compaction_trigger \<Rightarrow> string" where
  "trigger_value THRESHOLD = ''threshold''"
| "trigger_value OVERFLOW_FALLBACK = ''overflow_fallback''"
| "trigger_value EXPLICIT_AGENT = ''explicit_agent''"
| "trigger_value EXPLICIT_CLIENT = ''explicit_client''"
| "trigger_value RESUME_BOUNDARY = ''resume_boundary''"

text \<open>\<open>CompactionTrigger(name)\<close>; \<open>None\<close> is the \<open>ValueError\<close> of an unknown name.\<close>

definition trigger_of :: "string \<Rightarrow> compaction_trigger option" where
  "trigger_of s = find (\<lambda>t. trigger_value t = s)
     [THRESHOLD, OVERFLOW_FALLBACK, EXPLICIT_AGENT, EXPLICIT_CLIENT, RESUME_BOUNDARY]"

lemma trigger_of_value [simp]: "trigger_of (trigger_value t) = Some t"
  by (cases t) (simp_all add: trigger_of_def)

datatype task_status =
  CREATED | ACCEPTED | PLANNING | EXECUTING | PAUSED | AWAITING_APPROVAL | CANCELLED | COMPLETED
| FAILED

fun status_value :: "task_status \<Rightarrow> string" where
  "status_value CREATED = ''created''"
| "status_value ACCEPTED = ''accepted''"
| "status_value PLANNING = ''planning''"
| "status_value EXECUTING = ''executing''"
| "status_value PAUSED = ''paused''"
| "status_value AWAITING_APPROVAL = ''awaiting_approval''"
| "status_value CANCELLED = ''cancelled''"
| "status_value COMPLETED = ''completed''"
| "status_value FAILED = ''failed''"

lemma status_value_inj: "status_value a = status_value b \<longleftrightarrow> a = b"
  by (cases a; cases b; simp)

section \<open>To-do items\<close>

datatype todo_status = PENDING | IN_PROGRESS | TODO_COMPLETED

fun todo_value :: "todo_status \<Rightarrow> string" where
  "todo_value PENDING = ''pending''"
| "todo_value IN_PROGRESS = ''in_progress''"
| "todo_value TODO_COMPLETED = ''completed''"

definition todo_status_of :: "string \<Rightarrow> todo_status option" where
  "todo_status_of s = find (\<lambda>t. todo_value t = s) [PENDING, IN_PROGRESS, TODO_COMPLETED]"

lemma todo_status_of_value [simp]: "todo_status_of (todo_value t) = Some t"
  by (cases t) (simp_all add: todo_status_of_def)

record todo_item =
  td_content :: string
  td_status :: todo_status

definition todo_to_dict :: "todo_item \<Rightarrow> pydict" where
  "todo_to_dict t = [(''content'', PStr (td_content t)), (''status'', PStr (todo_value (td_status t)))]"

text \<open>One iteration of the loop in \<open>normalize_todos\<close>; \<open>None\<close> is \<open>continue\<close>.\<close>

definition normalize_todo :: "pyval \<Rightarrow> todo_item option" where
  "normalize_todo item = (case as_dict item of
     None \<Rightarrow> None
   | Some d \<Rightarrow>
       (case (dict_get d ''content'', dict_get d ''status'') of
          (PStr content, PStr status) \<Rightarrow>
            (let stripped_content = py_strip content;
                 stripped_status = py_lower (py_strip status)
             in if stripped_content = [] then None
                else (case todo_status_of stripped_status of
                        None \<Rightarrow> None
                      | Some st \<Rightarrow> Some \<lparr>td_content = stripped_content, td_status = st\<rparr>))
        | _ \<Rightarrow> None))"

definition normalize_todos :: "pyval \<Rightarrow> todo_item list" where
  "normalize_todos v = (case v of PList items \<Rightarrow> List.map_filter normalize_todo items | _ \<Rightarrow> [])"

lemma normalize_todo_Some:
  "normalize_todo item = Some t \<Longrightarrow> td_content t \<noteq> [] \<and> py_strip (td_content t) = td_content t"
  by (auto simp: normalize_todo_def Let_def split: option.splits pyval.splits if_splits)

lemma py_lower_todo_value [simp]: "py_lower (py_strip (todo_value t)) = todo_value t"
  by (cases t) (simp_all add: py_lower_def py_strip_def py_isspace_def py_lower_char_def code_point_def)

lemma normalize_todo_to_dict:
  "td_content t \<noteq> [] \<Longrightarrow> py_strip (td_content t) = td_content t \<Longrightarrow>
   normalize_todo (PDict (todo_to_dict t)) = Some t"
  by (cases t) (simp add: normalize_todo_def todo_to_dict_def)

section \<open>Failures, authorizations and the run state\<close>

record failure_info =
  fi_message :: string
  fi_code :: "string option"

definition failure_to_dict :: "failure_info \<Rightarrow> pydict" where
  "failure_to_dict f = (''message'', PStr (fi_message f)) #
     (case fi_code f of None \<Rightarrow> [] | Some c \<Rightarrow> [(''code'', PStr c)])"

record remote_action_state =
  ra_action_id :: string
  ra_method :: string
  ra_title :: string
  ra_params :: pydict

record remote_auth_state =
  au_server_name :: string
  au_provider_id :: string
  au_status :: string
  au_summary :: string
  au_actions :: "remote_action_state list"

record run_state =
  rs_task_id :: string
  rs_run_id :: string
  rs_status :: task_status
  rs_objective :: string
  rs_created_at :: string
  rs_updated_at :: string
  rs_accepted_at :: string
  rs_workspace_roots :: "string list"
  rs_allowed_capabilities :: "string list"
  rs_metadata :: pydict
  rs_runtime_user_id :: "string option"
  rs_constraints :: "string list"
  rs_success_criteria :: "string list"
  rs_current_phase :: "string option"
  rs_latest_summary :: "string option"
  rs_active_subagent :: "string option"
  rs_artifact_count :: int
  rs_rejection_count :: int
  rs_last_event_at :: "string option"
  rs_failure :: "failure_info option"
  rs_last_rejection :: "failure_info option"
  rs_remote_auths :: "remote_auth_state list"
  rs_awaiting_approval :: bool
  rs_pending_approval_id :: "string option"
  rs_is_resumable :: bool
  rs_pause_reason :: "string option"
  rs_todos :: "todo_item list"
  rs_thread_id :: "string option"
  rs_checkpoint_id :: "string option"
  rs_is_compacted :: bool
  rs_compaction_id :: "string option"
  rs_compaction_trigger :: "string option"
  rs_links :: "(string \<times> string) list"

section \<open>Exceptions\<close>

record tool_rejection =
  tr_code :: string
  tr_message :: string
  tr_category :: string
  tr_retryable :: bool
  tr_details :: pydict

datatype exn =
    KeyError string
  | ValueError string
  | IndexError string
  | PermissionError string
  | IntegrityError string
  | FileNotFoundError string
  | UnicodeDecodeError string
  | OtherException string
  | RecoverableToolRejection tool_rejection
  | RejectionThresholdExceeded int int failure_info
  | ApprovalRequiredInterrupt string string
  | ClarificationRequiredInterrupt string "string option"
  | CancellationRequestedInterrupt "string option" "string option"
  | PolicyDeniedInterrupt string

type_synonym 'a result = "exn + 'a"

text \<open>\<open>RecoverableToolRejectionThresholdExceeded.summary\<close>.\<close>

definition threshold_summary :: "failure_info \<Rightarrow> string" where
  "threshold_summary rej =
     ''Agent exceeded the recoverable tool rejection limit without adapting. Last rejection ['' @
     (case fi_code rej of None \<Rightarrow> ''unknown'' | Some c \<Rightarrow> if c = [] then ''unknown'' else c) @
     '']: '' @ fi_message rej"

text \<open>
  \<open>str(exc)\<close>. The \<open>str\<close> of a \<open>KeyError\<close> is the \<open>repr\<close> of its argument. The interrupts are
  data classes built with keyword arguments only, so their \<open>str\<close> is empty.
\<close>

fun exn_str :: "exn \<Rightarrow> string" where
  "exn_str (KeyError m) = repr_str m"
| "exn_str (ValueError m) = m"
| "exn_str (IndexError m) = m"
| "exn_str (PermissionError m) = m"
| "exn_str (IntegrityError m) = m"
| "exn_str (FileNotFoundError m) = m"
| "exn_str (UnicodeDecodeError m) = m"
| "exn_str (OtherException m) = m"
| "exn_str (RecoverableToolRejection r) = tr_message r"
| "exn_str (RejectionThresholdExceeded n k f) = threshold_summary f"
| "exn_str (ApprovalRequiredInterrupt a s) = []"
| "exn_str (ClarificationRequiredInterrupt q c) = []"
| "exn_str (CancellationRequestedInterrupt r c) = []"
| "exn_str (PolicyDeniedInterrupt r) = []"

end
