(* ===== verification/Posix_Paths.thy ===== *)
theory Posix_Paths
  imports Task_Model
begin

text \<open>
  The part of Python's \<open>posixpath\<close> and \<open>pathlib.PurePosixPath\<close> the source uses: \<open>normpath\<close>, parsing
  a pure path into its root and parts, \<open>as_posix\<close>, \<open>joinpath\<close> and \<open>relative_to\<close>.
\<close>

section \<open>\<open>posixpath.normpath\<close>\<close>

text \<open>The initial slashes a path keeps: none, one, or exactly two.\<close>

definition initial_slashes :: "string \<Rightarrow> string" where
  "initial_slashes s =
     (if \<not> startswith s ''/'' then []
      else if startswith s ''//'' \<and> \<not> startswith s ''///'' then ''//'' else ''/'')"

definition norm_step :: "bool \<Rightarrow> string list \<Rightarrow> string \<Rightarrow> string list" where
  "norm_step absolute acc cmp =
     (if cmp = [] \<or> cmp = ''.'' then acc
      else if cmp \<noteq> ''..'' \<or> (\<not> absolute \<and> acc = []) \<or> (acc \<noteq> [] \<and> last acc = ''..'')
        then acc @ [cmp]
      else if acc \<noteq> [] then butlast acc else acc)"

definition norm_comps :: "string \<Rightarrow> string list" where
  "norm_comps s = foldl (norm_step (startswith s ''/'')) [] (split_on CHR ''/'' s)"

definition normpath :: "string \<Rightarrow> string" where
  "normpath s =
     (if s = [] then ''.''
      else (let r = initial_slashes s @ join_with ''/'' (norm_comps s) in if r = [] then ''.'' else r))"

lemma norm_step_plain:
  "set acc \<subseteq> A \<Longrightarrow> cmp \<in> A \<Longrightarrow> set (norm_step absolute acc cmp) \<subseteq> A"
  by (auto simp: norm_step_def dest: in_set_butlastD)

lemma norm_step_nonempty: "[] \<notin> set acc \<Longrightarrow> [] \<notin> set (norm_step absolute acc cmp)"
  by (auto simp: norm_step_def dest: in_set_butlastD)

lemma norm_step_absolute:
  assumes "''..'' \<notin> set acc"
  shows "''..'' \<notin> set (norm_step True acc cmp)"
proof -
  have "acc \<noteq> [] \<Longrightarrow> last acc \<noteq> ''..''" using assms by (metis last_in_set)
  with assms show ?thesis by (auto simp: norm_step_def dest: in_set_butlastD)
qed

lemma foldl_norm_step_absolute:
  "''..'' \<notin> set acc \<Longrightarrow> ''..'' \<notin> set (foldl (norm_step True) acc comps)"
  by (induction comps arbitrary: acc) (auto simp: norm_step_absolute)

lemma foldl_norm_step_nonempty:
  "[] \<notin> set acc \<Longrightarrow> [] \<notin> set (foldl (norm_step absolute) acc comps)"
  by (induction comps arbitrary: acc) (auto simp: norm_step_nonempty)

lemma foldl_norm_step_set:
  "set (foldl (norm_step absolute) acc comps) \<subseteq> set acc \<union> set comps"
proof (induction comps arbitrary: acc)
  case (Cons c comps)
  have "set (norm_step absolute acc c) \<subseteq> set acc \<union> set (c # comps)"
    by (rule norm_step_plain) auto
  with Cons.IH[of "norm_step absolute acc c"] show ?case by auto
qed simp

lemma norm_comps_absolute: "startswith s ''/'' \<Longrightarrow> ''..'' \<notin> set (norm_comps s)"
  by (simp add: norm_comps_def foldl_norm_step_absolute)

lemma norm_comps_nonempty: "[] \<notin> set (norm_comps s)"
  by (simp add: norm_comps_def foldl_norm_step_nonempty)

lemma norm_comps_no_slash: "c \<in> set (norm_comps s) \<Longrightarrow> CHR ''/'' \<notin> set c"
  using foldl_norm_step_set[of "startswith s ''/''" "[]" "split_on CHR ''/'' s"]
  by (auto simp: norm_comps_def dest: split_on_no_sep)

text \<open>A slash-free component list is determined by its joined string.\<close>

lemma split_join_comps:
  "ws \<noteq> [] \<Longrightarrow> (\<And>w. w \<in> set ws \<Longrightarrow> CHR ''/'' \<notin> set w) \<Longrightarrow> split_on CHR ''/'' (join_with ''/'' ws) = ws"
  using split_on_join[of ws "CHR ''/''"] by simp

section \<open>\<open>PurePosixPath\<close>\<close>

record pure_path =
  pp_root :: string
  pp_parts :: "string list"

definition path_parts :: "string \<Rightarrow> string list" where
  "path_parts s = filter (\<lambda>p. p \<noteq> [] \<and> p \<noteq> ''.'') (split_on CHR ''/'' s)"

definition pure_path :: "string \<Rightarrow> pure_path" where
  "pure_path s = \<lparr>pp_root = initial_slashes s, pp_parts = path_parts s\<rparr>"

definition as_posix :: "pure_path \<Rightarrow> string" where
  "as_posix p = (let r = pp_root p @ join_with ''/'' (pp_parts p) in if r = [] then ''.'' else r)"

definition joinpath :: "pure_path \<Rightarrow> pure_path \<Rightarrow> pure_path" where
  "joinpath b p = (if pp_root p \<noteq> [] then p else b\<lparr>pp_parts := pp_parts b @ pp_parts p\<rparr>)"

text \<open>\<open>None\<close> is the \<open>ValueError\<close> of \<open>relative_to\<close>.\<close>

definition relative_to :: "pure_path \<Rightarrow> pure_path \<Rightarrow> pure_path option" where
  "relative_to p b =
     (if pp_root p = pp_root b \<and> prefix (pp_parts b) (pp_parts p)
      then Some \<lparr>pp_root = [], pp_parts = drop (length (pp_parts b)) (pp_parts p)\<rparr> else None)"

text \<open>The parts a parsed path can have.\<close>

definition good_parts :: "string list \<Rightarrow> bool" where
  "good_parts ps \<longleftrightarrow> (\<forall>p \<in> set ps. p \<noteq> [] \<and> p \<noteq> ''.'' \<and> CHR ''/'' \<notin> set p)"

lemma good_parts_pure_path [simp]: "good_parts (pp_parts (pure_path s))"
  by (auto simp: good_parts_def pure_path_def path_parts_def dest: split_on_no_sep)

lemma good_parts_Cons [simp]:
  "good_parts (p # ps) \<longleftrightarrow> p \<noteq> [] \<and> p \<noteq> ''.'' \<and> CHR ''/'' \<notin> set p \<and> good_parts ps"
  by (auto simp: good_parts_def)

lemma good_parts_Nil [simp]: "good_parts []"
  by (simp add: good_parts_def)

lemma good_parts_append [simp]: "good_parts (ps @ qs) \<longleftrightarrow> good_parts ps \<and> good_parts qs"
  by (auto simp: good_parts_def)

lemma good_parts_drop: "good_parts ps \<Longrightarrow> good_parts (drop n ps)"
  by (auto simp: good_parts_def dest: in_set_dropD)

lemma path_parts_join [simp]: "good_parts ps \<Longrightarrow> path_parts (join_with ''/'' ps) = ps"
  by (cases "ps = []")
    (auto simp: path_parts_def good_parts_def split_join_comps filter_id_conv)

lemma path_parts_slash [simp]: "path_parts (CHR ''/'' # s) = path_parts s"
  by (simp add: path_parts_def)

lemma join_parts_hd:
  assumes "good_parts ps" and "ps \<noteq> []"
  shows "\<exists>c cs. join_with ''/'' ps = c # cs \<and> c \<noteq> CHR ''/''"
proof -
  obtain q qs where ps: "ps = q # qs" using assms(2) by (cases ps) auto
  obtain c cs where q: "q = c # cs" and "c \<noteq> CHR ''/''" using assms(1) ps by (cases q) auto
  have "\<exists>r. join_with ''/'' ps = c # r" using ps q by (cases qs) auto
  with \<open>c \<noteq> CHR ''/''\<close> show ?thesis by blast
qed

lemma initial_slashes_join [simp]:
  "good_parts ps \<Longrightarrow> initial_slashes (CHR ''/'' # join_with ''/'' ps) = ''/''"
  by (cases "ps = []") (use join_parts_hd[of ps] in \<open>auto simp: initial_slashes_def\<close>)

text \<open>Parsing what \<open>as_posix\<close> prints gives the path back, for the absolute paths of the source.\<close>

lemma pure_path_as_posix:
  "good_parts ps \<Longrightarrow> pure_path (as_posix \<lparr>pp_root = ''/'', pp_parts = ps\<rparr>) = \<lparr>pp_root = ''/'', pp_parts = ps\<rparr>"
  by (simp add: pure_path_def as_posix_def)

end
