(* ===== verification/Path_Policy.thy ===== *)
theory Path_Policy
  imports Posix_Paths
begin

text \<open>
  \<open>services/sandbox_service/local_agent_sandbox_service/path_policy.py\<close>: virtual sandbox paths. A path an
  agent names is stripped, must be absolute and free of \<open>..\<close>, and belongs to exactly one of the zones
  mounted at \<open>/workspace\<close>, \<open>/tmp\<close> and \<open>/.memory\<close>.

  A host path is the list of its components below the file system root. What \<open>Path.resolve\<close> makes of it
  depends on the host's symbolic links: \<open>resolve\<close> is a parameter of the definitions that use it.
\<close>

datatype zone = ZONE_WORKSPACE | ZONE_SCRATCH | ZONE_MEMORY

record norm_path =
  np_zone :: zone
  np_relative :: "string list"

fun mount_name :: "zone \<Rightarrow> string" where
  "mount_name ZONE_WORKSPACE = ''workspace''"
| "mount_name ZONE_SCRATCH = ''tmp''"
| "mount_name ZONE_MEMORY = ''.memory''"

text \<open>\<open>WORKSPACE_MOUNT\<close>, \<open>SCRATCH_MOUNT\<close>, \<open>MEMORY_MOUNT\<close>.\<close>

definition mount :: "zone \<Rightarrow> pure_path" where
  "mount z = pure_path (''/'' @ mount_name z)"

definition mount_posix :: "zone \<Rightarrow> string" where
  "mount_posix z = ''/'' @ mount_name z"

definition logical_path :: "norm_path \<Rightarrow> string" where
  "logical_path n =
     (if np_relative n = [] then mount_posix (np_zone n)
      else mount_posix (np_zone n) @ ''/'' @ join_with ''/'' (np_relative n))"

definition normalize_sandbox_path :: "string \<Rightarrow> norm_path result" where
  "normalize_sandbox_path path =
     (let raw = py_strip path in
      if raw = [] then Inl (ValueError ''sandbox path must be a non-empty string'')
      else if \<not> startswith raw ''/'' then Inl (ValueError ''sandbox path must be an absolute virtual path'')
      else (let logical = pure_path raw in
        if ''..'' \<in> set (pp_parts logical)
          then Inl (ValueError ''sandbox path cannot traverse outside its virtual root'')
        else (case relative_to logical (mount ZONE_WORKSPACE) of
          Some rel \<Rightarrow> Inr \<lparr>np_zone = ZONE_WORKSPACE, np_relative = pp_parts rel\<rparr>
        | None \<Rightarrow> (case relative_to logical (mount ZONE_SCRATCH) of
          Some rel \<Rightarrow> Inr \<lparr>np_zone = ZONE_SCRATCH, np_relative = pp_parts rel\<rparr>
        | None \<Rightarrow> (case relative_to logical (mount ZONE_MEMORY) of
          Some rel \<Rightarrow> Inr \<lparr>np_zone = ZONE_MEMORY, np_relative = pp_parts rel\<rparr>
        | None \<Rightarrow> Inl (ValueError ''sandbox path must be under /workspace, /tmp, or /.memory''))))))"

definition normalize_workspace_virtual_root :: "string \<Rightarrow> string result" where
  "normalize_workspace_virtual_root path = bindR (normalize_sandbox_path path) (\<lambda>n.
     if np_zone n \<noteq> ZONE_WORKSPACE then Inl (ValueError ''virtual workspace root must be under /workspace'')
     else Inr (logical_path n))"

type_synonym host_path = "string list"

definition ensure_within_root :: "(host_path \<Rightarrow> host_path) \<Rightarrow> host_path \<Rightarrow> host_path \<Rightarrow> host_path result" where
  "ensure_within_root resolve root candidate =
     (if prefix (resolve root) (resolve candidate) then Inr (resolve candidate)
      else Inl (ValueError ''resolved path escapes governed sandbox root''))"

section \<open>Where a normalised path can point\<close>

lemma mount_simps [simp]: "mount z = \<lparr>pp_root = ''/'', pp_parts = [mount_name z]\<rparr>"
  by (cases z) (simp_all add: mount_def pure_path_def initial_slashes_def path_parts_def)

text \<open>The paths a normalisation can return.\<close>

definition norm_path_ok :: "norm_path \<Rightarrow> bool" where
  "norm_path_ok n \<longleftrightarrow> good_parts (np_relative n) \<and> ''..'' \<notin> set (np_relative n)"

lemma relative_to_mount:
  "relative_to p (mount z) = Some rel \<longleftrightarrow>
   pp_root p = ''/'' \<and> (\<exists>ps. pp_parts p = mount_name z # ps \<and> rel = \<lparr>pp_root = [], pp_parts = ps\<rparr>)"
  by (cases "pp_parts p") (auto simp: relative_to_def)

lemma relative_to_mount_None:
  "relative_to p (mount z) = None \<longleftrightarrow> \<not> (pp_root p = ''/'' \<and> (\<exists>ps. pp_parts p = mount_name z # ps))"
  by (cases "pp_parts p") (auto simp: relative_to_def)

lemma mount_name_inj [simp]: "mount_name a = mount_name b \<longleftrightarrow> a = b"
  by (cases a; cases b; simp)

lemma normalize_Inr:
  assumes "normalize_sandbox_path path = Inr n"
  shows "pure_path (py_strip path) = \<lparr>pp_root = ''/'', pp_parts = mount_name (np_zone n) # np_relative n\<rparr>"
    and "''..'' \<notin> set (np_relative n)"
  using assms
  by (auto simp: normalize_sandbox_path_def Let_def relative_to_mount simp del: mount_simps
      split: if_splits option.splits)

lemma normalize_ok: "normalize_sandbox_path path = Inr n \<Longrightarrow> norm_path_ok n"
  using normalize_Inr[of path n] good_parts_pure_path[of "py_strip path"]
  by (auto simp: norm_path_ok_def)

lemma as_posix_logical:
  "as_posix \<lparr>pp_root = ''/'', pp_parts = mount_name (np_zone n) # np_relative n\<rparr> = logical_path n"
  by (auto simp: as_posix_def logical_path_def mount_posix_def join_with_Cons)

lemma good_parts_mount [simp]: "good_parts [mount_name z]"
  by (cases z) simp_all

lemma pure_path_logical:
  assumes "norm_path_ok n"
  shows "pure_path (logical_path n) = \<lparr>pp_root = ''/'', pp_parts = mount_name (np_zone n) # np_relative n\<rparr>"
proof -
  have "good_parts (mount_name (np_zone n) # np_relative n)"
    using assms good_parts_mount[of "np_zone n"] by (auto simp: norm_path_ok_def)
  then show ?thesis by (metis pure_path_as_posix as_posix_logical)
qed

lemma mount_name_not_dotdot [simp]: "mount_name z \<noteq> ''..''"
  by (cases z) simp_all

text \<open>Parsing a logical path back, when stripping does not touch it.\<close>

lemma normalize_logical:
  assumes ok: "norm_path_ok n" and strip: "py_strip (logical_path n) = logical_path n"
  shows "normalize_sandbox_path (logical_path n) = Inr n"
proof -
  have abs: "startswith (logical_path n) ''/''"
    by (simp add: logical_path_def mount_posix_def)
  then have "logical_path n \<noteq> []" by auto
  moreover have "relative_to (pure_path (logical_path n)) (mount z) = None" if "z \<noteq> np_zone n" for z
    using that by (auto simp: relative_to_mount_None pure_path_logical[OF ok] simp del: mount_simps)
  moreover have "relative_to (pure_path (logical_path n)) (mount (np_zone n)) =
      Some \<lparr>pp_root = [], pp_parts = np_relative n\<rparr>"
    by (simp add: relative_to_mount pure_path_logical[OF ok] del: mount_simps)
  moreover have "''..'' \<notin> set (pp_parts (pure_path (logical_path n)))"
    using ok by (auto simp: pure_path_logical norm_path_ok_def dest: sym)
  ultimately show ?thesis using abs
    by (cases "np_zone n") (simp_all add: normalize_sandbox_path_def strip Let_def del: mount_simps)
qed

text \<open>Different normalised paths have different logical paths.\<close>

lemma logical_path_inj:
  "norm_path_ok a \<Longrightarrow> norm_path_ok b \<Longrightarrow> logical_path a = logical_path b \<Longrightarrow> a = b"
  using pure_path_logical[of a] pure_path_logical[of b] by (cases a; cases b) auto

lemma logical_path_mount:
  "startswith (logical_path n) (mount_posix (np_zone n) @ ''/'') \<longleftrightarrow> np_relative n \<noteq> []"
  by (cases "np_zone n") (auto simp: logical_path_def mount_posix_def)

lemma ensure_within_root_Inr:
  "ensure_within_root resolve root cand = Inr p \<longleftrightarrow> p = resolve cand \<and> prefix (resolve root) p"
  by (auto simp: ensure_within_root_def)

end
