(* ===== verification/Sandbox.thy ===== *)
theory Sandbox
  imports Path_Policy
begin

text \<open>
  \<open>services/sandbox_service\<close>: the workspace manager (\<open>workspace_manager.py\<close>), the path side of the local
  sandbox and its factory (\<open>sandbox.py\<close>), and the argument check of \<open>command_executor.py\<close>. Reading and
  writing the host file system and running a process are parameters: what the theory models is which host
  path, which argument list and which rejection the sandbox computes.
\<close>

record sandbox_roots =
  sr_workspace_root :: host_path
  sr_scratch_root :: host_path
  sr_memory_root :: host_path
  sr_allowed_roots :: "host_path list"
  sr_virtual_root :: pure_path
  sr_allowed_virtual_roots :: "pure_path list"

definition host_str :: "host_path \<Rightarrow> string" where
  "host_str p = ''/'' @ join_with ''/'' p"

section \<open>Workspace roots\<close>

text \<open>\<open>candidate == existing or candidate.is_relative_to(existing) or existing.is_relative_to(candidate)\<close>.\<close>

definition roots_overlap :: "pure_path \<Rightarrow> pure_path \<Rightarrow> bool" where
  "roots_overlap a b \<longleftrightarrow> a = b \<or> relative_to a b \<noteq> None \<or> relative_to b a \<noteq> None"

fun check_overlaps :: "pure_path list \<Rightarrow> pure_path list \<Rightarrow> pure_path list result" where
  "check_overlaps normalized [] = Inr normalized"
| "check_overlaps normalized (c # cs) =
     (if list_ex (roots_overlap c) normalized
      then Inl (ValueError ''workspace roots must be distinct non-overlapping virtual paths'')
      else check_overlaps (normalized @ [c]) cs)"

definition normalize_workspace_roots :: "string list \<Rightarrow> pure_path list result" where
  "normalize_workspace_roots roots =
     (if roots = [] then Inl (ValueError ''task requires at least one workspace root'')
      else bindR (mapR normalize_workspace_virtual_root roots) (\<lambda>rs.
        check_overlaps [] (map pure_path rs)))"

text \<open>The factory's \<open>normalize_workspace_roots\<close>.\<close>

definition factory_normalize_roots :: "string list \<Rightarrow> string list result" where
  "factory_normalize_roots roots =
     bindR (normalize_workspace_roots roots) (\<lambda>ps. Inr (map as_posix ps))"

record manager =
  wm_runtime_root :: host_path
  wm_governed_root :: host_path
  wm_virtual_root :: pure_path

definition governed_host_root :: "(host_path \<Rightarrow> host_path) \<Rightarrow> manager \<Rightarrow> pure_path \<Rightarrow> host_path result" where
  "governed_host_root resolve m v = (case relative_to v (wm_virtual_root m) of
     None \<Rightarrow> Inl (ValueError (repr_str (as_posix v) @ '' is not in the subpath of '' @
                            repr_str (as_posix (wm_virtual_root m))))
   | Some rel \<Rightarrow> ensure_within_root resolve (wm_governed_root m) (wm_governed_root m @ pp_parts rel))"

definition create_roots ::
    "(host_path \<Rightarrow> host_path) \<Rightarrow> manager \<Rightarrow> string \<Rightarrow> string \<Rightarrow> string list \<Rightarrow> sandbox_roots result" where
  "create_roots resolve m task_id run_id roots =
     bindR (normalize_workspace_roots roots) (\<lambda>virtual_roots.
     bindR (mapR (governed_host_root resolve m) virtual_roots) (\<lambda>host_roots.
       Inr \<lparr>sr_workspace_root = hd host_roots,
            sr_scratch_root = resolve (wm_runtime_root m @ [''scratch'', task_id, run_id]),
            sr_memory_root = resolve (wm_runtime_root m @ [''memory'', task_id]),
            sr_allowed_roots = host_roots,
            sr_virtual_root = wm_virtual_root m,
            sr_allowed_virtual_roots = virtual_roots\<rparr>))"

section \<open>Input paths\<close>

definition path_rejection :: "string \<Rightarrow> string \<Rightarrow> exn" where
  "path_rejection message raw = RecoverableToolRejection
     \<lparr>tr_code = ''path_validation'', tr_message = message, tr_category = ''path_validation'',
      tr_retryable = True, tr_details = [(''path'', PStr raw)]\<rparr>"

definition looks_like_host_path :: "string \<Rightarrow> bool" where
  "looks_like_host_path raw =
     (startswith raw ''~'' \<or> startswith raw ''$''
      \<or> (length raw \<ge> 3 \<and> raw ! 1 = CHR '':'' \<and> (raw ! 2 = CHR 0x5C \<or> raw ! 2 = CHR ''/''))
      \<or> (startswith raw ''/'' \<and> \<not> (startswith raw ''/workspace'' \<or> startswith raw ''/tmp''
                                      \<or> startswith raw ''/.memory'')))"

definition normalize_input_path :: "string \<Rightarrow> norm_path result" where
  "normalize_input_path path =
     (let raw = py_strip path in
      if raw = [] then Inl (path_rejection ''sandbox path must be a non-empty string'' raw)
      else if looks_like_host_path raw
        then Inl (path_rejection ''sandbox path must be a sandbox virtual path, not a host-native path'' raw)
      else (case normalize_sandbox_path raw of
          Inl (ValueError m) \<Rightarrow> Inl (path_rejection m raw)
        | r \<Rightarrow> r))"

text \<open>\<open>LocalExecutionSandbox.normalize_path\<close>.\<close>

definition sandbox_normalize :: "string \<Rightarrow> string result" where
  "sandbox_normalize path = bindR (normalize_input_path path) (\<lambda>n. Inr (logical_path n))"

fun zone_root :: "sandbox_roots \<Rightarrow> zone \<Rightarrow> host_path" where
  "zone_root r ZONE_WORKSPACE = sr_workspace_root r"
| "zone_root r ZONE_SCRATCH = sr_scratch_root r"
| "zone_root r ZONE_MEMORY = sr_memory_root r"

definition resolve_host_path ::
    "(host_path \<Rightarrow> host_path) \<Rightarrow> sandbox_roots \<Rightarrow> norm_path \<Rightarrow> host_path result" where
  "resolve_host_path resolve r n =
     (let base = zone_root r (np_zone n) in ensure_within_root resolve base (base @ np_relative n))"

text \<open>\<open>LocalExecutionSandbox._resolve\<close>: the host path every read and write goes to.\<close>

definition sandbox_resolve ::
    "(host_path \<Rightarrow> host_path) \<Rightarrow> sandbox_roots \<Rightarrow> string \<Rightarrow> host_path result" where
  "sandbox_resolve resolve r path =
     bindR (normalize_input_path path) (resolve_host_path resolve r)"

section \<open>Command arguments\<close>

fun ensure_allowed_root ::
    "(host_path \<Rightarrow> host_path) \<Rightarrow> host_path list \<Rightarrow> host_path \<Rightarrow> host_path result" where
  "ensure_allowed_root resolve [] candidate = Inl (RecoverableToolRejection
     \<lparr>tr_code = ''scope_denied'', tr_message = ''command cwd must resolve inside a governed workspace root'',
      tr_category = ''scope_denied'', tr_retryable = True, tr_details = []\<rparr>)"
| "ensure_allowed_root resolve (a # as) candidate =
     (case ensure_within_root resolve a candidate of
        Inr p \<Rightarrow> Inr p | Inl e \<Rightarrow> ensure_allowed_root resolve as candidate)"

definition zone_root_path ::
    "(host_path \<Rightarrow> host_path) \<Rightarrow> sandbox_roots \<Rightarrow> norm_path \<Rightarrow> host_path result" where
  "zone_root_path resolve r n =
     (let base = zone_root r (np_zone n) in
      if np_relative n = [] then Inr base else ensure_within_root resolve base (base @ np_relative n))"

definition translate_argument ::
    "(host_path \<Rightarrow> host_path) \<Rightarrow> sandbox_roots \<Rightarrow> host_path \<Rightarrow> string \<Rightarrow> string result" where
  "translate_argument resolve r cwd_root raw =
     (if raw = ''/'' then Inr (host_str cwd_root)
      else if \<not> startswith raw ''/'' then Inr raw
      else if looks_like_host_path raw
        then Inl (path_rejection ''command arguments must use sandbox virtual paths, not host-native paths'' raw)
      else bindR (normalize_sandbox_path raw) (\<lambda>n.
        bindR (resolve_host_path resolve r n) (\<lambda>p.
          bindR (if np_zone n = ZONE_WORKSPACE then ensure_allowed_root resolve (sr_allowed_roots r) p
                 else Inr p) (\<lambda>q. Inr (host_str q)))))"

definition translate_arguments ::
    "(host_path \<Rightarrow> host_path) \<Rightarrow> sandbox_roots \<Rightarrow> norm_path \<Rightarrow> string list \<Rightarrow> string list result" where
  "translate_arguments resolve r cwd command =
     bindR (zone_root_path resolve r cwd) (\<lambda>cwd_root.
       (case command of
          [] \<Rightarrow> Inr []
        | head # args \<Rightarrow>
            bindR (mapR (translate_argument resolve r cwd_root) args) (\<lambda>args'. Inr (head # args'))))"

text \<open>\<open>str.replace\<close>: non-overlapping occurrences from the left.\<close>

fun replace_from :: "nat \<Rightarrow> string \<Rightarrow> string \<Rightarrow> string \<Rightarrow> string" where
  "replace_from skip old new [] = []"
| "replace_from (Suc skip) old new (c # cs) = replace_from skip old new cs"
| "replace_from 0 old new (c # cs) =
     (if startswith (c # cs) old then new @ replace_from (length old - 1) old new cs
      else c # replace_from 0 old new cs)"

definition py_replace :: "string \<Rightarrow> string \<Rightarrow> string \<Rightarrow> string" where
  "py_replace old new s =
     (if old = [] then new @ concat (map (\<lambda>c. c # new) s) else replace_from 0 old new s)"

definition host_to_virtual :: "sandbox_roots \<Rightarrow> (string \<times> string) list" where
  "host_to_virtual r =
     (let reps = zip (map host_str (sr_allowed_roots r)) (map as_posix (sr_allowed_virtual_roots r)) @
        [(host_str (sr_scratch_root r), ''/tmp''), (host_str (sr_memory_root r), ''/.memory'')]
      in sort_key (\<lambda>p. - int (length (fst p))) reps)"

definition sanitize_output :: "sandbox_roots \<Rightarrow> string \<Rightarrow> string" where
  "sanitize_output r text = foldl (\<lambda>s (host, virt). py_replace host virt s) text (host_to_virtual r)"

record command_result =
  cr_exit_code :: int
  cr_stdout :: string
  cr_stderr :: string
  cr_cwd :: string

text \<open>
  \<open>execute_command\<close> up to the call of the executor: the normalised working directory, the translated
  command and the host directory it runs in. Then the executor (\<open>run\<close> stands for the subprocess:
  \<open>FileNotFoundError\<close> and its kin are its exceptions) and the answer.
\<close>

definition prepare_command ::
    "(host_path \<Rightarrow> host_path) \<Rightarrow> sandbox_roots \<Rightarrow> string list \<Rightarrow> string option
     \<Rightarrow> (norm_path \<times> string list \<times> host_path) result" where
  "prepare_command resolve r command cwd =
     bindR (normalize_input_path (or_default cwd ''/workspace'')) (\<lambda>n.
     bindR (resolve_host_path resolve r n) (\<lambda>p.
     bindR (if np_zone n = ZONE_WORKSPACE then ensure_allowed_root resolve (sr_allowed_roots r) p else Inr p)
       (\<lambda>host_cwd.
     bindR (translate_arguments resolve r n command) (\<lambda>translated. Inr (n, translated, host_cwd)))))"

definition executor_execute ::
    "(string list \<Rightarrow> host_path \<Rightarrow> command_result result) \<Rightarrow> string list \<Rightarrow> host_path \<Rightarrow> command_result result" where
  "executor_execute run command cwd =
     (if command = [] \<or> [] \<in> set command
      then Inl (ValueError ''sandbox command must be a non-empty list of strings'') else run command cwd)"

definition command_answer :: "sandbox_roots \<Rightarrow> norm_path \<Rightarrow> command_result \<Rightarrow> command_result" where
  "command_answer r n res =
     \<lparr>cr_exit_code = cr_exit_code res, cr_stdout = sanitize_output r (cr_stdout res),
      cr_stderr = sanitize_output r (cr_stderr res), cr_cwd = logical_path n\<rparr>"

definition execute_command ::
    "(host_path \<Rightarrow> host_path) \<Rightarrow> (string list \<Rightarrow> host_path \<Rightarrow> command_result result) \<Rightarrow> sandbox_roots
     \<Rightarrow> string list \<Rightarrow> string option \<Rightarrow> command_result result" where
  "execute_command resolve run r command cwd =
     bindR (prepare_command resolve r command cwd) (\<lambda>(n, translated, host_cwd).
     bindR (executor_execute run translated host_cwd) (\<lambda>res. Inr (command_answer r n res)))"

text \<open>
  \<open>list_files\<close> on the files of the host: the file itself, or every file below the directory in the order of
  their paths, named below the normalised root.
\<close>

definition listed_name :: "norm_path \<Rightarrow> string list \<Rightarrow> string" where
  "listed_name n relative =
     (let base = rev (dropWhile (\<lambda>c. c = CHR ''/'') (rev (logical_path n))); suffix = join_with ''/'' relative
      in if suffix = [] then base else base @ ''/'' @ suffix)"

definition list_files ::
    "(host_path \<Rightarrow> host_path) \<Rightarrow> sandbox_roots \<Rightarrow> host_path list \<Rightarrow> string \<Rightarrow> string list result" where
  "list_files resolve r files root =
     bindR (normalize_input_path root) (\<lambda>n.
     bindR (resolve_host_path resolve r n) (\<lambda>p.
       if p \<in> set files then Inr [logical_path n]
       else Inr (map (\<lambda>f. listed_name n (drop (length p) f))
         (sort (filter (\<lambda>f. strict_prefix p f) (remdups files))))))"

text \<open>\<open>_default_persistence_class\<close>.\<close>

fun default_persistence_class :: "zone \<Rightarrow> string" where
  "default_persistence_class ZONE_MEMORY = ''project''"
| "default_persistence_class ZONE_SCRATCH = ''ephemeral''"
| "default_persistence_class ZONE_WORKSPACE = ''run''"

text \<open>\<open>materialize_artifact_path\<close>; \<open>is_file\<close> is the host's answer.\<close>

definition materialize_artifact_path ::
    "(host_path \<Rightarrow> host_path) \<Rightarrow> (host_path \<Rightarrow> bool) \<Rightarrow> (string \<times> string \<Rightarrow> sandbox_roots option)
     \<Rightarrow> string \<Rightarrow> string \<Rightarrow> string \<Rightarrow> (string \<times> host_path \<times> string) result" where
  "materialize_artifact_path resolve is_file roots_by_run task_id run_id sandbox_path =
     (case roots_by_run (task_id, run_id) of
        None \<Rightarrow> Inl (KeyError (''unknown sandbox roots for task/run: '' @ task_id @ ''/'' @ run_id))
      | Some roots \<Rightarrow>
          bindR (normalize_input_path sandbox_path) (\<lambda>n.
          bindR (resolve_host_path resolve roots n) (\<lambda>p.
            if \<not> is_file p then Inl (ValueError (''artifact path is not a file: '' @ logical_path n))
            else Inr (logical_path n, p, default_persistence_class (np_zone n)))))"

section \<open>Workspace roots never overlap\<close>

lemma roots_overlap_sym: "roots_overlap a b \<longleftrightarrow> roots_overlap b a"
  by (auto simp: roots_overlap_def)

lemma check_overlaps_Inr:
  "check_overlaps acc cs = Inr rs \<Longrightarrow> sorted_wrt (\<lambda>a b. \<not> roots_overlap a b) acc \<Longrightarrow>
   rs = acc @ cs \<and> sorted_wrt (\<lambda>a b. \<not> roots_overlap a b) rs"
  by (induction acc cs rule: check_overlaps.induct)
    (auto simp: sorted_wrt_append list_ex_iff roots_overlap_sym split: if_splits)

lemma check_overlaps_complete:
  "sorted_wrt (\<lambda>a b. \<not> roots_overlap a b) (acc @ cs) \<Longrightarrow> check_overlaps acc cs = Inr (acc @ cs)"
  by (induction acc cs rule: check_overlaps.induct)
    (auto simp: sorted_wrt_append list_ex_iff roots_overlap_sym)

lemma normalize_workspace_roots_Inr:
  assumes "normalize_workspace_roots roots = Inr ps"
  shows "sorted_wrt (\<lambda>a b. \<not> roots_overlap a b) ps" and "ps \<noteq> []" and "length ps = length roots"
    and "\<exists>rs. mapR normalize_workspace_virtual_root roots = Inr rs \<and> ps = map pure_path rs"
proof -
  obtain rs where rs: "mapR normalize_workspace_virtual_root roots = Inr rs" "roots \<noteq> []"
      "check_overlaps [] (map pure_path rs) = Inr ps"
    using assms by (auto simp: normalize_workspace_roots_def bindR_Inr_iff split: if_splits)
  from check_overlaps_Inr[OF rs(3)] rs mapR_Inr_length[OF rs(1)]
  show "sorted_wrt (\<lambda>a b. \<not> roots_overlap a b) ps" and "ps \<noteq> []" and "length ps = length roots"
    and "\<exists>rs. mapR normalize_workspace_virtual_root roots = Inr rs \<and> ps = map pure_path rs"
    by auto
qed

lemma virtual_root_workspace:
  assumes "normalize_workspace_virtual_root v = Inr r"
  shows "\<exists>rel. pure_path r = \<lparr>pp_root = ''/'', pp_parts = ''workspace'' # rel\<rparr> \<and> ''..'' \<notin> set rel"
proof -
  obtain n where n: "normalize_sandbox_path v = Inr n" "np_zone n = ZONE_WORKSPACE" "r = logical_path n"
    using assms by (auto simp: normalize_workspace_virtual_root_def bindR_Inr_iff split: if_splits)
  then show ?thesis
    using pure_path_logical[OF normalize_ok[OF n(1)]] normalize_Inr(2)[OF n(1)] by auto
qed

lemma create_roots_Inr:
  assumes "create_roots resolve m t r roots = Inr sr"
  shows "sr_allowed_roots sr \<noteq> []" and "sr_workspace_root sr = hd (sr_allowed_roots sr)"
    and "\<forall>p \<in> set (sr_allowed_roots sr). prefix (resolve (wm_governed_root m)) p"
    and "length (sr_allowed_roots sr) = length (sr_allowed_virtual_roots sr)"
    and "normalize_workspace_roots roots = Inr (sr_allowed_virtual_roots sr)"
proof -
  obtain vs hs where v: "normalize_workspace_roots roots = Inr vs"
      and h: "mapR (governed_host_root resolve m) vs = Inr hs"
      and sr: "sr_workspace_root sr = hd hs" "sr_allowed_roots sr = hs" "sr_allowed_virtual_roots sr = vs"
    using assms by (auto simp: create_roots_def bindR_Inr_iff)
  note len = mapR_Inr_length[OF h]
  have within: "prefix (resolve (wm_governed_root m)) p" if "p \<in> set hs" for p
    using mapR_Inr_set[OF h that] by (auto simp: governed_host_root_def ensure_within_root_Inr split: option.splits)
  show "sr_allowed_roots sr \<noteq> []" using len normalize_workspace_roots_Inr(2)[OF v] sr by auto
  show "sr_workspace_root sr = hd (sr_allowed_roots sr)" using sr by simp
  show "\<forall>p \<in> set (sr_allowed_roots sr). prefix (resolve (wm_governed_root m)) p" using within sr by simp
  show "length (sr_allowed_roots sr) = length (sr_allowed_virtual_roots sr)" using len sr by simp
  show "normalize_workspace_roots roots = Inr (sr_allowed_virtual_roots sr)" using v sr by simp
qed

section \<open>Input paths: one kind of rejection, and containment\<close>

lemma normalize_sandbox_path_Inl:
  "normalize_sandbox_path p = Inl e \<Longrightarrow> \<exists>m. e = ValueError m"
  by (auto simp: normalize_sandbox_path_def Let_def split: if_splits option.splits)

lemma normalize_sandbox_path_strip [simp]:
  "normalize_sandbox_path (py_strip p) = normalize_sandbox_path p"
  by (simp add: normalize_sandbox_path_def)

lemma normalize_input_path_Inr:
  "normalize_input_path p = Inr n \<longleftrightarrow>
   normalize_sandbox_path p = Inr n \<and> \<not> looks_like_host_path (py_strip p)"
proof -
  have "py_strip p = [] \<Longrightarrow> normalize_sandbox_path p \<noteq> Inr n"
    by (simp add: normalize_sandbox_path_def)
  then show ?thesis
    by (auto simp: normalize_input_path_def Let_def split: sum.splits exn.splits)
qed

lemma normalize_input_path_Inl:
  "normalize_input_path p = Inl e \<Longrightarrow> \<exists>m. e = path_rejection m (py_strip p)"
  by (auto simp: normalize_input_path_def Let_def split: if_splits sum.splits exn.splits
      dest: normalize_sandbox_path_Inl)

lemma sandbox_resolve_within:
  assumes "sandbox_resolve resolve r path = Inr p"
  shows "\<exists>n. normalize_sandbox_path path = Inr n \<and> p = resolve (zone_root r (np_zone n) @ np_relative n) \<and>
    prefix (resolve (zone_root r (np_zone n))) p"
  using assms
  by (auto simp: sandbox_resolve_def bindR_Inr_iff normalize_input_path_Inr resolve_host_path_def
      ensure_within_root_Inr Let_def)

lemma ensure_allowed_root_Inr:
  "ensure_allowed_root resolve roots c = Inr p \<Longrightarrow>
   p = resolve c \<and> (\<exists>a \<in> set roots. prefix (resolve a) p)"
  by (induction roots) (auto simp: ensure_within_root_def split: if_splits)

section \<open>Properties\<close>

text \<open>
  The host paths a command may name: below one of the run's workspace roots, or below the root of the
  scratch or memory zone. A translated argument is the argument itself when it is not absolute.
\<close>

definition host_path_allowed :: "(host_path \<Rightarrow> host_path) \<Rightarrow> sandbox_roots \<Rightarrow> norm_path \<Rightarrow> host_path \<Rightarrow> bool" where
  "host_path_allowed resolve r n p \<longleftrightarrow>
     (if np_zone n = ZONE_WORKSPACE then \<exists>a \<in> set (sr_allowed_roots r). prefix (resolve a) p
      else prefix (resolve (zone_root r (np_zone n))) p)"

definition argument_translated ::
    "(host_path \<Rightarrow> host_path) \<Rightarrow> sandbox_roots \<Rightarrow> host_path \<Rightarrow> string \<Rightarrow> string \<Rightarrow> bool" where
  "argument_translated resolve r root raw arg \<longleftrightarrow>
     (if \<not> startswith raw ''/'' then arg = raw
      else if raw = ''/'' then arg = host_str root
      else \<exists>n p. normalize_sandbox_path raw = Inr n \<and> arg = host_str p \<and> host_path_allowed resolve r n p)"

lemma checked_root_allowed:
  "resolve_host_path resolve r n = Inr p \<Longrightarrow>
   (if np_zone n = ZONE_WORKSPACE then ensure_allowed_root resolve (sr_allowed_roots r) p else Inr p) = Inr q \<Longrightarrow>
   host_path_allowed resolve r n q"
  by (auto simp: host_path_allowed_def resolve_host_path_def ensure_within_root_Inr Let_def
      dest: ensure_allowed_root_Inr split: if_splits)

lemma translate_argument_sound:
  assumes "translate_argument resolve r root raw = Inr arg"
  shows "argument_translated resolve r root raw arg"
proof (cases "raw = ''/'' \<or> \<not> startswith raw ''/''")
  case True
  then show ?thesis using assms by (auto simp: translate_argument_def argument_translated_def)
next
  case False
  then have "bindR (normalize_sandbox_path raw) (\<lambda>n. bindR (resolve_host_path resolve r n) (\<lambda>p.
      bindR (if np_zone n = ZONE_WORKSPACE then ensure_allowed_root resolve (sr_allowed_roots r) p
             else Inr p) (\<lambda>q. Inr (host_str q)))) = Inr arg"
    using assms by (simp add: translate_argument_def split: if_splits)
  then obtain n p q where "normalize_sandbox_path raw = Inr n" "resolve_host_path resolve r n = Inr p"
      "(if np_zone n = ZONE_WORKSPACE then ensure_allowed_root resolve (sr_allowed_roots r) p else Inr p) = Inr q"
      "arg = host_str q"
    unfolding bindR_Inr_iff by blast
  then have "host_path_allowed resolve r n q" using checked_root_allowed by blast
  then show ?thesis
    using False \<open>normalize_sandbox_path raw = Inr n\<close> \<open>arg = host_str q\<close> by (auto simp: argument_translated_def)
qed

definition sample_manager :: manager where
  "sample_manager = \<lparr>wm_runtime_root = [''rt''], wm_governed_root = [''proj''], wm_virtual_root = pure_path ''/workspace''\<rparr>"

definition sample_roots :: sandbox_roots where
  "sample_roots = \<lparr>sr_workspace_root = [''proj'', ''a''], sr_scratch_root = [''rt'', ''scratch'', ''t'', ''r''],
     sr_memory_root = [''rt'', ''memory'', ''t''], sr_allowed_roots = [[''proj'', ''a''], [''proj'', ''b'']],
     sr_virtual_root = pure_path ''/workspace'',
     sr_allowed_virtual_roots = [pure_path ''/workspace/a'', pure_path ''/workspace/b'']\<rparr>"

lemma sample_roots_created:
  "create_roots (\<lambda>p. p) sample_manager ''t'' ''r'' [''/workspace/a'', ''/workspace/b''] = Inr sample_roots"
  by code_simp

text \<open>
  The workspace roots of a run never overlap as virtual paths, there is a host root for each of them, and
  every host root is below the governed root of the project.
\<close>

theorem created_roots_sound:
  assumes "create_roots resolve m t r roots = Inr sr"
  shows "sorted_wrt (\<lambda>a b. \<not> roots_overlap a b) (sr_allowed_virtual_roots sr) \<and>
    length (sr_allowed_roots sr) = length roots \<and> sr_workspace_root sr = hd (sr_allowed_roots sr) \<and>
    sr_allowed_roots sr \<noteq> [] \<and>
    (\<forall>p \<in> set (sr_allowed_roots sr). prefix (resolve (wm_governed_root m)) p)"
  using create_roots_Inr[OF assms] normalize_workspace_roots_Inr(1,3)[of roots] by simp

theorem created_roots_sound_witness:
  "sorted_wrt (\<lambda>a b. \<not> roots_overlap a b) (sr_allowed_virtual_roots sample_roots)"
  using created_roots_sound[OF sample_roots_created] by blast

text \<open>
  C35. What \<open>execute_command\<close> hands to the executor is contained: the working directory lies below a root of
  the run, the program name is unchanged, and every absolute argument was translated to a host path below a root
  of the zone it names.
\<close>

theorem prepared_command_contained:
  assumes "prepare_command resolve r command cwd = Inr (n, translated, host_cwd)"
  shows "host_path_allowed resolve r n host_cwd \<and>
    (\<exists>root. zone_root_path resolve r n = Inr root \<and>
      (case command of [] \<Rightarrow> translated = []
       | c # args \<Rightarrow> \<exists>args'. translated = c # args' \<and> list_all2 (argument_translated resolve r root) args args'))"
proof -
  obtain p where p: "resolve_host_path resolve r n = Inr p"
      and h: "(if np_zone n = ZONE_WORKSPACE then ensure_allowed_root resolve (sr_allowed_roots r) p else Inr p) = Inr host_cwd"
      and t: "translate_arguments resolve r n command = Inr translated"
    using assms by (auto simp: prepare_command_def bindR_Inr_iff)
  have args: "list_all2 (argument_translated resolve r root) args args'"
    if "mapR (translate_argument resolve r root) args = Inr args'" for root args args'
    using mapR_nth[OF that] mapR_Inr_length[OF that] translate_argument_sound by (simp add: list_all2_conv_all_nth)
  show ?thesis
    using checked_root_allowed[OF p h] t args
    by (cases command) (auto simp: translate_arguments_def bindR_Inr_iff)
qed

theorem prepared_command_contained_witness:
  "host_path_allowed (\<lambda>p. p) sample_roots \<lparr>np_zone = ZONE_WORKSPACE, np_relative = []\<rparr> [''proj'', ''a'']"
proof -
  have "prepare_command (\<lambda>p. p) sample_roots [''cat'', ''/workspace/x'', ''-n''] None =
    Inr (\<lparr>np_zone = ZONE_WORKSPACE, np_relative = []\<rparr>, [''cat'', ''/proj/a/x'', ''-n''], [''proj'', ''a''])"
    by code_simp
  then show ?thesis using prepared_command_contained by blast
qed

text \<open>
  The path the sandbox normalises to is a normal form: normalising it again changes nothing, it denotes the
  same zone and components, and none of them is \<open>..\<close>. The hypothesis excludes a path that ends in a blank.
\<close>

theorem sandbox_path_normal_form:
  assumes "sandbox_normalize path = Inr q" and "py_strip q = q"
  shows "sandbox_normalize q = Inr q \<and> (\<exists>n. normalize_sandbox_path q = Inr n \<and> normalize_sandbox_path path = Inr n \<and>
    q = logical_path n \<and> ''..'' \<notin> set (np_relative n))"
proof -
  obtain n where n: "normalize_sandbox_path path = Inr n" "q = logical_path n"
    using assms(1) by (auto simp: sandbox_normalize_def bindR_Inr_iff normalize_input_path_Inr)
  have q: "normalize_sandbox_path q = Inr n"
    using normalize_logical[OF normalize_ok[OF n(1)]] assms(2) n(2) by simp
  moreover have "\<not> looks_like_host_path q"
    unfolding n(2) looks_like_host_path_def logical_path_def mount_posix_def by (cases "np_zone n") auto
  ultimately have "sandbox_normalize q = Inr q"
    using assms(2) n(2) by (simp add: sandbox_normalize_def normalize_input_path_Inr bindR_Inr_iff)
  then show ?thesis using q n normalize_ok[OF n(1)] by (auto simp: norm_path_ok_def)
qed

theorem sandbox_path_normal_form_witness:
  "sandbox_normalize ''/workspace/a'' = Inr ''/workspace/a''"
proof -
  have "sandbox_normalize '' /workspace/./a/'' = Inr ''/workspace/a''" by code_simp
  moreover have "py_strip ''/workspace/a'' = ''/workspace/a''" by code_simp
  ultimately show ?thesis using sandbox_path_normal_form by blast
qed

text \<open>
  Without that hypothesis it fails: the blank before a trailing slash becomes the end of the path, and is
  stripped the next time. The policy is asked about the first form, the file is written under the second.
\<close>

theorem sandbox_path_blank_component:
  "sandbox_normalize ''/workspace/a /'' = Inr ''/workspace/a '' \<and>
   sandbox_normalize ''/workspace/a '' = Inr ''/workspace/a''"
  by code_simp

end
