(* ===== verification/Db_Tables.thy ===== *)
theory Db_Tables
  imports Task_Model
begin

text \<open>
  The tables of the metadata database. A table is the list of its rows in \<open>rowid\<close> order, each row with
  its primary key. The stores use three ways to write a row:
  \<^item> \<open>INSERT\<close>, which raises \<open>IntegrityError\<close> on a duplicate key,
  \<^item> \<open>INSERT ... ON CONFLICT(key) DO UPDATE\<close>, which changes the row in place,
  \<^item> \<open>INSERT OR REPLACE\<close>, which deletes the old row and appends the new one with a new \<open>rowid\<close>.

  The locale \<open>upsert_store\<close> is the contract the clients of the stores with \<open>ON CONFLICT\<close> rely on; every
  such store interprets it on its own operations.
\<close>

type_synonym ('k, 'v) table = "('k \<times> 'v) list"

definition tbl_insert :: "string \<Rightarrow> 'k \<Rightarrow> 'v \<Rightarrow> ('k, 'v) table \<Rightarrow> ('k, 'v) table result" where
  "tbl_insert msg k v t = (if k \<in> fst ` set t then Inl (IntegrityError msg) else Inr (t @ [(k, v)]))"

definition tbl_upsert :: "'k \<Rightarrow> 'v \<Rightarrow> ('k, 'v) table \<Rightarrow> ('k, 'v) table" where
  "tbl_upsert k v t = AList.update k v t"

definition tbl_replace :: "'k \<Rightarrow> 'v \<Rightarrow> ('k, 'v) table \<Rightarrow> ('k, 'v) table" where
  "tbl_replace k v t = filter (\<lambda>r. fst r \<noteq> k) t @ [(k, v)]"

definition tbl_get :: "('k, 'v) table \<Rightarrow> 'k \<Rightarrow> 'v option" where
  "tbl_get t k = map_of t k"

definition tbl_delete :: "'k \<Rightarrow> ('k, 'v) table \<Rightarrow> ('k, 'v) table" where
  "tbl_delete k t = filter (\<lambda>r. fst r \<noteq> k) t"

text \<open>What the primary key guarantees.\<close>

definition tbl_ok :: "('k, 'v) table \<Rightarrow> bool" where
  "tbl_ok t \<longleftrightarrow> distinct (map fst t)"

lemma tbl_ok_Nil [simp, intro]: "tbl_ok []"
  by (simp add: tbl_ok_def)

lemma tbl_insert_Inr:
  "tbl_insert msg k v t = Inr t' \<longleftrightarrow> k \<notin> fst ` set t \<and> t' = t @ [(k, v)]"
  by (auto simp: tbl_insert_def)

lemma map_of_snoc: "k \<notin> fst ` set t \<Longrightarrow> map_of (t @ [(k, v)]) k' = (if k' = k then Some v else map_of t k')"
  by (induction t) auto

lemma tbl_get_insert [table_laws]:
  "tbl_insert msg k v t = Inr t' \<Longrightarrow> tbl_get t' k' = (if k' = k then Some v else tbl_get t k')"
  by (auto simp: tbl_insert_Inr tbl_get_def map_of_snoc simp del: map_of_append)

lemma tbl_get_upsert [simp, table_laws]:
  "tbl_get (tbl_upsert k v t) k' = (if k' = k then Some v else tbl_get t k')"
  by (simp add: tbl_get_def tbl_upsert_def update_conv')

lemma map_of_filter_neq: "map_of (filter (\<lambda>r. fst r \<noteq> k) t) k' = (if k' = k then None else map_of t k')"
  by (induction t) auto

lemma tbl_get_replace [simp, table_laws]:
  "tbl_get (tbl_replace k v t) k' = (if k' = k then Some v else tbl_get t k')"
  by (simp add: tbl_get_def tbl_replace_def map_add_def map_of_filter_neq split: option.splits)

lemma tbl_get_delete [simp, table_laws]:
  "tbl_get (tbl_delete k t) k' = (if k' = k then None else tbl_get t k')"
  by (simp add: tbl_get_def tbl_delete_def map_of_filter_neq)

lemma tbl_ok_insert: "tbl_insert msg k v t = Inr t' \<Longrightarrow> tbl_ok t \<Longrightarrow> tbl_ok t'"
  by (auto simp: tbl_insert_Inr tbl_ok_def)

lemma tbl_ok_upsert [simp, intro]: "tbl_ok t \<Longrightarrow> tbl_ok (tbl_upsert k v t)"
  by (simp add: tbl_ok_def tbl_upsert_def distinct_update)

lemma tbl_ok_replace [simp, intro]: "tbl_ok t \<Longrightarrow> tbl_ok (tbl_replace k v t)"
  by (auto simp: tbl_ok_def tbl_replace_def distinct_map inj_on_def)

lemma tbl_ok_delete [simp, intro]: "tbl_ok t \<Longrightarrow> tbl_ok (tbl_delete k t)"
  by (auto simp: tbl_ok_def tbl_delete_def distinct_map inj_on_def)

lemma tbl_replace_fresh: "k \<notin> fst ` set t \<Longrightarrow> tbl_replace k v t = t @ [(k, v)]"
  by (force simp: tbl_replace_def filter_id_conv)

lemma tbl_get_None: "tbl_get t k = None \<longleftrightarrow> k \<notin> fst ` set t"
  by (simp add: tbl_get_def map_of_eq_None_iff)

lemma tbl_get_SomeD: "tbl_get t k = Some v \<Longrightarrow> (k, v) \<in> set t"
  by (simp add: tbl_get_def map_of_SomeD)

lemma tbl_get_in: "tbl_ok t \<Longrightarrow> (k, v) \<in> set t \<Longrightarrow> tbl_get t k = Some v"
  by (simp add: tbl_ok_def tbl_get_def)

lemma set_tbl_upsert: "set (tbl_upsert k v t) \<subseteq> insert (k, v) (set t)"
  by (induction t) (auto simp: tbl_upsert_def)

section \<open>The contract of a store with \<open>ON CONFLICT DO UPDATE\<close>\<close>

locale upsert_store =
  fixes put :: "'k \<Rightarrow> 'v \<Rightarrow> 's \<Rightarrow> 's"
    and get :: "'s \<Rightarrow> 'k \<Rightarrow> 'v option"
    and fuse :: "'v \<Rightarrow> 'v \<Rightarrow> 'v"
  assumes get_put: "get (put k v s) k' =
      (if k' = k then Some (case get s k of None \<Rightarrow> v | Some old \<Rightarrow> fuse old v) else get s k')"
begin

text \<open>
  \<open>fuse old new\<close> is the row after a conflict: \<open>new\<close> where every column is written, the old value of
  the columns the \<open>UPDATE\<close> leaves alone otherwise.
\<close>

lemma get_put_other: "k' \<noteq> k \<Longrightarrow> get (put k v s) k' = get s k'"
  by (simp add: get_put)

lemma get_put_defined: "get s k' \<noteq> None \<Longrightarrow> get (put k v s) k' \<noteq> None"
  by (simp add: get_put)

lemma get_put_same_defined: "get (put k v s) k \<noteq> None"
  by (simp add: get_put)

lemma put_put_get:
  "(\<And>a b c. fuse (fuse a b) c = fuse a c) \<Longrightarrow> (\<And>b c. fuse b c = c) \<Longrightarrow>
   get (put k v' (put k v s)) k' = get (put k v' s) k'"
  by (simp add: get_put split: option.splits)

lemma put_commute_get:
  "k1 \<noteq> k2 \<Longrightarrow> get (put k1 v1 (put k2 v2 s)) k = get (put k2 v2 (put k1 v1 s)) k"
  by (simp add: get_put)

text \<open>After a sequence of writes a key is present exactly if it was before or was written.\<close>

lemma get_fold_put_defined:
  "get (fold (\<lambda>kv. put (fst kv) (snd kv)) kvs s) k \<noteq> None \<longleftrightarrow>
   get s k \<noteq> None \<or> k \<in> fst ` set kvs"
  by (induction kvs arbitrary: s) (auto simp: get_put split: if_splits)

lemma get_fold_put_other:
  "k \<notin> fst ` set kvs \<Longrightarrow> get (fold (\<lambda>kv. put (fst kv) (snd kv)) kvs s) k = get s k"
  by (induction kvs arbitrary: s) (auto simp: get_put)

end

text \<open>The plain table is one such store.\<close>

interpretation plain: upsert_store tbl_upsert tbl_get "\<lambda>old new. new"
  by unfold_locales (simp split: option.splits)

end
