(* ===== verification/Protocol_Events.thy ===== *)
theory Protocol_Events
  imports Db_Tables
begin

text \<open>
  The event part of \<open>packages/protocol/local_agent_protocol/models.py\<close>: event sources, the event
  envelope and the runtime event the bus carries, and \<open>_strip_none\<close>.
\<close>

definition strip_none :: "pydict \<Rightarrow> pydict" where
  "strip_none d = filter (\<lambda>kv. snd kv \<noteq> PNone) d"

lemma dict_get_strip_none [simp]: "dict_get (strip_none d) k = dict_get d k" if "distinct (map fst d)"
  using that
proof (induction d)
  case (Cons kv d)
  have "k \<notin> fst ` set d \<Longrightarrow> dict_get (strip_none d) k = PNone"
    by (force simp: dict_get_def strip_none_def map_of_eq_None_iff split: option.splits dest: map_of_SomeD)
  with Cons show ?case by (cases kv) (auto simp: strip_none_def)
qed (simp add: strip_none_def)

datatype source_kind = SRC_RUNTIME | SRC_SUBAGENT | SRC_TOOL | SRC_SANDBOX | SRC_MEMORY | SRC_POLICY

fun source_kind_value :: "source_kind \<Rightarrow> string" where
  "source_kind_value SRC_RUNTIME = ''runtime''"
| "source_kind_value SRC_SUBAGENT = ''subagent''"
| "source_kind_value SRC_TOOL = ''tool''"
| "source_kind_value SRC_SANDBOX = ''sandbox''"
| "source_kind_value SRC_MEMORY = ''memory''"
| "source_kind_value SRC_POLICY = ''policy''"

definition source_kind_of :: "string \<Rightarrow> source_kind result" where
  "source_kind_of s = (case find (\<lambda>k. source_kind_value k = s)
     [SRC_RUNTIME, SRC_SUBAGENT, SRC_TOOL, SRC_SANDBOX, SRC_MEMORY, SRC_POLICY] of
     Some k \<Rightarrow> Inr k | None \<Rightarrow> Inl (ValueError (repr_str s @ '' is not a valid EventSourceKind'')))"

lemma source_kind_of_value [simp]: "source_kind_of (source_kind_value k) = Inr k"
  by (cases k) (simp_all add: source_kind_of_def)

record event_source =
  es_kind :: source_kind
  es_name :: "string option"
  es_role :: "string option"
  es_component :: "string option"

definition source_to_dict :: "event_source \<Rightarrow> pydict" where
  "source_to_dict s = [(''kind'', PStr (source_kind_value (es_kind s)))]
     @ (case es_name s of None \<Rightarrow> [] | Some v \<Rightarrow> [(''name'', PStr v)])
     @ (case es_role s of None \<Rightarrow> [] | Some v \<Rightarrow> [(''role'', PStr v)])
     @ (case es_component s of None \<Rightarrow> [] | Some v \<Rightarrow> [(''component'', PStr v)])"

lemma dict_get_source [simp]:
  "dict_get (source_to_dict s) ''kind'' = PStr (source_kind_value (es_kind s))"
  "dict_get (source_to_dict s) ''name'' = opt_str (es_name s)"
  "dict_get (source_to_dict s) ''role'' = opt_str (es_role s)"
  "dict_get (source_to_dict s) ''component'' = opt_str (es_component s)"
  by (auto simp: source_to_dict_def split: option.splits)

lemma distinct_source_to_dict [simp]: "distinct (map fst (source_to_dict s))"
  by (auto simp: source_to_dict_def split: option.splits)

record event_envelope =
  ev_id :: string
  ev_type :: string
  ev_timestamp :: string
  ev_correlation_id :: "string option"
  ev_task_id :: "string option"
  ev_run_id :: "string option"
  ev_source :: event_source
  ev_payload :: pydict

definition envelope_to_dict :: "event_envelope \<Rightarrow> pydict" where
  "envelope_to_dict e =
     [(''event_id'', PStr (ev_id e)), (''event_type'', PStr (ev_type e)),
      (''timestamp'', PStr (ev_timestamp e)), (''correlation_id'', opt_str (ev_correlation_id e)),
      (''task_id'', opt_str (ev_task_id e)), (''run_id'', opt_str (ev_run_id e)),
      (''source'', PDict (source_to_dict (ev_source e))), (''payload'', PDict (ev_payload e))]"

record runtime_event =
  re_event :: event_envelope
  re_type :: string
  re_version :: string

definition mk_runtime_event :: "event_envelope \<Rightarrow> runtime_event" where
  "mk_runtime_event e = \<lparr>re_event = e, re_type = ''runtime.event'', re_version = ''1.0.0''\<rparr>"

definition runtime_event_to_dict :: "runtime_event \<Rightarrow> pydict" where
  "runtime_event_to_dict r =
     [(''type'', PStr (re_type r)), (''protocol_version'', PStr (re_version r)),
      (''event'', PDict (envelope_to_dict (re_event r)))]"

text \<open>The run an event belongs to, when it names one.\<close>

definition event_key :: "event_envelope \<Rightarrow> (string \<times> string) option" where
  "event_key e = (case (ev_task_id e, ev_run_id e) of (Some t, Some r) \<Rightarrow> Some (t, r) | _ \<Rightarrow> None)"

end
