(* ===== verification/Run_State_Store.thy ===== *)
theory Run_State_Store
  imports Task_Model
begin

text \<open>
  \<open>apps/runtime/local_agent_runtime/run_state_store.py\<close>. \<open>_states\<close> is a dict keyed by task and run,
  \<open>_runs_by_task\<close> a dict of lists; both are association lists in insertion order. The lock makes each
  operation atomic, so an operation is a function of the store. A caller's \<open>**changes\<close> is a function on
  the run state.

  The locale \<open>run_store\<close> is the protocol \<open>RunStateStore\<close> as its clients use it.
\<close>

type_synonym run_key = "string \<times> string"

record run_store_state =
  ss_states :: "(run_key \<times> run_state) list"
  ss_runs_by_task :: "(string \<times> string list) list"

definition empty_run_store :: run_store_state where
  "empty_run_store = \<lparr>ss_states = [], ss_runs_by_task = []\<rparr>"

definition rs_key :: "run_state \<Rightarrow> run_key" where
  "rs_key s = (rs_task_id s, rs_run_id s)"

definition store_create :: "run_state \<Rightarrow> run_store_state \<Rightarrow> run_store_state" where
  "store_create s st =
     (let runs = (case map_of (ss_runs_by_task st) (rs_task_id s) of None \<Rightarrow> [] | Some r \<Rightarrow> r) in
      st\<lparr>ss_states := AList.update (rs_key s) s (ss_states st),
         ss_runs_by_task := AList.update (rs_task_id s) (runs @ [rs_run_id s]) (ss_runs_by_task st)\<rparr>)"

definition latest_run_id :: "run_store_state \<Rightarrow> string \<Rightarrow> string result" where
  "latest_run_id st task = (case map_of (ss_runs_by_task st) task of
     None \<Rightarrow> Inl (KeyError (''unknown task: '' @ task))
   | Some runs \<Rightarrow> if runs = [] then Inl (KeyError (''unknown task: '' @ task)) else Inr (last runs))"

definition store_get :: "run_store_state \<Rightarrow> string \<Rightarrow> string option \<Rightarrow> run_state result" where
  "store_get st task run =
     bindR (case run of Some r \<Rightarrow> if r \<noteq> [] then Inr r else latest_run_id st task
                      | None \<Rightarrow> latest_run_id st task)
       (\<lambda>resolved. case map_of (ss_states st) (task, resolved) of
          None \<Rightarrow> Inl (KeyError (''unknown task/run: '' @ task @ ''/'' @ resolved))
        | Some s \<Rightarrow> Inr s)"

definition store_update ::
    "run_store_state \<Rightarrow> string \<Rightarrow> string \<Rightarrow> (run_state \<Rightarrow> run_state) \<Rightarrow> (run_state \<times> run_store_state) result" where
  "store_update st task run changes =
     bindR (store_get st task (Some run)) (\<lambda>s.
       (let updated = changes s in
        Inr (updated, st\<lparr>ss_states := AList.update (task, run) updated (ss_states st)\<rparr>)))"

definition recent_key :: "run_state \<Rightarrow> string \<times> string \<times> string" where
  "recent_key s = ((case rs_last_event_at s of None \<Rightarrow> rs_updated_at s
                     | Some t \<Rightarrow> if t = [] then rs_updated_at s else t), rs_updated_at s, rs_created_at s)"

definition list_recent :: "run_store_state \<Rightarrow> int \<Rightarrow> run_state list" where
  "list_recent st limit = py_take limit (py_sort_desc recent_key (rev (map snd (ss_states st))))"

section \<open>Well-formed stores\<close>

text \<open>A state sits under its own key, run ids are not empty, and the two dicts name the same runs.\<close>

definition store_ok :: "run_store_state \<Rightarrow> bool" where
  "store_ok st \<longleftrightarrow> distinct (map fst (ss_states st)) \<and>
     (\<forall>(k, s) \<in> set (ss_states st). rs_key s = k \<and> rs_run_id s \<noteq> []) \<and>
     (\<forall>task runs. map_of (ss_runs_by_task st) task = Some runs \<longrightarrow>
        runs \<noteq> [] \<and> (\<forall>r \<in> set runs. map_of (ss_states st) (task, r) \<noteq> None)) \<and>
     (\<forall>task r. map_of (ss_states st) (task, r) \<noteq> None \<longrightarrow>
        (\<exists>runs. map_of (ss_runs_by_task st) task = Some runs \<and> r \<in> set runs))"

definition store_lookup :: "run_store_state \<Rightarrow> run_key \<Rightarrow> run_state option" where
  "store_lookup st k = map_of (ss_states st) k"

lemma store_ok_empty [simp]: "store_ok empty_run_store"
  by (simp add: store_ok_def empty_run_store_def)

lemma store_ok_lookup:
  "store_ok st \<Longrightarrow> store_lookup st k = Some s \<Longrightarrow> rs_key s = k \<and> rs_run_id s \<noteq> []"
  by (auto simp: store_ok_def store_lookup_def dest!: map_of_SomeD)

lemma store_get_Some:
  "run \<noteq> [] \<Longrightarrow> store_get st task (Some run) = (case store_lookup st (task, run) of
     None \<Rightarrow> Inl (KeyError (''unknown task/run: '' @ task @ ''/'' @ run)) | Some s \<Rightarrow> Inr s)"
  by (simp add: store_get_def store_lookup_def)

lemma store_get_Inr:
  "store_get st task run = Inr s \<Longrightarrow> \<exists>r. store_lookup st (task, r) = Some s \<and>
     (case run of Some x \<Rightarrow> x \<noteq> [] \<longrightarrow> r = x | None \<Rightarrow> True)"
  by (auto simp: store_get_def store_lookup_def bindR_Inr_iff split: option.splits if_splits)

lemma store_get_key:
  "store_ok st \<Longrightarrow> store_get st task run = Inr s \<Longrightarrow>
   rs_task_id s = task \<and> rs_run_id s \<noteq> [] \<and> store_lookup st (rs_key s) = Some s"
  using store_get_Inr[of st task run s] by (auto simp: rs_key_def dest: store_ok_lookup)

lemma store_update_Inr:
  assumes "store_update st task run f = Inr (s', st')" and "run \<noteq> []"
  shows "\<exists>s. store_lookup st (task, run) = Some s \<and> s' = f s \<and>
    ss_runs_by_task st' = ss_runs_by_task st \<and>
    (\<forall>k. store_lookup st' k = (if k = (task, run) then Some (f s) else store_lookup st k))"
  using assms
  by (auto simp: store_update_def bindR_Inr_iff store_get_Some Let_def store_lookup_def update_conv'
      split: option.splits)

lemma store_update_total:
  "store_lookup st (task, run) = Some s \<Longrightarrow> run \<noteq> [] \<Longrightarrow>
   store_update st task run f = Inr (f s, st\<lparr>ss_states := AList.update (task, run) (f s) (ss_states st)\<rparr>)"
  by (simp add: store_update_def store_get_Some Let_def)

lemma store_ok_update:
  assumes ok: "store_ok st" and up: "store_update st task run f = Inr (s', st')" and "run \<noteq> []"
    and keep: "\<And>s. rs_key (f s) = rs_key s"
  shows "store_ok st'"
proof -
  from up \<open>run \<noteq> []\<close> obtain s where s: "store_lookup st (task, run) = Some s"
      and st': "st' = st\<lparr>ss_states := AList.update (task, run) (f s) (ss_states st)\<rparr>"
    by (auto simp: store_update_def bindR_Inr_iff store_get_Some Let_def split: option.splits)
  have key: "rs_key (f s) = (task, run)" "rs_run_id (f s) \<noteq> []"
    using store_ok_lookup[OF ok s] keep[of s] \<open>run \<noteq> []\<close> by (auto simp: rs_key_def)
  have dist: "distinct (map fst (ss_states st'))"
    using ok st' by (simp add: store_ok_def distinct_update)
  have rows: "rs_key x = k \<and> rs_run_id x \<noteq> []" if "(k, x) \<in> set (ss_states st')" for k x
  proof -
    have "map_of (ss_states st') k = Some x" using dist that by simp
    then have "(if k = (task, run) then Some (f s) else map_of (ss_states st) k) = Some x"
      using st' by (simp add: update_conv')
    then show ?thesis using key ok
      by (auto simp: store_ok_def split: if_splits dest!: map_of_SomeD)
  qed
  have some: "map_of (ss_states st') k \<noteq> None \<longleftrightarrow> map_of (ss_states st) k \<noteq> None" for k
    using s st' by (auto simp: update_conv' store_lookup_def)
  have runs: "ss_runs_by_task st' = ss_runs_by_task st" using st' by simp
  show ?thesis using ok dist rows unfolding store_ok_def some runs by blast
qed

lemma lookup_create:
  "store_lookup (store_create s st) k = (if k = rs_key s then Some s else store_lookup st k)"
  by (simp add: store_lookup_def store_create_def Let_def update_conv')

lemma store_ok_create:
  assumes "store_ok st" and "rs_run_id s \<noteq> []"
  shows "store_ok (store_create s st)"
proof -
  let ?st = "store_create s st"
  have dist: "distinct (map fst (ss_states ?st))"
    using assms by (simp add: store_create_def store_ok_def Let_def distinct_update)
  have rows: "rs_key x = k \<and> rs_run_id x \<noteq> []" if "(k, x) \<in> set (ss_states ?st)" for k x
  proof -
    have "store_lookup ?st k = Some x" using dist that by (simp add: store_lookup_def)
    then show ?thesis using assms
      by (auto simp: lookup_create dest: store_ok_lookup split: if_splits)
  qed
  have look: "map_of (ss_states ?st) k = (if k = rs_key s then Some s else map_of (ss_states st) k)" for k
    using lookup_create[of s st k] by (simp add: store_lookup_def)
  have runs: "map_of (ss_runs_by_task ?st) t = (if t = rs_task_id s
      then Some ((case map_of (ss_runs_by_task st) t of None \<Rightarrow> [] | Some r \<Rightarrow> r) @ [rs_run_id s])
      else map_of (ss_runs_by_task st) t)" for t
    by (simp add: store_create_def Let_def update_conv')
  have fwd: "runs \<noteq> [] \<and> (\<forall>r \<in> set runs. map_of (ss_states ?st) (t, r) \<noteq> None)"
    if "map_of (ss_runs_by_task ?st) t = Some runs" for t runs
    using that assms(1)
    by (fastforce simp: runs look rs_key_def store_ok_def split: if_splits option.splits)
  have bwd: "\<exists>runs. map_of (ss_runs_by_task ?st) t = Some runs \<and> r \<in> set runs"
    if "map_of (ss_states ?st) (t, r) \<noteq> None" for t r
  proof (cases "(t, r) = rs_key s")
    case True
    then show ?thesis by (simp add: runs rs_key_def)
  next
    case False
    then have "map_of (ss_states st) (t, r) \<noteq> None" using that by (simp add: look)
    then obtain rr where "map_of (ss_runs_by_task st) t = Some rr" "r \<in> set rr"
      using assms(1) unfolding store_ok_def by blast
    then show ?thesis by (auto simp: runs)
  qed
  show ?thesis using dist rows fwd bwd unfolding store_ok_def by blast
qed

text \<open>\<open>get\<close> without a run id answers with the run created last.\<close>

lemma store_get_latest: "store_get (store_create s st) (rs_task_id s) None = Inr s"
  using lookup_create[of s st "rs_key s"]
  by (simp add: store_get_def latest_run_id_def store_create_def Let_def update_conv' rs_key_def)

section \<open>The most recent runs\<close>

lemma list_recent_sorted: "sorted_wrt (\<lambda>a b. recent_key b \<le> recent_key a) (list_recent st limit)"
  unfolding list_recent_def by (intro sorted_wrt_py_take sorted_py_sort_desc)

lemma list_recent_length: "length (list_recent st (int n)) = min n (length (ss_states st))"
  by (simp add: list_recent_def min.commute)

lemma list_recent_stored:
  assumes "store_ok st" and "s \<in> set (list_recent st limit)"
  shows "store_lookup st (rs_key s) = Some s"
proof -
  have "s \<in> snd ` set (ss_states st)"
    using assms(2) set_py_take[of limit] unfolding list_recent_def by fastforce
  then obtain k where k: "(k, s) \<in> set (ss_states st)" by auto
  then have "rs_key s = k" using assms(1) by (auto simp: store_ok_def)
  then show ?thesis using k assms(1) by (simp add: store_lookup_def store_ok_def)
qed

text \<open>A run the limit leaves out is not more recent than any that is listed.\<close>

lemma list_recent_omitted:
  assumes "(k, s) \<in> set (ss_states st)" and "s \<notin> set (list_recent st (int n))"
    and "r \<in> set (list_recent st (int n))"
  shows "recent_key s \<le> recent_key r"
proof -
  let ?all = "py_sort_desc recent_key (rev (map snd (ss_states st)))"
  have split: "?all = take n ?all @ drop n ?all" by simp
  have "s \<in> set ?all" using assms(1) by force
  then have "s \<in> set (drop n ?all)"
    using assms(2) split by (metis Un_iff list_recent_def py_take_nat set_append)
  moreover have "r \<in> set (take n ?all)" using assms(3) by (simp add: list_recent_def)
  moreover have "sorted_wrt (\<lambda>a b. recent_key b \<le> recent_key a) (take n ?all @ drop n ?all)"
    using sorted_py_sort_desc[of recent_key "rev (map snd (ss_states st))"] by simp
  ultimately show ?thesis by (auto simp: sorted_wrt_append simp del: append_take_drop_id)
qed

section \<open>The protocol \<open>RunStateStore\<close>\<close>

locale run_store =
  fixes look :: "'s \<Rightarrow> run_key \<Rightarrow> run_state option"
    and create :: "run_state \<Rightarrow> 's \<Rightarrow> 's"
    and upd :: "'s \<Rightarrow> string \<Rightarrow> string \<Rightarrow> (run_state \<Rightarrow> run_state) \<Rightarrow> (run_state \<times> 's) result"
    and inv :: "'s \<Rightarrow> bool"
  assumes look_create: "look (create s st) k = (if k = rs_key s then Some s else look st k)"
    and upd_known: "r \<noteq> [] \<Longrightarrow> look st (t, r) = Some s \<Longrightarrow>
      \<exists>st'. upd st t r f = Inr (f s, st') \<and> (\<forall>k. look st' k = (if k = (t, r) then Some (f s) else look st k))"
    and upd_unknown: "r \<noteq> [] \<Longrightarrow> look st (t, r) = None \<Longrightarrow> \<exists>m. upd st t r f = Inl (KeyError m)"
    and inv_create: "inv st \<Longrightarrow> rs_run_id s \<noteq> [] \<Longrightarrow> inv (create s st)"
    and inv_upd: "inv st \<Longrightarrow> r \<noteq> [] \<Longrightarrow> (\<And>s. rs_key (f s) = rs_key s) \<Longrightarrow>
      upd st t r f = Inr (s', st') \<Longrightarrow> inv st'"
    and inv_key: "inv st \<Longrightarrow> look st k = Some s \<Longrightarrow> rs_key s = k \<and> rs_run_id s \<noteq> []"
begin

text \<open>What a client may rely on: an update is seen by its own run and by no other.\<close>

lemma upd_Inr:
  assumes "r \<noteq> []" and "upd st t r f = Inr (s', st')"
  shows "\<exists>s. look st (t, r) = Some s \<and> s' = f s \<and>
    (\<forall>k. look st' k = (if k = (t, r) then Some (f s) else look st k))"
proof (cases "look st (t, r)")
  case None
  then show ?thesis using upd_unknown[OF assms(1) None, of f] assms(2) by auto
next
  case (Some s)
  then show ?thesis using upd_known[OF assms(1) Some, of f] assms(2) by auto
qed

lemma upd_total: "r \<noteq> [] \<Longrightarrow> look st (t, r) \<noteq> None \<Longrightarrow> \<exists>s st'. upd st t r f = Inr (s, st')"
  using upd_known by (cases "look st (t, r)") fastforce+

lemma upd_fields_kept:
  assumes "r \<noteq> []" and "upd st t r f = Inr (s', st')" and "\<And>s. p (f s) = p s"
  shows "map_option p (look st' k) = map_option p (look st k)"
proof -
  obtain s where s: "look st (t, r) = Some s"
      and k: "\<And>k. look st' k = (if k = (t, r) then Some (f s) else look st k)"
    using upd_Inr[OF assms(1,2)] by blast
  show ?thesis using assms(3)[of s] s by (simp add: k)
qed

end

interpretation runs: run_store store_lookup store_create store_update store_ok
proof
  fix r :: string and st t s f
  assume r: "r \<noteq> []"
  show "store_lookup st (t, r) = Some s \<Longrightarrow> \<exists>st'. store_update st t r f = Inr (f s, st') \<and>
      (\<forall>k. store_lookup st' k = (if k = (t, r) then Some (f s) else store_lookup st k))"
    using r by (simp add: store_update_total store_lookup_def update_conv')
  show "store_lookup st (t, r) = None \<Longrightarrow> \<exists>m. store_update st t r f = Inl (KeyError m)"
    using r by (simp add: store_update_def store_get_Some)
qed (use lookup_create store_ok_create store_ok_update store_ok_lookup in blast)+

end
