(* ===== verification/Event_Bus.thy ===== *)
theory Event_Bus
  imports Protocol_Events Run_State_Store
begin

text \<open>
  \<open>apps/runtime/local_agent_runtime/event_bus.py\<close>: the in-memory event bus. Events are kept per run,
  a subscriber is a queue (named by a number, with what was put on it so far), and \<open>subscribe\<close> is the two
  halves of the context manager: entering adds a queue, leaving removes it. The log line of
  \<open>emit_event\<close> is output and not modelled.

  The locale \<open>event_log\<close> is the contract of a log of events per run: the bus provides it here and the
  event store of the observability service in \<open>Observability\<close>.
\<close>

record event_bus =
  eb_events :: "(run_key \<times> runtime_event list) list"
  eb_subscribers :: "(run_key \<times> nat list) list"
  eb_queues :: "(nat \<times> runtime_event list) list"
  eb_next_queue :: nat

definition empty_bus :: event_bus where
  "empty_bus = \<lparr>eb_events = [], eb_subscribers = [], eb_queues = [], eb_next_queue = 0\<rparr>"

definition dict_list :: "('k \<times> 'v list) list \<Rightarrow> 'k \<Rightarrow> 'v list" where
  "dict_list d k = (case map_of d k of None \<Rightarrow> [] | Some xs \<Rightarrow> xs)"

lemma dict_list_update [simp]:
  "dict_list (AList.update k xs d) k' = (if k' = k then xs else dict_list d k')"
  by (simp add: dict_list_def update_conv')

definition queue_put :: "runtime_event \<Rightarrow> nat \<Rightarrow> (nat \<times> runtime_event list) list \<Rightarrow> (nat \<times> runtime_event list) list" where
  "queue_put e q qs = AList.update q (dict_list qs q @ [e]) qs"

definition bus_publish :: "runtime_event \<Rightarrow> event_bus \<Rightarrow> event_bus result" where
  "bus_publish e b = (case event_key (re_event e) of
     None \<Rightarrow> Inl (ValueError ''runtime task events must include task_id and run_id'')
   | Some key \<Rightarrow>
       Inr (b\<lparr>eb_events := AList.update key (dict_list (eb_events b) key @ [e]) (eb_events b),
              eb_queues := fold (queue_put e) (dict_list (eb_subscribers b) key) (eb_queues b)\<rparr>))"

fun after_event :: "string \<Rightarrow> runtime_event list \<Rightarrow> runtime_event list" where
  "after_event i [] = []"
| "after_event i (e # es) = (if ev_id (re_event e) = i then es else after_event i es)"

definition bus_matching :: "event_bus \<Rightarrow> string \<Rightarrow> string option \<Rightarrow> runtime_event list" where
  "bus_matching b task run = (case run of
     None \<Rightarrow> concat (map snd (filter (\<lambda>kv. fst (fst kv) = task) (eb_events b)))
   | Some r \<Rightarrow> dict_list (eb_events b) (task, r))"

definition bus_list_events ::
    "event_bus \<Rightarrow> string \<Rightarrow> string option \<Rightarrow> string option \<Rightarrow> runtime_event list" where
  "bus_list_events b task run from_id = (case from_id of
     None \<Rightarrow> bus_matching b task run | Some i \<Rightarrow> after_event i (bus_matching b task run))"

definition bus_subscribe :: "string \<Rightarrow> string \<Rightarrow> event_bus \<Rightarrow> nat \<times> event_bus" where
  "bus_subscribe task run b =
     (let q = eb_next_queue b; key = (task, run) in
      (q, b\<lparr>eb_subscribers := AList.update key (dict_list (eb_subscribers b) key @ [q]) (eb_subscribers b),
            eb_queues := AList.update q [] (eb_queues b), eb_next_queue := q + 1\<rparr>))"

definition bus_unsubscribe :: "string \<Rightarrow> string \<Rightarrow> nat \<Rightarrow> event_bus \<Rightarrow> event_bus" where
  "bus_unsubscribe task run q b =
     (let key = (task, run) in
      case map_of (eb_subscribers b) key of
        None \<Rightarrow> b
      | Some subs \<Rightarrow>
          (let rest = filter (\<lambda>c. c \<noteq> q) subs in
           b\<lparr>eb_subscribers := (if rest = [] then AList.delete key (eb_subscribers b)
                                else AList.update key rest (eb_subscribers b))\<rparr>))"

section \<open>The log of a run\<close>

locale event_log =
  fixes log_of :: "'s \<Rightarrow> run_key \<Rightarrow> 'e list"
    and add_event :: "event_envelope \<Rightarrow> 's \<Rightarrow> 's result"
    and view :: "event_envelope \<Rightarrow> 'e"
    and fresh :: "'s \<Rightarrow> string \<Rightarrow> bool"
  assumes add_total: "event_key e \<noteq> None \<Longrightarrow> \<exists>s'. add_event e s = Inr s'"
    and add_anonymous: "event_key e = None \<Longrightarrow> \<exists>m. add_event e s = Inl (ValueError m)"
    and log_add: "fresh s (ev_id e) \<Longrightarrow> event_key e = Some k \<Longrightarrow> add_event e s = Inr s' \<Longrightarrow>
      log_of s' k' = (if k' = k then log_of s k @ [view e] else log_of s k')"
    and fresh_add: "add_event e s = Inr s' \<Longrightarrow> fresh s i \<Longrightarrow> i \<noteq> ev_id e \<Longrightarrow> fresh s' i"
begin

fun add_all :: "event_envelope list \<Rightarrow> 's \<Rightarrow> 's result" where
  "add_all [] s = Inr s"
| "add_all (e # es) s = bindR (add_event e s) (add_all es)"

text \<open>
  After a sequence of events with ids of their own, the log of a run is what it was followed by exactly
  the events of that run, in order.
\<close>

lemma log_add_all:
  assumes "list_all (\<lambda>e. event_key e \<noteq> None) es" and "distinct (map ev_id es)"
    and "list_all (\<lambda>e. fresh s (ev_id e)) es"
  shows "\<exists>s'. add_all es s = Inr s' \<and>
    (\<forall>k. log_of s' k = log_of s k @ map view (filter (\<lambda>e. event_key e = Some k) es))"
  using assms
proof (induction es arbitrary: s)
  case (Cons e es)
  from Cons.prems obtain k where k: "event_key e = Some k" by (auto simp: list_all_iff)
  obtain s1 where s1: "add_event e s = Inr s1" using add_total[of e s] k by auto
  have log1: "log_of s1 k' = (if k' = k then log_of s k @ [view e] else log_of s k')" for k'
    using log_add[OF _ k s1] Cons.prems by simp
  have "fresh s1 (ev_id x)" if "x \<in> set es" for x
  proof (rule fresh_add[OF s1])
    show "fresh s (ev_id x)" using Cons.prems(3) that by (simp add: list_all_iff)
    show "ev_id x \<noteq> ev_id e" using Cons.prems(2) that by (metis distinct.simps(2) image_eqI list.simps(9) set_map)
  qed
  then have "list_all (\<lambda>x. fresh s1 (ev_id x)) es" by (simp add: list_all_iff)
  then obtain s' where all: "add_all es s1 = Inr s'"
      and logs: "\<And>k. log_of s' k = log_of s1 k @ map view (filter (\<lambda>e. event_key e = Some k) es)"
    using Cons.IH[of s1] Cons.prems by (metis distinct.simps(2) list.pred_inject(2) list.simps(9))
  have "add_all (e # es) s = Inr s'" by (simp add: s1 all)
  moreover have "log_of s' k' = log_of s k' @ map view (filter (\<lambda>e. event_key e = Some k') (e # es))" for k'
    by (simp add: logs log1 k)
  ultimately show ?case by blast
qed simp

end

definition bus_log :: "event_bus \<Rightarrow> run_key \<Rightarrow> runtime_event list" where
  "bus_log b k = bus_list_events b (fst k) (Some (snd k)) None"

lemma bus_log_eq: "bus_log b k = dict_list (eb_events b) k"
  by (simp add: bus_log_def bus_list_events_def bus_matching_def)

interpretation bus: event_log bus_log "\<lambda>e. bus_publish (mk_runtime_event e)" mk_runtime_event "\<lambda>b i. True"
  by unfold_locales
    (auto simp: bus_publish_def mk_runtime_event_def bus_log_eq simp del: split_paired_All split_paired_Ex
      split: option.splits if_splits)

section \<open>Subscribers\<close>

text \<open>
  A well-formed bus: the queues of the subscribers are known, no queue is subscribed twice, and the next
  queue is new.
\<close>

definition bus_ok :: "event_bus \<Rightarrow> bool" where
  "bus_ok b \<longleftrightarrow> (\<forall>k. distinct (dict_list (eb_subscribers b) k)) \<and>
     (\<forall>k q. q \<in> set (dict_list (eb_subscribers b) k) \<longrightarrow> q < eb_next_queue b) \<and>
     (\<forall>k k' q. q \<in> set (dict_list (eb_subscribers b) k) \<longrightarrow> q \<in> set (dict_list (eb_subscribers b) k') \<longrightarrow> k = k')"

lemma bus_ok_empty [simp]: "bus_ok empty_bus"
  by (simp add: bus_ok_def empty_bus_def dict_list_def)

lemma bus_ok_subscribe: "bus_ok b \<Longrightarrow> bus_subscribe t r b = (q, b') \<Longrightarrow> bus_ok b'"
  by (fastforce simp: bus_ok_def bus_subscribe_def Let_def split: if_splits)

lemma bus_ok_publish: "bus_ok b \<Longrightarrow> bus_publish e b = Inr b' \<Longrightarrow> bus_ok b'"
  by (auto simp: bus_ok_def bus_publish_def split: option.splits)

lemma dict_list_delete [simp]:
  "dict_list (AList.delete k d) k' = (if k' = k then [] else dict_list d k')"
  by (auto simp: dict_list_def delete_conv' split: option.splits)

lemma unsubscribe_subs:
  "dict_list (eb_subscribers (bus_unsubscribe t r q b)) k =
   (if k = (t, r) then filter (\<lambda>c. c \<noteq> q) (dict_list (eb_subscribers b) k) else dict_list (eb_subscribers b) k)"
  by (auto simp: bus_unsubscribe_def Let_def split: option.splits) (simp_all add: dict_list_def)

lemma bus_ok_unsubscribe: "bus_ok b \<Longrightarrow> bus_ok (bus_unsubscribe t r q b)"
proof -
  have "eb_next_queue (bus_unsubscribe t r q b) = eb_next_queue b"
    by (simp add: bus_unsubscribe_def Let_def split: option.splits)
  then show "bus_ok b \<Longrightarrow> ?thesis" by (auto simp: bus_ok_def unsubscribe_subs)
qed

lemma fold_queue_put:
  "distinct qs \<Longrightarrow> dict_list (fold (queue_put e) qs d) q = dict_list d q @ (if q \<in> set qs then [e] else [])"
  by (induction qs arbitrary: d) (auto simp: queue_put_def)

text \<open>A published event reaches each subscriber of its run once, and nobody else.\<close>

lemma publish_queues:
  assumes "bus_ok b" and "bus_publish e b = Inr b'" and "event_key (re_event e) = Some k"
  shows "dict_list (eb_queues b') q =
    dict_list (eb_queues b) q @ (if q \<in> set (dict_list (eb_subscribers b) k) then [e] else [])"
proof -
  have "distinct (dict_list (eb_subscribers b) k)" using assms(1) unfolding bus_ok_def by blast
  then show ?thesis using assms(2,3) by (auto simp: bus_publish_def fold_queue_put)
qed

section \<open>Property\<close>

fun publish_all :: "event_envelope list \<Rightarrow> event_bus \<Rightarrow> event_bus result" where
  "publish_all [] b = Inr b"
| "publish_all (e # es) b = bindR (bus_publish (mk_runtime_event e) b) (publish_all es)"

lemma bus_publish_same:
  "bus_publish e b = Inr b' \<Longrightarrow> eb_subscribers b' = eb_subscribers b"
  by (auto simp: bus_publish_def split: option.splits)

lemma publish_all_Inr:
  "bus_ok b \<Longrightarrow> publish_all es b = Inr b' \<Longrightarrow> bus_ok b' \<and>
    (\<forall>k. bus_log b' k = bus_log b k @ map mk_runtime_event (filter (\<lambda>e. event_key e = Some k) es)) \<and>
    (\<forall>q k. q \<in> set (dict_list (eb_subscribers b) k) \<longrightarrow> dict_list (eb_queues b') q =
       dict_list (eb_queues b) q @ map mk_runtime_event (filter (\<lambda>e. event_key e = Some k) es))"
proof (induction es arbitrary: b)
  case (Cons e es)
  obtain b1 where b1: "bus_publish (mk_runtime_event e) b = Inr b1" "publish_all es b1 = Inr b'"
    using Cons.prems(2) by (auto simp: bindR_Inr_iff)
  obtain k1 where k1: "event_key e = Some k1"
    using b1(1) by (auto simp: bus_publish_def mk_runtime_event_def split: option.splits)
  have ok1: "bus_ok b1" using bus_ok_publish[OF Cons.prems(1) b1(1)] .
  have log1: "bus_log b1 k = (if k = k1 then bus_log b k1 @ [mk_runtime_event e] else bus_log b k)" for k
    using bus.log_add[OF _ k1 b1(1), of k] by simp
  have queue1: "dict_list (eb_queues b1) q = dict_list (eb_queues b) q @ (if k = k1 then [mk_runtime_event e] else [])"
    if "q \<in> set (dict_list (eb_subscribers b) k)" for q k
  proof -
    have "q \<in> set (dict_list (eb_subscribers b) k1) \<longleftrightarrow> k = k1"
      using Cons.prems(1) that unfolding bus_ok_def by blast
    then show ?thesis
      using publish_queues[OF Cons.prems(1) b1(1), of k1 q] k1 by (simp add: mk_runtime_event_def)
  qed
  show ?case
    using Cons.IH[OF ok1 b1(2)] log1 queue1 k1 bus_publish_same[OF b1(1)] by auto
qed simp

text \<open>
  A subscriber of a run receives every event of that run published after it subscribed, once, in the order of
  publication, and no event of another run, however events of different runs interleave; and each run's history
  grows by exactly its own events.
\<close>

theorem subscriber_receives_its_run:
  assumes "bus_ok b" and "bus_subscribe t r b = (q, b1)" and "publish_all es b1 = Inr b2"
  shows "dict_list (eb_queues b2) q = map mk_runtime_event (filter (\<lambda>e. event_key e = Some (t, r)) es) \<and>
    bus_list_events b2 t' (Some r') None =
      bus_list_events b t' (Some r') None @ map mk_runtime_event (filter (\<lambda>e. event_key e = Some (t', r')) es)"
proof -
  have ok: "bus_ok b1" using bus_ok_subscribe[OF assms(1,2)] .
  have sub: "q \<in> set (dict_list (eb_subscribers b1) (t, r))" "dict_list (eb_queues b1) q = []"
      "bus_log b1 k = bus_log b k" for k
    using assms(2) by (auto simp: bus_subscribe_def Let_def bus_log_eq)
  show ?thesis
    using publish_all_Inr[OF ok assms(3)] sub by (auto simp: bus_log_def)
qed

definition sample_event :: "string \<Rightarrow> string \<Rightarrow> event_envelope" where
  "sample_event i run = \<lparr>ev_id = i, ev_type = ''task.started'', ev_timestamp = [], ev_correlation_id = None,
     ev_task_id = Some ''t'', ev_run_id = Some run,
     ev_source = \<lparr>es_kind = SRC_RUNTIME, es_name = None, es_role = None, es_component = None\<rparr>, ev_payload = []\<rparr>"

theorem subscriber_receives_its_run_witness:
  "\<exists>b2. publish_all [sample_event ''1'' ''r'', sample_event ''2'' ''s'', sample_event ''3'' ''r'']
      (snd (bus_subscribe ''t'' ''r'' empty_bus)) = Inr b2 \<and>
     dict_list (eb_queues b2) 0 = [mk_runtime_event (sample_event ''1'' ''r''), mk_runtime_event (sample_event ''3'' ''r'')]"
proof -
  obtain b1 where b1: "bus_subscribe ''t'' ''r'' empty_bus = (0, b1)"
    by (simp add: bus_subscribe_def empty_bus_def Let_def)
  obtain b2 where b2: "publish_all [sample_event ''1'' ''r'', sample_event ''2'' ''s'', sample_event ''3'' ''r''] b1 = Inr b2"
    by (simp add: bus_publish_def mk_runtime_event_def sample_event_def event_key_def)
  show ?thesis
    using subscriber_receives_its_run[OF bus_ok_empty b1 b2] b1 b2 by (simp add: sample_event_def event_key_def)
qed

end
