(* ===== verification/Artifact_Store.thy ===== *)
theory Artifact_Store
  imports Sandbox Event_Bus
begin

text \<open>
  \<open>services/artifact_service/local_agent_artifact_service/store.py\<close>: the artifacts registered per run and
  the host files behind them. What the host says of a file (size, digest, content), the \<open>mimetypes\<close> tables
  and the UTF-8 decoder are parameters; \<open>materialize\<close> is the sandbox factory's
  \<open>materialize_artifact_path\<close>.
\<close>

record artifact =
  ar_id :: string
  ar_task_id :: string
  ar_run_id :: string
  ar_logical_path :: string
  ar_content_type :: string
  ar_created_at :: string
  ar_persistence_class :: string
  ar_source_role :: "string option"
  ar_source_tool :: "string option"
  ar_byte_size :: "int option"
  ar_display_name :: "string option"
  ar_summary :: "string option"
  ar_downloadable :: "bool option"
  ar_hash :: "string option"

text \<open>\<open>ArtifactReference.to_dict\<close>.\<close>

definition artifact_to_dict :: "artifact \<Rightarrow> pydict" where
  "artifact_to_dict a = strip_none
     [(''artifact_id'', PStr (ar_id a)), (''task_id'', PStr (ar_task_id a)), (''run_id'', PStr (ar_run_id a)),
      (''logical_path'', PStr (ar_logical_path a)), (''content_type'', PStr (ar_content_type a)),
      (''created_at'', PStr (ar_created_at a)), (''persistence_class'', PStr (ar_persistence_class a)),
      (''source_role'', opt_str (ar_source_role a)), (''source_tool'', opt_str (ar_source_tool a)),
      (''byte_size'', (case ar_byte_size a of None \<Rightarrow> PNone | Some n \<Rightarrow> PInt n)),
      (''display_name'', opt_str (ar_display_name a)), (''summary'', opt_str (ar_summary a)),
      (''downloadable'', (case ar_downloadable a of None \<Rightarrow> PNone | Some b \<Rightarrow> PBool b)),
      (''hash'', opt_str (ar_hash a))]"

record artifact_preview =
  pv_kind :: string
  pv_text :: "string option"
  pv_encoding :: "string option"
  pv_truncated :: "bool option"
  pv_message :: "string option"

record artifact_store =
  as_artifacts :: "(run_key \<times> artifact list) list"
  as_paths :: "((string \<times> string \<times> string) \<times> host_path) list"

definition empty_artifacts :: artifact_store where
  "empty_artifacts = \<lparr>as_artifacts = [], as_paths = []\<rparr>"

record host_env =
  he_materialize :: "string \<Rightarrow> string \<Rightarrow> string \<Rightarrow> (string \<times> host_path \<times> string) result"
  he_guess_type :: "string \<Rightarrow> string option"
  he_size :: "host_path \<Rightarrow> int"
  he_sha256 :: "host_path \<Rightarrow> string"
  he_bytes :: "host_path \<Rightarrow> string"
  he_decode :: "string \<Rightarrow> string"

definition path_name :: "host_path \<Rightarrow> string" where
  "path_name p = (if p = [] then [] else last p)"

definition guess_content_type :: "host_env \<Rightarrow> host_path \<Rightarrow> string" where
  "guess_content_type env p = or_default (he_guess_type env (path_name p)) ''application/octet-stream''"

text \<open>The \<open>for ... else\<close> loop: the first record that matches is replaced, otherwise the new one goes last.\<close>

fun put_record :: "(artifact \<Rightarrow> bool) \<Rightarrow> artifact \<Rightarrow> artifact list \<Rightarrow> artifact list" where
  "put_record P a [] = [a]"
| "put_record P a (x # xs) = (if P x then a # xs else x # put_record P a xs)"

definition run_artifacts :: "artifact_store \<Rightarrow> run_key \<Rightarrow> artifact list" where
  "run_artifacts s k = dict_list (as_artifacts s) k"

definition existing_artifact_id :: "artifact_store \<Rightarrow> string \<Rightarrow> string \<Rightarrow> string \<Rightarrow> string option" where
  "existing_artifact_id s task run path =
     map_option ar_id (find (\<lambda>a. ar_logical_path a = path) (run_artifacts s (task, run)))"

definition put_artifact ::
    "(artifact \<Rightarrow> bool) \<Rightarrow> artifact \<Rightarrow> host_path \<Rightarrow> artifact_store \<Rightarrow> artifact_store" where
  "put_artifact P a host s =
     (let key = (ar_task_id a, ar_run_id a) in
      s\<lparr>as_artifacts := AList.update key (put_record P a (run_artifacts s key)) (as_artifacts s),
        as_paths := AList.update (ar_task_id a, ar_run_id a, ar_id a) host (as_paths s)\<rparr>)"

definition register_artifact ::
    "host_env \<Rightarrow> string \<Rightarrow> string \<Rightarrow> string \<Rightarrow> string \<Rightarrow> string \<Rightarrow> string option \<Rightarrow> string option \<Rightarrow> string option
     \<Rightarrow> string option \<Rightarrow> artifact_store \<Rightarrow> (artifact \<times> artifact_store) result" where
  "register_artifact env new_id now task run sandbox_path persistence role tool summary s =
     bindR (he_materialize env task run sandbox_path) (\<lambda>(logical, host, inferred).
       let a = \<lparr>ar_id = or_default (existing_artifact_id s task run logical) new_id,
                ar_task_id = task, ar_run_id = run, ar_logical_path = logical,
                ar_content_type = guess_content_type env host, ar_created_at = now,
                ar_persistence_class = or_default persistence inferred,
                ar_source_role = role, ar_source_tool = tool, ar_byte_size = Some (he_size env host),
                ar_display_name = Some (path_name host), ar_summary = summary,
                ar_downloadable = None, ar_hash = Some (he_sha256 env host)\<rparr>
       in Inr (a, put_artifact (\<lambda>x. ar_logical_path x = logical) a host s))"

definition restore_artifact ::
    "host_env \<Rightarrow> artifact \<Rightarrow> string \<Rightarrow> artifact_store \<Rightarrow> (artifact \<times> artifact_store) result" where
  "restore_artifact env a sandbox_path s =
     bindR (he_materialize env (ar_task_id a) (ar_run_id a) sandbox_path) (\<lambda>(logical, host, inferred).
       let restored = a\<lparr>ar_logical_path := logical,
             ar_content_type := (if ar_content_type a = [] then guess_content_type env host else ar_content_type a),
             ar_persistence_class := (if ar_persistence_class a = [] then inferred else ar_persistence_class a),
             ar_byte_size := Some (case ar_byte_size a of Some n \<Rightarrow> n | None \<Rightarrow> he_size env host),
             ar_display_name := Some (or_default (ar_display_name a) (path_name host)),
             ar_downloadable := None, ar_hash := Some (or_default (ar_hash a) (he_sha256 env host))\<rparr>
       in Inr (restored, put_artifact (\<lambda>x. ar_id x = ar_id restored \<or> ar_logical_path x = logical) restored host s))"

text \<open>The records of the runs a query is about, in dict order.\<close>

definition matching_runs :: "artifact_store \<Rightarrow> string \<Rightarrow> string option \<Rightarrow> artifact list" where
  "matching_runs s task run = concat (map snd (filter
     (\<lambda>kv. fst (fst kv) = task \<and> (case run of None \<Rightarrow> True | Some r \<Rightarrow> snd (fst kv) = r)) (as_artifacts s)))"

definition list_artifacts ::
    "artifact_store \<Rightarrow> string \<Rightarrow> string option \<Rightarrow> string option \<Rightarrow> string option \<Rightarrow> artifact list" where
  "list_artifacts s task run persistence type_prefix =
     filter (\<lambda>a. (case persistence of None \<Rightarrow> True | Some p \<Rightarrow> ar_persistence_class a = p)
               \<and> (case type_prefix of None \<Rightarrow> True | Some p \<Rightarrow> startswith (ar_content_type a) p))
       (matching_runs s task run)"

definition get_artifact :: "artifact_store \<Rightarrow> string \<Rightarrow> string \<Rightarrow> string option \<Rightarrow> artifact result" where
  "get_artifact s task i run = (case find (\<lambda>a. ar_id a = i) (matching_runs s task run) of
     Some a \<Rightarrow> Inr a
   | None \<Rightarrow> Inl (KeyError (''unknown artifact: '' @ task @ ''/'' @ or_default run ''*'' @ '':'' @ i)))"

definition artifact_host_path :: "artifact_store \<Rightarrow> artifact \<Rightarrow> host_path result" where
  "artifact_host_path s a = (case map_of (as_paths s) (ar_task_id a, ar_run_id a, ar_id a) of
     None \<Rightarrow> Inl (KeyError (''missing artifact path for '' @ ar_id a)) | Some p \<Rightarrow> Inr p)"

definition is_previewable_text :: "string \<Rightarrow> bool" where
  "is_previewable_text ty \<longleftrightarrow> startswith ty ''text/'' \<or>
     ty \<in> {''application/json'', ''application/xml'', ''application/yaml''}"

definition text_preview_bytes :: nat where "text_preview_bytes = 8192"

definition get_artifact_preview ::
    "host_env \<Rightarrow> artifact_store \<Rightarrow> string \<Rightarrow> string \<Rightarrow> string option \<Rightarrow> (artifact \<times> artifact_preview) result" where
  "get_artifact_preview env s task i run =
     bindR (get_artifact s task i run) (\<lambda>a.
     bindR (artifact_host_path s a) (\<lambda>host.
       if \<not> is_previewable_text (ar_content_type a)
         then Inr (a, \<lparr>pv_kind = ''unavailable'', pv_text = None, pv_encoding = None, pv_truncated = None,
                       pv_message = Some ''Preview unavailable for this artifact type.''\<rparr>)
       else (let bytes = he_bytes env host in
         Inr (a, \<lparr>pv_kind = (if ar_content_type a = ''text/markdown'' then ''markdown'' else ''text''),
                  pv_text = Some (he_decode env (take text_preview_bytes bytes)), pv_encoding = Some ''utf-8'',
                  pv_truncated = Some (text_preview_bytes < length bytes), pv_message = ar_summary a\<rparr>))))"

section \<open>One record per logical path\<close>

text \<open>
  A well-formed store: the records of a run carry its key and distinct logical paths, distinct runs have
  distinct entries, and each record has a host file.
\<close>

definition artifacts_ok :: "artifact_store \<Rightarrow> bool" where
  "artifacts_ok s \<longleftrightarrow> distinct (map fst (as_artifacts s)) \<and>
     (\<forall>k. distinct (map ar_logical_path (run_artifacts s k)) \<and>
        (\<forall>a \<in> set (run_artifacts s k). (ar_task_id a, ar_run_id a) = k \<and>
           map_of (as_paths s) (ar_task_id a, ar_run_id a, ar_id a) \<noteq> None))"

lemma artifacts_ok_empty [simp]: "artifacts_ok empty_artifacts"
  by (simp add: artifacts_ok_def empty_artifacts_def run_artifacts_def dict_list_def)

lemma run_artifacts_put:
  "run_artifacts (put_artifact P a host s) k =
   (if k = (ar_task_id a, ar_run_id a) then put_record P a (run_artifacts s k) else run_artifacts s k)"
  by (auto simp: run_artifacts_def put_artifact_def Let_def)

lemma set_put_record: "set (put_record P a xs) \<subseteq> insert a (set xs)"
  by (induction xs) auto

lemma put_record_member: "a \<in> set (put_record P a xs)"
  by (induction xs) auto

lemma put_record_paths:
  assumes "\<And>x. P x \<longleftrightarrow> ar_logical_path x = ar_logical_path a"
  shows "map ar_logical_path (put_record P a xs) =
    map ar_logical_path xs @ (if ar_logical_path a \<in> ar_logical_path ` set xs then [] else [ar_logical_path a])"
  by (induction xs) (auto simp: assms)

lemma put_record_find:
  "(\<And>x. P x \<longleftrightarrow> ar_logical_path x = ar_logical_path a) \<Longrightarrow> ar_logical_path a \<noteq> p \<Longrightarrow>
   find (\<lambda>x. ar_logical_path x = p) (put_record P a xs) = find (\<lambda>x. ar_logical_path x = p) xs"
  by (induction xs) auto

lemma artifacts_ok_put:
  assumes ok: "artifacts_ok s" and P: "\<And>x. P x \<longleftrightarrow> ar_logical_path x = ar_logical_path a"
  shows "artifacts_ok (put_artifact P a host s)"
proof -
  let ?s = "put_artifact P a host s"
  have keys: "distinct (map fst (as_artifacts ?s))"
    using ok by (simp add: artifacts_ok_def put_artifact_def Let_def distinct_update)
  have paths: "map_of (as_paths ?s) k = (if k = (ar_task_id a, ar_run_id a, ar_id a) then Some host
      else map_of (as_paths s) k)" for k
    by (simp add: put_artifact_def Let_def update_conv')
  have dist: "distinct (map ar_logical_path (run_artifacts ?s k))" for k
  proof -
    have "distinct (map ar_logical_path (run_artifacts s k))"
      using ok unfolding artifacts_ok_def by blast
    then show ?thesis by (auto simp: run_artifacts_put put_record_paths[OF P])
  qed
  have mem: "(ar_task_id x, ar_run_id x) = k \<and> map_of (as_paths ?s) (ar_task_id x, ar_run_id x, ar_id x) \<noteq> None"
    if "x \<in> set (run_artifacts ?s k)" for x k
  proof (cases "x = a")
    case True
    have "(ar_task_id a, ar_run_id a) = k"
    proof (rule ccontr)
      assume "(ar_task_id a, ar_run_id a) \<noteq> k"
      then have "a \<in> set (run_artifacts s k)" using that True by (auto simp: run_artifacts_put split: if_splits)
      then have "(ar_task_id a, ar_run_id a) = k" using ok unfolding artifacts_ok_def by blast
      then show False using \<open>(ar_task_id a, ar_run_id a) \<noteq> k\<close> by simp
    qed
    then show ?thesis using True by (simp add: paths)
  next
    case False
    then have "x \<in> set (run_artifacts s k)"
      using that set_put_record[of P a "run_artifacts s k"] by (auto simp: run_artifacts_put split: if_splits)
    then have "(ar_task_id x, ar_run_id x) = k \<and> map_of (as_paths s) (ar_task_id x, ar_run_id x, ar_id x) \<noteq> None"
      using ok unfolding artifacts_ok_def by blast
    then show ?thesis by (simp add: paths)
  qed
  show ?thesis unfolding artifacts_ok_def using keys dist mem by blast
qed

lemma register_artifact_Inr:
  assumes "register_artifact env new_id now task run path pc role tool summary s = Inr (a, s')"
  shows "\<exists>logical host inferred. he_materialize env task run path = Inr (logical, host, inferred) \<and>
    ar_task_id a = task \<and> ar_run_id a = run \<and> ar_logical_path a = logical \<and>
    ar_id a = or_default (existing_artifact_id s task run logical) new_id \<and>
    ar_persistence_class a = or_default pc inferred \<and>
    s' = put_artifact (\<lambda>x. ar_logical_path x = logical) a host s"
  using assms by (auto simp: register_artifact_def bindR_Inr_iff Let_def)

lemma artifacts_ok_register:
  "artifacts_ok s \<Longrightarrow> register_artifact env new_id now task run path pc role tool summary s = Inr (a, s') \<Longrightarrow>
   artifacts_ok s'"
  by (drule register_artifact_Inr) (auto intro: artifacts_ok_put)

text \<open>Registering the same path again keeps the id and adds no record.\<close>

lemma existing_after_register:
  assumes "register_artifact env new_id now task run path pc role tool summary s = Inr (a, s')"
  shows "existing_artifact_id s' task run (ar_logical_path a) = Some (ar_id a)"
proof -
  obtain host where s': "s' = put_artifact (\<lambda>x. ar_logical_path x = ar_logical_path a) a host s"
      and "ar_task_id a = task" "ar_run_id a = run"
    using register_artifact_Inr[OF assms] by blast
  moreover have "find (\<lambda>x. ar_logical_path x = ar_logical_path a)
      (put_record (\<lambda>x. ar_logical_path x = ar_logical_path a) a xs) = Some a" for xs
    by (induction xs) auto
  ultimately show ?thesis by (simp add: existing_artifact_id_def run_artifacts_put)
qed

lemma matching_runs_run:
  "distinct (map fst (as_artifacts s)) \<Longrightarrow> matching_runs s task (Some run) = run_artifacts s (task, run)"
proof -
  assume d: "distinct (map fst (as_artifacts s))"
  have "distinct (map fst kvs) \<Longrightarrow> concat (map snd (filter (\<lambda>kv. fst (fst kv) = task \<and> snd (fst kv) = run) kvs))
      = (case map_of kvs (task, run) of None \<Rightarrow> [] | Some xs \<Rightarrow> xs)" for kvs :: "(run_key \<times> artifact list) list"
  proof (induction kvs)
    case (Cons kv kvs)
    show ?case
    proof (cases "fst kv = (task, run)")
      case True
      then have "map_of kvs (task, run) = None" using Cons.prems by (auto simp: map_of_eq_None_iff)
      then show ?thesis using Cons True by (cases kv) auto
    qed (use Cons in \<open>cases kv; auto\<close>)
  qed simp
  from this[OF d] show ?thesis by (simp add: matching_runs_def run_artifacts_def dict_list_def)
qed

section \<open>Property\<close>

text \<open>A sequence of registrations (new id, time, task, run, sandbox path); one that raises changes nothing.\<close>

fun register_all ::
    "host_env \<Rightarrow> (string \<times> string \<times> string \<times> string \<times> string) list \<Rightarrow> artifact_store \<Rightarrow> artifact_store" where
  "register_all env [] s = s"
| "register_all env ((i, now, task, run, path) # rs) s =
     (case register_artifact env i now task run path None None None None s of
        Inl e \<Rightarrow> register_all env rs s | Inr (a, s') \<Rightarrow> register_all env rs s')"

lemma existing_kept:
  assumes "existing_artifact_id s t r lp = Some i" and "i \<noteq> []" and "register_artifact env n now task run path pc role tool sm s = Inr (a, s')"
  shows "existing_artifact_id s' t r lp = Some i"
proof (cases "task = t \<and> run = r \<and> ar_logical_path a = lp")
  case True
  then have "ar_id a = i" using register_artifact_Inr[OF assms(3)] assms(1,2) by (auto simp: or_default_def)
  then show ?thesis using existing_after_register[OF assms(3)] True by simp
next
  case False
  obtain host where s': "s' = put_artifact (\<lambda>x. ar_logical_path x = ar_logical_path a) a host s"
      "ar_task_id a = task" "ar_run_id a = run"
    using register_artifact_Inr[OF assms(3)] by blast
  then show ?thesis using assms(1) False
    by (auto simp: existing_artifact_id_def run_artifacts_put put_record_find)
qed

lemma register_all_keeps:
  "artifacts_ok s \<Longrightarrow> i \<noteq> [] \<Longrightarrow> artifacts_ok (register_all env rs s) \<and>
    (existing_artifact_id s t r lp = Some i \<longrightarrow> existing_artifact_id (register_all env rs s) t r lp = Some i)"
proof (induction env rs s rule: register_all.induct)
  case (2 env n now task run path rs s)
  show ?case
  proof (cases "register_artifact env n now task run path None None None None s")
    case (Inr x)
    obtain a s' where "x = (a, s')" by force
    then have r: "register_artifact env n now task run path None None None None s = Inr (a, s')" using Inr by simp
    have "artifacts_ok s'" using artifacts_ok_register[OF 2(3) r] .
    then show ?thesis using 2(2)[OF r refl] existing_kept[OF _ 2(4) r] 2(4) r by auto
  qed (use 2 in simp)
qed simp

lemma list_artifacts_run:
  "artifacts_ok s \<Longrightarrow> list_artifacts s t (Some r) None None = run_artifacts s (t, r)"
  by (simp add: list_artifacts_def matching_runs_run artifacts_ok_def)

lemma filter_unique_path:
  assumes "distinct (map ar_logical_path xs)" and "find (\<lambda>a. ar_logical_path a = p) xs = Some a"
  shows "filter (\<lambda>a. ar_logical_path a = p) xs = [a]"
  using assms
proof (induction xs)
  case (Cons x xs)
  show ?case
  proof (cases "ar_logical_path x = p")
    case True
    then have "filter (\<lambda>a. ar_logical_path a = p) xs = []" using Cons.prems(1) 
      by (auto simp: filter_empty_conv intro: image_eqI[OF sym])
    then show ?thesis using True Cons.prems(2) by simp
  qed (use Cons in auto)
qed simp

text \<open>
  An artifact keeps its identity: whatever is registered between two registrations of the same path of a run,
  the second one keeps the id of the first, and the run then lists exactly one artifact for that path, carrying
  that id.
\<close>

theorem artifact_identity_is_stable:
  assumes "artifacts_ok s" and "i \<noteq> []"
    and "register_artifact env i now task run path pc role tool summary s = Inr (a, s1)"
    and "register_artifact env j later task run path' pc' role' tool' summary' (register_all env rs s1) = Inr (b, s2)"
    and "ar_logical_path b = ar_logical_path a"
  shows "ar_id b = ar_id a \<and>
    map ar_id (filter (\<lambda>x. ar_logical_path x = ar_logical_path a) (list_artifacts s2 task (Some run) None None)) = [ar_id a]"
proof -
  have ok1: "artifacts_ok s1" using artifacts_ok_register[OF assms(1,3)] .
  have nonempty: "ar_id a \<noteq> []" using register_artifact_Inr[OF assms(3)] assms(2) by (auto simp: or_default_def split: option.splits if_splits)
  have mid: "artifacts_ok (register_all env rs s1)"
      "existing_artifact_id (register_all env rs s1) task run (ar_logical_path a) = Some (ar_id a)"
    using register_all_keeps[OF ok1 nonempty, of env rs task run "ar_logical_path a"] existing_after_register[OF assms(3)] nonempty
    by blast+
  have id: "ar_id b = ar_id a"
    using register_artifact_Inr[OF assms(4)] mid(2) assms(5) nonempty by (fastforce simp: or_default_def)
  have ok2: "artifacts_ok s2" using artifacts_ok_register[OF mid(1) assms(4)] .
  obtain x where x: "find (\<lambda>x. ar_logical_path x = ar_logical_path a) (run_artifacts s2 (task, run)) = Some x" "ar_id x = ar_id a"
    using existing_after_register[OF assms(4)] assms(5) id by (auto simp: existing_artifact_id_def)
  have "distinct (map ar_logical_path (run_artifacts s2 (task, run)))" using ok2 unfolding artifacts_ok_def by blast
  from filter_unique_path[OF this x(1)] show ?thesis using id x(2) list_artifacts_run[OF ok2] by simp
qed

definition sample_host :: host_env where
  "sample_host = \<lparr>he_materialize = (\<lambda>t r p. Inr (''/workspace/'' @ p, [p], ''run'')), he_guess_type = (\<lambda>_. None),
     he_size = (\<lambda>_. 0), he_sha256 = (\<lambda>_. []), he_bytes = (\<lambda>_. []), he_decode = (\<lambda>s. s)\<rparr>"

theorem artifact_identity_is_stable_witness:
  "\<exists>a s1 b s2. register_artifact sample_host ''i'' [] ''t'' ''r'' ''p'' None None None None empty_artifacts = Inr (a, s1) \<and>
     register_artifact sample_host ''k'' [] ''t'' ''r'' ''p'' None None None None
       (register_all sample_host [(''j'', [], ''t'', ''r'', ''q'')] s1) = Inr (b, s2) \<and> ar_id b = ar_id a \<and> ar_id a = ''i''"
proof -
  obtain a s1 where a: "register_artifact sample_host ''i'' [] ''t'' ''r'' ''p'' None None None None empty_artifacts = Inr (a, s1)"
    "ar_logical_path a = ''/workspace/p''" "ar_id a = ''i''"
    by (simp add: register_artifact_def sample_host_def Let_def existing_artifact_id_def run_artifacts_def
        empty_artifacts_def dict_list_def or_default_def)
  obtain b s2 where b: "register_artifact sample_host ''k'' [] ''t'' ''r'' ''p'' None None None None
      (register_all sample_host [(''j'', [], ''t'', ''r'', ''q'')] s1) = Inr (b, s2)" "ar_logical_path b = ''/workspace/p''"
    by (simp add: register_artifact_def sample_host_def Let_def)
  show ?thesis using artifact_identity_is_stable[OF artifacts_ok_empty _ a(1) b(1)] a b by auto
qed

end
