(* ===== verification/Checkpoints.thy ===== *)
theory Checkpoints
  imports Db_Tables
begin

text \<open>
  \<open>services/checkpoint_service\<close> (\<open>checkpoint_models.py\<close>, \<open>checkpoint_store.py\<close>, \<open>thread_registry.py\<close>) and
  the controllers of \<open>deepagent_runtime/checkpoint_adapter.py\<close>. The state of a thread is the pickled bytes
  of the LangGraph saver, opaque here; the saver itself is third-party code and a controller is modelled
  without its \<open>checkpointer\<close> object. New ids and the time are arguments.
\<close>

section \<open>The store\<close>

record checkpoint_metadata =
  cm_id :: string
  cm_task_id :: string
  cm_run_id :: string
  cm_thread_id :: string
  cm_index :: int
  cm_created_at :: string
  cm_reason :: "string option"

definition checkpoint_to_dict :: "checkpoint_metadata \<Rightarrow> pydict" where
  "checkpoint_to_dict m =
     [(''checkpoint_id'', PStr (cm_id m)), (''task_id'', PStr (cm_task_id m)), (''run_id'', PStr (cm_run_id m)),
      (''thread_id'', PStr (cm_thread_id m)), (''checkpoint_index'', PInt (cm_index m)),
      (''created_at'', PStr (cm_created_at m)), (''reason'', opt_str (cm_reason m))]"

record resume_handle =
  rh_task_id :: string
  rh_run_id :: string
  rh_thread_id :: string
  rh_latest_id :: "string option"
  rh_latest_reason :: "string option"

record checkpoint_db =
  cd_threads :: "(string \<times> string, string) table"
  cd_checkpoints :: "(string, checkpoint_metadata) table"
  cd_thread_state :: "(string, string) table"

definition empty_checkpoints :: checkpoint_db where
  "empty_checkpoints = \<lparr>cd_threads = [], cd_checkpoints = [], cd_thread_state = []\<rparr>"

definition bind_thread :: "string \<Rightarrow> string \<Rightarrow> string \<Rightarrow> checkpoint_db \<Rightarrow> checkpoint_db" where
  "bind_thread task run thread db = db\<lparr>cd_threads := tbl_upsert (task, run) thread (cd_threads db)\<rparr>"

definition get_thread_id :: "checkpoint_db \<Rightarrow> string \<Rightarrow> string \<Rightarrow> string option" where
  "get_thread_id db task run = tbl_get (cd_threads db) (task, run)"

definition create_thread :: "string \<Rightarrow> string \<Rightarrow> string \<Rightarrow> checkpoint_db \<Rightarrow> string \<times> checkpoint_db" where
  "create_thread hex task run db =
     (let thread_id = ''thread_'' @ hex in (thread_id, bind_thread task run thread_id db))"

text \<open>The thread is bound before the row is inserted, also when the insert then raises.\<close>

definition save_metadata :: "checkpoint_metadata \<Rightarrow> checkpoint_db \<Rightarrow> unit result \<times> checkpoint_db" where
  "save_metadata m db =
     (let db1 = bind_thread (cm_task_id m) (cm_run_id m) (cm_thread_id m) db in
      case tbl_insert ''UNIQUE constraint failed: checkpoint_metadata.checkpoint_id'' (cm_id m) m
             (cd_checkpoints db1) of
        Inl e \<Rightarrow> (Inl e, db1)
      | Inr t \<Rightarrow> (Inr (), db1\<lparr>cd_checkpoints := t\<rparr>))"

definition list_checkpoints :: "checkpoint_db \<Rightarrow> string \<Rightarrow> string \<Rightarrow> checkpoint_metadata list" where
  "list_checkpoints db task run = sort_key (\<lambda>m. (cm_index m, cm_created_at m))
     (filter (\<lambda>m. cm_task_id m = task \<and> cm_run_id m = run) (map snd (cd_checkpoints db)))"

definition get_resume_handle :: "checkpoint_db \<Rightarrow> string \<Rightarrow> string \<Rightarrow> resume_handle option" where
  "get_resume_handle db task run = (case get_thread_id db task run of
     None \<Rightarrow> None
   | Some thread \<Rightarrow>
       (let latest = (case rev (list_checkpoints db task run) of [] \<Rightarrow> None | c # cs \<Rightarrow> Some c) in
        Some \<lparr>rh_task_id = task, rh_run_id = run, rh_thread_id = thread,
              rh_latest_id = map_option cm_id latest,
              rh_latest_reason = (case latest of None \<Rightarrow> None | Some c \<Rightarrow> cm_reason c)\<rparr>))"

definition save_thread_state :: "string \<Rightarrow> string \<Rightarrow> checkpoint_db \<Rightarrow> checkpoint_db" where
  "save_thread_state thread bytes db = db\<lparr>cd_thread_state := tbl_upsert thread bytes (cd_thread_state db)\<rparr>"

definition load_thread_state :: "checkpoint_db \<Rightarrow> string \<Rightarrow> string option" where
  "load_thread_state db thread = tbl_get (cd_thread_state db) thread"

section \<open>Controllers\<close>

record checkpoint_controller =
  cc_task_id :: string
  cc_run_id :: string
  cc_thread_id :: string
  cc_latest_id :: "string option"
  cc_next_index :: int
  cc_is_resumed :: bool

definition build_controller ::
    "checkpoint_db \<Rightarrow> string \<Rightarrow> string \<Rightarrow> string \<Rightarrow> string option \<Rightarrow> bool \<Rightarrow> checkpoint_controller" where
  "build_controller db task run thread latest resumed =
     \<lparr>cc_task_id = task, cc_run_id = run, cc_thread_id = thread, cc_latest_id = latest,
      cc_next_index = int (length (list_checkpoints db task run)), cc_is_resumed = resumed\<rparr>"

definition attach_thread :: "checkpoint_db \<Rightarrow> string \<Rightarrow> string \<Rightarrow> string \<Rightarrow> checkpoint_controller" where
  "attach_thread db task run thread = build_controller db task run thread None False"

definition begin_run ::
    "string \<Rightarrow> string \<Rightarrow> string \<Rightarrow> checkpoint_db \<Rightarrow> checkpoint_controller \<times> checkpoint_db" where
  "begin_run hex task run db =
     (let (thread, db') = create_thread hex task run db in (attach_thread db' task run thread, db'))"

definition build_from_handle :: "checkpoint_db \<Rightarrow> resume_handle \<Rightarrow> checkpoint_controller" where
  "build_from_handle db h =
     build_controller db (rh_task_id h) (rh_run_id h) (rh_thread_id h) (rh_latest_id h) True"

definition resume_run :: "checkpoint_db \<Rightarrow> string \<Rightarrow> string \<Rightarrow> checkpoint_controller result" where
  "resume_run db task run = (case get_resume_handle db task run of
     None \<Rightarrow> Inl (ValueError (''no resume handle for '' @ task @ ''/'' @ run))
   | Some h \<Rightarrow> Inr (build_from_handle db h))"

definition ckpt_id :: "string \<Rightarrow> string" where
  "ckpt_id hex = ''ckpt_'' @ hex"

lemma ckpt_id_inj [simp]: "ckpt_id a = ckpt_id b \<longleftrightarrow> a = b"
  by (simp add: ckpt_id_def)

definition record_checkpoint ::
    "string \<Rightarrow> string \<Rightarrow> string option \<Rightarrow> checkpoint_controller \<Rightarrow> checkpoint_db
     \<Rightarrow> checkpoint_metadata result \<times> checkpoint_controller \<times> checkpoint_db" where
  "record_checkpoint hex now reason c db =
     (let m = \<lparr>cm_id = ckpt_id hex, cm_task_id = cc_task_id c, cm_run_id = cc_run_id c,
               cm_thread_id = cc_thread_id c, cm_index = cc_next_index c, cm_created_at = now,
               cm_reason = reason\<rparr> in
      case save_metadata m db of
        (Inl e, db') \<Rightarrow> (Inl e, c, db')
      | (Inr u, db') \<Rightarrow>
          (Inr m, c\<lparr>cc_latest_id := Some (cm_id m), cc_next_index := cc_next_index c + 1\<rparr>, db'))"

section \<open>The checkpoints of a run are numbered from 0 on\<close>

definition numbered :: "checkpoint_db \<Rightarrow> string \<Rightarrow> string \<Rightarrow> bool" where
  "numbered db task run \<longleftrightarrow>
     map cm_index (list_checkpoints db task run) = map int [0..<length (list_checkpoints db task run)]"

text \<open>A controller in step with the store: its thread is bound and its next index is the free one.\<close>

definition in_step :: "checkpoint_controller \<Rightarrow> checkpoint_db \<Rightarrow> bool" where
  "in_step c db \<longleftrightarrow>
     get_thread_id db (cc_task_id c) (cc_run_id c) = Some (cc_thread_id c) \<and>
     cc_next_index c = int (length (list_checkpoints db (cc_task_id c) (cc_run_id c)))"

lemma get_thread_bind [simp]:
  "get_thread_id (bind_thread t r th db) t' r' = (if (t', r') = (t, r) then Some th else get_thread_id db t' r')"
  by (simp add: get_thread_id_def bind_thread_def)

lemma list_checkpoints_bind [simp]: "list_checkpoints (bind_thread t r th db) = list_checkpoints db"
  by (simp add: fun_eq_iff list_checkpoints_def bind_thread_def)

lemma bind_thread_checkpoints [simp]: "cd_checkpoints (bind_thread t r th db) = cd_checkpoints db"
  by (simp add: bind_thread_def)

lemma get_thread_checkpoints [simp]: "get_thread_id (db\<lparr>cd_checkpoints := x\<rparr>) = get_thread_id db"
  by (simp add: fun_eq_iff get_thread_id_def)

lemma numbered_index: "numbered db t r \<Longrightarrow> m \<in> set (list_checkpoints db t r) \<Longrightarrow>
  cm_index m < int (length (list_checkpoints db t r))"
proof -
  assume n: "numbered db t r" and m: "m \<in> set (list_checkpoints db t r)"
  then have "cm_index m \<in> set (map cm_index (list_checkpoints db t r))" by simp
  then have "cm_index m \<in> set (map int [0..<length (list_checkpoints db t r)])"
    using n unfolding numbered_def by (simp only:)
  then show ?thesis by auto
qed

text \<open>Recording a checkpoint in step appends it to the run's list.\<close>

lemma record_checkpoint_list:
  assumes num: "numbered db (cc_task_id c) (cc_run_id c)" and step: "in_step c db"
    and fresh: "ckpt_id hex \<notin> fst ` set (cd_checkpoints db)"
  obtains m c' db' where "record_checkpoint hex now reason c db = (Inr m, c', db')"
    and "cm_id m = ckpt_id hex" and "cm_index m = cc_next_index c" and "cm_reason m = reason"
    and "cc_task_id c' = cc_task_id c" and "cc_run_id c' = cc_run_id c"
    and "cc_latest_id c' = Some (cm_id m)"
    and "list_checkpoints db' (cc_task_id c) (cc_run_id c) =
         list_checkpoints db (cc_task_id c) (cc_run_id c) @ [m]"
    and "numbered db' (cc_task_id c) (cc_run_id c)" and "in_step c' db'"
proof -
  let ?l = "list_checkpoints db (cc_task_id c) (cc_run_id c)"
  let ?m = "\<lparr>cm_id = ckpt_id hex, cm_task_id = cc_task_id c, cm_run_id = cc_run_id c,
    cm_thread_id = cc_thread_id c, cm_index = cc_next_index c, cm_created_at = now, cm_reason = reason\<rparr>"
  let ?db = "bind_thread (cc_task_id c) (cc_run_id c) (cc_thread_id c) db
    \<lparr>cd_checkpoints := cd_checkpoints db @ [(ckpt_id hex, ?m)]\<rparr>"
  let ?c = "c\<lparr>cc_latest_id := Some (ckpt_id hex), cc_next_index := cc_next_index c + 1\<rparr>"
  have rec: "record_checkpoint hex now reason c db = (Inr ?m, ?c, ?db)"
    using fresh by (simp add: record_checkpoint_def save_metadata_def tbl_insert_def Let_def)
  have next_i: "cc_next_index c = int (length ?l)" using step by (simp add: in_step_def)
  have "\<forall>x \<in> set (filter (\<lambda>m. cm_task_id m = cc_task_id c \<and> cm_run_id m = cc_run_id c)
      (map snd (cd_checkpoints db))). (cm_index x, cm_created_at x) \<le> (cm_index ?m, cm_created_at ?m)"
    using numbered_index[OF num] next_i by (fastforce simp: list_checkpoints_def)
  then have lst: "list_checkpoints ?db (cc_task_id c) (cc_run_id c) = ?l @ [?m]"
    unfolding list_checkpoints_def by (simp add: sort_key_snoc_max)
  have num': "numbered ?db (cc_task_id c) (cc_run_id c)"
    using num next_i unfolding numbered_def lst by simp
  have step': "in_step ?c ?db" using lst next_i by (simp add: in_step_def)
  show thesis by (rule that[OF rec _ _ _ _ _ _ lst num' step']) simp_all
qed

lemma begin_run_in_step: "begin_run hex t r db = (c, db') \<Longrightarrow>
  in_step c db' \<and> cc_task_id c = t \<and> cc_run_id c = r \<and> list_checkpoints db' = list_checkpoints db"
  by (auto simp: begin_run_def create_thread_def Let_def attach_thread_def build_controller_def in_step_def)

text \<open>A resumed controller continues where the recording one stopped.\<close>

lemma resume_in_step:
  assumes "in_step c db"
  shows "resume_run db (cc_task_id c) (cc_run_id c) =
    Inr (c\<lparr>cc_latest_id := (case rev (list_checkpoints db (cc_task_id c) (cc_run_id c)) of
             [] \<Rightarrow> None | m # ms \<Rightarrow> Some (cm_id m)), cc_is_resumed := True\<rparr>)"
  using assms
  by (cases c) (auto simp: resume_run_def get_resume_handle_def in_step_def build_from_handle_def
      build_controller_def Let_def split: list.splits)

lemma resume_unknown:
  "get_thread_id db t r = None \<Longrightarrow> resume_run db t r = Inl (ValueError (''no resume handle for '' @ t @ ''/'' @ r))"
  by (simp add: resume_run_def get_resume_handle_def)

text \<open>Several checkpoints in a row.\<close>

fun record_all ::
    "(string \<times> string \<times> string option) list \<Rightarrow> checkpoint_controller \<Rightarrow> checkpoint_db
     \<Rightarrow> checkpoint_controller \<times> checkpoint_db" where
  "record_all [] c db = (c, db)"
| "record_all ((hex, now, reason) # rs) c db =
     (case record_checkpoint hex now reason c db of (_, c', db') \<Rightarrow> record_all rs c' db')"

lemma record_checkpoint_rows:
  "record_checkpoint hex now reason c db = (x, c', db') \<Longrightarrow>
   fst ` set (cd_checkpoints db') \<subseteq> insert (ckpt_id hex) (fst ` set (cd_checkpoints db))"
  by (auto simp: record_checkpoint_def save_metadata_def Let_def tbl_insert_def split: if_splits)

lemma record_all_list:
  "numbered db (cc_task_id c) (cc_run_id c) \<Longrightarrow> in_step c db \<Longrightarrow> distinct (map fst rs) \<Longrightarrow>
   \<forall>h \<in> set (map fst rs). ckpt_id h \<notin> fst ` set (cd_checkpoints db) \<Longrightarrow>
   record_all rs c db = (c', db') \<Longrightarrow>
   map cm_id (list_checkpoints db' (cc_task_id c) (cc_run_id c)) =
     map cm_id (list_checkpoints db (cc_task_id c) (cc_run_id c)) @ map (\<lambda>x. ckpt_id (fst x)) rs \<and>
   numbered db' (cc_task_id c) (cc_run_id c) \<and> in_step c' db' \<and>
   cc_task_id c' = cc_task_id c \<and> cc_run_id c' = cc_run_id c"
proof (induction rs arbitrary: c db)
  case (Cons x rs)
  obtain hex now reason where x: "x = (hex, now, reason)" by (cases x)
  have "ckpt_id hex \<notin> fst ` set (cd_checkpoints db)" using Cons.prems x by simp
  from record_checkpoint_list[OF Cons.prems(1,2) this, of now reason]
  obtain m c1 db1 where r: "record_checkpoint hex now reason c db = (Inr m, c1, db1)"
    and id: "cm_id m = ckpt_id hex"
    and same: "cc_task_id c1 = cc_task_id c" "cc_run_id c1 = cc_run_id c"
    and l: "list_checkpoints db1 (cc_task_id c) (cc_run_id c) =
            list_checkpoints db (cc_task_id c) (cc_run_id c) @ [m]"
    and n: "numbered db1 (cc_task_id c) (cc_run_id c)" and s: "in_step c1 db1" by metis
  have fresh: "\<forall>h \<in> set (map fst rs). ckpt_id h \<notin> fst ` set (cd_checkpoints db1)"
  proof
    fix h assume "h \<in> set (map fst rs)"
    then have "h \<noteq> hex" and "ckpt_id h \<notin> fst ` set (cd_checkpoints db)"
      using Cons.prems(3,4) x by auto
    then show "ckpt_id h \<notin> fst ` set (cd_checkpoints db1)"
      using record_checkpoint_rows[OF r] by (meson ckpt_id_inj insertE subsetD)
  qed
  have "record_all rs c1 db1 = (c', db')" using Cons.prems(5) x r by simp
  moreover have "distinct (map fst rs)" using Cons.prems(3) by simp
  ultimately show ?case using Cons.IH[of db1 c1] n s fresh same l id x by simp
qed auto

section \<open>Properties\<close>

lemma list_checkpoints_fresh:
  "begin_run hex t r db = (c, db') \<Longrightarrow> cd_checkpoints db' = cd_checkpoints db"
  by (auto simp: begin_run_def create_thread_def Let_def)

text \<open>
  C39. The checkpoints of a run are numbered from 0 without gaps in the order they were recorded, whatever else
  the database holds, and resuming continues exactly where the recording controller stopped: on the same thread,
  from the last checkpoint, with the next free index.
\<close>

theorem checkpoints_numbered_and_resumed:
  assumes "list_checkpoints db t r = []" and "begin_run hex t r db = (c, db0)"
    and "distinct (map fst rs)" and "\<forall>h \<in> set (map fst rs). ckpt_id h \<notin> fst ` set (cd_checkpoints db)"
    and "record_all rs c db0 = (c', db')"
  shows "map cm_index (list_checkpoints db' t r) = map int [0..<length rs] \<and>
    map cm_id (list_checkpoints db' t r) = map (\<lambda>x. ckpt_id (fst x)) rs \<and>
    (\<exists>h. resume_run db' t r = Inr h \<and> cc_thread_id h = cc_thread_id c' \<and> cc_next_index h = int (length rs) \<and>
       cc_is_resumed h \<and> cc_latest_id h = (if rs = [] then None else Some (ckpt_id (fst (last rs)))))"
proof -
  note c = begin_run_in_step[OF assms(2)]
  have n0: "numbered db0 (cc_task_id c) (cc_run_id c)" using c assms(1) by (simp add: numbered_def)
  have "\<forall>h \<in> set (map fst rs). ckpt_id h \<notin> fst ` set (cd_checkpoints db0)"
    using assms(4) list_checkpoints_fresh[OF assms(2)] by simp
  from record_all_list[OF n0 _ assms(3) this assms(5)] c
  have all: "map cm_id (list_checkpoints db' t r) = map (\<lambda>x. ckpt_id (fst x)) rs"
      "numbered db' t r" "in_step c' db'" "cc_task_id c' = t" "cc_run_id c' = r"
    using assms(1) by simp_all
  have len: "length (list_checkpoints db' t r) = length rs" using arg_cong[OF all(1), of length] by simp
  have "rev (map cm_id (list_checkpoints db' t r)) = rev (map (\<lambda>x. ckpt_id (fst x)) rs)" using all(1) by simp
  then have latest: "(case rev (list_checkpoints db' t r) of [] \<Rightarrow> None | m # ms \<Rightarrow> Some (cm_id m)) =
      (if rs = [] then None else Some (ckpt_id (fst (last rs))))"
    by (cases rs rule: rev_cases; cases "list_checkpoints db' t r" rule: rev_cases) auto
  show ?thesis
    using resume_in_step[OF all(3)] all latest len by (auto simp: numbered_def in_step_def)
qed

theorem checkpoints_numbered_and_resumed_witness:
  "map cm_index (list_checkpoints (snd (record_all [(''a'', ''1'', None), (''b'', ''0'', Some ''x'')]
     (fst (begin_run ''h'' ''t'' ''r'' empty_checkpoints)) (snd (begin_run ''h'' ''t'' ''r'' empty_checkpoints)))) ''t'' ''r'')
   = [0, 1]"
proof -
  let ?b = "begin_run ''h'' ''t'' ''r'' empty_checkpoints"
  let ?rs = "[(''a'', ''1'', None), (''b'', ''0'', Some ''x'')]"
  obtain c db0 where b: "?b = (c, db0)" by force
  obtain c' db' where r: "record_all ?rs c db0 = (c', db')" by force
  show ?thesis
    using checkpoints_numbered_and_resumed[OF _ b _ _ r] b r
    by (simp add: empty_checkpoints_def list_checkpoints_def upt_rec)
qed

end
