(* ===== verification/Memory_Service.thy ===== *)
theory Memory_Service
  imports Db_Tables
begin

text \<open>
  \<open>services/memory_service\<close>: memory records (\<open>memory_models.py\<close>), scopes and promotion
  (\<open>memory_promotion.py\<close>) and the SQLite store (\<open>memory_store.py\<close>). The confidence is a float the service
  only carries: its type is a parameter of the record.
\<close>

record 'f memory_record =
  mm_id :: string
  mm_scope :: string
  mm_namespace :: string
  mm_content :: string
  mm_summary :: string
  mm_provenance :: pydict
  mm_created_at :: string
  mm_updated_at :: string
  mm_source_run :: "string option"
  mm_confidence :: "'f option"

definition valid_memory_scopes :: "string list" where
  "valid_memory_scopes = [''run_state'', ''project'', ''identity'', ''scratch'']"

definition promotable_memory_scopes :: "string list" where
  "promotable_memory_scopes = [''run_state'', ''scratch'']"

definition agent_writable_memory_scopes :: "string list" where
  "agent_writable_memory_scopes = [''run_state'', ''scratch'']"

definition validate_scope :: "string \<Rightarrow> string result" where
  "validate_scope scope =
     (let normalized = py_strip scope in
      if normalized \<notin> set valid_memory_scopes then Inl (ValueError (''unknown memory scope: '' @ scope))
      else Inr normalized)"

definition can_agent_write :: "string \<Rightarrow> bool result" where
  "can_agent_write scope =
     bindR (validate_scope scope) (\<lambda>n. Inr (n \<in> set agent_writable_memory_scopes))"

definition promote_record ::
    "'f memory_record \<Rightarrow> string \<Rightarrow> string \<Rightarrow> 'f memory_record result" where
  "promote_record r target_scope promoted_at =
     bindR (validate_scope (mm_scope r)) (\<lambda>source_scope.
     bindR (validate_scope target_scope) (\<lambda>normalized_target.
       if normalized_target \<noteq> ''project'' then Inl (ValueError ''memory promotion target must be project'')
       else if source_scope \<notin> set promotable_memory_scopes
         then Inl (ValueError (''memory in scope '' @ source_scope @ '' is not promotable''))
       else (let provenance = dict_set (mm_provenance r) ''promotion''
               (PDict [(''from_scope'', PStr source_scope), (''to_scope'', PStr normalized_target),
                       (''promoted_at'', PStr promoted_at)])
         in Inr (r\<lparr>mm_scope := normalized_target, mm_provenance := provenance,
                  mm_updated_at := promoted_at\<rparr>))))"

section \<open>The store\<close>

type_synonym 'f memory_table = "(string, 'f memory_record) table"

text \<open>The columns \<open>DO UPDATE SET\<close> writes: all but \<open>memory_id\<close> and \<open>created_at\<close>.\<close>

definition memory_fuse :: "'f memory_record \<Rightarrow> 'f memory_record \<Rightarrow> 'f memory_record" where
  "memory_fuse old new = new\<lparr>mm_created_at := mm_created_at old\<rparr>"

definition memory_put :: "string \<Rightarrow> 'f memory_record \<Rightarrow> 'f memory_table \<Rightarrow> 'f memory_table" where
  "memory_put k v t = tbl_upsert k (case tbl_get t k of None \<Rightarrow> v | Some old \<Rightarrow> memory_fuse old v) t"

definition memory_row :: "'f memory_record \<Rightarrow> 'f memory_record" where
  "memory_row r = r\<lparr>mm_provenance := json_dict (mm_provenance r)\<rparr>"

definition write_memory :: "'f memory_record \<Rightarrow> 'f memory_table \<Rightarrow> 'f memory_table result" where
  "write_memory r t = bindR (validate_scope (mm_scope r)) (\<lambda>_. Inr (memory_put (mm_id r) (memory_row r) t))"

definition read_memory :: "'f memory_table \<Rightarrow> string \<Rightarrow> 'f memory_record option" where
  "read_memory t i = tbl_get t i"

definition list_memory ::
    "'f memory_table \<Rightarrow> string option \<Rightarrow> string option \<Rightarrow> 'f memory_record list" where
  "list_memory t scope namespace = sort_key (\<lambda>m. (mm_created_at m, mm_id m))
     (filter (\<lambda>m. (case scope of None \<Rightarrow> True | Some s \<Rightarrow> mm_scope m = s)
                \<and> (case namespace of None \<Rightarrow> True | Some n \<Rightarrow> mm_namespace m = n)) (map snd t))"

definition promote_memory ::
    "string \<Rightarrow> string \<Rightarrow> string \<Rightarrow> 'f memory_table \<Rightarrow> ('f memory_record option \<times> 'f memory_table) result" where
  "promote_memory i target_scope now t = (case read_memory t i of
     None \<Rightarrow> Inr (None, t)
   | Some r \<Rightarrow>
       bindR (promote_record r target_scope now) (\<lambda>promoted.
       bindR (write_memory promoted t) (\<lambda>t'. Inr (Some promoted, t'))))"

definition delete_memory :: "string \<Rightarrow> 'f memory_table \<Rightarrow> 'f memory_table" where
  "delete_memory i t = tbl_delete i t"

interpretation memory_rows: upsert_store memory_put tbl_get memory_fuse
  by unfold_locales (auto simp: memory_put_def split: option.splits)

lemma memory_fuse_fuse: "memory_fuse (memory_fuse a b) c = memory_fuse a c"
  by (simp add: memory_fuse_def)

section \<open>Scopes\<close>

lemma validate_scope_Inr:
  "validate_scope s = Inr n \<longleftrightarrow> n = py_strip s \<and> n \<in> set valid_memory_scopes"
  by (auto simp: validate_scope_def Let_def)

lemma valid_scope_strip [simp]: "n \<in> set valid_memory_scopes \<Longrightarrow> py_strip n = n"
  by (auto simp: valid_memory_scopes_def py_strip_def py_isspace_def code_point_def)

lemma validate_scope_idem: "validate_scope s = Inr n \<Longrightarrow> validate_scope n = Inr n"
  by (auto simp: validate_scope_Inr)

lemma promote_record_Inr:
  "promote_record r target now = Inr p \<longleftrightarrow>
   py_strip target = ''project'' \<and> py_strip (mm_scope r) \<in> {''run_state'', ''scratch''} \<and>
   p = r\<lparr>mm_scope := ''project'',
         mm_provenance := dict_set (mm_provenance r) ''promotion''
           (PDict [(''from_scope'', PStr (py_strip (mm_scope r))), (''to_scope'', PStr ''project''),
                   (''promoted_at'', PStr now)]),
         mm_updated_at := now\<rparr>"
  by (auto simp: promote_record_def bindR_Inr_iff validate_scope_Inr Let_def valid_memory_scopes_def
      promotable_memory_scopes_def)

lemma write_memory_Inr:
  "write_memory r t = Inr t' \<longleftrightarrow>
   py_strip (mm_scope r) \<in> set valid_memory_scopes \<and> t' = memory_put (mm_id r) (memory_row r) t"
  by (auto simp: write_memory_def bindR_Inr_iff validate_scope_Inr)

text \<open>What a write leaves in the store.\<close>

lemma read_write_memory:
  assumes "write_memory r t = Inr t'"
  shows "read_memory t' i = (if i = mm_id r
    then Some (case read_memory t i of None \<Rightarrow> memory_row r | Some old \<Rightarrow> memory_fuse old (memory_row r))
    else read_memory t i)"
  using assms by (auto simp: write_memory_Inr read_memory_def memory_rows.get_put)

definition memory_rows_ok :: "'f memory_table \<Rightarrow> bool" where
  "memory_rows_ok t \<longleftrightarrow> tbl_ok t \<and>
     list_all (\<lambda>kv. fst kv = mm_id (snd kv) \<and> py_strip (mm_scope (snd kv)) \<in> set valid_memory_scopes) t"

lemma memory_rows_ok_write:
  assumes "memory_rows_ok t" and "write_memory r t = Inr t'"
  shows "memory_rows_ok t'"
proof -
  obtain v where v: "t' = tbl_upsert (mm_id r) v t" "mm_id v = mm_id r" "mm_scope v = mm_scope r"
      "py_strip (mm_scope r) \<in> set valid_memory_scopes"
    using assms(2) by (auto simp: write_memory_Inr memory_put_def memory_row_def memory_fuse_def split: option.splits)
  then show ?thesis using assms(1) set_tbl_upsert[of "mm_id r" v t]
    by (fastforce simp: memory_rows_ok_def list_all_iff)
qed

lemma memory_rows_ok_delete: "memory_rows_ok t \<Longrightarrow> memory_rows_ok (delete_memory i t)"
  by (auto simp: memory_rows_ok_def delete_memory_def list_all_iff) (auto simp: tbl_delete_def)

lemma memory_rows_ok_promote:
  "memory_rows_ok t \<Longrightarrow> promote_memory i target now t = Inr (res, t') \<Longrightarrow> memory_rows_ok t'"
  by (auto simp: promote_memory_def bindR_Inr_iff split: option.splits dest: memory_rows_ok_write)

lemma list_memory_complete:
  "memory_rows_ok t \<Longrightarrow> m \<in> set (list_memory t scope namespace) \<longleftrightarrow>
     read_memory t (mm_id m) = Some m \<and> (scope = None \<or> scope = Some (mm_scope m)) \<and>
     (namespace = None \<or> namespace = Some (mm_namespace m))"
proof -
  assume ok: "memory_rows_ok t"
  have "m \<in> snd ` set t \<longleftrightarrow> read_memory t (mm_id m) = Some m"
    using ok tbl_get_in[of t] tbl_get_SomeD[of t "mm_id m" m]
    by (force simp: memory_rows_ok_def read_memory_def list_all_iff)
  then show ?thesis by (auto simp: list_memory_def split: option.splits)
qed

section \<open>Properties\<close>

text \<open>
  Promotion moves a memory: only a record of the run or scratch scope can be promoted, and only to the project
  scope; afterwards it is listed in the project scope and no longer in its old one, its content and creation
  time unchanged, and every other record reads as before.
\<close>

theorem promotion_moves_a_memory:
  assumes "memory_rows_ok t" and "promote_memory i target now t = Inr (Some p, t')"
  shows "\<exists>old new. read_memory t i = Some old \<and> read_memory t' i = Some new \<and>
    py_strip target = ''project'' \<and> py_strip (mm_scope old) \<in> {''run_state'', ''scratch''} \<and>
    mm_scope new = ''project'' \<and> mm_content new = mm_content old \<and> mm_created_at new = mm_created_at old \<and>
    mm_updated_at new = now \<and> new \<in> set (list_memory t' (Some ''project'') None) \<and>
    (\<forall>m \<in> set (list_memory t' (Some (mm_scope old)) None). mm_id m \<noteq> i) \<and>
    (\<forall>j. j \<noteq> i \<longrightarrow> read_memory t' j = read_memory t j)"
proof -
  obtain old where old: "read_memory t i = Some old" and p: "promote_record old target now = Inr p"
      and w: "write_memory p t = Inr t'"
    using assms(2) by (auto simp: promote_memory_def bindR_Inr_iff split: option.splits)
  have id: "mm_id old = i"
    using assms(1) old by (auto simp: memory_rows_ok_def read_memory_def list_all_iff dest!: tbl_get_SomeD)
  note pr = p[unfolded promote_record_Inr]
  have ids: "mm_id p = i" using pr id by simp
  define new where "new = memory_fuse old (memory_row p)"
  have new: "read_memory t' i = Some new"
    using read_write_memory[OF w, of i] old ids by (simp add: new_def)
  have fields: "mm_scope new = ''project''" "mm_content new = mm_content old" "mm_created_at new = mm_created_at old"
      "mm_updated_at new = now" "mm_id new = i"
    using pr id by (auto simp: new_def memory_fuse_def memory_row_def)
  have ok': "memory_rows_ok t'" using memory_rows_ok_write[OF assms(1) w] .
  have "new \<in> set (list_memory t' (Some ''project'') None)"
    using list_memory_complete[OF ok', of new "Some ''project''" None] new fields by simp
  moreover have "mm_id m \<noteq> i" if "m \<in> set (list_memory t' (Some (mm_scope old)) None)" for m
  proof
    assume "mm_id m = i"
    then have "m = new" "mm_scope m = mm_scope old"
      using that list_memory_complete[OF ok', of m "Some (mm_scope old)" None] new by auto
    then have "mm_scope old = ''project''" using fields(1) by simp
    then show False using pr by (auto simp: py_strip_def py_isspace_def code_point_def)
  qed
  moreover have "read_memory t' j = read_memory t j" if "j \<noteq> i" for j
    using read_write_memory[OF w, of j] ids that by simp
  ultimately show ?thesis using old new pr fields by blast
qed

definition sample_memory :: "string memory_table" where
  "sample_memory = [(''m'', \<lparr>mm_id = ''m'', mm_scope = ''scratch'', mm_namespace = ''n'', mm_content = ''c'',
     mm_summary = ''s'', mm_provenance = [], mm_created_at = ''1'', mm_updated_at = ''1'', mm_source_run = None,
     mm_confidence = None\<rparr>)]"

theorem promotion_moves_a_memory_witness:
  "\<exists>p t' new. promote_memory ''m'' ''project'' ''2'' sample_memory = Inr (Some p, t') \<and>
     read_memory t' ''m'' = Some new \<and> mm_scope new = ''project'' \<and> mm_created_at new = ''1''"
proof -
  have ok: "memory_rows_ok sample_memory"
    by (simp add: memory_rows_ok_def tbl_ok_def sample_memory_def valid_memory_scopes_def)
  have s: "py_strip ''project'' = ''project''" "py_strip ''scratch'' = ''scratch''" by code_simp+
  obtain p t' where p: "promote_memory ''m'' ''project'' ''2'' sample_memory = Inr (Some p, t')"
    by (simp add: promote_memory_def read_memory_def tbl_get_def sample_memory_def promote_record_def
        validate_scope_def valid_memory_scopes_def promotable_memory_scopes_def s Let_def write_memory_def)
  have "read_memory sample_memory ''m'' = Some (snd (hd sample_memory))"
    by (simp add: read_memory_def tbl_get_def sample_memory_def)
  then show ?thesis
    using promotion_moves_a_memory[OF ok p] p by (fastforce simp: sample_memory_def)
qed

end
