(* ===== verification/Observability.thy ===== *)
theory Observability
  imports Event_Bus
begin

text \<open>
  \<open>services/observability_service\<close>: the tables of persisted events, diagnostics, run metrics, run messages
  and conversation compactions. Columns \<open>source\<close>, \<open>payload\<close>, \<open>details\<close> and \<open>provenance\<close> are
  JSON. The event store interprets the contract \<open>event_log\<close> of the event bus.
\<close>

section \<open>Persisted events\<close>

record persisted_event =
  pe_id :: string
  pe_type :: string
  pe_timestamp :: string
  pe_task_id :: string
  pe_run_id :: string
  pe_correlation_id :: "string option"
  pe_source :: pydict
  pe_payload :: pydict

type_synonym event_table = "(string, persisted_event) table"

definition coerce_event :: "event_envelope \<Rightarrow> persisted_event result" where
  "coerce_event e = (case (ev_task_id e, ev_run_id e) of
     (Some t, Some r) \<Rightarrow> Inr \<lparr>pe_id = ev_id e, pe_type = ev_type e, pe_timestamp = ev_timestamp e,
        pe_task_id = t, pe_run_id = r, pe_correlation_id = ev_correlation_id e,
        pe_source = source_to_dict (ev_source e), pe_payload = ev_payload e\<rparr>
   | _ \<Rightarrow> Inl (ValueError ''persisted runtime events must include task_id and run_id''))"

text \<open>What reading the row back gives.\<close>

definition stored_event :: "persisted_event \<Rightarrow> persisted_event" where
  "stored_event p = p\<lparr>pe_source := json_dict (pe_source p), pe_payload := json_dict (pe_payload p)\<rparr>"

definition append_event :: "event_envelope \<Rightarrow> event_table \<Rightarrow> event_table result" where
  "append_event e t = bindR (coerce_event e) (\<lambda>p. Inr (tbl_replace (pe_id p) (stored_event p) t))"

definition list_run_keys :: "event_table \<Rightarrow> run_key list" where
  "list_run_keys t = sort (remdups (map (\<lambda>kv. (pe_task_id (snd kv), pe_run_id (snd kv))) t))"

text \<open>The rows after the one with the given id; all of them when there is none.\<close>

fun rows_after :: "string \<Rightarrow> event_table \<Rightarrow> event_table option" where
  "rows_after i [] = None"
| "rows_after i (kv # t) = (if fst kv = i then Some t else rows_after i t)"

definition get_events ::
    "event_table \<Rightarrow> string \<Rightarrow> string option \<Rightarrow> string option \<Rightarrow> persisted_event list" where
  "get_events t task run from_id =
     (let rows = (case from_id of None \<Rightarrow> t
                  | Some i \<Rightarrow> (case rows_after i t of None \<Rightarrow> t | Some r \<Rightarrow> r))
      in filter (\<lambda>p. pe_task_id p = task \<and> (case run of None \<Rightarrow> True | Some r \<Rightarrow> pe_run_id p = r))
           (map snd rows))"

definition event_rows_ok :: "event_table \<Rightarrow> bool" where
  "event_rows_ok t \<longleftrightarrow> tbl_ok t \<and> list_all (\<lambda>kv. fst kv = pe_id (snd kv)) t"

lemma event_rows_ok_append: "event_rows_ok t \<Longrightarrow> append_event e t = Inr t' \<Longrightarrow> event_rows_ok t'"
  by (auto simp: append_event_def bindR_Inr_iff event_rows_ok_def tbl_ok_replace stored_event_def)
    (auto simp: tbl_replace_def list_all_iff)

definition event_log_of :: "event_table \<Rightarrow> run_key \<Rightarrow> persisted_event list" where
  "event_log_of t k = get_events t (fst k) (Some (snd k)) None"

definition event_view :: "event_envelope \<Rightarrow> persisted_event" where
  "event_view e = (case coerce_event e of Inr p \<Rightarrow> stored_event p
     | Inl _ \<Rightarrow> \<lparr>pe_id = [], pe_type = [], pe_timestamp = [], pe_task_id = [], pe_run_id = [],
                pe_correlation_id = None, pe_source = [], pe_payload = []\<rparr>)"

definition event_fresh :: "event_table \<Rightarrow> string \<Rightarrow> bool" where
  "event_fresh t i \<longleftrightarrow> i \<notin> fst ` set t"

lemma coerce_event_key: "event_key e = Some k \<Longrightarrow>
  \<exists>p. coerce_event e = Inr p \<and> pe_id p = ev_id e \<and> pe_task_id p = fst k \<and> pe_run_id p = snd k"
  by (auto simp: event_key_def coerce_event_def split: option.splits)

lemma coerce_event_anonymous: "event_key e = None \<Longrightarrow>
  coerce_event e = Inl (ValueError ''persisted runtime events must include task_id and run_id'')"
  by (auto simp: event_key_def coerce_event_def split: option.splits)

interpretation event_rows: event_log event_log_of append_event event_view event_fresh
proof
  fix s s' :: event_table and e k k' i
  show "event_key e \<noteq> None \<Longrightarrow> \<exists>s'. append_event e s = Inr s'"
    using coerce_event_key[of e] by (auto simp: append_event_def)
  show "event_key e = None \<Longrightarrow> \<exists>m. append_event e s = Inl (ValueError m)"
    by (simp add: append_event_def coerce_event_anonymous)
  show "append_event e s = Inr s' \<Longrightarrow> event_fresh s i \<Longrightarrow> i \<noteq> ev_id e \<Longrightarrow> event_fresh s' i"
    by (auto simp: append_event_def bindR_Inr_iff event_fresh_def tbl_replace_def coerce_event_def
        split: option.splits)
  assume fr: "event_fresh s (ev_id e)" and k: "event_key e = Some k" and s': "append_event e s = Inr s'"
  obtain p where p: "coerce_event e = Inr p" "pe_id p = ev_id e" "pe_task_id p = fst k" "pe_run_id p = snd k"
    using coerce_event_key[OF k] by blast
  have "s' = s @ [(ev_id e, stored_event p)]"
    using s' fr p by (simp add: append_event_def event_fresh_def tbl_replace_fresh)
  then show "event_log_of s' k' = (if k' = k then event_log_of s k @ [event_view e] else event_log_of s k')"
    using p by (cases k; cases k') (auto simp: event_log_of_def get_events_def event_view_def stored_event_def)
qed

text \<open>Reading from an event of the run on.\<close>

lemma rows_after_split: "rows_after i t = Some r \<Longrightarrow> \<exists>l v. t = l @ (i, v) # r \<and> i \<notin> fst ` set l"
proof (induction t)
  case (Cons kv t)
  show ?case
  proof (cases "fst kv = i")
    case True
    then show ?thesis using Cons.prems by (intro exI[of _ "[]"]) (cases kv, auto)
  next
    case False
    then obtain l v where "t = l @ (i, v) # r" "i \<notin> fst ` set l" using Cons by auto
    then show ?thesis using False by (intro exI[of _ "kv # l"] exI[of _ v]) auto
  qed
qed simp

lemma rows_after_None: "rows_after i t = None \<longleftrightarrow> i \<notin> fst ` set t"
  by (induction t) auto

lemma get_events_from:
  assumes "event_rows_ok t" and "get_events t task run None = xs @ p # ys"
  shows "get_events t task run (Some (pe_id p)) = ys"
proof -
  let ?P = "\<lambda>p. pe_task_id p = task \<and> (case run of None \<Rightarrow> True | Some r \<Rightarrow> pe_run_id p = r)"
  have all: "filter ?P (map snd t) = xs @ p # ys" using assms(2) by (simp add: get_events_def)
  then obtain us vs where uv: "map snd t = us @ p # vs" "filter ?P us = xs" "filter ?P vs = ys"
    using filter_splitD[OF all] by blast
  then obtain l r k where t: "t = l @ (k, p) # r" "map snd l = us" "map snd r = vs"
    by (auto simp: map_eq_append_conv map_eq_Cons_conv)
  have ids: "k = pe_id p" "pe_id p \<notin> fst ` set l" "pe_id p \<notin> fst ` set r"
    using assms(1) t by (auto simp: event_rows_ok_def tbl_ok_def)
  obtain r' where r': "rows_after (pe_id p) t = Some r'"
    using rows_after_None[of "pe_id p" t] t ids by (cases "rows_after (pe_id p) t") auto
  obtain l2 v where "t = l2 @ (pe_id p, v) # r'" "pe_id p \<notin> fst ` set l2"
    using rows_after_split[OF r'] by blast
  moreover have "pe_id p \<notin> fst ` set r" by (rule ids)
  ultimately have "r' = r" using t ids(1,2)
    by (auto simp: append_eq_append_conv2 append_eq_Cons_conv Cons_eq_append_conv)
  then show ?thesis using r' t uv by (simp add: get_events_def)
qed

section \<open>Diagnostics\<close>

record diagnostic_record =
  dg_id :: string
  dg_task_id :: string
  dg_run_id :: string
  dg_kind :: string
  dg_message :: string
  dg_created_at :: string
  dg_details :: pydict

text \<open>\<open>append_diagnostic\<close>; the new id and the time are the caller's.\<close>

definition append_diagnostic ::
    "diagnostic_record \<Rightarrow> (string, diagnostic_record) table \<Rightarrow> (string, diagnostic_record) table result" where
  "append_diagnostic d t = tbl_insert ''UNIQUE constraint failed: diagnostics.diagnostic_id'' (dg_id d)
     (d\<lparr>dg_details := json_dict (dg_details d)\<rparr>) t"

definition list_diagnostics ::
    "(string, diagnostic_record) table \<Rightarrow> string \<Rightarrow> string option \<Rightarrow> diagnostic_record list" where
  "list_diagnostics t task run = sort_key (\<lambda>d. (dg_created_at d, dg_id d))
     (filter (\<lambda>d. dg_task_id d = task \<and> (case run of None \<Rightarrow> True | Some r \<Rightarrow> dg_run_id d = r)) (map snd t))"

section \<open>Run metrics\<close>

record run_metrics =
  mt_task_id :: string
  mt_run_id :: string
  mt_started_at :: "string option"
  mt_ended_at :: "string option"
  mt_event_count :: int
  mt_artifact_count :: int
  mt_checkpoint_count :: int
  mt_approval_count :: int
  mt_resume_count :: int
  mt_deny_count :: int
  mt_last_updated_at :: "string option"

definition empty_metrics :: "string \<Rightarrow> string \<Rightarrow> run_metrics" where
  "empty_metrics t r = \<lparr>mt_task_id = t, mt_run_id = r, mt_started_at = None, mt_ended_at = None,
     mt_event_count = 0, mt_artifact_count = 0, mt_checkpoint_count = 0, mt_approval_count = 0,
     mt_resume_count = 0, mt_deny_count = 0, mt_last_updated_at = None\<rparr>"

type_synonym metrics_table = "(run_key, run_metrics) table"

definition write_metrics :: "run_metrics \<Rightarrow> metrics_table \<Rightarrow> metrics_table" where
  "write_metrics m t = tbl_upsert (mt_task_id m, mt_run_id m) m t"

definition read_metrics :: "metrics_table \<Rightarrow> string \<Rightarrow> string \<Rightarrow> run_metrics option" where
  "read_metrics t task run = tbl_get t (task, run)"

lemma read_write_metrics [simp, table_laws]:
  "read_metrics (write_metrics m t) task run =
   (if (task, run) = (mt_task_id m, mt_run_id m) then Some m else read_metrics t task run)"
  by (simp add: read_metrics_def write_metrics_def)

text \<open>The columns \<open>_ensure_schema\<close> adds to a table of an older version.\<close>

definition migrated_columns :: "string list" where
  "migrated_columns = [''started_at'', ''ended_at'', ''event_count'', ''artifact_count'', ''deny_count'']"

definition migration_statement :: "string \<Rightarrow> string" where
  "migration_statement c = ''ALTER TABLE run_metrics ADD COLUMN '' @ c @
     (if c \<in> {''started_at'', ''ended_at''} then '' TEXT'' else '' INTEGER NOT NULL DEFAULT 0'')"

definition schema_migrations :: "string set \<Rightarrow> string list" where
  "schema_migrations existing =
     (if ''started_at'' \<notin> existing then [migration_statement ''started_at''] else [])
     @ (if ''ended_at'' \<notin> existing then [migration_statement ''ended_at''] else [])
     @ (if ''event_count'' \<notin> existing then [migration_statement ''event_count''] else [])
     @ (if ''artifact_count'' \<notin> existing then [migration_statement ''artifact_count''] else [])
     @ (if ''deny_count'' \<notin> existing then [migration_statement ''deny_count''] else [])"

lemma schema_migrations_eq:
  "schema_migrations existing = map migration_statement (filter (\<lambda>c. c \<notin> existing) migrated_columns)"
  by (simp add: schema_migrations_def migrated_columns_def)

section \<open>Run messages\<close>

record run_message =
  ms_id :: string
  ms_task_id :: string
  ms_run_id :: string
  ms_role :: string
  ms_content :: string
  ms_created_at :: string

type_synonym message_table = "(string, run_message) table"

definition append_message :: "run_message \<Rightarrow> message_table \<Rightarrow> message_table" where
  "append_message m t = tbl_replace (ms_id m) m t"

definition list_messages :: "message_table \<Rightarrow> string \<Rightarrow> string \<Rightarrow> run_message list" where
  "list_messages t task run = sort_key ms_created_at
     (filter (\<lambda>m. ms_task_id m = task \<and> ms_run_id m = run) (map snd t))"

text \<open>A message that is not older than any other of its run comes last.\<close>

lemma list_messages_append:
  assumes "ms_id m \<notin> fst ` set t"
    and "\<forall>x \<in> set (list_messages t (ms_task_id m) (ms_run_id m)). ms_created_at x \<le> ms_created_at m"
  shows "list_messages (append_message m t) (ms_task_id m) (ms_run_id m) =
    list_messages t (ms_task_id m) (ms_run_id m) @ [m]"
  using assms(2) unfolding list_messages_def append_message_def tbl_replace_fresh[OF assms(1)]
  by (simp add: sort_key_snoc_max)

lemma list_messages_append_other:
  assumes "ms_id m \<notin> fst ` set t" and "(task, run) \<noteq> (ms_task_id m, ms_run_id m)"
  shows "list_messages (append_message m t) task run = list_messages t task run"
  using assms(2) unfolding list_messages_def append_message_def tbl_replace_fresh[OF assms(1)] by auto

section \<open>Conversation compactions\<close>

record compaction_record =
  cp_id :: string
  cp_task_id :: string
  cp_run_id :: string
  cp_trigger :: string
  cp_strategy :: string
  cp_cutoff_index :: int
  cp_summary_content :: string
  cp_created_at :: string
  cp_provenance :: pydict
  cp_artifact_path :: "string option"

type_synonym compaction_table = "(string, compaction_record) table"

definition append_compaction :: "compaction_record \<Rightarrow> compaction_table \<Rightarrow> compaction_table" where
  "append_compaction c t = tbl_replace (cp_id c) (c\<lparr>cp_provenance := json_dict (cp_provenance c)\<rparr>) t"

definition run_compactions :: "compaction_table \<Rightarrow> string \<Rightarrow> string \<Rightarrow> compaction_record list" where
  "run_compactions t task run = sort_key cp_created_at
     (filter (\<lambda>c. cp_task_id c = task \<and> cp_run_id c = run) (map snd t))"

definition latest_compaction :: "compaction_table \<Rightarrow> string \<Rightarrow> string \<Rightarrow> compaction_record option" where
  "latest_compaction t task run = (case rev (run_compactions t task run) of [] \<Rightarrow> None | c # cs \<Rightarrow> Some c)"

lemma latest_append_compaction:
  assumes "cp_id c \<notin> fst ` set t"
    and "\<forall>x \<in> set (run_compactions t (cp_task_id c) (cp_run_id c)). cp_created_at x \<le> cp_created_at c"
  shows "latest_compaction (append_compaction c t) (cp_task_id c) (cp_run_id c) =
    Some (c\<lparr>cp_provenance := json_dict (cp_provenance c)\<rparr>)"
  using assms(2)
  unfolding latest_compaction_def run_compactions_def append_compaction_def tbl_replace_fresh[OF assms(1)]
  by (simp add: sort_key_snoc_max)

lemma latest_append_compaction_other:
  assumes "cp_id c \<notin> fst ` set t" and "(task, run) \<noteq> (cp_task_id c, cp_run_id c)"
  shows "latest_compaction (append_compaction c t) task run = latest_compaction t task run"
  using assms(2)
  unfolding latest_compaction_def run_compactions_def append_compaction_def tbl_replace_fresh[OF assms(1)]
  by auto

lemma latest_compaction_run:
  "latest_compaction t task run = Some c \<Longrightarrow> cp_task_id c = task \<and> cp_run_id c = run"
proof -
  assume "latest_compaction t task run = Some c"
  then have "c \<in> set (run_compactions t task run)"
    by (auto simp: latest_compaction_def split: list.splits)
  then show ?thesis by (simp add: run_compactions_def)
qed

end
