(* ===== verification/Conversation_Compaction.thy ===== *)
theory Conversation_Compaction
  imports Observability
begin

text \<open>
  Conversation compaction: \<open>deepagent_runtime/compaction_strategy.py\<close> (\<open>compact_messages\<close> and the observer
  middleware) and \<open>apps/runtime/conversation_compaction_service.py\<close>. The summarization middleware of
  \<open>deepagents\<close> is third-party code: where it cuts, how it partitions the messages and what it writes as the
  summary are parameters of \<open>summarizer\<close>.
\<close>

record chat_message =
  cx_role :: string
  cx_content :: string

datatype base_message = AIMessage string | SystemMessage string | HumanMessage string

definition message_from_payload :: "chat_message \<Rightarrow> base_message" where
  "message_from_payload m =
     (if cx_role m = ''assistant'' then AIMessage (cx_content m)
      else if cx_role m = ''system'' then SystemMessage (cx_content m)
      else HumanMessage (cx_content m))"

fun payload_from_message :: "base_message \<Rightarrow> chat_message" where
  "payload_from_message (AIMessage c) = \<lparr>cx_role = ''assistant'', cx_content = c\<rparr>"
| "payload_from_message (SystemMessage c) = \<lparr>cx_role = ''system'', cx_content = c\<rparr>"
| "payload_from_message (HumanMessage c) = \<lparr>cx_role = ''user'', cx_content = c\<rparr>"

record summarizer =
  sz_cutoff :: "base_message list \<Rightarrow> int"
  sz_partition :: "base_message list \<Rightarrow> int \<Rightarrow> base_message list \<times> base_message list"
  sz_summary :: "base_message list \<Rightarrow> string"

record compaction_snapshot =
  sn_id :: string
  sn_trigger :: compaction_trigger
  sn_strategy :: string
  sn_cutoff_index :: int
  sn_summary_content :: string
  sn_created_at :: string
  sn_provenance :: pydict
  sn_artifact_path :: "string option"

definition compact_messages ::
    "summarizer \<Rightarrow> string \<Rightarrow> string \<Rightarrow> chat_message list \<Rightarrow> compaction_trigger
     \<Rightarrow> compaction_snapshot option \<times> chat_message list" where
  "compact_messages sz event_id now messages trigger =
     (if length messages \<le> 1 then (None, messages)
      else (let base = map message_from_payload messages; cutoff = sz_cutoff sz base in
        if cutoff \<le> 0 then (None, messages)
        else (let (to_summarize, preserved) = sz_partition sz base cutoff;
                  summary = sz_summary sz to_summarize in
          (Some \<lparr>sn_id = ''cmp_'' @ event_id, sn_trigger = trigger, sn_strategy = ''deepagents_native'',
                 sn_cutoff_index = cutoff, sn_summary_content = summary, sn_created_at = now,
                 sn_provenance = [(''message_count'', PInt (int (length messages)))],
                 sn_artifact_path = None\<rparr>,
           \<lparr>cx_role = ''user'', cx_content = summary\<rparr> # map payload_from_message preserved))))"

section \<open>The service\<close>

definition canonical_messages :: "message_table \<Rightarrow> string \<Rightarrow> string \<Rightarrow> chat_message list" where
  "canonical_messages t task run =
     map (\<lambda>m. \<lparr>cx_role = ms_role m, cx_content = ms_content m\<rparr>) (list_messages t task run)"

definition projected_messages ::
    "message_table \<Rightarrow> compaction_table \<Rightarrow> string \<Rightarrow> string \<Rightarrow> chat_message list" where
  "projected_messages mt ct task run =
     (let canonical = canonical_messages mt task run in
      case latest_compaction ct task run of
        None \<Rightarrow> canonical
      | Some c \<Rightarrow> \<lparr>cx_role = ''user'', cx_content = cp_summary_content c\<rparr> # py_drop (cp_cutoff_index c) canonical)"

definition compact_run ::
    "summarizer \<Rightarrow> string \<Rightarrow> string \<Rightarrow> message_table \<Rightarrow> string \<Rightarrow> string \<Rightarrow> compaction_trigger \<Rightarrow> compaction_table
     \<Rightarrow> compaction_record option \<times> compaction_table" where
  "compact_run sz event_id now mt task run trigger ct =
     (case fst (compact_messages sz event_id now (canonical_messages mt task run) trigger) of
        None \<Rightarrow> (None, ct)
      | Some sn \<Rightarrow>
          (let r = \<lparr>cp_id = sn_id sn, cp_task_id = task, cp_run_id = run,
                    cp_trigger = trigger_value (sn_trigger sn), cp_strategy = sn_strategy sn,
                    cp_cutoff_index = sn_cutoff_index sn, cp_summary_content = sn_summary_content sn,
                    cp_created_at = sn_created_at sn, cp_provenance = sn_provenance sn,
                    cp_artifact_path = sn_artifact_path sn\<rparr>
           in (Some r, append_compaction r ct)))"

section \<open>The observer middleware\<close>

text \<open>
  \<open>_emit_if_new\<close>: the signature of the last event, and the payload handed to \<open>on_compaction\<close>. The
  arguments are the fields of the middleware's event; \<open>None\<close> is an event that is not a dict.
\<close>

type_synonym compaction_signature = "pyval \<times> pyval \<times> pyval"

definition emit_if_new ::
    "string \<Rightarrow> string \<Rightarrow> compaction_signature option \<Rightarrow> compaction_signature option \<Rightarrow> compaction_trigger
     \<Rightarrow> pydict option \<times> compaction_signature option" where
  "emit_if_new event_id now event last_sig trigger = (case event of
     None \<Rightarrow> (None, last_sig)
   | Some (cutoff, file_path, content) \<Rightarrow>
       (let signature = (cutoff, file_path, content) in
        if last_sig = Some signature then (None, last_sig)
        else (case cutoff of
            PInt n \<Rightarrow> (Some [(''compaction_id'', PStr event_id), (''trigger'', PStr (trigger_value trigger)),
                (''strategy'', PStr ''deepagents_native''), (''cutoff_index'', PInt n),
                (''summary'', PStr ''Conversation context compacted during Deep Agent execution.''),
                (''created_at'', PStr now), (''artifact_path'', opt_str (as_str file_path))], Some signature)
          | PBool b \<Rightarrow> (Some [(''compaction_id'', PStr event_id), (''trigger'', PStr (trigger_value trigger)),
                (''strategy'', PStr ''deepagents_native''), (''cutoff_index'', PBool b),
                (''summary'', PStr ''Conversation context compacted during Deep Agent execution.''),
                (''created_at'', PStr now), (''artifact_path'', opt_str (as_str file_path))], Some signature)
          | _ \<Rightarrow> (None, Some signature))))"

section \<open>What a compaction leaves of the conversation\<close>

text \<open>What the service relies on: the middleware cuts the list at the index it chose.\<close>

definition cuts_at_index :: "summarizer \<Rightarrow> bool" where
  "cuts_at_index sz \<longleftrightarrow> (\<forall>ms n. 0 < n \<longrightarrow> sz_partition sz ms n = (take (nat n) ms, drop (nat n) ms))"

definition known_roles :: "chat_message list \<Rightarrow> bool" where
  "known_roles ms \<longleftrightarrow> list_all (\<lambda>m. cx_role m \<in> {''assistant'', ''system'', ''user''}) ms"

lemma payload_roundtrip: "cx_role m \<in> {''assistant'', ''system'', ''user''} \<Longrightarrow>
  payload_from_message (message_from_payload m) = m"
  by (cases m) (auto simp: message_from_payload_def)

lemma payload_roundtrip_list: "known_roles ms \<Longrightarrow>
  map payload_from_message (map message_from_payload ms) = ms"
  by (induction ms) (auto simp: known_roles_def payload_roundtrip)

lemma py_drop_nat: "0 < n \<Longrightarrow> py_drop n xs = drop (nat n) xs"
  by (simp add: py_drop_def py_bound_def)

lemma compact_messages_Some:
  assumes "compact_messages sz i now ms trigger = (Some sn, proj)" and "cuts_at_index sz" and "known_roles ms"
  shows "0 < sn_cutoff_index sn \<and> sn_id sn = ''cmp_'' @ i \<and> sn_created_at sn = now \<and> sn_trigger sn = trigger \<and>
    proj = \<lparr>cx_role = ''user'', cx_content = sn_summary_content sn\<rparr> # py_drop (sn_cutoff_index sn) ms"
proof -
  let ?b = "map message_from_payload ms"
  let ?n = "sz_cutoff sz ?b"
  have n: "0 < ?n" "\<not> length ms \<le> 1"
    using assms(1) by (auto simp: compact_messages_def Let_def split: if_splits)
  have "sz_partition sz ?b ?n = (take (nat ?n) ?b, drop (nat ?n) ?b)"
    using assms(2) n unfolding cuts_at_index_def by blast
  moreover have "map payload_from_message (drop (nat ?n) ?b) = drop (nat ?n) ms"
    unfolding drop_map[symmetric] by (simp only: payload_roundtrip_list[OF assms(3)])
  ultimately show ?thesis
    using assms(1) n by (auto simp: compact_messages_def Let_def py_drop_nat simp del: map_map)
qed

text \<open>An appended message shows up at the end of the projection.\<close>

lemma canonical_append:
  assumes "ms_id m \<notin> fst ` set t"
    and "\<forall>x \<in> set (list_messages t (ms_task_id m) (ms_run_id m)). ms_created_at x \<le> ms_created_at m"
  shows "canonical_messages (append_message m t) (ms_task_id m) (ms_run_id m) =
    canonical_messages t (ms_task_id m) (ms_run_id m) @ [\<lparr>cx_role = ms_role m, cx_content = ms_content m\<rparr>]"
  by (simp add: canonical_messages_def list_messages_append[OF assms])

section \<open>Properties\<close>

lemma canonical_known:
  "\<forall>m \<in> set (list_messages mt t r). ms_role m \<in> {''assistant'', ''system'', ''user''} \<Longrightarrow>
   known_roles (canonical_messages mt t r)"
  by (auto simp: known_roles_def canonical_messages_def list_all_iff)

text \<open>
  C40. Compaction does what it announces: once the service has compacted a run, the conversation projected for its
  next execution is exactly the list the compaction computed (the summary, then the messages behind the cut),
  while the stored messages and the other runs' conversations are untouched; a compaction that declines changes
  nothing.
\<close>

theorem compaction_is_what_is_projected:
  assumes "cuts_at_index sz" and "\<forall>m \<in> set (list_messages mt t r). ms_role m \<in> {''assistant'', ''system'', ''user''}"
    and "''cmp_'' @ i \<notin> fst ` set ct" and "\<forall>x \<in> set (run_compactions ct t r). cp_created_at x \<le> now"
    and "compact_run sz i now mt t r trigger ct = (res, ct')"
  shows "case compact_messages sz i now (canonical_messages mt t r) trigger of
      (None, _) \<Rightarrow> res = None \<and> ct' = ct
    | (Some sn, compacted) \<Rightarrow> projected_messages mt ct' t r = compacted \<and>
        (\<forall>t' r'. (t', r') \<noteq> (t, r) \<longrightarrow> projected_messages mt ct' t' r' = projected_messages mt ct t' r')"
proof (cases "compact_messages sz i now (canonical_messages mt t r) trigger")
  case (Pair s compacted)
  show ?thesis
  proof (cases s)
    case None
    then show ?thesis using assms(5) Pair by (simp add: compact_run_def)
  next
    case (Some sn)
    have c: "sn_id sn = ''cmp_'' @ i" "sn_created_at sn = now"
      "compacted = \<lparr>cx_role = ''user'', cx_content = sn_summary_content sn\<rparr> #
        py_drop (sn_cutoff_index sn) (canonical_messages mt t r)"
      using compact_messages_Some[OF _ assms(1) canonical_known[OF assms(2)]] Pair Some by blast+
    let ?c = "\<lparr>cp_id = sn_id sn, cp_task_id = t, cp_run_id = r, cp_trigger = trigger_value (sn_trigger sn),
      cp_strategy = sn_strategy sn, cp_cutoff_index = sn_cutoff_index sn,
      cp_summary_content = sn_summary_content sn, cp_created_at = sn_created_at sn,
      cp_provenance = sn_provenance sn, cp_artifact_path = sn_artifact_path sn\<rparr>"
    have ct': "ct' = append_compaction ?c ct" using assms(5) Pair Some by (simp add: compact_run_def Let_def)
    have "latest_compaction ct' t r = Some (?c\<lparr>cp_provenance := json_dict (cp_provenance ?c)\<rparr>)"
      using latest_append_compaction[of ?c ct] assms(3,4) c ct' by simp
    moreover have "latest_compaction ct' t' r' = latest_compaction ct t' r'" if "(t', r') \<noteq> (t, r)" for t' r'
      using latest_append_compaction_other[of ?c ct t' r'] that assms(3) c ct' by simp
    ultimately show ?thesis using Pair Some c by (simp add: projected_messages_def Let_def)
  qed
qed

definition sample_summarizer :: summarizer where
  "sample_summarizer = \<lparr>sz_cutoff = (\<lambda>ms. int (length ms) - 1),
     sz_partition = (\<lambda>ms n. (take (nat n) ms, drop (nat n) ms)), sz_summary = (\<lambda>_. ''summary'')\<rparr>"

definition sample_messages :: message_table where
  "sample_messages = [(''m1'', \<lparr>ms_id = ''m1'', ms_task_id = ''t'', ms_run_id = ''r'', ms_role = ''user'',
       ms_content = ''one'', ms_created_at = ''1''\<rparr>),
     (''m2'', \<lparr>ms_id = ''m2'', ms_task_id = ''t'', ms_run_id = ''r'', ms_role = ''assistant'',
       ms_content = ''two'', ms_created_at = ''2''\<rparr>)]"

theorem compaction_is_what_is_projected_witness:
  "projected_messages sample_messages
     (snd (compact_run sample_summarizer ''i'' ''3'' sample_messages ''t'' ''r'' EXPLICIT_CLIENT [])) ''t'' ''r'' =
   [\<lparr>cx_role = ''user'', cx_content = ''summary''\<rparr>, \<lparr>cx_role = ''assistant'', cx_content = ''two''\<rparr>]"
proof -
  let ?c = "compact_run sample_summarizer ''i'' ''3'' sample_messages ''t'' ''r'' EXPLICIT_CLIENT []"
  obtain res ct' where c: "?c = (res, ct')" by force
  have cuts: "cuts_at_index sample_summarizer" by (simp add: cuts_at_index_def sample_summarizer_def)
  have msgs: "list_messages sample_messages ''t'' ''r'' = map snd sample_messages"
    by code_simp
  have comp: "compact_messages sample_summarizer ''i'' ''3'' (canonical_messages sample_messages ''t'' ''r'') EXPLICIT_CLIENT =
    (Some \<lparr>sn_id = ''cmp_i'', sn_trigger = EXPLICIT_CLIENT, sn_strategy = ''deepagents_native'', sn_cutoff_index = 1,
       sn_summary_content = ''summary'', sn_created_at = ''3'', sn_provenance = [(''message_count'', PInt 2)],
       sn_artifact_path = None\<rparr>,
     [\<lparr>cx_role = ''user'', cx_content = ''summary''\<rparr>, \<lparr>cx_role = ''assistant'', cx_content = ''two''\<rparr>])"
    by code_simp
  have "\<forall>m \<in> set (list_messages sample_messages ''t'' ''r''). ms_role m \<in> {''assistant'', ''system'', ''user''}"
    by (simp add: msgs) (simp add: sample_messages_def)
  then show ?thesis
    using compaction_is_what_is_projected[OF cuts _ _ _ c] c by (simp add: comp run_compactions_def)
qed

end
