(* ===== verification/Boundary_Scope.thy ===== *)
theory Boundary_Scope
  imports Db_Tables
begin

text \<open>
  \<open>services/policy_service\<close>: the policy models (\<open>policy_models.py\<close>) and the approval boundaries with
  their grant store (\<open>boundary_scope.py\<close>). A boundary is the scope a user approves for one run; the
  key of \<open>describe_boundary\<close> is what \<open>SQLiteBoundaryGrantStore\<close> records and the policy engine looks up.
\<close>

section \<open>Policy models\<close>

record operation_context =
  oc_task_id :: string
  oc_run_id :: string
  oc_operation_type :: string
  oc_path_scope :: "string option"
  oc_command_class :: "string option"
  oc_memory_scope :: "string option"
  oc_namespace :: "string option"
  oc_agent_role :: "string option"
  oc_metadata :: "pydict option"

datatype decision_kind = ALLOW | REQUIRE_APPROVAL | DENY

record policy_decision =
  pd_decision :: decision_kind
  pd_reason :: string
  pd_boundary_key :: "string option"
  pd_approval_scope :: "pydict option"

text \<open>\<open>OperationContext.to_dict\<close>.\<close>

definition context_to_dict :: "operation_context \<Rightarrow> pydict" where
  "context_to_dict c =
     [(''task_id'', PStr (oc_task_id c)), (''run_id'', PStr (oc_run_id c)),
      (''operation_type'', PStr (oc_operation_type c)), (''path_scope'', opt_str (oc_path_scope c)),
      (''command_class'', opt_str (oc_command_class c)), (''memory_scope'', opt_str (oc_memory_scope c)),
      (''namespace'', opt_str (oc_namespace c)), (''agent_role'', opt_str (oc_agent_role c)),
      (''metadata'', (case oc_metadata c of None \<Rightarrow> PNone | Some d \<Rightarrow> PDict d))]"

text \<open>\<open>context.metadata or {}\<close>.\<close>

definition context_metadata :: "operation_context \<Rightarrow> pydict" where
  "context_metadata c = (case oc_metadata c of None \<Rightarrow> [] | Some d \<Rightarrow> d)"

section \<open>The grant store\<close>

record boundary_grant =
  bg_task_id :: string
  bg_run_id :: string
  bg_boundary_key :: string
  bg_approval_id :: string
  bg_granted_at :: string

type_synonym grant_key = "string \<times> string \<times> string"
type_synonym grant_store = "(grant_key, string \<times> string) table"

definition has_grant :: "grant_store \<Rightarrow> string \<Rightarrow> string \<Rightarrow> string \<Rightarrow> bool" where
  "has_grant s task run key = (tbl_get s (task, run, key) \<noteq> None)"

definition grant_boundary :: "boundary_grant \<Rightarrow> grant_store \<Rightarrow> grant_store" where
  "grant_boundary g s =
     tbl_upsert (bg_task_id g, bg_run_id g, bg_boundary_key g) (bg_approval_id g, bg_granted_at g) s"

lemma has_grant_grant [simp]:
  "has_grant (grant_boundary g s) t r k \<longleftrightarrow>
   (t, r, k) = (bg_task_id g, bg_run_id g, bg_boundary_key g) \<or> has_grant s t r k"
  by (auto simp: has_grant_def grant_boundary_def)

lemma has_grant_Nil [simp]: "\<not> has_grant [] t r k"
  by (simp add: has_grant_def tbl_get_def)

section \<open>Boundaries\<close>

record boundary =
  bd_key :: string
  bd_scope :: pydict
  bd_description :: string

definition path_segments :: "string \<Rightarrow> string list" where
  "path_segments path = filter (\<lambda>p. p \<noteq> []) (split_on CHR ''/'' path)"

definition workspace_subtree :: "string \<Rightarrow> string" where
  "workspace_subtree path =
     (let parts = path_segments path in
      if length parts = 0 then ''/**''
      else if length parts = 1 then ''/'' @ hd parts @ ''/**''
      else ''/'' @ join_with ''/'' (take 2 parts) @ ''/**'')"

text \<open>
  \<open>urllib.parse.urlparse(url).netloc\<close>: leading control characters and blanks are dropped, tabs and line
  ends removed, a scheme split off, and after \<open>//\<close> everything up to the first \<open>/\<close>, \<open>?\<close> or \<open>#\<close> is the
  network location. Unbalanced brackets raise \<open>ValueError\<close>; the syntax of a bracketed address is not
  checked by the model.
\<close>

definition is_alpha :: "char \<Rightarrow> bool" where
  "is_alpha c = (let n = code_point c in (65 \<le> n \<and> n \<le> 90) \<or> (97 \<le> n \<and> n \<le> 122))"

definition is_scheme_char :: "char \<Rightarrow> bool" where
  "is_scheme_char c = (is_alpha c \<or> (48 \<le> code_point c \<and> code_point c \<le> 57) \<or> c \<in> set ''+-.'')"

definition drop_scheme :: "string \<Rightarrow> string" where
  "drop_scheme url =
     (let scheme = takeWhile (\<lambda>c. c \<noteq> CHR '':'') url in
      if scheme \<noteq> [] \<and> length scheme < length url \<and> is_alpha (hd scheme) \<and> list_all is_scheme_char scheme
      then drop (length scheme + 1) url else url)"

definition url_netloc :: "string \<Rightarrow> string result" where
  "url_netloc url0 =
     (let url1 = dropWhile (\<lambda>c. code_point c \<le> 32) url0;
          url2 = filter (\<lambda>c. code_point c \<notin> {9, 10, 13}) url1;
          url3 = drop_scheme url2
      in if startswith url3 ''//'' then
           (let netloc = takeWhile (\<lambda>c. c \<notin> set ''/?#'') (drop 2 url3) in
            if (CHR ''['' \<in> set netloc) \<noteq> (CHR '']'' \<in> set netloc)
            then Inl (ValueError ''Invalid IPv6 URL'') else Inr netloc)
         else Inr [])"

definition url_host :: "string option \<Rightarrow> string result" where
  "url_host target = bindR (url_netloc (or_default target []))
     (\<lambda>n. Inr (if n = [] then ''unknown-host'' else n))"

text \<open>\<open>describe_boundary\<close>, one branch of the source after another.\<close>

definition boundary_file_write :: "string \<Rightarrow> boundary option" where
  "boundary_file_write path =
     (if startswith path ''/workspace/artifacts/'' then None
      else if path = ''/tmp'' \<or> startswith path ''/tmp/'' then None
      else (let target = (if startswith path ''/'' then workspace_subtree path else path) in
        Some \<lparr>bd_key = ''file.write:'' @ target,
              bd_scope = [(''kind'', PStr ''file.write''), (''path'', PStr target)],
              bd_description = ''Allow writes to '' @ target @ '' for this run''\<rparr>))"

definition boundary_command :: "operation_context \<Rightarrow> boundary" where
  "boundary_command c =
     (let cls = or_default (oc_command_class c) ''unknown'';
          cwd = or_default (oc_path_scope c) ''/''
      in \<lparr>bd_key = ''command.execute:'' @ cls @ '':'' @ cwd,
          bd_scope = [(''kind'', PStr ''command.execute''), (''command_class'', PStr cls), (''cwd'', PStr cwd)],
          bd_description = ''Allow '' @ cls @ '' commands in '' @ cwd @ '' for this run''\<rparr>)"

definition boundary_memory :: "operation_context \<Rightarrow> boundary" where
  "boundary_memory c =
     (let ns = or_default (oc_namespace c) ''project.default''
      in \<lparr>bd_key = ''memory.write:project:'' @ ns,
          bd_scope = [(''kind'', PStr ''memory.write''), (''scope'', PStr ''project''), (''namespace'', PStr ns)],
          bd_description = ''Allow durable memory writes in namespace '' @ ns @ '' for this run''\<rparr>)"

definition boundary_skill :: "operation_context \<Rightarrow> boundary" where
  "boundary_skill c =
     (let m = context_metadata c;
          target_scope = str_or (dict_get m ''target_scope'') ''primary_agent'';
          target_role = str_or (dict_get m ''target_role'') [];
          install_mode = str_or (dict_get m ''install_mode'') ''fail_if_exists'';
          skill_id = str_or (dict_get m ''skill_id'') ''unknown''
      in \<lparr>bd_key = ''skill.install:'' @ target_scope @ '':'' @
            (if target_role = [] then ''primary'' else target_role) @ '':'' @ skill_id @ '':'' @ install_mode,
          bd_scope = [(''kind'', PStr ''skill.install''), (''target_scope'', PStr target_scope),
             (''install_mode'', PStr install_mode), (''skill_id'', PStr skill_id)] @
             (if target_role = [] then [] else [(''target_role'', PStr target_role)]),
          bd_description = ''Allow '' @ install_mode @ '' installation for skill '' @ skill_id\<rparr>)"

definition boundary_mcp_connect :: "operation_context \<Rightarrow> boundary result" where
  "boundary_mcp_connect c =
     (let m = context_metadata c;
          transport = str_or (dict_get m ''transport'') ''stdio'';
          server_name = str_or (dict_get m ''server_name'') ''mcp''
      in if transport = ''stdio'' then
           Inr \<lparr>bd_key = ''mcp.server.connect:stdio:'' @ server_name,
                bd_scope = [(''kind'', PStr ''mcp.server.connect''), (''transport'', PStr ''stdio''),
                            (''server_name'', PStr server_name)],
                bd_description = ''Allow MCP stdio server '' @ server_name @ '' for this run''\<rparr>
         else bindR (url_host (oc_path_scope c)) (\<lambda>hostname.
           Inr \<lparr>bd_key = ''mcp.server.connect:'' @ transport @ '':'' @ hostname,
                bd_scope = [(''kind'', PStr ''mcp.server.connect''), (''transport'', PStr transport),
                            (''server_name'', PStr server_name), (''host'', PStr hostname)],
                bd_description = ''Allow MCP '' @ transport @ '' access for host '' @ hostname @
                  '' during this run''\<rparr>))"

definition boundary_remote_auth :: "operation_context \<Rightarrow> boundary" where
  "boundary_remote_auth c =
     (let m = context_metadata c;
          provider_id = str_or (dict_get m ''provider_id'') ''oauth'';
          server_name = str_or (dict_get m ''server_name'') ''mcp'';
          suffix = last_segment CHR ''.'' (oc_operation_type c)
      in \<lparr>bd_key = ''remote_mcp.auth:'' @ suffix @ '':'' @ provider_id @ '':'' @ server_name,
          bd_scope = [(''kind'', PStr ''remote_mcp.auth''), (''operation'', PStr (oc_operation_type c)),
                      (''provider_id'', PStr provider_id), (''server_name'', PStr server_name)],
          bd_description = ''Allow '' @ oc_operation_type c @ '' for provider '' @ provider_id @
            '' and server '' @ server_name\<rparr>)"

definition boundary_web :: "operation_context \<Rightarrow> boundary result" where
  "boundary_web c = bindR (url_host (oc_path_scope c)) (\<lambda>hostname.
     Inr \<lparr>bd_key = oc_operation_type c @ '':'' @ hostname,
          bd_scope = [(''kind'', PStr (oc_operation_type c)), (''host'', PStr hostname)],
          bd_description = ''Allow '' @ oc_operation_type c @ '' access for host '' @ hostname @
            '' during this run''\<rparr>)"

definition describe_boundary :: "operation_context \<Rightarrow> boundary option result" where
  "describe_boundary c =
     (if oc_operation_type c = ''file.write'' \<and> oc_path_scope c \<noteq> None
        then Inr (boundary_file_write (the (oc_path_scope c)))
      else if oc_operation_type c = ''command.execute'' then Inr (Some (boundary_command c))
      else if oc_operation_type c = ''memory.write'' \<and> oc_memory_scope c = Some ''project''
        then Inr (Some (boundary_memory c))
      else if oc_operation_type c = ''skill.install'' then Inr (Some (boundary_skill c))
      else if oc_operation_type c = ''mcp.server.connect''
        then bindR (boundary_mcp_connect c) (\<lambda>b. Inr (Some b))
      else if startswith (oc_operation_type c) ''remote_mcp.auth.'' then Inr (Some (boundary_remote_auth c))
      else if oc_operation_type c \<in> {''web.fetch'', ''web.search''}
        then bindR (boundary_web c) (\<lambda>b. Inr (Some b))
      else Inr None)"

section \<open>What a boundary key covers\<close>

text \<open>The first two directories of a path decide its boundary.\<close>

lemma workspace_subtree_eq:
  assumes "take 2 (path_segments p) = take 2 (path_segments q)"
    and "2 \<le> length (path_segments p)" and "2 \<le> length (path_segments q)"
  shows "workspace_subtree p = workspace_subtree q"
  using assms by (auto simp: workspace_subtree_def Let_def)

lemma boundary_file_write_key:
  "boundary_file_write p = Some b \<Longrightarrow> startswith p ''/'' \<Longrightarrow> bd_key b = ''file.write:'' @ workspace_subtree p"
  by (auto simp: boundary_file_write_def Let_def split: if_splits)

text \<open>Scratch paths and registered artifacts have no boundary.\<close>

lemma boundary_file_write_None:
  "boundary_file_write p = None \<longleftrightarrow>
   startswith p ''/workspace/artifacts/'' \<or> p = ''/tmp'' \<or> startswith p ''/tmp/''"
  by (simp add: boundary_file_write_def Let_def)

end
