(* ===== verification/Approval_Store.thy ===== *)
theory Approval_Store
  imports Boundary_Scope
begin

text \<open>
  \<open>services/policy_service/local_agent_policy_service/approval_store.py\<close>: approval requests keyed by
  their id. The status columns are text, so reading a row checks them and may raise, as
  \<open>_approval_status\<close> does.
\<close>

record approval_request =
  ap_id :: string
  ap_task_id :: string
  ap_run_id :: string
  ap_type :: string
  ap_scope :: pydict
  ap_description :: string
  ap_created_at :: string
  ap_status :: string
  ap_decision :: "string option"
  ap_decided_at :: "string option"

type_synonym approval_store = "(string, approval_request) table"

definition approval_to_dict :: "approval_request \<Rightarrow> pydict" where
  "approval_to_dict a =
     [(''approval_id'', PStr (ap_id a)), (''task_id'', PStr (ap_task_id a)), (''run_id'', PStr (ap_run_id a)),
      (''type'', PStr (ap_type a)), (''scope'', PDict (ap_scope a)), (''description'', PStr (ap_description a)),
      (''created_at'', PStr (ap_created_at a)), (''status'', PStr (ap_status a)),
      (''decision'', opt_str (ap_decision a)), (''decided_at'', opt_str (ap_decided_at a))]"

definition approval_status :: "string \<Rightarrow> string result" where
  "approval_status v =
     (if v \<in> {''pending'', ''approved'', ''rejected''} then Inr v
      else Inl (ValueError (''invalid approval status: '' @ v)))"

definition optional_approval_status :: "string option \<Rightarrow> string option result" where
  "optional_approval_status v = (case v of None \<Rightarrow> Inr None
     | Some s \<Rightarrow> bindR (approval_status s) (\<lambda>s'. Inr (Some s')))"

text \<open>A row as it is stored: the scope is a JSON column.\<close>

definition approval_row :: "approval_request \<Rightarrow> approval_request" where
  "approval_row a = a\<lparr>ap_scope := json_dict (ap_scope a)\<rparr>"

definition row_to_approval :: "approval_request \<Rightarrow> approval_request result" where
  "row_to_approval r = bindR (approval_status (ap_status r)) (\<lambda>st.
     bindR (optional_approval_status (ap_decision r)) (\<lambda>d.
       Inr (r\<lparr>ap_status := st, ap_decision := d\<rparr>)))"

definition create_request :: "approval_request \<Rightarrow> approval_store \<Rightarrow> approval_store result" where
  "create_request a s = tbl_insert ''UNIQUE constraint failed: approval_requests.approval_id''
     (ap_id a) (approval_row a) s"

definition get_request :: "approval_store \<Rightarrow> string \<Rightarrow> approval_request option result" where
  "get_request s i = (case tbl_get s i of None \<Rightarrow> Inr None
     | Some r \<Rightarrow> bindR (row_to_approval r) (\<lambda>a. Inr (Some a)))"

definition list_for_task :: "approval_store \<Rightarrow> string \<Rightarrow> string option \<Rightarrow> approval_request list result" where
  "list_for_task s task run = mapR row_to_approval
     (sort_key (\<lambda>r. (ap_created_at r, ap_id r))
       (filter (\<lambda>r. ap_task_id r = task \<and> (run = None \<or> run = Some (ap_run_id r))) (map snd s)))"

text \<open>The \<open>UPDATE\<close> of \<open>decide\<close>.\<close>

definition decide_row :: "string \<Rightarrow> string \<Rightarrow> string \<Rightarrow> approval_store \<Rightarrow> approval_store" where
  "decide_row i decision at s = map (\<lambda>(k, r).
     (k, if k = i then r\<lparr>ap_decision := Some decision, ap_decided_at := Some at, ap_status := decision\<rparr> else r)) s"

definition decide :: "string \<Rightarrow> string \<Rightarrow> string \<Rightarrow> approval_store \<Rightarrow> (approval_request \<times> approval_store) result" where
  "decide i decision at s =
     bindR (get_request s i) (\<lambda>r. case r of
       None \<Rightarrow> Inl (KeyError (''unknown approval: '' @ i))
     | Some request \<Rightarrow>
         if ap_status request \<noteq> ''pending''
           then Inl (ValueError (''approval '' @ i @ '' is already '' @ ap_status request))
         else if decision \<notin> {''approved'', ''rejected''}
           then Inl (ValueError ''approval decision must be approved or rejected'')
         else (let s' = decide_row i decision at s in
           bindR (get_request s' i) (\<lambda>r'. case r' of
             None \<Rightarrow> Inl (KeyError (''unknown approval: '' @ i))
           | Some decided \<Rightarrow> Inr (decided, s'))))"

section \<open>Well-formed stores\<close>

text \<open>
  Every row sits under its own id and has readable status columns: what \<open>create_request\<close> with a
  pending request and \<open>decide\<close> keep.
\<close>

definition approval_row_ok :: "string \<times> approval_request \<Rightarrow> bool" where
  "approval_row_ok kr \<longleftrightarrow> fst kr = ap_id (snd kr) \<and>
     ap_status (snd kr) \<in> {''pending'', ''approved'', ''rejected''} \<and>
     (case ap_decision (snd kr) of None \<Rightarrow> True | Some d \<Rightarrow> d \<in> {''approved'', ''rejected''})"

definition approvals_ok :: "approval_store \<Rightarrow> bool" where
  "approvals_ok s \<longleftrightarrow> tbl_ok s \<and> list_all approval_row_ok s"

lemma approvals_ok_Nil [simp]: "approvals_ok []"
  by (simp add: approvals_ok_def)

lemma row_to_approval_ok: "approval_row_ok (k, r) \<Longrightarrow> row_to_approval r = Inr r"
  by (auto simp: approval_row_ok_def row_to_approval_def approval_status_def
      optional_approval_status_def split: option.splits)

lemma get_request_ok: "approvals_ok s \<Longrightarrow> get_request s i = Inr (tbl_get s i)"
  by (auto simp: get_request_def approvals_ok_def list_all_iff split: option.splits
      dest!: tbl_get_SomeD row_to_approval_ok)

lemma tbl_get_decide_row:
  "tbl_get (decide_row i decision at s) k = (if k = i
     then map_option (\<lambda>r. r\<lparr>ap_decision := Some decision, ap_decided_at := Some at, ap_status := decision\<rparr>) (tbl_get s i)
     else tbl_get s k)"
  unfolding tbl_get_def decide_row_def by (induction s) auto

lemma fst_decide_row [simp]: "map fst (decide_row i decision at s) = map fst s"
  by (auto simp: decide_row_def)

lemma approval_row_ok_decided:
  "approval_row_ok (k, r) \<Longrightarrow> decision \<in> {''approved'', ''rejected''} \<Longrightarrow>
   approval_row_ok (k, r\<lparr>ap_decision := Some decision, ap_decided_at := Some at, ap_status := decision\<rparr>)"
  by (auto simp: approval_row_ok_def)

lemma approvals_ok_decide_row:
  assumes "approvals_ok s" and "decision \<in> {''approved'', ''rejected''}"
  shows "approvals_ok (decide_row i decision at s)"
proof -
  have "approval_row_ok kr" if "kr \<in> set (decide_row i decision at s)" for kr
    using that assms approval_row_ok_decided[OF _ assms(2)]
    by (auto simp: decide_row_def approvals_ok_def list_all_iff)
  then show ?thesis using assms(1) by (simp add: approvals_ok_def tbl_ok_def list_all_iff)
qed

lemma create_request_ok:
  assumes "create_request a s = Inr s'" and "approvals_ok s" and "ap_status a = ''pending''"
    and "ap_decision a = None"
  shows "approvals_ok s'"
  using assms
  by (auto simp: create_request_def approvals_ok_def tbl_insert_Inr approval_row_ok_def approval_row_def
      tbl_ok_def)

lemma tbl_get_create_request:
  "create_request a s = Inr s' \<Longrightarrow> tbl_get s' i = (if i = ap_id a then Some (approval_row a) else tbl_get s i)"
  unfolding create_request_def by (rule tbl_get_insert)

section \<open>What deciding does\<close>

text \<open>The three ways it raises, and the one way it returns.\<close>

lemma decide_Inr_iff:
  assumes "approvals_ok s"
  shows "decide i d at s = Inr (a, s') \<longleftrightarrow>
    (\<exists>r. tbl_get s i = Some r \<and> ap_status r = ''pending'' \<and> d \<in> {''approved'', ''rejected''} \<and>
         s' = decide_row i d at s \<and>
         a = r\<lparr>ap_decision := Some d, ap_decided_at := Some at, ap_status := d\<rparr>)"
  using assms approvals_ok_decide_row[OF assms, of d i at]
  by (auto simp: decide_def get_request_ok tbl_get_decide_row Let_def split: option.splits if_splits)

lemma decide_ok:
  "approvals_ok s \<Longrightarrow> decide i d at s = Inr (a, s') \<Longrightarrow> approvals_ok s'"
  by (auto simp: decide_Inr_iff intro: approvals_ok_decide_row)

text \<open>The operations a caller can run on the store; a failing one leaves it as it was.\<close>

datatype approval_op = OpCreate approval_request | OpDecide string string string

fun approval_step :: "approval_op \<Rightarrow> approval_store \<Rightarrow> approval_store" where
  "approval_step (OpCreate a) s = (case create_request a s of Inl e \<Rightarrow> s | Inr s' \<Rightarrow> s')"
| "approval_step (OpDecide i d at) s = (case decide i d at s of Inl e \<Rightarrow> s | Inr (a, s') \<Rightarrow> s')"

definition approval_op_ok :: "approval_op \<Rightarrow> bool" where
  "approval_op_ok x = (case x of OpCreate a \<Rightarrow> ap_status a = ''pending'' \<and> ap_decision a = None | _ \<Rightarrow> True)"

lemma approval_step_ok: "approvals_ok s \<Longrightarrow> approval_op_ok x \<Longrightarrow> approvals_ok (approval_step x s)"
  by (cases x) (auto simp: approval_op_ok_def split: sum.splits dest: create_request_ok decide_ok)

lemma approval_step_decided:
  assumes "approvals_ok s" and "tbl_get s i = Some r" and "ap_status r \<noteq> ''pending''"
  shows "tbl_get (approval_step x s) i = Some r"
  using assms
  by (cases x) (auto split: sum.splits simp: decide_Inr_iff tbl_get_decide_row tbl_get_create_request
      create_request_def tbl_insert_Inr tbl_get_None[symmetric])

section \<open>Properties\<close>

text \<open>
  Once an approval is decided it stays as it was decided, through every later sequence of operations on the
  store, and a second decision is refused.
\<close>

theorem decided_approval_is_final:
  assumes "approvals_ok s" and "list_all approval_op_ok xs" and "decide i d at s = Inr (a, s1)"
  shows "get_request (fold approval_step xs s1) i = Inr (Some a) \<and>
    decide i d' at' (fold approval_step xs s1) = Inl (ValueError (''approval '' @ i @ '' is already '' @ d))"
proof -
  have run: "approvals_ok (fold approval_step xs s) \<and> tbl_get (fold approval_step xs s) i = Some r"
    if "approvals_ok s" "list_all approval_op_ok xs" "tbl_get s i = Some r" "ap_status r \<noteq> ''pending''" for s r
    using that by (induction xs arbitrary: s) (auto simp: approval_step_ok approval_step_decided)
  have "approvals_ok s1" using decide_ok assms(1,3) by blast
  moreover have "tbl_get s1 i = Some a" "ap_status a = d" "d \<noteq> ''pending''"
    using assms(3) by (auto simp: decide_Inr_iff[OF assms(1)] tbl_get_decide_row)
  ultimately have "approvals_ok (fold approval_step xs s1)" "tbl_get (fold approval_step xs s1) i = Some a"
    using run assms(2) by auto
  then show ?thesis using \<open>ap_status a = d\<close> \<open>d \<noteq> ''pending''\<close> by (simp add: decide_def get_request_ok)
qed

definition sample_request :: approval_request where
  "sample_request = \<lparr>ap_id = ''a1'', ap_task_id = ''t'', ap_run_id = ''r'', ap_type = ''boundary'', ap_scope = [],
     ap_description = [], ap_created_at = [], ap_status = ''pending'', ap_decision = None, ap_decided_at = None\<rparr>"

theorem decided_approval_is_final_witness:
  "get_request (fold approval_step [OpDecide ''a1'' ''rejected'' ''3'']
     (decide_row ''a1'' ''approved'' ''2'' [(''a1'', sample_request)])) ''a1'' =
   Inr (Some (sample_request\<lparr>ap_decision := Some ''approved'', ap_decided_at := Some ''2'', ap_status := ''approved''\<rparr>))"
  using decided_approval_is_final[of "[(''a1'', sample_request)]" "[OpDecide ''a1'' ''rejected'' ''3'']" "''a1''" "''approved''" "''2''"]
  by (simp add: approvals_ok_def tbl_ok_def approval_row_ok_def sample_request_def decide_Inr_iff tbl_get_def approval_op_ok_def)

end
