(* ===== verification/Policy_Engine.thy ===== *)
theory Policy_Engine
  imports Approval_Store Posix_Paths
begin

text \<open>
  \<open>services/policy_service/local_agent_policy_service/policy_engine.py\<close>: the runtime policy engine. The
  engine sees the grant store through the protocol \<open>BoundaryGrantStore\<close>: \<^term>\<open>grants\<close> below is its
  \<open>has_grant\<close>, \<open>None\<close> when the engine was built without a store. The locale \<open>grant_provider\<close> states
  what the engine's clients need of a provider, and \<open>SQLiteBoundaryGrantStore\<close> interprets it.
\<close>

section \<open>Configured sets and modes\<close>

definition configured_classes :: "pydict \<Rightarrow> string \<Rightarrow> string list \<Rightarrow> string set" where
  "configured_classes cfg key dflt = (case as_str_list (dict_get cfg key) of
     Some items \<Rightarrow> set (filter (\<lambda>item. item \<noteq> []) items) | None \<Rightarrow> set dflt)"

definition safe_command_classes :: "pydict \<Rightarrow> string set" where
  "safe_command_classes cfg = configured_classes cfg ''safe_command_classes'' [''safe_read'', ''safe_exec'']"

definition deny_command_classes :: "pydict \<Rightarrow> string set" where
  "deny_command_classes cfg =
     configured_classes cfg ''deny_command_classes'' [''destructive'', ''network'', ''secrets'']"

definition web_access_mode :: "pydict \<Rightarrow> string" where
  "web_access_mode cfg = (case dict_get_or cfg ''web_access_mode'' (PStr ''allow'') of
     PStr s \<Rightarrow> (let normalized = py_lower (py_strip s) in
       if normalized \<in> {''allow'', ''require_approval'', ''deny''} then normalized else ''allow'')
   | _ \<Rightarrow> ''allow'')"

section \<open>Removals inside the scratch area\<close>

fun extract_rm_targets :: "bool \<Rightarrow> string list \<Rightarrow> string list" where
  "extract_rm_targets literal [] = []"
| "extract_rm_targets literal (a # as) =
     (if a = [] then extract_rm_targets literal as
      else if literal then a # extract_rm_targets literal as
      else if a = ''--'' then extract_rm_targets True as
      else if startswith a ''-'' then extract_rm_targets literal as
      else a # extract_rm_targets literal as)"

definition resolve_command_target_path :: "string \<Rightarrow> string \<Rightarrow> string" where
  "resolve_command_target_path target cwd =
     (if startswith target ''/'' then normpath target
      else (let base = (if startswith cwd ''/'' then cwd else ''/'') in
        normpath (as_posix (joinpath (pure_path base) (pure_path target)))))"

definition is_virtual_scratch_path :: "string \<Rightarrow> bool" where
  "is_virtual_scratch_path p = (p = ''/tmp'' \<or> startswith p ''/tmp/'')"

text \<open>An empty command list passes the type test and then raises on \<open>command[0]\<close>.\<close>

definition is_scratch_only_destructive :: "operation_context \<Rightarrow> bool result" where
  "is_scratch_only_destructive c =
     (if or_default (oc_command_class c) ''unknown'' \<noteq> ''destructive'' then Inr False
      else (case as_str_list (dict_get (context_metadata c) ''command'') of
        None \<Rightarrow> Inr False
      | Some command \<Rightarrow>
          if [] \<in> set command then Inr False
          else (case command of
            [] \<Rightarrow> Inl (IndexError ''list index out of range'')
          | head # arguments \<Rightarrow>
              if last_segment CHR ''/'' head \<noteq> ''rm'' then Inr False
              else (let targets = extract_rm_targets False arguments in
                if targets = [] then Inr False
                else (let cwd = or_default (oc_path_scope c) ''/'' in
                  Inr (list_all (\<lambda>t. is_virtual_scratch_path (resolve_command_target_path t cwd)) targets))))))"

section \<open>Denials and approvals\<close>

definition mcp_source :: "operation_context \<Rightarrow> string" where
  "mcp_source c = str_or (dict_get (context_metadata c) ''source'') ''runtime_toml''"

definition mcp_transport :: "operation_context \<Rightarrow> string" where
  "mcp_transport c = str_or (dict_get (context_metadata c) ''transport'') ''stdio''"

definition requires_approval :: "pydict \<Rightarrow> operation_context \<Rightarrow> bool result" where
  "requires_approval cfg c =
     (let op = oc_operation_type c in
      if op = ''file.write'' then
        (let path = or_default (oc_path_scope c) [] in
         Inr (startswith path ''/'' \<and> \<not> startswith path ''/workspace/artifacts/''
              \<and> \<not> (path = ''/tmp'' \<or> startswith path ''/tmp/'')
              \<and> \<not> (path = ''/.memory'' \<or> startswith path ''/.memory/'')))
      else if op = ''command.execute'' then
        bindR (is_scratch_only_destructive c) (\<lambda>scratch.
          Inr (if scratch then False
               else or_default (oc_command_class c) ''unknown'' \<notin> safe_command_classes cfg))
      else if op = ''memory.write'' then Inr (oc_memory_scope c = Some ''project'')
      else if op = ''skill.install'' then
        (let m = context_metadata c in
         Inr (py_truthy (dict_get m ''has_scripts'') \<or> py_truthy (dict_get m ''overwrite'')
              \<or> dict_get m ''install_mode'' = PStr ''replace''))
      else if op = ''mcp.server.connect'' then
        Inr (if mcp_source c = ''runtime_toml'' then False
             else if mcp_transport c = ''stdio'' then True
             else web_access_mode cfg = ''require_approval'')
      else if op \<in> {''remote_mcp.auth.complete'', ''remote_mcp.auth.refresh''}
        then Inr (web_access_mode cfg = ''require_approval'')
      else if op \<in> {''web.fetch'', ''web.search''} then Inr (web_access_mode cfg = ''require_approval'')
      else Inr False)"

definition is_denied :: "pydict \<Rightarrow> operation_context \<Rightarrow> bool result" where
  "is_denied cfg c =
     (let op = oc_operation_type c in
      if op = ''file.write'' then Inr (startswith (or_default (oc_path_scope c) []) ''/.memory/identity/'')
      else if op = ''command.execute'' then
        (let command_class = or_default (oc_command_class c) ''unknown'' in
         bindR (if command_class = ''destructive'' then is_scratch_only_destructive c else Inr False)
           (\<lambda>scratch. Inr (if scratch then False else command_class \<in> deny_command_classes cfg)))
      else if op = ''memory.write'' then
        Inr (oc_memory_scope c = Some ''identity''
             \<or> (oc_memory_scope c = Some ''project'' \<and> startswith (or_default (oc_namespace c) []) ''identity.''))
      else if op = ''skill.install'' then Inr (sublist ''..'' (or_default (oc_path_scope c) []))
      else if op = ''mcp.server.connect'' then
        Inr (if mcp_source c = ''runtime_toml'' then False
             else if mcp_transport c = ''stdio'' then False
             else web_access_mode cfg = ''deny'')
      else if op \<in> {''remote_mcp.auth.complete'', ''remote_mcp.auth.refresh''}
        then Inr (web_access_mode cfg = ''deny'')
      else if op \<in> {''web.fetch'', ''web.search''} then Inr (web_access_mode cfg = ''deny'')
      else Inr False)"

definition deny_reason :: "operation_context \<Rightarrow> string" where
  "deny_reason c =
     (let op = oc_operation_type c in
      if op = ''command.execute'' then
        (let command_class = or_default (oc_command_class c) ''unknown'' in
         if command_class = ''network'' then ''External network access is denied by the runtime policy.''
         else if command_class = ''destructive''
           then ''Destructive command classes are denied by the runtime policy.''
         else ''Command class '' @ command_class @ '' is denied by the runtime policy.'')
      else if op = ''memory.write'' then ''Identity memory mutation is denied by the runtime policy.''
      else if op = ''skill.install'' then ''Skill installation target is denied by the runtime policy.''
      else if op = ''mcp.server.connect'' then ''Outbound MCP server access is denied by the runtime policy.''
      else if startswith op ''remote_mcp.auth.''
        then ''Remote MCP authorization network access is denied by the runtime policy.''
      else if op \<in> {''web.fetch'', ''web.search''} then ''Outbound web access is denied by the runtime policy.''
      else ''Operation is denied by the runtime policy.'')"

section \<open>\<open>RuntimePolicyEngine.evaluate\<close>\<close>

type_synonym grant_lookup = "string \<Rightarrow> string \<Rightarrow> string \<Rightarrow> bool"

definition boundary_granted :: "grant_lookup option \<Rightarrow> operation_context \<Rightarrow> boundary option \<Rightarrow> bool" where
  "boundary_granted grants c b = (case (b, grants) of
     (Some bd, Some has) \<Rightarrow> has (oc_task_id c) (oc_run_id c) (bd_key bd) | _ \<Rightarrow> False)"

definition evaluate :: "pydict \<Rightarrow> grant_lookup option \<Rightarrow> operation_context \<Rightarrow> policy_decision result" where
  "evaluate cfg grants c =
     bindR (is_denied cfg c) (\<lambda>denied.
       if denied then Inr \<lparr>pd_decision = DENY, pd_reason = deny_reason c,
                           pd_boundary_key = None, pd_approval_scope = None\<rparr>
       else bindR (describe_boundary c) (\<lambda>boundary.
         if boundary_granted grants c boundary
           then Inr \<lparr>pd_decision = ALLOW, pd_reason = ''Run-scoped boundary grant already exists.'',
                     pd_boundary_key = map_option bd_key boundary,
                     pd_approval_scope = map_option bd_scope boundary\<rparr>
         else bindR (requires_approval cfg c) (\<lambda>requires.
           if requires then (case boundary of
               None \<Rightarrow> Inr \<lparr>pd_decision = DENY, pd_reason =
                 ''Operation requires approval but no stable approval boundary could be derived.'',
                 pd_boundary_key = None, pd_approval_scope = None\<rparr>
             | Some bd \<Rightarrow> Inr \<lparr>pd_decision = REQUIRE_APPROVAL, pd_reason = bd_description bd,
                 pd_boundary_key = Some (bd_key bd), pd_approval_scope = Some (bd_scope bd)\<rparr>)
           else Inr \<lparr>pd_decision = ALLOW,
             pd_reason = ''Operation falls within the default low-risk policy tier.'',
             pd_boundary_key = map_option bd_key boundary,
             pd_approval_scope = map_option bd_scope boundary\<rparr>)))"

definition placeholder_evaluate :: "operation_context \<Rightarrow> policy_decision" where
  "placeholder_evaluate c = \<lparr>pd_decision = ALLOW,
     pd_reason = ''Phase 1 placeholder policy engine defers approval behavior.'',
     pd_boundary_key = None, pd_approval_scope = None\<rparr>"

section \<open>The decision table\<close>

lemma evaluate_DENY:
  "is_denied cfg c = Inr True \<Longrightarrow> evaluate cfg grants c =
     Inr \<lparr>pd_decision = DENY, pd_reason = deny_reason c, pd_boundary_key = None, pd_approval_scope = None\<rparr>"
  by (simp add: evaluate_def)

lemma evaluate_cases:
  assumes "evaluate cfg grants c = Inr d"
  obtains (denied) "is_denied cfg c = Inr True" "pd_decision d = DENY"
  | (granted) b where "is_denied cfg c = Inr False" "describe_boundary c = Inr (Some b)"
      "boundary_granted grants c (Some b)" "pd_decision d = ALLOW" "pd_boundary_key d = Some (bd_key b)"
  | (required) b where "is_denied cfg c = Inr False" "describe_boundary c = Inr (Some b)"
      "\<not> boundary_granted grants c (Some b)" "requires_approval cfg c = Inr True"
      "pd_decision d = REQUIRE_APPROVAL" "pd_boundary_key d = Some (bd_key b)"
      "pd_reason d = bd_description b" "pd_approval_scope d = Some (bd_scope b)"
  | (no_boundary) "is_denied cfg c = Inr False" "describe_boundary c = Inr None"
      "requires_approval cfg c = Inr True" "pd_decision d = DENY"
  | (low_risk) b where "is_denied cfg c = Inr False" "describe_boundary c = Inr b"
      "\<not> boundary_granted grants c b" "requires_approval cfg c = Inr False" "pd_decision d = ALLOW"
      "pd_boundary_key d = map_option bd_key b"
proof -
  obtain denied where dn: "is_denied cfg c = Inr denied"
    using assms by (auto simp: evaluate_def bindR_Inr_iff)
  show thesis
  proof (cases denied)
    case True
    with dn assms show thesis by (intro denied) (auto simp: evaluate_def)
  next
    case False
    obtain b where b: "describe_boundary c = Inr b"
      using assms dn False by (auto simp: evaluate_def bindR_Inr_iff)
    show thesis
    proof (cases "boundary_granted grants c b")
      case True
      then obtain bd where "b = Some bd" by (cases b) (auto simp: boundary_granted_def)
      with True dn False b assms show thesis by (intro granted) (auto simp: evaluate_def)
    next
      case ng: False
      obtain r where r: "requires_approval cfg c = Inr r"
        using assms dn False b ng by (auto simp: evaluate_def bindR_Inr_iff)
      show thesis
      proof (cases "r \<and> b = None")
        case True
        with dn False b ng r assms show thesis by (intro no_boundary) (auto simp: evaluate_def)
      next
        case nb: False
        show thesis
        proof (cases r)
          case True
          with nb obtain bd where "b = Some bd" by (cases b) auto
          with True dn False b ng r assms show thesis by (intro required[of bd]) (auto simp: evaluate_def)
        next
          case nr: False
          with dn False b ng r assms show thesis by (intro low_risk[of b]) (auto simp: evaluate_def)
        qed
      qed
    qed
  qed
qed

text \<open>More grants never take a permission away.\<close>

lemma evaluate_ALLOW_mono:
  assumes "evaluate cfg (Some has) c = Inr d" and "pd_decision d = ALLOW"
    and "\<And>t r k. has t r k \<Longrightarrow> has' t r k"
  shows "\<exists>d'. evaluate cfg (Some has') c = Inr d' \<and> pd_decision d' = ALLOW"
  using assms(1)
proof (cases rule: evaluate_cases)
  case (low_risk b)
  then show ?thesis by (auto simp: evaluate_def)
qed (use assms in \<open>auto simp: evaluate_def boundary_granted_def\<close>)

text \<open>The engine only asks for grants of the operation's own task and run.\<close>

lemma evaluate_own_run:
  "(\<And>k. has (oc_task_id c) (oc_run_id c) k = has' (oc_task_id c) (oc_run_id c) k) \<Longrightarrow>
   evaluate cfg (Some has) c = evaluate cfg (Some has') c"
proof -
  assume "\<And>k. has (oc_task_id c) (oc_run_id c) k = has' (oc_task_id c) (oc_run_id c) k"
  then have same: "boundary_granted (Some has) c = boundary_granted (Some has') c"
    by (auto simp: boundary_granted_def fun_eq_iff split: option.splits)
  show ?thesis unfolding evaluate_def same ..
qed

section \<open>The grant provider\<close>

locale grant_provider =
  fixes has :: "'s \<Rightarrow> string \<Rightarrow> string \<Rightarrow> string \<Rightarrow> bool"
    and add :: "boundary_grant \<Rightarrow> 's \<Rightarrow> 's"
  assumes has_add: "has (add g s) t r k \<longleftrightarrow>
    (t, r, k) = (bg_task_id g, bg_run_id g, bg_boundary_key g) \<or> has s t r k"
begin

text \<open>Granting the boundary of a decision that asked for approval lets the same operation through.\<close>

lemma grant_then_allow:
  assumes "evaluate cfg (Some (has s)) c = Inr d" and "pd_decision d = REQUIRE_APPROVAL"
    and "pd_boundary_key d = Some (bg_boundary_key g)"
    and "bg_task_id g = oc_task_id c" and "bg_run_id g = oc_run_id c"
  shows "\<exists>d'. evaluate cfg (Some (has (add g s))) c = Inr d' \<and> pd_decision d' = ALLOW \<and>
    pd_boundary_key d' = Some (bg_boundary_key g)"
  using assms(1)
proof (cases rule: evaluate_cases)
  case (required b)
  then show ?thesis using assms by (auto simp: evaluate_def boundary_granted_def has_add)
qed (use assms in auto)

lemma grant_keeps_allow:
  assumes "evaluate cfg (Some (has s)) c = Inr d" and "pd_decision d = ALLOW"
  shows "\<exists>d'. evaluate cfg (Some (has (add g s))) c = Inr d' \<and> pd_decision d' = ALLOW"
  using assms by (rule evaluate_ALLOW_mono) (simp add: has_add)

lemma grant_other_run:
  assumes "bg_task_id g \<noteq> oc_task_id c \<or> bg_run_id g \<noteq> oc_run_id c"
  shows "evaluate cfg (Some (has (add g s))) c = evaluate cfg (Some (has s)) c"
  by (rule evaluate_own_run) (use assms in \<open>auto simp: has_add\<close>)

end

interpretation sqlite_grants: grant_provider has_grant grant_boundary
  by unfold_locales (rule has_grant_grant)

interpretation grant_rows: upsert_store "\<lambda>k v. grant_boundary
    \<lparr>bg_task_id = fst k, bg_run_id = fst (snd k), bg_boundary_key = snd (snd k),
     bg_approval_id = fst v, bg_granted_at = snd v\<rparr>" tbl_get "\<lambda>old new. new"
  by unfold_locales (auto simp: grant_boundary_def split: option.splits)

section \<open>Removals stay in the scratch area\<close>

lemma scratch_normpath:
  assumes "is_virtual_scratch_path (normpath t)"
  shows "startswith t ''/'' \<and> (\<exists>rest. norm_comps t = ''tmp'' # rest)"
proof -
  have np: "normpath t = initial_slashes t @ join_with ''/'' (norm_comps t)"
    using assms by (auto simp: normpath_def is_virtual_scratch_path_def Let_def split: if_splits)
  show ?thesis
  proof (cases "norm_comps t")
    case Nil
    then show ?thesis using assms np
      by (auto simp: is_virtual_scratch_path_def initial_slashes_def split: if_splits)
  next
    case (Cons w ws)
    have w: "w \<noteq> []" "CHR ''/'' \<notin> set w"
      using Cons norm_comps_nonempty[of t] norm_comps_no_slash[of w t] by auto
    obtain x xs where wx: "w = x # xs" "x \<noteq> CHR ''/''" using w by (cases w) auto
    have j: "\<exists>u. join_with ''/'' (norm_comps t) = w @ u \<and> (u = [] \<or> hd u = CHR ''/'')"
      using Cons by (cases ws) auto
    then obtain u where u: "join_with ''/'' (norm_comps t) = w @ u" "u = [] \<or> hd u = CHR ''/''" by blast
    have sl: "initial_slashes t = ''/''"
      using assms np u wx by (auto simp: is_virtual_scratch_path_def initial_slashes_def split: if_splits)
    have "w @ u = ''tmp'' \<or> startswith (w @ u) ''tmp/''"
      using assms np u sl by (auto simp: is_virtual_scratch_path_def)
    then have "split_on CHR ''/'' (w @ u) = ''tmp'' # tl (split_on CHR ''/'' (w @ u))"
      by (auto simp: prefix_def)
    moreover have "split_on CHR ''/'' (w @ u) = w # tl (split_on CHR ''/'' (w @ u))"
      using w u by (cases u) (auto simp: split_on_plain split_on_append)
    ultimately have "w = ''tmp''" by (metis list.inject)
    then show ?thesis using Cons sl by (auto simp: initial_slashes_def split: if_splits)
  qed
qed

lemma extract_rm_targets_complete:
  "a \<in> set args \<Longrightarrow> a \<noteq> [] \<Longrightarrow> \<not> startswith a ''-'' \<or> literal \<Longrightarrow> a \<in> set (extract_rm_targets literal args)"
  by (induction args arbitrary: literal) auto

lemma is_scratch_only_destructive_True:
  assumes "is_scratch_only_destructive c = Inr True"
  shows "\<exists>head args. as_str_list (dict_get (context_metadata c) ''command'') = Some (head # args) \<and>
    last_segment CHR ''/'' head = ''rm'' \<and> extract_rm_targets False args \<noteq> [] \<and>
    (\<forall>t \<in> set (extract_rm_targets False args).
       is_virtual_scratch_path (resolve_command_target_path t (or_default (oc_path_scope c) ''/'')))"
  using assms
  by (auto simp: is_scratch_only_destructive_def Let_def list_all_iff split: if_splits option.splits list.splits)

section \<open>Properties\<close>

lemma path_segments_slash [simp]: "path_segments (CHR ''/'' # s) = path_segments s"
  by (simp add: path_segments_def)

lemma path_segments_join:
  "[] \<notin> set ws \<Longrightarrow> (\<And>w. w \<in> set ws \<Longrightarrow> CHR ''/'' \<notin> set w) \<Longrightarrow> path_segments (join_with ''/'' ws) = ws"
  by (cases "ws = []") (auto simp: path_segments_def split_join_comps filter_id_conv)

lemma path_segments_normpath:
  assumes "startswith t ''/''"
  shows "path_segments (normpath t) = norm_comps t"
proof -
  have "path_segments (join_with ''/'' (norm_comps t)) = norm_comps t"
    by (rule path_segments_join) (use norm_comps_nonempty norm_comps_no_slash in blast)+
  then show ?thesis using assms by (auto simp: normpath_def initial_slashes_def Let_def)
qed

text \<open>A path in the scratch area has \<open>tmp\<close> as its first component and no \<open>..\<close>.\<close>

lemma scratch_segments:
  "is_virtual_scratch_path (normpath t) \<Longrightarrow>
   \<exists>rest. path_segments (normpath t) = ''tmp'' # rest \<and> ''..'' \<notin> set rest"
  using scratch_normpath[of t] norm_comps_absolute[of t] by (auto simp: path_segments_normpath)

lemma scratch_target_segments:
  "is_virtual_scratch_path (resolve_command_target_path a cwd) \<Longrightarrow>
   \<exists>rest. path_segments (resolve_command_target_path a cwd) = ''tmp'' # rest \<and> ''..'' \<notin> set rest"
  by (auto simp: resolve_command_target_path_def Let_def dest: scratch_segments split: if_splits)

text \<open>
  When the engine asks for approval of an operation and a grant for exactly that boundary of that run is
  recorded, the next evaluation of the same operation allows it (\<open>RuntimePolicyEngine.evaluate\<close> over
  \<open>SQLiteBoundaryGrantStore\<close>).
\<close>

theorem grant_then_same_operation_allowed:
  assumes "evaluate cfg (Some (has_grant s)) c = Inr d" and "pd_decision d = REQUIRE_APPROVAL"
    and "pd_boundary_key d = Some (bg_boundary_key g)"
    and "bg_task_id g = oc_task_id c" and "bg_run_id g = oc_run_id c"
  shows "\<exists>d'. evaluate cfg (Some (has_grant (grant_boundary g s))) c = Inr d' \<and> pd_decision d' = ALLOW \<and>
    pd_boundary_key d' = pd_boundary_key d"
  using sqlite_grants.grant_then_allow[OF assms] assms(3) by simp

definition sample_write :: operation_context where
  "sample_write = \<lparr>oc_task_id = ''t'', oc_run_id = ''r'', oc_operation_type = ''file.write'',
     oc_path_scope = Some ''/workspace/src/a.py'', oc_command_class = None, oc_memory_scope = None,
     oc_namespace = None, oc_agent_role = None, oc_metadata = None\<rparr>"

definition sample_grant :: boundary_grant where
  "sample_grant = \<lparr>bg_task_id = ''t'', bg_run_id = ''r'', bg_boundary_key = ''file.write:/workspace/src/**'',
     bg_approval_id = ''a'', bg_granted_at = ''''\<rparr>"

lemma sample_write_decision: "evaluate [] (Some (has_grant [])) sample_write = Inr
  \<lparr>pd_decision = REQUIRE_APPROVAL, pd_reason = ''Allow writes to /workspace/src/** for this run'',
   pd_boundary_key = Some ''file.write:/workspace/src/**'',
   pd_approval_scope = Some [(''kind'', PStr ''file.write''), (''path'', PStr ''/workspace/src/**'')]\<rparr>"
  by code_simp

theorem grant_then_same_operation_allowed_witness:
  "\<exists>d'. evaluate [] (Some (has_grant (grant_boundary sample_grant []))) sample_write = Inr d' \<and>
    pd_decision d' = ALLOW \<and> pd_boundary_key d' = Some ''file.write:/workspace/src/**''"
  using grant_then_same_operation_allowed[OF sample_write_decision, of sample_grant]
  by (simp add: sample_grant_def sample_write_def)


definition sample_rm :: operation_context where
  "sample_rm = \<lparr>oc_task_id = ''t'', oc_run_id = ''r'', oc_operation_type = ''command.execute'',
     oc_path_scope = Some ''/tmp'', oc_command_class = Some ''destructive'', oc_memory_scope = None,
     oc_namespace = None, oc_agent_role = None,
     oc_metadata = Some [(''command'', PList [PStr ''rm'', PStr ''-rf'', PStr ''x/../y''])]\<rparr>"

lemma sample_rm_decision: "evaluate [] None sample_rm = Inr
  \<lparr>pd_decision = ALLOW, pd_reason = ''Operation falls within the default low-risk policy tier.'',
   pd_boundary_key = Some ''command.execute:destructive:/tmp'',
   pd_approval_scope = Some [(''kind'', PStr ''command.execute''), (''command_class'', PStr ''destructive''), (''cwd'', PStr ''/tmp'')]\<rparr>"
  by code_simp


end
