(* ===== verification/Agent_Program.thy ===== *)
theory Agent_Program
  imports Artifact_Store Checkpoints Memory_Service Conversation_Compaction Policy_Engine
begin

text \<open>
  What an agent harness does to the runtime while it executes a run. A harness is a program: a finite or
  infinitely branching tree of the calls it makes on the request it was given (\<open>AgentExecutionRequest\<close>),
  each with the rest of the program as a function of what the call returned or raised. The agent itself
  (LangGraph, the model) is third-party code and stays a parameter of type \<open>prog\<close>.

  On these programs the theory defines \<open>deepagent_runtime/interrupt_bridge.py\<close> and the frame of
  \<open>DeepAgentHarness.execute\<close> (\<open>deepagent_harness.py\<close>).
\<close>

section \<open>Results and programs\<close>

record execution_result =
  xr_success :: bool
  xr_summary :: string
  xr_output_artifacts :: "string list"
  xr_error_message :: "string option"
  xr_paused :: bool
  xr_pause_reason :: "string option"
  xr_awaiting_approval :: bool
  xr_pending_approval_id :: "string option"
  xr_failure_code :: "string option"
  xr_requested_user_input :: "string option"
  xr_assistant_response :: "string option"
  xr_cancelled :: bool
  xr_checkpoint_id :: "string option"
  xr_remote_auths :: "remote_auth_state list"

text \<open>\<open>AgentExecutionResult(success=..., summary=..., output_artifacts=...)\<close> with the defaults.\<close>

definition mk_result :: "bool \<Rightarrow> string \<Rightarrow> string list \<Rightarrow> execution_result" where
  "mk_result ok summary artifacts =
     \<lparr>xr_success = ok, xr_summary = summary, xr_output_artifacts = artifacts, xr_error_message = None,
      xr_paused = False, xr_pause_reason = None, xr_awaiting_approval = False, xr_pending_approval_id = None,
      xr_failure_code = None, xr_requested_user_input = None, xr_assistant_response = None,
      xr_cancelled = False, xr_checkpoint_id = None, xr_remote_auths = []\<rparr>"

record skill_install_args =
  si_source_path :: string
  si_target_scope :: string
  si_target_role :: "string option"
  si_install_mode :: string
  si_reason :: string

text \<open>
  The calls. \<open>ClientCancel\<close> is not a call of the harness: it is a \<open>task.cancel\<close> that another thread serves
  between two calls.
\<close>

datatype 'a prog =
    Done "'a result"
  | Emit string pydict "unit result \<Rightarrow> 'a prog"
  | Govern operation_context "unit result \<Rightarrow> 'a prog"
  | SaveCheckpoint "string option" "checkpoint_metadata option result \<Rightarrow> 'a prog"
  | Probe "string option \<Rightarrow> 'a prog"
  | InterruptCheck "string option" "unit result \<Rightarrow> 'a prog"
  | InstallSkill skill_install_args "pydict result \<Rightarrow> 'a prog"
  | ReadText string "string result \<Rightarrow> 'a prog"
  | WriteText string string "unit result \<Rightarrow> 'a prog"
  | ExecCommand "string list" "string option" "command_result result \<Rightarrow> 'a prog"
  | WriteMemory "string memory_record" "unit result \<Rightarrow> 'a prog"
  | ListMemory "string option" "string option" "string memory_record list result \<Rightarrow> 'a prog"
  | ListArtifacts "artifact list \<Rightarrow> 'a prog"
  | ListFiles string "string list result \<Rightarrow> 'a prog"
  | PathExists string "bool result \<Rightarrow> 'a prog"
  | Clock "string \<Rightarrow> 'a prog"
  | NewMemoryId "string \<Rightarrow> 'a prog"
  | ClientCancel "string option" "unit result \<Rightarrow> 'a prog"

text \<open>Sequencing; the continuation sees an exception too, so it also expresses \<open>try\<close>.\<close>

primrec prog_bind :: "'a prog \<Rightarrow> ('a result \<Rightarrow> 'b prog) \<Rightarrow> 'b prog" where
  "prog_bind (Done r) f = f r"
| "prog_bind (Emit t p k) f = Emit t p (\<lambda>r. prog_bind (k r) f)"
| "prog_bind (Govern c k) f = Govern c (\<lambda>r. prog_bind (k r) f)"
| "prog_bind (SaveCheckpoint s k) f = SaveCheckpoint s (\<lambda>r. prog_bind (k r) f)"
| "prog_bind (Probe k) f = Probe (\<lambda>r. prog_bind (k r) f)"
| "prog_bind (InterruptCheck s k) f = InterruptCheck s (\<lambda>r. prog_bind (k r) f)"
| "prog_bind (InstallSkill a k) f = InstallSkill a (\<lambda>r. prog_bind (k r) f)"
| "prog_bind (ReadText p k) f = ReadText p (\<lambda>r. prog_bind (k r) f)"
| "prog_bind (WriteText p c k) f = WriteText p c (\<lambda>r. prog_bind (k r) f)"
| "prog_bind (ExecCommand c d k) f = ExecCommand c d (\<lambda>r. prog_bind (k r) f)"
| "prog_bind (WriteMemory m k) f = WriteMemory m (\<lambda>r. prog_bind (k r) f)"
| "prog_bind (ListMemory s n k) f = ListMemory s n (\<lambda>r. prog_bind (k r) f)"
| "prog_bind (ListArtifacts k) f = ListArtifacts (\<lambda>r. prog_bind (k r) f)"
| "prog_bind (ListFiles p k) f = ListFiles p (\<lambda>r. prog_bind (k r) f)"
| "prog_bind (PathExists p k) f = PathExists p (\<lambda>r. prog_bind (k r) f)"
| "prog_bind (Clock k) f = Clock (\<lambda>r. prog_bind (k r) f)"
| "prog_bind (NewMemoryId k) f = NewMemoryId (\<lambda>r. prog_bind (k r) f)"
| "prog_bind (ClientCancel s k) f = ClientCancel s (\<lambda>r. prog_bind (k r) f)"

definition p_then :: "'a prog \<Rightarrow> ('a \<Rightarrow> 'b prog) \<Rightarrow> 'b prog" where
  "p_then p f = prog_bind p (\<lambda>r. case r of Inl e \<Rightarrow> Done (Inl e) | Inr x \<Rightarrow> f x)"

definition p_catch :: "'a prog \<Rightarrow> (exn \<Rightarrow> 'a prog) \<Rightarrow> 'a prog" where
  "p_catch p h = prog_bind p (\<lambda>r. case r of Inl e \<Rightarrow> h e | Inr x \<Rightarrow> Done (Inr x))"

lemma prog_bind_assoc: "prog_bind (prog_bind p f) g = prog_bind p (\<lambda>r. prog_bind (f r) g)"
  by (induction p) simp_all

lemma prog_bind_Done: "prog_bind p Done = p"
  by (induction p) simp_all

section \<open>The interrupt bridge\<close>

text \<open>
  \<open>has_controller\<close> is whether the request carries a checkpoint controller. The bridge is built with a
  cancellation probe, a governed operation and the event callback, as \<open>execute\<close> builds it.
\<close>

definition record_interrupt_checkpoint :: "bool \<Rightarrow> string \<Rightarrow> checkpoint_metadata option prog" where
  "record_interrupt_checkpoint has_controller reason =
     (if \<not> has_controller then Done (Inr None)
      else SaveCheckpoint (Some reason) (\<lambda>r. case r of
          Inl e \<Rightarrow> Done (Inl e)
        | Inr None \<Rightarrow> Done (Inr None)
        | Inr (Some m) \<Rightarrow> Emit ''checkpoint.saved'' (checkpoint_to_dict m)
            (\<lambda>u. case u of Inl e \<Rightarrow> Done (Inl e) | Inr _ \<Rightarrow> Done (Inr (Some m)))))"

definition raise_if_cancelled :: "bool \<Rightarrow> string \<Rightarrow> unit prog" where
  "raise_if_cancelled has_controller reason = Probe (\<lambda>cancel_reason. case cancel_reason of
     None \<Rightarrow> Done (Inr ())
   | Some why \<Rightarrow> p_then (record_interrupt_checkpoint has_controller reason) (\<lambda>m.
       Done (Inl (CancellationRequestedInterrupt (Some why) (map_option cm_id m)))))"

definition authorize :: "bool \<Rightarrow> operation_context \<Rightarrow> unit prog" where
  "authorize has_controller c = p_then (raise_if_cancelled has_controller ''cancel_requested'') (\<lambda>_.
     Govern c (\<lambda>r. case r of
       Inl (ApprovalRequiredInterrupt a s) \<Rightarrow>
         p_then (record_interrupt_checkpoint has_controller ''awaiting_approval'') (\<lambda>_.
           Done (Inl (ApprovalRequiredInterrupt a s)))
     | _ \<Rightarrow> Done r))"

definition request_user_input :: "bool \<Rightarrow> string \<Rightarrow> string option \<Rightarrow> unit prog" where
  "request_user_input has_controller question code =
     p_then (raise_if_cancelled has_controller ''cancel_requested'') (\<lambda>_.
     p_then (record_interrupt_checkpoint has_controller ''awaiting_user_input'') (\<lambda>_.
       Done (Inl (ClarificationRequiredInterrupt question code))))"

section \<open>The frame of the deep agent harness\<close>

record agent_outcome =
  ao_success :: bool
  ao_summary :: string
  ao_artifact_paths :: "string list"
  ao_error_message :: "string option"
  ao_final_response :: "string option"

definition transient_markers :: "string list" where
  "transient_markers = [''internal server error'', ''status code: -1'', ''service unavailable'', ''bad gateway'',
     ''gateway timeout'', ''temporarily unavailable'', ''connection reset'', ''connection aborted'',
     ''timed out'', ''timeout'', ''rate limit'', ''too many requests'']"

definition is_resumable_transient_error :: "bool \<Rightarrow> exn \<Rightarrow> bool" where
  "is_resumable_transient_error has_controller e =
     (has_controller \<and> list_ex (\<lambda>m. sublist m (py_lower (exn_str e))) transient_markers)"

text \<open>
  The \<open>except\<close> clauses of \<open>execute\<close>. \<open>AuthorizationRequiredError\<close>, \<open>ContextOverflowError\<close> and
  \<open>SubagentCompilationError\<close> are exceptions of parts that are not modelled: the model's agent does not
  raise the first two, and the third is handled like a \<open>ValueError\<close>, of which \<open>UnicodeDecodeError\<close> is a subclass.
\<close>

fun harness_except :: "bool \<Rightarrow> exn \<Rightarrow> execution_result" where
  "harness_except hc (ApprovalRequiredInterrupt a s) = (mk_result False s [])
     \<lparr>xr_paused := True, xr_pause_reason := Some ''awaiting approval'', xr_awaiting_approval := True,
      xr_pending_approval_id := Some a\<rparr>"
| "harness_except hc (ClarificationRequiredInterrupt q c) = (mk_result False q [])
     \<lparr>xr_paused := True, xr_pause_reason := Some ''awaiting_user_input'', xr_requested_user_input := Some q\<rparr>"
| "harness_except hc (CancellationRequestedInterrupt r c) =
     (mk_result False ''Run interrupted by cancel request.'' [])
     \<lparr>xr_paused := True, xr_pause_reason := Some ''cancel_requested'', xr_cancelled := True,
      xr_checkpoint_id := c\<rparr>"
| "harness_except hc (PolicyDeniedInterrupt r) = (mk_result False r [])
     \<lparr>xr_error_message := Some r, xr_failure_code := Some ''policy_denied''\<rparr>"
| "harness_except hc (RejectionThresholdExceeded n k f) = (mk_result False (threshold_summary f) [])
     \<lparr>xr_error_message := Some (exn_str (RejectionThresholdExceeded n k f)),
      xr_failure_code := Some ''recoverable_rejection_threshold_exceeded''\<rparr>"
| "harness_except hc (PermissionError m) =
     (mk_result False ''Agent harness failed during Deep Agent execution.'' [])\<lparr>xr_error_message := Some m\<rparr>"
| "harness_except hc (ValueError m) =
     (mk_result False ''Agent harness failed during Deep Agent execution.'' [])\<lparr>xr_error_message := Some m\<rparr>"
| "harness_except hc (UnicodeDecodeError m) =
     (mk_result False ''Agent harness failed during Deep Agent execution.'' [])\<lparr>xr_error_message := Some m\<rparr>"
| "harness_except hc e =
     (if is_resumable_transient_error hc e then
        (mk_result False
          ''Execution paused after a transient upstream error. Resume from the latest checkpoint.'' [])
        \<lparr>xr_error_message := Some (exn_str e), xr_paused := True, xr_pause_reason := Some ''awaiting resume''\<rparr>
      else (mk_result False ''Agent harness failed during Deep Agent execution.'' [])
        \<lparr>xr_error_message := Some (exn_str e)\<rparr>)"

text \<open>
  \<open>execute\<close>: \<open>prompt\<close> is the primary prompt, \<open>resumed\<close> whether the request names a checkpoint to resume
  from, \<open>agent\<close> the agent run of \<open>_run_agent_task\<close>.
\<close>

definition save_and_emit :: "bool \<Rightarrow> string \<Rightarrow> unit prog" where
  "save_and_emit has_controller reason =
     p_then (record_interrupt_checkpoint has_controller reason) (\<lambda>_. Done (Inr ()))"

definition truncate_text :: "string \<Rightarrow> nat \<Rightarrow> string" where
  "truncate_text s n = (if length s \<le> n then s else take (n - 3) s @ ''...'')"

definition deep_execute :: "string \<Rightarrow> bool \<Rightarrow> bool \<Rightarrow> agent_outcome prog \<Rightarrow> execution_result prog" where
  "deep_execute prompt has_controller resumed agent =
     Emit ''plan.updated''
       [(''phase'', PStr ''planning''),
        (''summary'', PStr ''Prepared the primary Deep Agent prompt and resolved role configuration.''),
        (''prompt_preview'', PStr (truncate_text prompt 280))]
       (\<lambda>u. case u of Inl e \<Rightarrow> Done (Inl e) | Inr _ \<Rightarrow>
       p_catch
         (p_then (raise_if_cancelled has_controller ''cancel_requested'') (\<lambda>_.
          p_then (save_and_emit has_controller (if resumed then ''resumed_before_invoke'' else ''run_started'')) (\<lambda>_.
          p_then agent (\<lambda>outcome.
          p_then (raise_if_cancelled has_controller ''cancel_requested'') (\<lambda>_.
          p_then (if ao_success outcome then save_and_emit has_controller ''run_completed'' else Done (Inr ())) (\<lambda>_.
            Done (Inr ((mk_result (ao_success outcome) (ao_summary outcome) (ao_artifact_paths outcome))
              \<lparr>xr_error_message := ao_error_message outcome,
               xr_assistant_response := ao_final_response outcome\<rparr>))))))))
         (\<lambda>e. Done (Inr (harness_except has_controller e))))"

text \<open>The exceptions a handled agent run turns into a paused result.\<close>

lemma harness_except_paused:
  "xr_paused (harness_except hc e) \<Longrightarrow>
   (\<exists>a s. e = ApprovalRequiredInterrupt a s) \<or> (\<exists>q c. e = ClarificationRequiredInterrupt q c) \<or>
   (\<exists>r c. e = CancellationRequestedInterrupt r c) \<or> is_resumable_transient_error hc e"
  by (cases "(hc, e)" rule: harness_except.cases) (auto simp: mk_result_def split: if_splits)

lemma harness_except_no_success [simp]: "\<not> xr_success (harness_except hc e)"
  by (cases "(hc, e)" rule: harness_except.cases) (auto simp: mk_result_def)

section \<open>Property\<close>

primrec all_leaves :: "('a result \<Rightarrow> bool) \<Rightarrow> 'a prog \<Rightarrow> bool" where
  "all_leaves P (Done r) = P r"
| "all_leaves P (Emit t p k) = (\<forall>x. all_leaves P (k x))"
| "all_leaves P (Govern c k) = (\<forall>x. all_leaves P (k x))"
| "all_leaves P (SaveCheckpoint s k) = (\<forall>x. all_leaves P (k x))"
| "all_leaves P (Probe k) = (\<forall>x. all_leaves P (k x))"
| "all_leaves P (InterruptCheck s k) = (\<forall>x. all_leaves P (k x))"
| "all_leaves P (InstallSkill a k) = (\<forall>x. all_leaves P (k x))"
| "all_leaves P (ReadText p k) = (\<forall>x. all_leaves P (k x))"
| "all_leaves P (WriteText p c k) = (\<forall>x. all_leaves P (k x))"
| "all_leaves P (ExecCommand c d k) = (\<forall>x. all_leaves P (k x))"
| "all_leaves P (WriteMemory m k) = (\<forall>x. all_leaves P (k x))"
| "all_leaves P (ListMemory s n k) = (\<forall>x. all_leaves P (k x))"
| "all_leaves P (ListArtifacts k) = (\<forall>x. all_leaves P (k x))"
| "all_leaves P (ListFiles p k) = (\<forall>x. all_leaves P (k x))"
| "all_leaves P (PathExists p k) = (\<forall>x. all_leaves P (k x))"
| "all_leaves P (Clock k) = (\<forall>x. all_leaves P (k x))"
| "all_leaves P (NewMemoryId k) = (\<forall>x. all_leaves P (k x))"
| "all_leaves P (ClientCancel s k) = (\<forall>x. all_leaves P (k x))"

lemma all_leaves_bind:
  "all_leaves P p \<Longrightarrow> (\<And>r. P r \<Longrightarrow> all_leaves Q (f r)) \<Longrightarrow> all_leaves Q (prog_bind p f)"
  by (induction p) simp_all

lemma all_leaves_True [simp]: "all_leaves (\<lambda>r. True) p"
  by (induction p) simp_all

lemma all_leaves_then:
  "all_leaves P p \<Longrightarrow> (\<And>e. P (Inl e) \<Longrightarrow> Q (Inl e)) \<Longrightarrow> (\<And>x. P (Inr x) \<Longrightarrow> all_leaves Q (f x)) \<Longrightarrow>
   all_leaves Q (p_then p f)"
  unfolding p_then_def by (erule all_leaves_bind) (auto split: sum.split)

lemma all_leaves_catch:
  "all_leaves P p \<Longrightarrow> (\<And>x. P (Inr x) \<Longrightarrow> Q (Inr x)) \<Longrightarrow> (\<And>e. P (Inl e) \<Longrightarrow> all_leaves Q (h e)) \<Longrightarrow>
   all_leaves Q (p_catch p h)"
  unfolding p_catch_def by (erule all_leaves_bind) (auto split: sum.split)

lemmas all_leaves_after = all_leaves_then[where P = "\<lambda>r. True", OF all_leaves_True]

text \<open>
  The deep agent harness never raises once the plan event is out: every exception of the agent, of the
  interrupt bridge and of the event callbacks becomes a result; and it reports success only for an agent outcome
  that is a success, with that outcome's summary and artifacts.
\<close>

theorem deep_execute_returns:
  assumes "all_leaves (\<lambda>r. \<forall>out. r = Inr out \<longrightarrow> Q out) agent"
  shows "\<exists>payload k. deep_execute prompt hc resumed agent = Emit ''plan.updated'' payload k \<and>
    all_leaves (\<lambda>r. \<exists>res. r = Inr res \<and> (xr_success res \<longrightarrow>
      (\<exists>out. Q out \<and> ao_success out \<and> xr_summary res = ao_summary out \<and> xr_output_artifacts res = ao_artifact_paths out)))
      (k (Inr ()))"
proof -
  let ?ok = "\<lambda>res. \<exists>out. Q out \<and> ao_success out \<and> xr_summary res = ao_summary out \<and>
    xr_output_artifacts res = ao_artifact_paths out"
  have "all_leaves (\<lambda>r. \<forall>res. r = Inr res \<longrightarrow> xr_success res \<longrightarrow> ?ok res)
      (p_then agent (\<lambda>outcome. p_then (raise_if_cancelled hc ''cancel_requested'') (\<lambda>_.
       p_then (if ao_success outcome then save_and_emit hc ''run_completed'' else Done (Inr ())) (\<lambda>_.
         Done (Inr ((mk_result (ao_success outcome) (ao_summary outcome) (ao_artifact_paths outcome))
           \<lparr>xr_error_message := ao_error_message outcome, xr_assistant_response := ao_final_response outcome\<rparr>))))))"
    by (rule all_leaves_then[OF assms]) (auto intro!: all_leaves_after simp: mk_result_def)
  then show ?thesis
    unfolding deep_execute_def
    by (auto intro!: all_leaves_catch[where P = "\<lambda>r. \<forall>res. r = Inr res \<longrightarrow> xr_success res \<longrightarrow> ?ok res"] all_leaves_after)
qed

theorem deep_execute_returns_witness:
  "\<exists>payload k. deep_execute ''p'' True False (Done (Inr \<lparr>ao_success = True, ao_summary = ''s'', ao_artifact_paths = [],
       ao_error_message = None, ao_final_response = None\<rparr>)) = Emit ''plan.updated'' payload k \<and>
     all_leaves (\<lambda>r. \<exists>res. r = Inr res \<and> (xr_success res \<longrightarrow> xr_summary res = ''s'')) (k (Inr ()))"
proof -
  let ?o = "\<lparr>ao_success = True, ao_summary = ''s'', ao_artifact_paths = [], ao_error_message = None, ao_final_response = None\<rparr>"
  have mono: "all_leaves P p \<Longrightarrow> (\<And>r. P r \<Longrightarrow> R r) \<Longrightarrow> all_leaves R p" for P R and p :: "execution_result prog"
    by (induction p) auto
  have "all_leaves (\<lambda>r. \<forall>out. r = Inr out \<longrightarrow> out = ?o) (Done (Inr ?o))" by simp
  from deep_execute_returns[OF this, of "''p''" True False]
  show ?thesis by (elim exE conjE) (intro exI conjI, assumption, erule mono, auto)
qed

end
