(* ===== verification/Command_Text.thy ===== *)
theory Command_Text
  imports Task_Model
begin

text \<open>
  How \<open>tool_bindings.py\<close> reads the \<open>command\<close> argument of a tool call: a list, a JSON text of a list, or a plain
  string that \<open>shlex\<close> splits. The theory models the parts of \<open>shlex\<close> and \<open>json.loads\<close> the source uses, proves that
  the JSON reader always has fuel enough, and that the splitting undoes \<open>shlex.join\<close> on the words whose
  characters the tokenizer knows.
\<close>

section \<open>Tokens of a plain command string\<close>

text \<open>
  \<open>shlex.shlex(s, posix=True, punctuation_chars="|&;<>")\<close> as an iterator: the states of \<open>read_token\<close>, with
  \<open>whitespace_split\<close> off. \<open>LQuote d\<close> is inside a string quoted by \<open>d\<close>; \<open>LEscape\<close> is behind a backslash, with
  the quote it stands in, if any. The pushed-back character of \<open>LWord\<close> and \<open>LPunct\<close> is read again in \<open>LSpace\<close>.
\<close>

datatype lex_state = LSpace | LWord | LPunct | LQuote char | LEscape "char option"

definition shlex_whitespace :: "char \<Rightarrow> bool" where
  "shlex_whitespace c = (code_point c \<in> {9, 10, 13, 32})"

definition shlex_punctuation :: "char \<Rightarrow> bool" where
  "shlex_punctuation c = (c \<in> set ''|&;<>'')"

definition shlex_wordchar :: "char \<Rightarrow> bool" where
  "shlex_wordchar c = (let n = code_point c in
     (48 \<le> n \<and> n \<le> 57) \<or> (65 \<le> n \<and> n \<le> 90) \<or> (97 \<le> n \<and> n \<le> 122) \<or> c \<in> set ''_~-./*?=''
     \<or> (192 \<le> n \<and> n \<noteq> 215 \<and> n \<noteq> 247))"

definition shlex_quote_char :: "char \<Rightarrow> bool" where
  "shlex_quote_char c = (c = CHR 0x27 \<or> c = CHR 0x22)"

definition after_line :: "string \<Rightarrow> string" where
  "after_line s = drop 1 (dropWhile (\<lambda>c. code_point c \<noteq> 10) s)"

lemma length_after_line: "length (after_line s) \<le> length s"
  using length_dropWhile_le[of "\<lambda>c. code_point c \<noteq> 10" s] by (simp add: after_line_def)

abbreviation emit_token :: "string \<Rightarrow> string list result \<Rightarrow> string list result" where
  "emit_token tok r \<equiv> bindR r (\<lambda>ts. Inr (tok # ts))"

function shlex_tokens :: "lex_state \<Rightarrow> string \<Rightarrow> string \<Rightarrow> string list result" where
  "shlex_tokens LSpace tok [] = Inr []"
| "shlex_tokens LSpace tok (c # cs) =
     (if shlex_whitespace c then shlex_tokens LSpace [] cs
      else if c = CHR ''#'' then shlex_tokens LSpace [] (after_line cs)
      else if c = CHR 0x5C then shlex_tokens (LEscape None) [] cs
      else if shlex_wordchar c then shlex_tokens LWord [c] cs
      else if shlex_punctuation c then shlex_tokens LPunct [c] cs
      else if shlex_quote_char c then shlex_tokens (LQuote c) [] cs
      else emit_token [c] (shlex_tokens LSpace [] cs))"
| "shlex_tokens LWord tok [] = Inr [tok]"
| "shlex_tokens LWord tok (c # cs) =
     (if shlex_whitespace c then emit_token tok (shlex_tokens LSpace [] cs)
      else if c = CHR ''#'' then emit_token tok (shlex_tokens LSpace [] (after_line cs))
      else if shlex_quote_char c then shlex_tokens (LQuote c) tok cs
      else if c = CHR 0x5C then shlex_tokens (LEscape None) tok cs
      else if shlex_wordchar c then shlex_tokens LWord (tok @ [c]) cs
      else emit_token tok (shlex_tokens LSpace [] (c # cs)))"
| "shlex_tokens LPunct tok [] = Inr [tok]"
| "shlex_tokens LPunct tok (c # cs) =
     (if shlex_whitespace c then emit_token tok (shlex_tokens LSpace [] cs)
      else if c = CHR ''#'' then emit_token tok (shlex_tokens LSpace [] (after_line cs))
      else if shlex_punctuation c then shlex_tokens LPunct (tok @ [c]) cs
      else emit_token tok (shlex_tokens LSpace [] (c # cs)))"
| "shlex_tokens (LQuote d) tok [] = Inl (ValueError ''No closing quotation'')"
| "shlex_tokens (LQuote d) tok (c # cs) =
     (if c = d then shlex_tokens LWord tok cs
      else if c = CHR 0x5C \<and> d = CHR 0x22 then shlex_tokens (LEscape (Some d)) tok cs
      else shlex_tokens (LQuote d) (tok @ [c]) cs)"
| "shlex_tokens (LEscape e) tok [] = Inl (ValueError ''No escaped character'')"
| "shlex_tokens (LEscape e) tok (c # cs) = (case e of
     None \<Rightarrow> shlex_tokens LWord (tok @ [c]) cs
   | Some d \<Rightarrow> shlex_tokens (LQuote d)
       ((if c \<noteq> CHR 0x5C \<and> c \<noteq> d then tok @ [CHR 0x5C] else tok) @ [c]) cs)"
  by pat_completeness auto

termination
  by (relation "measure (\<lambda>(st, tok, s). 2 * length s + (if st = LSpace then 0 else 1))")
    (auto simp: less_Suc_eq_le le_SucI length_after_line)

text \<open>\<open>shlex.quote\<close> and \<open>shlex.join\<close>.\<close>

definition shell_safe :: "char \<Rightarrow> bool" where
  "shell_safe c = (let n = code_point c in
     (48 \<le> n \<and> n \<le> 57) \<or> (65 \<le> n \<and> n \<le> 90) \<or> (97 \<le> n \<and> n \<le> 122) \<or> c \<in> set ''_@%+=:,./-'')"

definition shlex_quote :: "string \<Rightarrow> string" where
  "shlex_quote s = (if s = [] then [CHR 0x27, CHR 0x27] else if list_all shell_safe s then s
     else [CHR 0x27] @ concat (map (\<lambda>c. if c = CHR 0x27 then [CHR 0x27, CHR 0x22, CHR 0x27, CHR 0x22, CHR 0x27] else [c]) s)
       @ [CHR 0x27])"

definition shlex_join :: "string list \<Rightarrow> string" where
  "shlex_join command = join_with '' '' (map shlex_quote command)"

section \<open>JSON texts\<close>

text \<open>
  \<open>json.loads\<close>: a value and the rest of the text behind it, or \<open>None\<close> for a \<open>JSONDecodeError\<close>. A \<open>\u\<close> escape of a
  code point above 255 reads as a question mark (such strings are outside the model). The fuel bounds the
  nesting of the calls; \<open>json_loads\<close> gives as much as a text of its length can use (\<open>json_value_fuel\<close> below).
\<close>

definition json_space :: "string \<Rightarrow> string" where
  "json_space s = dropWhile (\<lambda>c. code_point c \<in> {9, 10, 13, 32}) s"

definition hex_value :: "char \<Rightarrow> nat option" where
  "hex_value c = (let n = code_point c in
     if 48 \<le> n \<and> n \<le> 57 then Some (n - 48)
     else if 65 \<le> n \<and> n \<le> 70 then Some (n - 55)
     else if 97 \<le> n \<and> n \<le> 102 then Some (n - 87) else None)"

definition hex4 :: "char \<Rightarrow> char \<Rightarrow> char \<Rightarrow> char \<Rightarrow> nat option" where
  "hex4 a b c d = (case (hex_value a, hex_value b, hex_value c, hex_value d) of
     (Some i, Some j, Some k, Some l) \<Rightarrow> Some (((i * 16 + j) * 16 + k) * 16 + l) | _ \<Rightarrow> None)"

definition json_escape :: "char \<Rightarrow> char option" where
  "json_escape c = map_of [(CHR 0x22, CHR 0x22), (CHR 0x5C, CHR 0x5C), (CHR ''/'', CHR ''/''), (CHR ''b'', CHR 0x08),
     (CHR ''f'', CHR 0x0C), (CHR ''n'', CHR 0x0A), (CHR ''r'', CHR 0x0D), (CHR ''t'', CHR 0x09)] c"

fun json_string :: "string \<Rightarrow> (string \<times> string) option" where
  "json_string [] = None"
| "json_string (c # cs) =
     (if c = CHR 0x22 then Some ([], cs)
      else if code_point c < 32 then None
      else if c \<noteq> CHR 0x5C then map_option (\<lambda>(s, r). (c # s, r)) (json_string cs)
      else (case cs of
          [] \<Rightarrow> None
        | e # es \<Rightarrow>
            if e = CHR ''u'' then
              (case es of
                 h1 # h2 # h3 # h4 # r \<Rightarrow> (case hex4 h1 h2 h3 h4 of
                     None \<Rightarrow> None
                   | Some n \<Rightarrow> map_option (\<lambda>(s, r'). ((if n < 256 then char_of n else CHR ''?'') # s, r')) (json_string r))
               | _ \<Rightarrow> None)
            else (case json_escape e of
                None \<Rightarrow> None | Some x \<Rightarrow> map_option (\<lambda>(s, r). (x # s, r)) (json_string es))))"

definition is_digit :: "char \<Rightarrow> bool" where
  "is_digit c = (48 \<le> code_point c \<and> code_point c \<le> 57)"

definition digits_value :: "string \<Rightarrow> int" where
  "digits_value ds = foldl (\<lambda>a c. 10 * a + int (code_point c - 48)) 0 ds"

text \<open>The fraction and the exponent of a number, each empty when its text is not complete.\<close>

definition json_fraction :: "string \<Rightarrow> string \<times> string" where
  "json_fraction s = (case s of
     p # d # cs \<Rightarrow> if p = CHR ''.'' \<and> is_digit d then (p # d # takeWhile is_digit cs, dropWhile is_digit cs) else ([], s)
   | _ \<Rightarrow> ([], s))"

definition json_exponent :: "string \<Rightarrow> string \<times> string" where
  "json_exponent s = (case s of
     e # cs \<Rightarrow> if e = CHR ''e'' \<or> e = CHR ''E'' then
         (let sign = (case cs of c # _ \<Rightarrow> if c = CHR ''+'' \<or> c = CHR ''-'' then [c] else [] | [] \<Rightarrow> []);
              ds = drop (length sign) cs in
          if ds \<noteq> [] \<and> is_digit (hd ds) then (e # sign @ takeWhile is_digit ds, dropWhile is_digit ds) else ([], s))
       else ([], s)
   | [] \<Rightarrow> ([], s))"

definition json_digits :: "string \<Rightarrow> string \<times> string" where
  "json_digits s = (if startswith s ''0'' then (''0'', drop 1 s) else (takeWhile is_digit s, dropWhile is_digit s))"

definition json_unsigned :: "string \<Rightarrow> string \<Rightarrow> (pyval \<times> string) option" where
  "json_unsigned sign s =
     (case json_digits s of (ds, rest) \<Rightarrow> case json_fraction rest of (frac, r1) \<Rightarrow> case json_exponent r1 of (ex, r2) \<Rightarrow>
       if ds = [] then None
       else if frac = [] \<and> ex = []
         then Some (PInt (if sign = [] then digits_value ds else - digits_value ds), rest)
       else Some (PFloat (sign @ ds @ frac @ ex), r2))"

definition json_number :: "string \<Rightarrow> (pyval \<times> string) option" where
  "json_number s = (if startswith s ''-'' then json_unsigned ''-'' (drop 1 s) else json_unsigned [] s)"

definition json_constants :: "(string \<times> pyval) list" where
  "json_constants = [(''null'', PNone), (''true'', PBool True), (''false'', PBool False), (''NaN'', PFloat ''nan''),
     (''Infinity'', PFloat ''inf''), (''-Infinity'', PFloat ''-inf'')]"

definition json_constant :: "string \<Rightarrow> (pyval \<times> string) option" where
  "json_constant s = map_option (\<lambda>(n, v). (v, drop (length n) s)) (List.find (\<lambda>(n, v). startswith s n) json_constants)"

fun json_value :: "nat \<Rightarrow> string \<Rightarrow> (pyval \<times> string) option"
  and json_items :: "nat \<Rightarrow> string \<Rightarrow> (pyval list \<times> string) option"
  and json_members :: "nat \<Rightarrow> string \<Rightarrow> (pydict \<times> string) option" where
  "json_value 0 s = None"
| "json_value (Suc n) s =
     (if startswith s [CHR 0x22] then map_option (\<lambda>(t, r). (PStr t, r)) (json_string (drop 1 s))
      else if startswith s ''['' then
        (let r = json_space (drop 1 s) in
         if startswith r '']'' then Some (PList [], drop 1 r)
         else map_option (\<lambda>(vs, r'). (PList vs, r')) (json_items n r))
      else if startswith s ''{'' then
        (let r = json_space (drop 1 s) in
         if startswith r ''}'' then Some (PDict [], drop 1 r)
         else map_option (\<lambda>(kvs, r'). (PDict (foldl (\<lambda>d (k, v). dict_set d k v) [] kvs), r')) (json_members n r))
      else (case json_constant s of Some x \<Rightarrow> Some x | None \<Rightarrow> json_number s))"
| "json_items 0 s = None"
| "json_items (Suc n) s = (case json_value n s of
     None \<Rightarrow> None
   | Some (v, r) \<Rightarrow> (let r' = json_space r in
       if startswith r' '']'' then Some ([v], drop 1 r')
       else if startswith r' '','' then map_option (\<lambda>(vs, q). (v # vs, q)) (json_items n (json_space (drop 1 r')))
       else None))"
| "json_members 0 s = None"
| "json_members (Suc n) s =
     (if \<not> startswith s [CHR 0x22] then None
      else (case json_string (drop 1 s) of
          None \<Rightarrow> None
        | Some (k, r) \<Rightarrow> (let r1 = json_space r in
            if \<not> startswith r1 '':'' then None
            else (case json_value n (json_space (drop 1 r1)) of
                None \<Rightarrow> None
              | Some (v, r2) \<Rightarrow> (let r3 = json_space r2 in
                  if startswith r3 ''}'' then Some ([(k, v)], drop 1 r3)
                  else if startswith r3 '','' then
                    map_option (\<lambda>(kvs, q). ((k, v) # kvs, q)) (json_members n (json_space (drop 1 r3)))
                  else None)))))"

definition json_loads :: "string \<Rightarrow> pyval option" where
  "json_loads s = (case json_value (2 * length s + 2) (json_space s) of
     None \<Rightarrow> None | Some (v, r) \<Rightarrow> if json_space r = [] then Some v else None)"


text \<open>Reading consumes text, so the fuel of \<open>json_loads\<close> is enough: more of it changes nothing.\<close>

lemma json_space_length: "length (json_space s) \<le> length s"
  by (simp add: json_space_def length_dropWhile_le)

lemma json_string_length: "json_string s = Some (t, r) \<Longrightarrow> length r < length s"
proof (induction s arbitrary: t r rule: json_string.induct)
  case (2 c cs)
  show ?case
  proof (cases "c = CHR 0x22 \<or> code_point c < 32 \<or> c \<noteq> CHR 0x5C")
    case True
    then show ?thesis using 2(1)[of _ r] 2(4) by (auto split: if_splits intro: less_SucI)
  next
    case False
    then obtain e es where es: "cs = e # es" using 2(4) by (auto split: list.splits)
    show ?thesis
    proof (cases "e = CHR ''u''")
      case True
      then obtain a b d h q n where q: "es = a # b # d # h # q" "hex4 a b d h = Some n"
        using False es 2(4) by (auto split: list.splits option.splits)
      then have "\<exists>t'. json_string q = Some (t', r)" using False es True 2(4) by auto
      then show ?thesis using 2(2)[of e es a "b # d # h # q" b "d # h # q" d "h # q" h q n _ r] False es True q by fastforce
    next
      case f: False
      then obtain x where x: "json_escape e = Some x" using False es 2(4) by (auto split: option.splits)
      then have "\<exists>t'. json_string es = Some (t', r)" using False es f 2(4) by auto
      then show ?thesis using 2(3)[of e es x _ r] False es f x by fastforce
    qed
  qed
qed simp

lemma json_constant_length: "json_constant s = Some (v, r) \<Longrightarrow> length r < length s"
  by (auto simp: json_constant_def json_constants_def split: if_splits dest!: prefix_length_le)

lemma json_fraction_length: "json_fraction s = (f, r) \<Longrightarrow> length r \<le> length s"
  by (auto simp: json_fraction_def split: list.splits if_splits)
    (simp add: le_SucI length_dropWhile_le)

lemma json_exponent_length: "json_exponent s = (f, r) \<Longrightarrow> length r \<le> length s"
  by (auto simp: json_exponent_def Let_def le_SucI length_dropWhile_le split: list.splits if_splits)

lemma json_digits_length: "json_digits s = (ds, r) \<Longrightarrow> length ds + length r = length s"
  by (auto simp: json_digits_def prefix_def split: if_splits simp flip: length_append)

lemma json_unsigned_length: "json_unsigned sign s = Some (v, r) \<Longrightarrow> length r < length s"
proof -
  assume u: "json_unsigned sign s = Some (v, r)"
  obtain ds rest f r1 e r2 where fr: "json_digits s = (ds, rest)" "json_fraction rest = (f, r1)" "json_exponent r1 = (e, r2)"
    by fastforce
  moreover have "ds \<noteq> []" and "r = rest \<or> r = r2" using u fr by (auto simp: json_unsigned_def split: if_splits)
  ultimately show ?thesis
    using json_digits_length[OF fr(1)] json_fraction_length[OF fr(2)] json_exponent_length[OF fr(3)] by (cases ds) auto
qed

lemma json_number_length: "json_number s = Some (v, r) \<Longrightarrow> length r < length s"
  by (auto simp: json_number_def split: if_splits dest!: json_unsigned_length)

lemma json_space_drop: "s \<noteq> [] \<Longrightarrow> length (json_space (drop 1 s)) < length s"
  using json_space_length[of "drop 1 s"] by (cases s) auto

lemma json_consumes:
  "json_value n s = Some (v, r) \<Longrightarrow> length r < length s"
  "json_items n s = Some (vs, r) \<Longrightarrow> length r < length s"
  "json_members n s = Some (kvs, r) \<Longrightarrow> length r < length s"
proof (induction n s and n s and n s arbitrary: v r and vs r and kvs r
    rule: json_value_json_items_json_members.induct)
  case (2 n s)
  note space = json_space_drop[of s]
  show ?case
  proof (cases "startswith s [CHR 0x22]")
    case True
    then have "\<exists>t. json_string (drop 1 s) = Some (t, r)" and "s \<noteq> []" using 2(3) by auto
    then show ?thesis using json_string_length[of "drop 1 s" _ r] by (cases s) auto
  next
    case q: False
    show ?thesis
    proof (cases "startswith s ''['' \<or> startswith s ''{''")
      case True
      then have ne: "s \<noteq> []" by auto
      have "length r < length (json_space (drop 1 s)) \<or> r = drop 1 (json_space (drop 1 s))"
        using True q 2 by (auto simp: Let_def split: if_splits)
      then show ?thesis using space[OF ne] by auto
    next
      case False
      then show ?thesis using q 2(3) by (auto split: option.splits dest: json_constant_length json_number_length)
    qed
  qed
next
  case (4 n s)
  obtain v r1 where v: "json_value n s = Some (v, r1)" using 4(3) by (auto split: option.splits)
  note len = 4(1)[OF v] json_space_length[of r1]
  show ?case
  proof (cases "startswith (json_space r1) '']''")
    case True
    then show ?thesis using 4(3) v len by auto
  next
    case False
    then have c: "startswith (json_space r1) '',''"
        and i: "\<exists>vs. json_items n (json_space (drop 1 (json_space r1))) = Some (vs, r)"
      using 4(3) v by (auto simp: Let_def split: if_splits)
    then have "json_space r1 \<noteq> []" by auto
    then show ?thesis
      using 4(2)[OF v refl refl False c] i len json_space_drop by fastforce
  qed
next
  case (6 n s)
  have q: "startswith s [CHR 0x22]" using 6(3) by (auto split: if_splits)
  then obtain k r0 where k: "json_string (drop 1 s) = Some (k, r0)" using 6(3) by (auto split: option.splits)
  have colon: "startswith (json_space r0) '':''" using 6(3) q k by (auto simp: Let_def split: if_splits)
  then obtain v r2 where v: "json_value n (json_space (drop 1 (json_space r0))) = Some (v, r2)"
    using 6(3) q k by (auto simp: Let_def split: option.splits)
  have ne: "json_space r0 \<noteq> []" "s \<noteq> []" using colon q by auto
  have len: "length (json_space r2) < length s"
    using 6(1)[OF _ k refl refl _ v] json_string_length[OF k] json_space_drop[OF ne(1)] json_space_length[of r0]
      json_space_length[of r2] ne(2) q colon by (cases s) auto
  show ?case
  proof (cases "startswith (json_space r2) ''}''")
    case True
    then show ?thesis using 6(3) q k colon v len by (auto simp: Let_def)
  next
    case False
    then have c: "startswith (json_space r2) '',''"
        and i: "\<exists>kvs. json_members n (json_space (drop 1 (json_space r2))) = Some (kvs, r)"
      using 6(3) q k colon v by (auto simp: Let_def split: if_splits)
    then have "json_space r2 \<noteq> []" by auto
    then show ?thesis
      using 6(2)[OF _ k refl refl _ v refl refl False c] i len json_space_drop q colon by fastforce
  qed
qed auto

lemma json_fuel:
  "2 * length s < n \<Longrightarrow> 2 * length s < m \<Longrightarrow> json_value n s = json_value m s"
  "2 * length s + 1 < n \<Longrightarrow> 2 * length s + 1 < m \<Longrightarrow> json_items n s = json_items m s"
  "2 * length s + 1 < n \<Longrightarrow> 2 * length s + 1 < m \<Longrightarrow> json_members n s = json_members m s"
proof (induction n s and n s and n s arbitrary: m and m and m rule: json_value_json_items_json_members.induct)
  case (2 n s)
  obtain m' where m: "m = Suc m'" using 2(4) by (cases m) auto
  let ?r = "json_space (drop 1 s)"
  have len: "2 * length ?r + 1 < n" "2 * length ?r + 1 < m'" if "s \<noteq> []"
    using json_space_drop[OF that] 2(3,4) m by auto
  have ne: "s \<noteq> []" if "startswith s (c # cs)" for c cs using that by auto
  have i: "json_items n ?r = json_items m' ?r" if "\<not> startswith s [CHR 0x22]" "startswith s ''[''" "\<not> startswith ?r '']''"
    by (rule 2(1)[OF that(1,2) refl that(3)]) (rule len[OF ne[OF that(2)]])+
  have o: "json_members n ?r = json_members m' ?r"
    if "\<not> startswith s [CHR 0x22]" "\<not> startswith s ''[''" "startswith s ''{''" "\<not> startswith ?r ''}''"
    by (rule 2(2)[OF that(1-3) refl that(4)]) (rule len[OF ne[OF that(3)]])+
  show ?case unfolding m json_value.simps Let_def using i o by (simp cong: if_cong)
next
  case (4 n s)
  obtain m' where m: "m = Suc m'" using 4(4) by (cases m) auto
  have eq: "json_value n s = json_value m' s" using 4(1)[of m'] 4(3,4) m by simp
  show ?case
  proof (cases "json_value m' s")
    case (Some vr)
    obtain v r where vr: "vr = (v, r)" by force
    have "length r < length s" using json_consumes(1) Some vr by blast
    then have b: "2 * length (json_space (drop 1 (json_space r))) + 1 < n"
        "2 * length (json_space (drop 1 (json_space r))) + 1 < m'"
      using json_space_length[of r] json_space_length[of "drop 1 (json_space r)"] 4(3,4) m by auto
    have "json_items n (json_space (drop 1 (json_space r))) = json_items m' (json_space (drop 1 (json_space r)))"
      if "\<not> startswith (json_space r) '']''" "startswith (json_space r) '',''"
      by (rule 4(2)[OF eq[unfolded Some] vr[symmetric] refl that b])
    then show ?thesis using m eq Some vr by (simp add: Let_def cong: if_cong)
  qed (use m eq in auto)
next
  case (6 n s)
  obtain m' where m: "m = Suc m'" using 6(4) by (cases m) auto
  show ?case
  proof (cases "startswith s [CHR 0x22] \<and> json_string (drop 1 s) \<noteq> None")
    case True
    then obtain k r where q: "\<not> \<not> startswith s [CHR 0x22]" and k: "json_string (drop 1 s) = Some (k, r)" by force
    let ?r1 = "json_space r" let ?t = "json_space (drop 1 ?r1)"
    show ?thesis
    proof (cases "startswith ?r1 '':''")
      case colon: True
      have "s \<noteq> []" "?r1 \<noteq> []" using q colon by auto
      then have lt: "length ?t + 1 < length s"
        using json_string_length[OF k] json_space_drop[of ?r1] json_space_length[of r] by (cases s) auto
      have eq: "json_value n ?t = json_value m' ?t"
        by (rule 6(1)[OF q k refl refl]) (use colon lt 6(3,4) m in auto)
      show ?thesis
      proof (cases "json_value m' ?t")
        case (Some vr)
        obtain v r2 where vr: "vr = (v, r2)" by force
        have "length r2 < length ?t" using json_consumes(1) Some vr by blast
        then have b: "2 * length (json_space (drop 1 (json_space r2))) + 1 < n"
            "2 * length (json_space (drop 1 (json_space r2))) + 1 < m'"
          using json_space_length[of r2] json_space_length[of "drop 1 (json_space r2)"] lt 6(3,4) m by auto
        have "json_members n (json_space (drop 1 (json_space r2))) = json_members m' (json_space (drop 1 (json_space r2)))"
          if "\<not> startswith (json_space r2) ''}''" "startswith (json_space r2) '',''"
          by (rule 6(2)[OF q k refl refl _ eq[unfolded Some] vr[symmetric] refl that b]) (use colon in simp)
        then show ?thesis using q k colon m eq Some vr by (simp add: Let_def cong: if_cong)
      qed (use q k colon m eq in \<open>simp add: Let_def\<close>)
    qed (use q k m in \<open>simp add: Let_def\<close>)
  qed (use m in \<open>auto split: option.splits\<close>)
qed auto

lemma json_loads_fuel:
  "2 * length s + 2 \<le> n \<Longrightarrow> json_value n (json_space s) = json_value (2 * length s + 2) (json_space s)"
  using json_space_length[of s] by (intro json_fuel(1)) auto

section \<open>The command argument of a tool call\<close>

text \<open>\<open>_split_plain_command_string\<close> and \<open>_coerce_execute_command\<close> of \<open>tool_bindings.py\<close>.\<close>

definition argument_rejection :: "string \<Rightarrow> exn" where
  "argument_rejection message = RecoverableToolRejection
     \<lparr>tr_code = ''invalid_arguments'', tr_message = message, tr_category = ''argument_validation'',
      tr_retryable = True, tr_details = []\<rparr>"

definition shell_syntax_message :: string where
  "shell_syntax_message = ''`command` contains shell control syntax. Pass a real argv list or explicitly invoke a shell as argv, for example ['' @
     [CHR 0x22] @ ''sh'' @ [CHR 0x22] @ '','' @ [CHR 0x22] @ ''-lc'' @ [CHR 0x22] @ '','' @ [CHR 0x22] @ ''...'' @
     [CHR 0x22] @ ''].''"

definition control_tokens :: "string list" where
  "control_tokens = [''|'', ''||'', ''&'', ''&&'', '';'', ''<'', ''<<'', ''>'', ''>>'']"

definition split_plain_command_string :: "string \<Rightarrow> string list result" where
  "split_plain_command_string command =
     (let stripped = py_strip command in
      if stripped = [] then Inl (argument_rejection ''`command` must not be empty.'')
      else if sublist ''$('' stripped \<or> CHR 0x60 \<in> set stripped then Inl (argument_rejection shell_syntax_message)
      else (case shlex_tokens LSpace [] stripped of
          Inl e \<Rightarrow> Inl (argument_rejection
            (''`command` could not be parsed as shell-style argv: '' @ exn_str e))
        | Inr tokens \<Rightarrow>
            if list_ex (\<lambda>t. t \<in> set control_tokens) tokens then Inl (argument_rejection shell_syntax_message)
            else Inr tokens))"

definition coerce_execute_command :: "pyval \<Rightarrow> string list result" where
  "coerce_execute_command command = (case as_str_list command of
     Some xs \<Rightarrow> Inr xs
   | None \<Rightarrow> (case command of
       PStr s \<Rightarrow> (case json_loads s of
           None \<Rightarrow> split_plain_command_string s
         | Some parsed \<Rightarrow> (case as_str_list parsed of
             Some xs \<Rightarrow> Inr xs
           | None \<Rightarrow> Inl (argument_rejection ''`command` JSON input must parse to list[str].'')))
     | _ \<Rightarrow> Inl (argument_rejection ''`command` must be a list[str], a JSON string that parses to list[str], or a plain command string.'')))"

text \<open>\<open>_classify_command\<close>.\<close>

definition classify_command :: "string list \<Rightarrow> string" where
  "classify_command command = (case command of
     [] \<Rightarrow> ''unknown''
   | c # args \<Rightarrow> (let head = last_segment CHR ''/'' c in
       if head \<in> {''curl'', ''wget'', ''nc'', ''telnet''} then ''network''
       else if head \<in> {''rm'', ''dd'', ''mkfs'', ''shutdown'', ''reboot''} then ''destructive''
       else if head \<in> {''ls'', ''find'', ''rg'', ''grep'', ''cat'', ''sed'', ''head'', ''tail'', ''wc'', ''pwd'', ''git''}
         then ''safe_read''
       else ''safe_exec''))"

section \<open>Splitting undoes joining\<close>

lemma py_strip_id: "s \<noteq> [] \<Longrightarrow> \<not> py_isspace (hd s) \<Longrightarrow> \<not> py_isspace (last s) \<Longrightarrow> py_strip s = s"
proof -
  assume s: "s \<noteq> []" "\<not> py_isspace (hd s)" "\<not> py_isspace (last s)"
  have "dropWhile py_isspace s = s" using s by (cases s) auto
  moreover have "dropWhile py_isspace (rev s) = rev s"
    using s by (cases "rev s") (auto simp: last_rev hd_rev dest: arg_cong[where f = hd])
  ultimately show ?thesis by (simp add: py_strip_def)
qed

text \<open>The words the tokenizer reads back: those \<open>shlex.quote\<close> quotes, and those of word characters only.\<close>

definition lexable :: "string \<Rightarrow> bool" where
  "lexable w \<longleftrightarrow> w = [] \<or> \<not> list_all shell_safe w \<or> list_all shlex_wordchar w"

lemma wordchar_plain:
  assumes "shlex_wordchar c"
  shows "\<not> shlex_whitespace c" and "c \<noteq> CHR ''#''" and "\<not> shlex_quote_char c" and "c \<noteq> CHR 0x5C"
  using assms by (auto simp: shlex_wordchar_def shlex_whitespace_def shlex_quote_char_def code_point_def Let_def)

lemma tokens_word: "list_all shlex_wordchar u \<Longrightarrow> shlex_tokens LWord tok (u @ s) = shlex_tokens LWord (tok @ u) s"
  by (induction u arbitrary: tok) (simp_all add: wordchar_plain)

lemma tokens_quoted:
  "shlex_tokens (LQuote (CHR 0x27)) tok
     (concat (map (\<lambda>c. if c = CHR 0x27 then [CHR 0x27, CHR 0x22, CHR 0x27, CHR 0x22, CHR 0x27] else [c]) u) @ s) =
   shlex_tokens (LQuote (CHR 0x27)) (tok @ u) s"
  by (induction u arbitrary: tok) (simp_all add: shlex_quote_char_def shlex_whitespace_def code_point_def)

lemma tokens_quote:
  assumes "lexable w"
  shows "shlex_tokens LSpace tok (shlex_quote w @ s) = shlex_tokens LWord w s"
proof (cases "w = [] \<or> \<not> list_all shell_safe w")
  case True
  have "shlex_quote w = CHR 0x27 # concat (map (\<lambda>c. if c = CHR 0x27
      then [CHR 0x27, CHR 0x22, CHR 0x27, CHR 0x22, CHR 0x27] else [c]) w) @ [CHR 0x27]"
    using True by (auto simp: shlex_quote_def)
  then show ?thesis
    using tokens_quoted[of "[]" w "CHR 0x27 # s"]
    by (simp add: shlex_quote_char_def shlex_whitespace_def shlex_wordchar_def shlex_punctuation_def code_point_def Let_def)
next
  case False
  then obtain c cs where w: "w = c # cs" "shlex_wordchar c" "list_all shlex_wordchar cs" "shlex_quote w = w"
    using assms by (cases w) (auto simp: lexable_def shlex_quote_def)
  then show ?thesis using tokens_word[of cs "[c]" s] by (simp add: wordchar_plain)
qed

lemma tokens_join:
  "list_all lexable ws \<Longrightarrow> ws \<noteq> [] \<Longrightarrow> shlex_tokens LSpace tok (shlex_join ws) = Inr ws"
proof (induction ws arbitrary: tok rule: induct_list012)
  case (2 w)
  then show ?case using tokens_quote[of w tok "[]"] by (simp add: shlex_join_def)
next
  case (3 w v ws)
  then have "shlex_tokens LSpace t (shlex_join (v # ws)) = Inr (v # ws)" for t by simp
  then show ?case
    using tokens_quote[of w tok "'' '' @ shlex_join (v # ws)"] 3(3)
    by (simp add: shlex_join_def shlex_whitespace_def code_point_def)
qed simp

lemma quote_ends:
  "shlex_quote w \<noteq> [] \<and> \<not> py_isspace (hd (shlex_quote w)) \<and> \<not> py_isspace (last (shlex_quote w))"
proof -
  have safe: "shell_safe c \<Longrightarrow> \<not> py_isspace c" for c
    by (auto simp: shell_safe_def py_isspace_def code_point_def Let_def)
  then have "list_all shell_safe w \<Longrightarrow> w \<noteq> [] \<Longrightarrow> \<not> py_isspace (hd w) \<and> \<not> py_isspace (last w)"
    by (simp add: list_all_iff)
  then show ?thesis
    by (auto simp: shlex_quote_def py_isspace_def[of "CHR 0x27"] code_point_def)
qed

lemma join_ends:
  "ws \<noteq> [] \<Longrightarrow> shlex_join ws \<noteq> [] \<and> \<not> py_isspace (hd (shlex_join ws)) \<and> \<not> py_isspace (last (shlex_join ws))"
proof (induction ws rule: induct_list012)
  case (3 w v ws)
  then show ?case using quote_ends[of w] by (auto simp: shlex_join_def)
qed (use quote_ends in \<open>auto simp: shlex_join_def\<close>)

text \<open>
  C16. Splitting a plain command string undoes \<open>shlex.join\<close>: every command line of words that need quoting, or are
  made of the tokenizer's word characters, is read back word by word, unless a word is a control operator by
  itself or the text contains a command substitution.
\<close>

theorem split_undoes_join:
  assumes "ws \<noteq> []" and "list_all lexable ws" and "set ws \<inter> set control_tokens = {}"
    and "\<not> sublist ''$('' (shlex_join ws)" and "CHR 0x60 \<notin> set (shlex_join ws)"
  shows "split_plain_command_string (shlex_join ws) = Inr ws"
proof -
  have strip: "py_strip (shlex_join ws) = shlex_join ws" using join_ends[OF assms(1)] py_strip_id by blast
  have "\<not> list_ex (\<lambda>t. t \<in> set control_tokens) ws" using assms(3) by (auto simp: list_ex_iff)
  then show ?thesis
    using tokens_join[OF assms(2,1)] join_ends[OF assms(1)] assms(4,5)
    unfolding split_plain_command_string_def strip Let_def by simp
qed

theorem split_undoes_join_witness:
  "split_plain_command_string (shlex_join [''grep'', ''a b; c'', ''it'' @ [CHR 0x27] @ ''s'', []]) =
     Inr [''grep'', ''a b; c'', ''it'' @ [CHR 0x27] @ ''s'', []]"
  by (rule split_undoes_join) (simp_all add: lexable_def shell_safe_def shlex_wordchar_def code_point_def control_tokens_def
     shlex_join_def shlex_quote_def sublist_code)

text \<open>
  Outside those words the splitting is not faithful: \<open>:\<close> and \<open>,\<close> break a word, \<open>#\<close> drops the rest of the
  command, and a run of operators that is not in the list of operators passes.
\<close>

lemma split_breaks_words:
  "split_plain_command_string ''curl http://h/a,b'' = Inr [''curl'', ''http'', '':'', ''//h/a'', '','', ''b'']"
  by (simp add: split_plain_command_string_def py_strip_def py_isspace_def code_point_def shlex_whitespace_def
     shlex_wordchar_def shlex_punctuation_def shlex_quote_char_def control_tokens_def sublist_code)

lemma split_drops_comment:
  "split_plain_command_string ''rm a#1 b'' = Inr [''rm'', ''a'']"
  by (simp add: split_plain_command_string_def py_strip_def py_isspace_def code_point_def shlex_whitespace_def
     shlex_wordchar_def shlex_punctuation_def shlex_quote_char_def control_tokens_def sublist_code after_line_def)

lemma split_passes_operators:
  "split_plain_command_string ''a |& b >| c'' = Inr [''a'', ''|&'', ''b'', ''>|'', ''c'']"
  by (simp add: split_plain_command_string_def py_strip_def py_isspace_def code_point_def shlex_whitespace_def
     shlex_wordchar_def shlex_punctuation_def shlex_quote_char_def control_tokens_def sublist_code)

lemma coerce_rejects_true: "coerce_execute_command (PStr ''true'') =
    Inl (argument_rejection ''`command` JSON input must parse to list[str].'')"
  by (simp add: coerce_execute_command_def as_str_list_def json_loads_def json_space_def code_point_def
     json_constant_def json_constants_def eval_nat_numeral)

end
