(* ===== verification/Tool_Bindings.thy ===== *)
theory Tool_Bindings
  imports Agent_Program Command_Text
begin

text \<open>
  \<open>deepagent_runtime/tool_bindings.py\<close>: the tools an agent calls. Every tool is a program over the calls of
  \<open>Agent_Program\<close>: it checks for an interrupt, checks the capabilities of the run, normalises its arguments, has the
  operation governed, announces it and performs it; a recoverable rejection becomes an event and an answer.
  Each method of \<open>SandboxToolBindings\<close> is a definition \<open>tool_<method>\<close>, each wrapper of \<open>as_langchain_tools\<close> a case
  of \<open>langchain_tool\<close>. The list \<open>_written_paths\<close>, the only state of the object, is passed along.
\<close>

section \<open>The bindings of a run\<close>

record web_document =
  wd_url :: string
  wd_final_url :: string
  wd_title :: "string option"
  wd_markdown_content :: string
  wd_fetched_at :: string
  wd_content_type :: string
  wd_status_code :: "int option"

record web_search_result =
  ws_title :: string
  ws_url :: string
  ws_snippet :: string
  ws_rank :: int
  ws_source :: string

text \<open>
  A handler that is \<open>None\<close> in the source is \<open>None\<close> here. The two web ports are clients of foreign servers: a
  function of the arguments stands for the answers of one run. A float argument is its \<open>repr\<close>.
\<close>

record tool_bindings =
  tb_task_id :: string
  tb_run_id :: string
  tb_has_memory :: bool
  tb_has_on_event :: bool
  tb_allowed_capabilities :: "string list option"
  tb_governed_operation :: "(operation_context \<Rightarrow> unit prog) option"
  tb_skill_install_handler :: "(skill_install_args \<Rightarrow> pydict prog) option"
  tb_user_input_handler :: "(string \<Rightarrow> string option \<Rightarrow> unit prog) option"
  tb_web_fetch_port :: "(string \<Rightarrow> int option \<Rightarrow> string option \<Rightarrow> string option \<Rightarrow> web_document result) option"
  tb_web_search_port :: "(string \<Rightarrow> int \<Rightarrow> string option \<Rightarrow> web_search_result list result) option"
  tb_interrupt_handler :: "unit prog option"

definition opt_int :: "int option \<Rightarrow> pyval" where
  "opt_int v = (case v of None \<Rightarrow> PNone | Some i \<Rightarrow> PInt i)"

definition opt_float :: "string option \<Rightarrow> pyval" where
  "opt_float v = (case v of None \<Rightarrow> PNone | Some r \<Rightarrow> PFloat r)"

definition strs :: "string list \<Rightarrow> pyval" where
  "strs xs = PList (map PStr xs)"

definition web_document_to_dict :: "web_document \<Rightarrow> pydict" where
  "web_document_to_dict d =
     [(''url'', PStr (wd_url d)), (''final_url'', PStr (wd_final_url d)), (''title'', opt_str (wd_title d)),
      (''markdown_content'', PStr (wd_markdown_content d)), (''fetched_at'', PStr (wd_fetched_at d)),
      (''content_type'', PStr (wd_content_type d)), (''status_code'', opt_int (wd_status_code d))]"

definition web_search_result_to_dict :: "web_search_result \<Rightarrow> pydict" where
  "web_search_result_to_dict r =
     [(''title'', PStr (ws_title r)), (''url'', PStr (ws_url r)), (''snippet'', PStr (ws_snippet r)),
      (''rank'', PInt (ws_rank r)), (''source'', PStr (ws_source r))]"

definition memory_to_dict :: "string memory_record \<Rightarrow> pydict" where
  "memory_to_dict m =
     [(''memory_id'', PStr (mm_id m)), (''scope'', PStr (mm_scope m)), (''namespace'', PStr (mm_namespace m)),
      (''content'', PStr (mm_content m)), (''summary'', PStr (mm_summary m)),
      (''provenance'', PDict (mm_provenance m)), (''created_at'', PStr (mm_created_at m)),
      (''updated_at'', PStr (mm_updated_at m)), (''source_run'', opt_str (mm_source_run m)),
      (''confidence'', opt_float (mm_confidence m))]"

section \<open>Capabilities\<close>

definition read_capabilities :: "string list" where
  "read_capabilities = [''read_file'', ''filesystem'', ''files.read'']"

definition write_capabilities :: "string list" where
  "write_capabilities = [''write_file'', ''filesystem'', ''files.write'']"

definition list_capabilities :: "string list" where
  "list_capabilities = [''list_files'', ''filesystem'', ''files.list'', ''files.read'', ''read_file'']"

definition execute_capabilities :: "string list" where
  "execute_capabilities = [''execute_command'', ''commands'', ''sandbox.execute'']"

definition memory_capabilities :: "string list" where
  "memory_capabilities = [''memory_lookup'', ''memory'', ''memory.read'']"

definition memory_write_capabilities :: "string list" where
  "memory_write_capabilities = [''memory_write'', ''memory'', ''memory.write'']"

definition plan_capabilities :: "string list" where
  "plan_capabilities = [''plan_update'', ''planning'', ''plan.write'']"

definition artifact_capabilities :: "string list" where
  "artifact_capabilities = [''artifact_inspect'', ''artifacts'', ''artifacts.read'']"

definition skill_install_capabilities :: "string list" where
  "skill_install_capabilities = [''skill_installer'', ''skills.install'']"

definition user_input_capabilities :: "string list" where
  "user_input_capabilities = [''request_user_input'', ''user_input'', ''conversation'']"

definition web_fetch_capabilities :: "string list" where
  "web_fetch_capabilities = [''web_fetch'', ''web.fetch'', ''web'']"

definition web_search_capabilities :: "string list" where
  "web_search_capabilities = [''web_search'', ''web.search'', ''web'']"

definition granted_capabilities :: "tool_bindings \<Rightarrow> string list" where
  "granted_capabilities b =
     map py_strip (filter (\<lambda>i. i \<noteq> []) (case tb_allowed_capabilities b of None \<Rightarrow> [] | Some cs \<Rightarrow> cs))"

definition ensure_allowed :: "tool_bindings \<Rightarrow> string \<Rightarrow> string list \<Rightarrow> unit result" where
  "ensure_allowed b tool aliases =
     (let allowed = granted_capabilities b in
      if allowed = [] then Inr ()
      else if list_ex (\<lambda>c. c \<in> set aliases) allowed then Inr ()
      else Inl (PermissionError (tool @ '' is not allowed for this run'')))"

section \<open>The helpers of every tool\<close>

definition check_interrupt :: "tool_bindings \<Rightarrow> unit prog" where
  "check_interrupt b = (case tb_interrupt_handler b of None \<Rightarrow> Done (Inr ()) | Some h \<Rightarrow> h)"

definition emit_event :: "tool_bindings \<Rightarrow> string \<Rightarrow> pydict \<Rightarrow> unit prog" where
  "emit_event b ty payload = (if tb_has_on_event b then Emit ty payload Done else Done (Inr ()))"

definition govern :: "tool_bindings \<Rightarrow> operation_context \<Rightarrow> unit prog" where
  "govern b c = (case tb_governed_operation b of None \<Rightarrow> Done (Inr ()) | Some g \<Rightarrow> g c)"

definition operation :: "tool_bindings \<Rightarrow> string \<Rightarrow> operation_context" where
  "operation b ty = \<lparr>oc_task_id = tb_task_id b, oc_run_id = tb_run_id b, oc_operation_type = ty,
     oc_path_scope = None, oc_command_class = None, oc_memory_scope = None, oc_namespace = None,
     oc_agent_role = None, oc_metadata = None\<rparr>"

text \<open>The host path test of \<open>tool_bindings.py\<close> is that of the sandbox.\<close>

fun sanitize_tool_arguments :: "pyval \<Rightarrow> pyval" where
  "sanitize_tool_arguments (PStr s) =
     PStr (if looks_like_host_path (py_strip s) then ''<host-native-path>'' else s)"
| "sanitize_tool_arguments (PList xs) = PList (map sanitize_tool_arguments xs)"
| "sanitize_tool_arguments (PDict d) = PDict (map (\<lambda>kv. (fst kv, sanitize_tool_arguments (snd kv))) d)"
| "sanitize_tool_arguments v = v"

definition sanitize_dict :: "pydict \<Rightarrow> pydict" where
  "sanitize_dict d = map (\<lambda>kv. (fst kv, sanitize_tool_arguments (snd kv))) d"

definition quoted :: "string \<Rightarrow> string" where
  "quoted s = [CHR 0x22] @ s @ [CHR 0x22]"

definition format_invalid_arguments_message :: "string \<Rightarrow> string \<Rightarrow> string" where
  "format_invalid_arguments_message tool message = ''TOOL_REJECTED [invalid_arguments]: '' @ message @ '' '' @
     (if tool = ''execute_command'' then
        ''execute_command prefers a real argv list of strings. It also accepts a JSON string that parses to argv, then falls back to safe shell-style tokenization for plain strings. Shell operators are not supported by fallback parsing; use explicit argv or an explicit shell invocation such as {'' @
        quoted ''command'' @ '':['' @ quoted ''sh'' @ '','' @ quoted ''-lc'' @ '','' @ quoted ''...'' @ ''],'' @
        quoted ''cwd'' @ '':'' @ quoted ''/workspace'' @ ''}.''
      else ''Adjust the tool arguments to satisfy the schema and try again.'')"

definition rejection_guidance :: "(string \<times> string) list" where
  "rejection_guidance =
     [(''path_validation'', ''Use a virtual path under '' @ [CHR 0x27] @ ''/workspace'' @ [CHR 0x27] @ '', '' @ [CHR 0x27] @
         ''/tmp'' @ [CHR 0x27] @ '', or '' @ [CHR 0x27] @ ''/.memory'' @ [CHR 0x27] @ ''.''),
      (''file_access'', ''Verify the path exists or list nearby files before retrying.''),
      (''scope_denied'', ''Use a path within the delegated filesystem scope for this tool call.''),
      (''policy_denied'', ''Use a non-destructive or otherwise policy-compliant alternative.''),
      (''command_execution'', ''Pick an installed command or verify the executable name before retrying.'')]"

definition format_tool_rejection_message :: "tool_rejection \<Rightarrow> string" where
  "format_tool_rejection_message r =
     (let message = (case dict_get (tr_details r) ''path'' of
            PStr p \<Rightarrow> if tr_category r = ''path_validation'' \<and> p \<noteq> []
              then ''Path '' @ [CHR 0x27] @ p @ [CHR 0x27] @ '' is invalid for the sandbox. '' @ tr_message r
              else tr_message r
          | _ \<Rightarrow> tr_message r);
          guidance = (case map_of rejection_guidance (tr_category r) of
            Some g \<Rightarrow> g | None \<Rightarrow> ''Adjust the tool arguments and try again.'')
      in ''TOOL_REJECTED ['' @ tr_code r @ '']: '' @ message @ '' '' @ guidance)"

definition rejected_payload :: "string \<Rightarrow> pydict \<Rightarrow> tool_rejection \<Rightarrow> pydict" where
  "rejected_payload tool args r =
     [(''tool'', PStr tool), (''arguments'', PDict (sanitize_dict args)), (''code'', PStr (tr_code r)),
      (''category'', PStr (tr_category r)), (''message'', PStr (tr_message r)),
      (''retryable'', PBool (tr_retryable r)), (''details'', PDict (sanitize_dict (tr_details r))),
      (''summary'', PStr (tool @ '' rejected: '' @ tr_message r))]"

definition handle_recoverable_rejection ::
    "tool_bindings \<Rightarrow> string \<Rightarrow> pydict \<Rightarrow> tool_rejection \<Rightarrow> string prog" where
  "handle_recoverable_rejection b tool args r =
     p_then (emit_event b ''tool.rejected'' (rejected_payload tool args r)) (\<lambda>_.
       Done (Inr (if tr_code r = ''invalid_arguments'' then format_invalid_arguments_message tool (tr_message r)
                  else format_tool_rejection_message r)))"

text \<open>
  \<open>_handle_validation_error\<close>, which the agent library calls when the arguments do not fit the tool's schema;
  \<open>errors\<close> is what the validator reports.
\<close>

definition validation_payload :: "string \<Rightarrow> string \<Rightarrow> pyval list \<Rightarrow> pydict" where
  "validation_payload tool message errors =
     [(''tool'', PStr tool), (''arguments'', PDict []), (''code'', PStr ''invalid_arguments''),
      (''category'', PStr ''argument_validation''), (''message'', PStr message), (''retryable'', PBool True),
      (''details'', PDict [(''errors'', PList errors)]), (''summary'', PStr (tool @ '' rejected: '' @ message))]"

definition handle_validation_error :: "tool_bindings \<Rightarrow> string \<Rightarrow> string \<Rightarrow> pyval list \<Rightarrow> string prog" where
  "handle_validation_error b tool message errors =
     p_then (emit_event b ''tool.rejected'' (validation_payload tool message errors)) (\<lambda>_.
       Done (Inr (format_invalid_arguments_message tool message)))"

text \<open>\<open>try: ... except RecoverableToolRejection as exc: ...\<close>.\<close>

definition recovering :: "'a prog \<Rightarrow> (tool_rejection \<Rightarrow> 'a prog) \<Rightarrow> 'a prog" where
  "recovering p h = p_catch p (\<lambda>e. case e of RecoverableToolRejection r \<Rightarrow> h r | _ \<Rightarrow> Done (Inl e))"

text \<open>What every method does first.\<close>

definition tool_guard :: "tool_bindings \<Rightarrow> string \<Rightarrow> string list \<Rightarrow> unit prog" where
  "tool_guard b tool aliases =
     p_then (check_interrupt b) (\<lambda>_. Done (ensure_allowed b tool aliases))"

definition p_map :: "('a \<Rightarrow> 'b) \<Rightarrow> 'a prog \<Rightarrow> 'b prog" where
  "p_map f p = p_then p (\<lambda>x. Done (Inr (f x)))"

section \<open>Files and commands\<close>

definition tool_read_file :: "tool_bindings \<Rightarrow> string \<Rightarrow> string prog" where
  "tool_read_file b path =
     p_then (tool_guard b ''read_file'' read_capabilities) (\<lambda>_.
     recovering
       (p_then (Done (sandbox_normalize path)) (\<lambda>n.
        p_then (govern b ((operation b ''file.read'')\<lparr>oc_path_scope := Some n\<rparr>)) (\<lambda>_.
        p_then (emit_event b ''tool.called''
          [(''tool'', PStr ''read_file''), (''arguments'', PDict [(''path'', PStr n)]), (''path'', PStr n)]) (\<lambda>_.
          ReadText n Done))))
       (handle_recoverable_rejection b ''read_file'' [(''path'', PStr path)]))"

text \<open>\<open>len(content.encode("utf-8"))\<close>.\<close>

definition utf8_length :: "string \<Rightarrow> int" where
  "utf8_length s = (\<Sum>c \<leftarrow> s. if code_point c < 128 then 1 else 2)"

definition tool_write_file ::
    "tool_bindings \<Rightarrow> string list \<Rightarrow> string \<Rightarrow> string \<Rightarrow> (string \<times> string list) prog" where
  "tool_write_file b written path content =
     p_then (tool_guard b ''write_file'' write_capabilities) (\<lambda>_.
     recovering
       (p_then (Done (sandbox_normalize path)) (\<lambda>n.
        p_then (govern b ((operation b ''file.write'')\<lparr>oc_path_scope := Some n\<rparr>)) (\<lambda>_.
        p_then (emit_event b ''tool.called''
          [(''tool'', PStr ''write_file''), (''arguments'', PDict [(''path'', PStr n)]), (''path'', PStr n),
           (''bytes_written'', PInt (utf8_length content))]) (\<lambda>_.
        p_then (WriteText n content Done) (\<lambda>_.
          Done (Inr (n, if n \<in> set written then written else written @ [n])))))))
       (\<lambda>r. p_map (\<lambda>m. (m, written)) (handle_recoverable_rejection b ''write_file'' [(''path'', PStr path)] r)))"

definition tool_list_files :: "tool_bindings \<Rightarrow> string \<Rightarrow> string list prog" where
  "tool_list_files b root =
     p_then (tool_guard b ''list_files'' list_capabilities) (\<lambda>_.
     recovering
       (p_then (Done (sandbox_normalize root)) (\<lambda>n.
        p_then (govern b ((operation b ''file.list'')\<lparr>oc_path_scope := Some n\<rparr>)) (\<lambda>_.
        p_then (emit_event b ''tool.called''
          [(''tool'', PStr ''list_files''), (''arguments'', PDict [(''root'', PStr n)]), (''path'', PStr n)]) (\<lambda>_.
          ListFiles n Done))))
       (\<lambda>r. p_map (\<lambda>m. [m]) (handle_recoverable_rejection b ''list_files'' [(''root'', PStr root)] r)))"

definition command_result_to_dict :: "command_result \<Rightarrow> pydict" where
  "command_result_to_dict r = [(''exit_code'', PInt (cr_exit_code r)), (''stdout'', PStr (cr_stdout r)),
     (''stderr'', PStr (cr_stderr r)), (''cwd'', PStr (cr_cwd r))]"

definition command_not_found :: "string list \<Rightarrow> tool_rejection" where
  "command_not_found command =
     (let missing = (case command of [] \<Rightarrow> ''<unknown>'' | c # _ \<Rightarrow> c) in
      \<lparr>tr_code = ''command_not_found'',
       tr_message = ''Command '' @ [CHR 0x27] @ missing @ [CHR 0x27] @ '' is not installed or not on PATH.'',
       tr_category = ''command_execution'', tr_retryable = True,
       tr_details = [(''command'', PStr missing), (''errno'', PInt 2)]\<rparr>)"

text \<open>\<open>errno\<close> is that of a \<open>FileNotFoundError\<close>, \<open>ENOENT\<close>.\<close>

definition command_context :: "tool_bindings \<Rightarrow> string list \<Rightarrow> string \<Rightarrow> operation_context" where
  "command_context b command cwd = (operation b ''command.execute'')\<lparr>oc_path_scope := Some cwd,
     oc_command_class := Some (classify_command command), oc_metadata := Some [(''command'', strs command)]\<rparr>"

definition tool_execute_command :: "tool_bindings \<Rightarrow> string list \<Rightarrow> string option \<Rightarrow> pyval prog" where
  "tool_execute_command b command cwd =
     (let dir = or_default cwd ''/workspace''; args = [(''command'', strs command), (''cwd'', PStr dir)] in
     p_then (tool_guard b ''execute_command'' execute_capabilities) (\<lambda>_.
     p_catch
       (p_then (Done (sandbox_normalize dir)) (\<lambda>n.
        p_then (govern b (command_context b command n)) (\<lambda>_.
        p_then (emit_event b ''tool.called''
          [(''tool'', PStr ''execute_command''), (''arguments'', PDict [(''command'', strs command), (''cwd'', PStr n)]),
           (''command'', strs command), (''cwd'', PStr n)]) (\<lambda>_.
          p_map (\<lambda>r. PDict (command_result_to_dict r)) (ExecCommand command (Some n) Done)))))
       (\<lambda>e. case e of
          FileNotFoundError m \<Rightarrow>
            p_map PStr (handle_recoverable_rejection b ''execute_command'' args (command_not_found command))
        | RecoverableToolRejection r \<Rightarrow> p_map PStr (handle_recoverable_rejection b ''execute_command'' args r)
        | _ \<Rightarrow> Done (Inl e))))"

section \<open>Memory\<close>

definition tool_memory_lookup :: "tool_bindings \<Rightarrow> string option \<Rightarrow> string option \<Rightarrow> pydict list prog" where
  "tool_memory_lookup b namespace scope =
     p_then (tool_guard b ''memory_lookup'' memory_capabilities) (\<lambda>_.
     if \<not> tb_has_memory b then Done (Inr [])
     else p_then (ListMemory scope namespace Done) (\<lambda>records.
       p_then (emit_event b ''tool.called''
         [(''tool'', PStr ''memory_lookup''),
          (''arguments'', PDict [(''namespace'', opt_str namespace), (''scope'', opt_str scope)]),
          (''count'', PInt (int (length records)))]) (\<lambda>_.
         Done (Inr (map memory_to_dict records)))))"

definition normalize_memory_write_scope :: "string \<Rightarrow> string result" where
  "normalize_memory_write_scope scope =
     (let normalized = py_lower (py_strip scope) in
      if normalized = ''run'' then Inr ''run_state''
      else if normalized \<in> {''run_state'', ''project''} then Inr normalized
      else Inl (argument_rejection ''memory_write scope must be either run_state or project''))"

text \<open>
  \<open>0.0 <= confidence <= 1.0\<close> on the \<open>repr\<close> of a float: zero, one, and the positive numbers written
  \<open>0.<digits>\<close> or with a negative exponent.
\<close>

definition in_unit_interval :: "string \<Rightarrow> bool" where
  "in_unit_interval r \<longleftrightarrow> r = ''1.0'' \<or> r = ''-0.0'' \<or>
     (\<not> startswith r ''-'' \<and> (startswith r ''0.'' \<or> sublist ''e-'' r))"

definition check_memory_arguments ::
    "string \<Rightarrow> string \<Rightarrow> string \<Rightarrow> string option \<Rightarrow> unit result" where
  "check_memory_arguments content summary namespace confidence =
     (if content = [] then Inl (argument_rejection ''memory_write content must be non-empty'')
      else if summary = [] then Inl (argument_rejection ''memory_write summary must be non-empty'')
      else if namespace = [] then Inl (argument_rejection ''memory_write namespace must be non-empty'')
      else if (case confidence of None \<Rightarrow> False | Some c \<Rightarrow> \<not> in_unit_interval c)
        then Inl (argument_rejection ''memory_write confidence must be between 0.0 and 1.0'')
      else Inr ())"

definition agent_memory ::
    "tool_bindings \<Rightarrow> string \<Rightarrow> string \<Rightarrow> string \<Rightarrow> string \<Rightarrow> string option \<Rightarrow> string \<Rightarrow> string
     \<Rightarrow> string memory_record" where
  "agent_memory b scope namespace content summary confidence now i =
     \<lparr>mm_id = i, mm_scope = scope, mm_namespace = namespace, mm_content = content, mm_summary = summary,
      mm_provenance = [(''task_id'', PStr (tb_task_id b)), (''run_id'', PStr (tb_run_id b)),
        (''source'', PStr ''agent_tool''), (''tool'', PStr ''memory_write'')],
      mm_created_at = now, mm_updated_at = now, mm_source_run = Some (tb_run_id b), mm_confidence = confidence\<rparr>"

definition tool_memory_write ::
    "tool_bindings \<Rightarrow> string \<Rightarrow> string \<Rightarrow> string \<Rightarrow> string \<Rightarrow> string option \<Rightarrow> pyval prog" where
  "tool_memory_write b content summary namespace scope confidence =
     p_then (tool_guard b ''memory_write'' memory_write_capabilities) (\<lambda>_.
     if \<not> tb_has_memory b then Done (Inl (ValueError ''memory_write is not configured for this runtime''))
     else recovering
       (p_then (Done (normalize_memory_write_scope scope)) (\<lambda>sc.
        let c = py_strip content; su = py_strip summary; ns = py_strip namespace in
        p_then (Done (check_memory_arguments c su ns confidence)) (\<lambda>_.
        p_then (govern b ((operation b ''memory.write'')\<lparr>oc_memory_scope := Some sc, oc_namespace := Some ns\<rparr>)) (\<lambda>_.
        Clock (\<lambda>now. NewMemoryId (\<lambda>i.
        let record = agent_memory b sc ns c su confidence now i in
        p_then (WriteMemory record Done) (\<lambda>_.
        p_then (emit_event b ''tool.called''
          [(''tool'', PStr ''memory_write''),
           (''arguments'', PDict [(''scope'', PStr sc), (''namespace'', PStr ns), (''summary'', PStr su),
              (''confidence'', opt_float confidence)]),
           (''memory_id'', PStr i), (''scope'', PStr sc), (''namespace'', PStr ns), (''summary'', PStr su)]) (\<lambda>_.
        p_then (emit_event b ''memory.updated''
          [(''scope'', PStr sc), (''summary'', PStr su), (''entry_count_delta'', PInt 1),
           (''namespace'', PStr ns), (''memory_id'', PStr i)]) (\<lambda>_.
          Done (Inr (PDict (memory_to_dict record))))))))))))
       (\<lambda>r. p_map PStr (handle_recoverable_rejection b ''memory_write''
          [(''scope'', PStr scope), (''namespace'', PStr namespace), (''summary'', PStr summary),
           (''confidence'', opt_float confidence)] r)))"

section \<open>Plan, artifacts, skills, user input\<close>

definition with_nonblank :: "pydict \<Rightarrow> string \<Rightarrow> string option \<Rightarrow> pydict" where
  "with_nonblank d k v = (case v of None \<Rightarrow> d | Some s \<Rightarrow> if py_strip s \<noteq> [] then d @ [(k, PStr (py_strip s))] else d)"

definition tool_plan_update :: "tool_bindings \<Rightarrow> string \<Rightarrow> string option \<Rightarrow> pydict prog" where
  "tool_plan_update b summary phase =
     (let payload = with_nonblank [(''summary'', PStr (py_strip summary))] ''phase'' phase in
     p_then (tool_guard b ''plan_update'' plan_capabilities) (\<lambda>_.
     p_then (emit_event b ''plan.updated'' payload) (\<lambda>_.
     p_then (emit_event b ''tool.called'' [(''tool'', PStr ''plan_update''), (''arguments'', PDict payload)]) (\<lambda>_.
       Done (Inr payload)))))"

definition artifact_sandbox_path :: "artifact \<Rightarrow> string" where
  "artifact_sandbox_path a =
     (if ar_persistence_class a \<in> {''project'', ''ephemeral''} then ar_logical_path a
      else if ar_logical_path a = [] then ''/'' else ar_logical_path a)"

definition artifact_payload :: "artifact \<Rightarrow> pydict prog" where
  "artifact_payload a =
     (let path = artifact_sandbox_path a;
          answer = (\<lambda>preview. dict_set (dict_set (artifact_to_dict a) ''preview'' preview) ''sandbox_path'' (PStr path)) in
      p_then (PathExists path Done) (\<lambda>there.
        if \<not> there then Done (Inr (answer PNone))
        else ReadText path (\<lambda>r. case r of
            Inr text \<Rightarrow> Done (Inr (answer (PStr (take 500 text))))
          | Inl (UnicodeDecodeError m) \<Rightarrow> Done (Inr (answer PNone))
          | Inl e \<Rightarrow> Done (Inl e))))"

fun p_all :: "('a \<Rightarrow> 'b prog) \<Rightarrow> 'a list \<Rightarrow> 'b list prog" where
  "p_all f [] = Done (Inr [])"
| "p_all f (x # xs) = p_then (f x) (\<lambda>y. p_then (p_all f xs) (\<lambda>ys. Done (Inr (y # ys))))"

definition tool_artifact_inspect :: "tool_bindings \<Rightarrow> pydict list prog" where
  "tool_artifact_inspect b =
     p_then (tool_guard b ''artifact_inspect'' artifact_capabilities) (\<lambda>_.
     ListArtifacts (\<lambda>artifacts.
     p_then (emit_event b ''tool.called''
       [(''tool'', PStr ''artifact_inspect''),
        (''arguments'', PDict [(''task_id'', PStr (tb_task_id b)), (''run_id'', PStr (tb_run_id b))]),
        (''count'', PInt (int (length artifacts)))]) (\<lambda>_.
       p_all artifact_payload artifacts)))"

definition install_arguments :: "skill_install_args \<Rightarrow> pydict" where
  "install_arguments a = [(''source_path'', PStr (si_source_path a)), (''target_scope'', PStr (si_target_scope a)),
     (''target_role'', opt_str (si_target_role a)), (''install_mode'', PStr (si_install_mode a)),
     (''reason'', PStr (si_reason a))]"

definition tool_skill_installer :: "tool_bindings \<Rightarrow> skill_install_args \<Rightarrow> pydict prog" where
  "tool_skill_installer b a =
     p_then (tool_guard b ''skill_installer'' skill_install_capabilities) (\<lambda>_.
     case tb_skill_install_handler b of
       None \<Rightarrow> Done (Inl (ValueError ''skill_installer is not configured for this runtime''))
     | Some handler \<Rightarrow>
         p_then (emit_event b ''tool.called''
           [(''tool'', PStr ''skill_installer''), (''arguments'', PDict (install_arguments a))]) (\<lambda>_. handler a))"

definition tool_request_user_input :: "tool_bindings \<Rightarrow> string \<Rightarrow> string option \<Rightarrow> unit prog" where
  "tool_request_user_input b question code =
     (let payload = with_nonblank [(''question'', PStr (py_strip question))] ''reason_code'' code in
     p_then (tool_guard b ''request_user_input'' user_input_capabilities) (\<lambda>_.
     case tb_user_input_handler b of
       None \<Rightarrow> Done (Inl (ValueError ''request_user_input is not configured for this runtime''))
     | Some handler \<Rightarrow>
         p_then (emit_event b ''tool.called''
           [(''tool'', PStr ''request_user_input''), (''arguments'', PDict payload)]) (\<lambda>_.
           handler (py_strip question) (as_str (dict_get payload ''reason_code'')))))"

section \<open>The web\<close>

definition tool_web_fetch ::
    "tool_bindings \<Rightarrow> string \<Rightarrow> int option \<Rightarrow> string option \<Rightarrow> string option \<Rightarrow> pydict prog" where
  "tool_web_fetch b url max_bytes timeout user_agent =
     p_then (tool_guard b ''web_fetch'' web_fetch_capabilities) (\<lambda>_.
     case tb_web_fetch_port b of
       None \<Rightarrow> Done (Inl (ValueError ''web_fetch is not configured for this runtime''))
     | Some fetch \<Rightarrow>
         p_then (govern b ((operation b ''web.fetch'')\<lparr>oc_path_scope := Some (py_strip url),
           oc_metadata := Some [(''url'', PStr (py_strip url))]\<rparr>)) (\<lambda>_.
         p_then (Done (fetch url max_bytes timeout user_agent)) (\<lambda>document.
         p_then (emit_event b ''tool.called''
           [(''tool'', PStr ''web_fetch''),
            (''arguments'', PDict [(''url'', PStr (py_strip url)), (''max_bytes'', opt_int max_bytes),
               (''timeout'', opt_float timeout)]),
            (''url'', PStr (wd_final_url document)), (''content_type'', PStr (wd_content_type document)),
            (''status_code'', opt_int (wd_status_code document)),
            (''content_length'', PInt (int (length (wd_markdown_content document))))]) (\<lambda>_.
           Done (Inr (web_document_to_dict document))))))"

definition tool_web_search ::
    "tool_bindings \<Rightarrow> string \<Rightarrow> int \<Rightarrow> string option \<Rightarrow> pydict list prog" where
  "tool_web_search b query limit locale_name =
     (let args = [(''query'', PStr (py_strip query)), (''limit'', PInt limit), (''locale'', opt_str locale_name)] in
     p_then (tool_guard b ''web_search'' web_search_capabilities) (\<lambda>_.
     case tb_web_search_port b of
       None \<Rightarrow> Done (Inl (ValueError ''web_search is not configured for this runtime''))
     | Some search \<Rightarrow>
         p_then (govern b ((operation b ''web.search'')\<lparr>oc_path_scope := Some ''https://duckduckgo.com'',
           oc_metadata := Some args\<rparr>)) (\<lambda>_.
         p_then (Done (search query limit locale_name)) (\<lambda>results.
         p_then (emit_event b ''tool.called''
           [(''tool'', PStr ''web_search''), (''arguments'', PDict args),
            (''result_count'', PInt (int (length results)))]) (\<lambda>_.
           Done (Inr (map web_search_result_to_dict results)))))))"

section \<open>The tools of an agent\<close>

text \<open>
  A call of one of the wrappers \<open>as_langchain_tools\<close> builds, with the arguments the agent library has already
  checked against the signature; \<open>ts_memory\<close> and \<open>ts_filesystem\<close> are the scopes the wrappers close over.
\<close>

record tool_scopes =
  ts_tools :: "string list"
  ts_memory :: "string list"
  ts_filesystem :: "string list"

datatype tool_call =
    CallReadFile string
  | CallListFiles string
  | CallWriteFile string string
  | CallExecuteCommand pyval "string option"
  | CallMemoryLookup "string option" "string option"
  | CallMemoryWrite string string string string "string option"
  | CallPlanUpdate string "string option"
  | CallArtifactInspect
  | CallSkillInstaller skill_install_args
  | CallRequestUserInput string "string option"
  | CallWebFetch string "int option" "string option" "string option"
  | CallWebSearch string int "string option"

fun tool_id :: "tool_call \<Rightarrow> string" where
  "tool_id (CallReadFile p) = ''read_files''"
| "tool_id (CallListFiles p) = ''read_files''"
| "tool_id (CallWriteFile p c) = ''write_files''"
| "tool_id (CallExecuteCommand c d) = ''execute_commands''"
| "tool_id (CallMemoryLookup n s) = ''memory_lookup''"
| "tool_id (CallMemoryWrite c s n sc f) = ''memory_write''"
| "tool_id (CallPlanUpdate s p) = ''plan_update''"
| "tool_id CallArtifactInspect = ''artifact_inspect''"
| "tool_id (CallSkillInstaller a) = ''skill_installer''"
| "tool_id (CallRequestUserInput q c) = ''request_user_input''"
| "tool_id (CallWebFetch u m t a) = ''web_fetch''"
| "tool_id (CallWebSearch q l c) = ''web_search''"

definition offered :: "tool_scopes \<Rightarrow> tool_call \<Rightarrow> bool" where
  "offered sc call \<longleftrightarrow> tool_id call \<in> set (ts_tools sc)"

text \<open>\<open>_ensure_filesystem_scope\<close>.\<close>

definition ensure_filesystem_scope :: "string \<Rightarrow> string list \<Rightarrow> string \<Rightarrow> unit result" where
  "ensure_filesystem_scope path scopes op =
     (let allowed = filter (\<lambda>s. s \<noteq> []) (map py_strip scopes) in
      if allowed = [] then Inr ()
      else bindR (sandbox_normalize path) (\<lambda>n.
        let scope = (if n = ''/.memory'' \<or> startswith n ''/.memory/'' then ''memory'' else ''workspace'');
            names = sort (remdups allowed) in
        if scope \<in> set allowed then Inr ()
        else Inl (RecoverableToolRejection
          \<lparr>tr_code = ''scope_denied'',
           tr_message = op @ '' denied for '' @ n @ '': allowed filesystem scopes are '' @ join_with '', '' names,
           tr_category = ''scope_denied'', tr_retryable = True,
           tr_details = [(''path'', PStr n), (''allowed_scopes'', strs names)]\<rparr>)))"

definition lookup_scoped :: "tool_bindings \<Rightarrow> string list \<Rightarrow> string option \<Rightarrow> string option \<Rightarrow> pydict list prog" where
  "lookup_scoped b memory_scopes namespace scope =
     (let normalized = (case scope of None \<Rightarrow> None | Some s \<Rightarrow> if s \<in> set memory_scopes then Some s else None) in
      p_map (\<lambda>records. if normalized = None \<and> memory_scopes \<noteq> []
          then filter (\<lambda>r. str_or (dict_get r ''scope'') [] \<in> set memory_scopes) records else records)
        (tool_memory_lookup b namespace normalized))"

fun langchain_tool ::
    "tool_bindings \<Rightarrow> tool_scopes \<Rightarrow> string list \<Rightarrow> tool_call \<Rightarrow> (pyval \<times> string list) prog" where
  "langchain_tool b sc ws (CallReadFile path) =
     p_map (\<lambda>t. (PStr t, ws)) (recovering
       (p_then (Done (ensure_filesystem_scope path (ts_filesystem sc) ''read_file'')) (\<lambda>_. tool_read_file b path))
       (handle_recoverable_rejection b ''read_file'' [(''path'', PStr path)]))"
| "langchain_tool b sc ws (CallListFiles root) =
     p_map (\<lambda>fs. (strs fs, ws)) (recovering
       (p_then (Done (ensure_filesystem_scope root (ts_filesystem sc) ''list_files'')) (\<lambda>_. tool_list_files b root))
       (\<lambda>r. p_map (\<lambda>m. [m]) (handle_recoverable_rejection b ''list_files'' [(''root'', PStr root)] r)))"
| "langchain_tool b sc ws (CallWriteFile path content) =
     p_map (\<lambda>(t, ws'). (PStr t, ws')) (recovering
       (p_then (Done (ensure_filesystem_scope path (ts_filesystem sc) ''write_file'')) (\<lambda>_.
          tool_write_file b ws path content))
       (\<lambda>r. p_map (\<lambda>m. (m, ws)) (handle_recoverable_rejection b ''write_file'' [(''path'', PStr path)] r)))"
| "langchain_tool b sc ws (CallExecuteCommand command cwd) =
     p_map (\<lambda>v. (v, ws)) (recovering
       (p_then (Done (ensure_filesystem_scope (or_default cwd ''/workspace'') (ts_filesystem sc) ''execute_command'')) (\<lambda>_.
        p_then (Done (coerce_execute_command command)) (\<lambda>parsed. tool_execute_command b parsed cwd)))
       (\<lambda>r. p_map PStr (handle_recoverable_rejection b ''execute_command''
          [(''command'', command), (''cwd'', PStr (or_default cwd ''/workspace''))] r)))"
| "langchain_tool b sc ws (CallMemoryLookup namespace scope) =
     p_map (\<lambda>rs. (PList (map PDict rs), ws)) (lookup_scoped b (ts_memory sc) namespace scope)"
| "langchain_tool b sc ws (CallMemoryWrite content summary namespace scope confidence) =
     p_map (\<lambda>v. (v, ws)) (tool_memory_write b content summary namespace scope confidence)"
| "langchain_tool b sc ws (CallPlanUpdate summary phase) =
     p_map (\<lambda>d. (PDict d, ws)) (tool_plan_update b summary phase)"
| "langchain_tool b sc ws CallArtifactInspect =
     p_map (\<lambda>rs. (PList (map PDict rs), ws)) (tool_artifact_inspect b)"
| "langchain_tool b sc ws (CallSkillInstaller a) =
     p_then (Done (ensure_filesystem_scope (si_source_path a)
        (if ts_filesystem sc = [] then [''workspace''] else ts_filesystem sc) ''skill_installer'')) (\<lambda>_.
       p_map (\<lambda>d. (PDict d, ws)) (tool_skill_installer b a))"
| "langchain_tool b sc ws (CallRequestUserInput question code) =
     p_map (\<lambda>_. (PStr ''awaiting_user_input'', ws)) (tool_request_user_input b question code)"
| "langchain_tool b sc ws (CallWebFetch url max_bytes timeout user_agent) =
     p_map (\<lambda>d. (PDict d, ws)) (tool_web_fetch b url max_bytes timeout user_agent)"
| "langchain_tool b sc ws (CallWebSearch query limit locale_name) =
     p_map (\<lambda>rs. (PList (map PDict rs), ws)) (tool_web_search b query limit locale_name)"

text \<open>
  The bindings \<open>DeepAgentHarness.execute\<close> makes for a request, and the tools and scopes of its primary agent
  (\<open>_primary_tool_bindings\<close>, \<open>_run_agent_task\<close>).
\<close>

definition harness_bindings ::
    "string \<Rightarrow> string \<Rightarrow> bool \<Rightarrow> bool \<Rightarrow> string list
     \<Rightarrow> (string \<Rightarrow> int option \<Rightarrow> string option \<Rightarrow> string option \<Rightarrow> web_document result) option
     \<Rightarrow> (string \<Rightarrow> int \<Rightarrow> string option \<Rightarrow> web_search_result list result) option \<Rightarrow> tool_bindings" where
  "harness_bindings task run has_controller has_memory capabilities fetch search =
     \<lparr>tb_task_id = task, tb_run_id = run, tb_has_memory = has_memory, tb_has_on_event = True,
      tb_allowed_capabilities = Some capabilities, tb_governed_operation = Some (authorize has_controller),
      tb_skill_install_handler = Some (\<lambda>a. InstallSkill a Done),
      tb_user_input_handler = Some (request_user_input has_controller),
      tb_web_fetch_port = fetch, tb_web_search_port = search,
      tb_interrupt_handler = Some (raise_if_cancelled has_controller ''cancel_requested'')\<rparr>"

definition primary_scopes :: tool_scopes where
  "primary_scopes = \<lparr>ts_tools = [''read_files'', ''write_files'', ''execute_commands'', ''memory_lookup'', ''memory_write'',
      ''plan_update'', ''artifact_inspect'', ''skill_installer'', ''request_user_input'', ''web_fetch'', ''web_search'',
      ''mcp_tools''],
    ts_memory = [''project'', ''run_state'', ''identity''], ts_filesystem = [''workspace'']\<rparr>"

end
