(* ===== verification/Tool_Access.thy ===== *)
theory Tool_Access
  imports Tool_Bindings
begin

text \<open>
  What the tools of an agent may touch. A Hoare logic over programs: \<open>guarded A Q G p\<close> holds when every access of
  \<open>p\<close> satisfies \<open>A\<close> given the operations granted so far, starting from those in \<open>G\<close>, and every result satisfies
  \<open>Q\<close>. On it rest the properties of this theory: the tools perform only the operations they had governed, and no
  host path appears in the events of a rejection.
\<close>

section \<open>A logic of accesses\<close>

datatype access =
    AccessRead string
  | AccessExists string
  | AccessList string
  | AccessWrite string string
  | AccessExec "string list" "string option"
  | AccessMemory "string memory_record"
  | AccessInstall skill_install_args
  | AccessEvent string pydict
  | AccessGovern operation_context

type_synonym log = "operation_context list"

primrec guarded :: "(log \<Rightarrow> access \<Rightarrow> bool) \<Rightarrow> (log \<Rightarrow> 'a result \<Rightarrow> bool) \<Rightarrow> log \<Rightarrow> 'a prog \<Rightarrow> bool" where
  "guarded A Q G (Done r) = Q G r"
| "guarded A Q G (Emit t p k) = (A G (AccessEvent t p) \<and> (\<forall>x. guarded A Q G (k x)))"
| "guarded A Q G (Govern c k) = (A G (AccessGovern c) \<and> (\<forall>x. guarded A Q (if isl x then G else c # G) (k x)))"
| "guarded A Q G (SaveCheckpoint s k) = (\<forall>x. guarded A Q G (k x))"
| "guarded A Q G (Probe k) = (\<forall>x. guarded A Q G (k x))"
| "guarded A Q G (InterruptCheck s k) = (\<forall>x. guarded A Q G (k x))"
| "guarded A Q G (InstallSkill a k) = (A G (AccessInstall a) \<and> (\<forall>x. guarded A Q G (k x)))"
| "guarded A Q G (ReadText p k) = (A G (AccessRead p) \<and> (\<forall>x. guarded A Q G (k x)))"
| "guarded A Q G (WriteText p c k) = (A G (AccessWrite p c) \<and> (\<forall>x. guarded A Q G (k x)))"
| "guarded A Q G (ExecCommand c d k) = (A G (AccessExec c d) \<and> (\<forall>x. guarded A Q G (k x)))"
| "guarded A Q G (WriteMemory m k) = (A G (AccessMemory m) \<and> (\<forall>x. guarded A Q G (k x)))"
| "guarded A Q G (ListMemory s n k) = (\<forall>x. guarded A Q G (k x))"
| "guarded A Q G (ListArtifacts k) = (\<forall>x. guarded A Q G (k x))"
| "guarded A Q G (ListFiles p k) = (A G (AccessList p) \<and> (\<forall>x. guarded A Q G (k x)))"
| "guarded A Q G (PathExists p k) = (A G (AccessExists p) \<and> (\<forall>x. guarded A Q G (k x)))"
| "guarded A Q G (Clock k) = (\<forall>x. guarded A Q G (k x))"
| "guarded A Q G (NewMemoryId k) = (\<forall>x. guarded A Q G (k x))"
| "guarded A Q G (ClientCancel s k) = (\<forall>x. guarded A Q G (k x))"

lemma guarded_weaken: "guarded A Q G p \<Longrightarrow> (\<And>G' x. Q G' x \<Longrightarrow> R G' x) \<Longrightarrow> guarded A R G p"
  by (induction p arbitrary: G) auto

lemma guarded_strengthen: "guarded A Q G p \<Longrightarrow> (\<And>G' x. A G' x \<Longrightarrow> B G' x) \<Longrightarrow> guarded B Q G p"
  by (induction p arbitrary: G) auto

lemma guarded_bind:
  "guarded A Q G p \<Longrightarrow> (\<And>G' x. Q G' x \<Longrightarrow> guarded A R G' (f x)) \<Longrightarrow> guarded A R G (prog_bind p f)"
  by (induction p arbitrary: G) auto

lemma guarded_then:
  "guarded A Q G p \<Longrightarrow> (\<And>G' e. Q G' (Inl e) \<Longrightarrow> R G' (Inl e)) \<Longrightarrow> (\<And>G' x. Q G' (Inr x) \<Longrightarrow> guarded A R G' (f x)) \<Longrightarrow>
   guarded A R G (p_then p f)"
  unfolding p_then_def by (erule guarded_bind) (auto split: sum.split)

lemma guarded_catch:
  "guarded A Q G p \<Longrightarrow> (\<And>G' x. Q G' (Inr x) \<Longrightarrow> R G' (Inr x)) \<Longrightarrow> (\<And>G' e. Q G' (Inl e) \<Longrightarrow> guarded A R G' (h e)) \<Longrightarrow>
   guarded A R G (p_catch p h)"
  unfolding p_catch_def by (erule guarded_bind) (auto split: sum.split)

text \<open>With no claim about the result.\<close>

abbreviation safe_prog :: "(log \<Rightarrow> access \<Rightarrow> bool) \<Rightarrow> log \<Rightarrow> 'a prog \<Rightarrow> bool" where
  "safe_prog A \<equiv> guarded A (\<lambda>_ _. True)"

lemma safe_then: "safe_prog A G p \<Longrightarrow> (\<And>G' x. safe_prog A G' (f x)) \<Longrightarrow> safe_prog A G (p_then p f)"
  by (erule guarded_then) auto

lemma safe_after: "guarded A (\<lambda>G' _. G' = G) G p \<Longrightarrow> (\<And>x. safe_prog A G (f x)) \<Longrightarrow> safe_prog A G (p_then p f)"
  by (erule guarded_then) auto

lemma safe_pure: "(\<And>x. r = Inr x \<Longrightarrow> safe_prog A G (f x)) \<Longrightarrow> safe_prog A G (p_then (Done r) f)"
  by (cases r) (auto simp: p_then_def)

lemma safe_map: "safe_prog A G p \<Longrightarrow> safe_prog A G (p_map f p)"
  unfolding p_map_def by (rule safe_then) auto

lemma safe_catch: "safe_prog A G p \<Longrightarrow> (\<And>G' e. safe_prog A G' (h e)) \<Longrightarrow> safe_prog A G (p_catch p h)"
  by (erule guarded_catch) auto

lemma safe_recovering: "safe_prog A G p \<Longrightarrow> (\<And>G' r. safe_prog A G' (h r)) \<Longrightarrow> safe_prog A G (recovering p h)"
  unfolding recovering_def by (erule safe_catch) (auto split: exn.split)

lemma safe_all: "(\<And>G x. safe_prog A G (f x)) \<Longrightarrow> safe_prog A G (p_all f xs)"
  by (induction xs arbitrary: G) (auto intro!: safe_then)

lemma operation_own [simp]:
  "oc_task_id (operation b ty) = tb_task_id b" "oc_run_id (operation b ty) = tb_run_id b"
  "oc_task_id (command_context b command p) = tb_task_id b" "oc_run_id (command_context b command p) = tb_run_id b"
  by (simp_all add: operation_def command_context_def)

section \<open>A rule for the tools of a run\<close>

text \<open>
  The interface between the tools and whoever constrains them: \<open>A\<close> allows an access once the operation the tool
  names was granted. Every constraint of that form holds of every tool.
\<close>

locale tool_rule =
  fixes b :: tool_bindings and hc :: bool and A :: "log \<Rightarrow> access \<Rightarrow> bool"
  assumes governed: "tb_governed_operation b = Some (authorize hc)"
    and interrupt: "tb_interrupt_handler b = Some (raise_if_cancelled hc ''cancel_requested'')"
    and user_input: "tb_user_input_handler b = Some (request_user_input hc)"
    and skills: "tb_skill_install_handler b = Some (\<lambda>a. InstallSkill a Done)"
    and governs: "oc_task_id c = tb_task_id b \<Longrightarrow> oc_run_id c = tb_run_id b \<Longrightarrow> A G (AccessGovern c)"
    and event: "ty \<noteq> ''tool.rejected'' \<Longrightarrow> A G (AccessEvent ty payload)"
    and rejected: "A G (AccessEvent ''tool.rejected'' (rejected_payload tool args rej))"
    and reads: "(operation b ''file.read'')\<lparr>oc_path_scope := Some p\<rparr> \<in> set G \<Longrightarrow> A G (AccessRead p)"
    and lists: "(operation b ''file.list'')\<lparr>oc_path_scope := Some p\<rparr> \<in> set G \<Longrightarrow> A G (AccessList p)"
    and writes: "sandbox_normalize raw = Inr p \<Longrightarrow> (operation b ''file.write'')\<lparr>oc_path_scope := Some p\<rparr> \<in> set G \<Longrightarrow>
      A G (AccessWrite p content)"
    and execs: "ensure_allowed b ''execute_command'' execute_capabilities = Inr () \<Longrightarrow>
      command_context b command p \<in> set G \<Longrightarrow> A G (AccessExec command (Some p))"
    and memories: "(operation b ''memory.write'')\<lparr>oc_memory_scope := Some (mm_scope m), oc_namespace := Some (mm_namespace m)\<rparr>
      \<in> set G \<Longrightarrow> A G (AccessMemory m)"
    and installs: "ensure_allowed b ''skill_installer'' skill_install_capabilities = Inr () \<Longrightarrow> A G (AccessInstall a)"
begin

lemma same_checkpoint: "guarded A (\<lambda>G' _. G' = G) G (record_interrupt_checkpoint c reason)"
  by (auto simp: record_interrupt_checkpoint_def event split: sum.split option.split)

lemma same_cancelled: "guarded A (\<lambda>G' _. G' = G) G (raise_if_cancelled c reason)"
  unfolding raise_if_cancelled_def
  by (auto split: option.split intro!: guarded_then[OF same_checkpoint])

lemma same_emit: "ty \<noteq> ''tool.rejected'' \<Longrightarrow> guarded A (\<lambda>G' _. G' = G) G (emit_event b ty payload)"
  by (auto simp: emit_event_def event)

lemma safe_emit: "ty \<noteq> ''tool.rejected'' \<Longrightarrow> safe_prog A G (emit_event b ty payload)"
  by (rule guarded_weaken[OF same_emit]) auto

lemma guarded_govern:
  "oc_task_id c = tb_task_id b \<Longrightarrow> oc_run_id c = tb_run_id b \<Longrightarrow> guarded A (\<lambda>G' x. isl x \<or> G' = c # G) G (govern b c)"
  unfolding govern_def governed option.case authorize_def
  by (rule guarded_then[OF same_cancelled])
    (auto intro!: guarded_then[OF same_checkpoint] governs split: sum.split exn.split)

lemma safe_govern:
  "oc_task_id c = tb_task_id b \<Longrightarrow> oc_run_id c = tb_run_id b \<Longrightarrow> (\<And>G. safe_prog A (c # G) (f ())) \<Longrightarrow> safe_prog A G (p_then (govern b c) f)"
  by (rule guarded_then[OF guarded_govern]) auto

lemma safe_guard:
  assumes "ensure_allowed b tool aliases = Inr () \<Longrightarrow> (\<And>G. safe_prog A G (f ()))"
  shows "safe_prog A G (p_then (tool_guard b tool aliases) f)"
proof -
  have "guarded A (\<lambda>_ x. x = Inr () \<longrightarrow> ensure_allowed b tool aliases = Inr ()) G (tool_guard b tool aliases)"
    unfolding tool_guard_def check_interrupt_def interrupt option.case
    by (rule guarded_then[OF same_cancelled]) auto
  then show ?thesis by (rule guarded_then) (use assms in auto)
qed

lemma safe_handle: "safe_prog A G (handle_recoverable_rejection b tool args r)"
  unfolding handle_recoverable_rejection_def
  by (rule safe_then) (auto simp: emit_event_def rejected)

lemma safe_input: "safe_prog A G (request_user_input c q code)"
  unfolding request_user_input_def
  by (intro safe_after same_cancelled same_checkpoint) simp

lemmas tool_rules = safe_guard safe_govern safe_after[OF same_emit] safe_pure safe_map safe_recovering safe_handle

lemma safe_read: "safe_prog A G (tool_read_file b path)"
  unfolding tool_read_file_def by (intro tool_rules) (auto simp: reads)

lemma safe_list: "safe_prog A G (tool_list_files b path)"
  unfolding tool_list_files_def by (intro tool_rules) (auto simp: lists)

lemma safe_write: "safe_prog A G (tool_write_file b ws path content)"
  unfolding tool_write_file_def by (intro tool_rules safe_then) (auto intro: writes)

lemma safe_execute: "safe_prog A G (tool_execute_command b command cwd)"
  unfolding tool_execute_command_def Let_def
  by (intro tool_rules safe_catch) (auto simp: execs intro!: safe_map safe_handle split: exn.split)

lemma safe_lookup: "safe_prog A G (tool_memory_lookup b ns sc)"
  unfolding tool_memory_lookup_def by (intro tool_rules) (auto intro!: tool_rules safe_then safe_emit)

lemma safe_store: "A G (AccessMemory m) \<Longrightarrow> safe_prog A G (f ()) \<Longrightarrow> safe_prog A G (p_then (WriteMemory m Done) f)"
  by (auto simp: p_then_def split: sum.split)

lemma safe_memory_write: "safe_prog A G (tool_memory_write b content summary ns sc conf)"
  unfolding tool_memory_write_def Let_def
  by (intro tool_rules) (auto simp: agent_memory_def intro!: tool_rules safe_store memories)

lemma safe_plan: "safe_prog A G (tool_plan_update b s p)"
  unfolding tool_plan_update_def Let_def by (intro tool_rules) auto

lemma safe_skill: "safe_prog A G (tool_skill_installer b a)"
  unfolding tool_skill_installer_def skills option.case by (intro tool_rules) (auto intro: installs)

lemma safe_user_input: "safe_prog A G (tool_request_user_input b q code)"
  unfolding tool_request_user_input_def user_input option.case Let_def by (intro tool_rules safe_input) simp

lemma safe_fetch: "safe_prog A G (tool_web_fetch b url m t a)"
  unfolding tool_web_fetch_def by (intro tool_rules) (auto split: option.split intro!: tool_rules)

lemma safe_search: "safe_prog A G (tool_web_search b q l c)"
  unfolding tool_web_search_def Let_def by (intro tool_rules) (auto split: option.split intro!: tool_rules)

lemma safe_tool: "call \<noteq> CallArtifactInspect \<Longrightarrow> safe_prog A G (langchain_tool b sc ws call)"
  by (cases call)
    (auto simp: lookup_scoped_def Let_def intro!: tool_rules safe_read safe_list safe_write safe_execute safe_lookup
      safe_memory_write safe_plan safe_skill safe_user_input safe_fetch safe_search)

lemma safe_inspect:
  assumes "\<And>G p. A G (AccessExists p) \<and> A G (AccessRead p)"
  shows "safe_prog A G (tool_artifact_inspect b)"
proof -
  have "safe_prog A G (artifact_payload a)" for G a
    by (auto simp: artifact_payload_def Let_def assms p_then_def split: sum.split exn.split)
  then show ?thesis unfolding tool_artifact_inspect_def
    by (intro tool_rules) (auto intro!: tool_rules safe_all)
qed

end

section \<open>Only governed operations\<close>

text \<open>The accesses that need the operation of the same kind on the same path, command or memory.\<close>

fun governed_access :: "tool_bindings \<Rightarrow> log \<Rightarrow> access \<Rightarrow> bool" where
  "governed_access b G (AccessRead p) = ((operation b ''file.read'')\<lparr>oc_path_scope := Some p\<rparr> \<in> set G)"
| "governed_access b G (AccessExists p) = False"
| "governed_access b G (AccessList p) = ((operation b ''file.list'')\<lparr>oc_path_scope := Some p\<rparr> \<in> set G)"
| "governed_access b G (AccessWrite p content) = ((operation b ''file.write'')\<lparr>oc_path_scope := Some p\<rparr> \<in> set G)"
| "governed_access b G (AccessExec command cwd) =
     (case cwd of None \<Rightarrow> False | Some p \<Rightarrow> command_context b command p \<in> set G)"
| "governed_access b G (AccessMemory m) = ((operation b ''memory.write'')
     \<lparr>oc_memory_scope := Some (mm_scope m), oc_namespace := Some (mm_namespace m)\<rparr> \<in> set G)"
| "governed_access b G (AccessInstall a) = True"
| "governed_access b G (AccessEvent ty payload) = True"
| "governed_access b G (AccessGovern c) = (oc_task_id c = tb_task_id b \<and> oc_run_id c = tb_run_id b)"

interpretation governed: tool_rule "harness_bindings t r hc hm caps fetch search" hc
    "governed_access (harness_bindings t r hc hm caps fetch search)" for t r hc hm caps fetch search
  by unfold_locales (auto simp: harness_bindings_def)

text \<open>
  C6. No tool of an agent reads, lists or writes a file, runs a command or writes a memory unless the runtime has
  just granted this very operation, on the path, command or memory scope it then uses, for the agent's own run.
  \<open>artifact_inspect\<close>, which reads previews of registered artifacts without asking, is the exception; the skill
  installer is governed by the runtime itself.
\<close>

theorem tools_perform_what_was_governed:
  assumes "call \<noteq> CallArtifactInspect"
  shows "safe_prog (governed_access (harness_bindings t r hc hm caps fetch search)) []
    (langchain_tool (harness_bindings t r hc hm caps fetch search) sc written call)"
  by (rule governed.safe_tool[OF assms])

theorem tools_perform_what_was_governed_witness:
  "safe_prog (governed_access (harness_bindings ''t'' ''r'' True True [] None None)) []
    (langchain_tool (harness_bindings ''t'' ''r'' True True [] None None) primary_scopes []
      (CallWriteFile ''/workspace/a.md'' ''x''))"
  by (rule tools_perform_what_was_governed) simp

section \<open>Rejections reveal no host path\<close>

fun no_host_path :: "pyval \<Rightarrow> bool" where
  "no_host_path (PStr s) = (\<not> looks_like_host_path (py_strip s))"
| "no_host_path (PList xs) = list_all no_host_path xs"
| "no_host_path (PDict d) = list_all (\<lambda>kv. no_host_path (snd kv)) d"
| "no_host_path v = True"

lemma placeholder_is_no_path: "\<not> looks_like_host_path (py_strip ''<host-native-path>'')"
  by code_simp

lemma sanitize_no_host_path: "no_host_path (sanitize_tool_arguments v)"
  by (induction v rule: sanitize_tool_arguments.induct)
    (auto simp: placeholder_is_no_path list_all_iff split del: if_split split: if_splits)

lemma sanitize_no_host_path_id: "no_host_path v \<Longrightarrow> sanitize_tool_arguments v = v"
  by (induction v rule: sanitize_tool_arguments.induct)
    (auto simp: list_all_iff intro!: map_idI prod_eqI)

fun clean_event :: "log \<Rightarrow> access \<Rightarrow> bool" where
  "clean_event G (AccessEvent ty payload) = (ty = ''tool.rejected'' \<longrightarrow>
     no_host_path (dict_get payload ''arguments'') \<and> no_host_path (dict_get payload ''details''))"
| "clean_event G a = True"

lemma clean_rejected: "clean_event G (AccessEvent ''tool.rejected'' (rejected_payload tool args r))"
proof -
  have "no_host_path (PDict (sanitize_dict d))" for d
    using sanitize_no_host_path[of "PDict d"] by (simp add: sanitize_dict_def)
  then show ?thesis by (simp add: rejected_payload_def del: no_host_path.simps)
qed

interpretation clean: tool_rule "harness_bindings t r hc hm caps fetch search" hc clean_event
    for t r hc hm caps fetch search
  by unfold_locales (auto simp: harness_bindings_def clean_rejected simp del: clean_event.simps(1), simp)


text \<open>The handler of schema errors sends the validator's report, with the argument it quotes, as it is.\<close>

lemma looks_like_etc: "looks_like_host_path (py_strip ''/etc/passwd'')"
  by code_simp

lemma validation_errors_are_not_sanitized:
  "\<not> clean_event G (AccessEvent ''tool.rejected''
     (validation_payload ''read_file'' message [PDict [(''input'', PList [PStr ''/etc/passwd''])]]))"
  by (simp add: validation_payload_def looks_like_etc)

section \<open>Rejections do not escape\<close>

text \<open>
  No result of the program is a recoverable rejection, provided the callbacks and stores that do not check
  anything (events, checkpoints, lists) raise none.
\<close>

definition no_rejection :: "'a result \<Rightarrow> bool" where
  "no_rejection r \<longleftrightarrow> (\<forall>rej. r \<noteq> Inl (RecoverableToolRejection rej))"

primrec settles :: "'a prog \<Rightarrow> bool" where
  "settles (Done r) = no_rejection r"
| "settles (Emit t p k) = (\<forall>x. no_rejection x \<longrightarrow> settles (k x))"
| "settles (Govern c k) = (\<forall>x. settles (k x))"
| "settles (SaveCheckpoint s k) = (\<forall>x. no_rejection x \<longrightarrow> settles (k x))"
| "settles (Probe k) = (\<forall>x. settles (k x))"
| "settles (InterruptCheck s k) = (\<forall>x. no_rejection x \<longrightarrow> settles (k x))"
| "settles (InstallSkill a k) = (\<forall>x. settles (k x))"
| "settles (ReadText p k) = (\<forall>x. settles (k x))"
| "settles (WriteText p c k) = (\<forall>x. settles (k x))"
| "settles (ExecCommand c d k) = (\<forall>x. settles (k x))"
| "settles (WriteMemory m k) = (\<forall>x. settles (k x))"
| "settles (ListMemory s n k) = (\<forall>x. no_rejection x \<longrightarrow> settles (k x))"
| "settles (ListArtifacts k) = (\<forall>x. settles (k x))"
| "settles (ListFiles p k) = (\<forall>x. settles (k x))"
| "settles (PathExists p k) = (\<forall>x. settles (k x))"
| "settles (Clock k) = (\<forall>x. settles (k x))"
| "settles (NewMemoryId k) = (\<forall>x. settles (k x))"
| "settles (ClientCancel s k) = (\<forall>x. settles (k x))"

lemma settles_bind: "settles p \<Longrightarrow> (\<And>r. no_rejection r \<Longrightarrow> settles (f r)) \<Longrightarrow> settles (prog_bind p f)"
  by (induction p) auto

lemma settles_then: "settles p \<Longrightarrow> (\<And>x. settles (f x)) \<Longrightarrow> settles (p_then p f)"
  unfolding p_then_def by (erule settles_bind) (auto simp: no_rejection_def split: sum.split)

lemma settles_map: "settles p \<Longrightarrow> settles (p_map f p)"
  unfolding p_map_def by (erule settles_then) (simp add: no_rejection_def)

lemma settles_catch:
  fixes p :: "'a prog"
  assumes "\<And>r. settles (h (RecoverableToolRejection r))" and "\<And>e. no_rejection (Inl e :: 'a result) \<Longrightarrow> settles (h e)"
  shows "settles (p_catch p h)"
proof -
  have "settles (case r of Inl e \<Rightarrow> h e | Inr x \<Rightarrow> Done (Inr x))" for r
  proof (cases r)
    case (Inl e)
    then show ?thesis using assms by (cases "\<exists>rej. e = RecoverableToolRejection rej") (auto simp: no_rejection_def)
  qed (simp add: no_rejection_def)
  then show ?thesis unfolding p_catch_def by (induction p) simp_all
qed

lemma settles_recovering: "(\<And>r. settles (h r)) \<Longrightarrow> settles (recovering p h)"
  unfolding recovering_def by (rule settles_catch) (auto simp: no_rejection_def split: exn.split)

lemma settles_checkpoint: "settles (record_interrupt_checkpoint hc reason)"
  by (auto simp: record_interrupt_checkpoint_def no_rejection_def split: sum.split option.split)

lemma settles_cancelled: "settles (raise_if_cancelled hc reason)"
  unfolding raise_if_cancelled_def
  by (auto simp: no_rejection_def split: option.split intro!: settles_then settles_checkpoint)

lemma settles_guard: "settles (tool_guard (harness_bindings t r hc hm caps fetch search) tool aliases)"
  by (auto simp: tool_guard_def check_interrupt_def harness_bindings_def ensure_allowed_def Let_def no_rejection_def
      intro!: settles_then settles_cancelled)

lemma settles_emit: "settles (emit_event b ty payload)"
  by (simp add: emit_event_def no_rejection_def)

lemma settles_handle: "settles (handle_recoverable_rejection b tool args rej)"
  unfolding handle_recoverable_rejection_def
  by (rule settles_then[OF settles_emit]) (simp add: no_rejection_def)

lemma settles_input: "settles (request_user_input hc q code)"
  unfolding request_user_input_def
  by (intro settles_then settles_cancelled settles_checkpoint) (simp add: no_rejection_def)

lemmas settle_rules = settles_map settles_recovering settles_handle settles_guard settles_emit



text \<open>
  The web tools and the skill installer have no such handler: a denial of the policy, or a source path outside
  the sandbox, leaves them as an exception.
\<close>

lemma web_denial_escapes:
  "\<not> settles (langchain_tool (harness_bindings t r hc hm [] (Some fetch) None) sc written (CallWebFetch url m tm ua))"
proof
  let ?rej = "Inl (RecoverableToolRejection \<lparr>tr_code = [], tr_message = [], tr_category = [], tr_retryable = True, tr_details = []\<rparr>)"
  assume "settles (langchain_tool (harness_bindings t r hc hm [] (Some fetch) None) sc written (CallWebFetch url m tm ua))"
  then show False
    by (simp add: tool_web_fetch_def harness_bindings_def tool_guard_def check_interrupt_def raise_if_cancelled_def
        ensure_allowed_def granted_capabilities_def govern_def authorize_def p_map_def p_then_def no_rejection_def)
      (drule spec[of _ None], simp, drule spec[of _ None], simp, drule spec[of _ ?rej], simp add: no_rejection_def)
qed

lemma skill_path_rejection_escapes:
  "\<not> settles (langchain_tool b primary_scopes written (CallSkillInstaller
     \<lparr>si_source_path = ''/etc'', si_target_scope = s, si_target_role = ro, si_install_mode = im, si_reason = re\<rparr>))"
proof -
  have "sandbox_normalize ''/etc'' = Inl (path_rejection ''sandbox path must be a sandbox virtual path, not a host-native path'' ''/etc'')"
    by code_simp
  moreover have "py_strip ''workspace'' = ''workspace''" by code_simp
  ultimately show ?thesis
    by (simp add: ensure_filesystem_scope_def primary_scopes_def p_then_def no_rejection_def path_rejection_def)
qed

end
