(* ===== verification/Effects.thy ===== *)
theory Effects
  imports Task_Model
begin

text \<open>
  Stateful code that may raise: an action maps a state to a result and the state it leaves, also when it
  raises (an exception does not undo what was written before it). The rules for \<open>keeps\<close> reduce "this
  operation preserves the invariant" to the primitive writes it is composed of; \<open>keep_rules\<close> collects
  them.
\<close>

named_theorems keep_rules "introduction rules for keeps"
named_theorems run_rules "how an action runs"

type_synonym ('s, 'a) act = "'s \<Rightarrow> 'a result \<times> 's"

definition ret :: "'a \<Rightarrow> ('s, 'a) act" where
  "ret x = (\<lambda>s. (Inr x, s))"

definition raise :: "exn \<Rightarrow> ('s, 'a) act" where
  "raise e = (\<lambda>s. (Inl e, s))"

definition liftR :: "'a result \<Rightarrow> ('s, 'a) act" where
  "liftR r = (\<lambda>s. (r, s))"

definition getS :: "('s \<Rightarrow> 'a) \<Rightarrow> ('s, 'a) act" where
  "getS f = (\<lambda>s. (Inr (f s), s))"

definition modS :: "('s \<Rightarrow> 's) \<Rightarrow> ('s, unit) act" where
  "modS f = (\<lambda>s. (Inr (), f s))"

definition bindA :: "('s, 'a) act \<Rightarrow> ('a \<Rightarrow> ('s, 'b) act) \<Rightarrow> ('s, 'b) act" where
  "bindA m f = (\<lambda>s. case m s of (Inl e, s') \<Rightarrow> (Inl e, s') | (Inr x, s') \<Rightarrow> f x s')"

definition thenA :: "('s, 'a) act \<Rightarrow> ('s, 'b) act \<Rightarrow> ('s, 'b) act" where
  "thenA m n = bindA m (\<lambda>_. n)"

definition tryA :: "('s, 'a) act \<Rightarrow> ('s, 'a result) act" where
  "tryA m = (\<lambda>s. case m s of (r, s') \<Rightarrow> (Inr r, s'))"

definition whenA :: "bool \<Rightarrow> ('s, unit) act \<Rightarrow> ('s, unit) act" where
  "whenA b m = (if b then m else ret ())"

text \<open>A \<open>for\<close> loop with an accumulator; an exception leaves it.\<close>

fun foldA :: "('x \<Rightarrow> 'a \<Rightarrow> ('s, 'a) act) \<Rightarrow> 'x list \<Rightarrow> 'a \<Rightarrow> ('s, 'a) act" where
  "foldA f [] a = ret a"
| "foldA f (x # xs) a = bindA (f x a) (foldA f xs)"

section \<open>How actions run\<close>

lemma run_simps [simp, run_rules]:
  "ret x s = (Inr x, s)" "raise e s = (Inl e, s)" "liftR r s = (r, s)"
  "getS f s = (Inr (f s), s)" "modS g s = (Inr (), g s)"
  by (simp_all add: ret_def raise_def liftR_def getS_def modS_def)

lemma bindA_run [run_rules]: "bindA m f s = (case m s of (Inl e, s') \<Rightarrow> (Inl e, s') | (Inr x, s') \<Rightarrow> f x s')"
  by (simp add: bindA_def)

lemma thenA_run [run_rules]: "thenA m n s = (case m s of (Inl e, s') \<Rightarrow> (Inl e, s') | (Inr x, s') \<Rightarrow> n s')"
  by (simp add: thenA_def bindA_def)

lemma tryA_run [run_rules]: "tryA m s = (Inr (fst (m s)), snd (m s))"
  by (simp add: tryA_def split: prod.split)

lemma whenA_run [simp, run_rules]: "whenA True m = m" "whenA False m = ret ()"
  by (simp_all add: whenA_def)

lemma bindA_Inr:
  "bindA m f s = (Inr y, s') \<longleftrightarrow> (\<exists>x s1. m s = (Inr x, s1) \<and> f x s1 = (Inr y, s'))"
  by (auto simp: bindA_run split: prod.splits sum.splits)

lemma bindA_Inl:
  "bindA m f s = (Inl e, s') \<longleftrightarrow>
   m s = (Inl e, s') \<or> (\<exists>x s1. m s = (Inr x, s1) \<and> f x s1 = (Inl e, s'))"
  by (auto simp: bindA_run split: prod.splits sum.splits)

lemma thenA_Inr:
  "thenA m n s = (Inr y, s') \<longleftrightarrow> (\<exists>x s1. m s = (Inr x, s1) \<and> n s1 = (Inr y, s'))"
  by (simp add: thenA_def bindA_Inr)

lemma bindA_ok: "m s = (Inr x, s1) \<Longrightarrow> bindA m f s = f x s1"
  by (simp add: bindA_run)

lemma thenA_ok: "m s = (Inr x, s1) \<Longrightarrow> thenA m n s = n s1"
  by (simp add: thenA_run)

lemma bindA_err: "m s = (Inl e, s1) \<Longrightarrow> bindA m f s = (Inl e, s1)"
  by (simp add: bindA_run)

section \<open>Preserving an invariant\<close>

definition keeps :: "('s \<Rightarrow> bool) \<Rightarrow> ('s, 'a) act \<Rightarrow> bool" where
  "keeps I m \<longleftrightarrow> (\<forall>s. I s \<longrightarrow> I (snd (m s)))"

lemma keepsI: "(\<And>s. I s \<Longrightarrow> I (snd (m s))) \<Longrightarrow> keeps I m"
  by (simp add: keeps_def)

lemma keepsD: "keeps I m \<Longrightarrow> I s \<Longrightarrow> m s = (r, s') \<Longrightarrow> I s'"
  by (metis keeps_def snd_conv)

lemma keeps_ret [keep_rules]: "keeps I (ret x)"
  by (simp add: keeps_def)

lemma keeps_raise [keep_rules]: "keeps I (raise e)"
  by (simp add: keeps_def)

lemma keeps_liftR [keep_rules]: "keeps I (liftR r)"
  by (simp add: keeps_def)

lemma keeps_getS [keep_rules]: "keeps I (getS f)"
  by (simp add: keeps_def)

lemma keeps_modS: "(\<And>s. I s \<Longrightarrow> I (f s)) \<Longrightarrow> keeps I (modS f)"
  by (simp add: keeps_def)

lemma keeps_bind [keep_rules]: "keeps I m \<Longrightarrow> (\<And>x. keeps I (f x)) \<Longrightarrow> keeps I (bindA m f)"
  unfolding keeps_def bindA_run
proof (intro allI impI)
  fix s assume m: "\<forall>s. I s \<longrightarrow> I (snd (m s))" and f: "\<And>x. \<forall>s. I s \<longrightarrow> I (snd (f x s))" and "I s"
  obtain r s1 where r: "m s = (r, s1)" by force
  have "I s1" using m \<open>I s\<close> r by (metis snd_conv)
  then show "I (snd (case m s of (Inl e, s') \<Rightarrow> (Inl e, s') | (Inr x, s') \<Rightarrow> f x s'))"
    using f by (cases r) (simp_all add: r)
qed

lemma keeps_then [keep_rules]: "keeps I m \<Longrightarrow> keeps I n \<Longrightarrow> keeps I (thenA m n)"
  unfolding thenA_def by (intro keeps_bind)

lemma keeps_try [keep_rules]: "keeps I m \<Longrightarrow> keeps I (tryA m)"
  by (simp add: keeps_def tryA_run)

lemma keeps_when [keep_rules]: "keeps I m \<Longrightarrow> keeps I (whenA b m)"
  by (cases b) (simp_all add: keeps_ret)

lemma keeps_fold [keep_rules]: "(\<And>x a. keeps I (f x a)) \<Longrightarrow> keeps I (foldA f xs a)"
  by (induction xs arbitrary: a) (simp_all add: keeps_ret keeps_bind)

lemma keeps_if [keep_rules]: "keeps I m \<Longrightarrow> keeps I n \<Longrightarrow> keeps I (if b then m else n)"
  by simp

lemma keeps_option [keep_rules]:
  "keeps I m \<Longrightarrow> (\<And>x. keeps I (f x)) \<Longrightarrow> keeps I (case v of None \<Rightarrow> m | Some x \<Rightarrow> f x)"
  by (cases v) simp_all

lemma keeps_list [keep_rules]:
  "keeps I m \<Longrightarrow> (\<And>x xs. keeps I (f x xs)) \<Longrightarrow> keeps I (case v of [] \<Rightarrow> m | x # xs \<Rightarrow> f x xs)"
  by (cases v) simp_all

lemma keeps_sum [keep_rules]:
  "(\<And>e. keeps I (f e)) \<Longrightarrow> (\<And>x. keeps I (g x)) \<Longrightarrow> keeps I (case v of Inl e \<Rightarrow> f e | Inr x \<Rightarrow> g x)"
  by (cases v) simp_all

lemma keeps_prod [keep_rules]: "(\<And>x y. keeps I (f x y)) \<Longrightarrow> keeps I (case v of (x, y) \<Rightarrow> f x y)"
  by (cases v) simp

lemma keeps_prod_app [keep_rules]:
  "(\<And>x y. keeps I (f x y a)) \<Longrightarrow> keeps I ((case v of (x, y) \<Rightarrow> f x y) a)"
  by (cases v) simp

lemma keeps_let [keep_rules]: "keeps I (f v) \<Longrightarrow> keeps I (Let v f)"
  by simp

section \<open>Total correctness\<close>

text \<open>
  \<open>returns P m Q\<close>: from a state in \<open>P\<close> the action returns, without raising, a value and a state in \<open>Q\<close>;
  \<open>ends P m Q\<close> speaks of the result, an exception included. \<open>return_rules\<close> follow the code.
\<close>

named_theorems return_rules "introduction rules for returns and ends"

definition ends :: "('s \<Rightarrow> bool) \<Rightarrow> ('s, 'a) act \<Rightarrow> ('a result \<Rightarrow> 's \<Rightarrow> bool) \<Rightarrow> bool" where
  "ends P m Q \<longleftrightarrow> (\<forall>s. P s \<longrightarrow> Q (fst (m s)) (snd (m s)))"

definition returns :: "('s \<Rightarrow> bool) \<Rightarrow> ('s, 'a) act \<Rightarrow> ('a \<Rightarrow> 's \<Rightarrow> bool) \<Rightarrow> bool" where
  "returns P m Q \<longleftrightarrow> ends P m (\<lambda>r s. \<exists>x. r = Inr x \<and> Q x s)"

lemma returnsI: "(\<And>s. P s \<Longrightarrow> \<exists>x s'. m s = (Inr x, s') \<and> Q x s') \<Longrightarrow> returns P m Q"
  by (fastforce simp: returns_def ends_def)

lemma returnsD: "returns P m Q \<Longrightarrow> P s \<Longrightarrow> \<exists>x s'. m s = (Inr x, s') \<and> Q x s'"
  by (cases "m s") (auto simp: returns_def ends_def)

lemma endsD: "ends P m Q \<Longrightarrow> P s \<Longrightarrow> m s = (r, s') \<Longrightarrow> Q r s'"
  by (auto simp: ends_def)

lemma ends_bind:
  assumes "returns P m R" and "\<And>x. ends (R x) (f x) Q"
  shows "ends P (bindA m f) Q"
  unfolding ends_def
proof (intro allI impI)
  fix s assume "P s"
  then obtain x s' where "m s = (Inr x, s')" "R x s'" using returnsD[OF assms(1)] by blast
  then show "Q (fst (bindA m f s)) (snd (bindA m f s))" using assms(2)[of x] by (simp add: bindA_run ends_def)
qed

lemma ends_then: "returns P m R \<Longrightarrow> (\<And>x. ends (R x) n Q) \<Longrightarrow> ends P (thenA m n) Q"
  unfolding thenA_def by (rule ends_bind)

lemma returns_bind [return_rules]: "returns P m R \<Longrightarrow> (\<And>x. returns (R x) (f x) Q) \<Longrightarrow> returns P (bindA m f) Q"
  unfolding returns_def[of P "bindA m f"] returns_def[of _ "f _"] by (rule ends_bind)

lemma returns_then [return_rules]: "returns P m R \<Longrightarrow> (\<And>x. returns (R x) n Q) \<Longrightarrow> returns P (thenA m n) Q"
  unfolding thenA_def by (rule returns_bind)

lemma returns_ret: "(\<And>s. P s \<Longrightarrow> Q x s) \<Longrightarrow> returns P (ret x) Q"
  by (rule returnsI) simp

lemma ends_raise: "(\<And>s. P s \<Longrightarrow> Q (Inl e) s) \<Longrightarrow> ends P (raise e) Q"
  by (simp add: ends_def)

lemma returns_when: "returns P m (\<lambda>x. Q x) \<Longrightarrow> (\<And>s. P s \<Longrightarrow> Q () s) \<Longrightarrow> returns P (whenA b m) Q"
  by (cases b) (simp_all add: returns_ret)

lemma returns_weaken: "returns P m Q \<Longrightarrow> (\<And>s. P' s \<Longrightarrow> P s) \<Longrightarrow> (\<And>x s. Q x s \<Longrightarrow> Q' x s) \<Longrightarrow> returns P' m Q'"
  by (fastforce simp: returns_def ends_def)

lemma ends_returns: "returns P m Q \<Longrightarrow> ends P m (\<lambda>r s. \<exists>x. r = Inr x \<and> Q x s)"
  by (simp add: returns_def)

lemma ends_weaken: "ends P m Q \<Longrightarrow> (\<And>s. P' s \<Longrightarrow> P s) \<Longrightarrow> (\<And>r s. Q r s \<Longrightarrow> Q' r s) \<Longrightarrow> ends P' m Q'"
  by (simp add: ends_def)

lemma bindA_ret [simp]: "bindA (ret x) f = f x" "thenA (ret x) m = m"
  by (simp_all add: fun_eq_iff bindA_run thenA_run)

lemma returns_and: "returns P m Q \<Longrightarrow> returns (\<lambda>s. P s \<and> A s) m Q"
  by (auto intro: returns_weaken)

end
