(* ===== verification/Runtime_World.thy ===== *)
theory Runtime_World
  imports Effects Agent_Program
begin

text \<open>
  The state the runtime works on (\<open>world\<close>) and what it is given (\<open>runtime_env\<close>). The world gathers the
  objects a \<open>TaskRunner\<close> holds: the run state store, the event bus, the artifact store, the tables behind
  \<open>DurableRuntimeServices\<close> (\<open>None\<close> when the runner was built without them), the sandbox factory's roots,
  the cancellation and checkpoint controller objects (by number, since they are shared and mutated), and
  the host files. Every reading of the clock, every \<open>uuid4\<close> and every answer of the host takes the next
  tick, so two readings are never confused.
\<close>

section \<open>Environment and world\<close>

record run_cancellation =
  ca_set :: bool
  ca_reason :: "string option"

definition new_cancellation :: run_cancellation where
  "new_cancellation = \<lparr>ca_set = False, ca_reason = None\<rparr>"

text \<open>\<open>RunCancellation.request\<close>: the first reason that is not blank stays.\<close>

definition cancellation_request :: "string option \<Rightarrow> run_cancellation \<Rightarrow> run_cancellation" where
  "cancellation_request reason c =
     \<lparr>ca_set = True,
      ca_reason = (case ca_reason c of
         Some r \<Rightarrow> Some r
       | None \<Rightarrow> (case reason of
           None \<Rightarrow> None
         | Some r \<Rightarrow> if py_strip r = [] then None else Some (py_strip r)))\<rparr>"

record durable =
  d_checkpoints :: checkpoint_db
  d_memory :: "string memory_table"
  d_approvals :: approval_store
  d_grants :: grant_store
  d_events :: event_table
  d_diagnostics :: "(string, diagnostic_record) table"
  d_metrics :: metrics_table
  d_messages :: message_table
  d_compactions :: compaction_table

record worker =
  wk_key :: run_key
  wk_correlation_id :: "string option"
  wk_identity :: string
  wk_resume :: bool

type_synonym files = "(host_path \<times> string) list"

record world =
  w_runs :: run_store_state
  w_bus :: event_bus
  w_artifacts :: artifact_store
  w_files :: files
  w_roots :: "(run_key \<times> sandbox_roots) list"
  w_cancel_objs :: "run_cancellation list"
  w_cancellations :: "(run_key \<times> nat) list"
  w_controllers :: "checkpoint_controller list"
  w_rehydrated :: "run_key list"
  w_workers :: "worker list"
  w_durable :: "durable option"
  w_tick :: nat

record execution_request =
  xq_task_id :: string
  xq_run_id :: string
  xq_objective :: string
  xq_workspace_roots :: "string list"
  xq_identity :: string
  xq_allowed_capabilities :: "string list"
  xq_metadata :: pydict
  xq_runtime_user_id :: "string option"
  xq_messages :: "chat_message list"
  xq_constraints :: "string list"
  xq_success_criteria :: "string list"
  xq_has_controller :: bool
  xq_resume_from :: "string option"

text \<open>
  The skill installer (\<open>SkillInstallationService\<close>) as the runner uses it: \<open>in_prepare\<close> is \<open>prepare_install\<close>
  on the host files, \<open>in_execute\<close> is \<open>execute_install\<close>, \<open>in_payloads\<close> is \<open>artifact_payloads\<close>.
\<close>

record prepared_install =
  pi_source_path :: string
  pi_target_scope :: string
  pi_role_id :: "string option"
  pi_install_mode :: string
  pi_reason :: string
  pi_overwrite :: bool
  pi_target_path :: string
  pi_status :: string
  pi_has_scripts :: bool
  pi_skill_id :: "string option"
  pi_validation :: pydict
  pi_source_host :: host_path
  pi_target_host :: host_path
  pi_managed_root :: host_path
  pi_manifest :: "string list"

record skill_installer =
  in_prepare :: "sandbox_roots \<Rightarrow> files \<Rightarrow> skill_install_args \<Rightarrow> prepared_install result"
  in_execute :: "prepared_install \<Rightarrow> files \<Rightarrow> unit result \<times> files"
  in_payloads :: "prepared_install \<Rightarrow> (string \<times> string) list"

record runtime_env =
  rt_now :: "nat \<Rightarrow> string"
  rt_uuid :: "nat \<Rightarrow> string"
  rt_policy :: pydict
  rt_resolve :: "host_path \<Rightarrow> host_path"
  rt_manager :: manager
  rt_guess_type :: "string \<Rightarrow> string option"
  rt_sha256 :: "string \<Rightarrow> string"
  rt_encode :: "string \<Rightarrow> string"
  rt_decode :: "string \<Rightarrow> string result"
  rt_decode_lossy :: "string \<Rightarrow> string"
  rt_io_error :: "nat \<Rightarrow> host_path \<Rightarrow> exn option"
  rt_exec :: "nat \<Rightarrow> string list \<Rightarrow> host_path \<Rightarrow> files \<Rightarrow> command_result result \<times> files"
  rt_compaction_enabled :: bool
  rt_explicit_client :: bool
  rt_summarizer :: "summarizer option"
  rt_installer :: "skill_installer option"
  rt_harness :: "execution_request \<Rightarrow> execution_result prog"

type_synonym 'a wact = "(world, 'a) act"

section \<open>Clock and ids\<close>

definition utc_now :: "runtime_env \<Rightarrow> string wact" where
  "utc_now env = (\<lambda>w. (Inr (rt_now env (w_tick w)), w\<lparr>w_tick := Suc (w_tick w)\<rparr>))"

definition uuid_hex :: "runtime_env \<Rightarrow> string wact" where
  "uuid_hex env = (\<lambda>w. (Inr (rt_uuid env (w_tick w)), w\<lparr>w_tick := Suc (w_tick w)\<rparr>))"

text \<open>\<open>ids.py\<close>: a prefix and twelve hexadecimal digits.\<close>

definition new_id :: "runtime_env \<Rightarrow> string \<Rightarrow> string wact" where
  "new_id env pre = bindA (uuid_hex env) (\<lambda>h. ret (pre @ ''_'' @ take 12 h))"

section \<open>The parts of the world\<close>

definition on_runs :: "(run_store_state \<Rightarrow> 'a result \<times> run_store_state) \<Rightarrow> 'a wact" where
  "on_runs f = (\<lambda>w. case f (w_runs w) of (r, s) \<Rightarrow> (r, w\<lparr>w_runs := s\<rparr>))"

definition get_run :: "string \<Rightarrow> string option \<Rightarrow> run_state wact" where
  "get_run task run = (\<lambda>w. (store_get (w_runs w) task run, w))"

definition update_run :: "string \<Rightarrow> string \<Rightarrow> (run_state \<Rightarrow> run_state) \<Rightarrow> unit wact" where
  "update_run task run f = (\<lambda>w. case store_update (w_runs w) task run f of
     Inl e \<Rightarrow> (Inl e, w) | Inr (s, st) \<Rightarrow> (Inr (), w\<lparr>w_runs := st\<rparr>))"

definition create_run :: "run_state \<Rightarrow> unit wact" where
  "create_run s = modS (\<lambda>w. w\<lparr>w_runs := store_create s (w_runs w)\<rparr>)"

text \<open>An operation of the durable services; \<open>dflt\<close> is the answer when there are none.\<close>

definition with_durable :: "'a \<Rightarrow> (durable \<Rightarrow> 'a result \<times> durable) \<Rightarrow> 'a wact" where
  "with_durable dflt f = (\<lambda>w. case w_durable w of
     None \<Rightarrow> (Inr dflt, w)
   | Some d \<Rightarrow> (case f d of (r, d') \<Rightarrow> (r, w\<lparr>w_durable := Some d'\<rparr>)))"

definition read_durable :: "'a \<Rightarrow> (durable \<Rightarrow> 'a) \<Rightarrow> 'a wact" where
  "read_durable dflt f = (\<lambda>w. (Inr (case w_durable w of None \<Rightarrow> dflt | Some d \<Rightarrow> f d), w))"

definition has_durable :: "bool wact" where
  "has_durable = getS (\<lambda>w. w_durable w \<noteq> None)"

text \<open>The host as the artifact store sees it.\<close>

definition file_bytes :: "files \<Rightarrow> host_path \<Rightarrow> string" where
  "file_bytes fs p = (case map_of fs p of None \<Rightarrow> [] | Some b \<Rightarrow> b)"

definition host_of :: "runtime_env \<Rightarrow> world \<Rightarrow> host_env" where
  "host_of env w = \<lparr>he_materialize = materialize_artifact_path (rt_resolve env)
       (\<lambda>p. map_of (w_files w) p \<noteq> None) (map_of (w_roots w)),
     he_guess_type = rt_guess_type env,
     he_size = (\<lambda>p. int (length (file_bytes (w_files w) p))),
     he_sha256 = (\<lambda>p. rt_sha256 env (file_bytes (w_files w) p)),
     he_bytes = file_bytes (w_files w),
     he_decode = rt_decode_lossy env\<rparr>"

text \<open>\<open>LocalExecutionSandboxFactory.for_run\<close>.\<close>

definition sandbox_for_run :: "runtime_env \<Rightarrow> string \<Rightarrow> string \<Rightarrow> string list \<Rightarrow> sandbox_roots wact" where
  "sandbox_for_run env task run roots = bindA
     (liftR (create_roots (rt_resolve env) (rt_manager env) task run roots)) (\<lambda>sr.
     thenA (modS (\<lambda>w. w\<lparr>w_roots := AList.update (task, run) sr (w_roots w)\<rparr>)) (ret sr))"

text \<open>
  \<open>LocalExecutionSandbox.read_text\<close>, \<open>write_text\<close> and \<open>execute_command\<close> on the host files. \<open>host_error\<close> is what
  the operating system may raise at any access (a directory, a missing permission, a full disk).
\<close>

definition host_error :: "runtime_env \<Rightarrow> host_path \<Rightarrow> unit wact" where
  "host_error env p = (\<lambda>w. ((case rt_io_error env (w_tick w) p of None \<Rightarrow> Inr () | Some e \<Rightarrow> Inl e),
                            w\<lparr>w_tick := Suc (w_tick w)\<rparr>))"

definition sandbox_read :: "runtime_env \<Rightarrow> sandbox_roots \<Rightarrow> string \<Rightarrow> string wact" where
  "sandbox_read env sr path =
     bindA (liftR (sandbox_resolve (rt_resolve env) sr path)) (\<lambda>p.
     thenA (host_error env p) (bindA (getS (\<lambda>w. map_of (w_files w) p)) (\<lambda>content. case content of
       None \<Rightarrow> raise (RecoverableToolRejection \<lparr>tr_code = ''file_not_found'',
          tr_message = ''Sandbox path '' @ [CHR 0x27] @ path @ [CHR 0x27] @ '' does not exist.'',
          tr_category = ''file_access'', tr_retryable = True,
          tr_details = [(''path'', PStr path), (''errno'', PInt 2)]\<rparr>)
     | Some b \<Rightarrow> liftR (rt_decode env b))))"

definition sandbox_write :: "runtime_env \<Rightarrow> sandbox_roots \<Rightarrow> string \<Rightarrow> string \<Rightarrow> unit wact" where
  "sandbox_write env sr path content =
     bindA (liftR (sandbox_resolve (rt_resolve env) sr path)) (\<lambda>p.
     thenA (host_error env p)
       (modS (\<lambda>w. w\<lparr>w_files := AList.update p (rt_encode env content) (w_files w)\<rparr>)))"

text \<open>
  \<open>exists\<close> and \<open>list_files\<close>. The directories of the model are the ancestors of its files; an empty directory
  lists nothing, and \<open>exists\<close> is asked of the paths of artifacts, which are files.
\<close>

definition sandbox_exists :: "runtime_env \<Rightarrow> sandbox_roots \<Rightarrow> string \<Rightarrow> bool wact" where
  "sandbox_exists env sr path = bindA (liftR (sandbox_resolve (rt_resolve env) sr path)) (\<lambda>p.
     getS (\<lambda>w. list_ex (\<lambda>f. prefix p f) (map fst (w_files w))))"

definition sandbox_list_files :: "runtime_env \<Rightarrow> sandbox_roots \<Rightarrow> string \<Rightarrow> string list wact" where
  "sandbox_list_files env sr root = bindA (getS (\<lambda>w. map fst (w_files w))) (\<lambda>files.
     liftR (list_files (rt_resolve env) sr files root))"

definition sandbox_exec ::
    "runtime_env \<Rightarrow> sandbox_roots \<Rightarrow> string list \<Rightarrow> string option \<Rightarrow> command_result wact" where
  "sandbox_exec env sr command cwd =
     bindA (liftR (prepare_command (rt_resolve env) sr command cwd)) (\<lambda>(n, translated, host_cwd).
     bindA (\<lambda>w. let run = rt_exec env (w_tick w); w' = w\<lparr>w_tick := Suc (w_tick w)\<rparr> in
       (case executor_execute (\<lambda>c d. fst (run c d (w_files w))) translated host_cwd of
          Inl e \<Rightarrow> (Inl e, w')
        | Inr res \<Rightarrow> (Inr res, w'\<lparr>w_files := snd (run translated host_cwd (w_files w))\<rparr>)))
       (\<lambda>res. ret (command_answer sr n res)))"

section \<open>Cancellation and controller objects\<close>

definition cancellation_for :: "string \<Rightarrow> string \<Rightarrow> nat wact" where
  "cancellation_for task run = (\<lambda>w. case map_of (w_cancellations w) (task, run) of
     Some i \<Rightarrow> (Inr i, w)
   | None \<Rightarrow> (let i = length (w_cancel_objs w) in
       (Inr i, w\<lparr>w_cancel_objs := w_cancel_objs w @ [new_cancellation],
                 w_cancellations := AList.update (task, run) i (w_cancellations w)\<rparr>)))"

definition clear_cancellation :: "string \<Rightarrow> string \<Rightarrow> unit wact" where
  "clear_cancellation task run = modS (\<lambda>w.
     w\<lparr>w_cancellations := AList.update (task, run) (length (w_cancel_objs w)) (w_cancellations w),
       w_cancel_objs := w_cancel_objs w @ [new_cancellation]\<rparr>)"

definition cancel_obj :: "world \<Rightarrow> nat \<Rightarrow> run_cancellation" where
  "cancel_obj w i = (if i < length (w_cancel_objs w) then w_cancel_objs w ! i else new_cancellation)"

definition request_cancellation :: "nat \<Rightarrow> string option \<Rightarrow> unit wact" where
  "request_cancellation i reason = modS (\<lambda>w.
     w\<lparr>w_cancel_objs := (w_cancel_objs w)[i := cancellation_request reason (cancel_obj w i)]\<rparr>)"

definition cancel_requested :: "nat \<Rightarrow> bool wact" where
  "cancel_requested i = getS (\<lambda>w. ca_set (cancel_obj w i))"

definition cancel_reason :: "nat \<Rightarrow> string option wact" where
  "cancel_reason i = getS (\<lambda>w. ca_reason (cancel_obj w i))"

text \<open>A new controller object.\<close>

definition new_controller :: "checkpoint_controller \<Rightarrow> nat wact" where
  "new_controller c = (\<lambda>w. (Inr (length (w_controllers w)), w\<lparr>w_controllers := w_controllers w @ [c]\<rparr>))"

definition default_controller :: checkpoint_controller where
  "default_controller = \<lparr>cc_task_id = [], cc_run_id = [], cc_thread_id = [], cc_latest_id = None,
     cc_next_index = 0, cc_is_resumed = False\<rparr>"

definition controller_obj :: "world \<Rightarrow> nat \<Rightarrow> checkpoint_controller" where
  "controller_obj w i = (if i < length (w_controllers w) then w_controllers w ! i else default_controller)"

definition get_controller :: "nat \<Rightarrow> checkpoint_controller wact" where
  "get_controller i = getS (\<lambda>w. controller_obj w i)"

text \<open>\<open>record_checkpoint\<close> on the controller object \<open>i\<close>.\<close>

definition controller_record :: "runtime_env \<Rightarrow> nat \<Rightarrow> string option \<Rightarrow> checkpoint_metadata wact" where
  "controller_record env i reason = bindA (uuid_hex env) (\<lambda>hex. bindA (utc_now env) (\<lambda>now.
     (\<lambda>w. case w_durable w of
        None \<Rightarrow> (Inl (OtherException ''no checkpoint store''), w)
      | Some d \<Rightarrow> (case record_checkpoint hex now reason (controller_obj w i) (d_checkpoints d) of
          (r, c, db) \<Rightarrow> (r, w\<lparr>w_controllers := (w_controllers w)[i := c],
                              w_durable := Some (d\<lparr>d_checkpoints := db\<rparr>)\<rparr>)))))"

text \<open>\<open>LangGraphCheckpointAdapter.begin_run\<close>, \<open>attach_thread\<close> and \<open>resume_run\<close>, each a new object.\<close>

definition adapter_begin_run :: "runtime_env \<Rightarrow> string \<Rightarrow> string \<Rightarrow> nat wact" where
  "adapter_begin_run env task run = bindA (uuid_hex env) (\<lambda>hex.
     bindA (with_durable default_controller (\<lambda>d. case begin_run hex task run (d_checkpoints d) of
       (c, db) \<Rightarrow> (Inr c, d\<lparr>d_checkpoints := db\<rparr>))) new_controller)"

definition adapter_attach :: "string \<Rightarrow> string \<Rightarrow> string \<Rightarrow> nat wact" where
  "adapter_attach task run thread =
     bindA (read_durable default_controller (\<lambda>d. attach_thread (d_checkpoints d) task run thread)) new_controller"

definition adapter_resume :: "string \<Rightarrow> string \<Rightarrow> nat wact" where
  "adapter_resume task run = bindA (with_durable default_controller (\<lambda>d.
     (resume_run (d_checkpoints d) task run, d))) new_controller"

section \<open>What the primitives preserve\<close>

lemma get_run_run: "get_run t r w = (store_get (w_runs w) t r, w)"
  by (simp add: get_run_def)

lemma update_run_Inr:
  assumes "update_run t r f w = (Inr u, w')" and "r \<noteq> []"
  shows "\<exists>s st. store_lookup (w_runs w) (t, r) = Some s \<and> w' = w\<lparr>w_runs := st\<rparr> \<and>
    store_update (w_runs w) t r f = Inr (f s, st) \<and>
    (\<forall>k. store_lookup st k = (if k = (t, r) then Some (f s) else store_lookup (w_runs w) k))"
proof -
  obtain s' st where st: "store_update (w_runs w) t r f = Inr (s', st)" "w' = w\<lparr>w_runs := st\<rparr>"
    using assms(1) by (auto simp: update_run_def split: sum.splits)
  then show ?thesis using runs.upd_Inr[OF assms(2) st(1)] by auto
qed

lemma update_run_Inl: "update_run t r f w = (Inl e, w') \<Longrightarrow> w' = w"
  by (auto simp: update_run_def split: sum.splits prod.splits)

lemma update_run_known:
  assumes "store_lookup (w_runs w) (t, r) = Some s" and "r \<noteq> []"
  shows "\<exists>st. update_run t r f w = (Inr (), w\<lparr>w_runs := st\<rparr>) \<and>
    (\<forall>k. store_lookup st k = (if k = (t, r) then Some (f s) else store_lookup (w_runs w) k))"
  using runs.upd_known[OF assms(2,1), of f] by (auto simp: update_run_def)

lemma get_run_known:
  "store_lookup (w_runs w) (t, r) = Some s \<Longrightarrow> r \<noteq> [] \<Longrightarrow> get_run t (Some r) w = (Inr s, w)"
  by (simp add: get_run_def store_get_Some)

lemma cancellation_request_set [simp]: "ca_set (cancellation_request reason c)"
  by (simp add: cancellation_request_def)

lemma cancellation_request_keeps: "ca_reason c = Some r \<Longrightarrow> ca_reason (cancellation_request reason c) = Some r"
  by (simp add: cancellation_request_def)

section \<open>Properties\<close>

text \<open>
  C36. A write through the sandbox only ever changes a host file below the root of a zone of its run, and it is
  the file the normalised path denotes; a write that raises changes no file.
\<close>

theorem sandbox_write_contained:
  assumes "sandbox_write env sr path content w = (r, w')"
  shows "(\<forall>p. (\<forall>z. \<not> prefix (rt_resolve env (zone_root sr z)) p) \<longrightarrow> map_of (w_files w') p = map_of (w_files w) p) \<and>
    (case r of Inl e \<Rightarrow> w_files w' = w_files w
     | Inr x \<Rightarrow> (\<exists>n p. normalize_sandbox_path path = Inr n \<and> p = rt_resolve env (zone_root sr (np_zone n) @ np_relative n) \<and>
         w_files w' = AList.update p (rt_encode env content) (w_files w)))"
proof (cases "sandbox_resolve (rt_resolve env) sr path")
  case (Inr p)
  then obtain n where n: "normalize_sandbox_path path = Inr n"
      "p = rt_resolve env (zone_root sr (np_zone n) @ np_relative n)"
      "prefix (rt_resolve env (zone_root sr (np_zone n))) p"
    using sandbox_resolve_within by blast
  then show ?thesis using assms Inr
    by (auto simp: sandbox_write_def bindA_run thenA_run host_error_def update_conv' split: option.splits)
qed (use assms in \<open>auto simp: sandbox_write_def bindA_run\<close>)

end
