(* ===== verification/Task_Events.thy ===== *)
theory Task_Events
  imports Runtime_World
begin

text \<open>
  \<open>TaskRunner\<close> (\<open>apps/runtime/local_agent_runtime/task_runner.py\<close>), first part: metrics, publishing,
  diagnostics, run messages, the handling of harness events with the recoverable tool rejections, and the
  governance of an operation.
\<close>

section \<open>Metrics and publishing\<close>

record metrics_change =
  mc_started_at :: "string option"
  mc_ended_at :: "string option"
  mc_artifact_count :: "int option"
  mc_events :: int
  mc_checkpoints :: int
  mc_approvals :: int
  mc_resumes :: int
  mc_denies :: int

definition no_change :: metrics_change where
  "no_change = \<lparr>mc_started_at = None, mc_ended_at = None, mc_artifact_count = None, mc_events = 0,
     mc_checkpoints = 0, mc_approvals = 0, mc_resumes = 0, mc_denies = 0\<rparr>"

definition apply_metrics :: "metrics_change \<Rightarrow> string \<Rightarrow> run_metrics \<Rightarrow> run_metrics" where
  "apply_metrics c now m = m\<lparr>
     mt_started_at := (case mt_started_at m of Some t \<Rightarrow> Some t | None \<Rightarrow> mc_started_at c),
     mt_ended_at := (case mc_ended_at c of Some t \<Rightarrow> Some t | None \<Rightarrow> mt_ended_at m),
     mt_artifact_count := (case mc_artifact_count c of Some n \<Rightarrow> n | None \<Rightarrow> mt_artifact_count m),
     mt_event_count := mt_event_count m + mc_events c,
     mt_checkpoint_count := mt_checkpoint_count m + mc_checkpoints c,
     mt_approval_count := mt_approval_count m + mc_approvals c,
     mt_resume_count := mt_resume_count m + mc_resumes c,
     mt_deny_count := mt_deny_count m + mc_denies c,
     mt_last_updated_at := Some now\<rparr>"

definition new_metrics_record :: "runtime_env \<Rightarrow> string \<Rightarrow> string \<Rightarrow> run_metrics wact" where
  "new_metrics_record env task run =
     bindA (utc_now env) (\<lambda>t. ret ((empty_metrics task run)\<lparr>mt_last_updated_at := Some t\<rparr>))"

definition write_run_metrics :: "runtime_env \<Rightarrow> string \<Rightarrow> string \<Rightarrow> metrics_change \<Rightarrow> unit wact" where
  "write_run_metrics env task run c = bindA has_durable (\<lambda>durable. if \<not> durable then ret () else
     bindA (read_durable None (\<lambda>d. read_metrics (d_metrics d) task run)) (\<lambda>found.
     bindA (case found of None \<Rightarrow> new_metrics_record env task run | Some m \<Rightarrow> ret m) (\<lambda>m.
     bindA (utc_now env) (\<lambda>now.
       with_durable () (\<lambda>d. (Inr (), d\<lparr>d_metrics := write_metrics (apply_metrics c now m) (d_metrics d)\<rparr>))))))"

definition bus_put :: "event_envelope \<Rightarrow> unit wact" where
  "bus_put e = (\<lambda>w. case bus_publish (mk_runtime_event e) (w_bus w) of
     Inl x \<Rightarrow> (Inl x, w) | Inr b \<Rightarrow> (Inr (), w\<lparr>w_bus := b\<rparr>))"

definition store_event :: "event_envelope \<Rightarrow> unit wact" where
  "store_event e = with_durable () (\<lambda>d. case append_event e (d_events d) of
     Inl x \<Rightarrow> (Inl x, d) | Inr t \<Rightarrow> (Inr (), d\<lparr>d_events := t\<rparr>))"

definition publish ::
    "runtime_env \<Rightarrow> string \<Rightarrow> string \<Rightarrow> string option \<Rightarrow> string \<Rightarrow> string \<Rightarrow> event_source \<Rightarrow> pydict \<Rightarrow> unit wact" where
  "publish env task run corr ty timestamp source payload = bindA (new_id env ''evt'') (\<lambda>i.
     let e = \<lparr>ev_id = i, ev_type = ty, ev_timestamp = timestamp, ev_correlation_id = corr,
              ev_task_id = Some task, ev_run_id = Some run, ev_source = source, ev_payload = payload\<rparr> in
     thenA (bus_put e) (thenA (store_event e) (write_run_metrics env task run (no_change\<lparr>mc_events := 1\<rparr>))))"

definition runner_source :: event_source where
  "runner_source = \<lparr>es_kind = SRC_RUNTIME, es_name = None, es_role = None, es_component = Some ''task-runner''\<rparr>"

definition component_source :: "source_kind \<Rightarrow> string \<Rightarrow> event_source" where
  "component_source k c = \<lparr>es_kind = k, es_name = None, es_role = None, es_component = Some c\<rparr>"

definition append_run_diagnostic ::
    "runtime_env \<Rightarrow> string \<Rightarrow> string \<Rightarrow> string \<Rightarrow> string \<Rightarrow> pydict \<Rightarrow> unit wact" where
  "append_run_diagnostic env task run kind message details =
     bindA has_durable (\<lambda>durable. if \<not> durable then ret () else
     bindA (uuid_hex env) (\<lambda>hex. bindA (utc_now env) (\<lambda>now.
       with_durable () (\<lambda>d. case append_diagnostic \<lparr>dg_id = ''diag_'' @ hex, dg_task_id = task, dg_run_id = run,
           dg_kind = kind, dg_message = message, dg_created_at = now, dg_details = details\<rparr> (d_diagnostics d) of
         Inl x \<Rightarrow> (Inl x, d) | Inr t \<Rightarrow> (Inr (), d\<lparr>d_diagnostics := t\<rparr>)))))"

section \<open>Run messages\<close>

definition append_run_message ::
    "runtime_env \<Rightarrow> string \<Rightarrow> string \<Rightarrow> string \<Rightarrow> string \<Rightarrow> string option \<Rightarrow> unit wact" where
  "append_run_message env task run role content created_at =
     bindA has_durable (\<lambda>durable. if \<not> durable then ret () else
     (let normalized = py_strip content in
      if normalized = [] then ret ()
      else bindA (uuid_hex env) (\<lambda>hex.
        bindA (if or_default created_at [] \<noteq> [] then ret (or_default created_at []) else utc_now env) (\<lambda>at.
        with_durable () (\<lambda>d. (Inr (), d\<lparr>d_messages := append_message
          \<lparr>ms_id = ''msg_'' @ hex, ms_task_id = task, ms_run_id = run, ms_role = role,
           ms_content = normalized, ms_created_at = at\<rparr> (d_messages d)\<rparr>))))))"

definition bullet_section :: "string \<Rightarrow> string list \<Rightarrow> string list" where
  "bullet_section title items = (if items = [] then []
     else [[], title] @ map (\<lambda>i. ''- '' @ i) (filter (\<lambda>i. py_strip i \<noteq> []) items))"

definition initial_user_message :: "string \<Rightarrow> string list \<Rightarrow> string list \<Rightarrow> string" where
  "initial_user_message objective constraints success_criteria =
     py_strip (join_with [char_of (10::nat)]
       ([py_strip objective, [],
         ''Complete the objective using governed tools and native Deep Agent delegation when it improves focus or isolation.'']
        @ bullet_section ''Constraints:'' constraints
        @ bullet_section ''Success Criteria:'' success_criteria))"

definition seed_run_message_history ::
    "runtime_env \<Rightarrow> string \<Rightarrow> string \<Rightarrow> string \<Rightarrow> string list \<Rightarrow> string list \<Rightarrow> unit wact" where
  "seed_run_message_history env task run objective constraints success_criteria =
     append_run_message env task run ''user''
       (initial_user_message objective constraints success_criteria) None"

definition load_conversation_messages :: "runtime_env \<Rightarrow> string \<Rightarrow> string \<Rightarrow> chat_message list wact" where
  "load_conversation_messages env task run =
     (let initial = bindA (get_run task (Some run)) (\<lambda>s. ret [\<lparr>cx_role = ''user'',
            cx_content = initial_user_message (rs_objective s) (rs_constraints s) (rs_success_criteria s)\<rparr>])
      in bindA has_durable (\<lambda>durable. if \<not> durable then initial else
        bindA (read_durable [] (\<lambda>d. if rt_summarizer env = None then []
            else projected_messages (d_messages d) (d_compactions d) task run)) (\<lambda>projected.
        if projected \<noteq> [] then ret projected else
        bindA (read_durable [] (\<lambda>d. canonical_messages (d_messages d) task run)) (\<lambda>messages.
          if messages \<noteq> [] then ret messages else initial))))"

section \<open>Harness events\<close>

definition source_for_harness_event :: "string \<Rightarrow> pydict \<Rightarrow> event_source" where
  "source_for_harness_event ty payload =
     (if ty \<in> {event_value SUBAGENT_STARTED, event_value SUBAGENT_COMPLETED} then
        (let role = py_str (dict_get_or payload ''subagentId'' (PStr ''subagent'')) in
         \<lparr>es_kind = SRC_SUBAGENT, es_name = Some role, es_role = Some role,
          es_component = Some ''langchain-deepagent-harness''\<rparr>)
      else if ty \<in> {event_value TOOL_CALLED, event_value TOOL_REJECTED} then
        \<lparr>es_kind = SRC_TOOL, es_name = Some (py_str (dict_get_or payload ''tool'' (PStr ''sandbox-tool''))),
         es_role = None, es_component = Some ''sandbox-tool-bindings''\<rparr>
      else if ty = event_value MEMORY_UPDATED then
        \<lparr>es_kind = SRC_MEMORY, es_name = Some (py_str (dict_get_or payload ''memory_id'' (PStr ''memory-record''))),
         es_role = None, es_component = Some ''sandbox-tool-bindings''\<rparr>
      else component_source SRC_RUNTIME ''langchain-deepagent-harness'')"

definition todos_from_event_payload :: "pydict \<Rightarrow> todo_item list option" where
  "todos_from_event_payload payload =
     (if py_strip (py_str (dict_get_or payload ''tool'' (PStr []))) \<noteq> ''write_todos'' then None
      else (case as_dict (dict_get payload ''arguments'') of
          None \<Rightarrow> Some []
        | Some args \<Rightarrow> if ''todos'' \<notin> fst ` set args then Some []
                       else Some (normalize_todos (dict_get args ''todos''))))"

definition rejection_threshold :: int where "rejection_threshold = 3"

text \<open>The values \<open>_record_recoverable_tool_rejection\<close> reads off the payload.\<close>

definition rejection_message :: "pydict \<Rightarrow> string" where
  "rejection_message p = (case nonblank_str (dict_get p ''message'') of
     Some m \<Rightarrow> m | None \<Rightarrow> ''Tool rejected by runtime.'')"

definition rejection_tool :: "pydict \<Rightarrow> string" where
  "rejection_tool p = (case nonblank_str (dict_get p ''tool'') of Some t \<Rightarrow> t | None \<Rightarrow> ''tool'')"

definition rejection_summary :: "pydict \<Rightarrow> string" where
  "rejection_summary p = (case nonblank_str (dict_get p ''summary'') of
     Some s \<Rightarrow> s | None \<Rightarrow> rejection_tool p @ '' rejected: '' @ rejection_message p)"

definition rejection_failure :: "pydict \<Rightarrow> failure_info" where
  "rejection_failure p = \<lparr>fi_message = rejection_message p, fi_code = nonblank_str (dict_get p ''code'')\<rparr>"

definition rejection_payload :: "int \<Rightarrow> pydict \<Rightarrow> pydict" where
  "rejection_payload n p = dict_set (dict_set (dict_set p ''rejection_count'' (PInt n))
     ''threshold'' (PInt rejection_threshold)) ''summary'' (PStr (rejection_summary p))"

definition record_tool_rejection ::
    "runtime_env \<Rightarrow> string \<Rightarrow> string \<Rightarrow> string option \<Rightarrow> string \<Rightarrow> pydict \<Rightarrow> unit wact" where
  "record_tool_rejection env task run corr timestamp payload =
     bindA (get_run task (Some run)) (\<lambda>state.
     let count = rs_rejection_count state + 1;
         code = nonblank_str (dict_get payload ''code'');
         payload' = rejection_payload count payload in
     thenA (append_run_diagnostic env task run ''tool_rejected'' (rejection_message payload)
       [(''tool'', PStr (rejection_tool payload)), (''code'', opt_str code),
        (''category'', dict_get payload ''category''),
        (''retryable'', dict_get_or payload ''retryable'' (PBool True)),
        (''arguments'', dict_get_or payload ''arguments'' (PDict [])),
        (''details'', dict_get_or payload ''details'' (PDict []))])
     (thenA (update_run task run (\<lambda>s. s\<lparr>rs_updated_at := timestamp, rs_last_event_at := Some timestamp,
        rs_latest_summary := Some (rejection_summary payload), rs_rejection_count := count,
        rs_last_rejection := Some (rejection_failure payload)\<rparr>))
     (thenA (publish env task run corr (event_value TOOL_REJECTED) timestamp
        (source_for_harness_event (event_value TOOL_REJECTED) payload') payload')
     (thenA (whenA (dict_get payload ''category'' = PStr ''policy_denied'')
        (write_run_metrics env task run (no_change\<lparr>mc_denies := 1\<rparr>)))
     (if count > rejection_threshold then
        thenA (append_run_diagnostic env task run ''recoverable_rejection_threshold_exceeded''
            (rejection_summary payload)
            [(''rejection_count'', PInt count), (''threshold'', PInt rejection_threshold),
             (''tool'', PStr (rejection_tool payload)), (''code'', opt_str code)])
          (raise (RejectionThresholdExceeded rejection_threshold count (rejection_failure payload)))
      else ret ())))))"

definition reset_rejection_streak :: "string \<Rightarrow> string \<Rightarrow> string \<Rightarrow> unit wact" where
  "reset_rejection_streak task run timestamp = bindA (get_run task (Some run)) (\<lambda>state.
     if rs_rejection_count state = 0 \<and> rs_last_rejection state = None then ret ()
     else update_run task run (\<lambda>s. s\<lparr>rs_updated_at := timestamp, rs_rejection_count := 0,
            rs_last_rejection := None\<rparr>))"

text \<open>The dict \<open>updates\<close> as a function on the run state.\<close>

definition phase_update :: "string \<Rightarrow> pydict \<Rightarrow> run_state \<Rightarrow> run_state" where
  "phase_update ty p s =
     (case nonblank_str (dict_get p ''phase'') of
        Some phase \<Rightarrow> s\<lparr>rs_current_phase := Some (py_strip phase)\<rparr>
      | None \<Rightarrow>
          if ty = event_value PLAN_UPDATED then s\<lparr>rs_current_phase := Some ''planning''\<rparr>
          else if ty = event_value SUBAGENT_STARTED then
            (case nonblank_str (dict_get p ''subagentId'') of
               Some role \<Rightarrow> s\<lparr>rs_current_phase := Some ''executing'', rs_active_subagent := Some (py_strip role)\<rparr>
             | None \<Rightarrow> s\<lparr>rs_current_phase := Some ''executing''\<rparr>)
          else if ty = event_value SUBAGENT_COMPLETED then
            s\<lparr>rs_current_phase := Some ''executing'', rs_active_subagent := None\<rparr>
          else s)"

definition summary_update :: "pydict \<Rightarrow> run_state \<Rightarrow> run_state" where
  "summary_update p s = (case nonblank_str (dict_get p ''summary'') of
     Some x \<Rightarrow> s\<lparr>rs_latest_summary := Some (py_strip x)\<rparr> | None \<Rightarrow> s)"

definition todos_update :: "pydict \<Rightarrow> run_state \<Rightarrow> run_state" where
  "todos_update p s = (case todos_from_event_payload p of Some ts \<Rightarrow> s\<lparr>rs_todos := ts\<rparr> | None \<Rightarrow> s)"

definition checkpoint_update :: "string \<Rightarrow> pydict \<Rightarrow> run_state \<Rightarrow> run_state" where
  "checkpoint_update ty p s =
     (if ty \<noteq> event_value CHECKPOINT_SAVED then s
      else (let s1 = (case nonblank_str (dict_get p ''checkpoint_id'') of
               Some i \<Rightarrow> s\<lparr>rs_checkpoint_id := Some i, rs_is_resumable := True\<rparr> | None \<Rightarrow> s)
        in (case nonblank_str (dict_get p ''thread_id'') of
               Some t \<Rightarrow> s1\<lparr>rs_thread_id := Some t\<rparr> | None \<Rightarrow> s1)))"

definition event_updates :: "string \<Rightarrow> string \<Rightarrow> pydict \<Rightarrow> run_state \<Rightarrow> run_state" where
  "event_updates timestamp ty p s =
     checkpoint_update ty p (todos_update p (summary_update p (phase_update ty p
       (s\<lparr>rs_updated_at := timestamp, rs_last_event_at := Some timestamp\<rparr>))))"

definition handle_harness_event ::
    "runtime_env \<Rightarrow> string \<Rightarrow> string \<Rightarrow> string option \<Rightarrow> string \<Rightarrow> pydict \<Rightarrow> unit wact" where
  "handle_harness_event env task run corr ty payload = bindA (utc_now env) (\<lambda>timestamp.
     if ty = event_value TOOL_REJECTED then record_tool_rejection env task run corr timestamp payload
     else
       thenA (whenA (ty = event_value TOOL_CALLED) (reset_rejection_streak task run timestamp))
       (thenA (whenA (ty = event_value CHECKPOINT_SAVED)
                 (write_run_metrics env task run (no_change\<lparr>mc_checkpoints := 1\<rparr>)))
       (thenA (update_run task run (event_updates timestamp ty payload))
              (publish env task run corr ty timestamp (source_for_harness_event ty payload) payload))))"

section \<open>Governed operations\<close>

definition approval_scope_of :: "policy_decision \<Rightarrow> pydict" where
  "approval_scope_of d = dict_set (case pd_approval_scope d of None \<Rightarrow> [] | Some s \<Rightarrow> s)
     ''boundary_key'' (opt_str (pd_boundary_key d))"

definition create_approval_request ::
    "runtime_env \<Rightarrow> string option \<Rightarrow> operation_context \<Rightarrow> policy_decision \<Rightarrow> approval_request wact" where
  "create_approval_request env corr c decision = bindA (utc_now env) (\<lambda>now. bindA (new_id env ''approval'') (\<lambda>i.
     let approval = \<lparr>ap_id = i, ap_task_id = oc_task_id c, ap_run_id = oc_run_id c, ap_type = ''boundary'',
           ap_scope = approval_scope_of decision, ap_description = pd_reason decision, ap_created_at = now,
           ap_status = ''pending'', ap_decision = None, ap_decided_at = None\<rparr> in
     thenA (with_durable () (\<lambda>d. case create_request approval (d_approvals d) of
         Inl e \<Rightarrow> (Inl e, d) | Inr t \<Rightarrow> (Inr (), d\<lparr>d_approvals := t\<rparr>)))
     (thenA (update_run (oc_task_id c) (oc_run_id c) (\<lambda>s. s\<lparr>rs_updated_at := now,
         rs_current_phase := Some ''awaiting_approval'', rs_latest_summary := Some (ap_description approval),
         rs_awaiting_approval := True, rs_pending_approval_id := Some i, rs_is_resumable := True,
         rs_pause_reason := Some ''awaiting approval''\<rparr>))
     (thenA (publish env (oc_task_id c) (oc_run_id c) corr (event_value APPROVAL_REQUESTED) now
         (component_source SRC_POLICY ''policy-engine'') [(''approval'', PDict (approval_to_dict approval))])
     (thenA (write_run_metrics env (oc_task_id c) (oc_run_id c) (no_change\<lparr>mc_approvals := 1\<rparr>))
        (ret approval))))))"

text \<open>\<open>durable_services.policy_engine.evaluate\<close>: the engine over the grants of the same database.\<close>

definition evaluate_policy :: "runtime_env \<Rightarrow> durable \<Rightarrow> operation_context \<Rightarrow> policy_decision result" where
  "evaluate_policy env d c = evaluate (rt_policy env) (Some (has_grant (d_grants d))) c"

definition govern_operation :: "runtime_env \<Rightarrow> string option \<Rightarrow> operation_context \<Rightarrow> unit wact" where
  "govern_operation env corr c = bindA (getS w_durable) (\<lambda>durable. case durable of
     None \<Rightarrow> ret ()
   | Some d \<Rightarrow> bindA (liftR (evaluate_policy env d c)) (\<lambda>decision.
       if pd_decision decision = ALLOW then ret ()
       else if pd_decision decision = DENY then raise (RecoverableToolRejection
         \<lparr>tr_code = ''policy_denied'', tr_message = pd_reason decision, tr_category = ''policy_denied'',
          tr_retryable = True, tr_details = [(''context'', PDict (context_to_dict c))]\<rparr>)
       else bindA (create_approval_request env corr c decision) (\<lambda>approval.
         raise (ApprovalRequiredInterrupt (ap_id approval) (ap_description approval)))))"

section \<open>Updates leave the identity of a run alone\<close>

text \<open>The fields of a run that no operation changes after its creation.\<close>

definition run_core :: "run_state \<Rightarrow> string \<times> string \<times> string \<times> string \<times> string \<times> string list \<times> string list \<times> pydict
    \<times> string option \<times> string list \<times> string list" where
  "run_core s = (rs_task_id s, rs_run_id s, rs_objective s, rs_created_at s, rs_accepted_at s,
     rs_workspace_roots s, rs_allowed_capabilities s, rs_metadata s, rs_runtime_user_id s, rs_constraints s,
     rs_success_criteria s)"

lemma run_core_key: "run_core a = run_core b \<Longrightarrow> rs_key a = rs_key b"
  by (simp add: run_core_def rs_key_def)

lemma run_core_updates [simp]: "run_core (event_updates ts ty p s) = run_core s"
  by (simp add: run_core_def event_updates_def checkpoint_update_def todos_update_def summary_update_def
      phase_update_def Let_def split: option.splits)

lemma rejection_count_updates [simp]:
  "rs_rejection_count (event_updates ts ty p s) = rs_rejection_count s"
  "rs_status (event_updates ts ty p s) = rs_status s"
  "rs_last_rejection (event_updates ts ty p s) = rs_last_rejection s"
  "rs_awaiting_approval (event_updates ts ty p s) = rs_awaiting_approval s"
  "rs_pending_approval_id (event_updates ts ty p s) = rs_pending_approval_id s"
  by (simp_all add: event_updates_def checkpoint_update_def todos_update_def summary_update_def
      phase_update_def Let_def split: option.splits)

end
