(* ===== verification/Task_Skills.thy ===== *)
theory Task_Skills
  imports Task_Events
begin

text \<open>
  \<open>TaskRunner\<close>, second part: installing a skill, from the tool of a running agent
  (\<open>_install_skill_via_tool\<close>) and from the client method (\<open>_install_skill_via_runtime_method\<close>). The
  installer itself (\<open>skill_installer.py\<close>, theory \<open>Skill_Installer\<close>) is the field \<open>rt_installer\<close>.
\<close>

record skill_outcome =
  so_status :: string
  so_summary :: string
  so_target_path :: string
  so_validation :: pydict
  so_approval_required :: bool
  so_approval_id :: "string option"
  so_artifacts :: "string list"

definition skill_outcome_to_dict :: "skill_outcome \<Rightarrow> pydict" where
  "skill_outcome_to_dict o' =
     [(''status'', PStr (so_status o')), (''summary'', PStr (so_summary o')),
      (''target_path'', PStr (so_target_path o')), (''validation'', PDict (so_validation o')),
      (''approval_required'', PBool (so_approval_required o')),
      (''artifacts'', PList (map PStr (so_artifacts o')))] @
     (case so_approval_id o' of None \<Rightarrow> [] | Some i \<Rightarrow> [(''approval_id'', PStr i)])"

definition completed_outcome :: "prepared_install \<Rightarrow> string list \<Rightarrow> skill_outcome" where
  "completed_outcome p artifacts =
     \<lparr>so_status = ''completed'', so_summary = ''Installed skill into '' @ pi_target_path p @ ''.'',
      so_target_path = pi_target_path p, so_validation = pi_validation p, so_approval_required = False,
      so_approval_id = None, so_artifacts = artifacts\<rparr>"

text \<open>The validation \<open>_failed_skill_install_outcome\<close> makes up when there is none.\<close>

definition invalid_request_validation :: "string \<Rightarrow> pydict" where
  "invalid_request_validation summary =
     [(''status'', PStr ''fail''),
      (''findings'', PList [PDict [(''severity'', PStr ''error''), (''code'', PStr ''invalid_request''),
                                  (''message'', PStr summary)]]),
      (''has_scripts'', PBool False), (''total_bytes'', PInt 0), (''file_count'', PInt 0),
      (''skill_id'', PNone)]"

definition require_installer :: "runtime_env \<Rightarrow> skill_installer result" where
  "require_installer env = (case rt_installer env of
     None \<Rightarrow> Inl (ValueError ''skill.install requires runtime skill catalog support'') | Some i \<Rightarrow> Inr i)"

definition publish_skill_event ::
    "runtime_env \<Rightarrow> string \<Rightarrow> string \<Rightarrow> string option \<Rightarrow> event_type \<Rightarrow> pydict \<Rightarrow> unit wact" where
  "publish_skill_event env task run corr ty payload = bindA (utc_now env) (\<lambda>now.
     publish env task run corr (event_value ty) now (component_source SRC_RUNTIME ''skill-installer'') payload)"

text \<open>Registering one artifact of the runner: the store, the count in the run state, the event, the metrics.\<close>

definition register_in_store ::
    "runtime_env \<Rightarrow> string \<Rightarrow> string \<Rightarrow> string \<Rightarrow> string option \<Rightarrow> artifact wact" where
  "register_in_store env task run path tool = bindA (new_id env ''artifact'') (\<lambda>i. bindA (utc_now env) (\<lambda>now.
     (\<lambda>w. case register_artifact (host_of env w) i now task run path None None tool None (w_artifacts w) of
        Inl e \<Rightarrow> (Inl e, w) | Inr (a, s) \<Rightarrow> (Inr a, w\<lparr>w_artifacts := s\<rparr>))))"

definition publish_artifact ::
    "runtime_env \<Rightarrow> string \<Rightarrow> string \<Rightarrow> string option \<Rightarrow> artifact \<Rightarrow> int \<Rightarrow> unit wact" where
  "publish_artifact env task run corr a count = bindA (utc_now env) (\<lambda>at.
     thenA (update_run task run (\<lambda>s. s\<lparr>rs_updated_at := at, rs_artifact_count := count,
              rs_last_event_at := Some at\<rparr>))
     (thenA (publish env task run corr (event_value ARTIFACT_CREATED) at
              (component_source SRC_RUNTIME ''artifact-store'') [(''artifact'', PDict (artifact_to_dict a))])
            (write_run_metrics env task run (no_change\<lparr>mc_artifact_count := Some count\<rparr>))))"

definition write_skill_artifacts ::
    "runtime_env \<Rightarrow> string \<Rightarrow> string \<Rightarrow> string option \<Rightarrow> sandbox_roots \<Rightarrow> prepared_install \<Rightarrow> string list wact" where
  "write_skill_artifacts env task run corr sr p = bindA (liftR (require_installer env)) (\<lambda>inst.
     bindA (getS (\<lambda>w. map ar_logical_path (list_artifacts (w_artifacts w) task (Some run) None None))) (\<lambda>existing.
     bindA (foldA (\<lambda>(path, content) (paths, known).
        if content = [] then ret (paths, known) else
        thenA (sandbox_write env sr path content)
        (bindA (register_in_store env task run path (Some ''skill_installer'')) (\<lambda>a.
         bindA (get_run task (Some run)) (\<lambda>s.
         thenA (publish_artifact env task run corr a
                  (rs_artifact_count s + (if ar_logical_path a \<in> set known then 0 else 1)))
               (ret (paths @ [path], ar_logical_path a # known))))))
        (in_payloads inst p) ([], existing)) (\<lambda>(paths, known). ret paths)))"

definition prepare_skill_install ::
    "runtime_env \<Rightarrow> string \<Rightarrow> string \<Rightarrow> string option \<Rightarrow> sandbox_roots \<Rightarrow> skill_install_args
     \<Rightarrow> prepared_install wact" where
  "prepare_skill_install env task run corr sr a = bindA (liftR (require_installer env)) (\<lambda>inst.
     thenA (publish_skill_event env task run corr SKILL_INSTALL_REQUESTED
       [(''source_path'', PStr (si_source_path a)), (''target_scope'', PStr (si_target_scope a)),
        (''target_role'', opt_str (si_target_role a)), (''install_mode'', PStr (si_install_mode a)),
        (''reason'', PStr (si_reason a))])
     (bindA (\<lambda>w. (in_prepare inst sr (w_files w) a, w)) (\<lambda>p.
      thenA (publish_skill_event env task run corr SKILL_INSTALL_VALIDATED
        [(''target_path'', PStr (pi_target_path p)), (''validation'', PDict (pi_validation p))])
      (ret p))))"

definition failed_skill_outcome ::
    "runtime_env \<Rightarrow> string \<Rightarrow> string \<Rightarrow> string option \<Rightarrow> string \<Rightarrow> pydict option \<Rightarrow> string \<Rightarrow> string list
     \<Rightarrow> (sandbox_roots \<times> prepared_install) option \<Rightarrow> string \<Rightarrow> skill_outcome wact" where
  "failed_skill_outcome env task run corr summary validation target artifacts prepared kind =
     (let v = (case validation of None \<Rightarrow> invalid_request_validation summary | Some v \<Rightarrow> v) in
      bindA (case prepared of None \<Rightarrow> ret artifacts
             | Some (sr, p) \<Rightarrow> write_skill_artifacts env task run corr sr p) (\<lambda>paths.
      thenA (append_run_diagnostic env task run kind summary v)
      (thenA (publish_skill_event env task run corr SKILL_INSTALL_FAILED
         [(''summary'', PStr summary), (''target_path'', PStr target), (''validation'', PDict v)])
      (ret \<lparr>so_status = ''failed'', so_summary = summary, so_target_path = target, so_validation = v,
            so_approval_required = False, so_approval_id = None, so_artifacts = paths\<rparr>))))"

definition skill_install_context :: "string \<Rightarrow> string \<Rightarrow> prepared_install \<Rightarrow> operation_context" where
  "skill_install_context task run p =
     \<lparr>oc_task_id = task, oc_run_id = run, oc_operation_type = ''skill.install'',
      oc_path_scope = Some (pi_target_path p), oc_command_class = None, oc_memory_scope = None,
      oc_namespace = None, oc_agent_role = None,
      oc_metadata = Some [(''target_scope'', PStr (pi_target_scope p)), (''target_role'', opt_str (pi_role_id p)),
        (''install_mode'', PStr (pi_install_mode p)), (''has_scripts'', PBool (pi_has_scripts p)),
        (''overwrite'', PBool (pi_overwrite p)), (''skill_id'', opt_str (pi_skill_id p)),
        (''source_path'', PStr (pi_source_path p))]\<rparr>"

definition execute_install :: "runtime_env \<Rightarrow> prepared_install \<Rightarrow> unit wact" where
  "execute_install env p = bindA (liftR (require_installer env)) (\<lambda>inst.
     (\<lambda>w. case in_execute inst p (w_files w) of (r, fs) \<Rightarrow> (r, w\<lparr>w_files := fs\<rparr>)))"

definition complete_skill_install ::
    "runtime_env \<Rightarrow> string \<Rightarrow> string \<Rightarrow> string option \<Rightarrow> prepared_install \<Rightarrow> unit wact" where
  "complete_skill_install env task run corr p =
     publish_skill_event env task run corr SKILL_INSTALL_COMPLETED
       [(''summary'', PStr (''Installed skill into '' @ pi_target_path p @ ''.'')),
        (''target_path'', PStr (pi_target_path p)), (''validation'', PDict (pi_validation p))]"

text \<open>The exceptions \<open>_prepare_skill_install\<close> may raise that are reported as a failed outcome.\<close>

fun reported_install_error :: "exn \<Rightarrow> bool" where
  "reported_install_error (RecoverableToolRejection r) = True"
| "reported_install_error (ValueError m) = True"
| "reported_install_error e = False"

definition install_skill_via_tool ::
    "runtime_env \<Rightarrow> string \<Rightarrow> string \<Rightarrow> string option \<Rightarrow> sandbox_roots \<Rightarrow> skill_install_args \<Rightarrow> skill_outcome wact" where
  "install_skill_via_tool env task run corr sr a = bindA (liftR (require_installer env)) (\<lambda>inst.
     bindA (tryA (prepare_skill_install env task run corr sr a)) (\<lambda>prepared. case prepared of
       Inl e \<Rightarrow>
         if reported_install_error e
         then failed_skill_outcome env task run corr (exn_str e) None [] [] None ''skill_install_validation_failed''
         else raise e
     | Inr p \<Rightarrow>
         if pi_status p = ''fail''
         then failed_skill_outcome env task run corr ''Skill installation validation failed.''
                (Some (pi_validation p)) (pi_target_path p) [] (Some (sr, p)) ''skill_install_validation_failed''
         else
           thenA (govern_operation env corr (skill_install_context task run p))
           (thenA (execute_install env p)
           (bindA (write_skill_artifacts env task run corr sr p) (\<lambda>artifacts.
            thenA (complete_skill_install env task run corr p) (ret (completed_outcome p artifacts)))))))"

definition create_skill_approval ::
    "runtime_env \<Rightarrow> string option \<Rightarrow> string \<Rightarrow> string \<Rightarrow> prepared_install \<Rightarrow> policy_decision
     \<Rightarrow> approval_request wact" where
  "create_skill_approval env corr task run p decision = bindA (utc_now env) (\<lambda>now. bindA (new_id env ''approval'') (\<lambda>i.
     let approval = \<lparr>ap_id = i, ap_task_id = task, ap_run_id = run, ap_type = ''skill_install'',
           ap_scope = [(''kind'', PStr ''skill.install''), (''boundary_key'', opt_str (pd_boundary_key decision)),
             (''source_path'', PStr (pi_source_path p)), (''target_scope'', PStr (pi_target_scope p)),
             (''target_role'', opt_str (pi_role_id p)), (''install_mode'', PStr (pi_install_mode p)),
             (''reason'', PStr (pi_reason p))],
           ap_description = pd_reason decision, ap_created_at = now,
           ap_status = ''pending'', ap_decision = None, ap_decided_at = None\<rparr> in
     thenA (with_durable () (\<lambda>d. case create_request approval (d_approvals d) of
         Inl e \<Rightarrow> (Inl e, d) | Inr t \<Rightarrow> (Inr (), d\<lparr>d_approvals := t\<rparr>)))
     (thenA (publish_skill_event env task run corr SKILL_INSTALL_APPROVAL_REQUESTED
         [(''approval'', PDict (approval_to_dict approval))])
     (thenA (publish env task run corr (event_value APPROVAL_REQUESTED) now
         (component_source SRC_POLICY ''policy-engine'') [(''approval'', PDict (approval_to_dict approval))])
     (thenA (write_run_metrics env task run (no_change\<lparr>mc_approvals := 1\<rparr>)) (ret approval))))))"

definition no_policy_decision :: policy_decision where
  "no_policy_decision = \<lparr>pd_decision = ALLOW, pd_reason = ''No durable policy engine configured.'',
     pd_boundary_key = None, pd_approval_scope = None\<rparr>"

definition install_skill_via_method ::
    "runtime_env \<Rightarrow> string \<Rightarrow> string \<Rightarrow> string option \<Rightarrow> sandbox_roots \<Rightarrow> skill_install_args \<Rightarrow> skill_outcome wact" where
  "install_skill_via_method env task run corr sr a = bindA (liftR (require_installer env)) (\<lambda>inst.
     bindA (tryA (prepare_skill_install env task run corr sr a)) (\<lambda>prepared. case prepared of
       Inl e \<Rightarrow>
         if reported_install_error e
         then failed_skill_outcome env task run corr (exn_str e) None [] [] None ''skill_install_validation_failed''
         else raise e
     | Inr p \<Rightarrow>
       bindA (write_skill_artifacts env task run corr sr p) (\<lambda>artifacts.
       if pi_status p = ''fail''
       then failed_skill_outcome env task run corr ''Skill installation validation failed.''
              (Some (pi_validation p)) (pi_target_path p) artifacts None ''skill_install_validation_failed''
       else bindA (getS w_durable) (\<lambda>durable.
       bindA (liftR (case durable of None \<Rightarrow> Inr no_policy_decision
                     | Some d \<Rightarrow> evaluate_policy env d (skill_install_context task run p))) (\<lambda>decision.
       if pd_decision decision = DENY
       then failed_skill_outcome env task run corr (pd_reason decision) (Some (pi_validation p))
              (pi_target_path p) artifacts None ''skill_install_denied''
       else if pd_decision decision = REQUIRE_APPROVAL
       then bindA (create_skill_approval env corr task run p decision) (\<lambda>approval.
         ret \<lparr>so_status = ''approval_required'', so_summary = ap_description approval,
              so_target_path = pi_target_path p, so_validation = pi_validation p, so_approval_required = True,
              so_approval_id = Some (ap_id approval), so_artifacts = artifacts\<rparr>)
       else thenA (execute_install env p)
            (thenA (complete_skill_install env task run corr p) (ret (completed_outcome p artifacts))))))))"

end
