(* ===== verification/Task_Execution.thy ===== *)
theory Task_Execution
  imports Task_Skills
begin

text \<open>
  \<open>TaskRunner\<close>, third part: cancellation, checkpoint controllers, compaction of a run, and the execution
  of a run (\<open>_execute_run\<close>) with the interpretation of the harness program.
\<close>

section \<open>Cancellation\<close>

definition cancellation_summary :: "string option \<Rightarrow> string" where
  "cancellation_summary reason = (case reason of
     Some r \<Rightarrow> if py_strip r \<noteq> [] then ''Run interrupted by cancel request: '' @ py_strip r
               else ''Run interrupted by cancel request.''
   | None \<Rightarrow> ''Run interrupted by cancel request.'')"

text \<open>\<open>record_checkpoint\<close> followed by the \<open>checkpoint.saved\<close> event.\<close>

definition record_and_announce ::
    "runtime_env \<Rightarrow> string \<Rightarrow> string \<Rightarrow> string option \<Rightarrow> nat \<Rightarrow> string \<Rightarrow> string wact" where
  "record_and_announce env task run corr ctl reason =
     bindA (controller_record env ctl (Some reason)) (\<lambda>m.
     thenA (handle_harness_event env task run corr (event_value CHECKPOINT_SAVED) (checkpoint_to_dict m))
           (ret (cm_id m)))"

definition interrupt_if_cancelled ::
    "runtime_env \<Rightarrow> string \<Rightarrow> string \<Rightarrow> string option \<Rightarrow> nat option \<Rightarrow> unit wact" where
  "interrupt_if_cancelled env task run reason ctl =
     bindA (cancellation_for task run) (\<lambda>c. bindA (cancel_requested c) (\<lambda>requested.
     if \<not> requested then ret () else
     bindA (case ctl of None \<Rightarrow> ret None
            | Some i \<Rightarrow> bindA (record_and_announce env task run None i (or_default reason ''cancel_requested''))
                (\<lambda>k. ret (Some k))) (\<lambda>checkpoint.
     bindA (cancel_reason c) (\<lambda>why. raise (CancellationRequestedInterrupt why checkpoint)))))"

definition or_else :: "string option \<Rightarrow> string option \<Rightarrow> string option" where
  "or_else a b = (case a of Some s \<Rightarrow> if s = [] then b else Some s | None \<Rightarrow> b)"

definition controller_thread :: "nat option \<Rightarrow> string option \<Rightarrow> string option wact" where
  "controller_thread ctl dflt = (case ctl of None \<Rightarrow> ret dflt
     | Some i \<Rightarrow> bindA (get_controller i) (\<lambda>c. ret (Some (cc_thread_id c))))"

definition cancelled_state ::
    "string \<Rightarrow> string \<Rightarrow> string \<Rightarrow> int \<Rightarrow> string option \<Rightarrow> string option \<Rightarrow> run_state \<Rightarrow> run_state" where
  "cancelled_state at summary pause_reason artifacts checkpoint thread s = s\<lparr>rs_status := CANCELLED,
     rs_updated_at := at, rs_current_phase := Some ''cancelled'', rs_latest_summary := Some summary,
     rs_artifact_count := artifacts, rs_last_event_at := Some at, rs_failure := None,
     rs_awaiting_approval := False, rs_pending_approval_id := None, rs_is_resumable := True,
     rs_pause_reason := Some pause_reason, rs_active_subagent := None, rs_checkpoint_id := checkpoint,
     rs_thread_id := thread\<rparr>"

text \<open>The checkpoint a cancellation records when it has a controller and no checkpoint yet.\<close>

definition cancel_checkpoint ::
    "runtime_env \<Rightarrow> string \<Rightarrow> string \<Rightarrow> string option \<Rightarrow> string \<Rightarrow> nat option \<Rightarrow> string option \<Rightarrow> run_state
     \<Rightarrow> (string option \<times> run_state) wact" where
  "cancel_checkpoint env task run corr pause_reason ctl checkpoint_id state0 = (case (ctl, checkpoint_id) of
       (Some i, None) \<Rightarrow> bindA (record_and_announce env task run corr i pause_reason) (\<lambda>k.
          bindA (get_run task (Some run)) (\<lambda>s. ret (Some k, s)))
     | _ \<Rightarrow> ret (checkpoint_id, state0))"

definition mark_cancelled ::
    "runtime_env \<Rightarrow> string \<Rightarrow> string \<Rightarrow> string \<Rightarrow> string \<Rightarrow> string option \<Rightarrow> nat option \<Rightarrow> int option \<Rightarrow> nat
     \<Rightarrow> string option \<Rightarrow> run_state \<Rightarrow> unit wact" where
  "mark_cancelled env task run summary pause_reason corr ctl artifact_count c checkpoint state =
     bindA (utc_now env) (\<lambda>at.
     let artifacts = (case artifact_count of Some n \<Rightarrow> n | None \<Rightarrow> rs_artifact_count state);
         latest = or_else checkpoint (rs_checkpoint_id state) in
     bindA (controller_thread ctl (rs_thread_id state)) (\<lambda>thread.
     thenA (update_run task run (cancelled_state at summary pause_reason artifacts latest thread))
     (bindA (cancel_reason c) (\<lambda>why.
      thenA (publish env task run corr (event_value TASK_CANCELLED) at runner_source
        [(''status'', PStr (status_value CANCELLED)), (''cancelled_at'', PStr at), (''summary'', PStr summary),
         (''reason'', opt_str why), (''pause_reason'', PStr pause_reason), (''checkpoint_id'', opt_str latest)])
      (write_run_metrics env task run (no_change\<lparr>mc_artifact_count := Some artifacts\<rparr>))))))"

definition transition_to_cancelled ::
    "runtime_env \<Rightarrow> string \<Rightarrow> string \<Rightarrow> string \<Rightarrow> string \<Rightarrow> string option \<Rightarrow> nat option \<Rightarrow> int option
     \<Rightarrow> string option \<Rightarrow> unit wact" where
  "transition_to_cancelled env task run summary pause_reason corr ctl artifact_count checkpoint_id =
     bindA (get_run task (Some run)) (\<lambda>state0.
     if rs_status state0 = CANCELLED then ret () else
     bindA (cancellation_for task run) (\<lambda>c.
     bindA (cancel_checkpoint env task run corr pause_reason ctl checkpoint_id state0) (\<lambda>(checkpoint, state).
       mark_cancelled env task run summary pause_reason corr ctl artifact_count c checkpoint state)))"

section \<open>Checkpoint controllers of a run\<close>

text \<open>The runner has a checkpoint adapter exactly when it has durable services.\<close>

definition controller_for_run :: "runtime_env \<Rightarrow> string \<Rightarrow> string \<Rightarrow> bool \<Rightarrow> nat option wact" where
  "controller_for_run env task run resume = bindA has_durable (\<lambda>adapter.
     if \<not> adapter then ret None
     else if resume then bindA (adapter_resume task run) (\<lambda>i. ret (Some i))
     else bindA (get_run task (Some run)) (\<lambda>s. case rs_thread_id s of
         Some th \<Rightarrow> bindA (adapter_attach task run th) (\<lambda>i. ret (Some i))
       | None \<Rightarrow> bindA (adapter_begin_run env task run) (\<lambda>i. ret (Some i))))"

definition controller_for_cancellation :: "runtime_env \<Rightarrow> string \<Rightarrow> string \<Rightarrow> nat option wact" where
  "controller_for_cancellation env task run = bindA (get_run task (Some run)) (\<lambda>s.
     bindA has_durable (\<lambda>adapter. if \<not> adapter then ret None
     else (case (rs_checkpoint_id s, rs_thread_id s) of
         (Some _, Some th) \<Rightarrow> bindA (adapter_attach task run th) (\<lambda>i. ret (Some i))
       | _ \<Rightarrow> controller_for_run env task run False)))"

definition new_checkpoint_thread :: "runtime_env \<Rightarrow> string \<Rightarrow> string \<Rightarrow> string option wact" where
  "new_checkpoint_thread env task run = bindA has_durable (\<lambda>adapter.
     if \<not> adapter then ret None
     else bindA (adapter_begin_run env task run) (\<lambda>i. bindA (get_controller i) (\<lambda>c. ret (Some (cc_thread_id c)))))"

section \<open>Compaction of a run\<close>

definition allows_explicit_compaction :: "runtime_env \<Rightarrow> run_state \<Rightarrow> bool" where
  "allows_explicit_compaction env s =
     (if \<not> rt_compaction_enabled env \<or> \<not> rt_explicit_client env \<or> rt_summarizer env = None then False
      else if rs_status s = ACCEPTED then True
      else if rs_status s \<in> {PAUSED, AWAITING_APPROVAL} then True
      else rs_is_resumable s)"

definition compact_service ::
    "runtime_env \<Rightarrow> string \<Rightarrow> string \<Rightarrow> compaction_trigger \<Rightarrow> compaction_record option wact" where
  "compact_service env task run trigger = (case rt_summarizer env of
     None \<Rightarrow> ret None
   | Some sz \<Rightarrow> bindA (new_id env ''evt'') (\<lambda>i. bindA (utc_now env) (\<lambda>now.
       with_durable None (\<lambda>d. case compact_run sz i now (d_messages d) task run trigger (d_compactions d) of
         (r, t) \<Rightarrow> (Inr r, d\<lparr>d_compactions := t\<rparr>)))))"

definition persist_compaction ::
    "runtime_env \<Rightarrow> string \<Rightarrow> string \<Rightarrow> compaction_trigger \<Rightarrow> compaction_record option wact" where
  "persist_compaction env task run trigger =
     bindA (compact_service env task run trigger) (\<lambda>record. case record of
       None \<Rightarrow> ret None
     | Some c \<Rightarrow> bindA (utc_now env) (\<lambda>now.
         thenA (update_run task run (\<lambda>s. s\<lparr>rs_updated_at := now, rs_last_event_at := Some now,
            rs_latest_summary := Some ''Conversation context compacted.'', rs_is_compacted := True,
            rs_compaction_id := Some (cp_id c), rs_compaction_trigger := Some (cp_trigger c)\<rparr>))
           (ret (Some c))))"

section \<open>\<open>task.cancel\<close>\<close>

definition cancel_check :: "run_state \<Rightarrow> unit result" where
  "cancel_check s =
     (if rs_status s = COMPLETED then Inl (ValueError ''task.cancel cannot cancel a completed run'')
      else if rs_status s = FAILED then Inl (ValueError ''task.cancel cannot cancel a failed run'')
      else if rs_status s = CANCELLED
        then Inl (ValueError ''task.cancel cannot cancel an already cancelled run'')
      else Inr ())"

definition cancel_run ::
    "runtime_env \<Rightarrow> string \<Rightarrow> string option \<Rightarrow> string option \<Rightarrow> (string \<times> string \<times> string) wact" where
  "cancel_run env task run reason = bindA (get_run task run) (\<lambda>state.
     thenA (liftR (cancel_check state))
     (bindA (cancellation_for (rs_task_id state) (rs_run_id state)) (\<lambda>c.
      thenA (request_cancellation c reason)
      (if rs_status state \<in> {PAUSED, AWAITING_APPROVAL, ACCEPTED} then
         bindA (controller_for_cancellation env (rs_task_id state) (rs_run_id state)) (\<lambda>ctl.
         thenA (transition_to_cancelled env (rs_task_id state) (rs_run_id state) (cancellation_summary reason)
                  ''cancel_requested'' None ctl None None)
               (ret (rs_task_id state, rs_run_id state, status_value CANCELLED)))
       else ret (rs_task_id state, rs_run_id state, ''cancel_requested'')))))"

section \<open>Running the harness program\<close>

record execution_context =
  ec_task_id :: string
  ec_run_id :: string
  ec_correlation_id :: "string option"
  ec_cancellation :: nat
  ec_controller :: "nat option"
  ec_sandbox :: sandbox_roots

text \<open>The closure \<open>_on_harness_event\<close>: it also remembers the compaction triggers it sees.\<close>

definition seen_trigger :: "string \<Rightarrow> pydict \<Rightarrow> compaction_trigger list" where
  "seen_trigger ty payload = (if ty \<noteq> event_value CONVERSATION_COMPACTED then []
     else (case dict_get payload ''trigger'' of
         PStr name \<Rightarrow> (case trigger_of name of Some t \<Rightarrow> [t] | None \<Rightarrow> []) | _ \<Rightarrow> []))"

definition on_harness_event :: "runtime_env \<Rightarrow> execution_context \<Rightarrow> string \<Rightarrow> pydict \<Rightarrow> unit wact" where
  "on_harness_event env x ty payload =
     handle_harness_event env (ec_task_id x) (ec_run_id x) (ec_correlation_id x) ty payload"

definition probe_cancellation :: "execution_context \<Rightarrow> string option wact" where
  "probe_cancellation x = bindA (cancel_requested (ec_cancellation x)) (\<lambda>requested.
     if requested then cancel_reason (ec_cancellation x) else ret None)"

primrec run_prog ::
    "runtime_env \<Rightarrow> execution_context \<Rightarrow> 'a prog \<Rightarrow> compaction_trigger list
     \<Rightarrow> ('a result \<times> compaction_trigger list) wact" where
  "run_prog env x (Done r) ts = ret (r, ts)"
| "run_prog env x (Emit ty p k) ts =
     bindA (tryA (on_harness_event env x ty p)) (\<lambda>r. run_prog env x (k r) (ts @ seen_trigger ty p))"
| "run_prog env x (Govern c k) ts =
     bindA (tryA (govern_operation env (ec_correlation_id x) c)) (\<lambda>r. run_prog env x (k r) ts)"
| "run_prog env x (SaveCheckpoint s k) ts =
     bindA (tryA (case ec_controller x of None \<Rightarrow> ret None
        | Some i \<Rightarrow> bindA (controller_record env i s) (\<lambda>m. ret (Some m)))) (\<lambda>r. run_prog env x (k r) ts)"
| "run_prog env x (Probe k) ts = bindA (probe_cancellation x) (\<lambda>v. run_prog env x (k v) ts)"
| "run_prog env x (InterruptCheck s k) ts =
     bindA (tryA (interrupt_if_cancelled env (ec_task_id x) (ec_run_id x) s (ec_controller x)))
       (\<lambda>r. run_prog env x (k r) ts)"
| "run_prog env x (InstallSkill a k) ts =
     bindA (tryA (bindA (install_skill_via_tool env (ec_task_id x) (ec_run_id x) (ec_correlation_id x)
        (ec_sandbox x) a) (\<lambda>out. ret (skill_outcome_to_dict out)))) (\<lambda>r. run_prog env x (k r) ts)"
| "run_prog env x (ReadText p k) ts =
     bindA (tryA (sandbox_read env (ec_sandbox x) p)) (\<lambda>r. run_prog env x (k r) ts)"
| "run_prog env x (WriteText p c k) ts =
     bindA (tryA (sandbox_write env (ec_sandbox x) p c)) (\<lambda>r. run_prog env x (k r) ts)"
| "run_prog env x (ExecCommand c d k) ts =
     bindA (tryA (sandbox_exec env (ec_sandbox x) c d)) (\<lambda>r. run_prog env x (k r) ts)"
| "run_prog env x (WriteMemory m k) ts =
     bindA (tryA (with_durable () (\<lambda>d. case write_memory m (d_memory d) of
        Inl e \<Rightarrow> (Inl e, d) | Inr t \<Rightarrow> (Inr (), d\<lparr>d_memory := t\<rparr>)))) (\<lambda>r. run_prog env x (k r) ts)"
| "run_prog env x (ListMemory s n k) ts =
     bindA (tryA (read_durable [] (\<lambda>d. list_memory (d_memory d) s n))) (\<lambda>r. run_prog env x (k r) ts)"
| "run_prog env x (ListArtifacts k) ts =
     bindA (getS (\<lambda>w. list_artifacts (w_artifacts w) (ec_task_id x) (Some (ec_run_id x)) None None))
       (\<lambda>r. run_prog env x (k r) ts)"
| "run_prog env x (ListFiles p k) ts =
     bindA (tryA (sandbox_list_files env (ec_sandbox x) p)) (\<lambda>r. run_prog env x (k r) ts)"
| "run_prog env x (PathExists p k) ts =
     bindA (tryA (sandbox_exists env (ec_sandbox x) p)) (\<lambda>r. run_prog env x (k r) ts)"
| "run_prog env x (Clock k) ts = bindA (utc_now env) (\<lambda>r. run_prog env x (k r) ts)"
| "run_prog env x (NewMemoryId k) ts = bindA (new_id env ''mem'') (\<lambda>r. run_prog env x (k r) ts)"
| "run_prog env x (ClientCancel s k) ts =
     bindA (tryA (bindA (cancel_run env (ec_task_id x) (Some (ec_run_id x)) s) (\<lambda>_. ret ())))
       (\<lambda>r. run_prog env x (k r) ts)"

section \<open>\<open>_execute_run\<close>\<close>

definition execution_started ::
    "string \<Rightarrow> bool \<Rightarrow> string option \<Rightarrow> string option \<Rightarrow> run_state \<Rightarrow> run_state" where
  "execution_started at resume thread latest s = s\<lparr>rs_status := EXECUTING, rs_updated_at := at,
     rs_current_phase := Some ''executing'',
     rs_latest_summary := Some (if \<not> resume then ''Agent harness execution started.''
        else ''Runtime resumed execution from the latest checkpoint metadata.''),
     rs_last_event_at := Some at, rs_awaiting_approval := False, rs_is_resumable := False,
     rs_pause_reason := None, rs_thread_id := thread, rs_checkpoint_id := latest,
     rs_active_subagent := None, rs_remote_auths := []\<rparr>"

text \<open>The \<open>except\<close> clauses around the harness; \<open>why\<close> is the reason of the run's cancellation.\<close>

fun runner_except :: "string option \<Rightarrow> exn \<Rightarrow> execution_result" where
  "runner_except why (ApprovalRequiredInterrupt a s) = (mk_result False s [])
     \<lparr>xr_paused := True, xr_pause_reason := Some ''awaiting approval'', xr_awaiting_approval := True,
      xr_pending_approval_id := Some a\<rparr>"
| "runner_except why (ClarificationRequiredInterrupt q c) = (mk_result False q [])
     \<lparr>xr_paused := True, xr_pause_reason := Some ''awaiting_user_input'', xr_requested_user_input := Some q\<rparr>"
| "runner_except why (CancellationRequestedInterrupt r c) =
     (mk_result False (cancellation_summary (or_else r why)) [])
     \<lparr>xr_paused := True, xr_pause_reason := Some ''cancel_requested'', xr_cancelled := True,
      xr_checkpoint_id := c\<rparr>"
| "runner_except why (PolicyDeniedInterrupt r) = (mk_result False r [])
     \<lparr>xr_error_message := Some r, xr_failure_code := Some ''policy_denied''\<rparr>"
| "runner_except why (RejectionThresholdExceeded n k f) = (mk_result False (threshold_summary f) [])
     \<lparr>xr_error_message := Some (threshold_summary f),
      xr_failure_code := Some ''recoverable_rejection_threshold_exceeded''\<rparr>"
| "runner_except why e = (mk_result False ''Agent harness raised an unexpected error.'' [])
     \<lparr>xr_error_message := Some (exn_str e)\<rparr>"

text \<open>The exceptions of the last clause, \<open>except Exception\<close>, which also leave a diagnostic.\<close>

fun unexpected_error :: "exn \<Rightarrow> bool" where
  "unexpected_error (ApprovalRequiredInterrupt a s) = False"
| "unexpected_error (ClarificationRequiredInterrupt q c) = False"
| "unexpected_error (CancellationRequestedInterrupt r c) = False"
| "unexpected_error (PolicyDeniedInterrupt r) = False"
| "unexpected_error (RejectionThresholdExceeded n k f) = False"
| "unexpected_error e = True"

definition execution_request_of ::
    "run_state \<Rightarrow> string \<Rightarrow> string \<Rightarrow> string \<Rightarrow> chat_message list \<Rightarrow> checkpoint_controller option
     \<Rightarrow> execution_request" where
  "execution_request_of s task run identity messages ctl =
     \<lparr>xq_task_id = task, xq_run_id = run, xq_objective = rs_objective s,
      xq_workspace_roots = rs_workspace_roots s, xq_identity = identity,
      xq_allowed_capabilities = rs_allowed_capabilities s, xq_metadata = rs_metadata s,
      xq_runtime_user_id = rs_runtime_user_id s, xq_messages = messages, xq_constraints = rs_constraints s,
      xq_success_criteria = rs_success_criteria s, xq_has_controller = (ctl \<noteq> None),
      xq_resume_from = (case ctl of None \<Rightarrow> None | Some c \<Rightarrow> cc_latest_id c)\<rparr>"

text \<open>The \<open>try\<close> statement: the result, the triggers seen, and a diagnostic for an unexpected error.\<close>

definition run_harness ::
    "runtime_env \<Rightarrow> execution_context \<Rightarrow> run_state \<Rightarrow> string \<Rightarrow> bool
     \<Rightarrow> (execution_result \<times> compaction_trigger list) wact" where
  "run_harness env x state identity resume =
     bindA (tryA (bindA (load_conversation_messages env (ec_task_id x) (ec_run_id x)) (\<lambda>messages.
        bindA (case ec_controller x of None \<Rightarrow> ret None
               | Some i \<Rightarrow> bindA (get_controller i) (\<lambda>c. ret (Some c))) (\<lambda>ctl.
        run_prog env x (rt_harness env (execution_request_of state (ec_task_id x) (ec_run_id x) identity
           messages ctl)) [])))) (\<lambda>outcome.
     let (r, ts) = (case outcome of Inl e \<Rightarrow> (Inl e, []) | Inr (r, ts) \<Rightarrow> (r, ts)) in
     (case r of
        Inr res \<Rightarrow> ret (res, ts)
      | Inl e \<Rightarrow> bindA (cancel_reason (ec_cancellation x)) (\<lambda>why.
          thenA (whenA (unexpected_error e) (append_run_diagnostic env (ec_task_id x) (ec_run_id x)
                  ''agent_harness_error'' (exn_str e)
                  [(''phase'', PStr ''execute''), (''resume'', PBool resume)]))
                (ret (runner_except why e, ts)))))"

definition register_outputs ::
    "runtime_env \<Rightarrow> execution_context \<Rightarrow> string list \<Rightarrow> int \<Rightarrow> int wact" where
  "register_outputs env x paths count = foldA (\<lambda>path n.
     bindA (register_in_store env (ec_task_id x) (ec_run_id x) path None) (\<lambda>a.
     thenA (publish_artifact env (ec_task_id x) (ec_run_id x) (ec_correlation_id x) a (n + 1))
           (ret (n + 1)))) paths count"

text \<open>The ways an execution ends, after the outputs are registered.\<close>

definition awaiting_state :: "string \<Rightarrow> execution_result \<Rightarrow> int \<Rightarrow> run_state \<Rightarrow> run_state" where
  "awaiting_state at r n s = s\<lparr>rs_status := AWAITING_APPROVAL, rs_updated_at := at,
     rs_current_phase := Some ''awaiting_approval'', rs_latest_summary := Some (xr_summary r),
     rs_artifact_count := n, rs_last_event_at := Some at, rs_awaiting_approval := True,
     rs_pending_approval_id := xr_pending_approval_id r, rs_is_resumable := True,
     rs_pause_reason := Some (or_default (xr_pause_reason r) ''awaiting approval''),
     rs_active_subagent := None, rs_remote_auths := xr_remote_auths r\<rparr>"

definition paused_state :: "string \<Rightarrow> execution_result \<Rightarrow> int \<Rightarrow> run_state \<Rightarrow> run_state" where
  "paused_state at r n s = s\<lparr>rs_status := PAUSED, rs_updated_at := at,
     rs_current_phase := Some ''paused'', rs_latest_summary := Some (xr_summary r),
     rs_artifact_count := n, rs_last_event_at := Some at, rs_awaiting_approval := False,
     rs_pending_approval_id := None, rs_is_resumable := True,
     rs_pause_reason := Some (or_default (xr_pause_reason r) ''execution paused''),
     rs_active_subagent := None, rs_remote_auths := xr_remote_auths r\<rparr>"

definition completed_state :: "string \<Rightarrow> execution_result \<Rightarrow> int \<Rightarrow> run_state \<Rightarrow> run_state" where
  "completed_state at r n s = s\<lparr>rs_status := COMPLETED, rs_updated_at := at,
     rs_current_phase := Some ''completed'', rs_latest_summary := Some (xr_summary r),
     rs_artifact_count := n, rs_last_event_at := Some at, rs_is_resumable := False,
     rs_pause_reason := None, rs_active_subagent := None, rs_remote_auths := []\<rparr>"

definition failure_message :: "execution_result \<Rightarrow> string" where
  "failure_message r = or_default (xr_error_message r) (xr_summary r)"

definition failed_state :: "string \<Rightarrow> execution_result \<Rightarrow> int \<Rightarrow> run_state \<Rightarrow> run_state" where
  "failed_state at r n s = s\<lparr>rs_status := FAILED, rs_updated_at := at,
     rs_current_phase := Some ''failed'', rs_latest_summary := Some (xr_summary r),
     rs_artifact_count := n, rs_last_event_at := Some at,
     rs_failure := Some \<lparr>fi_message = failure_message r, fi_code = xr_failure_code r\<rparr>,
     rs_awaiting_approval := False, rs_pending_approval_id := None, rs_is_resumable := False,
     rs_pause_reason := None, rs_active_subagent := None\<rparr>"

definition finish_paused :: "runtime_env \<Rightarrow> execution_context \<Rightarrow> execution_result \<Rightarrow> int \<Rightarrow> unit wact" where
  "finish_paused env x r n = bindA (utc_now env) (\<lambda>at.
     thenA (if xr_awaiting_approval r then update_run (ec_task_id x) (ec_run_id x) (awaiting_state at r n)
            else thenA (update_run (ec_task_id x) (ec_run_id x) (paused_state at r n))
              (publish env (ec_task_id x) (ec_run_id x) (ec_correlation_id x) (event_value TASK_PAUSED) at
                 runner_source [(''status'', PStr (status_value PAUSED)),
                   (''reason'', PStr (or_default (xr_pause_reason r) ''execution paused'')),
                   (''summary'', PStr (xr_summary r)), (''question'', opt_str (xr_requested_user_input r))]))
       (write_run_metrics env (ec_task_id x) (ec_run_id x) (no_change\<lparr>mc_artifact_count := Some n\<rparr>)))"

definition finish_completed :: "runtime_env \<Rightarrow> execution_context \<Rightarrow> execution_result \<Rightarrow> int \<Rightarrow> unit wact" where
  "finish_completed env x r n = bindA (utc_now env) (\<lambda>at.
     thenA (update_run (ec_task_id x) (ec_run_id x) (completed_state at r n))
     (thenA (publish env (ec_task_id x) (ec_run_id x) (ec_correlation_id x) (event_value TASK_COMPLETED) at
        runner_source [(''status'', PStr (status_value COMPLETED)), (''completed_at'', PStr at),
          (''summary'', PStr (xr_summary r)), (''outcome'', PStr ''success''), (''artifact_count'', PInt n)])
       (write_run_metrics env (ec_task_id x) (ec_run_id x)
          (no_change\<lparr>mc_ended_at := Some at, mc_artifact_count := Some n\<rparr>))))"

definition finish_failed :: "runtime_env \<Rightarrow> execution_context \<Rightarrow> string \<Rightarrow> execution_result \<Rightarrow> int \<Rightarrow> bool \<Rightarrow> unit wact" where
  "finish_failed env x at r n resume =
     thenA (if xr_failure_code r = Some ''scope_denied'' then
         thenA (append_run_diagnostic env (ec_task_id x) (ec_run_id x) ''filesystem_scope_denied'' (failure_message r)
              [(''summary'', PStr (xr_summary r)), (''resume'', PBool resume)])
           (publish env (ec_task_id x) (ec_run_id x) (ec_correlation_id x) (event_value POLICY_DENIED) at
              (component_source SRC_POLICY ''filesystem-scope'')
              [(''status'', PStr (status_value FAILED)), (''reason'', PStr (failure_message r)),
               (''context'', PDict [(''kind'', PStr ''filesystem_scope'')])])
       else if xr_failure_code r \<noteq> Some ''policy_denied'' then
         append_run_diagnostic env (ec_task_id x) (ec_run_id x) ''task_failure'' (failure_message r)
           [(''summary'', PStr (xr_summary r)), (''resume'', PBool resume)]
       else ret ())
     (thenA (update_run (ec_task_id x) (ec_run_id x) (failed_state at r n))
     (thenA (publish env (ec_task_id x) (ec_run_id x) (ec_correlation_id x) (event_value TASK_FAILED) at
        runner_source [(''status'', PStr (status_value FAILED)), (''failed_at'', PStr at),
          (''summary'', PStr (xr_summary r)), (''error'', PStr (failure_message r))])
       (write_run_metrics env (ec_task_id x) (ec_run_id x)
          (no_change\<lparr>mc_ended_at := Some at, mc_artifact_count := Some n\<rparr>))))"

definition finish_run ::
    "runtime_env \<Rightarrow> execution_context \<Rightarrow> execution_result \<Rightarrow> int \<Rightarrow> bool \<Rightarrow> unit wact" where
  "finish_run env x r n resume =
     (let cancel = (\<lambda>summary pause checkpoint. transition_to_cancelled env (ec_task_id x) (ec_run_id x) summary
            pause (ec_correlation_id x) (ec_controller x) (Some n) checkpoint);
          requested = cancel_requested (ec_cancellation x);
          why = cancel_reason (ec_cancellation x) in
      bindA requested (\<lambda>c1. bindA why (\<lambda>reason.
      if xr_cancelled r \<or> c1 then
        cancel (if xr_summary r = [] then cancellation_summary reason else xr_summary r)
          (or_default (xr_pause_reason r) ''cancel_requested'') (xr_checkpoint_id r)
      else if xr_paused r then finish_paused env x r n
      else if xr_success r then
        bindA requested (\<lambda>c2. if c2 then cancel (cancellation_summary reason) ''cancel_requested'' None
          else finish_completed env x r n)
      else bindA (utc_now env) (\<lambda>at. bindA requested (\<lambda>c2.
        if c2 then cancel (cancellation_summary reason) ''cancel_requested'' None
        else finish_failed env x at r n resume)))))"

definition controller_latest :: "nat option \<Rightarrow> string option \<Rightarrow> string option wact" where
  "controller_latest ctl dflt = (case ctl of None \<Rightarrow> ret dflt
     | Some i \<Rightarrow> bindA (get_controller i) (\<lambda>c. ret (cc_latest_id c)))"

definition begin_execution ::
    "runtime_env \<Rightarrow> string \<Rightarrow> string \<Rightarrow> string option \<Rightarrow> bool \<Rightarrow> nat option \<Rightarrow> run_state \<Rightarrow> unit wact" where
  "begin_execution env task run corr resume ctl state = bindA (utc_now env) (\<lambda>at.
     bindA (controller_thread ctl (rs_thread_id state)) (\<lambda>thread.
     bindA (controller_latest ctl (rs_checkpoint_id state)) (\<lambda>latest.
     thenA (update_run task run (execution_started at resume thread latest))
     (thenA (publish env task run corr (event_value (if resume then TASK_RESUMED else TASK_STARTED)) at
        runner_source
        [(''status'', PStr (status_value EXECUTING)), (''started_at'', PStr at),
         (''thread_id'', (if ctl = None then PNone else opt_str thread)),
         (''latest_checkpoint_id'', opt_str latest),
         (''summary'', PStr (if resume then ''Execution resumed from the latest checkpoint.''
                             else ''Agent harness execution started.''))])
     (whenA resume (write_run_metrics env task run (no_change\<lparr>mc_resumes := 1\<rparr>)))))))"

definition execute_run ::
    "runtime_env \<Rightarrow> string \<Rightarrow> string \<Rightarrow> string option \<Rightarrow> string \<Rightarrow> bool \<Rightarrow> unit wact" where
  "execute_run env task run corr identity resume =
     bindA (get_run task (Some run)) (\<lambda>state.
     bindA (cancellation_for task run) (\<lambda>c.
     bindA (controller_for_run env task run resume) (\<lambda>ctl.
     bindA (cancel_requested c) (\<lambda>requested. bindA (cancel_reason c) (\<lambda>why.
     if requested then transition_to_cancelled env task run (cancellation_summary why) ''cancel_requested''
        corr ctl None None
     else thenA (begin_execution env task run corr resume ctl state)
       (bindA (sandbox_for_run env task run (rs_workspace_roots state)) (\<lambda>sr.
        let x = \<lparr>ec_task_id = task, ec_run_id = run, ec_correlation_id = corr, ec_cancellation = c,
                 ec_controller = ctl, ec_sandbox = sr\<rparr> in
        bindA (run_harness env x state identity resume) (\<lambda>(r, triggers).
        let response = or_else (xr_requested_user_input r) (xr_assistant_response r) in
        thenA (whenA (or_default response [] \<noteq> [])
          (append_run_message env task run ''assistant'' (or_default response []) None))
        (thenA (case rev triggers of [] \<Rightarrow> ret ()
            | trigger # _ \<Rightarrow> bindA (persist_compaction env task run trigger) (\<lambda>_. ret ()))
        (bindA (register_outputs env x (xr_output_artifacts r) (rs_artifact_count state)) (\<lambda>n.
          finish_run env x r n resume)))))))))))"

end
