(* ===== verification/Task_Runner.thy ===== *)
theory Task_Runner
  imports Task_Execution
begin

text \<open>
  \<open>TaskRunner\<close>, last part: the operations of the task methods (\<open>start_run\<close>, \<open>resume_run\<close>,
  \<open>reply_to_run\<close>, \<open>approve\<close>, \<open>skill_install\<close>, \<open>compact_run\<close>, the snapshot and the artifact queries), and the
  step relation of a runtime that serves them. A background run is a worker that a later step executes.
\<close>

section \<open>Launching a run\<close>

definition launch_run ::
    "runtime_env \<Rightarrow> string \<Rightarrow> string \<Rightarrow> string option \<Rightarrow> string \<Rightarrow> bool \<Rightarrow> bool \<Rightarrow> unit wact" where
  "launch_run env task run corr identity resume background =
     (if \<not> background then execute_run env task run corr identity resume
      else modS (\<lambda>w. w\<lparr>w_workers := w_workers w @ [\<lparr>wk_key = (task, run), wk_correlation_id = corr,
         wk_identity = identity, wk_resume = resume\<rparr>]\<rparr>))"

text \<open>\<open>_execute_run_in_thread\<close>: the thread ends, also on an exception.\<close>

definition run_worker :: "runtime_env \<Rightarrow> nat \<Rightarrow> unit wact" where
  "run_worker env i = bindA (getS w_workers) (\<lambda>ws.
     if length ws \<le> i then ret () else
     (let k = ws ! i in
      bindA (tryA (execute_run env (fst (wk_key k)) (snd (wk_key k)) (wk_correlation_id k) (wk_identity k)
                (wk_resume k))) (\<lambda>_.
        modS (\<lambda>w. w\<lparr>w_workers := take i (w_workers w) @ drop (Suc i) (w_workers w)\<rparr>))))"

definition str_list :: "string list \<Rightarrow> pyval" where
  "str_list xs = PList (map PStr xs)"

definition run_links :: "(string \<times> string) list" where
  "run_links = [(''artifacts'', ''task.artifacts.list''), (''approve'', ''task.approve''),
     (''reply'', ''task.reply''), (''resume'', ''task.resume''), (''events'', ''task.logs.stream'')]"

record start_params =
  sp_objective :: string
  sp_workspace_roots :: "string list"
  sp_identity :: string
  sp_runtime_user_id :: "string option"
  sp_allowed_capabilities :: "string list"
  sp_metadata :: pydict
  sp_constraints :: "string list"
  sp_success_criteria :: "string list"
  sp_background :: bool

definition accepted_state ::
    "start_params \<Rightarrow> string list \<Rightarrow> string \<Rightarrow> string \<Rightarrow> string \<Rightarrow> string option \<Rightarrow> run_state" where
  "accepted_state p roots task run at thread =
     \<lparr>rs_task_id = task, rs_run_id = run, rs_status = ACCEPTED, rs_objective = sp_objective p,
      rs_created_at = at, rs_updated_at = at, rs_accepted_at = at, rs_workspace_roots = roots,
      rs_allowed_capabilities = sp_allowed_capabilities p, rs_metadata = sp_metadata p,
      rs_runtime_user_id = sp_runtime_user_id p, rs_constraints = sp_constraints p,
      rs_success_criteria = sp_success_criteria p, rs_current_phase = Some ''accepted'',
      rs_latest_summary = Some ''Task accepted by runtime.'', rs_active_subagent = None,
      rs_artifact_count = 0, rs_rejection_count = 0, rs_last_event_at = None, rs_failure = None,
      rs_last_rejection = None, rs_remote_auths = [], rs_awaiting_approval = False,
      rs_pending_approval_id = None, rs_is_resumable = False, rs_pause_reason = None, rs_todos = [],
      rs_thread_id = thread, rs_checkpoint_id = None, rs_is_compacted = False, rs_compaction_id = None,
      rs_compaction_trigger = None, rs_links = run_links\<rparr>"

definition created_payload :: "start_params \<Rightarrow> string list \<Rightarrow> pydict" where
  "created_payload p roots =
     [(''status'', PStr (status_value CREATED)), (''objective'', PStr (sp_objective p)),
      (''workspace_roots'', str_list roots), (''allowed_capabilities'', str_list (sp_allowed_capabilities p)),
      (''metadata'', PDict (sp_metadata p)), (''constraints'', str_list (sp_constraints p)),
      (''success_criteria'', str_list (sp_success_criteria p))]"

text \<open>The new run: its ids, its checkpoint thread, a fresh cancellation and the accepted state.\<close>

definition allocate_run :: "runtime_env \<Rightarrow> start_params \<Rightarrow> string list \<Rightarrow> (string \<times> string \<times> string) wact" where
  "allocate_run env p roots =
     bindA (new_id env ''task'') (\<lambda>task. bindA (new_id env ''run'') (\<lambda>run. bindA (utc_now env) (\<lambda>at.
     bindA (new_checkpoint_thread env task run) (\<lambda>thread.
     thenA (clear_cancellation task run)
     (thenA (create_run (accepted_state p roots task run at thread)) (ret (task, run, at)))))))"

definition start_run ::
    "runtime_env \<Rightarrow> string option \<Rightarrow> start_params \<Rightarrow> (string \<times> string \<times> string) wact" where
  "start_run env corr p = bindA (liftR (factory_normalize_roots (sp_workspace_roots p))) (\<lambda>roots.
     bindA (allocate_run env p roots) (\<lambda>(task, run, at).
     thenA (write_run_metrics env task run (no_change\<lparr>mc_started_at := Some at\<rparr>))
     (thenA (seed_run_message_history env task run (sp_objective p) (sp_constraints p) (sp_success_criteria p))
     (thenA (publish env task run corr (event_value TASK_CREATED) at runner_source (created_payload p roots))
     (thenA (launch_run env task run corr (sp_identity p) False (sp_background p))
            (ret (task, run, at)))))))"

section \<open>Snapshots\<close>

record task_snapshot =
  tn_task_id :: string
  tn_run_id :: string
  tn_status :: task_status
  tn_objective :: string
  tn_created_at :: string
  tn_updated_at :: string
  tn_scope :: "string list option"
  tn_success_criteria :: "string list option"
  tn_constraints :: "string list option"
  tn_workspace_roots :: "string list option"
  tn_current_phase :: "string option"
  tn_latest_summary :: "string option"
  tn_todos :: "todo_item list option"
  tn_awaiting_approval :: "bool option"
  tn_pending_approval_id :: "string option"
  tn_is_resumable :: "bool option"
  tn_pause_reason :: "string option"
  tn_thread_id :: "string option"
  tn_checkpoint_id :: "string option"
  tn_is_compacted :: "bool option"
  tn_compaction_id :: "string option"
  tn_compaction_trigger :: "string option"
  tn_active_subagent :: "string option"
  tn_artifact_count :: "int option"
  tn_rejection_count :: "int option"
  tn_last_event_at :: "string option"
  tn_failure :: "failure_info option"
  tn_last_rejection :: "failure_info option"
  tn_runtime_user_id :: "string option"
  tn_remote_auths :: "remote_auth_state list option"
  tn_links :: "(string \<times> string) list option"

definition list_or_none :: "'a list \<Rightarrow> 'a list option" where
  "list_or_none xs = (if xs = [] then None else Some xs)"

definition snapshot_links :: "runtime_env \<Rightarrow> run_state \<Rightarrow> (string \<times> string) list" where
  "snapshot_links env s = (if allows_explicit_compaction env s
     then AList.update ''compact'' ''task.compact'' (rs_links s) else AList.delete ''compact'' (rs_links s))"

definition snapshot_of :: "runtime_env \<Rightarrow> run_state \<Rightarrow> compaction_record option \<Rightarrow> task_snapshot" where
  "snapshot_of env s latest =
     \<lparr>tn_task_id = rs_task_id s, tn_run_id = rs_run_id s, tn_status = rs_status s,
      tn_objective = rs_objective s, tn_created_at = rs_created_at s, tn_updated_at = rs_updated_at s,
      tn_scope = None, tn_success_criteria = list_or_none (rs_success_criteria s),
      tn_constraints = list_or_none (rs_constraints s),
      tn_workspace_roots = list_or_none (rs_workspace_roots s), tn_current_phase = rs_current_phase s,
      tn_latest_summary = rs_latest_summary s, tn_todos = list_or_none (rs_todos s),
      tn_awaiting_approval = Some (rs_awaiting_approval s),
      tn_pending_approval_id = rs_pending_approval_id s, tn_is_resumable = Some (rs_is_resumable s),
      tn_pause_reason = rs_pause_reason s, tn_thread_id = rs_thread_id s, tn_checkpoint_id = rs_checkpoint_id s,
      tn_is_compacted = Some (latest \<noteq> None), tn_compaction_id = map_option cp_id latest,
      tn_compaction_trigger = map_option cp_trigger latest, tn_active_subagent = rs_active_subagent s,
      tn_artifact_count = Some (rs_artifact_count s), tn_rejection_count = Some (rs_rejection_count s),
      tn_last_event_at = rs_last_event_at s, tn_failure = rs_failure s,
      tn_last_rejection = rs_last_rejection s, tn_runtime_user_id = rs_runtime_user_id s,
      tn_remote_auths = list_or_none (rs_remote_auths s), tn_links = list_or_none (snapshot_links env s)\<rparr>"

definition get_task_snapshot :: "runtime_env \<Rightarrow> string \<Rightarrow> string option \<Rightarrow> task_snapshot wact" where
  "get_task_snapshot env task run = bindA (get_run task run) (\<lambda>s.
     bindA (read_durable None (\<lambda>d. if rt_summarizer env = None then None
        else latest_compaction (d_compactions d) (rs_task_id s) (rs_run_id s))) (\<lambda>latest.
       ret (snapshot_of env s latest)))"

section \<open>\<open>task.resume\<close> and \<open>task.reply\<close>\<close>

definition resume_check :: "run_state \<Rightarrow> unit result" where
  "resume_check s =
     (if rs_status s = COMPLETED then Inl (ValueError ''task.resume cannot resume a completed run'')
      else if rs_status s = FAILED then Inl (ValueError ''task.resume cannot resume a failed run'')
      else if rs_awaiting_approval s
        then Inl (ValueError ''task.resume cannot resume while approval is still pending'')
      else if \<not> rs_is_resumable s then Inl (ValueError ''task.resume requires a paused or resumable run'')
      else Inr ())"

definition resume_task ::
    "runtime_env \<Rightarrow> string \<Rightarrow> string option \<Rightarrow> string \<Rightarrow> bool \<Rightarrow> task_snapshot wact" where
  "resume_task env task run identity background = bindA (get_run task run) (\<lambda>s.
     thenA (liftR (resume_check s))
     (thenA (clear_cancellation (rs_task_id s) (rs_run_id s))
     (thenA (launch_run env (rs_task_id s) (rs_run_id s) None identity True background)
            (get_task_snapshot env (rs_task_id s) (Some (rs_run_id s))))))"

definition reply_check :: "run_state \<Rightarrow> unit result" where
  "reply_check s =
     (if rs_status s = COMPLETED then Inl (ValueError ''task.reply cannot reply to a completed run'')
      else if rs_status s = FAILED then Inl (ValueError ''task.reply cannot reply to a failed run'')
      else if rs_status s = CANCELLED then Inl (ValueError ''task.reply cannot reply to a cancelled run'')
      else if rs_awaiting_approval s
        then Inl (ValueError ''task.reply cannot reply while approval is still pending'')
      else if \<not> rs_is_resumable s then Inl (ValueError ''task.reply requires a paused or resumable run'')
      else if rs_pause_reason s \<noteq> Some ''awaiting_user_input''
        then Inl (ValueError ''task.reply requires a run paused for awaiting_user_input'')
      else Inr ())"

definition reply_to_run ::
    "runtime_env \<Rightarrow> string \<Rightarrow> string \<Rightarrow> string option \<Rightarrow> string \<Rightarrow> bool \<Rightarrow> task_snapshot wact" where
  "reply_to_run env task message run identity background = bindA (get_run task run) (\<lambda>s.
     thenA (liftR (reply_check s)) (bindA (utc_now env) (\<lambda>now.
     thenA (append_run_message env (rs_task_id s) (rs_run_id s) ''user'' message (Some now))
     (thenA (publish env (rs_task_id s) (rs_run_id s) None (event_value TASK_USER_INPUT_RECEIVED) now
        runner_source [(''status'', PStr (status_value PAUSED)),
          (''summary'', PStr ''User input received. Resuming execution.''), (''message'', PStr message)])
     (thenA (launch_run env (rs_task_id s) (rs_run_id s) None identity True background)
            (get_task_snapshot env (rs_task_id s) (Some (rs_run_id s))))))))"

section \<open>\<open>task.compact\<close>\<close>

definition compact_task :: "runtime_env \<Rightarrow> string \<Rightarrow> string option \<Rightarrow> task_snapshot wact" where
  "compact_task env task run = bindA (get_run task run) (\<lambda>s.
     if \<not> allows_explicit_compaction env s
     then raise (ValueError ''task.compact requires an accepted, paused, or resumable run'')
     else bindA (persist_compaction env (rs_task_id s) (rs_run_id s) EXPLICIT_CLIENT) (\<lambda>record.
       thenA (case record of None \<Rightarrow> ret ()
         | Some c \<Rightarrow> bindA (utc_now env) (\<lambda>now.
             publish env (rs_task_id s) (rs_run_id s) None (event_value CONVERSATION_COMPACTED) now runner_source
               [(''compaction_id'', PStr (cp_id c)), (''trigger'', PStr (cp_trigger c)),
                (''strategy'', PStr (cp_strategy c)), (''cutoff_index'', PInt (cp_cutoff_index c)),
                (''summary'', PStr ''Conversation context compacted.''), (''created_at'', PStr (cp_created_at c)),
                (''artifact_path'', opt_str (cp_artifact_path c))]))
         (get_task_snapshot env (rs_task_id s) (Some (rs_run_id s)))))"

section \<open>\<open>skill.install\<close> and \<open>task.approve\<close>\<close>

definition skill_install ::
    "runtime_env \<Rightarrow> string option \<Rightarrow> string \<Rightarrow> string option \<Rightarrow> skill_install_args \<Rightarrow> skill_outcome wact" where
  "skill_install env corr task run a = bindA (liftR (require_installer env)) (\<lambda>_.
     bindA (get_run task run) (\<lambda>s.
     bindA (sandbox_for_run env (rs_task_id s) (rs_run_id s) (rs_workspace_roots s)) (\<lambda>sr.
       install_skill_via_method env (rs_task_id s) (rs_run_id s) corr sr a)))"

definition record_grant :: "boundary_grant \<Rightarrow> unit wact" where
  "record_grant g = with_durable () (\<lambda>d. (Inr (), d\<lparr>d_grants := grant_boundary g (d_grants d)\<rparr>))"

definition scope_boundary_key :: "pydict \<Rightarrow> string option" where
  "scope_boundary_key scope = (case dict_get scope ''boundary_key'' of
     PStr k \<Rightarrow> if k = [] then None else Some k | _ \<Rightarrow> None)"

definition approve_skill_install :: "runtime_env \<Rightarrow> approval_request \<Rightarrow> string option \<Rightarrow> unit wact" where
  "approve_skill_install env a corr =
     (let scope = ap_scope a in
      thenA (case scope_boundary_key scope of
          None \<Rightarrow> ret ()
        | Some k \<Rightarrow> bindA (utc_now env) (\<lambda>now. record_grant \<lparr>bg_task_id = ap_task_id a, bg_run_id = ap_run_id a,
            bg_boundary_key = k, bg_approval_id = ap_id a, bg_granted_at = now\<rparr>))
      (bindA (skill_install env corr (ap_task_id a) (Some (ap_run_id a))
         \<lparr>si_source_path = py_str (dict_get_or scope ''source_path'' (PStr [])),
          si_target_scope = py_str (dict_get_or scope ''target_scope'' (PStr [])),
          si_target_role = as_str (dict_get scope ''target_role''),
          si_install_mode = py_str (dict_get_or scope ''install_mode'' (PStr [])),
          si_reason = py_str (dict_get_or scope ''reason'' (PStr (ap_description a)))\<rparr>) (\<lambda>out.
        if so_status out \<noteq> ''completed'' then raise (ValueError (so_summary out)) else ret ())))"

definition approve_check ::
    "approval_request \<Rightarrow> string \<Rightarrow> string option \<Rightarrow> string option \<Rightarrow> unit result" where
  "approve_check req i task run =
     (if task \<noteq> None \<and> task \<noteq> Some (ap_task_id req)
        then Inl (ValueError ''approval does not belong to the requested task'')
      else if run \<noteq> None \<and> run \<noteq> Some (ap_run_id req)
        then Inl (ValueError ''approval does not belong to the requested run'')
      else Inr ())"

definition is_skill_approval :: "approval_request \<Rightarrow> bool" where
  "is_skill_approval req = (dict_get (ap_scope req) ''kind'' = PStr ''skill.install'')"

definition approve_state_check :: "approval_request \<Rightarrow> string \<Rightarrow> run_state \<Rightarrow> unit result" where
  "approve_state_check req i s =
     (if rs_status s = CANCELLED then Inl (ValueError ''task.approve cannot approve a cancelled run'')
      else if \<not> is_skill_approval req \<and> rs_pending_approval_id s \<noteq> Some i
        then Inl (ValueError ''approval is not the active pending approval for this run'')
      else Inr ())"

definition decide_approval :: "runtime_env \<Rightarrow> string \<Rightarrow> string \<Rightarrow> approval_request wact" where
  "decide_approval env i decision = bindA (utc_now env) (\<lambda>at. \<lambda>w. case w_durable w of
     None \<Rightarrow> (Inl (ValueError ''task.approve requires durable runtime services''), w)
   | Some d \<Rightarrow> (case decide i decision at (d_approvals d) of
       Inl e \<Rightarrow> (Inl e, w) | Inr (a, t) \<Rightarrow> (Inr a, w\<lparr>w_durable := Some (d\<lparr>d_approvals := t\<rparr>)\<rparr>)))"

definition rejected_state :: "string \<Rightarrow> run_state \<Rightarrow> run_state" where
  "rejected_state at s = s\<lparr>rs_status := FAILED, rs_updated_at := at, rs_current_phase := Some ''failed'',
     rs_latest_summary := Some ''Run failed because the required approval was rejected.'',
     rs_last_event_at := Some at,
     rs_failure := Some \<lparr>fi_message = ''approval rejected'', fi_code = Some ''approval_rejected''\<rparr>,
     rs_awaiting_approval := False, rs_pending_approval_id := None, rs_is_resumable := False,
     rs_pause_reason := None\<rparr>"

type_synonym approve_answer = "string \<times> bool \<times> string \<times> task_snapshot"

definition approve_granted ::
    "runtime_env \<Rightarrow> string \<Rightarrow> approval_request \<Rightarrow> approval_request \<Rightarrow> run_state \<Rightarrow> string \<Rightarrow> string
     \<Rightarrow> approve_answer wact" where
  "approve_granted env i req decided s at identity =
     (if is_skill_approval req then
        thenA (approve_skill_install env req None)
        (bindA (get_task_snapshot env (rs_task_id s) (Some (rs_run_id s))) (\<lambda>sn.
          ret (i, True, ap_status decided, sn)))
      else
        thenA (case scope_boundary_key (ap_scope decided) of
            None \<Rightarrow> ret ()
          | Some k \<Rightarrow> record_grant \<lparr>bg_task_id = rs_task_id s, bg_run_id = rs_run_id s, bg_boundary_key = k,
              bg_approval_id = i, bg_granted_at = at\<rparr>)
        (bindA (resume_task env (rs_task_id s) (Some (rs_run_id s)) identity False) (\<lambda>sn.
          ret (i, True, ap_status decided, sn))))"

definition approve_rejected ::
    "runtime_env \<Rightarrow> string \<Rightarrow> approval_request \<Rightarrow> approval_request \<Rightarrow> run_state \<Rightarrow> string \<Rightarrow> approve_answer wact" where
  "approve_rejected env i req decided s at =
     (let task = rs_task_id s; run = rs_run_id s in
      thenA (if is_skill_approval req then
          thenA (append_run_diagnostic env task run ''skill_install_approval_rejected''
              ''Skill installation approval was rejected by the user.''
              [(''approval_id'', PStr i), (''scope'', PDict (ap_scope decided))])
            (publish_skill_event env task run None SKILL_INSTALL_FAILED
              [(''summary'', PStr ''Skill installation approval was rejected.''), (''approval_id'', PStr i)])
        else
          thenA (append_run_diagnostic env task run ''approval_rejected'' ''Approval was rejected by the user.''
              [(''approval_id'', PStr i), (''scope'', PDict (ap_scope decided))])
          (thenA (update_run task run (rejected_state at))
            (publish env task run None (event_value TASK_FAILED) at runner_source
              [(''status'', PStr (status_value FAILED)), (''failed_at'', PStr at),
               (''summary'', PStr ''Run failed because the required approval was rejected.''),
               (''error'', PStr ''approval rejected'')])))
      (bindA (get_task_snapshot env task (Some run)) (\<lambda>sn. ret (i, False, ap_status decided, sn))))"

definition approve ::
    "runtime_env \<Rightarrow> string option \<Rightarrow> string \<Rightarrow> string \<Rightarrow> string option \<Rightarrow> string \<Rightarrow> approve_answer wact" where
  "approve env task i decision run identity = bindA (getS w_durable) (\<lambda>durable. case durable of
     None \<Rightarrow> raise (ValueError ''task.approve requires durable runtime services'')
   | Some d \<Rightarrow> bindA (liftR (get_request (d_approvals d) i)) (\<lambda>found. case found of
       None \<Rightarrow> raise (KeyError (''unknown approval: '' @ i))
     | Some req \<Rightarrow>
         thenA (liftR (approve_check req i task run))
         (bindA (get_run (ap_task_id req) (Some (ap_run_id req))) (\<lambda>s.
          thenA (liftR (approve_state_check req i s))
          (bindA (decide_approval env i decision) (\<lambda>decided.
           bindA (utc_now env) (\<lambda>at.
           thenA (update_run (rs_task_id s) (rs_run_id s) (\<lambda>r. r\<lparr>rs_updated_at := at,
                    rs_awaiting_approval := False, rs_pending_approval_id := None\<rparr>))
           (if ap_status decided = ''approved'' then approve_granted env i req decided s at identity
            else approve_rejected env i req decided s at))))))))"

section \<open>Artifacts\<close>

definition int_or_none :: "pyval \<Rightarrow> int option" where
  "int_or_none v = (case v of PInt n \<Rightarrow> Some n | _ \<Rightarrow> None)"

definition artifact_reference_of :: "string \<Rightarrow> string \<Rightarrow> persisted_event \<Rightarrow> pydict \<Rightarrow> artifact" where
  "artifact_reference_of task run e p =
     \<lparr>ar_id = py_str (dict_get p ''artifact_id''), ar_task_id = str_or (dict_get p ''task_id'') task,
      ar_run_id = str_or (dict_get p ''run_id'') run, ar_logical_path = py_str (dict_get p ''logical_path''),
      ar_content_type = str_or (dict_get p ''content_type'') ''application/octet-stream'',
      ar_created_at = str_or (dict_get p ''created_at'') (pe_timestamp e),
      ar_persistence_class = str_or (dict_get p ''persistence_class'') ''run'',
      ar_source_role = nonblank_str (dict_get p ''source_role''),
      ar_source_tool = nonblank_str (dict_get p ''source_tool''),
      ar_byte_size = int_or_none (dict_get p ''byte_size''),
      ar_display_name = nonblank_str (dict_get p ''display_name''),
      ar_summary = nonblank_str (dict_get p ''summary''),
      ar_downloadable = (case dict_get p ''downloadable'' of PNone \<Rightarrow> None | v \<Rightarrow> Some (py_truthy v)),
      ar_hash = nonblank_str (dict_get p ''hash'')\<rparr>"

fun skipped_restore_error :: "exn \<Rightarrow> bool" where
  "skipped_restore_error (KeyError m) = True"
| "skipped_restore_error (ValueError m) = True"
| "skipped_restore_error (FileNotFoundError m) = True"
| "skipped_restore_error e = False"

definition restore_event :: "runtime_env \<Rightarrow> string \<Rightarrow> string \<Rightarrow> persisted_event \<Rightarrow> unit wact" where
  "restore_event env task run e =
     (if pe_type e \<noteq> event_value ARTIFACT_CREATED then ret () else
      (case as_dict (dict_get (pe_payload e) ''artifact'') of
         None \<Rightarrow> ret ()
       | Some p \<Rightarrow> (case (nonblank_str (dict_get p ''logical_path''), nonblank_str (dict_get p ''artifact_id'')) of
           (Some path, Some i) \<Rightarrow> (\<lambda>w.
             case restore_artifact (host_of env w) (artifact_reference_of task run e p) path (w_artifacts w) of
               Inl x \<Rightarrow> (if skipped_restore_error x then (Inr (), w) else (Inl x, w))
             | Inr (a, s) \<Rightarrow> (Inr (), w\<lparr>w_artifacts := s\<rparr>))
         | _ \<Rightarrow> ret ())))"

definition ensure_artifacts_loaded :: "runtime_env \<Rightarrow> string \<Rightarrow> string \<Rightarrow> unit wact" where
  "ensure_artifacts_loaded env task run = bindA has_durable (\<lambda>durable. if \<not> durable then ret () else
     bindA (getS w_rehydrated) (\<lambda>loaded. if (task, run) \<in> set loaded then ret () else
     bindA (get_run task (Some run)) (\<lambda>s.
     bindA (sandbox_for_run env task run (rs_workspace_roots s)) (\<lambda>_.
     bindA (read_durable [] (\<lambda>d. get_events (d_events d) task (Some run) None)) (\<lambda>events.
     thenA (foldA (\<lambda>e _. restore_event env task run e) events ())
       (modS (\<lambda>w. w\<lparr>w_rehydrated := (task, run) # w_rehydrated w\<rparr>)))))))"

definition list_task_artifacts ::
    "runtime_env \<Rightarrow> string \<Rightarrow> string option \<Rightarrow> string option \<Rightarrow> string option \<Rightarrow> artifact list wact" where
  "list_task_artifacts env task run persistence type_prefix = bindA (get_run task run) (\<lambda>s.
     thenA (ensure_artifacts_loaded env task (rs_run_id s))
       (getS (\<lambda>w. list_artifacts (w_artifacts w) task (Some (rs_run_id s)) persistence type_prefix)))"

definition get_task_artifact_preview ::
    "runtime_env \<Rightarrow> string \<Rightarrow> string \<Rightarrow> string option \<Rightarrow> (artifact \<times> artifact_preview) wact" where
  "get_task_artifact_preview env task i run = bindA (get_run task run) (\<lambda>s.
     thenA (ensure_artifacts_loaded env task (rs_run_id s))
       (\<lambda>w. (get_artifact_preview (host_of env w) (w_artifacts w) task i (Some (rs_run_id s)), w)))"

section \<open>A runtime at work\<close>

text \<open>One request of a client, or one background worker running to its end.\<close>

datatype runtime_op =
    StartOp "string option" start_params
  | ResumeOp string "string option" string bool
  | ReplyOp string string "string option" string bool
  | CancelOp string "string option" "string option"
  | ApproveOp "string option" string string "string option" string
  | CompactOp string "string option"
  | SkillInstallOp "string option" string "string option" skill_install_args
  | ListArtifactsOp string "string option" "string option" "string option"
  | PreviewOp string string "string option"
  | SnapshotOp string "string option"
  | WorkerOp nat

definition ignore_result :: "'a wact \<Rightarrow> unit wact" where
  "ignore_result m = bindA m (\<lambda>_. ret ())"

fun perform :: "runtime_env \<Rightarrow> runtime_op \<Rightarrow> unit wact" where
  "perform env (StartOp corr p) = ignore_result (start_run env corr p)"
| "perform env (ResumeOp t r i b) = ignore_result (resume_task env t r i b)"
| "perform env (ReplyOp t m r i b) = ignore_result (reply_to_run env t m r i b)"
| "perform env (CancelOp t r reason) = ignore_result (cancel_run env t r reason)"
| "perform env (ApproveOp t i d r ident) = ignore_result (approve env t i d r ident)"
| "perform env (CompactOp t r) = ignore_result (compact_task env t r)"
| "perform env (SkillInstallOp corr t r a) = ignore_result (skill_install env corr t r a)"
| "perform env (ListArtifactsOp t r pc ty) = ignore_result (list_task_artifacts env t r pc ty)"
| "perform env (PreviewOp t i r) = ignore_result (get_task_artifact_preview env t i r)"
| "perform env (SnapshotOp t r) = ignore_result (get_task_snapshot env t r)"
| "perform env (WorkerOp i) = run_worker env i"

inductive runtime_step :: "runtime_env \<Rightarrow> world \<Rightarrow> world \<Rightarrow> bool" for env where
  step: "perform env o' w = (r, w') \<Longrightarrow> runtime_step env w w'"

inductive reachable :: "runtime_env \<Rightarrow> world \<Rightarrow> world \<Rightarrow> bool" for env w0 where
  start: "reachable env w0 w0"
| move: "reachable env w0 w \<Longrightarrow> runtime_step env w w' \<Longrightarrow> reachable env w0 w'"

inductive_cases runtime_stepE: "runtime_step env w w'"
inductive_simps runtime_step_iff: "runtime_step env w w'"

definition initial_world :: "durable option \<Rightarrow> files \<Rightarrow> world" where
  "initial_world d fs = \<lparr>w_runs = empty_run_store, w_bus = empty_bus, w_artifacts = empty_artifacts,
     w_files = fs, w_roots = [], w_cancel_objs = [], w_cancellations = [], w_controllers = [],
     w_rehydrated = [], w_workers = [], w_durable = d, w_tick = 0\<rparr>"

definition empty_durable :: durable where
  "empty_durable = \<lparr>d_checkpoints = empty_checkpoints, d_memory = [], d_approvals = [], d_grants = [],
     d_events = [], d_diagnostics = [], d_metrics = [], d_messages = [], d_compactions = []\<rparr>"

end
