(* ===== verification/Runtime_Invariants.thy ===== *)
theory Runtime_Invariants
  imports Task_Runner
begin

text \<open>
  Invariants of a runtime at work. The locale \<open>world_invariant\<close> states which writes a predicate on the
  world has to survive; inside it every operation of the runner is shown to preserve the predicate, up to
  \<open>perform\<close> and \<open>reachable\<close>. An invariant is then an interpretation: its proof only looks at the writes.
  \<open>own\<close> restricts the runs the operations are about, so that an invariant may speak of a run that others
  do not touch.
\<close>

section \<open>Programs that govern their own run\<close>

primrec local_prog :: "string \<Rightarrow> string \<Rightarrow> 'a prog \<Rightarrow> bool" where
  "local_prog t r (Done x) = True"
| "local_prog t r (Emit ty p k) = (\<forall>x. local_prog t r (k x))"
| "local_prog t r (Govern c k) = (oc_task_id c = t \<and> oc_run_id c = r \<and> (\<forall>x. local_prog t r (k x)))"
| "local_prog t r (SaveCheckpoint s k) = (\<forall>x. local_prog t r (k x))"
| "local_prog t r (Probe k) = (\<forall>x. local_prog t r (k x))"
| "local_prog t r (InterruptCheck s k) = (\<forall>x. local_prog t r (k x))"
| "local_prog t r (InstallSkill a k) = (\<forall>x. local_prog t r (k x))"
| "local_prog t r (ReadText p k) = (\<forall>x. local_prog t r (k x))"
| "local_prog t r (WriteText p c k) = (\<forall>x. local_prog t r (k x))"
| "local_prog t r (ExecCommand c d k) = (\<forall>x. local_prog t r (k x))"
| "local_prog t r (WriteMemory m k) = (\<forall>x. local_prog t r (k x))"
| "local_prog t r (ListMemory s n k) = (\<forall>x. local_prog t r (k x))"
| "local_prog t r (ListArtifacts k) = (\<forall>x. local_prog t r (k x))"
| "local_prog t r (ListFiles p k) = (\<forall>x. local_prog t r (k x))"
| "local_prog t r (PathExists p k) = (\<forall>x. local_prog t r (k x))"
| "local_prog t r (Clock k) = (\<forall>x. local_prog t r (k x))"
| "local_prog t r (NewMemoryId k) = (\<forall>x. local_prog t r (k x))"
| "local_prog t r (ClientCancel s k) = (\<forall>x. local_prog t r (k x))"

definition local_harness :: "runtime_env \<Rightarrow> bool" where
  "local_harness env \<longleftrightarrow> (\<forall>q. local_prog (xq_task_id q) (xq_run_id q) (rt_harness env q))"

lemma local_prog_bind:
  "local_prog t r p \<Longrightarrow> (\<And>x. local_prog t r (f x)) \<Longrightarrow> local_prog t r (prog_bind p f)"
  by (induction p) simp_all

section \<open>The contract of an invariant\<close>

definition set_durable :: "durable \<Rightarrow> world \<Rightarrow> world" where
  "set_durable d w = w\<lparr>w_durable := Some d\<rparr>"

text \<open>The background workers that wait are for runs the operations may be about.\<close>

definition workers_ok :: "(run_key \<Rightarrow> bool) \<Rightarrow> world \<Rightarrow> bool" where
  "workers_ok own w \<longleftrightarrow> list_all (\<lambda>k. own (wk_key k) \<and> snd (wk_key k) \<noteq> []) (w_workers w)"

lemma workers_ok_cong: "w_workers w' = w_workers w \<Longrightarrow> workers_ok own w' = workers_ok own w"
  by (simp add: workers_ok_def)

locale world_invariant =
  fixes env :: runtime_env and own :: "run_key \<Rightarrow> bool" and I :: "world \<Rightarrow> bool"
  assumes harness: "local_harness env"
    and frame: "I w \<Longrightarrow> w_runs w' = w_runs w \<Longrightarrow> w_bus w' = w_bus w \<Longrightarrow> w_artifacts w' = w_artifacts w \<Longrightarrow>
      w_durable w' = w_durable w \<Longrightarrow> w_tick w \<le> w_tick w' \<Longrightarrow> workers_ok own w' \<Longrightarrow> I w'"
    and workers: "I w \<Longrightarrow> workers_ok own w"
    and known: "I w \<Longrightarrow> store_get (w_runs w) t rid = Inr s \<Longrightarrow>
      rs_run_id s \<noteq> [] \<and> rs_task_id s = t \<and> (\<forall>n. rid = Some n \<longrightarrow> n \<noteq> [] \<longrightarrow> rs_run_id s = n)"
    and allocate: "keeps I (allocate_run env p roots)"
    and allocated: "I w \<Longrightarrow> allocate_run env p roots w = (Inr (t, r, at), w') \<Longrightarrow> own (t, r)"
    and update: "own (t, r) \<Longrightarrow> r \<noteq> [] \<Longrightarrow> I w \<Longrightarrow> (\<And>s. run_core (f s) = run_core s) \<Longrightarrow>
      store_update (w_runs w) t r f = Inr (s, st) \<Longrightarrow> I (w\<lparr>w_runs := st\<rparr>)"
    and event: "keeps I (publish env t r corr ty at src payload)"
    and metrics: "mc_events c = 0 \<Longrightarrow> keeps I (write_run_metrics env t r c)"
    and diagnostics: "I w \<Longrightarrow> w_durable w = Some d \<Longrightarrow> I (set_durable (d\<lparr>d_diagnostics := x\<rparr>) w)"
    and messages: "I w \<Longrightarrow> w_durable w = Some d \<Longrightarrow> I (set_durable (d\<lparr>d_messages := y\<rparr>) w)"
    and compactions: "I w \<Longrightarrow> w_durable w = Some d \<Longrightarrow> I (set_durable (d\<lparr>d_compactions := z\<rparr>) w)"
    and checkpoints: "I w \<Longrightarrow> w_durable w = Some d \<Longrightarrow> I (set_durable (d\<lparr>d_checkpoints := db\<rparr>) w)"
    and memory: "I w \<Longrightarrow> w_durable w = Some d \<Longrightarrow> write_memory m (d_memory d) = Inr mt \<Longrightarrow>
      I (set_durable (d\<lparr>d_memory := mt\<rparr>) w)"
    and requests: "I w \<Longrightarrow> w_durable w = Some d \<Longrightarrow> ap_status a = ''pending'' \<Longrightarrow> ap_decision a = None \<Longrightarrow>
      create_request a (d_approvals d) = Inr t' \<Longrightarrow> I (set_durable (d\<lparr>d_approvals := t'\<rparr>) w)"
    and decisions: "I w \<Longrightarrow> w_durable w = Some d \<Longrightarrow> decide i dec at (d_approvals d) = Inr (a, t') \<Longrightarrow>
      I (set_durable (d\<lparr>d_approvals := t'\<rparr>) w)"
    and grants: "I w \<Longrightarrow> w_durable w = Some d \<Longrightarrow> I (set_durable (d\<lparr>d_grants := grant_boundary g (d_grants d)\<rparr>) w)"
    and registered: "I w \<Longrightarrow>
      register_artifact (host_of env w) i at t r path pc role tool summary (w_artifacts w) = Inr (art, s') \<Longrightarrow>
      I (w\<lparr>w_artifacts := s'\<rparr>)"
    and restored: "I w \<Longrightarrow> restore_artifact (host_of env w) art path (w_artifacts w) = Inr (art', s') \<Longrightarrow>
      I (w\<lparr>w_artifacts := s'\<rparr>)"
begin

subsection \<open>Primitive writes\<close>

lemma frame':
  assumes "I w" and "w_runs w' = w_runs w" and "w_bus w' = w_bus w" and "w_artifacts w' = w_artifacts w"
    and "w_durable w' = w_durable w" and "w_tick w \<le> w_tick w'" and "w_workers w' = w_workers w"
  shows "I w'"
  using frame[OF assms(1-6)] workers[OF assms(1)] workers_ok_cong[OF assms(7)] by blast

lemma k_now: "keeps I (utc_now env)"
  by (rule keepsI) (auto simp: utc_now_def intro: frame')

lemma k_uuid: "keeps I (uuid_hex env)"
  by (rule keepsI) (auto simp: uuid_hex_def intro: frame')

lemma k_new_id: "keeps I (new_id env pre)"
  unfolding new_id_def by (intro keep_rules k_uuid)

lemma k_get_run: "keeps I (get_run t r)"
  by (rule keepsI) (simp add: get_run_def)

lemma k_get_run_bind:
  assumes "\<And>s. rs_run_id s \<noteq> [] \<Longrightarrow> rs_task_id s = t \<Longrightarrow> (\<forall>x. r = Some x \<longrightarrow> x \<noteq> [] \<longrightarrow> rs_run_id s = x) \<Longrightarrow>
    keeps I (f s)"
  shows "keeps I (bindA (get_run t r) f)"
proof (rule keepsI)
  fix w assume w: "I w"
  show "I (snd (bindA (get_run t r) f w))"
  proof (cases "store_get (w_runs w) t r")
    case (Inl e)
    then show ?thesis using w by (simp add: bindA_run get_run_def)
  next
    case (Inr s)
    then have "keeps I (f s)" using known[OF w Inr] assms by blast
    then show ?thesis using w Inr by (simp add: bindA_run get_run_def keeps_def)
  qed
qed

lemma k_allocate_bind:
  assumes "\<And>t r at. own (t, r) \<Longrightarrow> r \<noteq> [] \<Longrightarrow> keeps I (f (t, r, at))"
  shows "keeps I (bindA (allocate_run env p roots) f)"
proof (rule keepsI)
  fix w assume w: "I w"
  obtain x w1 where x: "allocate_run env p roots w = (x, w1)" by force
  have w1: "I w1" using keepsD[OF allocate w x] .
  show "I (snd (bindA (allocate_run env p roots) f w))"
  proof (cases x)
    case (Inr tra)
    obtain t r at where tra: "tra = (t, r, at)" by (cases tra)
    have "r \<noteq> []" using x Inr tra by (auto simp: allocate_run_def bindA_Inr thenA_Inr new_id_def)
    moreover have "own (t, r)" using allocated[OF w] x Inr tra by blast
    ultimately have "keeps I (f tra)" using assms tra by blast
    then show ?thesis using x Inr w1 by (simp add: bindA_run keeps_def)
  qed (use x w1 in \<open>simp add: bindA_run\<close>)
qed

lemma k_update:
  assumes "own (t, r)" and "r \<noteq> []" and "\<And>s. run_core (f s) = run_core s"
  shows "keeps I (update_run t r f)"
  by (rule keepsI) (auto simp: update_run_def split: sum.splits intro: update[OF assms(1,2) _ assms(3)])

lemma k_frame:
  assumes "\<And>w. w_runs (f w) = w_runs w \<and> w_bus (f w) = w_bus w \<and> w_artifacts (f w) = w_artifacts w \<and>
    w_durable (f w) = w_durable w \<and> w_tick w \<le> w_tick (f w) \<and> w_workers (f w) = w_workers w"
  shows "keeps I (modS f)"
  by (rule keeps_modS) (use assms frame' in blast)

lemma k_read_durable: "keeps I (read_durable x f)"
  by (rule keepsI) (simp add: read_durable_def)

lemma k_has_durable: "keeps I has_durable"
  unfolding has_durable_def by (rule keeps_getS)

lemma k_with_durable:
  assumes "\<And>w d. I w \<Longrightarrow> w_durable w = Some d \<Longrightarrow> I (set_durable (snd (f d)) w)"
  shows "keeps I (with_durable x f)"
proof (rule keepsI)
  fix w assume w: "I w"
  show "I (snd (with_durable x f w))"
  proof (cases "w_durable w")
    case (Some d)
    then show ?thesis using assms[OF w Some]
      by (cases "f d") (simp add: with_durable_def set_durable_def)
  qed (use w in \<open>simp add: with_durable_def\<close>)
qed

lemma set_same_durable: "w_durable w = Some d \<Longrightarrow> set_durable d w = w"
  by (simp add: set_durable_def)

lemmas base_rules = k_now k_uuid k_new_id k_read_durable k_has_durable k_get_run

subsection \<open>Events, diagnostics, messages\<close>

lemma k_diagnostic: "keeps I (append_run_diagnostic env t r kind m det)"
  unfolding append_run_diagnostic_def
  by (intro keep_rules base_rules k_with_durable)
    (auto simp: set_same_durable diagnostics split: sum.splits)

lemma k_message: "keeps I (append_run_message env t r role c at)"
  unfolding append_run_message_def
  by (intro keep_rules base_rules k_with_durable) (simp add: messages)

lemma k_seed: "keeps I (seed_run_message_history env t r ob c s)"
  unfolding seed_run_message_history_def by (rule k_message)

lemma k_load_messages: "keeps I (load_conversation_messages env t r)"
  unfolding load_conversation_messages_def by (intro keep_rules base_rules)

lemma k_metrics:
  "keeps I (write_run_metrics env t r (no_change\<lparr>mc_checkpoints := a\<rparr>))"
  "keeps I (write_run_metrics env t r (no_change\<lparr>mc_approvals := a\<rparr>))"
  "keeps I (write_run_metrics env t r (no_change\<lparr>mc_resumes := a\<rparr>))"
  "keeps I (write_run_metrics env t r (no_change\<lparr>mc_denies := a\<rparr>))"
  "keeps I (write_run_metrics env t r (no_change\<lparr>mc_started_at := b\<rparr>))"
  "keeps I (write_run_metrics env t r (no_change\<lparr>mc_artifact_count := c\<rparr>))"
  "keeps I (write_run_metrics env t r (no_change\<lparr>mc_ended_at := b, mc_artifact_count := c\<rparr>))"
  by (rule metrics, simp add: no_change_def)+

lemmas log_rules = base_rules event k_diagnostic k_message k_seed k_load_messages k_metrics

lemma k_rejection: "own (t, r) \<Longrightarrow> r \<noteq> [] \<Longrightarrow> keeps I (record_tool_rejection env t r corr at p)"
  unfolding record_tool_rejection_def
  by (intro k_get_run_bind keep_rules log_rules k_update) (simp_all add: run_core_def)

lemma k_reset: "own (t, r) \<Longrightarrow> r \<noteq> [] \<Longrightarrow> keeps I (reset_rejection_streak t r at)"
  unfolding reset_rejection_streak_def
  by (intro k_get_run_bind keep_rules k_update) (simp_all add: run_core_def)

lemma k_handle: "own (t, r) \<Longrightarrow> r \<noteq> [] \<Longrightarrow> keeps I (handle_harness_event env t r corr ty p)"
  unfolding handle_harness_event_def
  by (intro keep_rules log_rules k_rejection k_reset k_update) simp_all

subsection \<open>Governance\<close>

lemma k_request:
  "ap_status a = ''pending'' \<Longrightarrow> ap_decision a = None \<Longrightarrow>
   keeps I (with_durable () (\<lambda>d. case create_request a (d_approvals d) of
     Inl e \<Rightarrow> (Inl e, d) | Inr t \<Rightarrow> (Inr (), d\<lparr>d_approvals := t\<rparr>)))"
  by (rule k_with_durable) (auto simp: set_same_durable split: sum.splits dest: requests)

lemma k_create_approval:
  "own (oc_task_id c, oc_run_id c) \<Longrightarrow> oc_run_id c \<noteq> [] \<Longrightarrow> keeps I (create_approval_request env corr c dec)"
  unfolding create_approval_request_def
  by (intro keep_rules log_rules k_request k_update) (simp_all add: run_core_def)

lemma k_govern:
  "own (oc_task_id c, oc_run_id c) \<Longrightarrow> oc_run_id c \<noteq> [] \<Longrightarrow> keeps I (govern_operation env corr c)"
  unfolding govern_operation_def by (intro keep_rules k_create_approval)

subsection \<open>Skills\<close>

lemma k_sandbox_for_run: "keeps I (sandbox_for_run env t r roots)"
  unfolding sandbox_for_run_def by (intro keep_rules k_frame) simp

lemma k_host_error: "keeps I (host_error env p)"
  by (rule keepsI) (auto simp: host_error_def intro: frame')

lemma k_sandbox_read: "keeps I (sandbox_read env sr path)"
  unfolding sandbox_read_def by (intro keep_rules k_host_error)

lemma k_sandbox_list: "keeps I (sandbox_list_files env sr path)"
  unfolding sandbox_list_files_def by (intro keep_rules)

lemma k_sandbox_exists: "keeps I (sandbox_exists env sr path)"
  unfolding sandbox_exists_def by (intro keep_rules)

lemma k_sandbox_write: "keeps I (sandbox_write env sr path c)"
  unfolding sandbox_write_def by (intro keep_rules k_host_error k_frame) simp

lemma k_sandbox_exec: "keeps I (sandbox_exec env sr c d)"
proof -
  have "keeps I (\<lambda>w. let run = rt_exec env (w_tick w); w' = w\<lparr>w_tick := Suc (w_tick w)\<rparr> in
       (case executor_execute (\<lambda>c d. fst (run c d (w_files w))) x y of
          Inl e \<Rightarrow> (Inl e, w') | Inr res \<Rightarrow> (Inr res, w'\<lparr>w_files := snd (run x y (w_files w))\<rparr>)))" for x y
    by (rule keepsI) (auto simp: Let_def split: sum.splits intro: frame')
  then show ?thesis unfolding sandbox_exec_def by (intro keep_rules)
qed

lemma k_register: "keeps I (register_in_store env t r path tool)"
proof -
  have "keeps I (\<lambda>w. case register_artifact (host_of env w) i now t r path None None tool None (w_artifacts w) of
      Inl e \<Rightarrow> (Inl e, w) | Inr (a, s) \<Rightarrow> (Inr a, w\<lparr>w_artifacts := s\<rparr>))" for i now
    by (rule keepsI) (auto split: sum.splits intro: registered)
  then show ?thesis unfolding register_in_store_def by (intro keep_rules base_rules)
qed

lemma k_publish_artifact: "own (t, r) \<Longrightarrow> r \<noteq> [] \<Longrightarrow> keeps I (publish_artifact env t r corr a n)"
  unfolding publish_artifact_def by (intro keep_rules log_rules k_update) (simp_all add: run_core_def)

lemma k_skill_event: "keeps I (publish_skill_event env t r corr ty p)"
  unfolding publish_skill_event_def by (intro keep_rules log_rules)

lemmas skill_rules = log_rules k_sandbox_for_run k_sandbox_read k_sandbox_write k_sandbox_exec k_register
  k_publish_artifact k_skill_event

lemma k_skill_artifacts: "own (t, r) \<Longrightarrow> r \<noteq> [] \<Longrightarrow> keeps I (write_skill_artifacts env t r corr sr p)"
  unfolding write_skill_artifacts_def by (intro keep_rules skill_rules)

lemma k_prepare: "keeps I (prepare_skill_install env t r corr sr a)"
proof -
  have "keeps I (\<lambda>w. (in_prepare inst sr (w_files w) a, w))" for inst
    by (rule keepsI) simp
  then show ?thesis unfolding prepare_skill_install_def by (intro keep_rules skill_rules)
qed

lemma k_failed_outcome: "own (t, r) \<Longrightarrow> r \<noteq> [] \<Longrightarrow>
  keeps I (failed_skill_outcome env t r corr s v tg ar pr k)"
  unfolding failed_skill_outcome_def by (intro keep_rules skill_rules k_skill_artifacts)

lemma k_execute_install: "keeps I (execute_install env p)"
proof -
  have "keeps I (\<lambda>w. case in_execute inst p (w_files w) of (r, fs) \<Rightarrow> (r, w\<lparr>w_files := fs\<rparr>))" for inst
    by (rule keepsI) (auto split: prod.splits intro: frame')
  then show ?thesis unfolding execute_install_def by (intro keep_rules)
qed

lemma k_complete: "keeps I (complete_skill_install env t r corr p)"
  unfolding complete_skill_install_def by (rule k_skill_event)

lemma k_skill_approval: "own (t, r) \<Longrightarrow> r \<noteq> [] \<Longrightarrow> keeps I (create_skill_approval env corr t r p d)"
  unfolding create_skill_approval_def
  by (intro keep_rules skill_rules k_request) simp_all

lemma k_install_tool: "own (t, r) \<Longrightarrow> r \<noteq> [] \<Longrightarrow> keeps I (install_skill_via_tool env t r corr sr a)"
  unfolding install_skill_via_tool_def
  by (intro keep_rules skill_rules k_prepare k_failed_outcome k_govern k_execute_install k_skill_artifacts
      k_complete) (simp_all add: skill_install_context_def)

lemma k_install_method: "own (t, r) \<Longrightarrow> r \<noteq> [] \<Longrightarrow> keeps I (install_skill_via_method env t r corr sr a)"
  unfolding install_skill_via_method_def
  by (intro keep_rules skill_rules k_prepare k_failed_outcome k_execute_install k_skill_artifacts k_complete
      k_skill_approval)

subsection \<open>Cancellation and execution\<close>

lemma k_cancellation_for: "keeps I (cancellation_for t r)"
  by (rule keepsI) (auto simp: cancellation_for_def Let_def split: option.splits intro: frame')

lemma k_clear: "keeps I (clear_cancellation t r)"
  unfolding clear_cancellation_def by (rule k_frame) simp

lemma k_request_cancellation: "keeps I (request_cancellation i reason)"
  unfolding request_cancellation_def by (rule k_frame) simp

lemma k_cancel_reads: "keeps I (cancel_requested i)" "keeps I (cancel_reason i)" "keeps I (get_controller i)"
  unfolding cancel_requested_def cancel_reason_def get_controller_def by (rule keeps_getS)+

lemma k_new_controller: "keeps I (new_controller c)"
  by (rule keepsI) (auto simp: new_controller_def intro: frame')

lemma k_controller_record: "keeps I (controller_record env i reason)"
proof -
  have "keeps I (\<lambda>w. case w_durable w of
        None \<Rightarrow> (Inl (OtherException ''no checkpoint store''), w)
      | Some d \<Rightarrow> (case record_checkpoint hex now reason (controller_obj w i) (d_checkpoints d) of
          (r, c, db) \<Rightarrow> (r, w\<lparr>w_controllers := (w_controllers w)[i := c],
                              w_durable := Some (d\<lparr>d_checkpoints := db\<rparr>)\<rparr>)))" for hex now
  proof (rule keepsI)
    fix w assume w: "I w"
    have "I (w\<lparr>w_controllers := cs, w_durable := Some (d\<lparr>d_checkpoints := db\<rparr>)\<rparr>)"
      if "w_durable w = Some d" for d cs db
    proof (rule frame')
      show "I (set_durable (d\<lparr>d_checkpoints := db\<rparr>) w)" using checkpoints[OF w that] .
    qed (simp_all add: set_durable_def)
    then show "I (snd (case w_durable w of
        None \<Rightarrow> (Inl (OtherException ''no checkpoint store''), w)
      | Some d \<Rightarrow> (case record_checkpoint hex now reason (controller_obj w i) (d_checkpoints d) of
          (r, c, db) \<Rightarrow> (r, w\<lparr>w_controllers := (w_controllers w)[i := c],
                              w_durable := Some (d\<lparr>d_checkpoints := db\<rparr>)\<rparr>))))"
      using w by (auto split: option.split prod.split)
  qed
  then show ?thesis unfolding controller_record_def by (intro keep_rules base_rules)
qed

lemma k_adapter:
  "keeps I (adapter_begin_run env t r)" "keeps I (adapter_attach t r th)" "keeps I (adapter_resume t r)"
  unfolding adapter_begin_run_def adapter_attach_def adapter_resume_def
  by (intro keep_rules base_rules k_new_controller k_with_durable;
      auto simp: set_same_durable checkpoints split: prod.splits)+

lemmas cancel_rules = log_rules k_cancellation_for k_clear k_request_cancellation k_cancel_reads
  k_new_controller k_controller_record k_adapter k_handle

lemma k_announce: "own (t, r) \<Longrightarrow> r \<noteq> [] \<Longrightarrow> keeps I (record_and_announce env t r corr i reason)"
  unfolding record_and_announce_def by (intro keep_rules cancel_rules)

lemma k_interrupt: "own (t, r) \<Longrightarrow> r \<noteq> [] \<Longrightarrow> keeps I (interrupt_if_cancelled env t r reason ctl)"
  unfolding interrupt_if_cancelled_def by (intro keep_rules cancel_rules k_announce)

lemma k_controller_fields: "keeps I (controller_thread ctl d)" "keeps I (controller_latest ctl d)"
  unfolding controller_thread_def controller_latest_def by (intro keep_rules cancel_rules)+

lemma k_transition: "own (t, r) \<Longrightarrow> r \<noteq> [] \<Longrightarrow>
  keeps I (transition_to_cancelled env t r s p corr ctl n ck)"
  unfolding transition_to_cancelled_def cancel_checkpoint_def mark_cancelled_def
  by (intro keep_rules cancel_rules k_announce k_controller_fields k_update)
    (simp_all add: run_core_def cancelled_state_def)

lemma k_controllers: "keeps I (controller_for_run env t r b)" "keeps I (controller_for_cancellation env t r)"
  unfolding controller_for_cancellation_def controller_for_run_def by (intro keep_rules cancel_rules)+

lemma k_compact_service: "keeps I (compact_service env t r trg)"
  unfolding compact_service_def
  by (intro keep_rules log_rules k_with_durable) (auto simp: compactions split: prod.splits)

lemma k_persist: "own (t, r) \<Longrightarrow> r \<noteq> [] \<Longrightarrow> keeps I (persist_compaction env t r trg)"
  unfolding persist_compaction_def
  by (intro keep_rules log_rules k_compact_service k_update) (simp_all add: run_core_def)

text \<open>\<open>k_get_run_bind\<close> names the run an operation found: it is the one asked for, or the latest.\<close>

lemma k_cancel_run:
  assumes "\<And>x. (\<forall>n. rid = Some n \<longrightarrow> n \<noteq> [] \<longrightarrow> x = n) \<Longrightarrow> own (t, x)"
  shows "keeps I (cancel_run env t rid reason)"
  unfolding cancel_run_def
  by (intro k_get_run_bind keep_rules cancel_rules k_controllers k_transition) (use assms in auto)

lemma k_probe: "keeps I (probe_cancellation x)"
  unfolding probe_cancellation_def by (intro keep_rules cancel_rules)

lemma k_prog:
  assumes own: "own (ec_task_id x, ec_run_id x)" and ne: "ec_run_id x \<noteq> []"
    and loc: "local_prog (ec_task_id x) (ec_run_id x) p"
  shows "keeps I (run_prog env x p ts)"
  using loc
proof (induction p arbitrary: ts)
  case (WriteMemory m k)
  have "keeps I (with_durable () (\<lambda>d. case write_memory m (d_memory d) of
        Inl e \<Rightarrow> (Inl e, d) | Inr t \<Rightarrow> (Inr (), d\<lparr>d_memory := t\<rparr>)))"
    by (rule k_with_durable) (auto simp: set_same_durable split: sum.splits dest: memory)
  then show ?case using WriteMemory by (auto intro!: keep_rules)
next
  case (ClientCancel s k)
  have "keeps I (cancel_run env (ec_task_id x) (Some (ec_run_id x)) s)"
    by (rule k_cancel_run) (use own ne in auto)
  then show ?case using ClientCancel by (auto intro!: keep_rules)
next
  case (SaveCheckpoint s k)
  then show ?case by (auto intro!: keep_rules cancel_rules)
next
  case (Emit ty p k)
  then show ?case using own ne by (auto simp: on_harness_event_def intro!: keep_rules k_handle)
next
  case (Govern c k)
  then show ?case using own ne by (auto intro!: keep_rules k_govern)
next
  case (InterruptCheck s k)
  then show ?case using own ne by (auto intro!: keep_rules k_interrupt)
next
  case (InstallSkill a k)
  then show ?case using own ne by (auto intro!: keep_rules k_install_tool)
qed (auto intro!: keep_rules k_probe k_sandbox_read k_sandbox_list k_sandbox_exists k_now k_new_id k_sandbox_write
    k_sandbox_exec k_read_durable)

lemma k_run_harness:
  assumes own: "own (ec_task_id x, ec_run_id x)" and ne: "ec_run_id x \<noteq> []"
  shows "keeps I (run_harness env x s identity resume)"
proof -
  have "local_prog (ec_task_id x) (ec_run_id x)
      (rt_harness env (execution_request_of s (ec_task_id x) (ec_run_id x) identity ms ctl))" for ms ctl
    using harness by (simp add: local_harness_def execution_request_of_def) (metis execution_request.select_convs(1,2))
  then show ?thesis unfolding run_harness_def
    by (intro keep_rules cancel_rules k_prog own ne)
qed

lemma k_outputs: "own (ec_task_id x, ec_run_id x) \<Longrightarrow> ec_run_id x \<noteq> [] \<Longrightarrow> keeps I (register_outputs env x ps n)"
  unfolding register_outputs_def by (intro keep_rules skill_rules)

lemma k_finish: "own (ec_task_id x, ec_run_id x) \<Longrightarrow> ec_run_id x \<noteq> [] \<Longrightarrow> keeps I (finish_run env x r n resume)"
  unfolding finish_run_def finish_paused_def finish_completed_def finish_failed_def
  by (intro keep_rules cancel_rules k_transition k_update)
    (simp_all add: run_core_def awaiting_state_def paused_state_def completed_state_def failed_state_def)

lemma k_begin: "own (t, r) \<Longrightarrow> r \<noteq> [] \<Longrightarrow> keeps I (begin_execution env t r corr resume ctl s)"
  unfolding begin_execution_def
  by (intro keep_rules cancel_rules k_controller_fields k_update)
    (simp_all add: run_core_def execution_started_def)

lemma k_execute: "own (t, r) \<Longrightarrow> r \<noteq> [] \<Longrightarrow> keeps I (execute_run env t r corr identity resume)"
  unfolding execute_run_def
  by (intro keep_rules cancel_rules k_controllers k_transition k_begin k_sandbox_for_run k_run_harness
      k_outputs k_finish k_persist) simp_all

subsection \<open>The operations of the clients\<close>

lemma k_launch: "own (t, r) \<Longrightarrow> r \<noteq> [] \<Longrightarrow> keeps I (launch_run env t r corr identity resume background)"
  unfolding launch_run_def
proof (intro keep_rules k_execute, assumption+, rule keeps_modS)
  fix w assume "own (t, r)" "r \<noteq> []" "I w"
  show "I (w\<lparr>w_workers := w_workers w @ [\<lparr>wk_key = (t, r), wk_correlation_id = corr,
      wk_identity = identity, wk_resume = resume\<rparr>]\<rparr>)"
    by (rule frame[of w]) (use workers[of w] \<open>I w\<close> \<open>own (t, r)\<close> \<open>r \<noteq> []\<close> in \<open>simp_all add: workers_ok_def\<close>)
qed

lemma k_worker: "keeps I (run_worker env i)"
proof (rule keepsI)
  fix w assume w: "I w"
  show "I (snd (run_worker env i w))"
  proof (cases "length (w_workers w) \<le> i")
    case True
    then show ?thesis using w by (simp add: run_worker_def bindA_run)
  next
    case False
    let ?k = "w_workers w ! i"
    have "own (wk_key ?k) \<and> snd (wk_key ?k) \<noteq> []"
      using workers[OF w] False by (auto simp: workers_ok_def list_all_length)
    then have ex: "keeps I (execute_run env (fst (wk_key ?k)) (snd (wk_key ?k)) (wk_correlation_id ?k)
        (wk_identity ?k) (wk_resume ?k))"
      using k_execute[of "fst (wk_key ?k)" "snd (wk_key ?k)"] by simp
    have removed: "keeps I (modS (\<lambda>w. w\<lparr>w_workers := take i (w_workers w) @ drop (Suc i) (w_workers w)\<rparr>))"
    proof (rule keeps_modS)
      fix w assume "I w"
      show "I (w\<lparr>w_workers := take i (w_workers w) @ drop (Suc i) (w_workers w)\<rparr>)"
        by (rule frame[of w]) (use workers[of w] \<open>I w\<close> in \<open>auto simp: workers_ok_def list_all_iff dest: in_set_takeD in_set_dropD\<close>)
    qed
    have "keeps I (bindA (tryA (execute_run env (fst (wk_key ?k)) (snd (wk_key ?k)) (wk_correlation_id ?k)
        (wk_identity ?k) (wk_resume ?k))) (\<lambda>_.
        modS (\<lambda>w. w\<lparr>w_workers := take i (w_workers w) @ drop (Suc i) (w_workers w)\<rparr>)))"
      by (intro keep_rules ex removed)
    then show ?thesis using w False by (simp add: run_worker_def bindA_run keeps_def Let_def)
  qed
qed

lemma k_start: "keeps I (start_run env corr p)"
  unfolding start_run_def
proof (rule keeps_bind[OF keeps_liftR], rule k_allocate_bind)
  fix roots t r at assume "own (t, r)" "r \<noteq> []"
  then show "keeps I (case (t, r, at) of (task, run, at) \<Rightarrow>
     thenA (write_run_metrics env task run (no_change\<lparr>mc_started_at := Some at\<rparr>))
     (thenA (seed_run_message_history env task run (sp_objective p) (sp_constraints p) (sp_success_criteria p))
     (thenA (publish env task run corr (event_value TASK_CREATED) at runner_source (created_payload p roots))
     (thenA (launch_run env task run corr (sp_identity p) False (sp_background p))
            (ret (task, run, at))))))"
    by (simp only: prod.case) (intro keep_rules log_rules k_launch)
qed

lemma k_snapshot: "keeps I (get_task_snapshot env t rid)"
  unfolding get_task_snapshot_def by (intro keep_rules log_rules)

text \<open>The run an operation on \<open>(t, rid)\<close> finds may be touched.\<close>

definition found_own :: "string \<Rightarrow> string option \<Rightarrow> bool" where
  "found_own t rid \<longleftrightarrow> (\<forall>x. (\<forall>n. rid = Some n \<longrightarrow> n \<noteq> [] \<longrightarrow> x = n) \<longrightarrow> own (t, x))"

lemma found_own_run: "found_own t rid \<Longrightarrow> rs_task_id s = t \<Longrightarrow>
  (\<forall>n. rid = Some n \<longrightarrow> n \<noteq> [] \<longrightarrow> rs_run_id s = n) \<Longrightarrow> own (rs_task_id s, rs_run_id s)"
  by (simp add: found_own_def)

lemma k_resume: "found_own t rid \<Longrightarrow> keeps I (resume_task env t rid identity background)"
  unfolding resume_task_def
  by (intro k_get_run_bind keep_rules cancel_rules k_launch k_snapshot found_own_run)

lemma k_reply: "found_own t rid \<Longrightarrow> keeps I (reply_to_run env t m rid identity background)"
  unfolding reply_to_run_def
  by (intro k_get_run_bind keep_rules cancel_rules k_launch k_snapshot found_own_run)

lemma k_compact: "found_own t rid \<Longrightarrow> keeps I (compact_task env t rid)"
  unfolding compact_task_def
  by (intro k_get_run_bind keep_rules log_rules k_persist k_snapshot found_own_run)

lemma k_skill_install: "found_own t rid \<Longrightarrow> keeps I (skill_install env corr t rid a)"
  unfolding skill_install_def
  by (intro k_get_run_bind keep_rules k_sandbox_for_run k_install_method found_own_run)

lemma k_grant: "keeps I (record_grant g)"
  unfolding record_grant_def by (rule k_with_durable) (simp add: grants)

lemma k_approve_skill: "found_own (ap_task_id a) (Some (ap_run_id a)) \<Longrightarrow> keeps I (approve_skill_install env a corr)"
  unfolding approve_skill_install_def by (intro keep_rules log_rules k_grant k_skill_install)

lemma k_decide: "keeps I (decide_approval env i dec)"
proof -
  have "keeps I (\<lambda>w. case w_durable w of
     None \<Rightarrow> (Inl (ValueError ''task.approve requires durable runtime services''), w)
   | Some d \<Rightarrow> (case decide i dec at (d_approvals d) of
       Inl e \<Rightarrow> (Inl e, w) | Inr (a, t) \<Rightarrow> (Inr a, w\<lparr>w_durable := Some (d\<lparr>d_approvals := t\<rparr>)\<rparr>)))" for at
  proof (rule keepsI)
    fix w assume w: "I w"
    have "I (w\<lparr>w_durable := Some (d\<lparr>d_approvals := t\<rparr>)\<rparr>)"
      if "w_durable w = Some d" "decide i dec at (d_approvals d) = Inr (a, t)" for d a t
      using decisions[OF w that] by (simp add: set_durable_def)
    then show "I (snd (case w_durable w of
        None \<Rightarrow> (Inl (ValueError ''task.approve requires durable runtime services''), w)
      | Some d \<Rightarrow> (case decide i dec at (d_approvals d) of
        Inl e \<Rightarrow> (Inl e, w) | Inr (a, t) \<Rightarrow> (Inr a, w\<lparr>w_durable := Some (d\<lparr>d_approvals := t\<rparr>)\<rparr>))))"
      using w by (auto split: option.split sum.split)
  qed
  then show ?thesis unfolding decide_approval_def by (intro keep_rules log_rules)
qed

lemma k_approve:
  assumes own: "\<And>k. own k"
  shows "keeps I (approve env t i dec rid identity)"
proof -
  have found: "found_own t rid" for t rid using own by (simp add: found_own_def)
  show ?thesis
    unfolding approve_def approve_granted_def approve_rejected_def
    by (intro k_get_run_bind keep_rules skill_rules k_decide k_grant k_approve_skill k_resume k_snapshot
        k_update found own) (simp_all add: run_core_def rejected_state_def)
qed

lemma k_restore_event: "keeps I (restore_event env t r e)"
proof -
  have "keeps I (\<lambda>w. case restore_artifact (host_of env w) a path (w_artifacts w) of
      Inl x \<Rightarrow> (if skipped_restore_error x then (Inr (), w) else (Inl x, w))
    | Inr (a, s) \<Rightarrow> (Inr (), w\<lparr>w_artifacts := s\<rparr>))" for a path
    by (rule keepsI) (auto split: sum.splits dest: restored)
  then show ?thesis unfolding restore_event_def by (intro keep_rules)
qed

lemma k_loaded: "keeps I (ensure_artifacts_loaded env t r)"
  unfolding ensure_artifacts_loaded_def
  by (intro keep_rules log_rules k_sandbox_for_run k_restore_event k_frame) simp

lemma k_list_artifacts: "keeps I (list_task_artifacts env t rid pc ty)"
  unfolding list_task_artifacts_def by (intro keep_rules log_rules k_loaded)

lemma k_preview: "keeps I (get_task_artifact_preview env t i rid)"
proof -
  have "keeps I (\<lambda>w. (get_artifact_preview (host_of env w) (w_artifacts w) t i x, w))" for x
    by (rule keepsI) simp
  then show ?thesis unfolding get_task_artifact_preview_def by (intro keep_rules log_rules k_loaded)
qed

lemma k_perform:
  assumes "\<And>k. own k"
  shows "keeps I (perform env x)"
proof -
  have found: "found_own t rid" for t rid using assms by (simp add: found_own_def)
  show ?thesis
    by (cases x; simp only: perform.simps ignore_result_def)
      (intro keep_rules k_start k_resume k_reply k_cancel_run k_approve k_compact k_skill_install
        k_list_artifacts k_preview k_snapshot k_worker found assms)+
qed

text \<open>What holds at the start holds whenever the runtime is idle between two requests.\<close>

lemma reachable_keeps:
  assumes "\<And>k. own k" and "reachable env w0 w" and "I w0"
  shows "I w"
  using assms(2)
proof induction
  case (move w w')
  then show ?case using k_perform[OF assms(1)] by (auto elim!: runtime_stepE dest: keepsD)
qed (rule assms(3))

end

end
