(* ===== verification/Recovery_Service.thy ===== *)
theory Recovery_Service
  imports Task_Runner
begin

text \<open>
  \<open>apps/runtime/local_agent_runtime/recovery_service.py\<close>: at start-up the runs are rebuilt from the
  persisted events and the checkpoint metadata. \<open>reversed\<close> searches are \<open>first_some\<close> on the reversed list.
\<close>

section \<open>Reading a run off its events\<close>

fun latest_index_from :: "nat \<Rightarrow> (persisted_event \<Rightarrow> bool) \<Rightarrow> persisted_event list \<Rightarrow> int \<Rightarrow> int" where
  "latest_index_from n P [] acc = acc"
| "latest_index_from n P (e # es) acc = latest_index_from (Suc n) P es (if P e then int n else acc)"

definition latest_index :: "(persisted_event \<Rightarrow> bool) \<Rightarrow> persisted_event list \<Rightarrow> int" where
  "latest_index P es = latest_index_from 0 P es (-1)"

definition has_unresolved_approval :: "persisted_event list \<Rightarrow> bool" where
  "has_unresolved_approval es =
     (latest_index (\<lambda>e. pe_type e \<in> {''task.resumed'', ''task.failed'', ''task.completed''}) es
      < latest_index (\<lambda>e. pe_type e = ''approval.requested'') es)"

definition status_from_events :: "persisted_event list \<Rightarrow> resume_handle option \<Rightarrow> task_status" where
  "status_from_events es handle =
     (let latest_type = pe_type (last es) in
      if latest_type = ''task.completed'' then COMPLETED
      else if latest_type = ''task.failed'' then FAILED
      else if latest_type = ''approval.requested'' \<or> has_unresolved_approval es then AWAITING_APPROVAL
      else if latest_type = ''task.paused'' then PAUSED
      else if latest_type = ''task.resumed'' then EXECUTING
      else (case handle of
          None \<Rightarrow> EXECUTING
        | Some h \<Rightarrow> if rh_latest_reason h = Some ''run_completed'' then COMPLETED
                    else if rh_latest_id h \<noteq> None then PAUSED else EXECUTING))"

definition stripped_value :: "pyval \<Rightarrow> string option" where
  "stripped_value v = map_option py_strip (nonblank_str v)"

definition phase_from_events :: "persisted_event list \<Rightarrow> task_status \<Rightarrow> string" where
  "phase_from_events es status =
     (case first_some (\<lambda>e. stripped_value (dict_get (pe_payload e) ''phase'')) (rev es) of
        Some phase \<Rightarrow> phase
      | None \<Rightarrow> (case status of
          AWAITING_APPROVAL \<Rightarrow> ''awaiting_approval'' | PAUSED \<Rightarrow> ''paused'' | COMPLETED \<Rightarrow> ''completed''
        | FAILED \<Rightarrow> ''failed'' | _ \<Rightarrow> ''executing''))"

definition event_summary :: "persisted_event \<Rightarrow> string option" where
  "event_summary e = (if pe_type e = ''recovery.discovered'' then None
     else first_some (\<lambda>k. stripped_value (dict_get (pe_payload e) k)) [''summary'', ''error''])"

definition latest_summary :: "persisted_event list \<Rightarrow> string option" where
  "latest_summary es = first_some event_summary (rev es)"

definition recovered_pause_reason :: "persisted_event list \<Rightarrow> task_status \<Rightarrow> string option" where
  "recovered_pause_reason es status =
     (if status = AWAITING_APPROVAL then Some ''awaiting approval''
      else first_some (\<lambda>e. if pe_type e = ''task.paused''
             then stripped_value (dict_get (pe_payload e) ''reason'') else None) (rev es))"

definition event_approval_id :: "persisted_event \<Rightarrow> string option" where
  "event_approval_id e = (if pe_type e \<noteq> ''approval.requested'' then None
     else (case as_dict (dict_get (pe_payload e) ''approval'') of
         None \<Rightarrow> None | Some a \<Rightarrow> stripped_value (dict_get a ''approval_id'')))"

definition recovered_approval_id :: "persisted_event list \<Rightarrow> string option" where
  "recovered_approval_id es = first_some event_approval_id (rev es)"

text \<open>The answer may be \<open>None\<close> before the search ends: the inner option is the answer.\<close>

definition event_subagent :: "persisted_event \<Rightarrow> string option option" where
  "event_subagent e =
     (if pe_type e = ''subagent.completed'' then Some None
      else if pe_type e = ''subagent.started'' then
        map_option Some (stripped_value (dict_get (pe_payload e) ''role''))
      else None)"

definition latest_active_subagent :: "persisted_event list \<Rightarrow> string option" where
  "latest_active_subagent es = (case first_some event_subagent (rev es) of None \<Rightarrow> None | Some x \<Rightarrow> x)"

definition event_todos :: "persisted_event \<Rightarrow> todo_item list option" where
  "event_todos e =
     (if pe_type e \<noteq> ''tool.called'' then None
      else if py_strip (py_str (dict_get_or (pe_payload e) ''tool'' (PStr []))) \<noteq> ''write_todos'' then None
      else (case as_dict (dict_get (pe_payload e) ''arguments'') of
          None \<Rightarrow> Some [] | Some args \<Rightarrow> Some (normalize_todos (dict_get args ''todos''))))"

definition latest_todos :: "persisted_event list \<Rightarrow> todo_item list" where
  "latest_todos es = (case first_some event_todos (rev es) of None \<Rightarrow> [] | Some ts \<Rightarrow> ts)"

definition event_failure :: "persisted_event \<Rightarrow> failure_info option" where
  "event_failure e = (if pe_type e \<noteq> ''task.failed'' then None
     else map_option (\<lambda>m. \<lparr>fi_message = m, fi_code = None\<rparr>)
       (stripped_value (let err = dict_get (pe_payload e) ''error'' in
          if py_truthy err then err else dict_get (pe_payload e) ''summary'')))"

definition failure_from_events :: "persisted_event list \<Rightarrow> failure_info option" where
  "failure_from_events es = first_some event_failure (rev es)"

definition strings_of :: "pyval \<Rightarrow> string list" where
  "strings_of v = (case v of PList xs \<Rightarrow> List.map_filter as_str xs | _ \<Rightarrow> [])"

definition dict_of :: "pyval \<Rightarrow> pydict" where
  "dict_of v = (case v of PDict d \<Rightarrow> d | _ \<Rightarrow> [])"

definition recovered_links :: "(string \<times> string) list" where
  "recovered_links = [(''artifacts'', ''task.artifacts.list''), (''approve'', ''task.approve''),
     (''resume'', ''task.resume''), (''events'', ''task.logs.stream'')]"

definition rebuild_run_state :: "persisted_event list \<Rightarrow> checkpoint_db \<Rightarrow> run_state" where
  "rebuild_run_state es db =
     (let first_event = hd es;
          task_created = (case find (\<lambda>e. pe_type e = ''task.created'') es of
             Some e \<Rightarrow> e | None \<Rightarrow> first_event);
          payload = pe_payload task_created;
          task = pe_task_id first_event; run = pe_run_id first_event;
          handle = get_resume_handle db task run;
          status = status_from_events es handle;
          latest_id = (case handle of None \<Rightarrow> None | Some h \<Rightarrow> rh_latest_id h)
      in \<lparr>rs_task_id = task, rs_run_id = run, rs_status = status,
          rs_objective = py_str (dict_get_or payload ''objective'' (PStr [])),
          rs_created_at = pe_timestamp task_created, rs_updated_at = pe_timestamp (last es),
          rs_accepted_at = pe_timestamp task_created,
          rs_workspace_roots = strings_of (dict_get payload ''workspace_roots''),
          rs_allowed_capabilities = strings_of (dict_get payload ''allowed_capabilities''),
          rs_metadata = dict_of (dict_get payload ''metadata''), rs_runtime_user_id = None,
          rs_constraints = strings_of (dict_get payload ''constraints''),
          rs_success_criteria = strings_of (dict_get payload ''success_criteria''),
          rs_current_phase = Some (phase_from_events es status), rs_latest_summary = latest_summary es,
          rs_active_subagent = latest_active_subagent es,
          rs_artifact_count = int (length (filter (\<lambda>e. pe_type e = ''artifact.created'') es)),
          rs_rejection_count = 0, rs_last_event_at = Some (pe_timestamp (last es)),
          rs_failure = failure_from_events es, rs_last_rejection = None, rs_remote_auths = [],
          rs_awaiting_approval = (status = AWAITING_APPROVAL),
          rs_pending_approval_id = (if status = AWAITING_APPROVAL then recovered_approval_id es else None),
          rs_is_resumable = (status \<in> {PAUSED, AWAITING_APPROVAL} \<and> latest_id \<noteq> None),
          rs_pause_reason = recovered_pause_reason es status, rs_todos = latest_todos es,
          rs_thread_id = (case handle of None \<Rightarrow> None | Some h \<Rightarrow> Some (rh_thread_id h)),
          rs_checkpoint_id = latest_id, rs_is_compacted = False, rs_compaction_id = None,
          rs_compaction_trigger = None, rs_links = recovered_links\<rparr>)"

section \<open>\<open>RecoveryService.recover\<close>\<close>

definition append_persisted :: "persisted_event \<Rightarrow> event_table \<Rightarrow> event_table" where
  "append_persisted p t = tbl_replace (pe_id p) (stored_event p) t"

definition discovered_event :: "string \<Rightarrow> run_state \<Rightarrow> persisted_event" where
  "discovered_event i s = \<lparr>pe_id = i, pe_type = ''recovery.discovered'', pe_timestamp = rs_updated_at s,
     pe_task_id = rs_task_id s, pe_run_id = rs_run_id s, pe_correlation_id = None,
     pe_source = [(''kind'', PStr ''runtime''), (''component'', PStr ''recovery-service'')],
     pe_payload = [(''status'', PStr (status_value (rs_status s))),
       (''latest_checkpoint_id'', opt_str (rs_checkpoint_id s)), (''thread_id'', opt_str (rs_thread_id s)),
       (''summary'', PStr ''Recovered resumable run metadata at runtime startup.'')]\<rparr>"

definition recover_run :: "runtime_env \<Rightarrow> run_key \<Rightarrow> unit wact" where
  "recover_run env k =
     bindA (read_durable [] (\<lambda>d. get_events (d_events d) (fst k) (Some (snd k)) None)) (\<lambda>es.
     if es = [] then ret () else
     bindA (read_durable empty_checkpoints d_checkpoints) (\<lambda>db.
     let s = rebuild_run_state es db in
     thenA (create_run s)
       (whenA (rs_is_resumable s) (bindA (new_id env ''evt'') (\<lambda>i.
          with_durable () (\<lambda>d. (Inr (), d\<lparr>d_events := append_persisted
            ((discovered_event i s)\<lparr>pe_task_id := fst k, pe_run_id := snd k\<rparr>) (d_events d)\<rparr>)))))))"

definition recover :: "runtime_env \<Rightarrow> unit wact" where
  "recover env = bindA (read_durable [] (\<lambda>d. list_run_keys (d_events d))) (\<lambda>keys.
     foldA (\<lambda>k _. recover_run env k) keys ())"

definition optional_str :: "pyval \<Rightarrow> string option" where
  "optional_str v = nonblank_str v"

definition persisted_to_runtime :: "persisted_event \<Rightarrow> runtime_event result" where
  "persisted_to_runtime p =
     bindR (source_kind_of (py_str (dict_get_or (pe_source p) ''kind'' (PStr ''runtime'')))) (\<lambda>kind.
       Inr (mk_runtime_event \<lparr>ev_id = pe_id p, ev_type = pe_type p, ev_timestamp = pe_timestamp p,
         ev_correlation_id = pe_correlation_id p, ev_task_id = Some (pe_task_id p),
         ev_run_id = Some (pe_run_id p),
         ev_source = \<lparr>es_kind = kind, es_name = optional_str (dict_get (pe_source p) ''name''),
           es_role = optional_str (dict_get (pe_source p) ''role''),
           es_component = optional_str (dict_get (pe_source p) ''component'')\<rparr>,
         ev_payload = pe_payload p\<rparr>))"

section \<open>The search for an open approval\<close>

lemma latest_index_from_append:
  "latest_index_from n P (es @ [e]) acc =
   (if P e then int (n + length es) else latest_index_from n P es acc)"
  by (induction es arbitrary: n acc) auto

lemma latest_index_snoc:
  "latest_index P (es @ [e]) = (if P e then int (length es) else latest_index P es)"
  by (simp add: latest_index_def latest_index_from_append)

lemma latest_index_Nil [simp]: "latest_index P [] = -1"
  by (simp add: latest_index_def)

lemma latest_index_less: "latest_index P es < int (length es)"
  by (induction es rule: rev_induct) (auto simp: latest_index_snoc)

text \<open>An approval is open exactly when it was requested after the last event that settles one.\<close>

lemma has_unresolved_snoc:
  "has_unresolved_approval (es @ [e]) =
   (if pe_type e \<in> {''task.resumed'', ''task.failed'', ''task.completed''} then False
    else if pe_type e = ''approval.requested'' then True else has_unresolved_approval es)"
  using latest_index_less[of "\<lambda>e. pe_type e = ''approval.requested''" es]
    latest_index_less[of "\<lambda>e. pe_type e \<in> {''task.resumed'', ''task.failed'', ''task.completed''}" es]
  by (auto simp: has_unresolved_approval_def latest_index_snoc)

lemma has_unresolved_Nil [simp]: "\<not> has_unresolved_approval []"
  by (simp add: has_unresolved_approval_def)

lemma has_unresolved_iff:
  "has_unresolved_approval es \<longleftrightarrow> (\<exists>before a after. es = before @ a # after \<and> pe_type a = ''approval.requested'' \<and>
     (\<forall>e \<in> set after. pe_type e \<notin> {''task.resumed'', ''task.failed'', ''task.completed''}))"
proof (induction es rule: rev_induct)
  case (snoc e es)
  let ?R = "{''task.resumed'', ''task.failed'', ''task.completed''}"
  show ?case
  proof
    assume l: "has_unresolved_approval (es @ [e])"
    then have e: "pe_type e \<notin> ?R" by (auto simp: has_unresolved_snoc split: if_splits)
    show "\<exists>before a after. es @ [e] = before @ a # after \<and> pe_type a = ''approval.requested'' \<and>
        (\<forall>e \<in> set after. pe_type e \<notin> ?R)"
    proof (cases "pe_type e = ''approval.requested''")
      case True
      then show ?thesis by (intro exI[of _ es] exI[of _ e] exI[of _ "[]"]) simp
    next
      case False
      then have "has_unresolved_approval es" using l e by (auto simp: has_unresolved_snoc)
      then obtain b a f where "es = b @ a # f" "pe_type a = ''approval.requested''" "\<forall>e \<in> set f. pe_type e \<notin> ?R"
        using snoc.IH by blast
      then show ?thesis using e by (intro exI[of _ b] exI[of _ a] exI[of _ "f @ [e]"]) auto
    qed
  next
    assume "\<exists>before a after. es @ [e] = before @ a # after \<and> pe_type a = ''approval.requested'' \<and>
        (\<forall>e \<in> set after. pe_type e \<notin> ?R)"
    then obtain b a f where baf: "es @ [e] = b @ a # f" "pe_type a = ''approval.requested''"
        "\<forall>e \<in> set f. pe_type e \<notin> ?R" by blast
    show "has_unresolved_approval (es @ [e])"
    proof (cases f rule: rev_cases)
      case Nil
      then show ?thesis using baf by (simp add: has_unresolved_snoc)
    next
      case (snoc f' e')
      then have "es = b @ a # f'" "e = e'" using baf(1) by (auto simp: append_eq_append_conv2)
      moreover have "\<forall>e \<in> set f'. pe_type e \<notin> ?R" using baf(3) snoc by simp
      then have "has_unresolved_approval es"
        using snoc.IH calculation(1) baf(2) by blast
      moreover have "pe_type e \<notin> ?R" using baf(3) snoc calculation(2) by simp
      ultimately show ?thesis unfolding has_unresolved_snoc by simp
    qed
  qed
qed simp

section \<open>Properties\<close>

lemma json_str_list: "json_sorted (str_list xs) = str_list xs"
  by (induction xs) (simp_all add: str_list_def)

lemma strings_of_str_list [simp]: "strings_of (str_list xs) = xs"
  by (induction xs) (simp_all add: strings_of_def str_list_def List.map_filter_def)

lemma created_payload_get:
  "dict_get (json_dict (created_payload p roots)) k = json_sorted (dict_get (created_payload p roots) k)"
  by (rule dict_get_json_dict) (simp add: created_payload_def)


definition sample_task :: start_params where
  "sample_task = \<lparr>sp_objective = ''o'', sp_workspace_roots = [], sp_identity = ''i'', sp_runtime_user_id = None,
     sp_allowed_capabilities = [''c''], sp_metadata = [(''b'', PNone), (''a'', PNone)], sp_constraints = [],
     sp_success_criteria = [], sp_background = True\<rparr>"

definition sample_created :: event_envelope where
  "sample_created = \<lparr>ev_id = ''e'', ev_type = ''task.created'', ev_timestamp = ''1'', ev_correlation_id = None,
     ev_task_id = Some ''t'', ev_run_id = Some ''r'', ev_source = runner_source,
     ev_payload = created_payload sample_task [''/workspace'']\<rparr>"


text \<open>What recovery forgets: no event makes a run cancelled, and the name of a subagent is looked up under a key its events do not have.\<close>

lemma recovery_forgets_cancellation: "status_from_events es h \<noteq> CANCELLED"
  by (simp add: status_from_events_def Let_def split: option.split)

lemma recovery_ignores_subagent_id:
  "pe_payload e = [(''subagentId'', PStr i)] \<Longrightarrow> event_subagent e \<in> {None, Some None}"
  by (simp add: event_subagent_def stripped_value_def nonblank_str_def)

end
