(* ===== verification/Runtime_Correctness.thy ===== *)
theory Runtime_Correctness
  imports Runtime_Invariants Recovery_Service
begin

text \<open>
  What holds of a runtime at work, for every harness that governs its own run: interpretations of
  \<open>world_invariant\<close> and the properties of reachable worlds that follow from them.
\<close>

section \<open>How metrics and events are written\<close>

definition base_metrics :: "runtime_env \<Rightarrow> nat \<Rightarrow> durable \<Rightarrow> string \<Rightarrow> string \<Rightarrow> run_metrics" where
  "base_metrics env n d t r = (case read_metrics (d_metrics d) t r of
     Some m \<Rightarrow> m | None \<Rightarrow> (empty_metrics t r)\<lparr>mt_last_updated_at := Some (rt_now env n)\<rparr>)"

lemma write_run_metrics_None:
  "w_durable w = None \<Longrightarrow> write_run_metrics env t r c w = (Inr (), w)"
  by (simp add: write_run_metrics_def bindA_run has_durable_def)

lemma write_run_metrics_Some:
  assumes "w_durable w = Some d"
  shows "\<exists>n now. w_tick w \<le> n \<and> write_run_metrics env t r c w = (Inr (), w\<lparr>w_tick := n, w_durable := Some
    (d\<lparr>d_metrics := write_metrics (apply_metrics c now (base_metrics env (w_tick w) d t r)) (d_metrics d)\<rparr>)\<rparr>)"
proof (cases "read_metrics (d_metrics d) t r")
  case None
  show ?thesis
    by (rule exI[of _ "Suc (Suc (w_tick w))"], rule exI[of _ "rt_now env (Suc (w_tick w))"])
      (use assms None in \<open>simp add: write_run_metrics_def bindA_run has_durable_def read_durable_def
        new_metrics_record_def utc_now_def with_durable_def base_metrics_def\<close>)
next
  case (Some m)
  show ?thesis
    by (rule exI[of _ "Suc (w_tick w)"], rule exI[of _ "rt_now env (w_tick w)"])
      (use assms Some in \<open>simp add: write_run_metrics_def bindA_run has_durable_def read_durable_def
        utc_now_def with_durable_def base_metrics_def\<close>)
qed

definition published :: "runtime_env \<Rightarrow> string \<Rightarrow> string \<Rightarrow> world \<Rightarrow> world \<Rightarrow> event_envelope \<Rightarrow> bool" where
  "published env t r w w' e \<longleftrightarrow> ev_id e = ''evt_'' @ take 12 (rt_uuid env (w_tick w)) \<and>
     event_key e = Some (t, r) \<and> w_tick w < w_tick w' \<and>
     w_runs w' = w_runs w \<and> w_artifacts w' = w_artifacts w \<and> w_workers w' = w_workers w \<and>
     bus_publish (mk_runtime_event e) (w_bus w) = Inr (w_bus w') \<and>
     (case w_durable w of None \<Rightarrow> w_durable w' = None
      | Some d \<Rightarrow> \<exists>te now. append_event e (d_events d) = Inr te \<and> w_durable w' = Some (d\<lparr>d_events := te,
          d_metrics := write_metrics (apply_metrics (no_change\<lparr>mc_events := 1\<rparr>) now
          (base_metrics env (Suc (w_tick w)) d t r))
            (d_metrics d)\<rparr>))"

lemma publish_run:
  assumes "publish env t r corr ty at src p w = (x, w')"
  shows "x = Inr () \<and> (\<exists>e. published env t r w w' e)"
proof -
  let ?i = "''evt_'' @ take 12 (rt_uuid env (w_tick w))"
  let ?e = "\<lparr>ev_id = ?i, ev_type = ty, ev_timestamp = at, ev_correlation_id = corr, ev_task_id = Some t,
    ev_run_id = Some r, ev_source = src, ev_payload = p\<rparr>"
  have key: "event_key ?e = Some (t, r)" by (simp add: event_key_def)
  obtain b where b: "bus_publish (mk_runtime_event ?e) (w_bus w) = Inr b"
    using bus.add_total[of ?e "w_bus w"] key by auto
  let ?w1 = "w\<lparr>w_tick := Suc (w_tick w), w_bus := b\<rparr>"
  have run: "publish env t r corr ty at src p w =
      thenA (store_event ?e) (write_run_metrics env t r (no_change\<lparr>mc_events := 1\<rparr>)) ?w1"
  proof -
    have new: "new_id env ''evt'' w = (Inr ?i, w\<lparr>w_tick := Suc (w_tick w)\<rparr>)"
      by (simp add: new_id_def uuid_hex_def bindA_run)
    have "bus_put ?e (w\<lparr>w_tick := Suc (w_tick w)\<rparr>) = (Inr (), ?w1)"
      using b by (simp add: bus_put_def)
    then show ?thesis 
      unfolding publish_def bindA_ok[where m = "new_id env ''evt''" and s = w, OF new] Let_def by (rule thenA_ok)
  qed
  show ?thesis
  proof (cases "w_durable w")
    case None
    then have "publish env t r corr ty at src p w = (Inr (), ?w1)"
      unfolding run by (simp add: thenA_run store_event_def with_durable_def write_run_metrics_None)
    then show ?thesis using assms b key None
      by (auto simp: published_def intro!: exI[of _ ?e])
  next
    case (Some d)
    obtain te where te: "append_event ?e (d_events d) = Inr te"
      using event_rows.add_total[of ?e "d_events d"] key by auto
    let ?d2 = "d\<lparr>d_events := te\<rparr>"
    have "store_event ?e ?w1 = (Inr (), ?w1\<lparr>w_durable := Some ?d2\<rparr>)"
      using Some te by (simp add: store_event_def with_durable_def)
    moreover obtain n now where "Suc (w_tick w) \<le> n"
        and m: "write_run_metrics env t r (no_change\<lparr>mc_events := 1\<rparr>) (?w1\<lparr>w_durable := Some ?d2\<rparr>) = (Inr (),
          ?w1\<lparr>w_tick := n, w_durable := Some (?d2\<lparr>d_metrics := write_metrics (apply_metrics (no_change\<lparr>mc_events := 1\<rparr>) now
            (base_metrics env (Suc (w_tick w)) ?d2 t r)) (d_metrics ?d2)\<rparr>)\<rparr>)"
      using write_run_metrics_Some[of "?w1\<lparr>w_durable := Some ?d2\<rparr>" ?d2 env t r "no_change\<lparr>mc_events := 1\<rparr>"]
      by auto
    ultimately have "publish env t r corr ty at src p w = (Inr (),
        ?w1\<lparr>w_tick := n, w_durable := Some (?d2\<lparr>d_metrics := write_metrics (apply_metrics (no_change\<lparr>mc_events := 1\<rparr>) now
          (base_metrics env (Suc (w_tick w)) d t r)) (d_metrics d)\<rparr>)\<rparr>)"
      unfolding run by (simp add: thenA_run base_metrics_def)
    then show ?thesis using assms b key Some te \<open>Suc (w_tick w) \<le> n\<close>
      by (auto simp: published_def intro!: exI[of _ ?e] exI[of _ now])
  qed
qed

lemma keeps_publish:
  assumes "\<And>w w' e. I w \<Longrightarrow> published env t r w w' e \<Longrightarrow> I w'"
  shows "keeps I (publish env t r corr ty at src p)"
proof (rule keepsI)
  fix w assume "I w"
  obtain x w' where run: "publish env t r corr ty at src p w = (x, w')" by force
  then obtain e where "published env t r w w' e" using publish_run by blast
  then show "I (snd (publish env t r corr ty at src p w))" using assms \<open>I w\<close> run by simp
qed

lemma keeps_metrics:
  assumes "\<And>w d n now. I w \<Longrightarrow> w_durable w = Some d \<Longrightarrow> w_tick w \<le> n \<Longrightarrow> I (w\<lparr>w_tick := n, w_durable := Some
    (d\<lparr>d_metrics := write_metrics (apply_metrics c now (base_metrics env (w_tick w) d t r)) (d_metrics d)\<rparr>)\<rparr>)"
  shows "keeps I (write_run_metrics env t r c)"
proof (rule keepsI)
  fix w assume w: "I w"
  show "I (snd (write_run_metrics env t r c w))"
  proof (cases "w_durable w")
    case (Some d)
    then show ?thesis using write_run_metrics_Some[OF Some, of env t r c] assms[OF w Some] by auto
  qed (use w in \<open>simp add: write_run_metrics_None\<close>)
qed

text \<open>The world after \<open>allocate_run\<close>.\<close>

lemma allocate_run_Inr:
  assumes "allocate_run env p roots w = (x, w')"
  obtains t r at th db where "x = Inr (t, r, at)" and "t = ''task_'' @ take 12 (rt_uuid env (w_tick w))"
    and "r = ''run_'' @ take 12 (rt_uuid env (Suc (w_tick w)))" and "Suc (w_tick w) < w_tick w'"
    and "w_runs w' = store_create (accepted_state p roots t r at th) (w_runs w)"
    and "w_bus w' = w_bus w" and "w_artifacts w' = w_artifacts w" and "w_workers w' = w_workers w"
    and "w_durable w' = map_option (\<lambda>d. d\<lparr>d_checkpoints := db\<rparr>) (w_durable w)"
proof (cases "w_durable w")
  case None
  then show ?thesis using assms
    by (intro that[of "''task_'' @ take 12 (rt_uuid env (w_tick w))" "''run_'' @ take 12 (rt_uuid env (Suc (w_tick w)))"
          "rt_now env (Suc (Suc (w_tick w)))" None undefined])
      (auto simp: allocate_run_def new_id_def uuid_hex_def utc_now_def bindA_run thenA_run
        new_checkpoint_thread_def has_durable_def clear_cancellation_def create_run_def)
next
  case (Some d)
  let ?b = "begin_run (rt_uuid env (Suc (Suc (Suc (w_tick w))))) (''task_'' @ take 12 (rt_uuid env (w_tick w)))
    (''run_'' @ take 12 (rt_uuid env (Suc (w_tick w)))) (d_checkpoints d)"
  show ?thesis using assms Some
    by (cases ?b) (intro that[of "''task_'' @ take 12 (rt_uuid env (w_tick w))" "''run_'' @ take 12 (rt_uuid env (Suc (w_tick w)))"
          "rt_now env (Suc (Suc (w_tick w)))" "Some (cc_thread_id (fst ?b))" "snd ?b"],
      auto simp: allocate_run_def new_id_def uuid_hex_def utc_now_def bindA_run thenA_run
        new_checkpoint_thread_def has_durable_def clear_cancellation_def create_run_def adapter_begin_run_def
        with_durable_def new_controller_def get_controller_def controller_obj_def split: prod.split)
qed

section \<open>Well-formed worlds\<close>

definition metrics_ok :: "metrics_table \<Rightarrow> bool" where
  "metrics_ok mt \<longleftrightarrow> (\<forall>t r m. read_metrics mt t r = Some m \<longrightarrow> mt_task_id m = t \<and> mt_run_id m = r)"

definition durable_ok :: "durable \<Rightarrow> bool" where
  "durable_ok d \<longleftrightarrow> approvals_ok (d_approvals d) \<and> event_rows_ok (d_events d) \<and> memory_rows_ok (d_memory d) \<and>
     metrics_ok (d_metrics d)"

definition world_ok :: "world \<Rightarrow> bool" where
  "world_ok w \<longleftrightarrow> store_ok (w_runs w) \<and> bus_ok (w_bus w) \<and> workers_ok (\<lambda>_. True) w \<and>
     (\<forall>d. w_durable w = Some d \<longrightarrow> durable_ok d)"

lemma metrics_ok_Nil [simp]: "metrics_ok []"
  by (simp add: metrics_ok_def read_metrics_def tbl_get_def)

lemma metrics_ok_write:
  "metrics_ok mt \<Longrightarrow> metrics_ok (write_metrics m mt)"
  by (auto simp: metrics_ok_def)

lemma base_metrics_key:
  "metrics_ok (d_metrics d) \<Longrightarrow> mt_task_id (base_metrics env n d t r) = t \<and> mt_run_id (base_metrics env n d t r) = r"
  by (auto simp: base_metrics_def metrics_ok_def empty_metrics_def split: option.splits)

lemma apply_metrics_simps [simp]:
  "mt_task_id (apply_metrics c now m) = mt_task_id m" "mt_run_id (apply_metrics c now m) = mt_run_id m"
  "mt_event_count (apply_metrics c now m) = mt_event_count m + mc_events c"
  by (simp_all add: apply_metrics_def)

lemma world_ok_published:
  "world_ok w \<Longrightarrow> published env t r w w' e \<Longrightarrow> world_ok w'"
  by (cases "w_durable w")
    (auto simp: world_ok_def published_def workers_ok_def durable_ok_def metrics_ok_write
      intro: bus_ok_publish event_rows_ok_append)

lemma world_ok_known:
  assumes "world_ok w" and "store_get (w_runs w) t rid = Inr s"
  shows "rs_run_id s \<noteq> [] \<and> rs_task_id s = t \<and> (\<forall>n. rid = Some n \<longrightarrow> n \<noteq> [] \<longrightarrow> rs_run_id s = n)"
proof -
  have ok: "store_ok (w_runs w)" using assms(1) by (simp add: world_ok_def)
  obtain r where "store_lookup (w_runs w) (t, r) = Some s" "case rid of Some x \<Rightarrow> x \<noteq> [] \<longrightarrow> r = x | None \<Rightarrow> True"
    using store_get_Inr[OF assms(2)] by blast
  then show ?thesis using store_ok_lookup[OF ok, of "(t, r)" s] by (auto simp: rs_key_def)
qed

lemma world_ok_allocated:
  assumes "world_ok w" and "allocate_run env p roots w = (x, w')"
  shows "world_ok w'"
proof -
  obtain t r at th db where 1: "r = ''run_'' @ take 12 (rt_uuid env (Suc (w_tick w)))"
    "w_runs w' = store_create (accepted_state p roots t r at th) (w_runs w)" "w_bus w' = w_bus w"
    "w_workers w' = w_workers w" "w_durable w' = map_option (\<lambda>d. d\<lparr>d_checkpoints := db\<rparr>) (w_durable w)"
    using allocate_run_Inr[OF assms(2)] by metis
  have "rs_run_id (accepted_state p roots t r at th) \<noteq> []" using 1(1) by (simp add: accepted_state_def)
  then show ?thesis using assms(1) 1
    by (cases "w_durable w") (auto simp: world_ok_def workers_ok_def durable_ok_def store_ok_create)
qed

lemma world_ok_updated:
  assumes "world_ok w" and "r \<noteq> []" and "\<And>s. run_core (f s) = run_core s"
    and "store_update (w_runs w) t r f = Inr (s, st)"
  shows "world_ok (w\<lparr>w_runs := st\<rparr>)"
  using assms store_ok_update[OF _ assms(4,2)] run_core_key[OF assms(3)]
  by (auto simp: world_ok_def workers_ok_def)

lemma world_ok_durable:
  "world_ok w \<Longrightarrow> durable_ok d \<Longrightarrow> world_ok (set_durable d w)"
  by (simp add: world_ok_def workers_ok_def set_durable_def)

lemma world_ok_frame:
  "world_ok w \<Longrightarrow> w_runs w' = w_runs w \<Longrightarrow> w_bus w' = w_bus w \<Longrightarrow> w_durable w' = w_durable w \<Longrightarrow>
   workers_ok (\<lambda>_. True) w' \<Longrightarrow> world_ok w'"
  by (simp add: world_ok_def)

lemma world_ok_artifacts: "world_ok w \<Longrightarrow> world_ok (w\<lparr>w_artifacts := s\<rparr>)"
  by (simp add: world_ok_def workers_ok_def)

lemma world_okD: "world_ok w \<Longrightarrow> w_durable w = Some d \<Longrightarrow> durable_ok d"
  by (simp add: world_ok_def)

lemma durable_ok_writes:
  assumes "durable_ok d"
  shows "durable_ok (d\<lparr>d_diagnostics := x\<rparr>)" "durable_ok (d\<lparr>d_messages := y\<rparr>)"
    "durable_ok (d\<lparr>d_compactions := z\<rparr>)" "durable_ok (d\<lparr>d_checkpoints := db\<rparr>)"
    "durable_ok (d\<lparr>d_grants := gs\<rparr>)"
    "write_memory m (d_memory d) = Inr mt \<Longrightarrow> durable_ok (d\<lparr>d_memory := mt\<rparr>)"
    "ap_status a = ''pending'' \<Longrightarrow> ap_decision a = None \<Longrightarrow> create_request a (d_approvals d) = Inr t' \<Longrightarrow>
      durable_ok (d\<lparr>d_approvals := t'\<rparr>)"
    "decide i dec at (d_approvals d) = Inr (b, t') \<Longrightarrow> durable_ok (d\<lparr>d_approvals := t'\<rparr>)"
    "durable_ok (d\<lparr>d_metrics := write_metrics mm (d_metrics d)\<rparr>)"
  using assms by (auto simp: durable_ok_def metrics_ok_write intro: memory_rows_ok_write create_request_ok decide_ok)

lemma world_ok_metrics:
  assumes "world_ok w" and "w_durable w = Some d"
  shows "world_ok (w\<lparr>w_tick := n, w_durable := Some (d\<lparr>d_metrics := write_metrics mm (d_metrics d)\<rparr>)\<rparr>)"
  using assms durable_ok_writes(9)[OF world_okD[OF assms], of mm] by (simp add: world_ok_def workers_ok_def)

section \<open>Harnesses that govern their own run\<close>

text \<open>
  A harness builds the context of a governed operation from its own request. \<open>own_env\<close> is the environment in
  which every harness does; it is the environment itself when \<open>local_harness\<close> holds.
\<close>

primrec own_prog :: "string \<Rightarrow> string \<Rightarrow> 'a prog \<Rightarrow> 'a prog" where
  "own_prog t r (Done x) = Done x"
| "own_prog t r (Emit ty p k) = Emit ty p (\<lambda>x. own_prog t r (k x))"
| "own_prog t r (Govern c k) = Govern (c\<lparr>oc_task_id := t, oc_run_id := r\<rparr>) (\<lambda>x. own_prog t r (k x))"
| "own_prog t r (SaveCheckpoint s k) = SaveCheckpoint s (\<lambda>x. own_prog t r (k x))"
| "own_prog t r (Probe k) = Probe (\<lambda>x. own_prog t r (k x))"
| "own_prog t r (InterruptCheck s k) = InterruptCheck s (\<lambda>x. own_prog t r (k x))"
| "own_prog t r (InstallSkill a k) = InstallSkill a (\<lambda>x. own_prog t r (k x))"
| "own_prog t r (ReadText p k) = ReadText p (\<lambda>x. own_prog t r (k x))"
| "own_prog t r (WriteText p c k) = WriteText p c (\<lambda>x. own_prog t r (k x))"
| "own_prog t r (ExecCommand c d k) = ExecCommand c d (\<lambda>x. own_prog t r (k x))"
| "own_prog t r (WriteMemory m k) = WriteMemory m (\<lambda>x. own_prog t r (k x))"
| "own_prog t r (ListMemory s n k) = ListMemory s n (\<lambda>x. own_prog t r (k x))"
| "own_prog t r (ListArtifacts k) = ListArtifacts (\<lambda>x. own_prog t r (k x))"
| "own_prog t r (ListFiles p k) = ListFiles p (\<lambda>x. own_prog t r (k x))"
| "own_prog t r (PathExists p k) = PathExists p (\<lambda>x. own_prog t r (k x))"
| "own_prog t r (Clock k) = Clock (\<lambda>x. own_prog t r (k x))"
| "own_prog t r (NewMemoryId k) = NewMemoryId (\<lambda>x. own_prog t r (k x))"
| "own_prog t r (ClientCancel s k) = ClientCancel s (\<lambda>x. own_prog t r (k x))"

definition own_env :: "runtime_env \<Rightarrow> runtime_env" where
  "own_env env = env\<lparr>rt_harness := (\<lambda>q. own_prog (xq_task_id q) (xq_run_id q) (rt_harness env q))\<rparr>"

lemma local_own_prog: "local_prog t r (own_prog t r p)"
  by (induction p) simp_all

lemma own_prog_local: "local_prog t r p \<Longrightarrow> own_prog t r p = p"
  by (induction p) (auto simp: fun_eq_iff)

lemma local_own_env: "local_harness (own_env env)"
  by (simp add: local_harness_def own_env_def local_own_prog)

lemma own_env_local: "local_harness env \<Longrightarrow> own_env env = env"
  by (simp add: local_harness_def own_env_def own_prog_local)

interpretation well_formed: world_invariant "own_env env" "\<lambda>_. True" world_ok for env
proof
  show "local_harness (own_env env)" by (rule local_own_env)
  show "world_ok w \<Longrightarrow> workers_ok (\<lambda>_. True) w" for w by (simp add: world_ok_def)
  show "keeps world_ok (allocate_run (own_env env) p roots)" for p roots
    by (rule keepsI) (metis prod.collapse world_ok_allocated)
  show "keeps world_ok (publish (own_env env) t r corr ty at src payload)" for t r corr ty at src payload
    by (rule keeps_publish) (rule world_ok_published)
  show "keeps world_ok (write_run_metrics (own_env env) t r c)" for t r c
    by (rule keeps_metrics) (rule world_ok_metrics)
  show "world_ok w \<Longrightarrow> rs_run_id s \<noteq> [] \<and> rs_task_id s = t \<and> (\<forall>n. rid = Some n \<longrightarrow> n \<noteq> [] \<longrightarrow> rs_run_id s = n)"
    if "store_get (w_runs w) t rid = Inr s" for w t rid s
    using world_ok_known that by blast
qed (blast intro: world_ok_frame world_ok_durable world_ok_artifacts world_ok_updated durable_ok_writes world_okD)+

section \<open>Invariants about runs, events, approvals and grants\<close>

text \<open>
  The part of an invariant that goes beyond \<open>world_ok\<close>, by the writes it has to survive. \<open>governed\<close> is what
  of the durable services it may speak about.
\<close>

definition governed :: "durable \<Rightarrow> event_table \<times> metrics_table \<times> approval_store \<times> grant_store" where
  "governed d = (d_events d, d_metrics d, d_approvals d, d_grants d)"

locale world_part =
  fixes env :: runtime_env and P :: "world \<Rightarrow> bool"
  assumes local_env: "local_harness env"
    and part_frame: "P w \<Longrightarrow> w_runs w' = w_runs w \<Longrightarrow> w_bus w' = w_bus w \<Longrightarrow>
      map_option governed (w_durable w') = map_option governed (w_durable w) \<Longrightarrow> w_tick w \<le> w_tick w' \<Longrightarrow> P w'"
    and part_allocate: "world_ok w \<Longrightarrow> P w \<Longrightarrow> allocate_run env p roots w = (x, w') \<Longrightarrow> P w'"
    and part_update: "world_ok w \<Longrightarrow> P w \<Longrightarrow> r \<noteq> [] \<Longrightarrow> (\<And>s. run_core (f s) = run_core s) \<Longrightarrow>
      store_update (w_runs w) t r f = Inr (s, st) \<Longrightarrow> P (w\<lparr>w_runs := st\<rparr>)"
    and part_publish: "world_ok w \<Longrightarrow> P w \<Longrightarrow> published env t r w w' e \<Longrightarrow> P w'"
    and part_metrics: "world_ok w \<Longrightarrow> P w \<Longrightarrow> mc_events c = 0 \<Longrightarrow> w_durable w = Some d \<Longrightarrow> w_tick w \<le> n \<Longrightarrow>
      P (w\<lparr>w_tick := n, w_durable := Some
        (d\<lparr>d_metrics := write_metrics (apply_metrics c now (base_metrics env (w_tick w) d t r)) (d_metrics d)\<rparr>)\<rparr>)"
    and part_requests: "world_ok w \<Longrightarrow> P w \<Longrightarrow> w_durable w = Some d \<Longrightarrow> ap_status a = ''pending'' \<Longrightarrow>
      ap_decision a = None \<Longrightarrow> create_request a (d_approvals d) = Inr t' \<Longrightarrow>
      P (set_durable (d\<lparr>d_approvals := t'\<rparr>) w)"
    and part_decisions: "world_ok w \<Longrightarrow> P w \<Longrightarrow> w_durable w = Some d \<Longrightarrow>
      decide i dec at (d_approvals d) = Inr (a, t') \<Longrightarrow> P (set_durable (d\<lparr>d_approvals := t'\<rparr>) w)"
    and part_grants: "world_ok w \<Longrightarrow> P w \<Longrightarrow> w_durable w = Some d \<Longrightarrow>
      P (set_durable (d\<lparr>d_grants := grant_boundary g (d_grants d)\<rparr>) w)"
begin

lemma part_durable:
  "P w \<Longrightarrow> w_durable w = Some d \<Longrightarrow> governed d' = governed d \<Longrightarrow> P (set_durable d' w)"
  by (rule part_frame[of w]) (simp_all add: set_durable_def)

lemma part_artifacts: "P w \<Longrightarrow> P (w\<lparr>w_artifacts := s\<rparr>)"
  by (rule part_frame[of w]) simp_all

end

sublocale world_part \<subseteq> world_invariant env "\<lambda>_. True" "\<lambda>w. world_ok w \<and> P w"
proof
  show "local_harness env" by (rule local_env)
  show "workers_ok (\<lambda>_. True) w" if "world_ok w \<and> P w" for w using that by (simp add: world_ok_def)
  show "world_ok w' \<and> P w'" if "world_ok w \<and> P w" "w_runs w' = w_runs w" "w_bus w' = w_bus w"
    "w_artifacts w' = w_artifacts w" "w_durable w' = w_durable w" "w_tick w \<le> w_tick w'"
    "workers_ok (\<lambda>_. True) w'" for w w'
    using that world_ok_frame[of w w'] part_frame[of w w'] by simp
  show "keeps (\<lambda>w. world_ok w \<and> P w) (allocate_run env p roots)" for p roots
    by (rule keepsI) (metis prod.collapse world_ok_allocated part_allocate)
  show "keeps (\<lambda>w. world_ok w \<and> P w) (publish env t r corr ty at src payload)" for t r corr ty at src payload
    by (rule keeps_publish) (blast intro: world_ok_published part_publish)
  show "keeps (\<lambda>w. world_ok w \<and> P w) (write_run_metrics env t r c)" if "mc_events c = 0" for t r c
    by (rule keeps_metrics) (use that in \<open>auto intro: world_ok_metrics part_metrics\<close>)
  show "rs_run_id s \<noteq> [] \<and> rs_task_id s = t \<and> (\<forall>n. rid = Some n \<longrightarrow> n \<noteq> [] \<longrightarrow> rs_run_id s = n)"
    if "world_ok w \<and> P w" "store_get (w_runs w) t rid = Inr s" for w t rid s
    using world_ok_known that by blast
  show "world_ok (set_durable (d\<lparr>d_approvals := t'\<rparr>) w) \<and> P (set_durable (d\<lparr>d_approvals := t'\<rparr>) w)"
    if "world_ok w \<and> P w" "w_durable w = Some d" "ap_status a = ''pending''" "ap_decision a = None"
      "create_request a (d_approvals d) = Inr t'" for w d a t'
    using that part_requests world_ok_durable durable_ok_writes(7) world_okD by metis
  show "world_ok (set_durable (d\<lparr>d_approvals := t'\<rparr>) w) \<and> P (set_durable (d\<lparr>d_approvals := t'\<rparr>) w)"
    if "world_ok w \<and> P w" "w_durable w = Some d" "decide i dec at (d_approvals d) = Inr (a, t')" for w d i dec at a t'
    using that part_decisions world_ok_durable durable_ok_writes(8) world_okD by metis
  show "world_ok (set_durable (d\<lparr>d_grants := grant_boundary g (d_grants d)\<rparr>) w) \<and>
      P (set_durable (d\<lparr>d_grants := grant_boundary g (d_grants d)\<rparr>) w)"
    if "world_ok w \<and> P w" "w_durable w = Some d" for w d g
    using that part_grants world_ok_durable durable_ok_writes(5) world_okD by metis
qed (blast intro: world_ok_updated part_update intro: world_ok_artifacts part_artifacts | auto simp: governed_def intro!: part_durable intro: world_ok_durable durable_ok_writes world_okD)+

subsection \<open>Ids\<close>

text \<open>The random part of the ids, and that it does not repeat among the ids drawn so far.\<close>

definition short_id :: "runtime_env \<Rightarrow> nat \<Rightarrow> string" where
  "short_id env n = take 12 (rt_uuid env n)"

definition ids_distinct :: "runtime_env \<Rightarrow> world \<Rightarrow> bool" where
  "ids_distinct env w \<longleftrightarrow> inj_on (short_id env) {..<w_tick w}"

lemma ids_distinct_before: "ids_distinct env w' \<Longrightarrow> w_tick w \<le> w_tick w' \<Longrightarrow> ids_distinct env w"
  unfolding ids_distinct_def by (erule inj_on_subset) auto

lemma ids_distinct_new:
  "ids_distinct env w' \<Longrightarrow> n < m \<Longrightarrow> m < w_tick w' \<Longrightarrow> short_id env n \<noteq> short_id env m"
  unfolding ids_distinct_def by (metis inj_onD lessThan_iff less_irrefl less_trans)

lemma own_env_simps [simp]: "short_id (own_env env) = short_id env" "rt_policy (own_env env) = rt_policy env"
  by (simp_all add: short_id_def own_env_def fun_eq_iff)

lemma ids_distinct_own [simp]: "ids_distinct (own_env env) w = ids_distinct env w"
  by (simp add: ids_distinct_def)

subsection \<open>What was accepted stays as it was accepted\<close>

definition runs_numbered :: "runtime_env \<Rightarrow> world \<Rightarrow> bool" where
  "runs_numbered env w \<longleftrightarrow> (\<forall>t r. store_lookup (w_runs w) (t, r) \<noteq> None \<longrightarrow>
     (\<exists>n < w_tick w. t = ''task_'' @ short_id env n))"

definition core_kept :: "runtime_env \<Rightarrow> run_key \<Rightarrow> run_state option \<Rightarrow> world \<Rightarrow> bool" where
  "core_kept env k s0 w \<longleftrightarrow> (ids_distinct env w \<longrightarrow> runs_numbered env w \<and>
     (\<forall>s. s0 = Some s \<longrightarrow> (\<exists>s'. store_lookup (w_runs w) k = Some s' \<and> run_core s' = run_core s)))"

lemma runs_numbered_cong:
  "runs_numbered env w \<Longrightarrow> w_tick w \<le> w_tick w' \<Longrightarrow>
   (\<And>k. store_lookup (w_runs w') k \<noteq> None \<Longrightarrow> store_lookup (w_runs w) k \<noteq> None) \<Longrightarrow> runs_numbered env w'"
  unfolding runs_numbered_def by (meson order_less_le_trans)

lemma core_kept_allocate:
  assumes "core_kept env k s0 w" and "allocate_run env p roots w = (x, w')"
  shows "core_kept env k s0 w'"
  unfolding core_kept_def
proof
  assume d: "ids_distinct env w'"
  obtain t r at th where t: "t = ''task_'' @ short_id env (w_tick w)" and tick: "Suc (w_tick w) < w_tick w'"
    and st: "w_runs w' = store_create (accepted_state p roots t r at th) (w_runs w)"
    using allocate_run_Inr[OF assms(2)] unfolding short_id_def by metis
  have key: "rs_key (accepted_state p roots t r at th) = (t, r)" by (simp add: rs_key_def accepted_state_def)
  have old: "runs_numbered env w"
    "\<And>s. s0 = Some s \<Longrightarrow> \<exists>s'. store_lookup (w_runs w) k = Some s' \<and> run_core s' = run_core s"
    using assms(1) ids_distinct_before[OF d] tick by (auto simp: core_kept_def)
  have new: "store_lookup (w_runs w) (t, r') = None" for r'
  proof (rule ccontr)
    assume "store_lookup (w_runs w) (t, r') \<noteq> None"
    then obtain n where "n < w_tick w" "t = ''task_'' @ short_id env n"
      using old(1) unfolding runs_numbered_def by blast
    then show False using ids_distinct_new[OF d, of n "w_tick w"] tick t by simp
  qed
  have "runs_numbered env w'"
    unfolding runs_numbered_def
  proof (intro allI impI)
    fix t' r' assume "store_lookup (w_runs w') (t', r') \<noteq> None"
    then have "t' = t \<or> store_lookup (w_runs w) (t', r') \<noteq> None"
      by (auto simp: st lookup_create key split: if_splits)
    then show "\<exists>n < w_tick w'. t' = ''task_'' @ short_id env n"
    proof
      assume "t' = t"
      then show ?thesis using t tick by (intro exI[of _ "w_tick w"]) simp
    next
      assume "store_lookup (w_runs w) (t', r') \<noteq> None"
      then obtain n where "n < w_tick w" "t' = ''task_'' @ short_id env n"
        using old(1) unfolding runs_numbered_def by blast
      then show ?thesis using tick by (intro exI[of _ n]) simp
    qed
  qed
  moreover have "store_lookup (w_runs w') k = store_lookup (w_runs w) k" if "store_lookup (w_runs w) k \<noteq> None"
    using that new[of "snd k"] by (auto simp: st lookup_create key)
  ultimately show "runs_numbered env w' \<and>
      (\<forall>s. s0 = Some s \<longrightarrow> (\<exists>s'. store_lookup (w_runs w') k = Some s' \<and> run_core s' = run_core s))"
    using old(2) by auto
qed

lemma core_kept_update:
  assumes "core_kept env k s0 w" and "r \<noteq> []" and "\<And>s. run_core (f s) = run_core s"
    and "store_update (w_runs w) t r f = Inr (s, st)"
  shows "core_kept env k s0 (w\<lparr>w_runs := st\<rparr>)"
proof -
  have look: "map_option run_core (store_lookup st k) = map_option run_core (store_lookup (w_runs w) k)" for k
    by (rule runs.upd_fields_kept[OF assms(2,4), where p = run_core]) (rule assms(3))
  then have some: "store_lookup st k \<noteq> None \<longleftrightarrow> store_lookup (w_runs w) k \<noteq> None" for k
    by (metis map_option_is_None)
  have "runs_numbered env w \<Longrightarrow> runs_numbered env (w\<lparr>w_runs := st\<rparr>)"
    by (erule runs_numbered_cong) (use some in auto)
  moreover have "ids_distinct env (w\<lparr>w_runs := st\<rparr>) = ids_distinct env w" by (simp add: ids_distinct_def)
  moreover have "(\<exists>s'. store_lookup st k = Some s' \<and> run_core s' = c) \<longleftrightarrow>
      (\<exists>s'. store_lookup (w_runs w) k = Some s' \<and> run_core s' = c)" for c
    using look[of k] by (cases "store_lookup st k"; cases "store_lookup (w_runs w) k") auto
  ultimately show ?thesis using assms(1) by (simp add: core_kept_def)
qed

lemma core_kept_frame:
  "core_kept env k s0 w \<Longrightarrow> w_runs w' = w_runs w \<Longrightarrow> w_tick w \<le> w_tick w' \<Longrightarrow> core_kept env k s0 w'"
  using ids_distinct_before[of env w' w] runs_numbered_cong[of env w w'] by (auto simp: core_kept_def)

interpretation identity: world_part "own_env env" "core_kept (own_env env) k s0" for env k s0
proof
  show "local_harness (own_env env)" by (rule local_own_env)
qed (auto simp: published_def set_durable_def intro: core_kept_allocate core_kept_update core_kept_frame)

subsection \<open>Grants and decisions stay\<close>

definition granted_kept :: "grant_key \<Rightarrow> world \<Rightarrow> bool" where
  "granted_kept g w \<longleftrightarrow> (\<exists>d. w_durable w = Some d \<and> has_grant (d_grants d) (fst g) (fst (snd g)) (snd (snd g)))"

definition decision_kept :: "approval_request \<Rightarrow> world \<Rightarrow> bool" where
  "decision_kept a w \<longleftrightarrow> (\<exists>d. w_durable w = Some d \<and> tbl_get (d_approvals d) (ap_id a) = Some a \<and>
     ap_status a \<noteq> ''pending'')"

lemma allocate_run_governed:
  assumes "allocate_run env p roots w = (x, w')"
  shows "map_option governed (w_durable w') = map_option governed (w_durable w) \<and> w_bus w' = w_bus w \<and>
    w_tick w \<le> w_tick w'"
  using assms by (rule allocate_run_Inr) (cases "w_durable w"; simp add: governed_def)

lemma governed_cong:
  "map_option governed (w_durable w') = map_option governed (w_durable w) \<Longrightarrow> w_durable w = Some d \<Longrightarrow>
   \<exists>d'. w_durable w' = Some d' \<and> governed d' = governed d"
  by auto

lemma granted_kept_frame:
  "granted_kept g w \<Longrightarrow> map_option governed (w_durable w') = map_option governed (w_durable w) \<Longrightarrow> granted_kept g w'"
  by (auto simp: granted_kept_def governed_def)

lemma decision_kept_frame:
  "decision_kept a w \<Longrightarrow> map_option governed (w_durable w') = map_option governed (w_durable w) \<Longrightarrow> decision_kept a w'"
  by (auto simp: decision_kept_def governed_def)

interpretation grants: world_part "own_env env" "granted_kept g" for env g
proof
  show "local_harness (own_env env)" by (rule local_own_env)
  show "granted_kept g w'" if "granted_kept g w" "allocate_run (own_env env) p roots w = (x, w')" for w p roots x w'
    using granted_kept_frame[OF that(1)] allocate_run_governed[OF that(2)] by blast
  show "granted_kept g w'" if "granted_kept g w" "published (own_env env) t r w w' e" for t r w w' e
    using that by (auto simp: published_def granted_kept_def)
qed (auto simp: granted_kept_frame, auto simp: granted_kept_def set_durable_def)

lemma decision_kept_create:
  "decision_kept a w \<Longrightarrow> w_durable w = Some d \<Longrightarrow> create_request b (d_approvals d) = Inr t' \<Longrightarrow>
   decision_kept a (set_durable (d\<lparr>d_approvals := t'\<rparr>) w)"
  by (auto simp: decision_kept_def set_durable_def tbl_get_create_request create_request_def tbl_insert_Inr
      tbl_get_None[symmetric])

lemma decision_kept_decide:
  "world_ok w \<Longrightarrow> decision_kept a w \<Longrightarrow> w_durable w = Some d \<Longrightarrow> decide i dec at (d_approvals d) = Inr (b, t') \<Longrightarrow>
   decision_kept a (set_durable (d\<lparr>d_approvals := t'\<rparr>) w)"
  using decide_Inr_iff[of "d_approvals d" i dec at b t'] world_okD[of w d]
  by (auto simp: decision_kept_def set_durable_def durable_ok_def tbl_get_decide_row)

interpretation decisions: world_part "own_env env" "decision_kept a" for env a
proof
  show "local_harness (own_env env)" by (rule local_own_env)
  show "decision_kept a w'" if "decision_kept a w" "allocate_run (own_env env) p roots w = (x, w')" for w p roots x w'
    using decision_kept_frame[OF that(1)] allocate_run_governed[OF that(2)] by blast
  show "decision_kept a w'" if "decision_kept a w" "published (own_env env) t r w w' e" for t r w w' e
    using that by (auto simp: published_def decision_kept_def)
qed (auto simp: decision_kept_frame decision_kept_create decision_kept_decide,
    auto simp: decision_kept_def set_durable_def)

subsection \<open>The bus, the event store and the metrics agree\<close>

definition event_count_of :: "durable \<Rightarrow> run_key \<Rightarrow> int" where
  "event_count_of d k = (case read_metrics (d_metrics d) (fst k) (snd k) of None \<Rightarrow> 0 | Some m \<Rightarrow> mt_event_count m)"

definition logs_agree :: "world \<Rightarrow> bool" where
  "logs_agree w \<longleftrightarrow> (\<forall>d. w_durable w = Some d \<longrightarrow> (\<forall>k.
     event_log_of (d_events d) k = map (event_view \<circ> re_event) (bus_log (w_bus w) k) \<and>
     event_count_of d k = int (length (event_log_of (d_events d) k))))"

definition events_numbered :: "runtime_env \<Rightarrow> world \<Rightarrow> bool" where
  "events_numbered env w \<longleftrightarrow> (\<forall>d i. w_durable w = Some d \<longrightarrow> \<not> event_fresh (d_events d) i \<longrightarrow>
     (\<exists>n < w_tick w. i = ''evt_'' @ short_id env n))"

definition log_kept :: "runtime_env \<Rightarrow> world \<Rightarrow> bool" where
  "log_kept env w \<longleftrightarrow> (ids_distinct env w \<longrightarrow> events_numbered env w \<and> logs_agree w)"

lemma event_count_write:
  "event_count_of (d\<lparr>d_metrics := write_metrics m (d_metrics d)\<rparr>) k =
   (if k = (mt_task_id m, mt_run_id m) then mt_event_count m else event_count_of d k)"
  by (cases k) (auto simp: event_count_of_def)

lemma base_event_count: "mt_event_count (base_metrics env n d t r) = event_count_of d (t, r)"
  by (simp add: base_metrics_def event_count_of_def empty_metrics_def split: option.split)

definition logged :: "durable \<Rightarrow> event_table \<times> metrics_table" where
  "logged d = (d_events d, d_metrics d)"

lemma governed_logged:
  "map_option governed x = map_option governed y \<Longrightarrow> map_option logged x = map_option logged y"
  by (cases x; cases y) (auto simp: governed_def logged_def)

lemma log_kept_frame:
  assumes "log_kept env w" and "w_bus w' = w_bus w" and "w_tick w \<le> w_tick w'"
    and g: "map_option logged (w_durable w') = map_option logged (w_durable w)"
  shows "log_kept env w'"
proof -
  have same: "\<exists>d. w_durable w = Some d \<and> d_events d' = d_events d \<and> d_metrics d' = d_metrics d"
    if "w_durable w' = Some d'" for d'
    using g that by (cases "w_durable w") (auto simp: logged_def)
  have "logs_agree w'" if "logs_agree w"
    using that same assms(2) unfolding logs_agree_def event_count_of_def by fastforce
  moreover have "events_numbered env w'" if "events_numbered env w"
    using that same assms(3) unfolding events_numbered_def by (metis order_less_le_trans)
  ultimately show ?thesis using assms(1) ids_distinct_before[of env w' w] assms(3) by (auto simp: log_kept_def)
qed

lemma log_kept_metrics:
  assumes "world_ok w" and "log_kept env w" and "mc_events c = 0" and d: "w_durable w = Some d" and "w_tick w \<le> n"
  shows "log_kept env (w\<lparr>w_tick := n, w_durable := Some
        (d\<lparr>d_metrics := write_metrics (apply_metrics c now (base_metrics env' m d t r)) (d_metrics d)\<rparr>)\<rparr>)"
    (is "log_kept env ?w")
proof -
  have key: "mt_task_id (base_metrics env' m d t r) = t" "mt_run_id (base_metrics env' m d t r) = r"
    using base_metrics_key world_okD[OF assms(1) d] by (auto simp: durable_ok_def)
  have "logs_agree ?w" if "logs_agree w"
    using that d assms(3) by (auto simp: logs_agree_def event_count_write base_event_count key)
  moreover have "events_numbered env ?w" if "events_numbered env w"
    using that d assms(5) by (auto simp: events_numbered_def) (meson order_less_le_trans)
  ultimately show ?thesis using assms(2,5) ids_distinct_before[of env ?w w] by (auto simp: log_kept_def)
qed

lemma log_kept_publish:
  assumes "world_ok w" and "log_kept env w" and pub: "published env t r w w' e"
  shows "log_kept env w'"
  unfolding log_kept_def
proof
  assume ids: "ids_distinct env w'"
  have tick: "w_tick w < w_tick w'" and key: "event_key e = Some (t, r)"
    and id: "ev_id e = ''evt_'' @ short_id env (w_tick w)"
    and bus: "bus_publish (mk_runtime_event e) (w_bus w) = Inr (w_bus w')"
    using pub by (auto simp: published_def short_id_def)
  have old: "events_numbered env w" "logs_agree w"
    using assms(2) ids_distinct_before[OF ids] tick by (auto simp: log_kept_def)
  show "events_numbered env w' \<and> logs_agree w'"
  proof (cases "w_durable w")
    case None
    then show ?thesis using pub by (auto simp: published_def events_numbered_def logs_agree_def)
  next
    case (Some d)
    obtain te now where te: "append_event e (d_events d) = Inr te"
        and d': "w_durable w' = Some (d\<lparr>d_events := te,
          d_metrics := write_metrics (apply_metrics (no_change\<lparr>mc_events := 1\<rparr>) now
            (base_metrics env (Suc (w_tick w)) d t r)) (d_metrics d)\<rparr>)"
      using pub Some by (auto simp: published_def)
    have fresh: "event_fresh (d_events d) (ev_id e)"
      using old(1) Some id ids_distinct_new[OF ids _ tick] by (fastforce simp: events_numbered_def)
    have "event_fresh te i \<or> i = ev_id e" if "event_fresh (d_events d) i" for i
      using event_rows.fresh_add[OF te that] by blast
    then have numbered: "events_numbered env w'"
      using old(1) Some d' tick id by (auto simp: events_numbered_def) (meson less_trans)+
    have key': "mt_task_id (base_metrics env (Suc (w_tick w)) d t r) = t"
        "mt_run_id (base_metrics env (Suc (w_tick w)) d t r) = r"
      using base_metrics_key world_okD[OF assms(1) Some] by (auto simp: durable_ok_def)
    have "event_log_of te k = map (event_view \<circ> re_event) (bus_log (w_bus w') k)" for k
      using event_rows.log_add[OF fresh key te, of k] bus.log_add[OF _ key bus, of k] old(2) Some
      by (cases k) (simp add: logs_agree_def mk_runtime_event_def)
    moreover have "event_count_of (d\<lparr>d_events := te,
          d_metrics := write_metrics (apply_metrics (no_change\<lparr>mc_events := 1\<rparr>) now
            (base_metrics env (Suc (w_tick w)) d t r)) (d_metrics d)\<rparr>) k = int (length (event_log_of te k))" for k
      using event_rows.log_add[OF fresh key te, of k] old(2) Some base_event_count[of env _ d t r]
      by (cases k) (auto simp: logs_agree_def key' event_count_of_def no_change_def)
    ultimately show ?thesis using numbered d' by (simp add: logs_agree_def)
  qed
qed

interpretation logs: world_part "own_env env" "log_kept (own_env env)" for env
proof
  show "local_harness (own_env env)" by (rule local_own_env)
  show "log_kept (own_env env) w'" if "log_kept (own_env env) w" "allocate_run (own_env env) p roots w = (x, w')"
    for w p roots x w'
    using log_kept_frame[OF that(1)] allocate_run_governed[OF that(2)] governed_logged by blast
  show "log_kept (own_env env) w'" if "log_kept (own_env env) w" "w_runs w' = w_runs w" "w_bus w' = w_bus w"
    "map_option governed (w_durable w') = map_option governed (w_durable w)" "w_tick w \<le> w_tick w'" for w w'
    using log_kept_frame[OF that(1,3,5)] governed_logged[OF that(4)] by blast
qed (auto intro: log_kept_metrics log_kept_publish, auto simp: set_durable_def logged_def intro: log_kept_frame)

end
