(* ===== verification/Access_Control.thy ===== *)
theory Access_Control
  imports Policy_Engine Sandbox
begin

text \<open>
  The policy engine and the sandbox together: what the engine decides about a file write when the path it is
  shown is one the sandbox normalised, as the file tools do before they ask.
\<close>

section \<open>Prefix tests on normalised paths\<close>

lemma segments_logical:
  assumes "norm_path_ok n"
  shows "path_segments (logical_path n) = mount_name (np_zone n) # np_relative n"
proof -
  have good: "good_parts (mount_name (np_zone n) # np_relative n)"
    using assms good_parts_mount[of "np_zone n"] by (auto simp: norm_path_ok_def)
  have "logical_path n = CHR ''/'' # join_with ''/'' (mount_name (np_zone n) # np_relative n)"
    by (auto simp: logical_path_def mount_posix_def join_with_Cons)
  moreover have "split_on CHR ''/'' (join_with ''/'' (mount_name (np_zone n) # np_relative n)) =
      mount_name (np_zone n) # np_relative n"
    by (rule split_join_comps) (use good in \<open>simp, metis good_parts_def\<close>)
  ultimately have "split_on CHR ''/'' (logical_path n) = [] # mount_name (np_zone n) # np_relative n"
    by simp
  then show ?thesis using good by (auto simp: path_segments_def good_parts_def filter_id_conv)
qed

lemma join_with_append: "ps \<noteq> [] \<Longrightarrow> qs \<noteq> [] \<Longrightarrow> join_with sep (ps @ qs) = join_with sep ps @ sep @ join_with sep qs"
  by (induction ps rule: induct_list012) (auto simp: join_with_Cons)

lemma split_on_join_append:
  "ds \<noteq> [] \<Longrightarrow> (\<And>w. w \<in> set ds \<Longrightarrow> d \<notin> set w) \<Longrightarrow>
   split_on d (join_with [d] ds @ d # r) = ds @ split_on d r"
  by (induction ds rule: induct_list012) (auto simp: split_on_append)

text \<open>A path is below a directory when the directory's components are a proper prefix of its own.\<close>

lemma startswith_join:
  assumes "good_parts ds" and "ds \<noteq> []" and "good_parts ps"
  shows "startswith (join_with ''/'' ps) (join_with ''/'' ds @ ''/'') \<longleftrightarrow> prefix ds ps \<and> ps \<noteq> ds"
proof
  assume "startswith (join_with ''/'' ps) (join_with ''/'' ds @ ''/'')"
  then obtain r where r: "join_with ''/'' ps = join_with ''/'' ds @ CHR ''/'' # r" by (auto simp: prefix_def)
  have "ps \<noteq> []" using r by auto
  then have "ps = split_on CHR ''/'' (join_with ''/'' ps)"
    using split_join_comps[of ps] assms(3) by (metis good_parts_def)
  also have "\<dots> = ds @ split_on CHR ''/'' r"
    unfolding r by (rule split_on_join_append) (use assms in \<open>auto simp: good_parts_def\<close>)
  finally show "prefix ds ps \<and> ps \<noteq> ds" by (metis append_self_conv prefixI split_on_nonempty)
next
  assume "prefix ds ps \<and> ps \<noteq> ds"
  then obtain es where "ps = ds @ es" "es \<noteq> []" by (auto simp: prefix_def)
  then show "startswith (join_with ''/'' ps) (join_with ''/'' ds @ ''/'')"
    using assms(2) by (simp add: join_with_append)
qed

lemma logical_join: "logical_path n = CHR ''/'' # join_with ''/'' (mount_name (np_zone n) # np_relative n)"
  by (auto simp: logical_path_def mount_posix_def join_with_Cons)

text \<open>When a logical path is below a directory of a zone.\<close>

lemma startswith_logical:
  assumes "norm_path_ok n" and "good_parts ds"
  shows "startswith (logical_path n) (CHR ''/'' # join_with ''/'' (mount_name z # ds) @ ''/'') \<longleftrightarrow>
    np_zone n = z \<and> prefix ds (np_relative n) \<and> np_relative n \<noteq> ds"
proof -
  have "good_parts (mount_name (np_zone n) # np_relative n)"
    using assms(1) good_parts_mount[of "np_zone n"] by (auto simp: norm_path_ok_def)
  moreover have "good_parts (mount_name z # ds)" using assms(2) good_parts_mount[of z] by simp
  ultimately show ?thesis
    using startswith_join[of "mount_name z # ds" "mount_name (np_zone n) # np_relative n"]
    by (auto simp: logical_join)
qed

lemmas zone_prefixes =
  startswith_logical[where z = ZONE_WORKSPACE and ds = "[''artifacts'']", simplified]
  startswith_logical[where z = ZONE_SCRATCH and ds = "[]", simplified]
  startswith_logical[where z = ZONE_MEMORY and ds = "[''identity'']", simplified]
  startswith_logical[where z = ZONE_MEMORY and ds = "[]", simplified]

lemma logical_mount_only:
  assumes "norm_path_ok n"
  shows "logical_path n = CHR ''/'' # mount_name z \<longleftrightarrow> np_zone n = z \<and> np_relative n = []"
proof -
  let ?m = "\<lparr>np_zone = z, np_relative = []\<rparr>"
  have "logical_path ?m = CHR ''/'' # mount_name z" "norm_path_ok ?m"
    by (simp_all add: logical_path_def mount_posix_def norm_path_ok_def)
  then have "logical_path n = CHR ''/'' # mount_name z \<longleftrightarrow> n = ?m"
    using logical_path_inj[OF assms, of ?m] by auto
  then show ?thesis by (cases n) auto
qed

lemmas zone_mounts = logical_mount_only[where z = ZONE_SCRATCH, simplified] logical_mount_only[where z = ZONE_MEMORY, simplified]

fun write_tier :: "norm_path \<Rightarrow> decision_kind" where
  "write_tier n = (case np_zone n of
      ZONE_MEMORY \<Rightarrow> if prefix [''identity''] (np_relative n) \<and> np_relative n \<noteq> [''identity''] then DENY else ALLOW
    | ZONE_SCRATCH \<Rightarrow> ALLOW
    | ZONE_WORKSPACE \<Rightarrow> if prefix [''artifacts''] (np_relative n) \<and> np_relative n \<noteq> [''artifacts''] then ALLOW
        else REQUIRE_APPROVAL)"

lemma evaluate_file_write:
  assumes "norm_path_ok n" and "oc_operation_type c = ''file.write''" and "oc_path_scope c = Some (logical_path n)"
  shows "\<exists>d. evaluate cfg (Some has) c = Inr d \<and> pd_decision d =
    (if write_tier n = REQUIRE_APPROVAL \<and>
        has (oc_task_id c) (oc_run_id c) (''file.write:'' @ workspace_subtree (logical_path n))
     then ALLOW else write_tier n)"
proof -
  have ne: "logical_path n \<noteq> []" "startswith (logical_path n) ''/''" by (simp_all add: logical_join)
  note z = zone_prefixes[OF assms(1)] zone_mounts[OF assms(1)]
  show ?thesis using ne
    by (cases "np_zone n")
     (auto simp: evaluate_def is_denied_def requires_approval_def describe_boundary_def boundary_file_write_def
       boundary_granted_def assms(2,3) z Let_def)
qed

section \<open>Properties\<close>

text \<open>
  C33. The complete decision table of the policy for writing a normalised sandbox path: below
  \<open>/.memory/identity/\<close> denied, elsewhere in memory, in \<open>/tmp\<close> and below \<open>/workspace/artifacts/\<close> allowed,
  anywhere else in the workspace allowed exactly when the run holds a grant for the path's subtree and otherwise
  subject to approval.
\<close>

theorem file_write_decision:
  assumes "norm_path_ok n" and "oc_operation_type c = ''file.write''" and "oc_path_scope c = Some (logical_path n)"
  shows "\<exists>d. evaluate cfg (Some has) c = Inr d \<and> pd_decision d =
    (if write_tier n = REQUIRE_APPROVAL \<and>
        has (oc_task_id c) (oc_run_id c) (''file.write:'' @ workspace_subtree (logical_path n))
     then ALLOW else write_tier n)"
  by (rule evaluate_file_write[OF assms])

theorem file_write_decision_witness:
  "\<exists>d. evaluate [] (Some (has_grant [])) sample_write = Inr d \<and> pd_decision d = REQUIRE_APPROVAL"
  using file_write_decision[of "\<lparr>np_zone = ZONE_WORKSPACE, np_relative = [''src'', ''a.py'']\<rparr>" sample_write "[]" "has_grant []"]
  by (simp add: norm_path_ok_def sample_write_def logical_path_def mount_posix_def)

text \<open>
  Whatever raw path an agent passes, if the sandbox would place it below \<open>/.memory/identity\<close> the write is
  denied, grants or not.
\<close>

theorem identity_memory_never_written:
  assumes "sandbox_normalize raw = Inr p" and "normalize_sandbox_path raw = Inr n"
    and "np_zone n = ZONE_MEMORY" and "np_relative n = ''identity'' # x # xs"
    and "oc_operation_type c = ''file.write''" and "oc_path_scope c = Some p"
  shows "\<exists>d. evaluate cfg (Some has) c = Inr d \<and> pd_decision d = DENY"
proof -
  have "p = logical_path n" "norm_path_ok n"
    using assms(1,2) normalize_ok[OF assms(2)]
    by (auto simp: sandbox_normalize_def bindR_Inr_iff normalize_input_path_Inr)
  then show ?thesis using evaluate_file_write[of n c cfg has] assms(3-6) by simp
qed

definition sample_identity_write :: operation_context where
  "sample_identity_write = sample_write\<lparr>oc_path_scope := Some ''/.memory/identity/a.md''\<rparr>"

theorem identity_memory_never_written_witness:
  "\<exists>d. evaluate [] (Some (\<lambda>t r k. True)) sample_identity_write = Inr d \<and> pd_decision d = DENY"
proof (rule identity_memory_never_written)
  show "sandbox_normalize ''/.memory//identity/./a.md '' = Inr ''/.memory/identity/a.md''" by code_simp
  show "normalize_sandbox_path ''/.memory//identity/./a.md '' =
      Inr \<lparr>np_zone = ZONE_MEMORY, np_relative = [''identity'', ''a.md'']\<rparr>" by code_simp
qed (simp_all add: sample_identity_write_def sample_write_def)

end
