(* ===== verification/Sample_Runtime.thy ===== *)
theory Sample_Runtime
  imports Runtime_Correctness Access_Control
begin

text \<open>
  A concrete runtime: a host, a harness that asks for one file write, and one run it accepts in the background.
  The witnesses of the properties evaluate on it. The last section carries the invariants of
  \<open>Runtime_Correctness\<close> from a starting world to every reachable one.
\<close>

section \<open>A runtime at work\<close>

definition sample_uuid :: "nat \<Rightarrow> string" where
  "sample_uuid n = [char_of (n div 256), char_of (n mod 256)]"

definition sample_env :: "(execution_request \<Rightarrow> execution_result prog) \<Rightarrow> runtime_env" where
  "sample_env h = \<lparr>rt_now = sample_uuid, rt_uuid = sample_uuid, rt_policy = [], rt_resolve = (\<lambda>p. p),
     rt_manager = \<lparr>wm_runtime_root = [''rt''], wm_governed_root = [''ws''], wm_virtual_root = pure_path ''/workspace''\<rparr>,
     rt_guess_type = (\<lambda>_. Some ''text/plain''), rt_sha256 = (\<lambda>b. b), rt_encode = (\<lambda>s. s), rt_decode = Inr,
     rt_decode_lossy = (\<lambda>s. s), rt_io_error = (\<lambda>_ _. None),
     rt_exec = (\<lambda>_ _ _ fs. (Inr \<lparr>cr_exit_code = 0, cr_stdout = [], cr_stderr = [], cr_cwd = []\<rparr>, fs)),
     rt_compaction_enabled = True, rt_explicit_client = True, rt_summarizer = None, rt_installer = None,
     rt_harness = h\<rparr>"

definition sample_params :: start_params where
  "sample_params = \<lparr>sp_objective = ''o'', sp_workspace_roots = [''/workspace''], sp_identity = ''i'',
     sp_runtime_user_id = None, sp_allowed_capabilities = [], sp_metadata = [], sp_constraints = [],
     sp_success_criteria = [], sp_background = True\<rparr>"

definition sample_harness :: "execution_request \<Rightarrow> execution_result prog" where
  "sample_harness q = Govern \<lparr>oc_task_id = xq_task_id q, oc_run_id = xq_run_id q, oc_operation_type = ''file.write'',
       oc_path_scope = Some ''/workspace/src/a.py'', oc_command_class = None, oc_memory_scope = None,
       oc_namespace = None, oc_agent_role = None, oc_metadata = None\<rparr>
     (\<lambda>r. case r of Inl e \<Rightarrow> Done (Inl e)
      | Inr _ \<Rightarrow> WriteText ''/workspace/src/a.py'' ''x'' (\<lambda>_. Done (Inr (mk_result True ''finished'' []))))"

definition sample_approved :: approval_request where
  "sample_approved = \<lparr>ap_id = ''a1'', ap_task_id = ''t'', ap_run_id = ''r'', ap_type = ''boundary'', ap_scope = [],
     ap_description = [], ap_created_at = [], ap_status = ''approved'', ap_decision = Some ''approved'',
     ap_decided_at = Some []\<rparr>"

definition sample_durable :: durable where
  "sample_durable = empty_durable\<lparr>d_approvals := [(''a1'', sample_approved)],
     d_grants := grant_boundary sample_grant []\<rparr>"

definition sample_start :: world where
  "sample_start = initial_world (Some sample_durable) []"

text \<open>One run accepted in the background.\<close>

definition sample_world :: world where
  "sample_world = snd (perform (sample_env sample_harness) (StartOp None sample_params) sample_start)"

lemma bindA_weak: "m = m' \<Longrightarrow> bindA m f = bindA m' f"
  by simp

lemma thenA_weak: "m = m' \<Longrightarrow> thenA m n = thenA m' n"
  by simp

lemma tryA_weak: "m = m' \<Longrightarrow> tryA m = tryA m'"
  by simp

lemma whenA_weak: "b = b' \<Longrightarrow> whenA b m = whenA b' m"
  by simp

lemmas run_weak = bindA_weak thenA_weak tryA_weak whenA_weak

lemmas world_defs = sample_env_def sample_params_def initial_world_def empty_durable_def ignore_result_def
  start_run_def allocate_run_def new_id_def uuid_hex_def utc_now_def new_checkpoint_thread_def has_durable_def
  adapter_begin_run_def with_durable_def read_durable_def new_controller_def get_controller_def controller_obj_def
  clear_cancellation_def create_run_def store_create_def rs_key_def write_run_metrics_def
  new_metrics_record_def empty_metrics_def apply_metrics_def no_change_def read_metrics_def write_metrics_def
  seed_run_message_history_def append_run_message_def publish_def bus_put_def store_event_def launch_run_def
  bindA_run thenA_run tryA_run begin_run_def bus_publish_def append_event_def coerce_event_def mk_runtime_event_def event_key_def
  tbl_get_def tbl_upsert_def tbl_replace_def tbl_insert_def tbl_delete_def empty_run_store_def empty_bus_def empty_artifacts_def empty_checkpoints_def
  dict_list_def

lemmas store_defs = begin_run_def create_thread_def build_controller_def bind_thread_def list_checkpoints_def
  append_message_def stored_event_def sample_durable_def sample_start_def

lemma sample_roots_ok: "factory_normalize_roots [''/workspace''] = Inr [''/workspace'']"
  by code_simp

definition sample_key :: run_key where
  "sample_key = (''task_'' @ take 12 (sample_uuid 0), ''run_'' @ take 12 (sample_uuid 1))"

lemma sample_world_facts:
  "w_tick sample_world \<le> 30 \<and> (\<exists>th. store_lookup (w_runs sample_world) sample_key =
     Some (accepted_state sample_params [''/workspace''] (fst sample_key) (snd sample_key) (sample_uuid (Suc (Suc 0))) th)) \<and>
   w_durable sample_world \<noteq> None"
  unfolding sample_world_def
  by (simp add: world_defs store_defs sample_roots_ok Let_def store_lookup_def sample_key_def accepted_state_def cong: run_weak)

lemma sample_local: "local_harness (sample_env sample_harness)"
  by (auto simp: local_harness_def sample_env_def sample_harness_def split: sum.splits)

lemma sample_step: "reachable (sample_env sample_harness) sample_start sample_world"
  unfolding sample_world_def
  by (rule reachable.move[OF reachable.start runtime_step.step]) (rule prod.collapse[symmetric])

lemma sample_ids: "w_tick w \<le> 30 \<Longrightarrow> ids_distinct (sample_env sample_harness) w"
proof -
  have "m = n" if "sample_uuid m = sample_uuid n" "m < 30" "n < 30" for m n
    using that by (auto simp: sample_uuid_def)
  then show "w_tick w \<le> 30 \<Longrightarrow> ?thesis"
    by (auto simp: ids_distinct_def inj_on_def short_id_def sample_env_def sample_uuid_def)
qed

lemma sample_durable_ok: "durable_ok sample_durable"
  by (simp add: durable_ok_def sample_durable_def empty_durable_def approvals_ok_def approval_row_ok_def tbl_ok_def
      sample_approved_def event_rows_ok_def memory_rows_ok_def)

section \<open>From the invariants\<close>

lemma world_ok_initial: "(\<And>d. dur = Some d \<Longrightarrow> durable_ok d) \<Longrightarrow> world_ok (initial_world dur fs)"
  by (simp add: world_ok_def initial_world_def workers_ok_def)

lemma reachable_trans: "reachable env w1 w2 \<Longrightarrow> reachable env w0 w1 \<Longrightarrow> reachable env w0 w2"
  by (induction rule: reachable.induct) (auto intro: reachable.move)

lemma reachable_world_ok:
  "local_harness env \<Longrightarrow> reachable env w0 w \<Longrightarrow> world_ok w0 \<Longrightarrow> world_ok w"
  using well_formed.reachable_keeps[of env w0 w] by (simp add: own_env_local)

lemma reachable_core_kept:
  "local_harness env \<Longrightarrow> reachable env w0 w \<Longrightarrow> world_ok w0 \<Longrightarrow> core_kept env k s0 w0 \<Longrightarrow> core_kept env k s0 w"
  using identity.reachable_keeps[of env w0 w k s0] by (simp add: own_env_local)

lemma reachable_granted:
  "local_harness env \<Longrightarrow> reachable env w0 w \<Longrightarrow> world_ok w0 \<Longrightarrow> granted_kept g w0 \<Longrightarrow> granted_kept g w"
  using grants.reachable_keeps[of env w0 w g] by (simp add: own_env_local)

lemma reachable_decided:
  "local_harness env \<Longrightarrow> reachable env w0 w \<Longrightarrow> world_ok w0 \<Longrightarrow> decision_kept a w0 \<Longrightarrow> decision_kept a w"
  using decisions.reachable_keeps[of env w0 w a] by (simp add: own_env_local)

lemma reachable_log:
  "local_harness env \<Longrightarrow> reachable env w0 w \<Longrightarrow> world_ok w0 \<Longrightarrow> log_kept env w0 \<Longrightarrow> log_kept env w"
  using logs.reachable_keeps[of env w0 w] by (simp add: own_env_local)

end
