(* ===== verification/Runtime_Properties.thy ===== *)
theory Runtime_Properties
  imports Sample_Runtime
begin

text \<open>
  The properties of a runtime under any sequence of requests: each follows from an invariant of
  \<open>Runtime_Correctness\<close> along the reachable worlds.
\<close>

section \<open>Properties\<close>

text \<open>
  C1. Every world a runtime reaches from its start is well-formed, whatever the clients ask, in which order,
  and whatever the harness does: the run store indexes its states by their own keys, no bus queue is
  subscribed twice, the approvals have readable status columns, every persisted row sits under its own key.
\<close>

theorem runtime_stays_well_formed:
  assumes "local_harness env" and "reachable env (initial_world dur fs) w" and "\<And>d. dur = Some d \<Longrightarrow> durable_ok d"
  shows "world_ok w"
  using reachable_world_ok[OF assms(1,2)] world_ok_initial assms(3) by blast

theorem runtime_stays_well_formed_witness: "world_ok sample_world"
  by (rule runtime_stays_well_formed[OF sample_local sample_step[unfolded sample_start_def]]) (simp add: sample_durable_ok)

text \<open>
  C38. What a client asked for when it created a task is never changed: from the moment a run exists, its
  objective, workspace roots, capabilities, constraints, success criteria, metadata, user and creation time
  stay what they were, through every later request on any run. The only assumption on the ids is that those
  drawn so far differ in the twelve digits the runtime keeps.
\<close>

theorem accepted_task_is_immutable:
  assumes "local_harness env" and "reachable env (initial_world dur fs) w" and "\<And>d. dur = Some d \<Longrightarrow> durable_ok d"
    and "store_lookup (w_runs w) k = Some s" and "reachable env w w'" and "ids_distinct env w'"
  shows "\<exists>s'. store_lookup (w_runs w') k = Some s' \<and> run_core s' = run_core s"
proof -
  have ok: "world_ok (initial_world dur fs)" "world_ok w"
    using world_ok_initial assms(3) reachable_world_ok[OF assms(1,2)] by blast+
  have "core_kept env k None (initial_world dur fs)"
    by (simp add: core_kept_def runs_numbered_def initial_world_def empty_run_store_def store_lookup_def)
  then have "core_kept env k None w" using reachable_core_kept[OF assms(1,2) ok(1)] by blast
  then have "core_kept env k (Some s) w" using assms(4) by (simp add: core_kept_def)
  then have "core_kept env k (Some s) w'" using reachable_core_kept[OF assms(1,5) ok(2)] by blast
  then show ?thesis using assms(6) by (simp add: core_kept_def)
qed

definition sample_later :: world where
  "sample_later = snd (perform (sample_env sample_harness) (SnapshotOp (fst sample_key) None) sample_world)"

lemma sample_later_step: "reachable (sample_env sample_harness) sample_world sample_later"
  unfolding sample_later_def
  by (rule reachable.move[OF reachable.start runtime_step.step]) (rule prod.collapse[symmetric])

lemma sample_later_tick: "w_tick sample_later = w_tick sample_world"
  by (simp add: sample_later_def ignore_result_def get_task_snapshot_def get_run_def read_durable_def bindA_run
      split: sum.split)

theorem accepted_task_is_immutable_witness:
  "\<exists>s'. store_lookup (w_runs sample_later) sample_key = Some s' \<and> rs_objective s' = ''o''"
proof -
  obtain th where th: "store_lookup (w_runs sample_world) sample_key =
      Some (accepted_state sample_params [''/workspace''] (fst sample_key) (snd sample_key) (sample_uuid (Suc (Suc 0))) th)"
    using sample_world_facts by blast
  have ids: "ids_distinct (sample_env sample_harness) sample_later"
    using sample_world_facts by (intro sample_ids) (simp add: sample_later_tick)
  show ?thesis
    using accepted_task_is_immutable[OF sample_local sample_step[unfolded sample_start_def] _ th sample_later_step ids]
    by (auto simp: sample_durable_ok run_core_def accepted_state_def sample_params_def)
qed

text \<open>
  C10. The in-memory event bus, the persisted event table and the event count of the metrics always agree: for
  every run, in the order of publication, the persisted events are exactly the published ones (as the table
  reads them back), and the metrics count them.
\<close>

theorem bus_store_and_metrics_agree:
  assumes "local_harness env" and "reachable env (initial_world (Some d0) fs) w" and "durable_ok d0"
    and "d_events d0 = []" and "d_metrics d0 = []" and "ids_distinct env w" and "w_durable w = Some d"
  shows "get_events (d_events d) t (Some r) None =
      map (\<lambda>e. event_view (re_event e)) (bus_list_events (w_bus w) t (Some r) None) \<and>
    (case read_metrics (d_metrics d) t r of None \<Rightarrow> 0 | Some m \<Rightarrow> mt_event_count m) =
      int (length (get_events (d_events d) t (Some r) None))"
proof -
  have "world_ok (initial_world (Some d0) fs)" by (rule world_ok_initial) (use assms(3) in simp)
  moreover have "log_kept env (initial_world (Some d0) fs)"
    using assms(4,5) by (simp add: log_kept_def events_numbered_def event_fresh_def logs_agree_def initial_world_def
        event_log_of_def get_events_def bus_log_eq empty_bus_def dict_list_def event_count_of_def read_metrics_def tbl_get_def)
  ultimately have "log_kept env w" using reachable_log[OF assms(1,2)] by blast
  then have "logs_agree w" using assms(6) by (simp add: log_kept_def)
  then show ?thesis
    unfolding logs_agree_def using assms(7)
    by (auto simp: event_log_of_def bus_log_def event_count_of_def comp_def dest!: spec[of _ "(t, r)"])
qed

theorem bus_store_and_metrics_agree_witness:
  "\<exists>d. w_durable sample_world = Some d \<and> get_events (d_events d) (fst sample_key) (Some (snd sample_key)) None =
     map (\<lambda>e. event_view (re_event e)) (bus_list_events (w_bus sample_world) (fst sample_key) (Some (snd sample_key)) None)"
proof -
  obtain d where d: "w_durable sample_world = Some d" using sample_world_facts by blast
  have "d_events sample_durable = []" "d_metrics sample_durable = []"
    by (simp_all add: sample_durable_def empty_durable_def)
  then show ?thesis
    using bus_store_and_metrics_agree[OF sample_local sample_step[unfolded sample_start_def] sample_durable_ok _ _
        sample_ids d] sample_world_facts d by blast
qed

text \<open>
  C7. A permission a run has is never lost: an operation the policy allows now it allows in every later world,
  since grants are only ever added.
\<close>

theorem permissions_are_never_lost:
  assumes "local_harness env" and "world_ok w" and "reachable env w w'"
    and "w_durable w = Some d" and "w_durable w' = Some d'"
    and "evaluate_policy env d c = Inr dec" and "pd_decision dec = ALLOW"
  shows "\<exists>dec'. evaluate_policy env d' c = Inr dec' \<and> pd_decision dec' = ALLOW"
proof -
  have "has_grant (d_grants d') t r k" if "has_grant (d_grants d) t r k" for t r k
    using reachable_granted[OF assms(1,3,2), of "(t, r, k)"] that assms(4,5) by (simp add: granted_kept_def)
  then show ?thesis
    using evaluate_ALLOW_mono[of "rt_policy env" "has_grant (d_grants d)" c dec "has_grant (d_grants d')"] assms(6,7)
    by (simp add: evaluate_policy_def)
qed

lemma sample_write_granted: "evaluate [] (Some (has_grant (grant_boundary sample_grant []))) sample_write = Inr
  \<lparr>pd_decision = ALLOW, pd_reason = ''Run-scoped boundary grant already exists.'',
   pd_boundary_key = Some ''file.write:/workspace/src/**'',
   pd_approval_scope = Some [(''kind'', PStr ''file.write''), (''path'', PStr ''/workspace/src/**'')]\<rparr>"
  by code_simp

theorem permissions_are_never_lost_witness:
  "\<exists>d' dec'. w_durable sample_world = Some d' \<and>
     evaluate_policy (sample_env sample_harness) d' sample_write = Inr dec' \<and> pd_decision dec' = ALLOW"
proof -
  obtain d' where d': "w_durable sample_world = Some d'" using sample_world_facts by blast
  have "world_ok sample_start"
    unfolding sample_start_def by (rule world_ok_initial) (simp add: sample_durable_ok)
  moreover have "w_durable sample_start = Some sample_durable" by (simp add: sample_start_def initial_world_def)
  moreover have "evaluate_policy (sample_env sample_harness) sample_durable sample_write = Inr
      \<lparr>pd_decision = ALLOW, pd_reason = ''Run-scoped boundary grant already exists.'',
       pd_boundary_key = Some ''file.write:/workspace/src/**'',
       pd_approval_scope = Some [(''kind'', PStr ''file.write''), (''path'', PStr ''/workspace/src/**'')]\<rparr>"
    using sample_write_granted by (simp add: evaluate_policy_def sample_env_def sample_durable_def)
  ultimately show ?thesis
    using permissions_are_never_lost[OF sample_local _ sample_step _ d'] d' by auto
qed

text \<open>
  C11. A decision of a user is never revised by the runtime: an approval that is no longer pending reads the same
  in every later world.
\<close>

theorem decisions_are_never_revised:
  assumes "local_harness env" and "world_ok w" and "reachable env w w'"
    and "w_durable w = Some d" and "get_request (d_approvals d) i = Inr (Some a)" and "ap_status a \<noteq> ''pending''"
  shows "\<exists>d'. w_durable w' = Some d' \<and> get_request (d_approvals d') i = Inr (Some a)"
proof -
  have ok: "approvals_ok (d_approvals d)" using world_okD[OF assms(2,4)] by (simp add: durable_ok_def)
  then have a: "tbl_get (d_approvals d) i = Some a" using assms(5) by (simp add: get_request_ok)
  then have "ap_id a = i"
    using ok by (auto simp: approvals_ok_def list_all_iff approval_row_ok_def dest!: tbl_get_SomeD)
  then have "decision_kept a w" using a assms(4,6) by (simp add: decision_kept_def)
  then have "decision_kept a w'" using reachable_decided[OF assms(1,3,2)] by blast
  then obtain d' where d': "w_durable w' = Some d'" "tbl_get (d_approvals d') i = Some a"
    using \<open>ap_id a = i\<close> by (auto simp: decision_kept_def)
  have "approvals_ok (d_approvals d')"
    using world_okD[OF reachable_world_ok[OF assms(1,3,2)] d'(1)] by (simp add: durable_ok_def)
  then show ?thesis using d' by (simp add: get_request_ok)
qed

theorem decisions_are_never_revised_witness:
  "\<exists>d'. w_durable sample_world = Some d' \<and> get_request (d_approvals d') ''a1'' = Inr (Some sample_approved)"
proof (rule decisions_are_never_revised[OF sample_local _ sample_step])
  show "world_ok sample_start"
    unfolding sample_start_def by (rule world_ok_initial) (simp add: sample_durable_ok)
  show "w_durable sample_start = Some sample_durable" by (simp add: sample_start_def initial_world_def)
  show "get_request (d_approvals sample_durable) ''a1'' = Inr (Some sample_approved)"
    using sample_durable_ok by (simp add: durable_ok_def get_request_ok) (simp add: sample_durable_def tbl_get_def)
  show "ap_status sample_approved \<noteq> ''pending''" by (simp add: sample_approved_def)
qed

lemma sample_scratch_path:
  "sandbox_resolve (\<lambda>p. p) sample_roots ''/tmp/a'' = Inr [''rt'', ''scratch'', ''t'', ''r'', ''a'']"
  by code_simp

theorem sandbox_write_contained_witness:
  "\<exists>w'. sandbox_write (sample_env sample_harness) sample_roots ''/tmp/a'' ''x'' sample_start = (Inr (), w') \<and>
     map_of (w_files w') [''proj'', ''b'', ''a''] = map_of (w_files sample_start) [''proj'', ''b'', ''a'']"
proof -
  obtain w' where w': "sandbox_write (sample_env sample_harness) sample_roots ''/tmp/a'' ''x'' sample_start = (Inr (), w')"
    using sample_scratch_path
    by (simp add: sandbox_write_def bindA_run thenA_run host_error_def sample_env_def)
  have "\<not> prefix (zone_root sample_roots z) [''proj'', ''b'', ''a'']" for z
    by (cases z) (simp_all add: sample_roots_def)
  then show ?thesis
    using sandbox_write_contained[OF w'] w' by (simp add: sample_env_def)
qed

text \<open>
  The list of recent runs is complete and in order: it holds stored runs only, as many as the limit allows,
  most recent first, and no run it leaves out is more recent than one it shows.
\<close>

theorem recent_runs_are_the_latest:
  assumes "store_ok st"
  shows "sorted_wrt (\<lambda>a b. recent_key b \<le> recent_key a) (list_recent st (int n)) \<and>
    length (list_recent st (int n)) = min n (length (ss_states st)) \<and>
    (\<forall>s \<in> set (list_recent st (int n)). store_lookup st (rs_key s) = Some s \<and>
       (\<forall>k o'. store_lookup st k = Some o' \<longrightarrow> o' \<notin> set (list_recent st (int n)) \<longrightarrow> recent_key o' \<le> recent_key s))"
proof -
  have "recent_key o' \<le> recent_key s"
    if "s \<in> set (list_recent st (int n))" "store_lookup st k = Some o'" "o' \<notin> set (list_recent st (int n))" for s k o'
    using list_recent_omitted[of k o' st n s] that by (auto simp: store_lookup_def dest: map_of_SomeD)
  then show ?thesis
    using list_recent_sorted list_recent_length list_recent_stored[OF assms] by blast
qed

theorem recent_runs_are_the_latest_witness:
  "length (list_recent (store_create (accepted_state sample_params [] ''t'' ''r'' ''1'' None)
     (store_create (accepted_state sample_params [] ''t'' ''s'' ''2'' None) empty_run_store)) 1) = 1"
proof -
  let ?st = "store_create (accepted_state sample_params [] ''t'' ''r'' ''1'' None)
     (store_create (accepted_state sample_params [] ''t'' ''s'' ''2'' None) empty_run_store)"
  have ok: "store_ok ?st" by (intro store_ok_create) (simp_all add: accepted_state_def)
  have "length (ss_states ?st) = 2"
    by (simp add: store_create_def empty_run_store_def rs_key_def accepted_state_def Let_def)
  then show ?thesis using recent_runs_are_the_latest[OF ok, of 1] by simp
qed

end
