(* ===== verification/Run_Triples.thy ===== *)
theory Run_Triples
  imports Runtime_Correctness
begin

text \<open>
  Total correctness of the runner's primitives: in a world that knows a run and whose ids are fresh, the clock,
  the publication of an event, the metrics, the diagnostics, an update of the run and a checkpoint all return.
  The properties of the operations follow the code with the rules of \<open>Effects\<close>.
\<close>

section \<open>Worlds with fresh ids\<close>

text \<open>
  The ids of the persisted diagnostics and checkpoints were drawn before: with the ids of \<open>uuid4\<close> distinct, the
  next one is new. \<open>run_at env d k phi w\<close>: in the world \<open>w\<close>, with durable services or without (\<open>d\<close>), the run \<open>k\<close>
  is in a state that satisfies \<open>phi\<close>, and the ids are fresh.
\<close>

definition drawn :: "runtime_env \<Rightarrow> string \<Rightarrow> nat \<Rightarrow> string set \<Rightarrow> bool" where
  "drawn env pre tick A \<longleftrightarrow> (\<forall>i \<in> A. \<exists>n < tick. i = pre @ rt_uuid env n)"

definition fresh_ids :: "runtime_env \<Rightarrow> durable option \<Rightarrow> nat \<Rightarrow> bool" where
  "fresh_ids env dur tick \<longleftrightarrow> (\<forall>d. dur = Some d \<longrightarrow> drawn env ''diag_'' tick (fst ` set (d_diagnostics d)) \<and>
     drawn env ''ckpt_'' tick (fst ` set (cd_checkpoints (d_checkpoints d))))"

definition run_at :: "runtime_env \<Rightarrow> bool \<Rightarrow> run_key \<Rightarrow> (run_state \<Rightarrow> bool) \<Rightarrow> world \<Rightarrow> bool" where
  "run_at env d k phi w \<longleftrightarrow> snd k \<noteq> [] \<and> fresh_ids env (w_durable w) (w_tick w) \<and> (w_durable w \<noteq> None) = d \<and>
     (\<exists>s. store_lookup (w_runs w) k = Some s \<and> phi s)"

lemma drawn_mono: "drawn env pre m A \<Longrightarrow> m \<le> n \<Longrightarrow> drawn env pre n A"
  unfolding drawn_def by (meson order_less_le_trans)

lemma drawn_insert: "drawn env pre (Suc n) (insert (pre @ rt_uuid env n) A) \<longleftrightarrow> drawn env pre (Suc n) A"
  unfolding drawn_def by auto

lemma drawn_new: "drawn env pre n A \<Longrightarrow> inj (rt_uuid env) \<Longrightarrow> pre @ rt_uuid env n \<notin> A"
  unfolding drawn_def by (metis injD less_irrefl same_append_eq)

lemma fresh_ids_same:
  assumes "fresh_ids env dur m" and "m \<le> n"
    and "map_option d_diagnostics dur' = map_option d_diagnostics dur"
    and "map_option d_checkpoints dur' = map_option d_checkpoints dur"
  shows "fresh_ids env dur' n"
  unfolding fresh_ids_def
proof (intro allI impI)
  fix d' assume "dur' = Some d'"
  then obtain d where "dur = Some d" "d_diagnostics d = d_diagnostics d'" "d_checkpoints d = d_checkpoints d'"
    using assms(3,4) by (cases dur) auto
  then show "drawn env ''diag_'' n (fst ` set (d_diagnostics d')) \<and>
      drawn env ''ckpt_'' n (fst ` set (cd_checkpoints (d_checkpoints d')))"
    using assms(1,2) drawn_mono by (fastforce simp: fresh_ids_def)
qed

lemma run_at_frame:
  assumes "run_at env d k phi w" and "w_runs w' = w_runs w" and "w_tick w \<le> w_tick w'"
    and "map_option d_diagnostics (w_durable w') = map_option d_diagnostics (w_durable w)"
    and "map_option d_checkpoints (w_durable w') = map_option d_checkpoints (w_durable w)"
  shows "run_at env d k phi w'"
  using assms fresh_ids_same[OF _ assms(3-5), of env]
  by (cases "w_durable w"; cases "w_durable w'") (auto simp: run_at_def)

lemma run_at_imp: "run_at env d k phi w \<Longrightarrow> (\<And>s. phi s \<Longrightarrow> psi s) \<Longrightarrow> run_at env d k psi w"
  by (auto simp: run_at_def)

section \<open>The primitives of the runner\<close>

lemma at_now: "returns (run_at env d k phi) (utc_now env) (\<lambda>_. run_at env d k phi)"
  by (rule returnsI) (auto simp: utc_now_def elim: run_at_frame)

lemma at_new_id: "returns (run_at env d k phi) (new_id env pre) (\<lambda>_. run_at env d k phi)"
  by (rule returnsI) (auto simp: new_id_def uuid_hex_def bindA_run elim: run_at_frame)

lemma at_publish: "returns (run_at env d k phi) (publish env t r corr ty at src p) (\<lambda>_. run_at env d k phi)"
proof (rule returnsI)
  fix w assume w: "run_at env d k phi w"
  obtain x w' where run: "publish env t r corr ty at src p w = (x, w')" by force
  then obtain e where "x = Inr ()" "published env t r w w' e" using publish_run[OF run] by blast
  moreover from this have "run_at env d k phi w'"
    by (intro run_at_frame[OF w]) (auto simp: published_def split: option.splits)
  ultimately show "\<exists>x w'. publish env t r corr ty at src p w = (Inr x, w') \<and> run_at env d k phi w'"
    using run by blast
qed

lemma at_metrics: "returns (run_at env d k phi) (write_run_metrics env t r c) (\<lambda>_. run_at env d k phi)"
proof (rule returnsI)
  fix w assume w: "run_at env d k phi w"
  show "\<exists>x w'. write_run_metrics env t r c w = (Inr x, w') \<and> run_at env d k phi w'"
  proof (cases "w_durable w")
    case (Some dur)
    obtain m now where "w_tick w \<le> m" and run: "write_run_metrics env t r c w = (Inr (), w\<lparr>w_tick := m, w_durable := Some
        (dur\<lparr>d_metrics := write_metrics (apply_metrics c now (base_metrics env (w_tick w) dur t r)) (d_metrics dur)\<rparr>)\<rparr>)"
      using write_run_metrics_Some[OF Some] by blast
    then have "run_at env d k phi (snd (write_run_metrics env t r c w))"
      by (intro run_at_frame[OF w]) (simp_all add: Some)
    then show ?thesis using run by simp
  qed (use w in \<open>simp add: write_run_metrics_None\<close>)
qed

lemma at_diagnostic:
  assumes "inj (rt_uuid env)"
  shows "returns (run_at env d k phi) (append_run_diagnostic env t r kind msg details) (\<lambda>_. run_at env d k phi)"
proof (rule returnsI)
  fix w assume w: "run_at env d k phi w"
  show "\<exists>x w'. append_run_diagnostic env t r kind msg details w = (Inr x, w') \<and> run_at env d k phi w'"
  proof (cases "w_durable w")
    case (Some dur)
    let ?i = "''diag_'' @ rt_uuid env (w_tick w)"
    have ids: "drawn env ''diag_'' (w_tick w) (fst ` set (d_diagnostics dur))"
      "drawn env ''ckpt_'' (w_tick w) (fst ` set (cd_checkpoints (d_checkpoints dur)))"
      using w Some by (simp_all add: run_at_def fresh_ids_def)
    obtain row where run: "append_run_diagnostic env t r kind msg details w = (Inr (), w\<lparr>w_tick := Suc (Suc (w_tick w)),
        w_durable := Some (dur\<lparr>d_diagnostics := d_diagnostics dur @ [(?i, row)]\<rparr>)\<rparr>)"
      using Some drawn_new[OF ids(1) assms]
      by (auto simp: append_run_diagnostic_def bindA_run has_durable_def uuid_hex_def utc_now_def
          with_durable_def append_diagnostic_def tbl_insert_def)
    have "drawn env ''diag_'' (Suc (w_tick w)) (insert ?i (fst ` set (d_diagnostics dur)))"
      using drawn_mono[OF ids(1)] by (simp add: drawn_insert del: append.simps)
    then have "fresh_ids env (Some (dur\<lparr>d_diagnostics := d_diagnostics dur @ [(?i, row)]\<rparr>)) (Suc (Suc (w_tick w)))"
      using drawn_mono[OF ids(2)] drawn_mono by (auto simp: fresh_ids_def simp del: append.simps)
    then show ?thesis using run w Some by (auto simp: run_at_def)
  qed (use w in \<open>simp add: append_run_diagnostic_def bindA_run has_durable_def\<close>)
qed

lemma at_update:
  assumes "\<And>s. phi s \<Longrightarrow> psi (f s)"
  shows "returns (run_at env d (t, r) phi) (update_run t r f) (\<lambda>_. run_at env d (t, r) psi)"
proof (rule returnsI)
  fix w assume w: "run_at env d (t, r) phi w"
  then obtain s where s: "store_lookup (w_runs w) (t, r) = Some s" "phi s" "r \<noteq> []" by (auto simp: run_at_def)
  obtain st where "update_run t r f w = (Inr (), w\<lparr>w_runs := st\<rparr>)"
      "\<And>k. store_lookup st k = (if k = (t, r) then Some (f s) else store_lookup (w_runs w) k)"
    using update_run_known[OF s(1,3), of f] by blast
  then show "\<exists>x w'. update_run t r f w = (Inr x, w') \<and> run_at env d (t, r) psi w'"
    using w assms[OF s(2)] by (auto simp: run_at_def)
qed

lemma at_get:
  "returns (run_at env d (t, r) phi) (get_run t (Some r)) (\<lambda>s w. phi s \<and> run_at env d (t, r) (\<lambda>s'. s' = s) w)"
proof (rule returnsI)
  fix w assume w: "run_at env d (t, r) phi w"
  then obtain s where "store_lookup (w_runs w) (t, r) = Some s" "phi s" "r \<noteq> []" by (auto simp: run_at_def)
  then show "\<exists>s w'. get_run t (Some r) w = (Inr s, w') \<and> phi s \<and> run_at env d (t, r) (\<lambda>s'. s' = s) w'"
    using get_run_known w by (auto simp: run_at_def)
qed

lemma at_fact: "(b \<Longrightarrow> ends P m Q) \<Longrightarrow> ends (\<lambda>w. b \<and> P w) m Q"
  by (auto simp: ends_def)

lemma at_fact': "(b \<Longrightarrow> returns P m Q) \<Longrightarrow> returns (\<lambda>w. b \<and> P w) m Q"
  by (auto simp: returns_def ends_def)

lemma controller_obj_tick [simp]: "controller_obj (w\<lparr>w_tick := n\<rparr>) i = controller_obj w i"
  by (simp add: controller_obj_def)

lemma at_controller_record:
  assumes "inj (rt_uuid env)"
  shows "returns (run_at env True k phi) (controller_record env i reason) (\<lambda>_. run_at env True k phi)"
proof (rule returnsI)
  fix w assume w: "run_at env True k phi w"
  then obtain dur where Some: "w_durable w = Some dur" by (auto simp: run_at_def)
  let ?c = "controller_obj w i" and ?i = "''ckpt_'' @ rt_uuid env (w_tick w)"
  have ids: "drawn env ''diag_'' (w_tick w) (fst ` set (d_diagnostics dur))"
    "drawn env ''ckpt_'' (w_tick w) (fst ` set (cd_checkpoints (d_checkpoints dur)))"
    using w Some by (simp_all add: run_at_def fresh_ids_def)
  obtain m c db where rec: "record_checkpoint (rt_uuid env (w_tick w)) (rt_now env (Suc (w_tick w))) reason ?c
      (d_checkpoints dur) = (Inr m, c, db)" "fst ` set (cd_checkpoints db) = insert ?i (fst ` set (cd_checkpoints (d_checkpoints dur)))"
    using drawn_new[OF ids(2) assms]
    by (auto simp: record_checkpoint_def save_metadata_def tbl_insert_def Let_def ckpt_id_def)
  then have run: "controller_record env i reason w = (Inr m, w\<lparr>w_tick := Suc (Suc (w_tick w)),
      w_controllers := (w_controllers w)[i := c], w_durable := Some (dur\<lparr>d_checkpoints := db\<rparr>)\<rparr>)"
    using Some by (simp add: controller_record_def bindA_run uuid_hex_def utc_now_def)
  have "drawn env ''ckpt_'' (Suc (w_tick w)) (insert ?i (fst ` set (cd_checkpoints (d_checkpoints dur))))"
    using drawn_mono[OF ids(2)] by (simp add: drawn_insert del: append.simps)
  then have "fresh_ids env (Some (dur\<lparr>d_checkpoints := db\<rparr>)) (Suc (Suc (w_tick w)))"
    using drawn_mono[OF ids(1)] drawn_mono rec(2) by (auto simp: fresh_ids_def simp del: append.simps)
  then show "\<exists>x w'. controller_record env i reason w = (Inr x, w') \<and> run_at env True k phi w'"
    using run w by (auto simp: run_at_def)
qed

end
