(* ===== verification/Rejection_Streak.thy ===== *)
theory Rejection_Streak
  imports Run_Triples Sample_Runtime
begin

text \<open>
  The threshold on recoverable tool rejections: \<open>handle_harness_event\<close> refines the counter \<open>streak_after\<close>, and a
  sequence of harness events raises exactly when the specified streak is exceeded.
\<close>

section \<open>The streak of rejections\<close>

abbreviation streak_at :: "runtime_env \<Rightarrow> bool \<Rightarrow> run_key \<Rightarrow> int \<Rightarrow> world \<Rightarrow> bool" where
  "streak_at env d k n \<equiv> run_at env d k (\<lambda>s. rs_rejection_count s = n)"

text \<open>
  What is specified of the streak: \<open>tool.rejected\<close> lengthens it, \<open>tool.called\<close> ends it, other events leave it
  alone; the rejection that makes it longer than three stops the run.
\<close>

fun streak_after :: "string \<Rightarrow> int \<Rightarrow> int" where
  "streak_after ty n = (if ty = ''tool.rejected'' then n + 1 else if ty = ''tool.called'' then 0 else n)"

fun streak_exceeded :: "int \<Rightarrow> string list \<Rightarrow> bool" where
  "streak_exceeded n [] = False"
| "streak_exceeded n (ty # tys) = (ty = ''tool.rejected'' \<and> 3 \<le> n \<or> streak_exceeded (streak_after ty n) tys)"

lemma rejection_step:
  assumes "inj (rt_uuid env)"
  shows "ends (streak_at env d (t, r) n) (record_tool_rejection env t r corr at p)
    (\<lambda>x w. x = (if 3 \<le> n then Inl (RejectionThresholdExceeded 3 (n + 1) (rejection_failure p)) else Inr ()) \<and>
       streak_at env d (t, r) (n + 1) w)"
proof -
  have tail: "ends (streak_at env d (t, r) (n + 1))
      (if c > rejection_threshold then thenA (append_run_diagnostic env t r kind msg details)
         (raise (RejectionThresholdExceeded rejection_threshold c fl)) else ret ())
      (\<lambda>x w. x = (if 3 < c then Inl (RejectionThresholdExceeded 3 c fl) else Inr ()) \<and> streak_at env d (t, r) (n + 1) w)"
    for c kind msg details fl
  proof (cases "3 < c")
    case True
    have "ends (streak_at env d (t, r) (n + 1)) (thenA (append_run_diagnostic env t r kind msg details)
         (raise (RejectionThresholdExceeded rejection_threshold c fl)))
      (\<lambda>x w. x = Inl (RejectionThresholdExceeded 3 c fl) \<and> streak_at env d (t, r) (n + 1) w)"
      by (rule ends_then[OF at_diagnostic[OF assms]]) (simp add: ends_raise rejection_threshold_def)
    then show ?thesis using True by (simp add: rejection_threshold_def)
  qed (simp add: rejection_threshold_def ends_def)
  show ?thesis
    unfolding record_tool_rejection_def Let_def
    apply (rule ends_bind[OF at_get], rule at_fact)
    apply (rule ends_then[OF at_diagnostic[OF assms]])
    apply (rule ends_then[OF at_update[where psi = "\<lambda>s. rs_rejection_count s = n + 1"]], simp)
    apply (rule ends_then[OF at_publish])
    apply (rule ends_then[OF returns_when[OF at_metrics]], assumption)
    apply (rule ends_weaken[OF tail], assumption, simp)
    done
qed

lemma event_step:
  assumes "inj (rt_uuid env)"
  shows "ends (streak_at env d (t, r) n) (handle_harness_event env t r corr ty p)
    (\<lambda>x w. x = (if ty = ''tool.rejected'' \<and> 3 \<le> n then Inl (RejectionThresholdExceeded 3 (n + 1) (rejection_failure p))
        else Inr ()) \<and> streak_at env d (t, r) (streak_after ty n) w)"
proof (cases "ty = ''tool.rejected''")
  case True
  show ?thesis
    unfolding handle_harness_event_def
    by (rule ends_bind[OF at_now]) (use True rejection_step[OF assms] in simp)
next
  case False
  have reset: "returns (streak_at env d (t, r) n) (whenA (ty = event_value TOOL_CALLED) (reset_rejection_streak t r at))
      (\<lambda>_. streak_at env d (t, r) (streak_after ty n))" for at
  proof (cases "ty = ''tool.called''")
    case True
    have "returns (run_at env d (t, r) (\<lambda>s'. s' = s))
        (if rs_rejection_count s = 0 \<and> rs_last_rejection s = None then ret ()
         else update_run t r (\<lambda>s. s\<lparr>rs_updated_at := at, rs_rejection_count := 0, rs_last_rejection := None\<rparr>))
        (\<lambda>_. streak_at env d (t, r) 0)" for s
      by (auto intro!: returns_ret at_update elim: run_at_imp)
    then show ?thesis
      using True unfolding reset_rejection_streak_def by simp (intro returns_bind[OF at_get] at_fact')
  qed (use False in \<open>simp add: returns_ret\<close>)
  have "returns (streak_at env d (t, r) n)
      (thenA (whenA (ty = event_value TOOL_CALLED) (reset_rejection_streak t r at))
       (thenA (whenA (ty = event_value CHECKPOINT_SAVED) (write_run_metrics env t r (no_change\<lparr>mc_checkpoints := 1\<rparr>)))
       (thenA (update_run t r (event_updates at ty p))
              (publish env t r corr ty at (source_for_harness_event ty p) p))))
      (\<lambda>_. streak_at env d (t, r) (streak_after ty n))" for at
    by (rule returns_then[OF reset], rule returns_then[OF returns_when[OF at_metrics]], assumption,
        rule returns_then[OF at_update at_publish]) simp
  then show ?thesis
    unfolding handle_harness_event_def
    by (intro ends_bind[OF at_now]) (use False in \<open>simp add: returns_def ends_def\<close>)
qed

text \<open>The events of a harness one after the other, until one raises.\<close>

definition handle_events :: "runtime_env \<Rightarrow> string \<Rightarrow> string \<Rightarrow> (string \<times> pydict) list \<Rightarrow> unit wact" where
  "handle_events env t r es = foldA (\<lambda>(ty, p) _. handle_harness_event env t r None ty p) es ()"

text \<open>
  C8. The runtime stops a run exactly when its agent is rejected four times in a row: whatever events the harness
  sends, handling them raises if and only if the specified streak of rejections without an intervening tool call
  exceeds three, and then it raises the threshold exception with the count; otherwise every event is accepted.
  Assumed are a run the store knows and \<open>uuid4\<close> ids that differ.
\<close>

theorem rejection_streak_stops_the_run:
  assumes "inj (rt_uuid env)" and "streak_at env d (t, r) n w" and "handle_events env t r es w = (x, w')"
  shows "if streak_exceeded n (map fst es) then \<exists>c f. x = Inl (RejectionThresholdExceeded 3 c f) \<and> 3 < c
    else x = Inr () \<and> streak_at env d (t, r) (fold streak_after (map fst es) n) w'"
  using assms(2,3)
proof (induction es arbitrary: n w)
  case (Cons e es)
  obtain ty p where e: "e = (ty, p)" by force
  obtain y w1 where y: "handle_harness_event env t r None ty p w = (y, w1)" by force
  note step = endsD[OF event_step[OF assms(1)] Cons.prems(1) y]
  show ?case
  proof (cases "ty = ''tool.rejected'' \<and> 3 \<le> n")
    case True
    then show ?thesis using step Cons.prems(2) e y by (auto simp: handle_events_def bindA_run)
  next
    case False
    then have "y = Inr ()" "streak_at env d (t, r) (streak_after ty n) w1" using step by auto
    moreover have "handle_events env t r es w1 = (x, w')"
      using Cons.prems(2) e y \<open>y = Inr ()\<close> by (simp add: handle_events_def bindA_run)
    ultimately show ?thesis using Cons.IH[of "streak_after ty n" w1] e False by (auto simp del: streak_after.simps split: if_splits)
  qed
qed (simp add: handle_events_def)

definition sample_run_world :: world where
  "sample_run_world = (initial_world (Some empty_durable) [])\<lparr>w_runs :=
     store_create (accepted_state sample_params [''/workspace''] ''t'' ''r'' ''0'' None) empty_run_store\<rparr>"

definition unary_env :: runtime_env where
  "unary_env = (sample_env sample_harness)\<lparr>rt_uuid := (\<lambda>n. replicate n CHR ''x'')\<rparr>"

lemma unary_ids: "inj (rt_uuid unary_env)"
  by (auto simp: unary_env_def inj_def)

theorem rejection_streak_stops_the_run_witness:
  "\<exists>c f w'. handle_events unary_env ''t'' ''r'' [(''tool.rejected'', []), (''tool.called'', []), (''tool.rejected'', []),
     (''tool.rejected'', []), (''plan.updated'', []), (''tool.rejected'', []), (''tool.rejected'', [])] sample_run_world =
     (Inl (RejectionThresholdExceeded 3 c f), w')"
proof -
  let ?es = "[(''tool.rejected'', []), (''tool.called'', []), (''tool.rejected'', []), (''tool.rejected'', []),
    (''plan.updated'', []), (''tool.rejected'', []), (''tool.rejected'', [])] :: (string \<times> pydict) list"
  obtain x w' where run: "handle_events unary_env ''t'' ''r'' ?es sample_run_world = (x, w')" by force
  have "streak_at unary_env True (''t'', ''r'') 0 sample_run_world"
    by (simp add: run_at_def fresh_ids_def drawn_def sample_run_world_def initial_world_def empty_durable_def
        lookup_create accepted_state_def rs_key_def empty_checkpoints_def)
  from rejection_streak_stops_the_run[OF unary_ids this run] show ?thesis using run by auto
qed

end
