(* ===== verification/Governance.thy ===== *)
theory Governance
  imports Runtime_Properties Rejection_Streak
begin

text \<open>
  What the client and the governance of operations show together: a request the runner refuses leaves
  the world untouched, and an operation that was interrupted for an approval is allowed once the
  approval has been granted, in every world the runtime reaches afterwards.
\<close>

section \<open>Refused requests\<close>

lemma resume_check_iff: "resume_check s = Inr () \<longleftrightarrow>
  rs_status s \<notin> {COMPLETED, FAILED} \<and> \<not> rs_awaiting_approval s \<and> rs_is_resumable s"
  by (auto simp: resume_check_def)

lemma reply_check_iff: "reply_check s = Inr () \<longleftrightarrow>
  rs_status s \<notin> {COMPLETED, FAILED, CANCELLED} \<and> \<not> rs_awaiting_approval s \<and> rs_is_resumable s \<and>
  rs_pause_reason s = Some ''awaiting_user_input''"
  by (auto simp: reply_check_def)

lemma cancel_check_iff: "cancel_check s = Inr () \<longleftrightarrow> rs_status s \<notin> {COMPLETED, FAILED, CANCELLED}"
  by (auto simp: cancel_check_def)

lemma checks_raise_ValueError:
  "resume_check s = Inl e \<Longrightarrow> \<exists>m. e = ValueError m" "reply_check s = Inl e \<Longrightarrow> \<exists>m. e = ValueError m"
  "cancel_check s = Inl e \<Longrightarrow> \<exists>m. e = ValueError m"
  by (auto simp: resume_check_def reply_check_def cancel_check_def split: if_splits)

lemma refused:
  assumes "store_get (w_runs w) t rn = Inr s"
  shows "resume_check s \<noteq> Inr () \<Longrightarrow> \<exists>m. resume_task env t rn ident bg w = (Inl (ValueError m), w)"
    and "reply_check s \<noteq> Inr () \<Longrightarrow> \<exists>m. reply_to_run env t msg rn ident bg w = (Inl (ValueError m), w)"
    and "cancel_check s \<noteq> Inr () \<Longrightarrow> \<exists>m. cancel_run env t rn reason w = (Inl (ValueError m), w)"
proof -
  show "resume_check s \<noteq> Inr () \<Longrightarrow> \<exists>m. resume_task env t rn ident bg w = (Inl (ValueError m), w)"
    using assms checks_raise_ValueError(1)[of s]
    by (cases "resume_check s") (auto simp: resume_task_def get_run_def bindA_run thenA_run)
  show "reply_check s \<noteq> Inr () \<Longrightarrow> \<exists>m. reply_to_run env t msg rn ident bg w = (Inl (ValueError m), w)"
    using assms checks_raise_ValueError(2)[of s]
    by (cases "reply_check s") (auto simp: reply_to_run_def get_run_def bindA_run thenA_run)
  show "cancel_check s \<noteq> Inr () \<Longrightarrow> \<exists>m. cancel_run env t rn reason w = (Inl (ValueError m), w)"
    using assms checks_raise_ValueError(3)[of s]
    by (cases "cancel_check s") (auto simp: cancel_run_def get_run_def bindA_run thenA_run)
qed

text \<open>
  C9. A request the state of its run does not allow is refused with a \<open>ValueError\<close> and changes nothing at all: a
  resume unless the run is resumable, neither completed nor failed, with no approval pending; a reply unless it is
  moreover paused for user input and not cancelled; a cancel of a run that is completed, failed or cancelled.
  A request for a run the store does not know is refused in the same way with a \<open>KeyError\<close>.
\<close>

theorem refused_requests_change_nothing:
  "case store_get (w_runs w) t rn of
     Inl e \<Rightarrow> (\<exists>m. e = KeyError m) \<and> resume_task env t rn ident bg w = (Inl e, w) \<and>
       reply_to_run env t msg rn ident bg w = (Inl e, w) \<and> cancel_run env t rn reason w = (Inl e, w)
   | Inr s \<Rightarrow>
       ((rs_status s \<in> {COMPLETED, FAILED} \<or> rs_awaiting_approval s \<or> \<not> rs_is_resumable s) \<longrightarrow>
          (\<exists>m. resume_task env t rn ident bg w = (Inl (ValueError m), w))) \<and>
       ((rs_status s \<in> {COMPLETED, FAILED, CANCELLED} \<or> rs_awaiting_approval s \<or> \<not> rs_is_resumable s \<or>
          rs_pause_reason s \<noteq> Some ''awaiting_user_input'') \<longrightarrow>
          (\<exists>m. reply_to_run env t msg rn ident bg w = (Inl (ValueError m), w))) \<and>
       (rs_status s \<in> {COMPLETED, FAILED, CANCELLED} \<longrightarrow> (\<exists>m. cancel_run env t rn reason w = (Inl (ValueError m), w)))"
proof (cases "store_get (w_runs w) t rn")
  case (Inl e)
  then have "\<exists>m. e = KeyError m"
    by (auto simp: store_get_def bindR_Inl_iff latest_run_id_def split: option.splits if_splits)
  then show ?thesis using Inl
    by (auto simp: resume_task_def reply_to_run_def cancel_run_def get_run_def bindA_run)
next
  case (Inr s)
  then show ?thesis using refused[OF Inr] resume_check_iff[of s] reply_check_iff[of s] cancel_check_iff[of s] by auto
qed

theorem refused_requests_change_nothing_witness:
  "\<exists>m. cancel_run unary_env ''t'' (Some ''r'') None (sample_run_world\<lparr>w_runs := store_create
      (accepted_state sample_params [] ''t'' ''r'' ''0'' None\<lparr>rs_status := COMPLETED\<rparr>) empty_run_store\<rparr>) =
    (Inl (ValueError m), sample_run_world\<lparr>w_runs := store_create
      (accepted_state sample_params [] ''t'' ''r'' ''0'' None\<lparr>rs_status := COMPLETED\<rparr>) empty_run_store\<rparr>)"
proof -
  let ?s = "accepted_state sample_params [] ''t'' ''r'' ''0'' None\<lparr>rs_status := COMPLETED\<rparr>"
  let ?w = "sample_run_world\<lparr>w_runs := store_create ?s empty_run_store\<rparr>"
  have "store_get (w_runs ?w) ''t'' (Some ''r'') = Inr ?s"
    by (simp add: store_get_Some lookup_create rs_key_def accepted_state_def)
  then show ?thesis using refused_requests_change_nothing[where w = ?w and t = "''t''" and rn = "Some ''r''"] by simp
qed

section \<open>Governed operations\<close>

lemma boundary_scope_ok:
  "describe_boundary c = Inr (Some b) \<Longrightarrow> bd_key b \<noteq> [] \<and> distinct (map fst (bd_scope b))"
  by (auto simp: describe_boundary_def boundary_file_write_def boundary_command_def boundary_memory_def boundary_skill_def
      boundary_mcp_connect_def boundary_remote_auth_def boundary_web_def Let_def bindR_Inr_iff split: if_splits)

lemma approval_scope_key:
  assumes "evaluate cfg grants c = Inr dec" and "pd_decision dec = REQUIRE_APPROVAL"
  shows "\<exists>k. pd_boundary_key dec = Some k \<and> scope_boundary_key (json_dict (approval_scope_of dec)) = Some k"
proof -
  obtain b where b: "describe_boundary c = Inr (Some b)" "pd_boundary_key dec = Some (bd_key b)"
      "pd_approval_scope dec = Some (bd_scope b)"
    using assms by (auto simp: evaluate_def bindR_Inr_iff split: if_splits option.splits)
  have "distinct (map fst (approval_scope_of dec))"
    using boundary_scope_ok[OF b(1)] b by (simp add: approval_scope_of_def distinct_update)
  then have "dict_get (json_dict (approval_scope_of dec)) ''boundary_key'' =
      json_sorted (dict_get (approval_scope_of dec) ''boundary_key'')"
    by (rule dict_get_json_dict)
  also have "\<dots> = PStr (bd_key b)" using b by (simp add: approval_scope_of_def)
  finally show ?thesis using b boundary_scope_ok[OF b(1)] by (simp add: scope_boundary_key_def)
qed

text \<open>A created approval is stored as pending under its id; anything else that may happen is a different exception.\<close>

lemma update_run_error: "update_run t r f w = (Inl e, w') \<Longrightarrow> \<exists>m. e = KeyError m"
  by (auto simp: update_run_def store_update_def store_get_def latest_run_id_def bindR_Inl_iff Let_def
      split: sum.splits option.splits if_splits)

lemma publish_approvals:
  "publish env t r corr ty at src p w = (x, w') \<Longrightarrow>
   x = Inr () \<and> map_option d_approvals (w_durable w') = map_option d_approvals (w_durable w)"
  by (drule publish_run) (auto simp: published_def split: option.splits)

lemma metrics_approvals:
  "write_run_metrics env t r c w = (x, w') \<Longrightarrow>
   x = Inr () \<and> map_option d_approvals (w_durable w') = map_option d_approvals (w_durable w)"
  using write_run_metrics_None[of w env t r c] write_run_metrics_Some[of w _ env t r c]
  by (cases "w_durable w") fastforce+

lemma create_approval_run:
  assumes d: "w_durable w = Some d" and run: "create_approval_request env corr c dec w = (x, w')"
  shows "(\<exists>m. x = Inl (IntegrityError m)) \<or> (\<exists>m. x = Inl (KeyError m)) \<or>
    (\<exists>a d'. x = Inr a \<and> w_durable w' = Some d' \<and> tbl_get (d_approvals d') (ap_id a) = Some (approval_row a) \<and>
       ap_task_id a = oc_task_id c \<and> ap_run_id a = oc_run_id c \<and> ap_status a = ''pending'' \<and>
       ap_scope a = approval_scope_of dec)"
proof -
  let ?w = "w\<lparr>w_tick := Suc (Suc (w_tick w))\<rparr>"
  let ?a = "\<lparr>ap_id = ''approval_'' @ take 12 (rt_uuid env (Suc (w_tick w))), ap_task_id = oc_task_id c,
    ap_run_id = oc_run_id c, ap_type = ''boundary'', ap_scope = approval_scope_of dec, ap_description = pd_reason dec,
    ap_created_at = rt_now env (w_tick w), ap_status = ''pending'', ap_decision = None, ap_decided_at = None\<rparr>"
  show ?thesis
  proof (cases "create_request ?a (d_approvals d)")
    case (Inl e)
    then have "x = Inl e" "\<exists>m. e = IntegrityError m"
      using run d by (auto simp: create_approval_request_def bindA_run thenA_run utc_now_def new_id_def uuid_hex_def
          with_durable_def Let_def create_request_def tbl_insert_def split: if_splits)
    then show ?thesis by blast
  next
    case (Inr t)
    obtain f where f: "create_approval_request env corr c dec w = thenA (update_run (oc_task_id c) (oc_run_id c) f)
        (thenA (publish env (oc_task_id c) (oc_run_id c) corr (event_value APPROVAL_REQUESTED) (rt_now env (w_tick w))
          (component_source SRC_POLICY ''policy-engine'') [(''approval'', PDict (approval_to_dict ?a))])
        (thenA (write_run_metrics env (oc_task_id c) (oc_run_id c) (no_change\<lparr>mc_approvals := 1\<rparr>)) (ret ?a)))
        (?w\<lparr>w_durable := Some (d\<lparr>d_approvals := t\<rparr>)\<rparr>)"
      using d Inr by (auto simp: create_approval_request_def bindA_run thenA_run utc_now_def new_id_def uuid_hex_def
          with_durable_def Let_def)
    let ?w1 = "?w\<lparr>w_durable := Some (d\<lparr>d_approvals := t\<rparr>)\<rparr>"
    obtain y w2 where up: "update_run (oc_task_id c) (oc_run_id c) f ?w1 = (y, w2)" by force
    show ?thesis
    proof (cases y)
      case (Inl e)
      then show ?thesis using run f up update_run_error[of _ _ f ?w1 e w2] by (auto simp: thenA_run)
    next
      case (Inr u)
      have w2: "w_durable w2 = Some (d\<lparr>d_approvals := t\<rparr>)"
        using up Inr by (auto simp: update_run_def split: sum.splits)
      obtain z w3 where pub: "publish env (oc_task_id c) (oc_run_id c) corr (event_value APPROVAL_REQUESTED) (rt_now env (w_tick w))
          (component_source SRC_POLICY ''policy-engine'') [(''approval'', PDict (approval_to_dict ?a))] w2 = (z, w3)" by force
      obtain v w4 where met: "write_run_metrics env (oc_task_id c) (oc_run_id c) (no_change\<lparr>mc_approvals := 1\<rparr>) w3 = (v, w4)"
        by force
      note p = publish_approvals[OF pub] and m = metrics_approvals[OF met]
      have "x = Inr ?a" "w' = w4" using run f up pub met p m Inr by (simp_all add: thenA_run)
      moreover have "map_option d_approvals (w_durable w4) = Some t" using p m w2 by simp
      then obtain d' where "w_durable w4 = Some d'" "d_approvals d' = t" by auto
      moreover have "tbl_get t (ap_id ?a) = Some (approval_row ?a)"
        using tbl_get_create_request[OF \<open>create_request ?a (d_approvals d) = Inr t\<close>] by simp
      ultimately show ?thesis by auto
    qed
  qed
qed

section \<open>Approvals\<close>

lemma record_grant_run:
  "w_durable w = Some d \<Longrightarrow> record_grant g w = (Inr (), w\<lparr>w_durable := Some (d\<lparr>d_grants := grant_boundary g (d_grants d)\<rparr>)\<rparr>)"
  by (simp add: record_grant_def with_durable_def)

lemma granted_after_grant:
  assumes "w_durable w = Some d" and "record_grant g w = (x, w')"
  shows "granted_kept (bg_task_id g, bg_run_id g, bg_boundary_key g) w'"
  using assms by (simp add: record_grant_run) (auto simp: granted_kept_def)

text \<open>The part of \<open>approve\<close> after the decision: the boundary of the approval is granted, and stays granted.\<close>

lemma approve_granted_grants:
  assumes env: "local_harness env" and "world_ok w" and d: "w_durable w = Some d"
    and key: "scope_boundary_key (ap_scope req) = Some k" and "ap_scope decided = ap_scope req"
    and "rs_task_id s = ap_task_id req" and "rs_run_id s = ap_run_id req"
    and run: "approve_granted env i req decided s at identity w = (x, w')"
  shows "granted_kept (ap_task_id req, ap_run_id req, k) w'"
proof -
  let ?g = "(ap_task_id req, ap_run_id req, k)"
  let ?I = "\<lambda>w. world_ok w \<and> granted_kept ?g w"
  have eq: "own_env env = env" using env by (rule own_env_local)
  have found: "grants.found_own t rid" for t rid by (simp add: grants.found_own_def)
  have grant: "?I w2" if "w_durable w1 = Some d1" "world_ok w1" "record_grant g w1 = (y, w2)"
    "(bg_task_id g, bg_run_id g, bg_boundary_key g) = ?g" for w1 w2 d1 g y
    using granted_after_grant[OF that(1,3)] keepsD[OF well_formed.k_grant[of g] that(2,3)] that(4) by simp
  have tail: "keeps ?I m \<Longrightarrow> ?I w2 \<Longrightarrow> m w2 = (x, w') \<Longrightarrow> granted_kept ?g w'" for m w2
    using keepsD[of ?I m w2 x w'] by blast
  show ?thesis
  proof (cases "is_skill_approval req")
    case False
    obtain y w2 where g: "record_grant \<lparr>bg_task_id = rs_task_id s, bg_run_id = rs_run_id s, bg_boundary_key = k,
        bg_approval_id = i, bg_granted_at = at\<rparr> w = (y, w2)" by force
    have "y = Inr ()" using g d by (simp add: record_grant_run)
    have "keeps ?I (bindA (resume_task env (rs_task_id s) (Some (rs_run_id s)) identity False)
        (\<lambda>sn. ret (i, True, ap_status decided, sn)))"
      by (intro keep_rules grants.k_resume[where env = env and g = ?g, unfolded eq] found)
    moreover have "bindA (resume_task env (rs_task_id s) (Some (rs_run_id s)) identity False)
        (\<lambda>sn. ret (i, True, ap_status decided, sn)) w2 = (x, w')"
      using run False key assms(5) g \<open>y = Inr ()\<close> by (simp add: approve_granted_def thenA_run)
    ultimately show ?thesis using tail grant[OF d assms(2) g] assms(6,7) by simp
  next
    case True
    let ?rest = "\<lambda>a. bindA (skill_install env None (ap_task_id req) (Some (ap_run_id req)) a) (\<lambda>out.
        if so_status out \<noteq> ''completed'' then raise (ValueError (so_summary out)) else ret ())"
    let ?w1 = "w\<lparr>w_tick := Suc (w_tick w)\<rparr>"
    obtain y w2 where g: "record_grant \<lparr>bg_task_id = ap_task_id req, bg_run_id = ap_run_id req, bg_boundary_key = k,
        bg_approval_id = ap_id req, bg_granted_at = rt_now env (w_tick w)\<rparr> ?w1 = (y, w2)" by force
    have "y = Inr ()" using g d by (simp add: record_grant_run)
    obtain a where "approve_skill_install env req None w = ?rest a w2"
      using key g \<open>y = Inr ()\<close> by (auto simp: approve_skill_install_def Let_def thenA_run bindA_run utc_now_def)
    then have "thenA (?rest a) (bindA (get_task_snapshot env (rs_task_id s) (Some (rs_run_id s)))
        (\<lambda>sn. ret (i, True, ap_status decided, sn))) w2 = (x, w')"
      using run True by (simp add: approve_granted_def thenA_run)
    moreover have "keeps ?I (thenA (?rest a) (bindA (get_task_snapshot env (rs_task_id s) (Some (rs_run_id s)))
        (\<lambda>sn. ret (i, True, ap_status decided, sn))))"
      by (intro keep_rules grants.k_skill_install[where env = env and g = ?g, unfolded eq] found
          grants.k_snapshot[where env = env and g = ?g, unfolded eq])
    moreover have "world_ok ?w1" using assms(2) by (rule world_ok_frame) (use assms(2) in \<open>simp_all add: world_ok_def workers_ok_def\<close>)
    ultimately show ?thesis using tail grant[OF _ _ g, of d] d by simp
  qed
qed

lemma approve_grants:
  assumes env: "local_harness env" and ok: "world_ok w" and d: "w_durable w = Some d"
    and req: "tbl_get (d_approvals d) i = Some req" and "ap_run_id req \<noteq> []" and key: "scope_boundary_key (ap_scope req) = Some k"
    and run: "approve env tk i ''approved'' rn identity w = (Inr ans, w')"
  shows "granted_kept (ap_task_id req, ap_run_id req, k) w'"
proof -
  have aok: "approvals_ok (d_approvals d)" using world_okD[OF ok d] by (simp add: durable_ok_def)
  have eq: "own_env env = env" using env by (rule own_env_local)
  obtain s decided at w1 w2 w3 where s: "store_get (w_runs w) (ap_task_id req) (Some (ap_run_id req)) = Inr s"
    and dec: "decide_approval env i ''approved'' w = (Inr decided, w1)"
    and now: "utc_now env w1 = (Inr at, w2)"
    and up: "update_run (rs_task_id s) (rs_run_id s) (\<lambda>r. r\<lparr>rs_updated_at := at, rs_awaiting_approval := False,
        rs_pending_approval_id := None\<rparr>) w2 = (Inr (), w3)"
    and fin: "(if ap_status decided = ''approved'' then approve_granted env i req decided s at identity
            else approve_rejected env i req decided s at) w3 = (Inr ans, w')"
    using run d req get_request_ok[OF aok, of i]
    by (auto simp: approve_def bindA_Inr thenA_Inr get_run_def)
  obtain t at' where t: "decide i ''approved'' at' (d_approvals d) = Inr (decided, t)"
      "w_durable w1 = Some (d\<lparr>d_approvals := t\<rparr>)"
    using dec d by (auto simp: decide_approval_def bindA_run utc_now_def split: sum.splits)
  have decided: "ap_status decided = ''approved''" "ap_scope decided = ap_scope req"
    using t(1) req unfolding decide_Inr_iff[OF aok] by auto
  have ids: "rs_task_id s = ap_task_id req" "rs_run_id s = ap_run_id req \<or> ap_run_id req = []" "rs_run_id s \<noteq> []"
    using world_ok_known[OF ok s] by auto
  have d3: "w_durable w3 = Some (d\<lparr>d_approvals := t\<rparr>)"
    using t(2) now up by (auto simp: utc_now_def update_run_def split: sum.splits)
  have "world_ok w1" using keepsD[OF well_formed.k_decide[where env = env, unfolded eq] ok dec] .
  then have "world_ok w2" using keepsD[OF well_formed.k_now[where env = env, unfolded eq] _ now] by blast
  then have "world_ok w3"
    using keepsD[OF well_formed.k_update _ up] ids(3) by (auto simp: run_core_def)
  moreover have "rs_run_id s = ap_run_id req" using ids(2) \<open>ap_run_id req \<noteq> []\<close> by simp
  ultimately show ?thesis
    using approve_granted_grants[OF env _ d3 key decided(2) ids(1) _ ] fin decided(1) by simp
qed

text \<open>The engine itself raises only on an empty command and on a malformed IPv6 address.\<close>

lemma scratch_error: "is_scratch_only_destructive c = Inl e \<Longrightarrow> \<exists>m. e = IndexError m"
  by (auto simp: is_scratch_only_destructive_def Let_def split: if_splits option.splits list.splits)

lemma url_host_error: "url_host u = Inl e \<Longrightarrow> \<exists>m. e = ValueError m"
  by (auto simp: url_host_def url_netloc_def bindR_Inl_iff Let_def split: if_splits)

lemma evaluate_error:
  assumes "evaluate cfg grants c = Inl e"
  shows "(\<exists>m. e = IndexError m) \<or> (\<exists>m. e = ValueError m)"
proof -
  have "is_denied cfg c = Inl e \<or> describe_boundary c = Inl e \<or> requires_approval cfg c = Inl e"
    using assms by (auto simp: evaluate_def bindR_Inl_iff split: if_splits option.splits)
  moreover have "is_denied cfg c = Inl e \<Longrightarrow> \<exists>m. e = IndexError m"
    by (auto simp: is_denied_def Let_def bindR_Inl_iff dest: scratch_error split: if_splits)
  moreover have "requires_approval cfg c = Inl e \<Longrightarrow> \<exists>m. e = IndexError m"
    by (auto simp: requires_approval_def Let_def bindR_Inl_iff dest: scratch_error split: if_splits)
  moreover have "describe_boundary c = Inl e \<Longrightarrow> \<exists>m. e = ValueError m"
    by (auto simp: describe_boundary_def boundary_mcp_connect_def boundary_web_def Let_def bindR_Inl_iff
        dest: url_host_error split: if_splits)
  ultimately show ?thesis by blast
qed

lemma govern_interrupt:
  assumes ok: "world_ok w" and r: "oc_run_id c \<noteq> []"
    and run: "govern_operation env corr c w = (Inl (ApprovalRequiredInterrupt i desc), w1)"
  shows "\<exists>d dec k d1 req. w_durable w = Some d \<and> evaluate_policy env d c = Inr dec \<and> pd_decision dec = REQUIRE_APPROVAL \<and>
    pd_boundary_key dec = Some k \<and> w_durable w1 = Some d1 \<and> tbl_get (d_approvals d1) i = Some req \<and>
    scope_boundary_key (ap_scope req) = Some k \<and> ap_task_id req = oc_task_id c \<and> ap_run_id req = oc_run_id c \<and>
    ap_status req = ''pending''"
proof -
  obtain d where d: "w_durable w = Some d" using run by (cases "w_durable w") (auto simp: govern_operation_def bindA_run)
  obtain dec where dec: "evaluate_policy env d c = Inr dec"
    using run d evaluate_error[of "rt_policy env" "Some (has_grant (d_grants d))" c]
    by (cases "evaluate_policy env d c") (auto simp: govern_operation_def bindA_run evaluate_policy_def)
  have req: "pd_decision dec = REQUIRE_APPROVAL"
    using run d dec by (cases "pd_decision dec") (auto simp: govern_operation_def bindA_run)
  obtain x w2 where ca: "create_approval_request env corr c dec w = (x, w2)" by force
  have "govern_operation env corr c w = (case x of Inl e \<Rightarrow> (Inl e, w2)
      | Inr a \<Rightarrow> (Inl (ApprovalRequiredInterrupt (ap_id a) (ap_description a)), w2))"
    using d dec req ca by (simp add: govern_operation_def bindA_run split: sum.split)
  then obtain a d1 where a: "x = Inr a" "ap_id a = i" "w2 = w1" "w_durable w2 = Some d1"
      "tbl_get (d_approvals d1) (ap_id a) = Some (approval_row a)" "ap_task_id a = oc_task_id c"
      "ap_run_id a = oc_run_id c" "ap_status a = ''pending''" "ap_scope a = approval_scope_of dec"
    using run create_approval_run[OF d ca] by auto
  obtain k where "pd_boundary_key dec = Some k" "scope_boundary_key (json_dict (approval_scope_of dec)) = Some k"
    using approval_scope_key[OF dec[unfolded evaluate_policy_def] req] by blast
  then show ?thesis using d dec req a by (auto simp: approval_row_def)
qed

text \<open>
  C2. Approval unblocks: when governing an operation interrupts the run for an approval and a user approves it, the
  same operation is allowed from then on, in the world the approval leaves and in every later one, whatever the
  resumed run and the clients do in between.
\<close>

theorem approval_unblocks_the_operation:
  assumes env: "local_harness env" and ok: "world_ok w" and r: "oc_run_id c \<noteq> []"
    and govern: "govern_operation env corr c w = (Inl (ApprovalRequiredInterrupt i desc), w1)"
    and approve: "approve env tk i ''approved'' rn identity w1 = (Inr ans, w2)" and later: "reachable env w2 w3"
  shows "\<exists>d3 dec. w_durable w3 = Some d3 \<and> evaluate_policy env d3 c = Inr dec \<and> pd_decision dec = ALLOW"
proof -
  have eq: "own_env env = env" using env by (rule own_env_local)
  obtain d dec k d1 req where g: "w_durable w = Some d" "evaluate_policy env d c = Inr dec"
      "pd_decision dec = REQUIRE_APPROVAL" "pd_boundary_key dec = Some k" "w_durable w1 = Some d1"
      "tbl_get (d_approvals d1) i = Some req" "scope_boundary_key (ap_scope req) = Some k"
      "ap_task_id req = oc_task_id c" "ap_run_id req = oc_run_id c"
    using govern_interrupt[OF ok r govern] by blast
  have keep: "granted_kept h w3 \<and> world_ok w2" if "granted_kept h w \<or> h = (oc_task_id c, oc_run_id c, k)" for h
  proof -
    have ok1: "world_ok w1"
      using keepsD[OF well_formed.k_govern[where env = env, unfolded eq] ok govern] r by simp
    have ok2: "world_ok w2"
      using keepsD[OF well_formed.k_approve[where env = env, unfolded eq] ok1 approve] by simp
    have "granted_kept h w2"
    proof (cases "h = (oc_task_id c, oc_run_id c, k)")
      case True
      then show ?thesis using approve_grants[OF env ok1 g(5,6) _ g(7) approve] g(8,9) r by simp
    next
      case False
      then have "granted_kept h w" using that by blast
      then have "world_ok w1 \<and> granted_kept h w1"
        using keepsD[OF grants.k_govern[where env = env and g = h, unfolded eq] _ govern] ok r by simp
      then show ?thesis
        using keepsD[OF grants.k_approve[where env = env and g = h, unfolded eq] _ approve] by simp
    qed
    then show ?thesis using reachable_granted[OF env later ok2] ok2 by blast
  qed
  obtain d3 where d3: "w_durable w3 = Some d3"
    using keep[of "(oc_task_id c, oc_run_id c, k)"] by (auto simp: granted_kept_def)
  have mono: "has_grant (d_grants d3) t r' k'"
    if "has_grant (grant_boundary \<lparr>bg_task_id = oc_task_id c, bg_run_id = oc_run_id c, bg_boundary_key = k,
        bg_approval_id = i, bg_granted_at = []\<rparr> (d_grants d)) t r' k'" for t r' k'
    using keep[of "(t, r', k')"] that g(1) d3 by (auto simp: granted_kept_def)
  obtain d' where d': "evaluate (rt_policy env) (Some (has_grant (grant_boundary \<lparr>bg_task_id = oc_task_id c,
      bg_run_id = oc_run_id c, bg_boundary_key = k, bg_approval_id = i, bg_granted_at = []\<rparr> (d_grants d)))) c = Inr d'"
      "pd_decision d' = ALLOW"
    using sqlite_grants.grant_then_allow[OF g(2)[unfolded evaluate_policy_def] g(3), where g =
        "\<lparr>bg_task_id = oc_task_id c, bg_run_id = oc_run_id c, bg_boundary_key = k, bg_approval_id = i, bg_granted_at = []\<rparr>"]
      g(4) by auto
  have "\<exists>dec. evaluate (rt_policy env) (Some (has_grant (d_grants d3))) c = Inr dec \<and> pd_decision dec = ALLOW"
    by (rule evaluate_ALLOW_mono[OF d']) (rule mono)
  then show ?thesis using d3 by (simp add: evaluate_policy_def)
qed

definition done_env :: runtime_env where
  "done_env = sample_env (\<lambda>_. Done (Inr (mk_result True ''done'' [])))"

definition sample_asking :: world where
  "sample_asking = sample_run_world\<lparr>w_durable :=
     Some (empty_durable\<lparr>d_checkpoints := bind_thread ''t'' ''r'' ''th'' empty_checkpoints\<rparr>)\<rparr>"

lemma sample_write_ids: "oc_task_id sample_write = ''t''" "oc_run_id sample_write = ''r''"
  by (simp_all add: sample_write_def)

lemma sample_scope_key:
  "scope_boundary_key (json_dict [(''kind'', PStr ''file.write''), (''path'', PStr ''/workspace/src/**''),
     (''boundary_key'', PStr ''file.write:/workspace/src/**'')]) = Some ''file.write:/workspace/src/**''"
  "dict_get (json_dict [(''kind'', PStr ''file.write''), (''path'', PStr ''/workspace/src/**''),
     (''boundary_key'', PStr ''file.write:/workspace/src/**'')]) ''kind'' = PStr ''file.write''"
  by code_simp+

lemma done_roots: "\<exists>sr. create_roots (\<lambda>p. p) \<lparr>wm_runtime_root = [''rt''], wm_governed_root = [''ws''],
    wm_virtual_root = pure_path ''/workspace''\<rparr> ''t'' ''r'' [''/workspace''] = Inr sr"
proof -
  have "isl (create_roots (\<lambda>p. p) \<lparr>wm_runtime_root = [''rt''], wm_governed_root = [''ws''],
    wm_virtual_root = pure_path ''/workspace''\<rparr> ''t'' ''r'' [''/workspace'']) = False" by code_simp
  then show ?thesis by (metis isl_def sum.exhaust)
qed

lemmas approve_defs = govern_operation_def evaluate_policy_def create_approval_request_def update_run_def
  store_update_def store_get_def approval_scope_of_def create_request_def store_create_def rs_key_def
  accepted_state_def approve_def get_request_def row_to_approval_def approval_status_def
  optional_approval_status_def approval_row_def approve_check_def get_run_def approve_state_check_def
  is_skill_approval_def decide_approval_def decide_def decide_row_def
  approve_granted_def record_grant_def resume_task_def resume_check_def execute_run_def cancellation_for_def
  cancel_requested_def cancel_reason_def cancel_obj_def new_cancellation_def controller_for_run_def adapter_resume_def
  resume_run_def get_resume_handle_def get_thread_id_def build_from_handle_def begin_execution_def controller_thread_def
  controller_latest_def execution_started_def sandbox_for_run_def run_harness_def load_conversation_messages_def
  canonical_messages_def list_messages_def register_outputs_def finish_run_def finish_completed_def completed_state_def
  get_task_snapshot_def mk_result_def or_else_def

text \<open>The sample run asks, is approved, resumes and completes.\<close>

lemma sample_asked:
  "\<exists>w1 ans w2. govern_operation done_env None sample_write sample_asking = (Inl (ApprovalRequiredInterrupt
      (''approval_'' @ take 12 (sample_uuid (Suc 0))) ''Allow writes to /workspace/src/** for this run''), w1) \<and>
    approve done_env None (''approval_'' @ take 12 (sample_uuid (Suc 0))) ''approved'' None ''i'' w1 = (Inr ans, w2)"
proof -
  obtain sr where sr: "create_roots (\<lambda>p. p) \<lparr>wm_runtime_root = [''rt''], wm_governed_root = [''ws''],
    wm_virtual_root = pure_path ''/workspace''\<rparr> ''t'' ''r'' [''/workspace''] = Inr sr" using done_roots by blast
  show ?thesis
    by (simp add: sr sample_scope_key done_env_def sample_asking_def sample_write_decision sample_write_ids
        sample_run_world_def approve_defs world_defs store_defs Let_def cong: run_weak) blast
qed

theorem approval_unblocks_the_operation_witness:
  "\<exists>w2 :: world. \<exists>d2 dec. w_durable w2 = Some d2 \<and>
     evaluate_policy done_env d2 sample_write = Inr dec \<and> pd_decision dec = ALLOW"
proof -
  obtain w1 ans w2 where run: "govern_operation done_env None sample_write sample_asking = (Inl (ApprovalRequiredInterrupt
      (''approval_'' @ take 12 (sample_uuid (Suc 0))) ''Allow writes to /workspace/src/** for this run''), w1)"
    "approve done_env None (''approval_'' @ take 12 (sample_uuid (Suc 0))) ''approved'' None ''i'' w1 = (Inr ans, w2)"
    using sample_asked by blast
  have "local_harness done_env" by (simp add: local_harness_def done_env_def sample_env_def)
  moreover have "world_ok sample_asking"
    by (simp add: world_ok_def sample_asking_def sample_run_world_def initial_world_def store_ok_create accepted_state_def
        workers_ok_def durable_ok_def empty_durable_def event_rows_ok_def memory_rows_ok_def)
  moreover have "oc_run_id sample_write \<noteq> []" by (simp add: sample_write_ids)
  ultimately obtain d3 dec where "w_durable w2 = Some d3" "evaluate_policy done_env d3 sample_write = Inr dec"
      "pd_decision dec = ALLOW"
    using approval_unblocks_the_operation[OF _ _ _ run reachable.start] by blast
  then show ?thesis by (intro exI conjI)
qed

end
