(* ===== verification/Agent_Confinement.thy ===== *)
theory Agent_Confinement
  imports Tool_Access Governance Access_Control
begin

text \<open>
  What an agent can do to the host. The first part gives the run of an agent as \<open>_run_agent_task\<close> of
  \<open>deepagent_harness.py\<close> drives it: the model picks tools, one after the other, and its last message becomes the
  summary and the response. The second part runs such a program in the runtime and shows which host files it
  can change.
\<close>

section \<open>The run of an agent\<close>

text \<open>
  The messages of the agent's result, as dicts. \<open>_normalize_content_block\<close>, \<open>_normalize_message_content\<close>,
  \<open>_extract_summary\<close>, \<open>_extract_final_assistant_response\<close> and \<open>_extract_error_message\<close>.
\<close>

definition stripped_text :: "pyval \<Rightarrow> string option" where
  "stripped_text v = map_option py_strip (nonblank_str v)"

definition normalize_content_block :: "pyval \<Rightarrow> string option" where
  "normalize_content_block block = (case block of
     PStr s \<Rightarrow> stripped_text block
   | PDict d \<Rightarrow>
       if dict_get d ''type'' \<notin> {PNone, PStr ''text'', PStr ''output_text''} then None
       else first_some (\<lambda>k. stripped_text (dict_get d k)) [''text'', ''content'', ''value'']
   | _ \<Rightarrow> None)"

definition normalize_message_content :: "pyval \<Rightarrow> string option" where
  "normalize_message_content content = (case content of
     PStr s \<Rightarrow> stripped_text content
   | PList items \<Rightarrow>
       (let parts = List.map_filter normalize_content_block items in
        if parts = [] then None else stripped_text (PStr (join_with [char_of (10::nat)] parts)))
   | _ \<Rightarrow> None)"

definition result_messages :: "pydict \<Rightarrow> pydict list" where
  "result_messages result = (case dict_get result ''messages'' of
     PList ms \<Rightarrow> List.map_filter as_dict ms | _ \<Rightarrow> [])"

definition extract_summary :: "pydict \<Rightarrow> string" where
  "extract_summary result =
     (case first_some (\<lambda>m. stripped_text (dict_get m ''content'')) (rev (result_messages result)) of
        Some s \<Rightarrow> truncate_text s 280 | None \<Rightarrow> ''Deep Agent execution completed.'')"

definition message_response :: "pydict \<Rightarrow> string option" where
  "message_response m =
     (if dict_get m ''role'' \<noteq> PStr ''assistant'' \<and> dict_get m ''type'' \<noteq> PStr ''ai'' then None
      else (case normalize_message_content (dict_get m ''content_blocks'') of
          Some s \<Rightarrow> Some s | None \<Rightarrow> normalize_message_content (dict_get m ''content'')))"

definition extract_final_response :: "pydict \<Rightarrow> string option" where
  "extract_final_response result = first_some message_response (rev (result_messages result))"

definition extract_error_message :: "pydict \<Rightarrow> string option" where
  "extract_error_message result = stripped_text (dict_get result ''error'')"

text \<open>\<open>_write_final_response_artifact\<close>.\<close>

definition final_response_path :: "string \<Rightarrow> string \<Rightarrow> string" where
  "final_response_path task run = ''/workspace/artifacts/'' @ task @ ''/'' @ run @ ''/final_response.md''"

definition write_final_response :: "string \<Rightarrow> string \<Rightarrow> string option \<Rightarrow> string option prog" where
  "write_final_response task run response = (case response of
     None \<Rightarrow> Done (Inr None)
   | Some text \<Rightarrow> p_then (WriteText (final_response_path task run) (text @ [char_of (10::nat)]) Done) (\<lambda>_.
       p_map Some (Done (sandbox_normalize (final_response_path task run)))))"

text \<open>
  The agent itself is the library's: \<open>choose\<close> is its next tool call after the calls and answers so far, and
  \<open>conclude\<close> the result dict it returns. A tool the agent was not given answers nothing. \<open>n\<close> bounds the number of
  calls, as the recursion limit of the agent library does.
\<close>

record agent =
  ag_choose :: "(tool_call \<times> pyval) list \<Rightarrow> tool_call option"
  ag_conclude :: "(tool_call \<times> pyval) list \<Rightarrow> pydict"

fun agent_loop ::
    "nat \<Rightarrow> tool_bindings \<Rightarrow> tool_scopes \<Rightarrow> agent \<Rightarrow> (tool_call \<times> pyval) list \<Rightarrow> string list
     \<Rightarrow> ((tool_call \<times> pyval) list \<times> string list) prog" where
  "agent_loop 0 b sc ag h written = Done (Inr (h, written))"
| "agent_loop (Suc n) b sc ag h written = (case ag_choose ag h of
     None \<Rightarrow> Done (Inr (h, written))
   | Some call \<Rightarrow>
       if \<not> offered sc call then agent_loop n b sc ag (h @ [(call, PNone)]) written
       else p_then (langchain_tool b sc written call) (\<lambda>(v, written').
         agent_loop n b sc ag (h @ [(call, v)]) written'))"

definition agent_outcome_of :: "pydict \<Rightarrow> string list \<Rightarrow> string option \<Rightarrow> agent_outcome" where
  "agent_outcome_of result paths final_path =
     (let success = py_truthy (dict_get_or result ''success'' (PBool True)) in
      \<lparr>ao_success = success, ao_summary = extract_summary result,
       ao_artifact_paths = paths @ (case final_path of None \<Rightarrow> [] | Some p \<Rightarrow> [p]),
       ao_error_message = (if success then None else extract_error_message result),
       ao_final_response = extract_final_response result\<rparr>)"

definition run_agent_task :: "nat \<Rightarrow> tool_bindings \<Rightarrow> bool \<Rightarrow> agent \<Rightarrow> agent_outcome prog" where
  "run_agent_task n b hc ag =
     p_then (raise_if_cancelled hc ''cancel_requested'') (\<lambda>_.
     p_then (raise_if_cancelled hc ''cancel_requested'') (\<lambda>_.
     p_then (emit_event b ''plan.updated'' [(''phase'', PStr ''executing''),
        (''summary'', PStr ''Executing the primary Deep Agent with compiled project-owned subagents.'')]) (\<lambda>_.
     p_then (raise_if_cancelled hc ''cancel_requested'') (\<lambda>_.
     p_then (agent_loop n b primary_scopes ag [] []) (\<lambda>(h, written).
     p_then (raise_if_cancelled hc ''cancel_requested'') (\<lambda>_.
     let result = ag_conclude ag h in
     p_then (write_final_response (tb_task_id b) (tb_run_id b) (extract_final_response result)) (\<lambda>final_path.
       Done (Inr (agent_outcome_of result written final_path)))))))))"

section \<open>What stays untouched\<close>

text \<open>The operations of the runtime that touch no host file, and none that drops the durable services.\<close>

named_theorems files_kept

abbreviation same_files :: "files \<Rightarrow> world \<Rightarrow> bool" where
  "same_files F \<equiv> \<lambda>w. w_files w = F"

lemma f_now [files_kept]: "keeps (same_files F) (utc_now env)"
  by (rule keepsI) (auto simp: utc_now_def)

lemma f_uuid [files_kept]: "keeps (same_files F) (uuid_hex env)"
  by (rule keepsI) (auto simp: uuid_hex_def)

lemma f_new_id [files_kept]: "keeps (same_files F) (new_id env pre)"
  unfolding new_id_def by (intro keep_rules files_kept)

lemma f_get_run [files_kept]: "keeps (same_files F) (get_run t r)"
  by (rule keepsI) (simp add: get_run_def)

lemma f_update_run [files_kept]: "keeps (same_files F) (update_run t r f)"
  by (rule keepsI) (auto simp: update_run_def split: sum.splits prod.splits)

lemma f_with_durable [files_kept]: "keeps (same_files F) (with_durable x f)"
  by (rule keepsI) (auto simp: with_durable_def split: option.splits prod.splits)

lemma f_read_durable [files_kept]: "keeps (same_files F) (read_durable x f)"
  by (rule keepsI) (auto simp: read_durable_def)

lemma f_bus_put [files_kept]: "keeps (same_files F) (bus_put e)"
  by (rule keepsI) (auto simp: bus_put_def split: sum.splits)

lemma f_host_error [files_kept]: "keeps (same_files F) (host_error env p)"
  by (rule keepsI) (auto simp: host_error_def)

lemma f_modS: "(\<And>w. w_files (f w) = w_files w) \<Longrightarrow> keeps (same_files F) (modS f)"
  by (rule keepsI) (auto simp: modS_def)

lemma f_metrics [files_kept]: "keeps (same_files F) (write_run_metrics env t r c)"
  unfolding write_run_metrics_def new_metrics_record_def has_durable_def by (intro keep_rules files_kept)

lemma f_publish [files_kept]: "keeps (same_files F) (publish env t r corr ty at src payload)"
  unfolding publish_def store_event_def Let_def by (intro keep_rules files_kept)

lemma f_diagnostic [files_kept]: "keeps (same_files F) (append_run_diagnostic env t r k m d)"
  unfolding append_run_diagnostic_def has_durable_def by (intro keep_rules files_kept)

lemma f_handle [files_kept]: "keeps (same_files F) (handle_harness_event env t r corr ty payload)"
  unfolding handle_harness_event_def record_tool_rejection_def reset_rejection_streak_def Let_def
  by (intro keep_rules files_kept)

lemma f_govern [files_kept]: "keeps (same_files F) (govern_operation env corr c)"
  unfolding govern_operation_def create_approval_request_def Let_def by (intro keep_rules files_kept)

lemma f_controller [files_kept]: "keeps (same_files F) (controller_record env i reason)"
  unfolding controller_record_def
  by (intro keep_rules files_kept) (auto intro!: keepsI split: option.splits prod.splits)

lemma f_cancellation_for [files_kept]: "keeps (same_files F) (cancellation_for t r)"
  by (rule keepsI) (auto simp: cancellation_for_def Let_def split: option.splits)

lemma f_interrupt [files_kept]: "keeps (same_files F) (interrupt_if_cancelled env t r s ctl)"
  unfolding interrupt_if_cancelled_def record_and_announce_def cancel_requested_def cancel_reason_def
  by (intro keep_rules files_kept)

lemma f_transition [files_kept]: "keeps (same_files F) (transition_to_cancelled env t r su why corr ctl n k)"
  unfolding transition_to_cancelled_def cancel_checkpoint_def mark_cancelled_def record_and_announce_def
    controller_thread_def get_controller_def cancel_reason_def Let_def
  by (intro keep_rules files_kept)

lemma f_new_controller [files_kept]: "keeps (same_files F) (new_controller c)"
  by (rule keepsI) (auto simp: new_controller_def)

lemma f_cancellation_controller [files_kept]: "keeps (same_files F) (controller_for_cancellation env t r)"
  unfolding controller_for_cancellation_def controller_for_run_def adapter_resume_def adapter_attach_def
    adapter_begin_run_def has_durable_def
  by (intro keep_rules files_kept)

lemma f_cancel_run [files_kept]: "keeps (same_files F) (cancel_run env t r reason)"
  unfolding cancel_run_def request_cancellation_def
  by (intro keep_rules files_kept f_modS) simp

lemma f_sandbox_read [files_kept]: "keeps (same_files F) (sandbox_read env sr p)"
  unfolding sandbox_read_def by (intro keep_rules files_kept)

lemma f_sandbox_list [files_kept]: "keeps (same_files F) (sandbox_list_files env sr p)"
  unfolding sandbox_list_files_def by (intro keep_rules files_kept)

lemma f_sandbox_exists [files_kept]: "keeps (same_files F) (sandbox_exists env sr p)"
  unfolding sandbox_exists_def by (intro keep_rules files_kept)

lemma f_probe [files_kept]: "keeps (same_files F) (probe_cancellation x)"
  unfolding probe_cancellation_def cancel_requested_def cancel_reason_def by (intro keep_rules files_kept)

lemma sandbox_write_files:
  "sandbox_write env sr p content w = (y, w') \<Longrightarrow> w_files w' = w_files w \<or>
   (\<exists>h. sandbox_resolve (rt_resolve env) sr p = Inr h \<and> w_files w' = AList.update h (rt_encode env content) (w_files w))"
  by (auto simp: sandbox_write_def bindA_run thenA_run host_error_def split: sum.splits option.splits)

section \<open>Permissions that stand\<close>

definition allowed_now :: "runtime_env \<Rightarrow> world \<Rightarrow> operation_context \<Rightarrow> bool" where
  "allowed_now env w c \<longleftrightarrow> (\<exists>d dec. w_durable w = Some d \<and> evaluate_policy env d c = Inr dec \<and> pd_decision dec = ALLOW)"

definition standing :: "runtime_env \<Rightarrow> log \<Rightarrow> world \<Rightarrow> bool" where
  "standing env G w \<longleftrightarrow> world_ok w \<and> w_durable w \<noteq> None \<and> (\<forall>c \<in> set G. allowed_now env w c)"

interpretation services: world_part "own_env env" "\<lambda>w. w_durable w \<noteq> None" for env
proof
  show "local_harness (own_env env)" by (rule local_own_env)
  show "w_durable w' \<noteq> None" if "w_durable w \<noteq> None" "allocate_run (own_env env) p roots w = (x, w')" for w p roots x w'
    using allocate_run_governed[OF that(2)] that(1) by (cases "w_durable w'") auto
qed (auto simp: published_def set_durable_def)

lemma standing_prog:
  assumes "local_harness env" and "ec_run_id x \<noteq> []" and "local_prog (ec_task_id x) (ec_run_id x) p"
  shows "keeps (standing env G) (run_prog env x p ts)"
proof (rule keepsI)
  fix w assume w: "standing env G w"
  let ?w' = "snd (run_prog env x p ts w)"
  have eq: "own_env env = env" using assms(1) by (rule own_env_local)
  have ok: "world_ok ?w' \<and> w_durable ?w' \<noteq> None"
    using services.k_prog[of x p env ts] assms(2,3) w unfolding eq by (simp add: standing_def keeps_def)
  from w have "has_grant (d_grants d') t r k"
    if "w_durable w = Some d" "w_durable ?w' = Some d'" "has_grant (d_grants d) t r k" for d d' t r k
    using grants.k_prog[where x = x and p = p and ts = ts and env = env and g = "(t, r, k)"] assms(2,3) w that unfolding eq
    by (auto simp: standing_def granted_kept_def keeps_def)
  moreover have "allowed_now env ?w' c" if a: "allowed_now env w c" for c
  proof -
    obtain d dec where d: "w_durable w = Some d" "evaluate (rt_policy env) (Some (has_grant (d_grants d))) c = Inr dec"
        "pd_decision dec = ALLOW"
      using a by (auto simp: allowed_now_def evaluate_policy_def)
    obtain d' where d': "w_durable ?w' = Some d'" using ok by auto
    then show ?thesis
      using evaluate_ALLOW_mono[OF d(2,3), of "has_grant (d_grants d')"] calculation[OF d(1) d']
      by (auto simp: allowed_now_def evaluate_policy_def)
  qed
  ultimately show "standing env G ?w'" using ok w by (simp add: standing_def)
qed

section \<open>The host files an agent can change\<close>

definition write_context :: "string \<Rightarrow> string \<Rightarrow> string \<Rightarrow> operation_context" where
  "write_context task run p = \<lparr>oc_task_id = task, oc_run_id = run, oc_operation_type = ''file.write'',
     oc_path_scope = Some p, oc_command_class = None, oc_memory_scope = None, oc_namespace = None,
     oc_agent_role = None, oc_metadata = None\<rparr>"

lemma write_context_operation:
  "(operation b ''file.write'')\<lparr>oc_path_scope := Some p\<rparr> = write_context (tb_task_id b) (tb_run_id b) p"
  by (simp add: operation_def write_context_def)

text \<open>An agent that can neither run commands nor install skills: the accesses left to it.\<close>

definition unarmed :: "tool_bindings \<Rightarrow> bool" where
  "unarmed b \<longleftrightarrow> ensure_allowed b ''execute_command'' execute_capabilities \<noteq> Inr () \<and>
     ensure_allowed b ''skill_installer'' skill_install_capabilities \<noteq> Inr ()"

fun confined_access :: "string \<Rightarrow> string \<Rightarrow> log \<Rightarrow> access \<Rightarrow> bool" where
  "confined_access t r G (AccessWrite p content) = (p = final_response_path t r \<or>
     ((\<exists>raw. sandbox_normalize raw = Inr p) \<and> write_context t r p \<in> set G))"
| "confined_access t r G (AccessExec command cwd) = False"
| "confined_access t r G (AccessInstall a) = False"
| "confined_access t r G (AccessGovern c) = (oc_task_id c = t \<and> oc_run_id c = r)"
| "confined_access t r G a = True"

interpretation confined: tool_rule "harness_bindings t r hc hm caps fetch search" hc
    "\<lambda>G a. unarmed (harness_bindings t r hc hm caps fetch search) \<longrightarrow> confined_access t r G a"
    for t r hc hm caps fetch search
proof unfold_locales
  let ?b = "harness_bindings t r hc hm caps fetch search"
  show "unarmed ?b \<longrightarrow> confined_access t r G (AccessWrite p content)"
    if "sandbox_normalize raw = Inr p" "(operation ?b ''file.write'')\<lparr>oc_path_scope := Some p\<rparr> \<in> set G" for raw p G content
    using that by (auto simp: write_context_operation) (auto simp: harness_bindings_def)
qed (auto simp: harness_bindings_def unarmed_def)

context tool_rule
begin

lemma safe_loop:
  assumes "\<And>G p. A G (AccessExists p) \<and> A G (AccessRead p)"
  shows "safe_prog A G (agent_loop n b sc ag h written)"
proof (induction n arbitrary: G h written)
  case (Suc n)
  have "safe_prog A G (langchain_tool b sc written call)" for call
    using safe_tool[of call G sc written] safe_inspect[OF assms] by (cases "call = CallArtifactInspect") (auto intro: safe_map)
  then show ?case using Suc by (auto split: option.split intro!: safe_then)
qed simp

lemma safe_agent_task:
  assumes "\<And>G p. A G (AccessExists p) \<and> A G (AccessRead p)"
    and "\<And>G c. A G (AccessWrite (final_response_path (tb_task_id b) (tb_run_id b)) c)"
  shows "safe_prog A G (run_agent_task n b c ag)"
proof -
  have final: "safe_prog A G (write_final_response (tb_task_id b) (tb_run_id b) res)" for G res
    by (cases res) (auto simp: write_final_response_def p_then_def p_map_def assms(2) split: sum.split)
  have loop: "safe_prog A G (agent_loop n b primary_scopes ag [] [])" for G
    by (rule safe_loop[OF assms(1)])
  show ?thesis
    unfolding run_agent_task_def Let_def
    by (intro safe_after[OF same_cancelled] safe_after[OF same_emit] safe_then[OF loop] safe_then[OF final])
      (auto intro!: safe_after[OF same_cancelled] safe_then[OF final] split: prod.split)
qed

end

text \<open>The writes of an unarmed agent, in the runtime.\<close>

definition may_write :: "runtime_env \<Rightarrow> execution_context \<Rightarrow> world \<Rightarrow> host_path \<Rightarrow> bool" where
  "may_write env x w h \<longleftrightarrow> (\<exists>p. sandbox_resolve (rt_resolve env) (ec_sandbox x) p = Inr h \<and>
     (p = final_response_path (ec_task_id x) (ec_run_id x) \<or>
      (\<exists>raw. sandbox_normalize raw = Inr p) \<and> allowed_now env w (write_context (ec_task_id x) (ec_run_id x) p)))"

definition within :: "runtime_env \<Rightarrow> execution_context \<Rightarrow> files \<Rightarrow> log \<Rightarrow> world \<Rightarrow> bool" where
  "within env x F G w \<longleftrightarrow> standing env G w \<and> (\<forall>h. map_of (w_files w) h \<noteq> map_of F h \<longrightarrow> may_write env x w h)"

lemma within_same:
  assumes "\<And>G. keeps (standing env G) m" and "\<And>F. keeps (same_files F) m"
  shows "keeps (within env x F G) m"
proof (rule keepsI)
  fix w assume w: "within env x F G w"
  have st: "standing env G' (snd (m w))" if "standing env G' w" for G' using assms(1) that by (simp add: keeps_def)
  have "allowed_now env (snd (m w)) c" if "allowed_now env w c" for c
    using st[of "[c]"] w that by (simp add: within_def standing_def)
  then have "may_write env x (snd (m w)) h" if "may_write env x w h" for h using that by (auto simp: may_write_def)
  moreover have "w_files (snd (m w)) = w_files w" using assms(2)[of "w_files w"] by (simp add: keeps_def)
  ultimately show "within env x F G (snd (m w))" using w st[of G] by (auto simp: within_def)
qed

lemma keeps_of_bind: "keeps I (bindA m (\<lambda>a. ret (f a))) \<Longrightarrow> keeps I m"
proof (rule keepsI)
  fix s assume k: "keeps I (bindA m (\<lambda>a. ret (f a)))" and s: "I s"
  obtain r s' where m: "m s = (r, s')" by force
  then show "I (snd (m s))" using k s by (cases r) (auto simp: keeps_def bindA_run ret_def)
qed

lemma within_node:
  assumes "local_harness env" and "ec_run_id x \<noteq> []" and "local_prog (ec_task_id x) (ec_run_id x) p"
    and "run_prog env x p ts = bindA m (\<lambda>a. ret (f a))" and "\<And>F. keeps (same_files F) m"
  shows "keeps (within env x F G) m"
  by (rule within_same[OF _ assms(5)], rule keeps_of_bind[where f = f]) (metis standing_prog[OF assms(1-3)] assms(4))

lemma govern_allows:
  assumes "govern_operation env corr c w = (Inr (), w')" and "w_durable w \<noteq> None"
  shows "w' = w \<and> allowed_now env w c"
  using assms by (auto simp: govern_operation_def allowed_now_def bindA_run raise_def ret_def liftR_def getS_def
      split: if_splits prod.splits sum.splits)

lemma within_govern:
  assumes "local_harness env" and "ec_run_id x \<noteq> []" and "local_prog (ec_task_id x) (ec_run_id x) (Govern c k)"
    and "\<And>r. keeps (within env x F (if isl r then G else c # G)) (run_prog env x (k r) ts)"
  shows "keeps (within env x F G) (run_prog env x (Govern c k) ts)"
proof (rule keepsI)
  fix w assume w: "within env x F G w"
  obtain r w1 where g: "govern_operation env (ec_correlation_id x) c w = (r, w1)" by force
  have "keeps (within env x F G) (tryA (govern_operation env (ec_correlation_id x) c))"
    by (rule within_node[where p = "Govern c Done" and ts = ts, OF assms(1,2)])
      (use assms(3) in \<open>auto intro!: keep_rules files_kept\<close>)
  then have w1: "within env x F G w1" using w g by (auto simp: keeps_def tryA_run)
  have run: "run_prog env x (Govern c k) ts w = run_prog env x (k r) ts w1"
    using g by (simp add: bindA_run tryA_run)
  have rest: "within env x F (if isl r then G else c # G) (snd (run_prog env x (k r) ts w1))"
    if "within env x F (if isl r then G else c # G) w1"
    using assms(4)[of r] that by (simp add: keeps_def)
  show "within env x F G (snd (run_prog env x (Govern c k) ts w))"
  proof (cases r)
    case (Inl e)
    then show ?thesis unfolding run using rest w1 by simp
  next
    case (Inr u)
    have "w_durable w \<noteq> None" using w by (simp add: within_def standing_def)
    then have "within env x F (c # G) w1"
      using govern_allows[of env "ec_correlation_id x" c w w1] g Inr w1 by (auto simp: within_def standing_def)
    then have "within env x F (c # G) (snd (run_prog env x (k r) ts w1))" using rest Inr by simp
    then show ?thesis unfolding run by (simp add: within_def standing_def)
  qed
qed

lemma within_write:
  assumes "local_harness env" and "ec_run_id x \<noteq> []"
    and "confined_access (ec_task_id x) (ec_run_id x) G (AccessWrite p content)"
  shows "keeps (within env x F G) (tryA (sandbox_write env (ec_sandbox x) p content))"
proof (rule keepsI)
  fix w assume w: "within env x F G w"
  obtain r w1 where g: "sandbox_write env (ec_sandbox x) p content w = (r, w1)" by force
  have kept: "keeps (standing env G') (tryA (sandbox_write env (ec_sandbox x) p content))" for G'
    using standing_prog[OF assms(1,2), of "WriteText p content Done" G' "[]"] by (simp add: keeps_of_bind)
  then have st: "standing env G' w1" if "standing env G' w" for G'
    using kept[unfolded keeps_def, rule_format, OF that] g by (simp add: tryA_run)
  have allowed: "allowed_now env w1 c" if "allowed_now env w c" for c
    using st[of "[c]"] w that by (simp add: within_def standing_def)
  then have may: "may_write env x w1 h" if "may_write env x w h" for h using that by (auto simp: may_write_def)
  have "may_write env x w1 h" if h: "sandbox_resolve (rt_resolve env) (ec_sandbox x) p = Inr h" for h
    using assms(3) h w allowed by (auto simp: may_write_def within_def standing_def)
  then show "within env x F G (snd (tryA (sandbox_write env (ec_sandbox x) p content) w))"
    using sandbox_write_files[OF g] w st[of G] may g
    by (auto simp: within_def tryA_run update_conv' split: if_splits)
qed

lemma within_prog:
  assumes "local_harness env" and "ec_run_id x \<noteq> []" and "local_prog (ec_task_id x) (ec_run_id x) p"
    and "safe_prog (confined_access (ec_task_id x) (ec_run_id x)) G p"
  shows "keeps (within env x F G) (run_prog env x p ts)"
  using assms(3,4)
proof (induction p arbitrary: G ts)
  case (Govern c k)
  then show ?case by (intro within_govern assms(1,2)) auto
next
  case (WriteText p content k)
  then show ?case by (auto intro!: keeps_bind within_write assms(1,2))
next
  case (Emit ty pl k)
  have "keeps (within env x F G) (tryA (on_harness_event env x ty pl))"
    by (rule within_node[where p = "Emit ty pl Done" and ts = ts, OF assms(1,2)])
      (auto simp: on_harness_event_def intro!: keep_rules files_kept)
  then show ?case using Emit by (auto intro!: keeps_bind)
next
  case (SaveCheckpoint s k)
  have "keeps (within env x F G) (tryA (case ec_controller x of None \<Rightarrow> ret None
        | Some i \<Rightarrow> bindA (controller_record env i s) (\<lambda>m. ret (Some m))))"
    by (rule within_node[where p = "SaveCheckpoint s Done" and ts = ts, OF assms(1,2)])
      (auto intro!: keep_rules files_kept)
  then show ?case using SaveCheckpoint by (auto intro!: keeps_bind)
next
  case (Probe k)
  have "keeps (within env x F G) (probe_cancellation x)"
    by (rule within_node[where p = "Probe (\<lambda>_. Done (Inr ()))" and ts = ts, OF assms(1,2)])
      (auto intro!: keep_rules files_kept)
  then show ?case using Probe by (auto intro!: keeps_bind)
next
  case (InterruptCheck s k)
  have "keeps (within env x F G) (tryA (interrupt_if_cancelled env (ec_task_id x) (ec_run_id x) s (ec_controller x)))"
    by (rule within_node[where p = "InterruptCheck s Done" and ts = ts, OF assms(1,2)])
      (auto intro!: keep_rules files_kept)
  then show ?case using InterruptCheck by (auto intro!: keeps_bind)
next
  case (ReadText p k)
  have "keeps (within env x F G) (tryA (sandbox_read env (ec_sandbox x) p))"
    by (rule within_node[where p = "ReadText p Done" and ts = ts, OF assms(1,2)])
      (auto intro!: keep_rules files_kept)
  then show ?case using ReadText by (auto intro!: keeps_bind)
next
  case (WriteMemory m k)
  have "keeps (within env x F G) (tryA (with_durable () (\<lambda>d. case write_memory m (d_memory d) of
        Inl e \<Rightarrow> (Inl e, d) | Inr t \<Rightarrow> (Inr (), d\<lparr>d_memory := t\<rparr>))))"
    by (rule within_node[where p = "WriteMemory m Done" and ts = ts, OF assms(1,2)])
      (auto intro!: keep_rules files_kept)
  then show ?case using WriteMemory by (auto intro!: keeps_bind)
next
  case (ListMemory s n k)
  have "keeps (within env x F G) (tryA (read_durable [] (\<lambda>d. list_memory (d_memory d) s n)))"
    by (rule within_node[where p = "ListMemory s n Done" and ts = ts, OF assms(1,2)])
      (auto intro!: keep_rules files_kept)
  then show ?case using ListMemory by (auto intro!: keeps_bind)
next
  case (ListArtifacts k)
  then show ?case by (auto intro!: keeps_bind keeps_getS)
next
  case (ListFiles p k)
  have "keeps (within env x F G) (tryA (sandbox_list_files env (ec_sandbox x) p))"
    by (rule within_node[where p = "ListFiles p Done" and ts = ts, OF assms(1,2)])
      (auto intro!: keep_rules files_kept)
  then show ?case using ListFiles by (auto intro!: keeps_bind)
next
  case (PathExists p k)
  have "keeps (within env x F G) (tryA (sandbox_exists env (ec_sandbox x) p))"
    by (rule within_node[where p = "PathExists p Done" and ts = ts, OF assms(1,2)])
      (auto intro!: keep_rules files_kept)
  then show ?case using PathExists by (auto intro!: keeps_bind)
next
  case (Clock k)
  have "keeps (within env x F G) (utc_now env)"
    by (rule within_node[where p = "Clock (\<lambda>_. Done (Inr ()))" and ts = ts, OF assms(1,2)])
      (auto intro!: keep_rules files_kept)
  then show ?case using Clock by (auto intro!: keeps_bind)
next
  case (NewMemoryId k)
  have "keeps (within env x F G) (new_id env ''mem'')"
    by (rule within_node[where p = "NewMemoryId (\<lambda>_. Done (Inr ()))" and ts = ts, OF assms(1,2)])
      (auto intro!: keep_rules files_kept)
  then show ?case using NewMemoryId by (auto intro!: keeps_bind)
next
  case (ClientCancel s k)
  have "keeps (within env x F G) (tryA (bindA (cancel_run env (ec_task_id x) (Some (ec_run_id x)) s) (\<lambda>_. ret ())))"
    by (rule within_node[where p = "ClientCancel s Done" and ts = ts, OF assms(1,2)])
      (auto intro!: keep_rules files_kept)
  then show ?case using ClientCancel by (auto intro!: keeps_bind)
qed (auto intro!: keep_rules)

lemma guarded_local:
  assumes "guarded A Q G p" and own: "\<And>G c. A G (AccessGovern c) \<Longrightarrow> oc_task_id c = t \<and> oc_run_id c = r"
  shows "local_prog t r p"
  using assms(1) by (induction p arbitrary: G) (auto dest: own)

lemma confined_agent:
  fixes t r hc hm caps fetch search
  defines "b \<equiv> harness_bindings t r hc hm caps fetch search"
  assumes "unarmed b"
  shows "safe_prog (confined_access t r) [] (run_agent_task n b hc ag)"
proof -
  have own: "tb_task_id b = t" "tb_run_id b = r" by (simp_all add: b_def harness_bindings_def)
  have "safe_prog (\<lambda>G a. unarmed b \<longrightarrow> confined_access t r G a) [] (run_agent_task n b hc ag)"
    unfolding b_def by (rule confined.safe_agent_task) (auto simp: own[unfolded b_def])
  then show ?thesis by (rule guarded_strengthen) (use assms(2) in simp)
qed

lemma confined_run:
  assumes "local_harness env" and "world_ok w" and "w_durable w \<noteq> None" and "ec_run_id x \<noteq> []"
    and "unarmed (harness_bindings (ec_task_id x) (ec_run_id x) hc hm caps fetch search)"
  shows "within env x (w_files w) []
    (snd (run_prog env x (run_agent_task n (harness_bindings (ec_task_id x) (ec_run_id x) hc hm caps fetch search) hc ag) ts w))"
proof -
  note safe = confined_agent[OF assms(5), of n ag]
  have "local_prog (ec_task_id x) (ec_run_id x)
      (run_agent_task n (harness_bindings (ec_task_id x) (ec_run_id x) hc hm caps fetch search) hc ag)"
    by (rule guarded_local[OF safe]) simp
  from within_prog[OF assms(1,4) this safe, of "w_files w" ts] assms(2,3)
  show ?thesis by (auto simp: keeps_def within_def standing_def)
qed

section \<open>Identity memory\<close>

text \<open>
  The policy judges the normalised path, and the sandbox normalises that path once more before it writes. The second
  normalisation can drop trailing blanks, but it cannot turn a path outside identity memory into one inside.
\<close>

lemma split_on_snoc:
  "d \<notin> set v \<Longrightarrow> split_on d (u @ v) = butlast (split_on d u) @ [last (split_on d u) @ v]"
  by (induction u) (auto simp: split_on_plain split: list.split)

lemma strip_trailing:
  assumes "s = c # cs" and "\<not> py_isspace c"
  shows "\<exists>v. s = py_strip s @ v \<and> (\<forall>d \<in> set v. py_isspace d)"
proof -
  have "s = rev (dropWhile py_isspace (rev s)) @ rev (takeWhile py_isspace (rev s))"
    by (metis rev_append rev_rev_ident takeWhile_dropWhile_id)
  moreover have "py_strip s = rev (dropWhile py_isspace (rev s))" using assms by (simp add: py_strip_def)
  ultimately show ?thesis by (metis set_rev set_takeWhileD)
qed

lemma filter_grown_last:
  assumes "filter P xs = a # b # c # r" and "xs \<noteq> []" and "P (last xs) \<Longrightarrow> P (last xs @ v)"
  shows "\<exists>c' r'. filter P (butlast xs @ [last xs @ v]) = a # b # c' # r'"
proof -
  obtain ys l where xs: "xs = ys @ [l]" using assms(2) by (metis append_butlast_last_id)
  have "filter P ys @ (if P l then [l] else []) = a # b # c # r" using assms(1) by (simp add: xs split: if_splits)
  then consider "filter P ys = [a, b]" "P l" | c' r' where "filter P ys = a # b # c' # r'"
    by (auto simp: append_eq_Cons_conv Cons_eq_append_conv split: if_splits)
  then show ?thesis using assms(3) by cases (auto simp: xs)
qed

lemma identity_before_strip:
  assumes n: "normalize_sandbox_path (logical_path n) = Inr m" and ok: "norm_path_ok n"
    and m: "np_zone m = ZONE_MEMORY" "np_relative m = ''identity'' # a # as"
  shows "np_zone n = ZONE_MEMORY \<and> (\<exists>c cs. np_relative n = ''identity'' # c # cs)"
proof -
  let ?q = "logical_path n"
  have "\<exists>cs. ?q = CHR ''/'' # cs" by (simp add: logical_path_def mount_posix_def)
  then obtain cs where q: "?q = CHR ''/'' # cs" by blast
  obtain v where v: "?q = py_strip ?q @ v" "\<forall>d \<in> set v. py_isspace d"
    using strip_trailing[OF q] py_isspace_slash by blast
  then have slash: "CHR ''/'' \<notin> set v" using py_isspace_slash by blast
  let ?P = "\<lambda>p. p \<noteq> [] \<and> p \<noteq> ''.''"
  have grown: "?P (l @ v)" if "?P l" for l using that by (cases l) auto
  have "path_parts (py_strip ?q) = ''.memory'' # ''identity'' # a # as"
    using normalize_Inr(1)[OF n] m by (simp add: pure_path_def)
  then have "\<exists>c' r'. filter ?P (butlast (split_on CHR ''/'' (py_strip ?q)) @ [last (split_on CHR ''/'' (py_strip ?q)) @ v])
      = ''.memory'' # ''identity'' # c' # r'"
    unfolding path_parts_def by (rule filter_grown_last[where P = ?P, OF _ split_on_nonempty grown])
  moreover have "split_on CHR ''/'' ?q = butlast (split_on CHR ''/'' (py_strip ?q)) @ [last (split_on CHR ''/'' (py_strip ?q)) @ v]"
    using arg_cong[OF v(1), of "split_on CHR ''/''"] split_on_snoc[OF slash, of "py_strip ?q"] by (rule trans)
  ultimately obtain c' r' where "path_parts ?q = ''.memory'' # ''identity'' # c' # r'"
    unfolding path_parts_def by auto
  then have "mount_name (np_zone n) # np_relative n = ''.memory'' # ''identity'' # c' # r'"
    using pure_path_logical[OF ok] by (simp add: pure_path_def)
  then show ?thesis by (cases "np_zone n") auto
qed

lemma py_isspace_d: "\<not> py_isspace CHR ''d''"
  by code_simp

lemma strip_ends: "\<not> py_isspace c \<Longrightarrow> \<not> py_isspace d \<Longrightarrow> py_strip (c # s @ [d]) = c # s @ [d]"
  by (simp add: py_strip_def)

lemma path_parts_dir:
  "CHR ''/'' \<notin> set w \<Longrightarrow> w \<noteq> [] \<Longrightarrow> w \<noteq> ''.'' \<Longrightarrow> path_parts (w @ CHR ''/'' # s) = w # path_parts s"
  by (simp add: path_parts_def split_on_append)

lemma final_response_zone:
  assumes "normalize_sandbox_path (final_response_path t r) = Inr m"
  shows "np_zone m = ZONE_WORKSPACE"
proof -
  have "final_response_path t r = CHR ''/'' # (''workspace/artifacts/'' @ t @ ''/'' @ r @ ''/final_response.m'') @ [CHR ''d'']"
    by (simp add: final_response_path_def)
  then have strip: "py_strip (final_response_path t r) = final_response_path t r"
    using strip_ends[of "CHR ''/''" "CHR ''d''"] by (metis py_isspace_slash py_isspace_d)
  define rest where "rest = ''artifacts/'' @ t @ ''/'' @ r @ ''/final_response.md''"
  have "final_response_path t r = CHR ''/'' # ''workspace'' @ CHR ''/'' # rest"
    by (simp add: final_response_path_def rest_def)
  then have "path_parts (final_response_path t r) = ''workspace'' # path_parts rest"
    using path_parts_dir[of "''workspace''" rest] by simp
  then have "mount_name (np_zone m) = ''workspace''"
    using normalize_Inr(1)[OF assms] by (simp add: pure_path_def strip)
  then show ?thesis by (cases "np_zone m") auto
qed

lemma may_write_outside_identity:
  assumes "may_write env x w h"
  shows "\<exists>z rel. h = rt_resolve env (zone_root (ec_sandbox x) z @ rel) \<and> \<not> (z = ZONE_MEMORY \<and> prefix [''identity''] rel \<and> rel \<noteq> [''identity''])"
proof -
  obtain p where p: "sandbox_resolve (rt_resolve env) (ec_sandbox x) p = Inr h"
      "p = final_response_path (ec_task_id x) (ec_run_id x) \<or>
       (\<exists>raw. sandbox_normalize raw = Inr p) \<and> allowed_now env w (write_context (ec_task_id x) (ec_run_id x) p)"
    using assms by (auto simp: may_write_def)
  obtain m where m: "normalize_sandbox_path p = Inr m" "h = rt_resolve env (zone_root (ec_sandbox x) (np_zone m) @ np_relative m)"
    using sandbox_resolve_within[OF p(1)] by blast
  have "\<not> (np_zone m = ZONE_MEMORY \<and> (\<exists>a as. np_relative m = ''identity'' # a # as))" if named: "p \<noteq> final_response_path (ec_task_id x) (ec_run_id x)"
  proof
    assume idn: "np_zone m = ZONE_MEMORY \<and> (\<exists>a as. np_relative m = ''identity'' # a # as)"
    obtain raw where raw: "sandbox_normalize raw = Inr p" and ok: "allowed_now env w (write_context (ec_task_id x) (ec_run_id x) p)"
      using p(2) named by blast
    obtain n where n: "p = logical_path n" "norm_path_ok n"
      using raw normalize_ok by (auto simp: sandbox_normalize_def bindR_Inr_iff normalize_input_path_Inr)
    have "np_zone n = ZONE_MEMORY \<and> (\<exists>c cs. np_relative n = ''identity'' # c # cs)"
      using identity_before_strip[of n m] m(1) idn n by auto
    then have "write_tier n = DENY" by auto
    moreover obtain d :: durable and dec where d: "evaluate (rt_policy env) (Some (has_grant (d_grants d)))
        (write_context (ec_task_id x) (ec_run_id x) p) = Inr dec" "pd_decision dec = ALLOW"
      using ok by (auto simp: allowed_now_def evaluate_policy_def)
    ultimately show False
      using evaluate_file_write[OF n(2), of "write_context (ec_task_id x) (ec_run_id x) p" "rt_policy env" "has_grant (d_grants d)"]
      by (simp add: write_context_def n(1))
  qed
  moreover have "np_zone m = ZONE_WORKSPACE" if "p = final_response_path (ec_task_id x) (ec_run_id x)"
    using final_response_zone m(1) that by simp
  ultimately have "\<not> (np_zone m = ZONE_MEMORY \<and> (\<exists>a as. np_relative m = ''identity'' # a # as))"
    by (metis zone.distinct(3))
  then have "\<not> (np_zone m = ZONE_MEMORY \<and> prefix [''identity''] (np_relative m) \<and> np_relative m \<noteq> [''identity''])"
    by (cases "tl (np_relative m)") (auto simp: prefix_Cons elim!: prefixE)
  then show ?thesis using m(2) by blast
qed

section \<open>Properties\<close>

text \<open>
  C5. An agent that has neither a command tool nor the skill installer changes a host file only below its
  sandbox roots, at a path it could name, and only where the policy of the run, with the grants it now has,
  allows writing; its own \<open>final_response.md\<close> is the exception. This holds whatever the model asks the tools
  for, in any order, however the user answers, and even when the run fails midway.
\<close>

theorem unarmed_agent_is_confined:
  assumes "local_harness env" and "world_ok w" and "w_durable w \<noteq> None" and "ec_run_id x \<noteq> []"
    and "unarmed (harness_bindings (ec_task_id x) (ec_run_id x) hc hm caps fetch search)"
    and "run_prog env x (run_agent_task n (harness_bindings (ec_task_id x) (ec_run_id x) hc hm caps fetch search) hc ag)
      ts w = (y, w')"
  shows "map_of (w_files w') h = map_of (w_files w) h \<or>
    (\<exists>p. sandbox_resolve (rt_resolve env) (ec_sandbox x) p = Inr h \<and>
     (p = final_response_path (ec_task_id x) (ec_run_id x) \<or>
      (\<exists>raw. sandbox_normalize raw = Inr p) \<and> allowed_now env w' (write_context (ec_task_id x) (ec_run_id x) p)))"
  using confined_run[OF assms(1-5), of n ag ts] assms(6) by (simp add: within_def may_write_def) blast

text \<open>
  C4. The identity memory of the installation is out of reach of such an agent: a host file below
  \<open>/.memory/identity\<close> that has no second name inside the sandbox (no symbolic link to it) is the same after the run.
\<close>

theorem agent_never_rewrites_identity:
  assumes "local_harness env" and "world_ok w" and "w_durable w \<noteq> None" and "ec_run_id x \<noteq> []"
    and "unarmed (harness_bindings (ec_task_id x) (ec_run_id x) hc hm caps fetch search)"
    and "run_prog env x (run_agent_task n (harness_bindings (ec_task_id x) (ec_run_id x) hc hm caps fetch search) hc ag)
      ts w = (y, w')"
    and "\<And>z rel. rt_resolve env (zone_root (ec_sandbox x) z @ rel) = h \<Longrightarrow>
      z = ZONE_MEMORY \<and> prefix [''identity''] rel \<and> rel \<noteq> [''identity'']"
  shows "map_of (w_files w') h = map_of (w_files w) h"
  using confined_run[OF assms(1-5), of n ag ts] assms(6,7) may_write_outside_identity[of env x w' h]
  by (fastforce simp: within_def)

text \<open>A run of a task whose agent may only read and write files, and tries to write an identity file.\<close>

definition sample_execution :: execution_context where
  "sample_execution = \<lparr>ec_task_id = ''t'', ec_run_id = ''r'', ec_correlation_id = None, ec_cancellation = 0,
     ec_controller = None, ec_sandbox = \<lparr>sr_workspace_root = [''ws''], sr_scratch_root = [''rt'', ''tmp''],
       sr_memory_root = [''rt'', ''mem''], sr_allowed_roots = [[''ws'']], sr_virtual_root = pure_path ''/workspace'',
       sr_allowed_virtual_roots = [pure_path ''/workspace'']\<rparr>\<rparr>"

definition sample_agent :: agent where
  "sample_agent = \<lparr>
     ag_choose = (\<lambda>h. if h = [] then Some (CallWriteFile ''/.memory/identity/a.md '' ''x'') else None),
     ag_conclude = (\<lambda>_. [(''messages'', PList [PDict [(''role'', PStr ''assistant''), (''content'', PStr ''done'')]])])\<rparr>"

definition sample_files :: world where
  "sample_files = sample_asking\<lparr>w_files := [([''rt'', ''mem'', ''identity'', ''a.md''], ''me'')]\<rparr>"

lemma sample_files_ok: "local_harness done_env" "world_ok sample_files" "w_durable sample_files \<noteq> None"
    "ec_run_id sample_execution \<noteq> []"
    "unarmed (harness_bindings (ec_task_id sample_execution) (ec_run_id sample_execution) True True [''write_files''] None None)"
proof -
  show "world_ok sample_files"
    by (simp add: world_ok_def sample_files_def sample_asking_def sample_run_world_def initial_world_def store_ok_create
        accepted_state_def workers_ok_def durable_ok_def empty_durable_def event_rows_ok_def memory_rows_ok_def)
  have "py_strip ''write_files'' = ''write_files''" by code_simp
  then show "unarmed (harness_bindings (ec_task_id sample_execution) (ec_run_id sample_execution) True True [''write_files''] None None)"
    by (simp add: unarmed_def harness_bindings_def ensure_allowed_def granted_capabilities_def execute_capabilities_def
        skill_install_capabilities_def Let_def)
qed (simp_all add: local_harness_def done_env_def sample_env_def sample_files_def sample_asking_def sample_execution_def)

lemma sample_ids_of: "ec_task_id sample_execution = ''t''" "ec_run_id sample_execution = ''r''"
  by (simp_all add: sample_execution_def)

lemma sample_content: "map_of (w_files sample_files) [''ws'', ''b''] = None"
    "map_of (w_files sample_files) [''rt'', ''mem'', ''identity'', ''a.md''] = Some ''me''"
  by (simp_all add: sample_files_def)

abbreviation sample_run :: "world" where
  "sample_run \<equiv> snd (run_prog done_env sample_execution
     (run_agent_task 5 (harness_bindings ''t'' ''r'' True True [''write_files''] None None) True sample_agent) [] sample_files)"

theorem unarmed_agent_is_confined_witness:
  "map_of (w_files sample_run) [''ws'', ''b''] = None \<or>
   (\<exists>p. sandbox_resolve (rt_resolve done_env) (ec_sandbox sample_execution) p = Inr [''ws'', ''b''] \<and>
     (p = final_response_path ''t'' ''r'' \<or>
      (\<exists>raw. sandbox_normalize raw = Inr p) \<and> allowed_now done_env sample_run (write_context ''t'' ''r'' p)))"
  using unarmed_agent_is_confined[OF sample_files_ok prod.collapse[symmetric], where n = 5 and ag = sample_agent and ts = "[]"
      and h = "[''ws'', ''b'']"]
  unfolding sample_ids_of sample_content .

theorem agent_never_rewrites_identity_witness:
  "map_of (w_files sample_run) [''rt'', ''mem'', ''identity'', ''a.md''] = Some ''me''"
proof -
  have only: "z = ZONE_MEMORY \<and> prefix [''identity''] rel \<and> rel \<noteq> [''identity'']"
    if "rt_resolve done_env (zone_root (ec_sandbox sample_execution) z @ rel) = [''rt'', ''mem'', ''identity'', ''a.md'']" for z rel
    using that by (cases z) (auto simp: done_env_def sample_env_def sample_execution_def)
  have "map_of (w_files sample_run) [''rt'', ''mem'', ''identity'', ''a.md''] =
      map_of (w_files sample_files) [''rt'', ''mem'', ''identity'', ''a.md'']"
    by (rule agent_never_rewrites_identity[OF sample_files_ok prod.collapse[symmetric], unfolded sample_ids_of]) (rule only)
  then show ?thesis by (simp only: sample_content)
qed

end
