(* ===== verification/Run_Outcomes.thy ===== *)
theory Run_Outcomes
  imports Rejection_Streak
begin

text \<open>
  How an execution ends: the cancellation of a run, the paused, completed and failed endings, and which of them
  \<open>finish_run\<close> takes.
\<close>

section \<open>Cancelling\<close>

lemma at_event_update: "returns (run_at env d (t, r) phi)
    (update_run t r (event_updates at ty p)) (\<lambda>_. run_at env d (t, r) (\<lambda>s. True))"
  by (rule at_update) simp

lemma at_announce:
  assumes "inj (rt_uuid env)"
  shows "returns (run_at env True (t, r) phi) (record_and_announce env t r corr i reason) (\<lambda>_. run_at env True (t, r) (\<lambda>s. True))"
proof -
  have "returns (run_at env True (t, r) phi)
      (handle_harness_event env t r corr (event_value CHECKPOINT_SAVED) p) (\<lambda>_. run_at env True (t, r) (\<lambda>s. True))" for p
    unfolding handle_harness_event_def
    by simp (intro returns_bind[OF at_now] returns_then[OF at_metrics] returns_then[OF at_event_update] at_publish)
  then show ?thesis
    unfolding record_and_announce_def
    by (intro returns_bind[OF at_controller_record[OF assms]] returns_then[OF _ returns_ret])
qed

lemma at_pure: "returns (run_at env d k phi) (getS f) (\<lambda>_. run_at env d k phi)"
  by (rule returnsI) simp

lemma at_cancellation_for: "returns (run_at env d k phi) (cancellation_for t r) (\<lambda>_. run_at env d k phi)"
  by (rule returnsI) (auto simp: cancellation_for_def Let_def run_at_def split: option.splits)

lemma at_controller_thread: "returns (run_at env d k phi) (controller_thread ctl dflt) (\<lambda>_. run_at env d k phi)"
  unfolding controller_thread_def get_controller_def
  by (cases ctl) (auto intro: returns_ret returns_bind[OF at_pure])

lemma at_mark_cancelled:
  "returns (run_at env d (t, r) phi) (mark_cancelled env t r summary pause corr ctl n c checkpoint s)
    (\<lambda>_. run_at env d (t, r) (\<lambda>s. rs_status s = CANCELLED))"
  unfolding mark_cancelled_def Let_def cancel_reason_def
  by (intro returns_bind[OF at_now] returns_bind[OF at_controller_thread]
      returns_then[OF at_update[where psi = "\<lambda>s. rs_status s = CANCELLED"]] returns_bind[OF at_pure]
      returns_then[OF at_publish] at_metrics) (simp add: cancelled_state_def)

lemma at_cancel_checkpoint:
  assumes "inj (rt_uuid env)" and "ctl = None \<or> d"
  shows "returns (run_at env d (t, r) phi) (cancel_checkpoint env t r corr pause ctl checkpoint s)
    (\<lambda>_. run_at env d (t, r) (\<lambda>s. True))"
proof -
  have "returns (run_at env True (t, r) phi) (bindA (record_and_announce env t r corr i pause) (\<lambda>k.
         bindA (get_run t (Some r)) (\<lambda>s. ret (Some k, s)))) (\<lambda>_. run_at env True (t, r) (\<lambda>s. True))" for i
    by (intro returns_bind[OF at_announce[OF assms(1)]] returns_bind[OF at_get] returns_ret) (auto elim: run_at_imp)
  then show ?thesis
    using assms(2) unfolding cancel_checkpoint_def
    by (auto split: option.splits intro!: returns_ret elim: run_at_imp)
qed

lemma at_cancelled:
  assumes "inj (rt_uuid env)" and "ctl = None \<or> d"
  shows "returns (run_at env d (t, r) phi) (transition_to_cancelled env t r summary pause corr ctl n checkpoint)
    (\<lambda>_. run_at env d (t, r) (\<lambda>s. rs_status s = CANCELLED))"
proof -
  have pair: "returns P (case x of (a, b) \<Rightarrow> f a b) Q" if "\<And>a b. returns P (f a b) Q"
    for P Q and x :: "string option \<times> run_state" and f :: "string option \<Rightarrow> run_state \<Rightarrow> unit wact"
    using that by (cases x) simp
  have live: "returns (run_at env d (t, r) phi) (bindA (cancellation_for t r) (\<lambda>c.
      bindA (cancel_checkpoint env t r corr pause ctl checkpoint s) (\<lambda>(checkpoint, state).
        mark_cancelled env t r summary pause corr ctl n c checkpoint state)))
    (\<lambda>_. run_at env d (t, r) (\<lambda>s. rs_status s = CANCELLED))" for s phi
    by (intro returns_bind[OF at_cancellation_for] returns_bind[OF at_cancel_checkpoint[OF assms]] pair at_mark_cancelled)
  show ?thesis
    unfolding transition_to_cancelled_def
    by (intro returns_bind[OF at_get] at_fact') (auto intro!: returns_ret live elim: run_at_imp)
qed

section \<open>The ways a run ends\<close>

text \<open>The status a result of the harness stands for, when the run's cancellation was or was not requested.\<close>

definition outcome_status :: "execution_result \<Rightarrow> bool \<Rightarrow> task_status" where
  "outcome_status r cancel =
     (if xr_cancelled r \<or> cancel then CANCELLED
      else if xr_paused r then (if xr_awaiting_approval r then AWAITING_APPROVAL else PAUSED)
      else if xr_success r then COMPLETED else FAILED)"

definition outcome_ok :: "execution_result \<Rightarrow> bool \<Rightarrow> run_state \<Rightarrow> bool" where
  "outcome_ok r cancel s \<longleftrightarrow> rs_status s = outcome_status r cancel \<and>
     (rs_status s \<in> {COMPLETED, FAILED} \<longrightarrow> \<not> rs_is_resumable s) \<and>
     (rs_status s \<in> {PAUSED, AWAITING_APPROVAL} \<longrightarrow> rs_is_resumable s) \<and>
     (rs_status s = AWAITING_APPROVAL \<longrightarrow> rs_awaiting_approval s \<and> rs_pending_approval_id s = xr_pending_approval_id r)"

lemma at_paused:
  assumes "\<not> xr_cancelled r" and "xr_paused r"
  shows "returns (run_at env d (ec_task_id x, ec_run_id x) phi) (finish_paused env x r n)
    (\<lambda>_. run_at env d (ec_task_id x, ec_run_id x) (outcome_ok r False))"
proof (cases "xr_awaiting_approval r")
  case True
  have "outcome_ok r False (awaiting_state at r n s)" for at s
    using assms True by (simp add: outcome_ok_def outcome_status_def awaiting_state_def)
  then show ?thesis
    unfolding finish_paused_def using True
    by simp (intro returns_bind[OF at_now] returns_then[OF at_update[where psi = "outcome_ok r False"]] at_metrics)
next
  case False
  have "outcome_ok r False (paused_state at r n s)" for at s
    using assms False by (simp add: outcome_ok_def outcome_status_def paused_state_def)
  then show ?thesis
    unfolding finish_paused_def using False
    by simp (intro returns_bind[OF at_now] returns_then[OF returns_then[OF at_update[where psi = "outcome_ok r False"] at_publish]]
        at_metrics)
qed

lemma at_completed:
  assumes "\<not> xr_cancelled r" and "\<not> xr_paused r" and "xr_success r"
  shows "returns (run_at env d (ec_task_id x, ec_run_id x) phi) (finish_completed env x r n)
    (\<lambda>_. run_at env d (ec_task_id x, ec_run_id x) (outcome_ok r False))"
proof -
  have "outcome_ok r False (completed_state at r n s)" for at s
    using assms by (simp add: outcome_ok_def outcome_status_def completed_state_def)
  then show ?thesis
    unfolding finish_completed_def
    by (intro returns_bind[OF at_now] returns_then[OF at_update[where psi = "outcome_ok r False"]]
        returns_then[OF at_publish] at_metrics)
qed

lemma at_failed:
  assumes "inj (rt_uuid env)" and "\<not> xr_cancelled r" and "\<not> xr_paused r" and "\<not> xr_success r"
  shows "returns (run_at env d (ec_task_id x, ec_run_id x) phi) (finish_failed env x at r n resume)
    (\<lambda>_. run_at env d (ec_task_id x, ec_run_id x) (outcome_ok r False))"
proof -
  have "outcome_ok r False (failed_state at r n s)" for at s
    using assms by (simp add: outcome_ok_def outcome_status_def failed_state_def)
  then have rest: "returns (run_at env d (ec_task_id x, ec_run_id x) phi)
      (thenA (update_run (ec_task_id x) (ec_run_id x) (failed_state at r n))
      (thenA (publish env (ec_task_id x) (ec_run_id x) corr ty at' src p) (write_run_metrics env (ec_task_id x) (ec_run_id x) c)))
      (\<lambda>_. run_at env d (ec_task_id x, ec_run_id x) (outcome_ok r False))" for corr ty at' src p c
    by (intro returns_then[OF at_update[where psi = "outcome_ok r False"]] returns_then[OF at_publish] at_metrics)
  show ?thesis
    unfolding finish_failed_def
    by (rule returns_then[OF _ rest])
      (auto intro!: returns_then[OF at_diagnostic[OF assms(1)]] at_publish at_diagnostic[OF assms(1)] returns_ret)
qed

definition cancel_flag :: "nat \<Rightarrow> bool \<Rightarrow> world \<Rightarrow> bool" where
  "cancel_flag c b w \<longleftrightarrow> ca_set (cancel_obj w c) = b"

lemma flag_requested:
  "returns (\<lambda>w. P w \<and> cancel_flag c b w) (cancel_requested c) (\<lambda>v w. v = b \<and> (P w \<and> cancel_flag c b w))"
  by (rule returnsI) (simp add: cancel_requested_def cancel_flag_def)

lemma flag_pure: "returns P (cancel_reason c) (\<lambda>_. P)"
  by (rule returnsI) (simp add: cancel_reason_def)

lemma flag_now:
  "returns (\<lambda>w. run_at env d k phi w \<and> cancel_flag c b w) (utc_now env) (\<lambda>_ w. run_at env d k phi w \<and> cancel_flag c b w)"
  by (rule returnsI) (auto simp: utc_now_def cancel_flag_def cancel_obj_def elim: run_at_frame)


definition sample_context :: execution_context where
  "sample_context = \<lparr>ec_task_id = ''t'', ec_run_id = ''r'', ec_correlation_id = None, ec_cancellation = 0,
     ec_controller = None, ec_sandbox = sample_roots\<rparr>"


end
