(* ===== verification/TUI_State.thy ===== *)
theory TUI_State
  imports Command_Text
begin

text \<open>
  \<open>apps/tui/local_agent_tui/store\<close>: the state of the terminal client (\<open>app_state.py\<close>) and its reducers
  (\<open>reducers.py\<close>). The client is a state machine: \<open>dispatch\<close> replaces the state by
  \<open>reduce_app_state state message\<close> for every reply of the runtime, every streamed event and every action of the user.

  Fields with structure of their own are fields of the record \<open>app_state\<close>. The plain attributes, which the reducers
  only overwrite (statuses, feedback texts, flags of the screens), form the dict \<open>st_ui\<close> from attribute names to
  values, since \<open>_reduce_ui_message\<close> treats them all alike. The built-in \<open>TypeError\<close> and \<open>AttributeError\<close> are
  \<^const>\<open>OtherException\<close>s. A conversion \<open>dict(v)\<close> is modelled on dicts and empty lists and \<open>int(v)\<close> on integers and
  truth values, the values of the declared types; on others the model raises.
\<close>

section \<open>Conversions\<close>

definition py_dict :: "pyval \<Rightarrow> pydict result" where
  "py_dict v = (case v of PDict d \<Rightarrow> Inr d | PList [] \<Rightarrow> Inr [] | PStr [] \<Rightarrow> Inr []
     | _ \<Rightarrow> Inl (OtherException ''cannot convert to a dict''))"

definition py_list :: "pyval \<Rightarrow> pyval list result" where
  "py_list v = (case v of PList xs \<Rightarrow> Inr xs | PStr s \<Rightarrow> Inr (map (\<lambda>c. PStr [c]) s)
     | PDict d \<Rightarrow> Inr (map (\<lambda>kv. PStr (fst kv)) d) | _ \<Rightarrow> Inl (OtherException ''object is not iterable''))"

definition py_int :: "pyval \<Rightarrow> int result" where
  "py_int v = (case v of PInt n \<Rightarrow> Inr n | PBool b \<Rightarrow> Inr (if b then 1 else 0)
     | _ \<Rightarrow> Inl (OtherException ''cannot convert to an int''))"

definition py_item :: "pydict \<Rightarrow> string \<Rightarrow> pyval result" where
  "py_item d k = (case map_of d k of Some v \<Rightarrow> Inr v | None \<Rightarrow> Inl (KeyError k))"

text \<open>\<open>v.get(k)\<close> and \<open>v[k]\<close> on a value that should be a dict.\<close>

definition value_get :: "pyval \<Rightarrow> string \<Rightarrow> pyval result" where
  "value_get v k = (case v of PDict d \<Rightarrow> Inr (dict_get d k) | _ \<Rightarrow> Inl (OtherException ''object has no attribute get''))"

definition value_item :: "pyval \<Rightarrow> string \<Rightarrow> pyval result" where
  "value_item v k = (case v of PDict d \<Rightarrow> py_item d k | _ \<Rightarrow> Inl (OtherException ''object is not subscriptable''))"

definition as_dicts :: "pyval list \<Rightarrow> pydict list result" where
  "as_dicts = mapR (\<lambda>v. case v of PDict d \<Rightarrow> Inr d | _ \<Rightarrow> Inl (OtherException ''object has no attribute get''))"

definition py_or :: "pyval \<Rightarrow> pyval \<Rightarrow> pyval" where
  "py_or v w = (if py_truthy v then v else w)"

definition normalize_error :: "pyval \<Rightarrow> string option" where
  "normalize_error v = (if v = PNone then None else
     (let text = py_strip (py_str v) in if text = [] then None else Some text))"

text \<open>A loop that may raise.\<close>

fun foldR :: "('x \<Rightarrow> 's \<Rightarrow> 's result) \<Rightarrow> 'x list \<Rightarrow> 's \<Rightarrow> 's result" where
  "foldR f [] s = Inr s"
| "foldR f (x # xs) s = bindR (f x s) (foldR f xs)"

section \<open>The state\<close>

type_synonym task_key = "string \<times> string"

record task_event_record =
  te_timestamp :: string
  te_event_type :: string
  te_task_id :: string
  te_run_id :: string
  te_source_kind :: string
  te_source_name :: "string option"
  te_summary :: string
  te_payload :: pydict
  te_severity :: string

record app_state =
  st_ui :: pydict
  st_runtime_health :: pydict
  st_task_index :: "string list"
  st_task_snapshots :: "(string \<times> pydict) list"
  st_run_event_buffers :: "(task_key \<times> task_event_record list) list"
  st_approvals_by_task :: "(task_key \<times> pydict list) list"
  st_artifacts_by_task :: "(task_key \<times> pydict list) list"
  st_selected_artifact_id_by_task :: "(task_key \<times> string option) list"
  st_selected_task_id :: pyval
  st_selected_approval_id :: pyval
  st_artifact_preview_status :: "(string \<times> string) list"
  st_artifact_preview_error :: "(string \<times> string option) list"
  st_artifact_preview_cache :: "(string \<times> pydict) list"
  st_memory_entries_by_context :: "(string \<times> pydict list) list"
  st_config_snapshot :: pydict
  st_config_loaded_profiles :: "string list"
  st_config_sources :: "string list"
  st_config_redactions :: "pydict list"
  st_diagnostics_by_task :: "(task_key \<times> pydict list) list"
  st_last_focused_pane_by_screen :: pydict
  st_unread_event_counts :: pydict

text \<open>The plain attributes with their defaults, in the order of the class.\<close>

definition ui_defaults :: pydict where
  "ui_defaults =
    [(''connection_status'', PStr ''disconnected''), (''last_error'', PNone), (''runtime_snapshot_status'', PStr ''idle''),
     (''runtime_snapshot_error'', PNone), (''active_screen'', PStr ''dashboard''), (''focused_pane'', PStr ''tasks''),
     (''approval_feedback'', PNone), (''artifact_group_by'', PStr ''task''), (''artifact_browser_selected_id'', PNone),
     (''artifact_browser_origin_screen'', PStr ''dashboard''), (''artifact_action_feedback'', PNone),
     (''markdown_viewer_artifact_id'', PNone), (''task_input_feedback'', PNone), (''task_timeline_filter'', PStr ''all''),
     (''task_timeline_search_query'', PStr []), (''selected_memory_group_id'', PNone), (''selected_memory_entry_id'', PNone),
     (''memory_request_context_key'', PNone), (''memory_request_status'', PStr ''idle''), (''memory_request_error'', PNone),
     (''memory_origin_screen'', PStr ''dashboard''), (''selected_config_section_id'', PNone),
     (''config_request_status'', PStr ''idle''), (''config_request_error'', PNone),
     (''config_origin_screen'', PStr ''dashboard''), (''command_palette_visible'', PBool False),
     (''command_palette_query'', PStr []), (''command_palette_selected_id'', PNone), (''recent_palette_commands'', PList []),
     (''approvals_request_status'', PStr ''idle''), (''approvals_request_error'', PNone),
     (''artifacts_request_status'', PStr ''idle''), (''artifacts_request_error'', PNone),
     (''diagnostics_origin_screen'', PStr ''dashboard''), (''diagnostics_request_status'', PStr ''idle''),
     (''diagnostics_request_error'', PNone), (''selected_diagnostic_id'', PNone), (''task_detail_show_logs'', PBool False),
     (''navigation_stack'', PList [PStr ''dashboard'']), (''runtime_user_id'', PNone), (''pending_task_objective'', PNone),
     (''remote_mcp_request_status'', PStr ''idle''), (''remote_mcp_request_error'', PNone),
     (''remote_mcp_authorization_id'', PNone), (''remote_mcp_authorization_url'', PNone), (''remote_mcp_server_name'', PNone),
     (''remote_mcp_provider_id'', PNone), (''remote_mcp_last_state_token'', PNone),
     (''remote_mcp_open_browser_supported'', PBool True), (''task_command_history'', PList []),
     (''task_command_history_index'', PNone), (''task_command_suggestion'', PNone), (''task_list_compact'', PBool False),
     (''side_column_collapsed'', PBool False), (''task_detail_split'', PStr ''60_40''), (''terminal_width'', PInt 120),
     (''approvals_request_progress_label'', PNone), (''artifacts_request_progress_label'', PNone),
     (''connection_heartbeat_tick'', PInt 0)]"

definition initial_app_state :: app_state where
  "initial_app_state = \<lparr>st_ui = ui_defaults, st_runtime_health = [], st_task_index = [], st_task_snapshots = [],
     st_run_event_buffers = [], st_approvals_by_task = [], st_artifacts_by_task = [], st_selected_artifact_id_by_task = [],
     st_selected_task_id = PNone, st_selected_approval_id = PNone, st_artifact_preview_status = [],
     st_artifact_preview_error = [], st_artifact_preview_cache = [], st_memory_entries_by_context = [],
     st_config_snapshot = [], st_config_loaded_profiles = [], st_config_sources = [], st_config_redactions = [],
     st_diagnostics_by_task = [], st_last_focused_pane_by_screen = [], st_unread_event_counts = []\<rparr>"

definition set_ui :: "(string \<times> pyval) list \<Rightarrow> app_state \<Rightarrow> app_state" where
  "set_ui kvs st = st\<lparr>st_ui := fold (\<lambda>kv u. dict_set u (fst kv) (snd kv)) kvs (st_ui st)\<rparr>"

text \<open>\<open>d.get(key, [])\<close> and \<open>d.setdefault(key, v)\<close> on the dicts of the state.\<close>

definition entries_at :: "('k \<times> 'v list) list \<Rightarrow> 'k \<Rightarrow> 'v list" where
  "entries_at d k = (case map_of d k of None \<Rightarrow> [] | Some xs \<Rightarrow> xs)"

definition set_default :: "'k \<Rightarrow> 'v \<Rightarrow> ('k \<times> 'v) list \<Rightarrow> ('k \<times> 'v) list" where
  "set_default k v d = (if map_of d k = None then d @ [(k, v)] else d)"

section \<open>What a message looks like\<close>

datatype runtime_message =
    ConnectionMessage pydict
  | RpcMessage string pydict
  | EventMessage pydict
  | UiMessage pydict

end
