(* ===== verification/TUI_Reducers.thy ===== *)
theory TUI_Reducers
  imports TUI_State
begin

text \<open>
  \<open>apps/tui/local_agent_tui/store/reducers.py\<close>: one function per helper, the four kinds of messages, and
  \<open>reduce_app_state\<close>. An exception leaves the store as it was, since \<open>dispatch\<close> assigns the result only.
\<close>

section \<open>Reading entries\<close>

definition event_buffer_limit :: nat where "event_buffer_limit = 250"

definition dedupe_entries :: "pydict list \<Rightarrow> string \<Rightarrow> pydict list" where
  "dedupe_entries entries key =
     (let keyed = List.map_filter (\<lambda>e. map_option (\<lambda>k. (k, e)) (nonblank_str (dict_get e key))) entries in
      filter (\<lambda>e. nonblank_str (dict_get e key) = None) entries @
      map snd (fold (\<lambda>kv d. AList.update (fst kv) (snd kv) d) keyed []))"

definition extract_task_run :: "pyval list \<Rightarrow> task_key option result" where
  "extract_task_run entries = (case entries of [] \<Rightarrow> Inr None
   | first # _ \<Rightarrow> bindR (value_get first ''task_id'') (\<lambda>t. bindR (value_get first ''run_id'') (\<lambda>r.
       Inr (case (t, r) of (PStr t, PStr r) \<Rightarrow> Some (t, r) | _ \<Rightarrow> None))))"

definition task_context :: "pydict \<Rightarrow> pyval list \<Rightarrow> task_key option result" where
  "task_context payload entries = bindR (extract_task_run entries) (\<lambda>k. Inr (case k of
     Some k \<Rightarrow> Some k
   | None \<Rightarrow> (case dict_get payload ''context'' of
       PDict c \<Rightarrow> (case (dict_get c ''task_id'', dict_get c ''run_id'') of
           (PStr t, PStr r) \<Rightarrow> Some (t, r) | _ \<Rightarrow> None)
     | _ \<Rightarrow> None)))"

definition artifact_ids :: "pydict list \<Rightarrow> string list" where
  "artifact_ids artifacts = List.map_filter (\<lambda>a. as_str (dict_get a ''artifact_id'')) artifacts"

definition default_selected_artifact_id :: "string option \<Rightarrow> pydict list \<Rightarrow> string option" where
  "default_selected_artifact_id current artifacts =
     (let ids = artifact_ids artifacts in
      if (\<exists>c \<in> set ids. current = Some c) then current
      else (case ids of [] \<Rightarrow> None | i # _ \<Rightarrow> Some i))"

definition pending_approval :: "pydict \<Rightarrow> bool" where
  "pending_approval a \<longleftrightarrow> py_str (dict_get_or a ''status'' (PStr ''pending'')) \<in> {''pending'', ''waiting''}"

definition newest_first :: "pydict list \<Rightarrow> pydict list" where
  "newest_first = py_sort_desc (\<lambda>e. py_str (dict_get_or e ''created_at'' (PStr [])))"

definition pending_ids :: "(task_key \<times> pydict list) list \<Rightarrow> string list" where
  "pending_ids d = List.map_filter (\<lambda>a. as_str (dict_get a ''approval_id''))
     (newest_first (filter pending_approval (concat (map snd d))))"

definition keep_or_first :: "pyval \<Rightarrow> string list \<Rightarrow> pyval" where
  "keep_or_first current ids = (if current \<in> PStr ` set ids then current
     else (case ids of [] \<Rightarrow> PNone | i # _ \<Rightarrow> PStr i))"

definition resolved_selected_approval_id :: "(task_key \<times> pydict list) list \<Rightarrow> pyval \<Rightarrow> pyval" where
  "resolved_selected_approval_id d current = keep_or_first current (pending_ids d)"

definition selected_task_pending_approval_id :: "(task_key \<times> pydict list) list \<Rightarrow> string option \<Rightarrow> pyval" where
  "selected_task_pending_approval_id d task = (case task of None \<Rightarrow> PNone
   | Some t \<Rightarrow> (case pending_ids (filter (\<lambda>kv. fst (fst kv) = t) d) of [] \<Rightarrow> PNone | i # _ \<Rightarrow> PStr i))"

definition resolved_selected_diagnostic_id :: "(task_key \<times> pydict list) list \<Rightarrow> pyval \<Rightarrow> pyval" where
  "resolved_selected_diagnostic_id d current = keep_or_first current
     (List.map_filter (\<lambda>e. as_str (dict_get e ''diagnostic_id'')) (newest_first (concat (map snd d))))"

definition memory_context_key :: "pydict \<Rightarrow> string" where
  "memory_context_key payload = (case dict_get payload ''context'' of
     PDict c \<Rightarrow> (case nonblank_str (dict_get c ''task_id'') of
         None \<Rightarrow> ''global''
       | Some t \<Rightarrow> (case nonblank_str (dict_get c ''run_id'') of Some r \<Rightarrow> t @ '':'' @ r | None \<Rightarrow> t))
   | _ \<Rightarrow> ''global'')"

section \<open>Event records\<close>

definition source_name :: "pydict \<Rightarrow> string option" where
  "source_name source = first_some (\<lambda>k. nonblank_str (dict_get source k)) [''name'', ''role'', ''component'']"

definition rendered_command :: "pydict \<Rightarrow> string option" where
  "rendered_command d = map_option (\<lambda>parts. (case nonblank_str (dict_get d ''cwd'') of
       Some cwd \<Rightarrow> shlex_join parts @ '' ('' @ cwd @ '')'' | None \<Rightarrow> shlex_join parts))
     (as_str_list (dict_get d ''command''))"

definition tool_command_summary :: "pydict \<Rightarrow> string option" where
  "tool_command_summary payload = (case rendered_command payload of
     Some s \<Rightarrow> Some s
   | None \<Rightarrow> (case dict_get payload ''arguments'' of PDict a \<Rightarrow> rendered_command a | _ \<Rightarrow> None))"

definition tool_called_summary :: "pydict \<Rightarrow> string" where
  "tool_called_summary payload =
     (let tool = py_str (dict_get_or payload ''tool'' (PStr ''tool'')) in
      case tool_command_summary payload of Some s \<Rightarrow> s
      | None \<Rightarrow> (case nonblank_str (dict_get payload ''summary'') of Some s \<Rightarrow> py_strip s
      | None \<Rightarrow> (case dict_get payload ''path'' of PStr p \<Rightarrow> tool @ '' '' @ p
      | _ \<Rightarrow> (case dict_get payload ''logical_path'' of PStr p \<Rightarrow> tool @ '' '' @ p
      | _ \<Rightarrow> (case dict_get payload ''count'' of
            PInt n \<Rightarrow> tool @ '' ('' @ dec_int n @ '')''
          | PBool b \<Rightarrow> tool @ '' ('' @ py_str (PBool b) @ '')''
          | _ \<Rightarrow> tool)))))"

definition tui_event_summary :: "string \<Rightarrow> pydict \<Rightarrow> string" where
  "tui_event_summary ty payload =
     (let get = dict_get payload in
      if ty = ''plan.updated'' then str_or (get ''summary'') ''Plan updated''
      else if ty = ''subagent.started'' then ''Started '' @ py_str (dict_get_or payload ''subagentId'' (PStr ''subagent''))
      else if ty = ''subagent.completed'' then
        py_str (dict_get_or payload ''subagentId'' (PStr ''subagent'')) @ '' completed ('' @
        py_str (dict_get_or payload ''status'' (PStr ''done'')) @ '')''
      else if ty = ''tool.called'' then tool_called_summary payload
      else if ty = ''tool.rejected'' then
        py_str (dict_get_or payload ''tool'' (PStr ''tool'')) @ '' ['' @ str_or (get ''code'') ''rejected'' @ ''] '' @
        str_or (get ''message'') ''tool rejected''
      else if ty = ''artifact.created'' then
        (case dict_get_or payload ''artifact'' (PDict []) of
           PDict a \<Rightarrow> py_str (py_or (dict_get a ''display_name'') (py_or (dict_get a ''logical_path'')
             (py_or (dict_get a ''artifact_id'') (PStr ''artifact''))))
         | _ \<Rightarrow> ''artifact'')
      else if ty = ''approval.requested'' then
        (case dict_get_or payload ''approval'' (PDict []) of
           PDict a \<Rightarrow> py_str (py_or (dict_get a ''description'') (py_or (dict_get a ''type'') (PStr ''Approval requested'')))
         | _ \<Rightarrow> ''Approval requested'')
      else if ty = ''task.user_input_received'' then str_or (get ''summary'') ''User input received''
      else if ty = ''task.cancelled'' then str_or (get ''summary'') ''cancelled''
      else if ty = ''task.failed'' then str_or (get ''error'') ''failed''
      else ty)"

definition event_severity :: "string \<Rightarrow> string" where
  "event_severity ty =
     (if ty \<in> {''task.failed'', ''policy.denied'', ''skill.install.failed''} then ''error''
      else if ty = ''tool.rejected'' then ''attention''
      else if ty \<in> {''approval.requested'', ''task.paused''} then ''attention''
      else if ty \<in> {''artifact.created'', ''task.completed'', ''task.cancelled'', ''task.resumed'', ''task.user_input_received''}
        then ''success''
      else ''info'')"

definition build_task_event_record ::
    "string \<Rightarrow> string \<Rightarrow> string \<Rightarrow> string \<Rightarrow> pydict \<Rightarrow> pydict \<Rightarrow> task_event_record" where
  "build_task_event_record task run timestamp ty payload source =
     \<lparr>te_timestamp = timestamp, te_event_type = ty, te_task_id = task, te_run_id = run,
      te_source_kind = py_str (dict_get_or source ''kind'' (PStr ''runtime'')), te_source_name = source_name source,
      te_summary = tui_event_summary ty payload, te_payload = payload, te_severity = event_severity ty\<rparr>"

text \<open>\<open>_event_todos\<close>; the inner list as dicts, \<open>None\<close> when the tool is another one.\<close>

definition event_todo :: "pyval \<Rightarrow> pyval option" where
  "event_todo item = (case item of PDict d \<Rightarrow> (case (dict_get d ''content'', dict_get d ''status'') of
       (PStr content, PStr status) \<Rightarrow>
         (let c = py_strip content; st = py_lower (py_strip status) in
          if c = [] \<or> st \<notin> {''pending'', ''in_progress'', ''completed''} then None
          else Some (PDict [(''content'', PStr c), (''status'', PStr st)]))
     | _ \<Rightarrow> None) | _ \<Rightarrow> None)"

definition tui_event_todos :: "pydict \<Rightarrow> pyval option" where
  "tui_event_todos payload =
     (if py_strip (py_str (dict_get_or payload ''tool'' (PStr []))) \<noteq> ''write_todos'' then None
      else Some (PList (case dict_get payload ''arguments'' of
         PDict a \<Rightarrow> (case dict_get a ''todos'' of PList ts \<Rightarrow> List.map_filter event_todo ts | _ \<Rightarrow> [])
       | _ \<Rightarrow> [])))"

section \<open>Steps on the state\<close>

definition merge_task_snapshot :: "pydict option \<Rightarrow> pydict \<Rightarrow> pydict" where
  "merge_task_snapshot existing incoming =
     fold (\<lambda>kv d. dict_set d (fst kv) (snd kv)) incoming (case existing of None \<Rightarrow> [] | Some d \<Rightarrow> d)"

definition replace_task :: "bool \<Rightarrow> pydict \<Rightarrow> app_state \<Rightarrow> app_state result" where
  "replace_task preserve task st = bindR (py_item task ''task_id'') (\<lambda>v.
     let i = py_str v; index = st_task_index st in
     Inr (st\<lparr>st_task_snapshots := AList.update i task (st_task_snapshots st),
             st_task_index := (if preserve \<and> i \<notin> set index then i # index else i # filter (\<lambda>c. c \<noteq> i) index),
             st_selected_task_id := py_or (st_selected_task_id st) (PStr i)\<rparr>))"

definition ensure_task_buffers :: "task_key \<Rightarrow> app_state \<Rightarrow> app_state" where
  "ensure_task_buffers k st =
     (if map_of (st_run_event_buffers st) k \<noteq> None \<and> map_of (st_selected_artifact_id_by_task st) k \<noteq> None then st
      else st\<lparr>st_run_event_buffers := set_default k [] (st_run_event_buffers st),
              st_selected_artifact_id_by_task := set_default k None (st_selected_artifact_id_by_task st)\<rparr>)"

definition same_event :: "task_event_record \<Rightarrow> task_event_record \<Rightarrow> bool" where
  "same_event a b \<longleftrightarrow> te_timestamp a = te_timestamp b \<and> te_event_type a = te_event_type b \<and> te_summary a = te_summary b"

definition event_record_exists :: "task_event_record list \<Rightarrow> task_event_record \<Rightarrow> bool" where
  "event_record_exists events r \<longleftrightarrow> list_ex (\<lambda>e. same_event e r) events"

definition append_to_buffer :: "task_event_record \<Rightarrow> task_event_record list \<Rightarrow> task_event_record list" where
  "append_to_buffer r events = (if event_record_exists events r then events
     else (let es = events @ [r] in
       if length es > event_buffer_limit then drop (length es - event_buffer_limit) es else es))"

definition append_event_record :: "task_event_record \<Rightarrow> app_state \<Rightarrow> app_state" where
  "append_event_record r st = (let k = (te_task_id r, te_run_id r) in
     st\<lparr>st_run_event_buffers := AList.update k (append_to_buffer r (entries_at (st_run_event_buffers st) k))
        (st_run_event_buffers st)\<rparr>)"

definition clear_unread_count :: "string \<Rightarrow> app_state \<Rightarrow> app_state" where
  "clear_unread_count i st = st\<lparr>st_unread_event_counts := AList.delete i (st_unread_event_counts st)\<rparr>"

definition clear_selected_unread_count :: "app_state \<Rightarrow> app_state" where
  "clear_selected_unread_count st =
     (case st_selected_task_id st of PStr i \<Rightarrow> clear_unread_count i st | _ \<Rightarrow> st)"

definition increment_unread_event_count :: "string \<Rightarrow> app_state \<Rightarrow> app_state result" where
  "increment_unread_event_count i st =
     (if st_selected_task_id st = PStr i then Inr (clear_unread_count i st)
      else bindR (py_int (dict_get_or (st_unread_event_counts st) i (PInt 0))) (\<lambda>n.
        Inr (st\<lparr>st_unread_event_counts := dict_set (st_unread_event_counts st) i (PInt (n + 1))\<rparr>)))"

definition selected_task_key :: "app_state \<Rightarrow> task_key option" where
  "selected_task_key st = (case st_selected_task_id st of
     PStr i \<Rightarrow> (case map_of (st_task_snapshots st) i of
         None \<Rightarrow> None
       | Some task \<Rightarrow> (case dict_get task ''run_id'' of PStr r \<Rightarrow> Some (i, r) | _ \<Rightarrow> None))
   | _ \<Rightarrow> None)"

section \<open>Actions of the user\<close>

datatype coercion = AsStr | AsBool | AsInt | AsError | AsIs | AsList | AsDict

fun coerce :: "coercion \<Rightarrow> pyval \<Rightarrow> pyval result" where
  "coerce AsStr v = Inr (PStr (py_str v))"
| "coerce AsBool v = Inr (PBool (py_truthy v))"
| "coerce AsInt v = bindR (py_int v) (\<lambda>n. Inr (PInt n))"
| "coerce AsError v = Inr (opt_str (normalize_error v))"
| "coerce AsIs v = Inr v"
| "coerce AsList v = bindR (py_list v) (\<lambda>xs. Inr (PList xs))"
| "coerce AsDict v = bindR (py_dict v) (\<lambda>d. Inr (PDict d))"

text \<open>The attributes a message of the user may set, with the conversion of each.\<close>

definition ui_table :: "(string \<times> coercion) list" where
  "ui_table =
    [(''active_screen'', AsStr), (''focused_pane'', AsStr), (''runtime_snapshot_status'', AsStr),
     (''runtime_snapshot_error'', AsError), (''approval_feedback'', AsIs), (''artifact_group_by'', AsStr),
     (''artifact_browser_origin_screen'', AsStr), (''artifact_action_feedback'', AsError),
     (''markdown_viewer_artifact_id'', AsIs), (''task_input_feedback'', AsError), (''task_timeline_filter'', AsStr),
     (''task_timeline_search_query'', AsStr), (''artifact_browser_selected_id'', AsIs), (''selected_memory_group_id'', AsIs),
     (''selected_memory_entry_id'', AsIs), (''memory_request_context_key'', AsIs), (''memory_request_status'', AsStr),
     (''memory_request_error'', AsError), (''memory_origin_screen'', AsStr), (''selected_config_section_id'', AsIs),
     (''config_request_status'', AsStr), (''config_request_error'', AsError), (''config_origin_screen'', AsStr),
     (''command_palette_visible'', AsBool), (''command_palette_query'', AsStr), (''command_palette_selected_id'', AsIs),
     (''recent_palette_commands'', AsList), (''approvals_request_status'', AsStr), (''approvals_request_error'', AsError),
     (''artifacts_request_status'', AsStr), (''artifacts_request_error'', AsError), (''diagnostics_origin_screen'', AsStr),
     (''diagnostics_request_status'', AsStr), (''diagnostics_request_error'', AsError), (''selected_diagnostic_id'', AsIs),
     (''task_detail_show_logs'', AsBool), (''navigation_stack'', AsList), (''runtime_user_id'', AsError),
     (''pending_task_objective'', AsError), (''remote_mcp_request_status'', AsStr), (''remote_mcp_request_error'', AsError),
     (''remote_mcp_authorization_id'', AsError), (''remote_mcp_authorization_url'', AsError),
     (''remote_mcp_server_name'', AsError), (''remote_mcp_provider_id'', AsError), (''remote_mcp_last_state_token'', AsError),
     (''remote_mcp_open_browser_supported'', AsBool), (''task_command_history'', AsList),
     (''task_command_history_index'', AsIs), (''task_command_suggestion'', AsError), (''task_list_compact'', AsBool),
     (''side_column_collapsed'', AsBool), (''task_detail_split'', AsStr), (''terminal_width'', AsInt),
     (''approvals_request_progress_label'', AsError), (''artifacts_request_progress_label'', AsError),
     (''connection_heartbeat_tick'', AsInt)]"

definition replace_ui :: "pydict \<Rightarrow> app_state \<Rightarrow> app_state result" where
  "replace_ui m st =
     (let task = dict_get_or m ''selected_task_id'' (st_selected_task_id st);
          approval = (if map_of m ''selected_task_id'' \<noteq> None \<and> map_of m ''selected_approval_id'' = None
            then selected_task_pending_approval_id (st_approvals_by_task st) (as_str task)
            else dict_get_or m ''selected_approval_id'' (st_selected_approval_id st)) in
      bindR (mapR (\<lambda>(f, c). bindR (coerce c (dict_get_or m f (dict_get (st_ui st) f))) (\<lambda>v. Inr (f, v))) ui_table) (\<lambda>kvs.
      bindR (py_dict (dict_get_or m ''unread_event_counts'' (PDict (st_unread_event_counts st)))) (\<lambda>counts.
        Inr ((set_ui kvs st)\<lparr>st_selected_task_id := task, st_selected_approval_id := approval,
          st_unread_event_counts := counts\<rparr>))))"

definition record_focus :: "pydict \<Rightarrow> app_state \<Rightarrow> app_state result" where
  "record_focus m st = (case map_of m ''last_focused_pane_by_screen'' of
     Some v \<Rightarrow> bindR (py_dict v) (\<lambda>d. Inr (st\<lparr>st_last_focused_pane_by_screen := d\<rparr>))
   | None \<Rightarrow> if map_of m ''focused_pane'' = None then Inr st
       else Inr (st\<lparr>st_last_focused_pane_by_screen := dict_set (st_last_focused_pane_by_screen st)
         (py_str (dict_get (st_ui st) ''active_screen'')) (dict_get (st_ui st) ''focused_pane'')\<rparr>))"

definition record_preview :: "pydict \<Rightarrow> app_state \<Rightarrow> app_state" where
  "record_preview m st = (case (dict_get m ''artifact_preview_artifact_id'', dict_get m ''artifact_preview_status'') of
     (PStr i, PStr status) \<Rightarrow> st\<lparr>
       st_artifact_preview_status := AList.update i status (st_artifact_preview_status st),
       st_artifact_preview_error :=
         AList.update i (normalize_error (dict_get m ''artifact_preview_error'')) (st_artifact_preview_error st)\<rparr>
   | _ \<Rightarrow> st)"

text \<open>A selected artifact without a selected task ends the reduction early.\<close>

definition reduce_ui_message :: "pydict \<Rightarrow> app_state \<Rightarrow> app_state result" where
  "reduce_ui_message m st = bindR (replace_ui m st) (\<lambda>st1.
     let st2 = clear_selected_unread_count st1;
         rest = (\<lambda>s. bindR (record_focus m s) (\<lambda>s'. Inr (record_preview m s'))) in
     case dict_get m ''selected_artifact_id'' of
       PStr a \<Rightarrow> (case selected_task_key st2 of
           None \<Rightarrow> Inr st2
         | Some k \<Rightarrow> rest (st2\<lparr>st_selected_artifact_id_by_task :=
             AList.update k (Some a) (st_selected_artifact_id_by_task st2)\<rparr>))
     | _ \<Rightarrow> rest st2)"

section \<open>Replies of the runtime\<close>

definition result_dict :: "pydict \<Rightarrow> pydict result" where
  "result_dict payload = py_dict (dict_get_or payload ''result'' (PDict []))"

definition required_result :: "pydict \<Rightarrow> pydict result" where
  "required_result payload = bindR (py_item payload ''result'') py_dict"

definition result_list :: "pydict \<Rightarrow> string \<Rightarrow> pyval list result" where
  "result_list result key = py_list (dict_get_or result key (PList []))"

definition rpc_health :: "pydict \<Rightarrow> app_state \<Rightarrow> app_state result" where
  "rpc_health payload st = bindR (result_dict payload) (\<lambda>result. Inr (set_ui
     [(''connection_status'', PStr ''connected''), (''runtime_snapshot_status'', PStr ''loaded''),
      (''runtime_snapshot_error'', PNone), (''last_error'', PNone)] (st\<lparr>st_runtime_health := result\<rparr>)))"

definition rpc_task :: "pydict \<Rightarrow> app_state \<Rightarrow> app_state result" where
  "rpc_task payload st =
     bindR (py_item payload ''result'') (\<lambda>r. bindR (value_item r ''task'') (\<lambda>t. bindR (value_item t ''task_id'') (\<lambda>i.
     bindR (py_dict t) (\<lambda>incoming.
     let task = merge_task_snapshot (map_of (st_task_snapshots st) (py_str i)) incoming in
     bindR (replace_task False task st) (\<lambda>st'.
     bindR (py_item task ''task_id'') (\<lambda>i'. bindR (py_item task ''run_id'') (\<lambda>r'.
       Inr (ensure_task_buffers (py_str i', py_str r') st'))))))))"

definition list_one_task :: "pyval \<Rightarrow> app_state \<Rightarrow> app_state result" where
  "list_one_task t st = bindR (value_item t ''task_id'') (\<lambda>i. bindR (py_dict t) (\<lambda>incoming.
     let task = merge_task_snapshot (map_of (st_task_snapshots st) (py_str i)) incoming in
     bindR (replace_task True task st) (\<lambda>st'. bindR (py_item task ''task_id'') (\<lambda>i'.
       Inr (ensure_task_buffers (py_str i', py_str (dict_get_or task ''run_id'' (PStr []))) st')))))"

definition rpc_task_list :: "pydict \<Rightarrow> app_state \<Rightarrow> app_state result" where
  "rpc_task_list payload st = bindR (result_dict payload) (\<lambda>result. bindR (result_list result ''tasks'') (\<lambda>tasks.
     bindR (foldR list_one_task (rev tasks) st) (\<lambda>st'.
       case tasks of [] \<Rightarrow> Inr st'
       | t # _ \<Rightarrow> if st_selected_task_id st \<noteq> PNone then Inr st'
           else bindR (value_item t ''task_id'') (\<lambda>i. Inr (st'\<lparr>st_selected_task_id := PStr (py_str i)\<rparr>)))))"

definition rpc_approvals :: "pydict \<Rightarrow> app_state \<Rightarrow> app_state result" where
  "rpc_approvals payload st = bindR (required_result payload) (\<lambda>result. bindR (result_list result ''approvals'') (\<lambda>entries.
     bindR (extract_task_run entries) (\<lambda>k.
     bindR (case k of None \<Rightarrow> Inr (st_approvals_by_task st)
        | Some k \<Rightarrow> bindR (as_dicts entries) (\<lambda>es.
            Inr (AList.update k (dedupe_entries es ''approval_id'') (st_approvals_by_task st)))) (\<lambda>d.
       Inr (set_ui [(''approvals_request_status'', PStr ''loaded''), (''approvals_request_error'', PNone),
           (''approvals_request_progress_label'', PNone)]
         (st\<lparr>st_approvals_by_task := d,
             st_selected_approval_id := resolved_selected_approval_id d (st_selected_approval_id st)\<rparr>))))))"

definition store_artifacts :: "task_key \<Rightarrow> pydict list \<Rightarrow> app_state \<Rightarrow> app_state" where
  "store_artifacts k artifacts st =
     (let es = dedupe_entries artifacts ''artifact_id'';
          current = (case map_of (st_selected_artifact_id_by_task st) k of None \<Rightarrow> None | Some c \<Rightarrow> c) in
      st\<lparr>st_artifacts_by_task := AList.update k es (st_artifacts_by_task st),
         st_selected_artifact_id_by_task :=
           AList.update k (default_selected_artifact_id current es) (st_selected_artifact_id_by_task st)\<rparr>)"

definition rpc_artifacts :: "pydict \<Rightarrow> app_state \<Rightarrow> app_state result" where
  "rpc_artifacts payload st = bindR (required_result payload) (\<lambda>result. bindR (result_list result ''artifacts'') (\<lambda>entries.
     bindR (extract_task_run entries) (\<lambda>k.
     bindR (case k of None \<Rightarrow> Inr st
        | Some k \<Rightarrow> bindR (as_dicts entries) (\<lambda>es. Inr (store_artifacts k es st))) (\<lambda>st'.
       Inr (set_ui [(''artifacts_request_status'', PStr ''loaded''), (''artifacts_request_error'', PNone),
         (''artifacts_request_progress_label'', PNone)] st')))))"

definition rpc_artifact :: "pydict \<Rightarrow> app_state \<Rightarrow> app_state result" where
  "rpc_artifact payload st = bindR (required_result payload) (\<lambda>result.
     bindR (py_dict (dict_get_or result ''artifact'' (PDict []))) (\<lambda>artifact.
     let i = py_str (dict_get_or artifact ''artifact_id'' (PStr [])) in
     Inr (if i = [] then st
       else st\<lparr>st_artifact_preview_cache := AList.update i result (st_artifact_preview_cache st),
               st_artifact_preview_status := AList.update i ''loaded'' (st_artifact_preview_status st),
               st_artifact_preview_error := AList.update i None (st_artifact_preview_error st)\<rparr>)))"

definition rpc_memory :: "pydict \<Rightarrow> app_state \<Rightarrow> app_state result" where
  "rpc_memory payload st = bindR (result_dict payload) (\<lambda>result. bindR (result_list result ''entries'') (\<lambda>entries.
     let key = memory_context_key payload in
     Inr (set_ui [(''memory_request_context_key'', PStr key), (''memory_request_status'', PStr ''loaded''),
         (''memory_request_error'', PNone)]
       (st\<lparr>st_memory_entries_by_context :=
          AList.update key (List.map_filter as_dict entries) (st_memory_entries_by_context st)\<rparr>))))"

definition rpc_config :: "pydict \<Rightarrow> app_state \<Rightarrow> app_state result" where
  "rpc_config payload st = bindR (result_dict payload) (\<lambda>result.
     bindR (py_dict (dict_get_or result ''effective_config'' (PDict []))) (\<lambda>config.
     bindR (result_list result ''loaded_profiles'') (\<lambda>profiles. bindR (result_list result ''config_sources'') (\<lambda>sources.
     bindR (result_list result ''redactions'') (\<lambda>redactions.
       Inr (set_ui [(''config_request_status'', PStr ''loaded''), (''config_request_error'', PNone)]
         (st\<lparr>st_config_snapshot := config, st_config_loaded_profiles := map py_str profiles,
             st_config_sources := map py_str sources, st_config_redactions := List.map_filter as_dict redactions\<rparr>)))))))"

definition rpc_authorize :: "pydict \<Rightarrow> app_state \<Rightarrow> app_state result" where
  "rpc_authorize payload st = bindR (result_dict payload) (\<lambda>result.
     bindR (case dict_get result ''task'' of
         PDict t \<Rightarrow> replace_task True
           (merge_task_snapshot (map_of (st_task_snapshots st) (py_str (dict_get_or t ''task_id'' (PStr [])))) t) st
       | _ \<Rightarrow> Inr st) (\<lambda>st'.
     let opt = (\<lambda>k. opt_str (normalize_error (dict_get result k))) in
     Inr (set_ui [(''remote_mcp_authorization_id'', opt ''authorization_id''),
       (''remote_mcp_authorization_url'', opt ''authorization_url''), (''remote_mcp_server_name'', opt ''server_name''),
       (''remote_mcp_provider_id'', opt ''provider_id''), (''remote_mcp_request_status'', PStr ''loaded''),
       (''remote_mcp_request_error'', PNone)] st')))"

definition rpc_diagnostics :: "pydict \<Rightarrow> app_state \<Rightarrow> app_state result" where
  "rpc_diagnostics payload st = bindR (result_dict payload) (\<lambda>result. bindR (result_list result ''diagnostics'') (\<lambda>entries.
     bindR (task_context payload entries) (\<lambda>k.
     bindR (case k of None \<Rightarrow> Inr (st_diagnostics_by_task st)
        | Some k \<Rightarrow> bindR (as_dicts entries) (\<lambda>es.
            Inr (AList.update k (dedupe_entries es ''diagnostic_id'') (st_diagnostics_by_task st)))) (\<lambda>d.
       Inr (set_ui [(''diagnostics_request_status'', PStr ''loaded''), (''diagnostics_request_error'', PNone),
           (''selected_diagnostic_id'', resolved_selected_diagnostic_id d (dict_get (st_ui st) ''selected_diagnostic_id''))]
         (st\<lparr>st_diagnostics_by_task := d\<rparr>))))))"

definition rpc_logs :: "pydict \<Rightarrow> app_state \<Rightarrow> app_state result" where
  "rpc_logs payload st = bindR (required_result payload) (\<lambda>result.
     let run = py_str (dict_get_or result ''run_id'' (PStr []));
         task = py_str (dict_get_or result ''task_id'' (PStr []));
         st' = set_ui [(''connection_status'', PStr ''connected'')] st in
     Inr (if task \<noteq> [] \<and> run \<noteq> [] then ensure_task_buffers (task, run) st' else st'))"

definition reduce_rpc_result :: "string \<Rightarrow> pydict \<Rightarrow> app_state \<Rightarrow> app_state result" where
  "reduce_rpc_result name payload st =
     (if name = ''runtime.health'' then rpc_health payload st
      else if name \<in> {''task.get'', ''task.resume'', ''task.reply'', ''task.approve''} then rpc_task payload st
      else if name = ''task.list'' then rpc_task_list payload st
      else if name = ''task.approvals.list'' then rpc_approvals payload st
      else if name = ''task.artifacts.list'' then rpc_artifacts payload st
      else if name = ''task.artifact.get'' then rpc_artifact payload st
      else if name = ''memory.inspect'' then rpc_memory payload st
      else if name = ''config.get'' then rpc_config payload st
      else if name = ''remote_mcp.authorize.start'' then rpc_authorize payload st
      else if name = ''task.diagnostics.list'' then rpc_diagnostics payload st
      else if name = ''task.logs.stream'' then rpc_logs payload st
      else Inr st)"

section \<open>Events of the runtime\<close>

abbreviation (input) sets :: "(string \<times> pyval) list \<Rightarrow> pydict \<Rightarrow> pydict" where
  "sets kvs d \<equiv> fold (\<lambda>kv u. dict_set u (fst kv) (snd kv)) kvs d"

definition base_snapshot :: "string \<Rightarrow> string \<Rightarrow> pyval \<Rightarrow> pydict \<Rightarrow> pydict option \<Rightarrow> pydict" where
  "base_snapshot task run timestamp payload existing = (case existing of
     Some (kv # d) \<Rightarrow> kv # d
   | _ \<Rightarrow> [(''task_id'', PStr task), (''run_id'', PStr run),
       (''status'', dict_get_or payload ''status'' (PStr ''created'')), (''objective'', dict_get_or payload ''objective'' (PStr [])),
       (''created_at'', timestamp), (''updated_at'', timestamp)])"

definition copy_key :: "string \<Rightarrow> string \<Rightarrow> pydict \<Rightarrow> pydict \<Rightarrow> pydict" where
  "copy_key from to payload snapshot =
     (case map_of payload from of None \<Rightarrow> snapshot | Some v \<Rightarrow> dict_set snapshot to v)"

definition touched_snapshot :: "string \<Rightarrow> string \<Rightarrow> pyval \<Rightarrow> pydict \<Rightarrow> pydict \<Rightarrow> pydict" where
  "touched_snapshot task run timestamp payload snapshot =
     copy_key ''phase'' ''current_phase'' payload (copy_key ''status'' ''status'' payload
       (copy_key ''objective'' ''objective'' payload (copy_key ''summary'' ''latest_summary'' payload
         (sets [(''task_id'', PStr task), (''run_id'', PStr run), (''updated_at'', timestamp), (''last_event_at'', timestamp)]
           snapshot))))"

abbreviation (input) no_approval :: "(string \<times> pyval) list" where
  "no_approval \<equiv> [(''awaiting_approval'', PBool False), (''pending_approval_id'', PNone)]"

definition event_snapshot :: "string \<Rightarrow> pydict \<Rightarrow> pydict \<Rightarrow> pydict" where
  "event_snapshot ty payload s =
     (if ty = ''task.started'' then dict_set s ''status'' (PStr ''executing'')
      else if ty = ''task.paused'' then dict_set s ''status'' (PStr ''paused'')
      else if ty = ''task.resumed'' then sets ((''status'', PStr ''executing'') # no_approval) s
      else if ty = ''task.user_input_received'' then
        dict_set s ''latest_summary'' (dict_get_or payload ''summary'' (PStr ''User input received. Resuming execution.''))
      else if ty = ''task.completed'' then
        sets ((''status'', PStr ''completed'') # no_approval @ [(''active_subagent'', PNone)]) s
      else if ty = ''task.cancelled'' then
        sets ((''status'', PStr ''cancelled'') # no_approval @ [(''active_subagent'', PNone), (''is_resumable'', PBool True),
          (''pause_reason'', dict_get_or payload ''pause_reason'' (PStr ''cancel_requested'')), (''failure'', PNone)]) s
      else if ty = ''task.failed'' then
        sets ((''status'', PStr ''failed'') # no_approval @ [(''active_subagent'', PNone),
          (''failure'', PDict (failure_to_dict
            \<lparr>fi_message = py_str (dict_get_or payload ''error'' (PStr ''failed'')), fi_code = None\<rparr>))]) s
      else if ty = ''plan.updated'' then
        (let s' = copy_key ''summary'' ''latest_summary'' payload s in
         dict_set s' ''current_phase'' (dict_get_or payload ''phase'' (dict_get_or s' ''current_phase'' (PStr ''planning''))))
      else if ty = ''tool.called'' then
        (case tui_event_todos payload of None \<Rightarrow> s | Some todos \<Rightarrow> dict_set s ''todos'' todos)
      else if ty = ''subagent.started'' then
        sets [(''active_subagent'', dict_get payload ''subagentId''),
          (''latest_summary'', dict_get_or payload ''taskDescription'' (PStr (tui_event_summary ty payload)))] s
      else if ty = ''subagent.completed'' then
        sets [(''active_subagent'', PNone),
          (''latest_summary'', py_or (dict_get payload ''summary'') (PStr (tui_event_summary ty payload)))] s
      else s)"

definition request_approval :: "task_key \<Rightarrow> pydict \<Rightarrow> pydict \<Rightarrow> app_state \<Rightarrow> (pydict \<times> app_state) result" where
  "request_approval k payload s st =
     bindR (value_get (dict_get_or payload ''approval'' (PDict [])) ''approval_id'') (\<lambda>i.
     bindR (py_item payload ''approval'') (\<lambda>v. bindR (py_dict v) (\<lambda>a.
     let es = dedupe_entries (entries_at (st_approvals_by_task st) k @ [a]) ''approval_id'' in
     Inr (sets [(''awaiting_approval'', PBool True), (''status'', PStr ''awaiting_approval''), (''pending_approval_id'', i)] s,
       st\<lparr>st_approvals_by_task := AList.update k es (st_approvals_by_task st),
          st_selected_approval_id := py_or (st_selected_approval_id st) (dict_get (last es) ''approval_id'')\<rparr>))))"

definition create_artifact :: "task_key \<Rightarrow> pydict \<Rightarrow> pydict \<Rightarrow> app_state \<Rightarrow> (pydict \<times> app_state) result" where
  "create_artifact k payload s st =
     bindR (py_item payload ''artifact'') (\<lambda>v. bindR (py_dict v) (\<lambda>a.
     let st' = store_artifacts k (entries_at (st_artifacts_by_task st) k @ [a]) st in
     Inr (dict_set s ''artifact_count'' (PInt (int (length (entries_at (st_artifacts_by_task st') k)))), st')))"

definition event_effect :: "task_key \<Rightarrow> string \<Rightarrow> pydict \<Rightarrow> pydict \<Rightarrow> app_state \<Rightarrow> (pydict \<times> app_state) result" where
  "event_effect k ty payload s st =
     (if ty = ''approval.requested'' then request_approval k payload s st
      else if ty = ''artifact.created'' then create_artifact k payload s st
      else Inr (event_snapshot ty payload s, st))"

definition event_body :: "pydict \<Rightarrow> pydict" where
  "event_body envelope = (case dict_get envelope ''payload'' of PDict d \<Rightarrow> d | _ \<Rightarrow> [])"

definition apply_event :: "string \<Rightarrow> string \<Rightarrow> string \<Rightarrow> pyval \<Rightarrow> pydict \<Rightarrow> app_state \<Rightarrow> app_state result" where
  "apply_event task run ty timestamp envelope st =
     (let st1 = ensure_task_buffers (task, run) st; body = event_body envelope;
          s = touched_snapshot task run timestamp body
                (base_snapshot task run timestamp body (map_of (st_task_snapshots st1) task)) in
      bindR (event_effect (task, run) ty body s st1) (\<lambda>(s', st2).
      bindR (py_dict (dict_get_or envelope ''source'' (PDict []))) (\<lambda>source.
      bindR (increment_unread_event_count task (append_event_record
          (build_task_event_record task run (py_str timestamp) ty body source) st2)) (replace_task True s'))))"

definition reduce_runtime_event :: "pydict \<Rightarrow> app_state \<Rightarrow> app_state result" where
  "reduce_runtime_event payload st =
     bindR (py_item payload ''event'') (\<lambda>v. bindR (py_dict v) (\<lambda>envelope.
     case (dict_get envelope ''task_id'', dict_get envelope ''run_id'') of
       (PStr task, PStr run) \<Rightarrow>
         bindR (py_item envelope ''event_type'') (\<lambda>t. bindR (py_item envelope ''timestamp'') (\<lambda>timestamp.
           apply_event task run (py_str t) timestamp envelope st))
     | _ \<Rightarrow> Inr st))"

section \<open>The reducer and the store\<close>

fun reduce_app_state :: "app_state \<Rightarrow> runtime_message \<Rightarrow> app_state result" where
  "reduce_app_state st (ConnectionMessage m) = bindR (py_item m ''status'') (\<lambda>v.
     Inr (set_ui [(''connection_status'', PStr (py_str v)),
       (''last_error'', opt_str (normalize_error (dict_get m ''error'')))] st))"
| "reduce_app_state st (UiMessage m) = reduce_ui_message m st"
| "reduce_app_state st (RpcMessage name payload) = reduce_rpc_result name payload st"
| "reduce_app_state st (EventMessage payload) = reduce_runtime_event payload st"

text \<open>\<open>AppStateStore.dispatch\<close>: the state it leaves, also when the reducer raises.\<close>

definition dispatch :: "runtime_message \<Rightarrow> app_state \<Rightarrow> app_state" where
  "dispatch m st = (case reduce_app_state st m of Inl _ \<Rightarrow> st | Inr st' \<Rightarrow> st')"

end
