(* ===== verification/TUI_Properties.thy ===== *)
theory TUI_Properties
  imports TUI_Reducers
begin

text \<open>
  What holds of the client state after any sequence of messages. The locale \<open>app_invariant\<close> lists the writes of the
  reducers to the task index, the event buffers and the entry lists; a predicate that survives them survives every
  message.
\<close>

text \<open>Every value a result may have satisfies \<open>P\<close>.\<close>

definition okR :: "('a \<Rightarrow> bool) \<Rightarrow> 'a result \<Rightarrow> bool" where
  "okR P r \<longleftrightarrow> (\<forall>x. r = Inr x \<longrightarrow> P x)"

lemma okR_simps [simp]: "okR P (Inl e)" "okR P (Inr x) = P x"
  by (simp_all add: okR_def)

lemma okR_bind: "(\<And>x. r = Inr x \<Longrightarrow> okR P (f x)) \<Longrightarrow> okR P (bindR r f)"
  by (cases r) auto

lemma okR_seq: "okR Q r \<Longrightarrow> (\<And>x. Q x \<Longrightarrow> okR P (f x)) \<Longrightarrow> okR P (bindR r f)"
  by (cases r) auto

lemma okRD: "okR P r \<Longrightarrow> r = Inr x \<Longrightarrow> P x"
  by simp

section \<open>The writes of the reducers\<close>

definition same_core :: "app_state \<Rightarrow> app_state \<Rightarrow> bool" where
  "same_core a b \<longleftrightarrow> st_task_index a = st_task_index b \<and> st_task_snapshots a = st_task_snapshots b \<and>
     st_run_event_buffers a = st_run_event_buffers b \<and> st_approvals_by_task a = st_approvals_by_task b \<and>
     st_artifacts_by_task a = st_artifacts_by_task b \<and> st_diagnostics_by_task a = st_diagnostics_by_task b"

lemma same_core_set_ui [simp]: "same_core (set_ui kvs st) st' = same_core st st'"
  by (simp add: same_core_def set_ui_def)

lemma set_ui_fields [simp]:
  "st_task_index (set_ui kvs st) = st_task_index st" "st_task_snapshots (set_ui kvs st) = st_task_snapshots st"
  "st_run_event_buffers (set_ui kvs st) = st_run_event_buffers st"
  "st_approvals_by_task (set_ui kvs st) = st_approvals_by_task st"
  "st_artifacts_by_task (set_ui kvs st) = st_artifacts_by_task st"
  "st_diagnostics_by_task (set_ui kvs st) = st_diagnostics_by_task st"
  "st_selected_task_id (set_ui kvs st) = st_selected_task_id st"
  "st_selected_approval_id (set_ui kvs st) = st_selected_approval_id st"
  "st_unread_event_counts (set_ui kvs st) = st_unread_event_counts st"
  by (simp_all add: set_ui_def)

locale app_invariant =
  fixes I :: "app_state \<Rightarrow> bool"
  assumes plain: "I st \<Longrightarrow> same_core st' st \<Longrightarrow> I st'"
    and task: "I st \<Longrightarrow> replace_task b t st = Inr st' \<Longrightarrow> I st'"
    and buffers: "I st \<Longrightarrow> I (ensure_task_buffers k st)"
    and event: "I st \<Longrightarrow> I (append_event_record r st)"
    and approvals: "I st \<Longrightarrow>
      I (st\<lparr>st_approvals_by_task := AList.update k (dedupe_entries es ''approval_id'') (st_approvals_by_task st)\<rparr>)"
    and artifacts: "I st \<Longrightarrow>
      I (st\<lparr>st_artifacts_by_task := AList.update k (dedupe_entries es ''artifact_id'') (st_artifacts_by_task st)\<rparr>)"
    and diagnostics: "I st \<Longrightarrow>
      I (st\<lparr>st_diagnostics_by_task := AList.update k (dedupe_entries es ''diagnostic_id'') (st_diagnostics_by_task st)\<rparr>)"
begin

lemma clear: "I (clear_unread_count i st) = I st" "I (clear_selected_unread_count st) = I st"
  using plain[of st "clear_unread_count i st" for i] plain[of "clear_unread_count i st" st for i]
  by (auto simp: clear_selected_unread_count_def clear_unread_count_def same_core_def split: pyval.split)

lemma ui: "I st \<Longrightarrow> I (set_ui kvs st)"
  by (erule plain) (simp add: same_core_def)

lemma store_artifacts: "I st \<Longrightarrow> I (store_artifacts k es st)"
  by (rule plain[OF artifacts[of st k es]]) (auto simp: same_core_def store_artifacts_def Let_def)

lemma replace_ui: "I st \<Longrightarrow> replace_ui m st = Inr st' \<Longrightarrow> I st'"
  by (erule plain) (auto simp: replace_ui_def same_core_def bindR_Inr_iff Let_def)

lemma record_focus: "I st \<Longrightarrow> record_focus m st = Inr st' \<Longrightarrow> I st'"
  by (erule plain) (auto simp: record_focus_def same_core_def bindR_Inr_iff split: option.splits if_splits)

lemma record_preview: "I st \<Longrightarrow> I (record_preview m st)"
  by (erule plain) (auto simp: record_preview_def same_core_def split: pyval.splits)

lemma ui_message:
  assumes "I st" and "reduce_ui_message m st = Inr st'"
  shows "I st'"
proof -
  obtain st1 where st1: "replace_ui m st = Inr st1" using assms(2) by (auto simp: reduce_ui_message_def bindR_Inr_iff)
  let ?s = "clear_selected_unread_count st1"
  have I: "I ?s" using replace_ui[OF assms(1) st1] by (simp add: clear)
  have sel: "I (?s\<lparr>st_selected_artifact_id_by_task := d\<rparr>)" for d by (rule plain[OF I]) (simp add: same_core_def)
  have rest: "I u'" if "I u" "bindR (record_focus m u) (\<lambda>s'. Inr (record_preview m s')) = Inr u'" for u u'
    using that record_focus record_preview by (auto simp: bindR_Inr_iff)
  show ?thesis
    using assms(2) I rest[OF I] rest[OF sel]
    by (auto simp: reduce_ui_message_def st1 Let_def split: pyval.splits option.splits)
qed

lemma okI: "I st \<Longrightarrow> okR I (replace_task b t st)"
  by (auto simp: okR_def dest: task)

lemma fields: "I st \<Longrightarrow> I (st\<lparr>st_selected_task_id := v\<rparr>)" "I st \<Longrightarrow> I (st\<lparr>st_selected_approval_id := v\<rparr>)"
  "I st \<Longrightarrow> I (st\<lparr>st_runtime_health := h\<rparr>)" "I st \<Longrightarrow> I (st\<lparr>st_unread_event_counts := c\<rparr>)"
  "I st \<Longrightarrow> I (st\<lparr>st_memory_entries_by_context := e\<rparr>)"
  "I st \<Longrightarrow> I (st\<lparr>st_artifact_preview_cache := x, st_artifact_preview_status := y, st_artifact_preview_error := z\<rparr>)"
  "I st \<Longrightarrow> I (st\<lparr>st_config_snapshot := sn, st_config_loaded_profiles := p, st_config_sources := so, st_config_redactions := r\<rparr>)"
  by (erule plain, simp add: same_core_def)+

lemma one_task: "I st \<Longrightarrow> okR I (list_one_task t st)"
  unfolding list_one_task_def Let_def
  by (rule okR_bind, rule okR_bind, rule okR_seq[OF okI]) (auto intro!: okR_bind buffers)

lemma tasks: "I st \<Longrightarrow> okR I (foldR list_one_task ts st)"
  by (induction ts arbitrary: st) (auto intro!: okR_seq[OF one_task])

lemma rpc_tasks: "I st \<Longrightarrow> okR I (rpc_task_list payload st)"
  unfolding rpc_task_list_def
  by (rule okR_bind, rule okR_bind, rule okR_seq[OF tasks]) (auto intro!: okR_bind fields split: list.split)

lemma rpc_single: "I st \<Longrightarrow> okR I (rpc_task payload st)"
  unfolding rpc_task_def Let_def
  by (rule okR_bind, rule okR_bind, rule okR_bind, rule okR_bind, rule okR_seq[OF okI]) (auto intro!: okR_bind buffers)

lemma rpc_entries: "I st \<Longrightarrow> okR I (rpc_approvals payload st)" "I st \<Longrightarrow> okR I (rpc_artifacts payload st)"
  "I st \<Longrightarrow> okR I (rpc_diagnostics payload st)"
  unfolding rpc_approvals_def rpc_artifacts_def rpc_diagnostics_def
  by (auto intro!: okR_bind ui fields store_artifacts simp: bindR_Inr_iff split: option.splits)
    (auto intro!: fields approvals diagnostics intro: plain simp: same_core_def)

lemma rpc_plain: "I st \<Longrightarrow> okR I (rpc_health payload st)" "I st \<Longrightarrow> okR I (rpc_artifact payload st)"
  "I st \<Longrightarrow> okR I (rpc_memory payload st)" "I st \<Longrightarrow> okR I (rpc_config payload st)" "I st \<Longrightarrow> okR I (rpc_logs payload st)"
  unfolding rpc_health_def rpc_artifact_def rpc_memory_def rpc_config_def rpc_logs_def Let_def
  by (auto intro!: okR_bind ui fields buffers)

lemma rpc_auth: "I st \<Longrightarrow> okR I (rpc_authorize payload st)"
  unfolding rpc_authorize_def Let_def
  by (rule okR_bind, rule okR_seq[where Q = I]) (auto intro: okI ui split: pyval.split)

lemma rpc: "I st \<Longrightarrow> okR I (reduce_rpc_result name payload st)"
  by (simp add: reduce_rpc_result_def rpc_tasks rpc_single rpc_entries rpc_plain rpc_auth)

lemma requested: "I st \<Longrightarrow> okR (\<lambda>x. I (snd x)) (request_approval k payload s st)"
  unfolding request_approval_def Let_def
  by (rule okR_bind, rule okR_bind, rule okR_bind) (simp add: fields approvals)

lemma created: "I st \<Longrightarrow> okR (\<lambda>x. I (snd x)) (create_artifact k payload s st)"
  unfolding create_artifact_def Let_def
  by (rule okR_bind, rule okR_bind) (simp add: store_artifacts)

lemma effect: "I st \<Longrightarrow> okR (\<lambda>x. I (snd x)) (event_effect k ty payload s st)"
  by (simp add: event_effect_def requested created)

lemma unread: "I st \<Longrightarrow> okR I (increment_unread_event_count i st)"
  by (auto simp: increment_unread_event_count_def clear intro!: okR_bind fields)

lemma applied:
  assumes "I st"
  shows "okR I (apply_event t r ty at envelope st)"
proof -
  have tail: "okR I (bindR (py_dict v) (\<lambda>source. bindR (increment_unread_event_count t (append_event_record (rec source) st2))
      (replace_task True s)))" if "I st2" for v rec st2 s
    by (rule okR_bind) (rule okR_seq[OF unread[OF event[OF that]] okI])
  have eff: "okR (\<lambda>x. I (snd x)) (event_effect (t, r) ty body s (ensure_task_buffers (t, r) st))" for body s
    by (intro effect buffers assms)
  show ?thesis
    unfolding apply_event_def Let_def
    by (rule okR_seq[OF eff]) (auto intro!: tail split del: if_split split: prod.split simp del: okR_simps)
qed

lemma runtime_event: "I st \<Longrightarrow> okR I (reduce_runtime_event payload st)"
  unfolding reduce_runtime_event_def
  by (auto intro!: okR_bind applied split: pyval.split)

lemma connection: "I st \<Longrightarrow> okR I (reduce_app_state st (ConnectionMessage m))"
  by (simp, rule okR_bind) (simp add: ui)

theorem message: "I st \<Longrightarrow> okR I (reduce_app_state st m)"
  by (cases m) (simp_all add: connection rpc runtime_event okR_def[of I "reduce_ui_message _ _"] ui_message
    del: reduce_app_state.simps(1))

lemma dispatched: "I st \<Longrightarrow> I (dispatch m st)"
  using message[of st m] by (auto simp: dispatch_def split: sum.split)

lemma all_dispatched: "I st \<Longrightarrow> I (fold dispatch ms st)"
  by (induction ms arbitrary: st) (auto simp: dispatched)

end

section \<open>Three invariants\<close>

definition every_entry :: "('k \<Rightarrow> 'v \<Rightarrow> bool) \<Rightarrow> ('k \<times> 'v) list \<Rightarrow> bool" where
  "every_entry P d \<longleftrightarrow> (\<forall>(k, v) \<in> set d. P k v)"

lemma every_entry_simps [simp]: "every_entry P []" "every_entry P ((k, v) # d) = (P k v \<and> every_entry P d)"
  by (simp_all add: every_entry_def)

lemma every_entry_update: "every_entry P d \<Longrightarrow> P k v \<Longrightarrow> every_entry P (AList.update k v d)"
  by (induction d) (auto simp: every_entry_def)

lemma every_entry_fold:
  "every_entry P kvs \<Longrightarrow> every_entry P d \<Longrightarrow> every_entry P (fold (\<lambda>kv d. AList.update (fst kv) (snd kv) d) kvs d)"
  by (induction kvs arbitrary: d) (auto simp: every_entry_update)

lemma distinct_fold_update:
  "distinct (map fst d) \<Longrightarrow> distinct (map fst (fold (\<lambda>kv d. AList.update (fst kv) (snd kv) d) kvs d))"
  by (induction kvs arbitrary: d) (simp_all add: distinct_update)

lemma every_entry_default: "every_entry P d \<Longrightarrow> P k v \<Longrightarrow> every_entry P (set_default k v d)"
  by (auto simp: every_entry_def set_default_def)

lemma every_entryD: "every_entry P d \<Longrightarrow> map_of d k = Some v \<Longrightarrow> P k v"
  by (auto simp: every_entry_def dest: map_of_SomeD)

text \<open>The task index lists the known tasks once.\<close>

definition index_ok :: "app_state \<Rightarrow> bool" where
  "index_ok st \<longleftrightarrow> distinct (st_task_index st) \<and> set (st_task_index st) = fst ` set (st_task_snapshots st)"

interpretation indexed: app_invariant index_ok
proof
  show "index_ok st'" if ok: "index_ok st" and rep: "replace_task b t st = Inr st'" for b t st st'
  proof -
    obtain v where "py_item t ''task_id'' = Inr v" using rep by (auto simp: replace_task_def bindR_Inr_iff)
    then have st': "st_task_snapshots st' = AList.update (py_str v) t (st_task_snapshots st)"
        "st_task_index st' = (if b \<and> py_str v \<notin> set (st_task_index st) then py_str v # st_task_index st
          else py_str v # filter (\<lambda>c. c \<noteq> py_str v) (st_task_index st))"
      using rep by (auto simp: replace_task_def Let_def)
    have "fst ` set (st_task_snapshots st') = insert (py_str v) (set (st_task_index st))"
      using ok by (simp add: st'(1) dom_update index_ok_def)
    then show ?thesis using ok unfolding index_ok_def st'(2) by (simp only:) auto
  qed
qed (auto simp: index_ok_def same_core_def ensure_task_buffers_def append_event_record_def Let_def)

text \<open>A buffer holds at most 250 events, all of its run, no two of which look the same.\<close>

definition event_signature :: "task_event_record \<Rightarrow> string \<times> string \<times> string" where
  "event_signature r = (te_timestamp r, te_event_type r, te_summary r)"

definition buffer_ok :: "task_key \<Rightarrow> task_event_record list \<Rightarrow> bool" where
  "buffer_ok k es \<longleftrightarrow> length es \<le> event_buffer_limit \<and> distinct (map event_signature es) \<and>
     (\<forall>e \<in> set es. (te_task_id e, te_run_id e) = k)"

lemma same_event_signature: "same_event a b \<longleftrightarrow> event_signature a = event_signature b"
  by (auto simp: same_event_def event_signature_def)

lemma event_record_exists_iff: "event_record_exists es r \<longleftrightarrow> event_signature r \<in> event_signature ` set es"
  by (simp add: event_record_exists_def list_ex_iff same_event_signature image_iff eq_commute)

lemma append_to_buffer_ok:
  assumes "buffer_ok (te_task_id r, te_run_id r) es"
  shows "buffer_ok (te_task_id r, te_run_id r) (append_to_buffer r es)"
proof -
  let ?d = "drop (length (es @ [r]) - event_buffer_limit) (es @ [r])"
  have "buffer_ok (te_task_id r, te_run_id r) ?d" if new: "\<not> event_record_exists es r"
    unfolding buffer_ok_def
  proof (intro conjI ballI)
    have "distinct (map event_signature (es @ [r]))" using assms new by (simp add: buffer_ok_def event_record_exists_iff)
    then show "distinct (map event_signature ?d)" by (metis distinct_drop drop_map)
    show "(te_task_id e, te_run_id e) = (te_task_id r, te_run_id r)" if "e \<in> set ?d" for e
      using in_set_dropD[OF that] assms by (auto simp: buffer_ok_def)
  qed simp
  moreover have "append_to_buffer r es = (if event_record_exists es r then es
      else drop (length (es @ [r]) - event_buffer_limit) (es @ [r]))"
    by (simp add: append_to_buffer_def Let_def del: drop_append)
  ultimately show ?thesis using assms by simp
qed

interpretation buffered: app_invariant "\<lambda>st. every_entry buffer_ok (st_run_event_buffers st)"
proof
  have empty: "buffer_ok k []" for k by (simp add: buffer_ok_def)
  show "every_entry buffer_ok (st_run_event_buffers (ensure_task_buffers k st))"
    if "every_entry buffer_ok (st_run_event_buffers st)" for k st
    using that by (simp add: ensure_task_buffers_def every_entry_default empty)
  show "every_entry buffer_ok (st_run_event_buffers (append_event_record r st))"
    if "every_entry buffer_ok (st_run_event_buffers st)" for r st
    using that by (auto simp: append_event_record_def Let_def entries_at_def empty split: option.split
      intro!: every_entry_update append_to_buffer_ok dest: every_entryD)
qed (auto simp: same_core_def replace_task_def bindR_Inr_iff Let_def)

text \<open>The entries a list shows with an id have ids of their own.\<close>

definition entry_ids :: "string \<Rightarrow> pydict list \<Rightarrow> string list" where
  "entry_ids key es = List.map_filter (\<lambda>e. nonblank_str (dict_get e key)) es"

lemma entry_ids_append: "entry_ids key (es @ fs) = entry_ids key es @ entry_ids key fs"
  by (simp add: entry_ids_def map_filter_def)

definition keyed_once :: "string \<Rightarrow> 'k \<Rightarrow> pydict list \<Rightarrow> bool" where
  "keyed_once key k es \<longleftrightarrow> distinct (entry_ids key es)"

lemma entry_ids_dedupe: "distinct (entry_ids key (dedupe_entries es key))"
proof -
  let ?keyed = "List.map_filter (\<lambda>e. map_option (\<lambda>k. (k, e)) (nonblank_str (dict_get e key))) es"
  let ?D = "fold (\<lambda>kv d. AList.update (fst kv) (snd kv) d) ?keyed []"
  have "every_entry (\<lambda>k e. nonblank_str (dict_get e key) = Some k) ?keyed"
    by (auto simp: every_entry_def map_filter_def)
  then have D: "distinct (map fst ?D)" "every_entry (\<lambda>k e. nonblank_str (dict_get e key) = Some k) ?D"
    using distinct_fold_update[of "[]"] by (simp_all add: every_entry_fold)
  have "entry_ids key (map snd d) = map fst d" if "every_entry (\<lambda>k e. nonblank_str (dict_get e key) = Some k) d" for d
    using that by (induction d) (auto simp: entry_ids_def every_entry_def List.map_filter_simps)
  moreover have "entry_ids key (filter (\<lambda>e. nonblank_str (dict_get e key) = None) es) = []"
    by (induction es) (auto simp: entry_ids_def List.map_filter_simps)
  ultimately show ?thesis using D by (simp add: dedupe_entries_def Let_def entry_ids_append)
qed

definition entries_ok :: "app_state \<Rightarrow> bool" where
  "entries_ok st \<longleftrightarrow> every_entry (keyed_once ''approval_id'') (st_approvals_by_task st) \<and>
     every_entry (keyed_once ''artifact_id'') (st_artifacts_by_task st) \<and>
     every_entry (keyed_once ''diagnostic_id'') (st_diagnostics_by_task st)"

interpretation entries: app_invariant entries_ok
  by unfold_locales
    (auto simp: entries_ok_def same_core_def replace_task_def bindR_Inr_iff Let_def ensure_task_buffers_def
      append_event_record_def keyed_once_def entry_ids_dedupe intro!: every_entry_update)

section \<open>Properties\<close>

text \<open>
  C17. Whatever the runtime replies, streams or the user does, in any order and well-formed or not: the task index of
  the client lists every task it knows a snapshot of, once; each event buffer has at most 250 events, of its own run and
  pairwise different; and no list of approvals, artifacts or diagnostics shows an id twice.
\<close>

theorem client_state_stays_well_formed:
  "index_ok (fold dispatch ms initial_app_state) \<and>
   every_entry buffer_ok (st_run_event_buffers (fold dispatch ms initial_app_state)) \<and>
   entries_ok (fold dispatch ms initial_app_state)"
  by (intro conjI indexed.all_dispatched buffered.all_dispatched entries.all_dispatched)
    (simp_all add: initial_app_state_def index_ok_def every_entry_def entries_ok_def)

text \<open>
  What an event buffer stands for: the record an event message asks for, and the first record of each signature in a
  sequence of records.
\<close>

definition event_record_of :: "pydict \<Rightarrow> task_event_record option" where
  "event_record_of payload = (case dict_get payload ''event'' of
     PDict e \<Rightarrow> (case (dict_get e ''task_id'', dict_get e ''run_id'') of
         (PStr task, PStr run) \<Rightarrow> Some (build_task_event_record task run (py_str (dict_get e ''timestamp''))
             (py_str (dict_get e ''event_type'')) (event_body e)
             (case dict_get_or e ''source'' (PDict []) of PDict s \<Rightarrow> s | _ \<Rightarrow> []))
       | _ \<Rightarrow> None)
   | _ \<Rightarrow> None)"

definition records_of :: "task_key \<Rightarrow> pydict list \<Rightarrow> task_event_record list" where
  "records_of k ps = filter (\<lambda>r. (te_task_id r, te_run_id r) = k) (List.map_filter event_record_of ps)"

function firsts :: "task_event_record list \<Rightarrow> task_event_record list" where
  "firsts [] = []"
| "firsts (r # rs) = r # firsts (filter (\<lambda>x. event_signature x \<noteq> event_signature r) rs)"
  by pat_completeness auto
termination
  by (relation "measure length") (auto simp: le_imp_less_Suc)

lemma set_firsts: "event_signature ` set (firsts rs) = event_signature ` set rs"
  by (induction rs rule: firsts.induct) auto

lemma firsts_filter: "firsts (filter (\<lambda>x. event_signature x \<notin> S) rs) = filter (\<lambda>x. event_signature x \<notin> S) (firsts rs)"
proof (induction rs arbitrary: S rule: firsts.induct)
  case (2 r rs)
  have "filter (\<lambda>x. event_signature x \<noteq> event_signature r) (filter (\<lambda>x. event_signature x \<notin> S) rs) =
      filter (\<lambda>x. event_signature x \<notin> S) (filter (\<lambda>x. event_signature x \<noteq> event_signature r) rs)"
    by (simp add: conj_commute)
  moreover have "filter (\<lambda>x. event_signature x \<notin> S) rs =
      filter (\<lambda>x. event_signature x \<notin> S) (filter (\<lambda>x. event_signature x \<noteq> event_signature r) rs)"
    if "event_signature r \<in> S"
    using that by (auto intro!: filter_cong)
  ultimately show ?case using 2 by auto
qed simp

lemma firsts_append:
  "firsts (xs @ ys) = firsts xs @ firsts (filter (\<lambda>y. event_signature y \<notin> event_signature ` set xs) ys)"
proof (induction xs arbitrary: ys rule: firsts.induct)
  case (2 r rs)
  have "filter (\<lambda>y. event_signature y \<notin> event_signature ` set (filter (\<lambda>x. event_signature x \<noteq> event_signature r) rs))
      (filter (\<lambda>x. event_signature x \<noteq> event_signature r) ys) =
      filter (\<lambda>y. event_signature y \<notin> event_signature ` set (r # rs)) ys"
    by (auto intro!: filter_cong)
  then show ?case using 2[of "filter (\<lambda>x. event_signature x \<noteq> event_signature r) ys"] by simp
qed simp

lemma firsts_redelivered: "set ys \<subseteq> set xs \<Longrightarrow> firsts (xs @ ys) = firsts xs"
proof -
  assume "set ys \<subseteq> set xs"
  then have "filter (\<lambda>y. event_signature y \<notin> event_signature ` set xs) ys = []" by (auto simp: filter_empty_conv)
  then show ?thesis by (simp add: firsts_append)
qed

lemma fold_append:
  "length (firsts rs) \<le> event_buffer_limit \<Longrightarrow> fold append_to_buffer rs [] = firsts rs"
proof (induction rs rule: rev_induct)
  case (snoc r rs)
  then have "fold append_to_buffer rs [] = firsts rs" by (simp add: firsts_append)
  then show ?case using snoc.prems
    by (auto simp: firsts_append append_to_buffer_def[of r "firsts rs"] event_record_exists_iff set_firsts Let_def)
qed simp

lemma effect_buffers: "event_effect k ty p s st = Inr (s', st') \<Longrightarrow> st_run_event_buffers st' = st_run_event_buffers st"
  by (auto simp: event_effect_def request_approval_def create_artifact_def store_artifacts_def bindR_Inr_iff Let_def
      split: if_splits)

lemma entries_ensure: "entries_at (st_run_event_buffers (ensure_task_buffers k st)) k' = entries_at (st_run_event_buffers st) k'"
  by (auto simp: ensure_task_buffers_def set_default_def entries_at_def split: option.splits if_splits)

lemma entries_append: "entries_at (st_run_event_buffers (append_event_record r st)) k =
    (if k = (te_task_id r, te_run_id r) then append_to_buffer r (entries_at (st_run_event_buffers st) k)
     else entries_at (st_run_event_buffers st) k)"
  by (auto simp: append_event_record_def entries_at_def update_conv' Let_def)

lemma event_buffers:
  assumes "reduce_runtime_event p st = Inr st'"
  shows "entries_at (st_run_event_buffers st') k =
    fold append_to_buffer (records_of k [p]) (entries_at (st_run_event_buffers st) k)"
proof -
  obtain v e where v: "map_of p ''event'' = Some v" "py_dict v = Inr e"
    and body: "(case (dict_get e ''task_id'', dict_get e ''run_id'') of
       (PStr task, PStr run) \<Rightarrow> bindR (py_item e ''event_type'') (\<lambda>t. bindR (py_item e ''timestamp'') (\<lambda>timestamp.
           apply_event task run (py_str t) timestamp e st))
     | _ \<Rightarrow> Inr st) = Inr st'"
    using assms unfolding reduce_runtime_event_def bindR_Inr_iff py_item_def
    by (metis (no_types, lifting) option.case_eq_if option.collapse sum.distinct(1) sum.sel(2))
  have ev: "event_record_of p = (case (dict_get e ''task_id'', dict_get e ''run_id'') of
      (PStr task, PStr run) \<Rightarrow> Some (build_task_event_record task run (py_str (dict_get e ''timestamp''))
         (py_str (dict_get e ''event_type'')) (event_body e)
         (case dict_get_or e ''source'' (PDict []) of PDict s \<Rightarrow> s | _ \<Rightarrow> []))
    | _ \<Rightarrow> None)"
    using v by (cases v) (auto simp: event_record_of_def dict_get_def[of p] py_dict_def split: list.splits)
  show ?thesis
  proof (cases "\<exists>task run. dict_get e ''task_id'' = PStr task \<and> dict_get e ''run_id'' = PStr run")
    case False
    then have "st' = st" using body by (auto split: pyval.splits)
    moreover have "event_record_of p = None" unfolding ev using False by (auto split: pyval.splits)
    ultimately show ?thesis by (simp add: records_of_def List.map_filter_simps)
  next
    case True
    then obtain task run where k: "dict_get e ''task_id'' = PStr task" "dict_get e ''run_id'' = PStr run" by blast
    from body k obtain t at where t: "map_of e ''event_type'' = Some t" "map_of e ''timestamp'' = Some at"
        "apply_event task run (py_str t) at e st = Inr st'"
      by (auto simp: bindR_Inr_iff py_item_def split: option.splits)
    obtain s' st2 src st3 where run: "event_effect (task, run) (py_str t) (event_body e)
          (touched_snapshot task run at (event_body e) (base_snapshot task run at (event_body e)
            (map_of (st_task_snapshots (ensure_task_buffers (task, run) st)) task)))
          (ensure_task_buffers (task, run) st) = Inr (s', st2)"
        "py_dict (dict_get_or e ''source'' (PDict [])) = Inr src"
        "increment_unread_event_count task (append_event_record
          (build_task_event_record task run (py_str at) (py_str t) (event_body e) src) st2) = Inr st3"
        "replace_task True s' st3 = Inr st'"
      using t(3) by (auto simp: apply_event_def Let_def bindR_Inr_iff)
    let ?r = "build_task_event_record task run (py_str at) (py_str t) (event_body e) src"
    have "(case dict_get_or e ''source'' (PDict []) of PDict s \<Rightarrow> s | _ \<Rightarrow> []) = src"
      using run(2) by (auto simp: py_dict_def split: pyval.splits list.splits)
    then have rec: "event_record_of p = Some ?r" using ev k t(1,2) by (simp add: dict_get_def)
    have "st_run_event_buffers st' = st_run_event_buffers (append_event_record ?r st2)"
      using run(3,4) by (auto simp: replace_task_def increment_unread_event_count_def clear_unread_count_def bindR_Inr_iff
        Let_def split: if_splits)
    moreover have "st_run_event_buffers st2 = st_run_event_buffers (ensure_task_buffers (task, run) st)"
      by (rule effect_buffers[OF run(1)])
    then have "entries_at (st_run_event_buffers st2) k = entries_at (st_run_event_buffers st) k"
      by (metis entries_ensure)
    ultimately show ?thesis
      by (simp add: entries_append rec records_of_def List.map_filter_simps eq_commute[of k])
  qed
qed

lemma stream_buffers:
  "foldR reduce_runtime_event ps st = Inr st' \<Longrightarrow> entries_at (st_run_event_buffers st') k =
    fold append_to_buffer (records_of k ps) (entries_at (st_run_event_buffers st) k)"
proof (induction ps arbitrary: st)
  case (Cons p ps)
  then obtain st1 where "reduce_runtime_event p st = Inr st1" "foldR reduce_runtime_event ps st1 = Inr st'"
    by (auto simp: bindR_Inr_iff)
  with Cons.IH[of st1] event_buffers[of p st st1 k] show ?case
    by (simp add: records_of_def List.map_filter_simps split: option.splits)
qed (simp add: records_of_def List.map_filter_simps)


definition sample_message :: "string \<Rightarrow> pydict" where
  "sample_message at = [(''event'', PDict [(''task_id'', PStr ''t''), (''run_id'', PStr ''r''),
     (''event_type'', PStr ''task.started''), (''timestamp'', PStr at), (''payload'', PDict [])])]"

lemma returned: "(case r of Inl e \<Rightarrow> False | Inr x \<Rightarrow> P x) \<Longrightarrow> \<exists>x. r = Inr x \<and> P x"
  by (cases r) auto

lemma sample_stream: "case foldR reduce_runtime_event ([sample_message ''1''] @ [sample_message ''1'']) initial_app_state of
    Inl e \<Rightarrow> False | Inr st \<Rightarrow> True"
  by code_simp


lemma set_map_filter: "y \<in> set (List.map_filter f xs) \<longleftrightarrow> (\<exists>x \<in> set xs. f x = Some y)"
  by (induction xs) (auto simp: List.map_filter_simps split: option.splits)

definition pending_in :: "(task_key \<times> pydict list) list \<Rightarrow> string \<Rightarrow> bool" where
  "pending_in d i \<longleftrightarrow> (\<exists>kv \<in> set d. \<exists>a \<in> set (snd kv). pending_approval a \<and> dict_get a ''approval_id'' = PStr i)"

lemma set_pending_ids: "i \<in> set (pending_ids d) \<longleftrightarrow> pending_in d i"
proof -
  have str: "as_str v = Some i \<longleftrightarrow> v = PStr i" for v by (cases v) auto
  have "i \<in> set (pending_ids d) \<longleftrightarrow> (\<exists>a. a \<in> set (concat (map snd d)) \<and> pending_approval a \<and>
      as_str (dict_get a ''approval_id'') = Some i)"
    by (force simp: pending_ids_def newest_first_def set_map_filter simp del: set_concat)
  then show ?thesis unfolding str by (auto simp: pending_in_def)
qed

lemma keep_or_first_cases:
  "keep_or_first c ids = (if \<exists>i \<in> set ids. c = PStr i then c else if ids = [] then PNone else PStr (hd ids))"
  by (auto simp: keep_or_first_def split: list.split)

text \<open>
  After the list of approvals was loaded, the approval the client has selected is a pending one, and it is the
  one selected before when that is still pending; nothing is selected only when no pending approval has an id.
\<close>

theorem selected_approval_is_pending:
  assumes "reduce_app_state st (RpcMessage ''task.approvals.list'' payload) = Inr st'"
  shows "(st_selected_approval_id st' = PNone \<and> (\<forall>i. \<not> pending_in (st_approvals_by_task st') i)) \<or>
    (\<exists>i. st_selected_approval_id st' = PStr i \<and> pending_in (st_approvals_by_task st') i \<and>
      (\<forall>j. st_selected_approval_id st = PStr j \<and> pending_in (st_approvals_by_task st') j \<longrightarrow> i = j))"
proof -
  have "rpc_approvals payload st = Inr st'" using assms by (simp add: reduce_rpc_result_def)
  then have sel: "st_selected_approval_id st' =
      keep_or_first (st_selected_approval_id st) (pending_ids (st_approvals_by_task st'))"
    by (auto simp: rpc_approvals_def bindR_Inr_iff resolved_selected_approval_id_def split: option.splits)
  show ?thesis
    using set_pending_ids[of _ "st_approvals_by_task st'"] list.set_sel(1)[of "pending_ids (st_approvals_by_task st')"]
    unfolding sel keep_or_first_cases by (auto split: if_splits)
qed

definition sample_approval_list :: pydict where
  "sample_approval_list = [(''result'', PDict [(''approvals'', PList
     [PDict [(''task_id'', PStr ''t''), (''run_id'', PStr ''r''), (''approval_id'', PStr ''a'')]])])]"

theorem selected_approval_is_pending_witness:
  "\<exists>st'. reduce_app_state initial_app_state (RpcMessage ''task.approvals.list'' sample_approval_list) = Inr st' \<and>
     (\<exists>i. st_selected_approval_id st' = PStr i \<and> pending_in (st_approvals_by_task st') i)"
proof -
  have "case reduce_app_state initial_app_state (RpcMessage ''task.approvals.list'' sample_approval_list) of
      Inl e \<Rightarrow> False | Inr st \<Rightarrow> st_selected_approval_id st \<noteq> PNone" by code_simp
  then obtain st' where st': "reduce_app_state initial_app_state (RpcMessage ''task.approvals.list'' sample_approval_list) = Inr st'"
      "st_selected_approval_id st' \<noteq> PNone"
    using returned by blast
  with selected_approval_is_pending[OF st'(1)] show ?thesis by blast
qed

section \<open>Where the client counts wrong\<close>

text \<open>
  The first event of a task, when nothing is selected, selects its task but is counted as unread on it; the next
  event clears the count.
\<close>

lemma first_event_counts_unread:
  "case reduce_runtime_event (sample_message ''1'') initial_app_state of Inl e \<Rightarrow> False
   | Inr st \<Rightarrow> st_selected_task_id st = PStr ''t'' \<and> st_unread_event_counts st = [(''t'', PInt 1)]"
  by code_simp

end
