(* ===== verification/Log_Stream.thy ===== *)
theory Log_Stream
  imports Event_Bus
begin

text \<open>
  \<open>_serve_logs_stream\<close> of \<open>runtime_server.py\<close>: how the events of a run reach the client of \<open>task.logs.stream\<close>.
  The stream first sends the history it was given, then subscribes to the event bus, sends what the bus holds
  beyond the history, and then what arrives in its queue, skipping the events it has sent, until a terminal
  event or the end of the session. Runs keep publishing while it does: the system is a step relation between
  the bus and the stream, whose steps interleave freely.
\<close>

section \<open>The stream\<close>

definition is_terminal_event :: "runtime_event \<Rightarrow> bool" where
  "is_terminal_event e = (ev_type (re_event e) = ''task.completed'' \<or> ev_type (re_event e) = ''task.failed'')"

abbreviation event_id :: "runtime_event \<Rightarrow> string" where
  "event_id e \<equiv> ev_id (re_event e)"

text \<open>
  \<open>Listing\<close> is the moment between subscribing and reading the bus, \<open>Catching\<close> the loop over the events read,
  \<open>Live\<close> the loop over the queue. The queue keeps what was put on it; \<open>sm_taken\<close> counts the items taken.
\<close>

datatype stream_phase = Listing "string option" | Catching "runtime_event list" | Live | Closed

record log_stream =
  sm_key :: run_key
  sm_phase :: stream_phase
  sm_seen :: "string list"
  sm_queue :: nat
  sm_taken :: nat
  sm_sent :: "runtime_event list"

definition open_stream :: "run_key \<Rightarrow> runtime_event list \<Rightarrow> event_bus \<Rightarrow> event_bus \<times> log_stream" where
  "open_stream k history b =
     (if history \<noteq> [] \<and> is_terminal_event (last history)
      then (b, \<lparr>sm_key = k, sm_phase = Closed, sm_seen = [], sm_queue = 0, sm_taken = 0, sm_sent = history\<rparr>)
      else (case bus_subscribe (fst k) (snd k) b of (q, b') \<Rightarrow>
        (b', \<lparr>sm_key = k, sm_phase = Listing (if history = [] then None else Some (event_id (last history))),
              sm_seen = map event_id history, sm_queue = q, sm_taken = 0, sm_sent = history\<rparr>)))"

text \<open>The body both loops share: skip a known event, send a new one, and return behind a terminal one.\<close>

definition send_event :: "runtime_event \<Rightarrow> stream_phase \<Rightarrow> log_stream \<Rightarrow> log_stream" where
  "send_event e continue s =
     (if event_id e \<in> set (sm_seen s) then s\<lparr>sm_phase := continue\<rparr>
      else s\<lparr>sm_seen := event_id e # sm_seen s, sm_sent := sm_sent s @ [e],
             sm_phase := if is_terminal_event e then Closed else continue\<rparr>)"

definition advance :: "bool \<Rightarrow> event_bus \<Rightarrow> log_stream \<Rightarrow> log_stream" where
  "advance session_closed b s = (case sm_phase s of
     Listing from_id \<Rightarrow> s\<lparr>sm_phase := Catching (bus_list_events b (fst (sm_key s)) (Some (snd (sm_key s))) from_id)\<rparr>
   | Catching [] \<Rightarrow> s\<lparr>sm_phase := Live\<rparr>
   | Catching (e # es) \<Rightarrow> send_event e (Catching es) s
   | Live \<Rightarrow> if session_closed then s\<lparr>sm_phase := Closed\<rparr>
       else (let queue = dict_list (eb_queues b) (sm_queue s) in
         if sm_taken s < length queue
         then send_event (queue ! sm_taken s) Live (s\<lparr>sm_taken := Suc (sm_taken s)\<rparr>) else s)
   | Closed \<Rightarrow> s)"

text \<open>Leaving the \<open>with\<close> block unsubscribes.\<close>

definition serve_stream :: "bool \<Rightarrow> event_bus \<times> log_stream \<Rightarrow> event_bus \<times> log_stream" where
  "serve_stream session_closed = (\<lambda>(b, s). let s' = advance session_closed b s in
     (if sm_phase s \<noteq> Closed \<and> sm_phase s' = Closed
      then bus_unsubscribe (fst (sm_key s)) (snd (sm_key s)) (sm_queue s) b else b, s'))"

section \<open>Runs publish while a stream is served\<close>

inductive stream_step :: "event_bus \<times> log_stream \<Rightarrow> event_bus \<times> log_stream \<Rightarrow> bool" where
  serve: "stream_step c (serve_stream closed c)"
| publish: "bus_publish (mk_runtime_event e) b = Inr b' \<Longrightarrow> stream_step (b, s) (b', s)"

inductive stream_runs :: "event_bus \<times> log_stream \<Rightarrow> event_bus \<times> log_stream \<Rightarrow> bool" where
  refl: "stream_runs c c"
| step: "stream_runs c c' \<Longrightarrow> stream_step c' c'' \<Longrightarrow> stream_runs c c''"

inductive_cases stream_stepE: "stream_step c c'"

definition log_ids :: "event_bus \<Rightarrow> run_key \<Rightarrow> string list" where
  "log_ids b k = map event_id (bus_log b k)"

definition sent_ids :: "log_stream \<Rightarrow> string list" where
  "sent_ids s = map event_id (sm_sent s)"

text \<open>
  While a stream is open it is subscribed, its queue holds the log from some point \<open>m\<close> on, and what it has sent
  is a prefix of the log that, together with what it still reads, reaches at least to that point.
\<close>

definition reaches :: "event_bus \<Rightarrow> log_stream \<Rightarrow> nat \<Rightarrow> bool" where
  "reaches b s m = (let n = length (sm_sent s); ids = log_ids b (sm_key s) in case sm_phase s of
     Listing from_id \<Rightarrow> from_id = (if n = 0 then None else Some (last (sent_ids s))) \<and> sm_taken s = 0
   | Catching es \<Rightarrow> prefix (sent_ids s @ map event_id es) ids \<and> m \<le> n + length es \<and> sm_taken s = 0
   | Live \<Rightarrow> m + sm_taken s \<le> n \<and> m \<le> n
   | Closed \<Rightarrow> True)"

definition stream_ok :: "event_bus \<times> log_stream \<Rightarrow> bool" where
  "stream_ok = (\<lambda>(b, s). bus_ok b \<and> prefix (sent_ids s) (log_ids b (sm_key s)) \<and>
     (sm_phase s \<noteq> Closed \<longrightarrow> set (sm_seen s) = set (sent_ids s) \<and>
        sm_queue s \<in> set (dict_list (eb_subscribers b) (sm_key s)) \<and>
        (\<exists>m. m \<le> length (bus_log b (sm_key s)) \<and>
             dict_list (eb_queues b) (sm_queue s) = drop m (bus_log b (sm_key s)) \<and> reaches b s m)))"

lemma bus_log_publish:
  "bus_publish (mk_runtime_event e) b = Inr b' \<Longrightarrow>
   bus_log b' k = bus_log b k @ (if event_key e = Some k then [mk_runtime_event e] else [])"
  by (auto simp: bus_publish_def mk_runtime_event_def bus_log_eq split: option.splits)

lemma bus_log_unsubscribe [simp]: "bus_log (bus_unsubscribe t r q b) k = bus_log b k"
  by (simp add: bus_log_eq bus_unsubscribe_def Let_def split: option.splits)

lemma stream_ok_publish:
  assumes ok: "stream_ok (b, s)" and pub: "bus_publish (mk_runtime_event e) b = Inr b'"
  shows "stream_ok (b', s)"
proof -
  let ?k = "sm_key s" and ?q = "sm_queue s"
  let ?new = "if event_key e = Some ?k then [mk_runtime_event e] else []"
  have bus: "bus_ok b" "bus_ok b'" using ok bus_ok_publish[OF _ pub] by (auto simp: stream_ok_def)
  have log: "bus_log b' ?k = bus_log b ?k @ ?new" using bus_log_publish[OF pub] .
  have subs: "eb_subscribers b' = eb_subscribers b" using bus_publish_same[OF pub] .
  obtain k1 where k1: "event_key e = Some k1"
    using pub by (auto simp: bus_publish_def mk_runtime_event_def split: option.splits)
  have queue: "dict_list (eb_queues b') ?q = dict_list (eb_queues b) ?q @ ?new"
    if "?q \<in> set (dict_list (eb_subscribers b) ?k)"
  proof -
    have "?q \<in> set (dict_list (eb_subscribers b) k1) \<longleftrightarrow> k1 = ?k"
      using bus(1) that unfolding bus_ok_def by blast
    then show ?thesis using publish_queues[OF bus(1) pub, of k1 ?q] k1 by (auto simp: mk_runtime_event_def)
  qed
  have grow: "prefix xs (log_ids b ?k) \<Longrightarrow> prefix xs (log_ids b' ?k)" for xs
    by (simp add: log_ids_def log)
  have "reaches b s m \<Longrightarrow> reaches b' s m" for m
    by (auto simp: reaches_def Let_def grow split: stream_phase.splits)
  moreover have "drop m (bus_log b ?k) @ ?new = drop m (bus_log b' ?k)" if "m \<le> length (bus_log b ?k)" for m
    using that by (simp add: log)
  ultimately have later: "m \<le> length (bus_log b' ?k) \<and> dict_list (eb_queues b') ?q = drop m (bus_log b' ?k) \<and> reaches b' s m"
    if "?q \<in> set (dict_list (eb_subscribers b) ?k)" "m \<le> length (bus_log b ?k)"
       "dict_list (eb_queues b) ?q = drop m (bus_log b ?k)" "reaches b s m" for m
    using that queue by (simp add: log)
  have "\<exists>m. m \<le> length (bus_log b' ?k) \<and> dict_list (eb_queues b') ?q = drop m (bus_log b' ?k) \<and> reaches b' s m"
    if "sm_phase s \<noteq> Closed"
    using ok that later unfolding stream_ok_def by blast
  then show ?thesis using ok bus grow by (auto simp: stream_ok_def subs)
qed

text \<open>Sending the event at position \<open>i\<close> of the log when everything before it is sent.\<close>

lemma send_event_prefix:
  assumes pre: "prefix (sent_ids s) ids" and seen: "set (sm_seen s) = set (sent_ids s)"
    and i: "i < length ids" "ids ! i = event_id e" "i \<le> length (sm_sent s)" and dist: "distinct ids"
  shows "prefix (sent_ids (send_event e ph s)) ids \<and> i < length (sm_sent (send_event e ph s)) \<and>
    length (sm_sent s) \<le> length (sm_sent (send_event e ph s)) \<and>
    set (sm_seen (send_event e ph s)) = set (sent_ids (send_event e ph s))"
proof -
  have take: "sent_ids s = take (length (sm_sent s)) ids"
    using pre by (metis prefix_def append_eq_conv_conj length_map sent_ids_def)
  have known: "event_id e \<in> set (sent_ids s) \<longleftrightarrow> i < length (sm_sent s)"
  proof
    assume "event_id e \<in> set (sent_ids s)"
    then obtain j where "j < length (sm_sent s)" "j < length ids" "ids ! j = ids ! i"
      using take i(2) by (metis in_set_conv_nth length_take min_less_iff_conj nth_take)
    then show "i < length (sm_sent s)" using dist i(1) nth_eq_iff_index_eq by blast
  next
    assume "i < length (sm_sent s)"
    then show "event_id e \<in> set (sent_ids s)"
      using take i(1,2) by (metis in_set_conv_nth length_take min_less_iff_conj nth_take)
  qed
  show ?thesis
  proof (cases "i < length (sm_sent s)")
    case True
    then show ?thesis using known pre seen by (simp add: send_event_def sent_ids_def)
  next
    case False
    then have "i = length (sm_sent s)" using i(3) by simp
    then have "sent_ids s @ [event_id e] = take (Suc i) ids"
      using take i(1,2) by (simp add: take_Suc_conv_app_nth)
    then have "prefix (sent_ids s @ [event_id e]) ids" by (simp only: take_is_prefix)
    moreover have "event_id e \<notin> set (sm_seen s)" using False known seen by simp
    ultimately show ?thesis using seen \<open>i = length (sm_sent s)\<close> by (simp add: send_event_def sent_ids_def)
  qed
qed

lemma send_event_simps [simp]:
  "sm_key (send_event e ph s) = sm_key s" "sm_queue (send_event e ph s) = sm_queue s"
  "sm_taken (send_event e ph s) = sm_taken s"
  "sm_phase (send_event e ph s) = ph \<or> sm_phase (send_event e ph s) = Closed"
  by (simp_all add: send_event_def)

lemma after_event_nth:
  "distinct (map event_id es) \<Longrightarrow> i < length es \<Longrightarrow> event_id (es ! i) = x \<Longrightarrow> after_event x es = drop (Suc i) es"
proof (induction es arbitrary: i)
  case (Cons e es)
  show ?case
  proof (cases i)
    case (Suc j)
    then have "event_id e \<noteq> x" using Cons.prems by (metis distinct.simps(2) in_set_conv_nth length_Cons length_map
        list.simps(9) not_less_eq nth_Cons_Suc nth_map)
    then show ?thesis using Cons Suc by simp
  qed (use Cons.prems in simp)
qed simp

text \<open>What \<open>list_events\<close> returns behind the last event sent is the rest of the log.\<close>

lemma list_events_rest:
  assumes pre: "prefix (sent_ids s) (log_ids b (sm_key s))" and dist: "distinct (log_ids b (sm_key s))"
  shows "bus_list_events b (fst (sm_key s)) (Some (snd (sm_key s)))
     (if length (sm_sent s) = 0 then None else Some (last (sent_ids s))) = drop (length (sm_sent s)) (bus_log b (sm_key s))"
proof (cases "length (sm_sent s)")
  case 0
  then show ?thesis by (simp add: bus_log_def)
next
  case (Suc n)
  let ?log = "bus_log b (sm_key s)"
  have len: "n < length ?log" using pre Suc prefix_length_le[OF pre] by (simp add: sent_ids_def log_ids_def)
  have "sent_ids s = take (Suc n) (log_ids b (sm_key s))"
    using pre Suc by (metis prefix_def append_eq_conv_conj length_map sent_ids_def)
  then have "last (sent_ids s) = event_id (?log ! n)"
    using len by (simp add: log_ids_def take_Suc_conv_app_nth)
  then have "after_event (last (sent_ids s)) ?log = drop (Suc n) ?log"
    using after_event_nth[of ?log n] dist len by (simp add: log_ids_def)
  then show ?thesis using Suc by (simp add: bus_list_events_def bus_log_def)
qed

lemma stream_ok_advance:
  assumes ok: "stream_ok (b, s)" and dist: "distinct (log_ids b (sm_key s))" and open_: "sm_phase s \<noteq> Closed"
    and s'_def: "s' = advance session b s"
  shows "sm_key s' = sm_key s \<and> sm_queue s' = sm_queue s \<and> prefix (sent_ids s') (log_ids b (sm_key s)) \<and>
    (sm_phase s' \<noteq> Closed \<longrightarrow> set (sm_seen s') = set (sent_ids s') \<and>
      (\<exists>m. m \<le> length (bus_log b (sm_key s)) \<and>
           dict_list (eb_queues b) (sm_queue s) = drop m (bus_log b (sm_key s)) \<and> reaches b s' m))"
proof -
  let ?ids = "log_ids b (sm_key s)" and ?log = "bus_log b (sm_key s)"
  have pre: "prefix (sent_ids s) ?ids" and seen: "set (sm_seen s) = set (sent_ids s)"
    using ok open_ by (auto simp: stream_ok_def)
  obtain m where m: "m \<le> length ?log" "dict_list (eb_queues b) (sm_queue s) = drop m ?log" "reaches b s m"
    using ok open_ unfolding stream_ok_def by blast
  have len: "length (sm_sent s) \<le> length ?log"
    using prefix_length_le[OF pre] by (simp add: sent_ids_def log_ids_def)
  have pre_append: "sent_ids s @ map event_id (drop (length (sm_sent s)) ?log) = ?ids"
    using pre len by (metis append_eq_conv_conj drop_map length_map log_ids_def prefix_def sent_ids_def)
  show ?thesis
  proof (cases "sm_phase s")
    case (Listing from_id)
    then have "s' = s\<lparr>sm_phase := Catching (drop (length (sm_sent s)) ?log)\<rparr>"
      using m(3) list_events_rest[OF pre dist] by (simp add: s'_def advance_def reaches_def Let_def)
    moreover have "reaches b s' m"
      using m Listing len pre_append by (simp add: calculation reaches_def Let_def sent_ids_def log_ids_def)
    ultimately show ?thesis using pre seen m by (auto simp: sent_ids_def)
  next
    case (Catching es)
    show ?thesis
    proof (cases es)
      case Nil
      then have "s' = s\<lparr>sm_phase := Live\<rparr>" using Catching by (simp add: s'_def advance_def)
      moreover have "reaches b s' m"
        using m Catching Nil by (simp add: calculation reaches_def Let_def)
      ultimately show ?thesis using pre seen m by (auto simp: sent_ids_def)
    next
      case (Cons e es')
      have reach: "prefix (sent_ids s @ map event_id es) ?ids" "m \<le> length (sm_sent s) + length es" "sm_taken s = 0"
        using m(3) Catching by (auto simp: reaches_def Let_def)
      then obtain zs where zs: "?ids = sent_ids s @ event_id e # map event_id es' @ zs"
        using Cons by (auto simp: prefix_def)
      have new: "event_id e \<notin> set (sm_seen s)" using dist zs seen by auto
      have s': "s' = send_event e (Catching es') s" using Catching Cons by (simp add: s'_def advance_def)
      then have sent: "sm_sent s' = sm_sent s @ [e]" using new by (simp add: send_event_def)
      then have "sent_ids s' = sent_ids s @ [event_id e]" by (simp add: sent_ids_def)
      moreover have "reaches b s' m" if "sm_phase s' \<noteq> Closed"
        using that reach Cons zs calculation sent s' new
        by (auto simp: reaches_def Let_def send_event_def split: if_splits)
      ultimately show ?thesis using s' new seen zs m by (auto simp: send_event_def)
    qed
  next
    case Live
    let ?q = "dict_list (eb_queues b) (sm_queue s)"
    have reach: "m + sm_taken s \<le> length (sm_sent s)" "m \<le> length (sm_sent s)"
      using m(3) Live by (auto simp: reaches_def Let_def)
    show ?thesis
    proof (cases "session \<or> \<not> sm_taken s < length ?q")
      case True
      then show ?thesis using Live pre seen m by (auto simp: s'_def advance_def sent_ids_def)
    next
      case False
      let ?i = "m + sm_taken s" and ?t = "s\<lparr>sm_taken := Suc (sm_taken s)\<rparr>"
      have i: "?i < length ?log" "?q ! sm_taken s = ?log ! ?i" using False m by (auto simp: add.commute)
      have s': "s' = send_event (?log ! ?i) Live ?t"
        using Live False i(2) by (simp add: s'_def advance_def Let_def)
      have "prefix (sent_ids s') ?ids \<and> ?i < length (sm_sent s') \<and> set (sm_seen s') = set (sent_ids s')"
        using send_event_prefix[of ?t ?ids ?i "?log ! ?i" Live] pre seen i reach dist
        by (simp add: s' sent_ids_def log_ids_def)
      moreover from this have "reaches b s' m" if "sm_phase s' \<noteq> Closed"
        using that s' by (auto simp: reaches_def Let_def send_event_def split: if_splits)
      ultimately show ?thesis using m s' by auto
    qed
  qed (use open_ in simp)
qed

lemma log_ids_unsubscribe [simp]: "log_ids (bus_unsubscribe t r q b) k = log_ids b k"
  by (simp add: log_ids_def)

lemma stream_ok_serve:
  assumes ok: "stream_ok (b, s)" and dist: "distinct (log_ids b (sm_key s))"
    and serve: "serve_stream session (b, s) = (b', s')"
  shows "stream_ok (b', s') \<and> sm_key s' = sm_key s \<and> log_ids b' = log_ids b"
proof (cases "sm_phase s = Closed")
  case True
  then have "b' = b" "s' = s" using serve by (auto simp: serve_stream_def advance_def Let_def)
  then show ?thesis using ok by simp
next
  case False
  have s': "s' = advance session b s" using serve by (auto simp: serve_stream_def Let_def)
  note adv = stream_ok_advance[OF ok dist False s']
  show ?thesis
  proof (cases "sm_phase s' = Closed")
    case True
    then have "b' = bus_unsubscribe (fst (sm_key s)) (snd (sm_key s)) (sm_queue s) b"
      using serve False s' by (simp add: serve_stream_def Let_def)
    then show ?thesis using adv True ok by (auto simp: stream_ok_def bus_ok_unsubscribe)
  next
    case False
    then have "b' = b" using serve s' by (simp add: serve_stream_def Let_def)
    then show ?thesis using adv ok False \<open>sm_phase s \<noteq> Closed\<close> by (auto simp: stream_ok_def)
  qed
qed

lemma stream_step_ok:
  assumes "stream_step (b, s) (b', s')"
  shows "sm_key s' = sm_key s" and "prefix (log_ids b k) (log_ids b' k)"
    and "stream_ok (b, s) \<Longrightarrow> distinct (log_ids b' (sm_key s')) \<Longrightarrow> stream_ok (b', s')"
proof -
  have key: "sm_key (advance session c t) = sm_key t" for session c t
    by (simp add: advance_def Let_def split: stream_phase.splits list.splits)
  have "sm_key s' = sm_key s \<and> prefix (log_ids b k) (log_ids b' k) \<and>
     (stream_ok (b, s) \<longrightarrow> distinct (log_ids b' (sm_key s')) \<longrightarrow> stream_ok (b', s'))"
    using assms
  proof (cases rule: stream_step.cases)
    case (serve closed)
    have "sm_key s' = sm_key s" "log_ids b' = log_ids b"
      using serve by (auto simp: serve_stream_def Let_def key fun_eq_iff split: if_splits)
    then show ?thesis using stream_ok_serve[of b s closed b' s'] serve by auto
  next
    case (publish e)
    then show ?thesis
      using stream_ok_publish[of b s' e b'] bus_log_publish[of e b b'] by (auto simp: log_ids_def)
  qed
  then show "sm_key s' = sm_key s" and "prefix (log_ids b k) (log_ids b' k)"
    and "stream_ok (b, s) \<Longrightarrow> distinct (log_ids b' (sm_key s')) \<Longrightarrow> stream_ok (b', s')" by blast+
qed

lemma stream_runs_ok:
  assumes "stream_runs c c'" and "stream_ok c" and "distinct (log_ids (fst c') (sm_key (snd c')))"
  shows "stream_ok c' \<and> sm_key (snd c') = sm_key (snd c)"
  using assms
proof (induction rule: stream_runs.induct)
  case (step c c' c'')
  obtain b s b' s' where c: "c' = (b, s)" "c'' = (b', s')" by (cases c', cases c'') auto
  note one = stream_step_ok[OF step.hyps(2)[unfolded c]]
  have "distinct (log_ids b (sm_key s))"
    using step.prems one(1) one(2)[of "sm_key s"] by (auto simp: c prefix_def)
  then have "stream_ok (b, s) \<and> sm_key s = sm_key (snd c)" using step.IH step.prems by (simp add: c)
  then show ?case using one(1,3) step.prems by (simp add: c)
qed simp

lemma stream_ok_open:
  assumes open_: "open_stream k history b = (b', s)" and ok: "bus_ok b"
    and pre: "prefix (map event_id history) (log_ids b k)"
  shows "stream_ok (b', s) \<and> sm_key s = k \<and> sent_ids s = map event_id history"
proof (cases "history \<noteq> [] \<and> is_terminal_event (last history)")
  case True
  then show ?thesis using assms by (auto simp: open_stream_def stream_ok_def sent_ids_def)
next
  case False
  obtain q b1 where sub: "bus_subscribe (fst k) (snd k) b = (q, b1)" by force
  have b1: "bus_ok b1" "b' = b1" using bus_ok_subscribe[OF ok sub] open_ False sub by (auto simp: open_stream_def)
  have new: "q \<in> set (dict_list (eb_subscribers b1) k)" "dict_list (eb_queues b1) q = []" "bus_log b1 = bus_log b"
    using sub by (auto simp: bus_subscribe_def Let_def bus_log_eq fun_eq_iff)
  have s: "s = \<lparr>sm_key = k, sm_phase = Listing (if history = [] then None else Some (event_id (last history))),
      sm_seen = map event_id history, sm_queue = q, sm_taken = 0, sm_sent = history\<rparr>"
    using open_ False sub by (auto simp: open_stream_def)
  have "reaches b1 s (length (bus_log b k))" by (simp add: reaches_def s sent_ids_def last_map)
  then show ?thesis
    using b1 new pre by (auto simp: stream_ok_def s sent_ids_def log_ids_def)
qed

section \<open>An open stream catches up\<close>

definition backlog :: "event_bus \<Rightarrow> log_stream \<Rightarrow> nat" where
  "backlog b s = (let queued = length (dict_list (eb_queues b) (sm_queue s)) in case sm_phase s of
     Listing from_id \<Rightarrow> Suc (Suc (length (bus_log b (sm_key s)) + queued))
   | Catching es \<Rightarrow> Suc (length es + queued)
   | Live \<Rightarrow> queued - sm_taken s
   | Closed \<Rightarrow> 0)"

lemma send_event_closes:
  "ph \<noteq> Closed \<Longrightarrow> sm_phase (send_event e ph s) = Closed \<Longrightarrow>
   sm_sent (send_event e ph s) \<noteq> [] \<and> is_terminal_event (last (sm_sent (send_event e ph s)))"
  by (auto simp: send_event_def split: if_splits)

lemma advance_closes:
  "sm_phase s \<noteq> Closed \<Longrightarrow> sm_phase (advance False b s) = Closed \<Longrightarrow>
   sm_sent (advance False b s) \<noteq> [] \<and> is_terminal_event (last (sm_sent (advance False b s)))"
  by (auto simp: advance_def Let_def send_event_closes split: stream_phase.splits list.splits if_splits)

lemma advance_less:
  assumes ok: "stream_ok (b, s)" and dist: "distinct (log_ids b (sm_key s))" and open_: "sm_phase s \<noteq> Closed"
    and more: "0 < backlog b s" and still: "sm_phase (advance False b s) \<noteq> Closed"
  shows "backlog b (advance False b s) < backlog b s"
proof (cases "sm_phase s")
  case (Listing from_id)
  have "from_id = (if length (sm_sent s) = 0 then None else Some (last (sent_ids s)))"
    using ok Listing by (auto simp: stream_ok_def reaches_def Let_def)
  then have "bus_list_events b (fst (sm_key s)) (Some (snd (sm_key s))) from_id = drop (length (sm_sent s)) (bus_log b (sm_key s))"
    using list_events_rest[OF _ dist] ok by (auto simp: stream_ok_def)
  then show ?thesis using Listing by (simp add: advance_def backlog_def Let_def)
next
  case (Catching es)
  have "sm_taken s = 0" using ok Catching by (auto simp: stream_ok_def reaches_def Let_def)
  then show ?thesis
    using Catching still by (cases es) (auto simp: advance_def backlog_def Let_def send_event_def)
next
  case Live
  then show ?thesis
    using more by (auto simp: advance_def backlog_def Let_def send_event_def)
qed (use open_ in simp)

lemma no_backlog:
  assumes ok: "stream_ok (b, s)" and "sm_phase s \<noteq> Closed" and "backlog b s = 0"
  shows "sent_ids s = log_ids b (sm_key s)"
proof -
  obtain m where m: "m \<le> length (bus_log b (sm_key s))"
      "dict_list (eb_queues b) (sm_queue s) = drop m (bus_log b (sm_key s))" "reaches b s m"
    using ok assms(2) unfolding stream_ok_def by blast
  have pre: "prefix (sent_ids s) (log_ids b (sm_key s))" using ok by (simp add: stream_ok_def)
  have "sm_phase s = Live" using assms(2,3) by (cases "sm_phase s") (auto simp: backlog_def Let_def)
  then have "length (log_ids b (sm_key s)) \<le> length (sent_ids s)"
    using m assms(3) by (auto simp: backlog_def reaches_def Let_def sent_ids_def log_ids_def)
  then show ?thesis using pre by (auto simp: prefix_def)
qed

lemma serve_until_done:
  "stream_ok (b, s) \<Longrightarrow> distinct (log_ids b (sm_key s)) \<Longrightarrow> sm_phase s \<noteq> Closed \<Longrightarrow>
   \<exists>n s'. snd ((serve_stream False ^^ n) (b, s)) = s' \<and>
     (sent_ids s' = log_ids b (sm_key s) \<or>
      (sm_phase s' = Closed \<and> sm_sent s' \<noteq> [] \<and> is_terminal_event (last (sm_sent s'))))"
proof (induction "backlog b s" arbitrary: s rule: less_induct)
  case less
  show ?case
  proof (cases "backlog b s")
    case 0
    then show ?thesis using no_backlog less.prems by (intro exI[of _ 0]) auto
  next
    case (Suc r)
    let ?s = "advance False b s"
    obtain b' where serve: "serve_stream False (b, s) = (b', ?s)" by (simp add: serve_stream_def Let_def)
    show ?thesis
    proof (cases "sm_phase ?s = Closed")
      case True
      then show ?thesis
        using serve advance_closes[OF less.prems(3) True] by (intro exI[of _ 1]) auto
    next
      case False
      then have b': "b' = b" using serve by (simp add: serve_stream_def Let_def split: if_splits)
      have ok: "stream_ok (b, ?s)" "sm_key ?s = sm_key s"
        using stream_ok_serve[OF less.prems(1,2) serve] b' by auto
      have "backlog b ?s < backlog b s"
        using advance_less[OF less.prems _ False] Suc by simp
      from less.hyps[OF this ok(1) _ False] obtain n s' where n:
          "snd ((serve_stream False ^^ n) (b, ?s)) = s'"
          "sent_ids s' = log_ids b (sm_key s) \<or> sm_phase s' = Closed \<and> sm_sent s' \<noteq> [] \<and> is_terminal_event (last (sm_sent s'))"
        using less.prems(2) ok(2) by auto
      then show ?thesis
        using serve b' by (intro exI[of _ "Suc n"]) (auto simp: funpow_Suc_right simp del: funpow.simps)
    qed
  qed
qed

lemma stream_reached:
  assumes "open_stream k history b = c0" and "bus_ok b" and "prefix (map event_id history) (log_ids b k)"
    and "stream_runs c0 (b1, s1)" and "distinct (log_ids b1 k)"
  shows "stream_ok (b1, s1) \<and> sm_key s1 = k"
proof -
  obtain b0 s0 where c0: "c0 = (b0, s0)" by force
  have start: "stream_ok (b0, s0)" "sm_key s0 = k" using stream_ok_open[of k history b b0 s0] assms by (auto simp: c0)
  have "sm_key (snd c') = sm_key (snd c)" if "stream_runs c c'" for c c'
    using that
  proof (induction rule: stream_runs.induct)
    case (step c c' c'')
    then show ?case using stream_step_ok(1) by (metis prod.collapse)
  qed simp
  then have "sm_key s1 = k" using assms(4) start(2) by (fastforce simp: c0)
  then show ?thesis using stream_runs_ok[OF assms(4)] start assms(5) by (simp add: c0)
qed

text \<open>
  A stream that was given no history starts with the first event of the bus, whatever \<open>from_event_id\<close> the client
  named: only \<open>include_history\<close> makes the position count.
\<close>

lemma no_history_replays_the_bus:
  "open_stream k [] b = (b', s) \<Longrightarrow> sm_phase (advance closed b' s) = Catching (bus_log b k)"
  by (auto simp: open_stream_def advance_def bus_subscribe_def Let_def bus_list_events_def bus_matching_def bus_log_eq)

text \<open>
  A history whose last event the bus does not hold (the bus is in memory, the history is not) leaves nothing to catch
  up with: what was published between reading it and subscribing is not sent.
\<close>

lemma unknown_history_is_not_caught_up:
  assumes "sm_phase s = Listing (Some i)" and "i \<notin> set (log_ids b (sm_key s))"
  shows "sm_phase (advance closed b s) = Catching []"
proof -
  have "after_event i es = []" if "i \<notin> event_id ` set es" for es using that by (induction es) auto
  then show ?thesis using assms by (simp add: advance_def bus_list_events_def bus_matching_def log_ids_def bus_log_eq)
qed

lemma run_log_ids: "map event_id (bus_list_events b t (Some r) None) = log_ids b (t, r)"
  by (simp add: log_ids_def bus_log_def)

section \<open>Properties\<close>


text \<open>A run whose first event is published between subscribing and reading the bus, and one more while the stream is live.\<close>

definition sample_bus :: event_bus where
  "sample_bus = (case publish_all [sample_event ''1'' ''r'', sample_event ''2'' ''s''] empty_bus of Inr b \<Rightarrow> b)"

definition sample_stream :: "event_bus \<times> log_stream" where
  "sample_stream = open_stream (''t'', ''r'') [] sample_bus"

definition sample_published :: event_bus where
  "sample_published = (case bus_publish (mk_runtime_event (sample_event ''3'' ''r'')) (fst sample_stream) of Inr b \<Rightarrow> b)"

lemma sample_bus_ok: "bus_ok sample_bus"
  using bus_ok_publish by (simp add: sample_bus_def sample_event_def bus_publish_def mk_runtime_event_def event_key_def
      empty_bus_def dict_list_def bus_ok_def)

lemma sample_runs: "stream_runs sample_stream ((serve_stream False ^^ n) (sample_published, snd sample_stream))"
proof (induction n)
  case 0
  have "bus_publish (mk_runtime_event (sample_event ''3'' ''r'')) (fst sample_stream) = Inr sample_published"
    by (simp add: sample_published_def bus_publish_def mk_runtime_event_def sample_event_def event_key_def)
  then have "stream_step sample_stream (sample_published, snd sample_stream)"
    using stream_step.publish by (metis prod.collapse)
  then show ?case using stream_runs.step[OF stream_runs.refl] by simp
next
  case (Suc n)
  then show ?case using stream_runs.step[OF Suc stream_step.serve] by simp
qed




end
