(* ===== verification/Config_Models.thy ===== *)
theory Config_Models
  imports Sandbox
begin

text \<open>
  \<open>packages/config/local_agent_config/models.py\<close>: the configuration of the runtime. A float of the configuration is
  kept as Python's \<open>repr\<close> of it (\<^const>\<open>PFloat\<close>).
\<close>

record mcp_authorization =
  ma_mode :: string
  ma_provider :: "string option"

definition default_mcp_authorization :: mcp_authorization where
  "default_mcp_authorization = \<lparr>ma_mode = ''static_headers'', ma_provider = None\<rparr>"

record oauth_provider =
  op_provider_id :: string
  op_authorization_url :: "string option"
  op_token_url :: "string option"
  op_discovery_url :: "string option"
  op_client_id :: string
  op_client_secret :: string
  op_redirect_uri :: string
  op_scopes :: "string list"
  op_audience :: "string option"
  op_resource :: "string option"

type_synonym str_map = "(string \<times> string) list"

record mcp_server =
  sv_name :: string
  sv_transport :: string
  sv_enabled :: bool
  sv_description :: "string option"
  sv_command :: "string option"
  sv_args :: "string list"
  sv_env :: str_map
  sv_env_from_host :: "string list"
  sv_url :: "string option"
  sv_headers :: str_map
  sv_auth :: mcp_authorization
  sv_source :: string
  sv_source_path :: "string option"

record mcp_config =
  mc_tool_name_prefix :: bool
  mc_servers :: "(string \<times> mcp_server) list"
  mc_oauth_providers :: "(string \<times> oauth_provider) list"

record model_config =
  mo_provider :: string
  mo_model :: string

record compaction_size =
  cz_kind :: string
  cz_value :: pyval

record compaction_config =
  co_enabled :: bool
  co_strategy :: string
  co_automatic :: bool
  co_explicit_client :: bool
  co_explicit_agent_tool :: bool
  co_trigger :: compaction_size
  co_keep :: compaction_size
  co_fallback_trigger :: compaction_size
  co_tool_token_limit :: pyval

definition default_compaction :: compaction_config where
  "default_compaction = \<lparr>co_enabled = True, co_strategy = ''deepagents_native'', co_automatic = True,
     co_explicit_client = True, co_explicit_agent_tool = True,
     co_trigger = \<lparr>cz_kind = ''fraction'', cz_value = PFloat ''0.85''\<rparr>,
     co_keep = \<lparr>cz_kind = ''fraction'', cz_value = PFloat ''0.1''\<rparr>,
     co_fallback_trigger = \<lparr>cz_kind = ''tokens'', cz_value = PInt 170000\<rparr>, co_tool_token_limit = PInt 20000\<rparr>"

record persistence_config =
  ps_root_path :: string
  ps_metadata_backend :: string
  ps_event_backend :: string
  ps_diagnostic_backend :: string

record cli_config =
  cl_default_workspace_root :: "string option"
  cl_virtual_workspace_root :: string

record runtime_config =
  rc_name :: string
  rc_log_level :: string
  rc_identity_path :: string
  rc_transport_mode :: string
  rc_primary_model :: model_config
  rc_default_model :: "model_config option"
  rc_persistence :: persistence_config
  rc_cli :: cli_config
  rc_subagent_models :: "(string \<times> model_config) list"
  rc_policy :: pydict
  rc_mcp :: mcp_config
  rc_compaction :: compaction_config

end
