(* ===== verification/Config_Loader.thy ===== *)
theory Config_Loader
  imports Config_Models Command_Text
begin

text \<open>
  \<open>packages/config/local_agent_config/loader.py\<close>: reading the runtime configuration. The host is a parameter
  (\<open>config_env\<close>): its environment variables, which files exist and what they contain, the TOML reader of the
  standard library, \<open>expanduser\<close> and \<open>Path.resolve\<close>. JSON is read by \<^const>\<open>json_loads\<close>. Keys of TOML and
  JSON objects are strings, so the checks \<open>isinstance(name, str)\<close> on keys always succeed. The path of the
  configuration file is an absolute host path.
\<close>

record config_env =
  ce_environ :: "string \<Rightarrow> string option"
  ce_is_file :: "host_path \<Rightarrow> bool"
  ce_exists :: "host_path \<Rightarrow> bool"
  ce_text :: "host_path \<Rightarrow> string result"
  ce_toml :: "host_path \<Rightarrow> pydict result"
  ce_expanduser :: "string \<Rightarrow> string result"
  ce_resolve :: "host_path \<Rightarrow> host_path"
  ce_home :: host_path

abbreviation invalid :: "string \<Rightarrow> 'a result" where
  "invalid m \<equiv> Inl (ValueError m)"

definition check :: "bool \<Rightarrow> string \<Rightarrow> unit result" where
  "check b message = (if b then Inr () else invalid message)"

lemma check_Inr [simp]: "check b m = Inr u \<longleftrightarrow> b"
  by (simp add: check_def)

section \<open>Values of a table\<close>

definition required_table :: "pydict \<Rightarrow> string \<Rightarrow> pydict result" where
  "required_table d k = (case dict_get d k of PDict t \<Rightarrow> Inr t | _ \<Rightarrow> invalid (''missing required table: '' @ k))"

definition required_str :: "pydict \<Rightarrow> string \<Rightarrow> string result" where
  "required_str d k = (case nonblank_str (dict_get d k) of Some s \<Rightarrow> Inr (py_strip s)
     | None \<Rightarrow> invalid (''missing required string: '' @ k))"

definition resolve_path :: "config_env \<Rightarrow> host_path \<Rightarrow> string \<Rightarrow> string result" where
  "resolve_path env base raw = bindR (ce_expanduser env raw) (\<lambda>x.
     let candidate = pure_path x in
     Inr (host_str (ce_resolve env
       (if pp_root candidate \<noteq> [] then pp_parts candidate else base @ pp_parts candidate))))"

text \<open>Every call of \<open>_resolve_backend\<close> allows only \<open>sqlite\<close>.\<close>

definition resolve_backend :: "pydict \<Rightarrow> string \<Rightarrow> string \<Rightarrow> string list \<Rightarrow> string result" where
  "resolve_backend d k dflt allowed = (case nonblank_str (dict_get_or d k (PStr dflt)) of
     None \<Rightarrow> invalid (k @ '' must be a non-empty string'')
   | Some s \<Rightarrow> if py_strip s \<in> set allowed then Inr (py_strip s)
       else invalid (k @ '' must be one of: '' @ join_with '', '' (sort allowed)))"

definition resolve_virtual_workspace_root :: "pydict \<Rightarrow> string result" where
  "resolve_virtual_workspace_root d = (case nonblank_str (dict_get_or d ''virtual_workspace_root'' (PStr ''/workspace'')) of
     None \<Rightarrow> invalid ''virtual_workspace_root must be a non-empty string''
   | Some raw \<Rightarrow> (let candidate = pure_path (py_strip raw) in
       if pp_root candidate = [] then invalid ''virtual_workspace_root must be an absolute virtual path''
       else if ''..'' \<in> set (pp_parts candidate)
         then invalid ''virtual_workspace_root cannot traverse outside its virtual root''
       else Inr (as_posix candidate)))"

definition optional_bool :: "pydict \<Rightarrow> string \<Rightarrow> bool \<Rightarrow> bool result" where
  "optional_bool d k dflt = (case dict_get_or d k (PBool dflt) of PBool b \<Rightarrow> Inr b
     | _ \<Rightarrow> invalid (k @ '' must be a boolean''))"

definition map_entry :: "string \<Rightarrow> string \<times> pyval \<Rightarrow> (string \<times> string) result" where
  "map_entry k kv = (if py_strip (fst kv) = [] then invalid (k @ '' keys must be non-empty strings'')
     else (case snd kv of PStr s \<Rightarrow> Inr (fst kv, s)
       | _ \<Rightarrow> invalid (k @ ''.'' @ fst kv @ '' must be a string'')))"

definition optional_string_map :: "pyval \<Rightarrow> string \<Rightarrow> str_map result" where
  "optional_string_map v k = (case v of PNone \<Rightarrow> Inr []
     | PDict d \<Rightarrow> mapR (map_entry k) d
     | _ \<Rightarrow> invalid (k @ '' must be a table/object''))"

definition nonempty_item :: "string \<Rightarrow> pyval \<Rightarrow> string result" where
  "nonempty_item k v = (case nonblank_str v of Some s \<Rightarrow> Inr s
     | None \<Rightarrow> invalid (k @ '' must contain non-empty strings''))"

definition optional_string_list :: "pyval \<Rightarrow> string \<Rightarrow> string list result" where
  "optional_string_list v k = (case v of PNone \<Rightarrow> Inr [] | PList xs \<Rightarrow> mapR (nonempty_item k) xs
     | _ \<Rightarrow> invalid (k @ '' must be a list''))"

definition optional_string_sequence :: "pyval \<Rightarrow> string \<Rightarrow> string list result" where
  "optional_string_sequence v k = (case v of PNone \<Rightarrow> Inr []
     | PList xs \<Rightarrow> mapR (\<lambda>x. bindR (nonempty_item k x) (\<lambda>s. Inr (py_strip s))) xs
     | _ \<Rightarrow> invalid (k @ '' must be a list''))"

section \<open>Compaction\<close>

text \<open>
  \<open>not (float(value) <= 0 or float(value) >= 1)\<close>, read off the \<open>repr\<close> of a float: those between 0 and 1 print as
  \<open>0.\<close> and digits or with a negative exponent; \<open>nan\<close> is neither below nor above anything. No integer or truth value passes.
\<close>

definition has_negative_exponent :: "string \<Rightarrow> bool" where
  "has_negative_exponent r = sublist ''e-'' r"

definition unit_fraction :: "string \<Rightarrow> bool" where
  "unit_fraction r = ((startswith r ''0.'' \<and> r \<noteq> ''0.0'')
     \<or> (\<not> startswith r ''-'' \<and> has_negative_exponent r) \<or> r = ''nan'')"

text \<open>\<open>isinstance(value, int) and value > 0\<close>; \<open>True\<close> counts as 1.\<close>

definition positive_int :: "pyval \<Rightarrow> bool" where
  "positive_int v = (case v of PInt n \<Rightarrow> 0 < n | PBool b \<Rightarrow> b | _ \<Rightarrow> False)"

definition checked_size :: "string \<Rightarrow> string \<Rightarrow> pyval \<Rightarrow> compaction_size result" where
  "checked_size k kind v =
     (if kind = ''fraction'' then
        (case v of PFloat r \<Rightarrow> if unit_fraction r then Inr \<lparr>cz_kind = kind, cz_value = v\<rparr>
             else invalid (k @ ''.value must be between 0 and 1 for fraction'')
         | _ \<Rightarrow> invalid (k @ ''.value must be between 0 and 1 for fraction''))
      else if positive_int v then Inr \<lparr>cz_kind = kind, cz_value = v\<rparr>
      else invalid (k @ ''.value must be a positive integer for '' @ kind))"

definition parse_compaction_size :: "pyval \<Rightarrow> string \<Rightarrow> string \<Rightarrow> pyval \<Rightarrow> compaction_size result" where
  "parse_compaction_size v k default_kind default_value = (case v of
     PNone \<Rightarrow> Inr \<lparr>cz_kind = default_kind, cz_value = default_value\<rparr>
   | PDict d \<Rightarrow> (case dict_get_or d ''kind'' (PStr default_kind) of
       PStr kind \<Rightarrow>
         if kind \<in> {''fraction'', ''tokens'', ''messages''}
         then checked_size k kind (dict_get_or d ''value'' default_value)
         else invalid (k @ ''.kind must be one of: fraction, tokens, messages'')
     | _ \<Rightarrow> invalid (k @ ''.kind must be one of: fraction, tokens, messages''))
   | _ \<Rightarrow> invalid (k @ '' must be a table/object''))"

definition parse_compaction_config :: "pyval \<Rightarrow> compaction_config result" where
  "parse_compaction_config v = (case v of
     PNone \<Rightarrow> Inr default_compaction
   | PDict d \<Rightarrow>
      (let limit = dict_get_or d ''tool_token_limit_before_evict'' (PInt 20000);
           strategy = dict_get_or d ''strategy'' (PStr ''deepagents_native'') in
       bindR (check (positive_int limit) ''compaction.tool_token_limit_before_evict must be a positive integer'') (\<lambda>_.
       bindR (case nonblank_str strategy of Some s \<Rightarrow> Inr (py_strip s)
              | None \<Rightarrow> invalid ''compaction.strategy must be a non-empty string'') (\<lambda>st.
       bindR (optional_bool d ''enabled'' True) (\<lambda>enabled.
       bindR (optional_bool d ''automatic'' True) (\<lambda>automatic.
       bindR (optional_bool d ''explicit_client'' True) (\<lambda>client.
       bindR (optional_bool d ''explicit_agent_tool'' True) (\<lambda>tool.
       bindR (parse_compaction_size (dict_get d ''trigger'') ''compaction.trigger'' ''fraction'' (PFloat ''0.85'')) (\<lambda>trigger.
       bindR (parse_compaction_size (dict_get d ''keep'') ''compaction.keep'' ''fraction'' (PFloat ''0.1'')) (\<lambda>keep.
       bindR (parse_compaction_size (dict_get d ''fallback_trigger'') ''compaction.fallback_trigger'' ''tokens''
               (PInt 170000)) (\<lambda>fallback.
         Inr \<lparr>co_enabled = enabled, co_strategy = st, co_automatic = automatic, co_explicit_client = client,
              co_explicit_agent_tool = tool, co_trigger = trigger, co_keep = keep, co_fallback_trigger = fallback,
              co_tool_token_limit = limit\<rparr>))))))))))
   | _ \<Rightarrow> invalid ''compaction must be a table'')"

section \<open>Host environment variables\<close>

definition is_name_start :: "char \<Rightarrow> bool" where
  "is_name_start c = (let n = code_point c in (65 \<le> n \<and> n \<le> 90) \<or> (97 \<le> n \<and> n \<le> 122) \<or> n = 95)"

definition is_name_char :: "char \<Rightarrow> bool" where
  "is_name_char c = (is_name_start c \<or> (48 \<le> code_point c \<and> code_point c \<le> 57))"

text \<open>A match of \<open>_HOST_ENV_PATTERN\<close> at the front of a text: the name and what follows the closing brace.\<close>

definition host_env_match :: "string \<Rightarrow> (string \<times> string) option" where
  "host_env_match s =
     (if \<not> startswith s ''${'' then None
      else (let name = takeWhile is_name_char (drop 2 s); rest = dropWhile is_name_char (drop 2 s) in
        if name \<noteq> [] \<and> is_name_start (hd name) \<and> startswith rest ''}'' then Some (name, drop 1 rest) else None))"

lemma host_env_match_shorter: "host_env_match s = Some (name, rest) \<Longrightarrow> length rest < length s"
  using length_dropWhile_le[of is_name_char "drop 2 s"]
  by (auto simp: host_env_match_def Let_def prefix_def split: if_splits)

function resolve_host_env_string :: "(string \<Rightarrow> string option) \<Rightarrow> string \<Rightarrow> string \<Rightarrow> string result" where
  "resolve_host_env_string environ k s = (case s of [] \<Rightarrow> Inr []
   | c # cs \<Rightarrow> (case host_env_match s of
       None \<Rightarrow> bindR (resolve_host_env_string environ k cs) (\<lambda>t. Inr (c # t))
     | Some (name, rest) \<Rightarrow> (case environ name of
         None \<Rightarrow> invalid (k @ '' references missing host environment variable '' @ name)
       | Some v \<Rightarrow> bindR (resolve_host_env_string environ k rest) (\<lambda>t. Inr (v @ t)))))"
  by auto
termination
  by (relation "measure (\<lambda>(environ, k, s). length s)") (use host_env_match_shorter in \<open>fastforce+\<close>)

declare resolve_host_env_string.simps [simp del]

definition resolve_host_env_map :: "(string \<Rightarrow> string option) \<Rightarrow> str_map \<Rightarrow> string \<Rightarrow> str_map result" where
  "resolve_host_env_map environ d k = mapR (\<lambda>(ik, iv).
     bindR (resolve_host_env_string environ (k @ ''.'' @ ik) iv) (\<lambda>v. Inr (ik, v))) d"

definition resolve_env_from_host :: "(string \<Rightarrow> string option) \<Rightarrow> pyval \<Rightarrow> string \<Rightarrow> string list result" where
  "resolve_env_from_host environ v k = bindR (optional_string_sequence v k) (\<lambda>names.
     case List.find (\<lambda>n. environ n = None) names of
       Some n \<Rightarrow> invalid (k @ '' references missing host environment variable '' @ n)
     | None \<Rightarrow> Inr names)"

section \<open>MCP servers and OAuth providers\<close>

definition normalize_mcp_transport :: "string option \<Rightarrow> string option result" where
  "normalize_mcp_transport raw = (case raw of None \<Rightarrow> Inr None
   | Some t \<Rightarrow> (let n = map (\<lambda>c. if c = CHR ''-'' then CHR ''_'' else c) (py_lower (py_strip t)) in
       if n = [] then Inr None
       else if n \<in> {''stdio'', ''sse'', ''http'', ''streamable_http''} then Inr (Some n)
       else invalid ''MCP transport must be one of: stdio, sse, http, streamable_http, streamable-http''))"

definition parse_mcp_auth_config :: "string \<Rightarrow> pyval \<Rightarrow> mcp_authorization result" where
  "parse_mcp_auth_config name v = (let at = ''mcp.servers.'' @ name @ ''.auth'' in case v of
     PNone \<Rightarrow> Inr default_mcp_authorization
   | PDict d \<Rightarrow>
      bindR (case dict_get_or d ''mode'' (PStr ''static_headers'') of
          PStr m \<Rightarrow> if m \<in> {''static_headers'', ''oauth_user_grant''} then Inr m
            else invalid (at @ ''.mode must be static_headers or oauth_user_grant'')
        | _ \<Rightarrow> invalid (at @ ''.mode must be static_headers or oauth_user_grant'')) (\<lambda>mode.
      bindR (case dict_get d ''provider'' of PNone \<Rightarrow> Inr None
             | p \<Rightarrow> (case nonblank_str p of Some s \<Rightarrow> Inr (Some (py_strip s))
                   | None \<Rightarrow> invalid (at @ ''.provider must be a non-empty string''))) (\<lambda>provider.
      bindR (check (\<not> (mode = ''oauth_user_grant'' \<and> provider = None))
              (at @ ''.provider is required for oauth_user_grant'')) (\<lambda>_.
      bindR (check (\<not> (mode = ''static_headers'' \<and> provider \<noteq> None))
              (at @ ''.provider is only valid for oauth_user_grant'')) (\<lambda>_.
        Inr \<lparr>ma_mode = mode, ma_provider = provider\<rparr>))))
   | _ \<Rightarrow> invalid (at @ '' must be a table/object''))"

text \<open>A field that is absent or a string that is not blank, and one that is required.\<close>

definition provider_text :: "string \<Rightarrow> pydict \<Rightarrow> string \<Rightarrow> string option result" where
  "provider_text name d k = (case dict_get d k of PNone \<Rightarrow> Inr None
     | v \<Rightarrow> (case nonblank_str v of Some s \<Rightarrow> Inr (Some (py_strip s))
         | None \<Rightarrow> invalid (''mcp.oauth_providers.'' @ name @ ''.'' @ k @ '' must be a non-empty string'')))"

definition provider_required :: "string \<Rightarrow> pydict \<Rightarrow> string \<Rightarrow> string result" where
  "provider_required name d k = (case nonblank_str (dict_get d k) of Some s \<Rightarrow> Inr (py_strip s)
     | None \<Rightarrow> invalid (''mcp.oauth_providers.'' @ name @ ''.'' @ k @ '' must be a non-empty string''))"

definition from_host_env :: "(string \<Rightarrow> string option) \<Rightarrow> string \<Rightarrow> string \<Rightarrow> string \<Rightarrow> string result" where
  "from_host_env environ name k s = resolve_host_env_string environ (''mcp.oauth_providers.'' @ name @ ''.'' @ k) s"

definition optional_from_host_env ::
    "(string \<Rightarrow> string option) \<Rightarrow> string \<Rightarrow> string \<Rightarrow> string option \<Rightarrow> string option result" where
  "optional_from_host_env environ name k v = (case v of None \<Rightarrow> Inr None
     | Some s \<Rightarrow> bindR (from_host_env environ name k s) (\<lambda>t. Inr (Some t)))"

definition parse_oauth_provider_config ::
    "(string \<Rightarrow> string option) \<Rightarrow> string \<Rightarrow> pyval \<Rightarrow> oauth_provider result" where
  "parse_oauth_provider_config environ name v = (case v of
     PDict d \<Rightarrow>
      bindR (provider_text name d ''authorization_url'') (\<lambda>authorization_url.
      bindR (provider_text name d ''token_url'') (\<lambda>token_url.
      bindR (provider_text name d ''discovery_url'') (\<lambda>discovery_url.
      bindR (provider_text name d ''audience'') (\<lambda>audience.
      bindR (provider_text name d ''resource'') (\<lambda>resource.
      bindR (check (\<not> (discovery_url = None \<and> (authorization_url = None \<or> token_url = None)))
              (''mcp.oauth_providers.'' @ name @
               '' must define discovery_url or both authorization_url and token_url'')) (\<lambda>_.
      bindR (provider_required name d ''client_id'') (\<lambda>client_id.
      bindR (provider_required name d ''client_secret'') (\<lambda>client_secret.
      bindR (provider_required name d ''redirect_uri'') (\<lambda>redirect_uri.
      bindR (optional_from_host_env environ name ''authorization_url'' authorization_url) (\<lambda>authorization_url'.
      bindR (optional_from_host_env environ name ''token_url'' token_url) (\<lambda>token_url'.
      bindR (optional_from_host_env environ name ''discovery_url'' discovery_url) (\<lambda>discovery_url'.
      bindR (from_host_env environ name ''client_id'' client_id) (\<lambda>client_id'.
      bindR (from_host_env environ name ''client_secret'' client_secret) (\<lambda>client_secret'.
      bindR (from_host_env environ name ''redirect_uri'' redirect_uri) (\<lambda>redirect_uri'.
      bindR (optional_string_sequence (dict_get d ''scopes'') (''mcp.oauth_providers.'' @ name @ ''.scopes'')) (\<lambda>scopes.
      bindR (optional_from_host_env environ name ''audience'' audience) (\<lambda>audience'.
      bindR (optional_from_host_env environ name ''resource'' resource) (\<lambda>resource'.
        Inr \<lparr>op_provider_id = name, op_authorization_url = authorization_url', op_token_url = token_url',
             op_discovery_url = discovery_url', op_client_id = client_id', op_client_secret = client_secret',
             op_redirect_uri = redirect_uri', op_scopes = scopes, op_audience = audience', op_resource = resource'\<rparr>
      ))))))))))))))))))
   | _ \<Rightarrow> invalid (''mcp.oauth_providers.'' @ name @ '' must be a table/object''))"

text \<open>A table of named entries: the entry is stored under its name, and parsed under the stripped one.\<close>

fun parse_named :: "string \<Rightarrow> (string \<Rightarrow> pyval \<Rightarrow> 'a result) \<Rightarrow> pydict \<Rightarrow> (string \<times> 'a) list \<Rightarrow> (string \<times> 'a) list result" where
  "parse_named blank parse [] acc = Inr acc"
| "parse_named blank parse ((name, v) # rest) acc =
     (if py_strip name = [] then invalid blank
      else bindR (parse name v) (\<lambda>x. parse_named blank parse rest (AList.update name x acc)))"

definition parse_oauth_providers_table ::
    "(string \<Rightarrow> string option) \<Rightarrow> pyval \<Rightarrow> (string \<times> oauth_provider) list result" where
  "parse_oauth_providers_table environ v = (case v of PNone \<Rightarrow> Inr []
   | PDict d \<Rightarrow> parse_named ''mcp oauth provider names must be non-empty strings''
       (\<lambda>name. parse_oauth_provider_config environ (py_strip name)) d []
   | _ \<Rightarrow> invalid ''mcp.oauth_providers must be a table/object'')"

definition optional_entry :: "string \<Rightarrow> string \<Rightarrow> pyval \<Rightarrow> string option result" where
  "optional_entry name k v = (case v of PNone \<Rightarrow> Inr None
   | _ \<Rightarrow> (case nonblank_str v of Some s \<Rightarrow> Inr (Some (py_strip s))
       | None \<Rightarrow> invalid (''MCP server '' @ name @ '' '' @ k @ '' must be a non-empty string'')))"

text \<open>\<open>payload.get(key, payload.get(other))\<close>.\<close>

definition get_either :: "pydict \<Rightarrow> string \<Rightarrow> string \<Rightarrow> pyval" where
  "get_either d k other = dict_get_or d k (dict_get d other)"

definition parse_command_server ::
    "(string \<Rightarrow> string option) \<Rightarrow> string \<Rightarrow> pydict \<Rightarrow> string \<Rightarrow> string option \<Rightarrow> mcp_server \<Rightarrow> mcp_server result" where
  "parse_command_server environ name d command transport base =
     (let t = (case transport of None \<Rightarrow> ''stdio'' | Some t \<Rightarrow> t); at = ''mcp.servers.'' @ name in
      bindR (check (t = ''stdio'') (''MCP server '' @ name @ '' command-based entries must use stdio transport'')) (\<lambda>_.
      bindR (optional_string_map (dict_get d ''env'') (at @ ''.env'')) (\<lambda>env.
      bindR (optional_string_sequence (get_either d ''env_from_host'' ''envFromHost'') (at @ ''.env_from_host'')) (\<lambda>names.
      if \<not> sv_enabled base then
        bindR (optional_string_list (dict_get d ''args'') (at @ ''.args'')) (\<lambda>args.
          Inr (base\<lparr>sv_transport := t, sv_command := Some command, sv_args := args, sv_env := env,
                    sv_env_from_host := names\<rparr>))
      else
        bindR (resolve_env_from_host environ (get_either d ''env_from_host'' ''envFromHost'') (at @ ''.env_from_host'')) (\<lambda>hosted.
        bindR (optional_string_list (dict_get d ''args'') (at @ ''.args'')) (\<lambda>args.
        bindR (resolve_host_env_map environ env (at @ ''.env'')) (\<lambda>resolved.
          Inr (base\<lparr>sv_transport := t, sv_command := Some command, sv_args := args, sv_env := resolved,
                    sv_env_from_host := hosted\<rparr>))))))))"

definition parse_remote_server ::
    "(string \<Rightarrow> string option) \<Rightarrow> string \<Rightarrow> pydict \<Rightarrow> string \<Rightarrow> string option \<Rightarrow> mcp_server \<Rightarrow> mcp_server result" where
  "parse_remote_server environ name d url transport base =
     (let server = ''MCP server '' @ name; at = ''mcp.servers.'' @ name @ ''.headers'' in
      case transport of
        None \<Rightarrow> invalid (server @ '' remote entries must define transport or type'')
      | Some t \<Rightarrow>
          bindR (check (t \<noteq> ''stdio'') (server @ '' url-based entries cannot use stdio transport'')) (\<lambda>_.
          bindR (check (get_either d ''env_from_host'' ''envFromHost'' = PNone)
                  (server @ '' env_from_host is supported only for stdio servers'')) (\<lambda>_.
          bindR (check (\<not> (ma_mode (sv_auth base) = ''oauth_user_grant'' \<and> dict_get d ''headers'' \<noteq> PNone))
                  (server @ '' cannot define headers when auth.mode is oauth_user_grant'')) (\<lambda>_.
          bindR (optional_string_map (dict_get d ''headers'') at) (\<lambda>headers.
          if \<not> sv_enabled base then Inr (base\<lparr>sv_transport := t, sv_url := Some url, sv_headers := headers\<rparr>)
          else bindR (resolve_host_env_map environ headers at) (\<lambda>resolved.
            Inr (base\<lparr>sv_transport := t, sv_url := Some url, sv_headers := resolved\<rparr>)))))))"

definition parse_mcp_server_config ::
    "(string \<Rightarrow> string option) \<Rightarrow> string \<Rightarrow> string \<Rightarrow> string \<Rightarrow> pydict \<Rightarrow> mcp_server result" where
  "parse_mcp_server_config environ source source_path name d =
     (let server = ''MCP server '' @ name in
      bindR (optional_bool d ''enabled'' True) (\<lambda>enabled.
      bindR (case dict_get d ''description'' of PNone \<Rightarrow> Inr None | PStr s \<Rightarrow> Inr (if s = [] then None else Some s)
             | _ \<Rightarrow> invalid (server @ '' description must be a string when present'')) (\<lambda>description.
      bindR (parse_mcp_auth_config name (dict_get d ''auth'')) (\<lambda>auth.
      bindR (optional_entry name ''command'' (dict_get d ''command'')) (\<lambda>command.
      bindR (optional_entry name ''url'' (dict_get d ''url'')) (\<lambda>url.
      bindR (case get_either d ''transport'' ''type'' of PNone \<Rightarrow> Inr None | PStr s \<Rightarrow> Inr (Some s)
             | _ \<Rightarrow> invalid (server @ '' transport must be a string when present'')) (\<lambda>raw.
      bindR (normalize_mcp_transport raw) (\<lambda>transport.
      (let base = \<lparr>sv_name = name, sv_transport = [], sv_enabled = enabled, sv_description = description,
                   sv_command = None, sv_args = [], sv_env = [], sv_env_from_host = [], sv_url = None,
                   sv_headers = [], sv_auth = auth, sv_source = source, sv_source_path = Some source_path\<rparr> in
       case (command, url) of
         (Some c, Some u) \<Rightarrow> invalid (server @ '' cannot define both command and url'')
       | (None, None) \<Rightarrow> invalid (server @ '' must define either command or url'')
       | (Some c, None) \<Rightarrow> parse_command_server environ name d c transport base
       | (None, Some u) \<Rightarrow> parse_remote_server environ name d u transport base)))))))))"

definition parse_server_entry ::
    "(string \<Rightarrow> string option) \<Rightarrow> string \<Rightarrow> string \<Rightarrow> string \<Rightarrow> pyval \<Rightarrow> mcp_server result" where
  "parse_server_entry environ source source_path name v = (case v of
     PDict d \<Rightarrow> parse_mcp_server_config environ source source_path (py_strip name) d
   | _ \<Rightarrow> invalid (''MCP server '' @ name @ '' must be a table/object''))"

definition parse_mcp_servers_table ::
    "(string \<Rightarrow> string option) \<Rightarrow> string \<Rightarrow> string \<Rightarrow> pyval \<Rightarrow> (string \<times> mcp_server) list result" where
  "parse_mcp_servers_table environ source source_path v = (case v of PNone \<Rightarrow> Inr []
   | PDict d \<Rightarrow> parse_named ''mcp server names must be non-empty strings''
       (parse_server_entry environ source source_path) d []
   | _ \<Rightarrow> invalid ''mcp.servers must be a table/object'')"

section \<open>Where the servers come from\<close>

text \<open>The directory itself and its parents, up to the root.\<close>

fun self_and_parents :: "host_path \<Rightarrow> host_path list" where
  "self_and_parents [] = [[]]"
| "self_and_parents p = p # self_and_parents (butlast p)"

definition discover_project_root :: "config_env \<Rightarrow> host_path \<Rightarrow> host_path" where
  "discover_project_root env config_dir = (let current = ce_resolve env config_dir in
     case List.find (\<lambda>c. ce_exists env (c @ [''.git''])) (self_and_parents current) of
       Some c \<Rightarrow> c | None \<Rightarrow> current)"

definition load_mcp_json_file :: "config_env \<Rightarrow> host_path \<Rightarrow> string \<Rightarrow> (string \<times> mcp_server) list result" where
  "load_mcp_json_file env path source =
     (if \<not> ce_is_file env path then Inr []
      else bindR (ce_text env path) (\<lambda>text. case json_loads text of
          None \<Rightarrow> invalid (''Invalid JSON in MCP config: '' @ host_str path)
        | Some (PDict d) \<Rightarrow> parse_mcp_servers_table (ce_environ env) source (host_str (ce_resolve env path))
            (dict_get d ''mcpServers'')
        | Some _ \<Rightarrow> invalid (''MCP config must be a JSON object: '' @ host_str path)))"

definition dict_update :: "('k \<times> 'v) list \<Rightarrow> ('k \<times> 'v) list \<Rightarrow> ('k \<times> 'v) list" where
  "dict_update d new = foldl (\<lambda>acc (k, v). AList.update k v acc) d new"

definition provider_known :: "(string \<times> oauth_provider) list \<Rightarrow> mcp_server \<Rightarrow> bool" where
  "provider_known providers s = (\<not> (ma_mode (sv_auth s) = ''oauth_user_grant'' \<and>
     (case ma_provider (sv_auth s) of None \<Rightarrow> True | Some p \<Rightarrow> map_of providers p = None)))"

definition resolve_mcp_config :: "config_env \<Rightarrow> host_path \<Rightarrow> pydict \<Rightarrow> mcp_config result" where
  "resolve_mcp_config env config_path d =
     (let root = discover_project_root env (butlast config_path) in
      bindR (load_mcp_json_file env (root @ [''.deepagents'', ''.mcp.json'']) ''project_deepagents_mcp_json'') (\<lambda>agents.
      bindR (load_mcp_json_file env (root @ [''.mcp.json'']) ''project_root_mcp_json'') (\<lambda>project.
      bindR (parse_mcp_servers_table (ce_environ env) ''runtime_toml'' (host_str (ce_resolve env config_path))
              (dict_get d ''servers'')) (\<lambda>own.
      bindR (parse_oauth_providers_table (ce_environ env) (dict_get d ''oauth_providers'')) (\<lambda>providers.
      (let servers = dict_update (dict_update (dict_update [] agents) project) own in
       case List.find (\<lambda>s. \<not> provider_known providers s) (map snd servers) of
         Some s \<Rightarrow> invalid (''MCP server '' @ sv_name s @ '' references unknown oauth provider '' @
           (case ma_provider (sv_auth s) of Some p \<Rightarrow> p | None \<Rightarrow> ''None''))
       | None \<Rightarrow> bindR (optional_bool d ''tool_name_prefix'' True) (\<lambda>tool_prefix.
           Inr \<lparr>mc_tool_name_prefix = tool_prefix, mc_servers = servers, mc_oauth_providers = providers\<rparr>)))))))"

section \<open>The configuration\<close>

definition table_or_empty :: "pydict \<Rightarrow> string \<Rightarrow> string \<Rightarrow> pydict result" where
  "table_or_empty d k message = (case dict_get_or d k (PDict []) of PDict t \<Rightarrow> Inr t | _ \<Rightarrow> invalid message)"

definition parse_model :: "pydict \<Rightarrow> model_config result" where
  "parse_model d = bindR (required_str d ''provider'') (\<lambda>p. bindR (required_str d ''model'') (\<lambda>m.
     Inr \<lparr>mo_provider = p, mo_model = m\<rparr>))"

text \<open>The subagent overrides that are tables.\<close>

definition parse_overrides :: "pydict \<Rightarrow> (string \<times> model_config) list result" where
  "parse_overrides d = mapR (\<lambda>(role, v). bindR (parse_model (case v of PDict t \<Rightarrow> t | _ \<Rightarrow> [])) (\<lambda>m. Inr (role, m)))
     (filter (\<lambda>(role, v). as_dict v \<noteq> None) d)"

definition parse_cli :: "config_env \<Rightarrow> host_path \<Rightarrow> pydict \<Rightarrow> cli_config result" where
  "parse_cli env config_dir d =
     bindR (if dict_get d ''default_workspace_root'' \<in> {PNone, PStr []} then Inr None
       else bindR (required_str d ''default_workspace_root'') (\<lambda>raw.
         bindR (resolve_path env config_dir raw) (\<lambda>p. Inr (Some p)))) (\<lambda>root.
     bindR (resolve_virtual_workspace_root d) (\<lambda>virtual.
       Inr \<lparr>cl_default_workspace_root = root, cl_virtual_workspace_root = virtual\<rparr>))"

definition load_runtime_config :: "config_env \<Rightarrow> host_path \<Rightarrow> runtime_config result" where
  "load_runtime_config env path =
     (if \<not> ce_is_file env path then invalid (''config file not found: '' @ host_str path) else
      bindR (ce_toml env path) (\<lambda>d.
      bindR (required_table d ''runtime'') (\<lambda>runtime.
      bindR (required_table d ''transport'') (\<lambda>transport.
      bindR (required_table d ''identity'') (\<lambda>identity.
      bindR (required_table d ''models'') (\<lambda>models.
      bindR (required_table models ''primary'') (\<lambda>primary.
      bindR (table_or_empty d ''persistence'' ''persistence must be a table'') (\<lambda>persistence.
      bindR (table_or_empty d ''cli'' ''cli must be a table'') (\<lambda>cli.
      bindR (table_or_empty d ''policy'' ''policy must be a table'') (\<lambda>policy.
      bindR (table_or_empty d ''mcp'' ''mcp must be a table'') (\<lambda>mcp.
      bindR (table_or_empty d ''compaction'' ''compaction must be a table'') (\<lambda>compaction.
      bindR (table_or_empty models ''subagents'' ''models.subagents must be a table'') (\<lambda>overrides.
      bindR (case dict_get models ''default'' of PNone \<Rightarrow> Inr None | PDict t \<Rightarrow> Inr (Some t)
             | _ \<Rightarrow> invalid ''models.default must be a table'') (\<lambda>default_model.
      bindR (required_str identity ''path'') (\<lambda>identity_raw.
      bindR (resolve_path env (butlast path) identity_raw) (\<lambda>identity_path.
      bindR (case nonblank_str (dict_get_or persistence ''root_path''
               (PStr (host_str (ce_resolve env (ce_home env @ [''.local-agent-harness'']))))) of
               Some s \<Rightarrow> Inr (py_strip s) | None \<Rightarrow> invalid ''root_path must be a non-empty string'') (\<lambda>raw_root.
      bindR (resolve_path env (butlast path) raw_root) (\<lambda>root_path.
      bindR (resolve_backend persistence ''metadata_backend'' ''sqlite'' [''sqlite'']) (\<lambda>metadata.
      bindR (required_str runtime ''name'') (\<lambda>name.
      bindR (required_str transport ''mode'') (\<lambda>mode.
      bindR (parse_model primary) (\<lambda>primary_model.
      bindR (case default_model of None \<Rightarrow> Inr None
             | Some t \<Rightarrow> bindR (parse_model t) (\<lambda>m. Inr (Some m))) (\<lambda>default_config.
      bindR (resolve_backend persistence ''event_backend'' metadata [''sqlite'']) (\<lambda>event_backend.
      bindR (resolve_backend persistence ''diagnostic_backend'' metadata [''sqlite'']) (\<lambda>diagnostic_backend.
      bindR (parse_cli env (butlast path) cli) (\<lambda>cli_config.
      bindR (parse_overrides overrides) (\<lambda>subagent_models.
      bindR (resolve_mcp_config env path mcp) (\<lambda>mcp_config.
      bindR (parse_compaction_config (PDict compaction)) (\<lambda>compaction_config.
        Inr \<lparr>rc_name = name, rc_log_level = py_str (dict_get_or runtime ''log_level'' (PStr ''info'')),
             rc_identity_path = identity_path, rc_transport_mode = mode, rc_primary_model = primary_model,
             rc_default_model = default_config,
             rc_persistence = \<lparr>ps_root_path = root_path, ps_metadata_backend = metadata,
               ps_event_backend = event_backend, ps_diagnostic_backend = diagnostic_backend\<rparr>,
             rc_cli = cli_config, rc_subagent_models = subagent_models, rc_policy = policy, rc_mcp = mcp_config,
             rc_compaction = compaction_config\<rparr>)))))))))))))))))))))))))))))"

end
