(* ===== verification/Config_Properties.thy ===== *)
theory Config_Properties
  imports Config_Loader
begin

text \<open>
  What a configuration that loads has been checked for: every MCP server has one way to be reached and credentials
  that fit it, the compaction limits make sense, and the roots are usable. A server of the runtime's own file wins over
  one of the project files with the same name.
\<close>

section \<open>Servers\<close>

definition transports :: "string list" where
  "transports = [''stdio'', ''sse'', ''http'', ''streamable_http'']"

definition auth_ok :: "mcp_authorization \<Rightarrow> bool" where
  "auth_ok a = (ma_mode a \<in> {''static_headers'', ''oauth_user_grant''} \<and>
     (ma_mode a = ''oauth_user_grant'') = (ma_provider a \<noteq> None))"

definition server_ok :: "mcp_server \<Rightarrow> bool" where
  "server_ok s = ((sv_command s = None) \<noteq> (sv_url s = None) \<and> sv_transport s \<in> set transports \<and>
     (sv_transport s = ''stdio'') = (sv_command s \<noteq> None) \<and> auth_ok (sv_auth s) \<and>
     (sv_url s \<noteq> None \<longrightarrow> ma_mode (sv_auth s) = ''oauth_user_grant'' \<longrightarrow> sv_headers s = []))"

lemma auth_ok_default [simp]: "auth_ok default_mcp_authorization"
  by (simp add: auth_ok_def default_mcp_authorization_def)

lemma parse_auth_ok: "parse_mcp_auth_config name v = Inr a \<Longrightarrow> auth_ok a"
  by (cases v) (auto simp: parse_mcp_auth_config_def auth_ok_def default_mcp_authorization_def Let_def elim!: bindR_InrE
      split: pyval.splits if_splits option.splits)

lemma normalize_transport: "normalize_mcp_transport raw = Inr (Some t) \<Longrightarrow> t \<in> set transports"
  by (auto simp: normalize_mcp_transport_def Let_def transports_def split: option.splits if_splits)

lemma command_server_ok:
  assumes "parse_command_server environ name d c transport base = Inr s" and "sv_url base = None" and "auth_ok (sv_auth base)"
  shows "server_ok s"
  using assms by (auto simp: parse_command_server_def server_ok_def transports_def Let_def elim!: bindR_InrE split: if_splits)

lemma resolve_map_Nil [simp]: "resolve_host_env_map environ [] k = Inr []"
  by (simp add: resolve_host_env_map_def)

lemma remote_server_ok:
  assumes "parse_remote_server environ name d u transport base = Inr s" and "sv_command base = None"
    and "auth_ok (sv_auth base)" and "\<And>t. transport = Some t \<Longrightarrow> t \<in> set transports"
  shows "server_ok s"
  using assms
  by (auto simp: parse_remote_server_def server_ok_def Let_def optional_string_map_def
      elim!: bindR_InrE split: if_splits option.splits)

lemma parsed_server_ok:
  assumes "parse_mcp_server_config environ source source_path name d = Inr s"
  shows "server_ok s"
  using assms unfolding parse_mcp_server_config_def Let_def
  by (elim bindR_InrE)
    (auto dest: parse_auth_ok normalize_transport elim!: command_server_ok remote_server_ok split: option.splits)

section \<open>Tables\<close>

lemma snd_set_update: "y \<in> snd ` set (AList.update k v al) \<Longrightarrow> y = v \<or> y \<in> snd ` set al"
  by (induction al) (auto split: if_splits)

lemma parse_named_all:
  assumes "parse_named blank parse d acc = Inr r" and "\<And>n v x. (n, v) \<in> set d \<Longrightarrow> parse n v = Inr x \<Longrightarrow> P x"
    and "\<And>x. x \<in> snd ` set acc \<Longrightarrow> P x" and "distinct (map fst acc)"
  shows "(\<forall>x \<in> snd ` set r. P x) \<and> distinct (map fst r)"
  using assms
proof (induction d arbitrary: acc)
  case (Cons kv d)
  obtain n v where kv: "kv = (n, v)" by force
  obtain x where x: "parse n v = Inr x" "parse_named blank parse d (AList.update n x acc) = Inr r"
    using Cons.prems(1) by (auto simp: kv bindR_Inr_iff split: if_splits)
  show ?case
  proof (rule Cons.IH[OF x(2)])
    fix y assume "y \<in> snd ` set (AList.update n x acc)"
    then show "P y"
      using Cons.prems(2)[of n v x] Cons.prems(3) x(1) kv by (auto dest!: snd_set_update)
  qed (use Cons.prems kv in \<open>auto simp: distinct_update\<close>)
qed auto

lemma server_table_ok:
  assumes "parse_mcp_servers_table environ source source_path v = Inr r"
  shows "\<forall>s \<in> snd ` set r. server_ok s"
proof (cases v)
  case (PDict d)
  then have r: "parse_named ''mcp server names must be non-empty strings''
      (parse_server_entry environ source source_path) d [] = Inr r"
    using assms by (simp add: parse_mcp_servers_table_def)
  have "server_ok s" if "parse_server_entry environ source source_path n w = Inr s" for n w s
    using that parsed_server_ok by (auto simp: parse_server_entry_def split: pyval.splits)
  then show ?thesis using parse_named_all[OF r, of server_ok] by simp
qed (use assms in \<open>auto simp: parse_mcp_servers_table_def\<close>)

definition provider_ok :: "oauth_provider \<Rightarrow> bool" where
  "provider_ok p = (op_discovery_url p \<noteq> None \<or> (op_authorization_url p \<noteq> None \<and> op_token_url p \<noteq> None))"

lemma optional_from_host_env_None:
  "optional_from_host_env environ name k v = Inr r \<Longrightarrow> (r = None) = (v = None)"
  by (auto simp: optional_from_host_env_def bindR_Inr_iff split: option.splits)

lemma parsed_provider_ok: "parse_oauth_provider_config environ name v = Inr p \<Longrightarrow> provider_ok p"
  by (cases v) (auto simp: parse_oauth_provider_config_def provider_ok_def elim!: bindR_InrE dest!: optional_from_host_env_None)

lemma provider_table_ok:
  assumes "parse_oauth_providers_table environ v = Inr r"
  shows "(\<forall>p \<in> snd ` set r. provider_ok p) \<and> distinct (map fst r)"
proof (cases v)
  case (PDict d)
  then have r: "parse_named ''mcp oauth provider names must be non-empty strings''
      (\<lambda>name. parse_oauth_provider_config environ (py_strip name)) d [] = Inr r"
    using assms by (simp add: parse_oauth_providers_table_def)
  show ?thesis using parse_named_all[OF r, of provider_ok] parsed_provider_ok by simp
qed (use assms in \<open>auto simp: parse_oauth_providers_table_def\<close>)

section \<open>Merging the sources\<close>

lemma map_of_dict_update: "map_of (dict_update d new) k =
    (case map_of (rev new) k of Some v \<Rightarrow> Some v | None \<Rightarrow> map_of d k)"
  unfolding dict_update_def
  by (induction new arbitrary: d) (auto simp: update_conv' map_add_def split: option.splits)

lemma snd_dict_update:
  "y \<in> snd ` set (dict_update d new) \<Longrightarrow> y \<in> snd ` set d \<or> y \<in> snd ` set new"
proof (induction new arbitrary: d)
  case (Cons kv new)
  have "y \<in> snd ` set (dict_update (AList.update (fst kv) (snd kv) d) new)"
    using Cons.prems by (simp add: dict_update_def split_beta)
  from Cons.IH[OF this] show ?case
  proof
    assume "y \<in> snd ` set (AList.update (fst kv) (snd kv) d)"
    from snd_set_update[OF this] show ?thesis by auto
  qed auto
qed (simp add: dict_update_def)

lemma distinct_dict_update [simp]: "distinct (map fst d) \<Longrightarrow> distinct (map fst (dict_update d new))"
  unfolding dict_update_def by (induction new arbitrary: d) (auto simp: distinct_update)

lemma json_servers_ok:
  assumes "load_mcp_json_file env path source = Inr r"
  shows "\<forall>s \<in> snd ` set r. server_ok s"
proof -
  have "r = [] \<or> (\<exists>place v. parse_mcp_servers_table (ce_environ env) source place v = Inr r)"
    using assms by (auto simp: load_mcp_json_file_def elim!: bindR_InrE split: if_splits option.splits pyval.splits)
  then show ?thesis using server_table_ok by fastforce
qed

definition mcp_ok :: "mcp_config \<Rightarrow> bool" where
  "mcp_ok m = (distinct (map fst (mc_servers m)) \<and> distinct (map fst (mc_oauth_providers m)) \<and>
     list_all provider_ok (map snd (mc_oauth_providers m)) \<and>
     list_all (\<lambda>s. server_ok s \<and> provider_known (mc_oauth_providers m) s) (map snd (mc_servers m)))"

lemma resolved_mcp_ok:
  assumes "resolve_mcp_config env path d = Inr m"
  shows "mcp_ok m"
proof -
  obtain agents project own providers tool_prefix where parts:
      "load_mcp_json_file env (discover_project_root env (butlast path) @ [''.deepagents'', ''.mcp.json''])
         ''project_deepagents_mcp_json'' = Inr agents"
      "load_mcp_json_file env (discover_project_root env (butlast path) @ [''.mcp.json'']) ''project_root_mcp_json'' = Inr project"
      "parse_mcp_servers_table (ce_environ env) ''runtime_toml'' (host_str (ce_resolve env path)) (dict_get d ''servers'') = Inr own"
      "parse_oauth_providers_table (ce_environ env) (dict_get d ''oauth_providers'') = Inr providers"
      "List.find (\<lambda>s. \<not> provider_known providers s) (map snd (dict_update (dict_update (dict_update [] agents) project) own)) = None"
      "m = \<lparr>mc_tool_name_prefix = tool_prefix, mc_servers = dict_update (dict_update (dict_update [] agents) project) own,
            mc_oauth_providers = providers\<rparr>"
    using assms by (auto simp: resolve_mcp_config_def Let_def elim!: bindR_InrE split: option.splits)
  let ?all = "dict_update (dict_update (dict_update [] agents) project) own"
  have "y \<in> snd ` set agents \<or> y \<in> snd ` set project \<or> y \<in> snd ` set own" if "y \<in> snd ` set ?all" for y
    using snd_dict_update[OF that] snd_dict_update[of y "dict_update [] agents" project] snd_dict_update[of y "[]" agents]
    by fastforce
  then have "\<forall>s \<in> snd ` set ?all. server_ok s"
    using json_servers_ok[OF parts(1)] json_servers_ok[OF parts(2)] server_table_ok[OF parts(3)] by blast
  moreover have "\<forall>s \<in> snd ` set ?all. provider_known providers s"
    using parts(5) by (auto simp: find_None_iff)
  ultimately show ?thesis
    using provider_table_ok[OF parts(4)] parts(6)
    by (auto simp: mcp_ok_def list_all_iff)
qed

section \<open>The configuration as a whole\<close>

definition size_ok :: "compaction_size \<Rightarrow> bool" where
  "size_ok z = (if cz_kind z = ''fraction'' then (case cz_value z of PFloat r \<Rightarrow> unit_fraction r | _ \<Rightarrow> False)
     else cz_kind z \<in> {''tokens'', ''messages''} \<and> positive_int (cz_value z))"

definition compaction_ok :: "compaction_config \<Rightarrow> bool" where
  "compaction_ok c = (size_ok (co_trigger c) \<and> size_ok (co_keep c) \<and> size_ok (co_fallback_trigger c) \<and>
     positive_int (co_tool_token_limit c))"

lemma unit_fraction_defaults [simp]: "unit_fraction ''0.85''" "unit_fraction ''0.1''"
  by code_simp+

lemma checked_size_ok:
  assumes "checked_size k kind v = Inr z" and "kind \<in> {''fraction'', ''tokens'', ''messages''}"
  shows "size_ok z"
proof -
  have "z = \<lparr>cz_kind = kind, cz_value = v\<rparr>"
    using assms(1) by (simp add: checked_size_def split: if_split_asm pyval.split_asm)
  moreover have "if kind = ''fraction'' then (case v of PFloat r \<Rightarrow> unit_fraction r | _ \<Rightarrow> False) else positive_int v"
    using assms(1) by (cases v) (simp_all add: checked_size_def split: if_split_asm)
  ultimately show ?thesis using assms(2) by (simp add: size_ok_def split: if_split_asm)
qed

lemma parsed_size_ok:
  assumes "parse_compaction_size v k kind dflt = Inr z" and "size_ok \<lparr>cz_kind = kind, cz_value = dflt\<rparr>"
  shows "size_ok z"
proof (cases v)
  case (PDict d)
  then obtain kd val where "kd \<in> {''fraction'', ''tokens'', ''messages''}" "checked_size k kd val = Inr z"
    using assms(1) by (cases "dict_get_or d ''kind'' (PStr kind)") (auto simp: parse_compaction_size_def split: if_split_asm)
  then show ?thesis using checked_size_ok by blast
qed (use assms in \<open>simp_all add: parse_compaction_size_def\<close>)

lemma default_compaction_ok: "compaction_ok default_compaction"
  by code_simp

lemma parsed_compaction_ok:
  assumes "parse_compaction_config v = Inr c"
  shows "compaction_ok c"
proof (cases v)
  case PNone
  then show ?thesis
    using assms default_compaction_ok by (simp add: parse_compaction_config_def)
next
  case (PDict d)
  have "size_ok \<lparr>cz_kind = ''fraction'', cz_value = PFloat ''0.85''\<rparr>" "size_ok \<lparr>cz_kind = ''fraction'', cz_value = PFloat ''0.1''\<rparr>"
      "size_ok \<lparr>cz_kind = ''tokens'', cz_value = PInt 170000\<rparr>"
    by (simp_all add: size_ok_def positive_int_def)
  then show ?thesis
    using assms PDict parsed_size_ok
    by (auto simp: parse_compaction_config_def compaction_ok_def Let_def elim!: bindR_InrE)
qed (use assms in \<open>auto simp: parse_compaction_config_def\<close>)

definition config_ok :: "runtime_config \<Rightarrow> bool" where
  "config_ok c = (mcp_ok (rc_mcp c) \<and> compaction_ok (rc_compaction c) \<and>
     ps_metadata_backend (rc_persistence c) = ''sqlite'' \<and> ps_event_backend (rc_persistence c) = ''sqlite'' \<and>
     ps_diagnostic_backend (rc_persistence c) = ''sqlite'' \<and>
     startswith (cl_virtual_workspace_root (rc_cli c)) ''/'' \<and>
     ''..'' \<notin> set (pp_parts (pure_path (cl_virtual_workspace_root (rc_cli c)))))"

lemma backend_sqlite: "resolve_backend d k dflt [''sqlite''] = Inr b \<Longrightarrow> b = ''sqlite''"
  by (auto simp: resolve_backend_def split: option.splits if_splits)

lemma initial_slashes_cases: "initial_slashes s = [] \<or> initial_slashes s = ''/'' \<or> initial_slashes s = ''//''"
  by (simp add: initial_slashes_def)

lemma path_parts_slashes [simp]: "path_parts (''/'' @ s) = path_parts s" "path_parts (''//'' @ s) = path_parts s"
  using path_parts_slash by simp_all

lemma virtual_root_ok:
  assumes "resolve_virtual_workspace_root d = Inr v"
  shows "startswith v ''/'' \<and> ''..'' \<notin> set (pp_parts (pure_path v))"
proof -
  obtain raw where raw: "pp_root (pure_path raw) \<noteq> []" "''..'' \<notin> set (pp_parts (pure_path raw))" "v = as_posix (pure_path raw)"
    using assms by (auto simp: resolve_virtual_workspace_root_def Let_def split: option.splits if_splits)
  then have root: "pp_root (pure_path raw) = ''/'' \<or> pp_root (pure_path raw) = ''//''"
    using initial_slashes_cases[of raw] by (auto simp: pure_path_def)
  then have v: "v = pp_root (pure_path raw) @ join_with ''/'' (pp_parts (pure_path raw))"
    using raw by (auto simp: as_posix_def Let_def)
  then have "path_parts v = pp_parts (pure_path raw)"
    using root good_parts_pure_path[of raw] by auto
  then show ?thesis using root v raw(2) by (auto simp: pure_path_def)
qed

lemma load_parts:
  assumes "load_runtime_config env path = Inr c"
  shows "\<exists>d compaction persistence metadata cli config_dir.
    resolve_mcp_config env path d = Inr (rc_mcp c) \<and> parse_compaction_config (PDict compaction) = Inr (rc_compaction c) \<and>
    parse_cli env config_dir cli = Inr (rc_cli c) \<and>
    resolve_backend persistence ''metadata_backend'' ''sqlite'' [''sqlite''] = Inr (ps_metadata_backend (rc_persistence c)) \<and>
    resolve_backend persistence ''event_backend'' metadata [''sqlite''] = Inr (ps_event_backend (rc_persistence c)) \<and>
    resolve_backend persistence ''diagnostic_backend'' metadata [''sqlite''] = Inr (ps_diagnostic_backend (rc_persistence c))"
  using assms unfolding load_runtime_config_def
  by (simp split: if_splits, elim bindR_InrE, force)

lemma parsed_cli_root:
  assumes "parse_cli env config_dir d = Inr cli"
  shows "startswith (cl_virtual_workspace_root cli) ''/'' \<and> ''..'' \<notin> set (pp_parts (pure_path (cl_virtual_workspace_root cli)))"
proof -
  have "resolve_virtual_workspace_root d = Inr (cl_virtual_workspace_root cli)"
    using assms unfolding parse_cli_def by (elim bindR_InrE) force
  then show ?thesis by (rule virtual_root_ok)
qed

section \<open>Precedence\<close>

lemma server_table_distinct:
  assumes "parse_mcp_servers_table environ source source_path v = Inr r"
  shows "distinct (map fst r)"
proof (cases v)
  case (PDict d)
  then have r: "parse_named ''mcp server names must be non-empty strings''
      (parse_server_entry environ source source_path) d [] = Inr r"
    using assms by (simp add: parse_mcp_servers_table_def)
  show ?thesis using parse_named_all[OF r, of "\<lambda>_. True"] by simp
qed (use assms in \<open>auto simp: parse_mcp_servers_table_def\<close>)

lemma json_servers_distinct:
  assumes "load_mcp_json_file env path source = Inr r"
  shows "distinct (map fst r)"
proof -
  have "r = [] \<or> (\<exists>place v. parse_mcp_servers_table (ce_environ env) source place v = Inr r)"
    using assms by (auto simp: load_mcp_json_file_def elim!: bindR_InrE split: if_splits option.splits pyval.splits)
  then show ?thesis using server_table_distinct by fastforce
qed

lemma map_of_rev_distinct: "distinct (map fst xs) \<Longrightarrow> map_of (rev xs) k = map_of xs k"
proof (cases "map_of xs k")
  case None
  then show "map_of (rev xs) k = map_of xs k" by (metis map_of_eq_None_iff set_rev)
next
  case (Some v)
  assume d: "distinct (map fst xs)"
  then have "distinct (map fst (rev xs))" by (simp add: rev_map[symmetric])
  then have "map_of (rev xs) k = Some v" using Some map_of_eq_Some_iff d by (metis set_rev)
  then show "map_of (rev xs) k = map_of xs k" using Some by simp
qed

text \<open>A server of the runtime's file wins over the project's \<open>.mcp.json\<close>, which wins over \<open>.deepagents/.mcp.json\<close>.\<close>

lemma nearer_source_wins:
  assumes "load_mcp_json_file env (discover_project_root env (butlast path) @ [''.deepagents'', ''.mcp.json''])
      ''project_deepagents_mcp_json'' = Inr agents"
    and "load_mcp_json_file env (discover_project_root env (butlast path) @ [''.mcp.json'']) ''project_root_mcp_json'' = Inr project"
    and "parse_mcp_servers_table (ce_environ env) ''runtime_toml'' (host_str (ce_resolve env path)) (dict_get d ''servers'') = Inr own"
    and "resolve_mcp_config env path d = Inr m"
  shows "map_of (mc_servers m) n = (case map_of own n of Some s \<Rightarrow> Some s
     | None \<Rightarrow> (case map_of project n of Some s \<Rightarrow> Some s | None \<Rightarrow> map_of agents n))"
proof -
  have "mc_servers m = dict_update (dict_update (dict_update [] agents) project) own"
    using assms by (auto simp: resolve_mcp_config_def Let_def elim!: bindR_InrE split: option.splits)
  then show ?thesis
    using json_servers_distinct[OF assms(1)] json_servers_distinct[OF assms(2)] server_table_distinct[OF assms(3)]
    by (simp add: map_of_dict_update map_of_rev_distinct split: option.splits)
qed

section \<open>Property\<close>

text \<open>
  C26. A configuration that loads is consistent, whatever the files and the environment hold: every MCP server is reached
  either by a command over stdio or by a URL over another transport, asks for an OAuth grant exactly if it names a
  provider, and then a known one and no headers of its own; every provider has the endpoints it needs; the compaction limits
  are positive counts or fractions; the backends are the supported ones and the virtual root is absolute without \<open>..\<close>.
\<close>

theorem loaded_configuration_is_consistent:
  assumes "load_runtime_config env path = Inr c"
  shows "config_ok c"
  using load_parts[OF assms] resolved_mcp_ok parsed_compaction_ok backend_sqlite parsed_cli_root
  unfolding config_ok_def by blast

definition sample_toml :: pydict where
  "sample_toml =
    [(''runtime'', PDict [(''name'', PStr ''rt'')]), (''transport'', PDict [(''mode'', PStr ''stdio'')]),
     (''identity'', PDict [(''path'', PStr ''id.md'')]),
     (''models'', PDict [(''primary'', PDict [(''provider'', PStr ''p''), (''model'', PStr ''m'')])]),
     (''mcp'', PDict [
       (''servers'', PDict [(''s'', PDict [(''url'', PStr ''https://h/${X}''), (''transport'', PStr ''sse''),
          (''auth'', PDict [(''mode'', PStr ''oauth_user_grant''), (''provider'', PStr ''o'')])])]),
       (''oauth_providers'', PDict [(''o'', PDict [(''discovery_url'', PStr ''https://d''), (''client_id'', PStr ''c''),
          (''client_secret'', PStr ''${X}''), (''redirect_uri'', PStr ''r'')])])])]"

definition sample_config_env :: config_env where
  "sample_config_env = \<lparr>ce_environ = (\<lambda>n. if n = ''X'' then Some ''value'' else None), ce_is_file = (\<lambda>p. p = [''c.toml'']),
     ce_exists = (\<lambda>_. False), ce_text = (\<lambda>_. Inr []), ce_toml = (\<lambda>_. Inr sample_toml), ce_expanduser = Inr,
     ce_resolve = (\<lambda>p. p), ce_home = [''home'']\<rparr>"

theorem loaded_configuration_is_consistent_witness:
  "\<exists>c. load_runtime_config sample_config_env [''c.toml''] = Inr c \<and> length (mc_servers (rc_mcp c)) = 1 \<and> config_ok c"
proof -
  have "case load_runtime_config sample_config_env [''c.toml''] of Inr c \<Rightarrow> length (mc_servers (rc_mcp c)) = 1 | Inl e \<Rightarrow> False"
    by code_simp
  then obtain c where "load_runtime_config sample_config_env [''c.toml''] = Inr c" "length (mc_servers (rc_mcp c)) = 1"
    by (auto split: sum.splits)
  then show ?thesis using loaded_configuration_is_consistent by blast
qed

end
