(* ===== verification/Remote_Auth.thy ===== *)
theory Remote_Auth
  imports Config_Models Boundary_Scope Effects
begin

text \<open>
  \<open>services/remote_mcp_auth_service\<close>: OAuth grants for remote MCP servers. A user starts an authorization for a
  server, the provider sends a code back to the client, and completing the authorization exchanges the code for a grant,
  from which the headers of later connections are made.

  The locale \<open>grant_store\<close> is the protocol class \<open>RemoteMCPGrantStore\<close> with its laws; both stores of the code
  interpret it. The service is modelled on the SQLite store, as the runtime builds it. An instant is a number of seconds:
  \<open>expires_at\<close> is cut to whole seconds, so comparing it with the clock does not depend on fractions. The provider
  (\<open>ae_fetch\<close>, \<open>ae_post\<close>), \<open>uuid4\<close>, the digest behind the state token and \<open>urlencode\<close> are parameters.
\<close>

section \<open>Grants and pending authorizations\<close>

record mcp_grant =
  ag_provider_id :: string
  ag_runtime_user_id :: string
  ag_access_token :: string
  ag_refresh_token :: "string option"
  ag_token_type :: string
  ag_scopes :: "string list"
  ag_expires_at :: "int option"
  ag_account_key :: string
  ag_status :: string

record pending_authorization =
  pa_authorization_id :: string
  pa_server_name :: string
  pa_provider_id :: string
  pa_runtime_user_id :: string
  pa_state_token :: string
  pa_authorization_url :: string
  pa_created_at :: string
  pa_run_id :: "string option"
  pa_task_id :: "string option"

type_synonym grant_key = "string \<times> string"

definition grant_key :: "mcp_grant \<Rightarrow> grant_key" where
  "grant_key g = (ag_provider_id g, ag_runtime_user_id g)"

record grant_db =
  gd_grants :: "(grant_key, mcp_grant) table"
  gd_pending :: "(string, pending_authorization) table"

definition empty_grants :: grant_db where
  "empty_grants = \<lparr>gd_grants = [], gd_pending = []\<rparr>"

text \<open>\<open>str.split(" ")\<close> without the empty items, as both the token reader and the store use it.\<close>

definition scope_items :: "string \<Rightarrow> string list" where
  "scope_items s = filter (\<lambda>x. x \<noteq> []) (split_on CHR '' '' s)"

subsection \<open>\<open>SQLiteRemoteMCPGrantStore\<close>\<close>

text \<open>What a grant reads as after its row was written: the scopes are one text column.\<close>

definition grant_row :: "mcp_grant \<Rightarrow> mcp_grant" where
  "grant_row g = g\<lparr>ag_scopes := scope_items (join_with '' '' (ag_scopes g))\<rparr>"

definition sql_save_grant :: "mcp_grant \<Rightarrow> grant_db \<Rightarrow> grant_db" where
  "sql_save_grant g s = s\<lparr>gd_grants := tbl_upsert (grant_key g) (grant_row g) (gd_grants s)\<rparr>"

definition sql_get_grant :: "grant_db \<Rightarrow> string \<Rightarrow> string \<Rightarrow> mcp_grant option" where
  "sql_get_grant s provider user = tbl_get (gd_grants s) (provider, user)"

definition sql_revoke_grant :: "string \<Rightarrow> string \<Rightarrow> grant_db \<Rightarrow> grant_db" where
  "sql_revoke_grant provider user s = s\<lparr>gd_grants := map (\<lambda>(k, g).
     (k, if k = (provider, user) then g\<lparr>ag_status := ''revoked''\<rparr> else g)) (gd_grants s)\<rparr>"

definition sql_save_pending :: "pending_authorization \<Rightarrow> grant_db \<Rightarrow> grant_db" where
  "sql_save_pending a s = s\<lparr>gd_pending := tbl_replace (pa_authorization_id a) a (gd_pending s)\<rparr>"

definition sql_get_pending :: "grant_db \<Rightarrow> string \<Rightarrow> pending_authorization option" where
  "sql_get_pending s i = tbl_get (gd_pending s) i"

definition sql_delete_pending :: "string \<Rightarrow> grant_db \<Rightarrow> grant_db" where
  "sql_delete_pending i s = s\<lparr>gd_pending := tbl_delete i (gd_pending s)\<rparr>"

subsection \<open>\<open>InMemoryRemoteMCPGrantStore\<close>\<close>

definition mem_save_grant :: "mcp_grant \<Rightarrow> grant_db \<Rightarrow> grant_db" where
  "mem_save_grant g s = s\<lparr>gd_grants := AList.update (grant_key g) g (gd_grants s)\<rparr>"

definition mem_revoke_grant :: "string \<Rightarrow> string \<Rightarrow> grant_db \<Rightarrow> grant_db" where
  "mem_revoke_grant provider user s = (case map_of (gd_grants s) (provider, user) of
     None \<Rightarrow> s
   | Some g \<Rightarrow> s\<lparr>gd_grants := AList.update (provider, user) (g\<lparr>ag_status := ''revoked''\<rparr>) (gd_grants s)\<rparr>)"

definition mem_get_grant :: "grant_db \<Rightarrow> string \<Rightarrow> string \<Rightarrow> mcp_grant option" where
  "mem_get_grant s provider user = map_of (gd_grants s) (provider, user)"

definition mem_save_pending :: "pending_authorization \<Rightarrow> grant_db \<Rightarrow> grant_db" where
  "mem_save_pending a s = s\<lparr>gd_pending := AList.update (pa_authorization_id a) a (gd_pending s)\<rparr>"

definition mem_get_pending :: "grant_db \<Rightarrow> string \<Rightarrow> pending_authorization option" where
  "mem_get_pending s i = map_of (gd_pending s) i"

definition mem_delete_pending :: "string \<Rightarrow> grant_db \<Rightarrow> grant_db" where
  "mem_delete_pending i s = s\<lparr>gd_pending := AList.delete i (gd_pending s)\<rparr>"

subsection \<open>The contract\<close>

locale grant_store =
  fixes save :: "mcp_grant \<Rightarrow> 's \<Rightarrow> 's"
    and get :: "'s \<Rightarrow> string \<Rightarrow> string \<Rightarrow> mcp_grant option"
    and revoke :: "string \<Rightarrow> string \<Rightarrow> 's \<Rightarrow> 's"
    and put_pending :: "pending_authorization \<Rightarrow> 's \<Rightarrow> 's"
    and get_pending :: "'s \<Rightarrow> string \<Rightarrow> pending_authorization option"
    and drop_pending :: "string \<Rightarrow> 's \<Rightarrow> 's"
    and stored :: "mcp_grant \<Rightarrow> mcp_grant"
  assumes get_save: "get (save g s) p u = (if (p, u) = grant_key g then Some (stored g) else get s p u)"
    and get_revoke: "get (revoke p u s) p' u' =
      (if (p', u') = (p, u) then map_option (\<lambda>g. g\<lparr>ag_status := ''revoked''\<rparr>) (get s p u) else get s p' u')"
    and get_put_pending: "get (put_pending a s) p u = get s p u"
    and get_drop_pending: "get (drop_pending i s) p u = get s p u"
    and pending_save: "get_pending (save g s) i = get_pending s i"
    and pending_revoke: "get_pending (revoke p u s) i = get_pending s i"
    and pending_put: "get_pending (put_pending a s) i = (if i = pa_authorization_id a then Some a else get_pending s i)"
    and pending_drop: "get_pending (drop_pending j s) i = (if i = j then None else get_pending s i)"
    and stored_same: "ag_status (stored g) = ag_status g" "ag_access_token (stored g) = ag_access_token g"
      "ag_provider_id (stored g) = ag_provider_id g" "ag_runtime_user_id (stored g) = ag_runtime_user_id g"
begin

lemma revoked_is_not_authorized: "get (revoke p u s) p u = Some g \<Longrightarrow> ag_status g = ''revoked''"
  by (auto simp: get_revoke)

lemma saved_is_read: "get (save g s) (ag_provider_id g) (ag_runtime_user_id g) = Some (stored g)"
  by (simp add: get_save grant_key_def)

lemma revoke_keeps_others: "(p', u') \<noteq> (p, u) \<Longrightarrow> get (revoke p u s) p' u' = get s p' u'"
  by (auto simp: get_revoke)

lemma dropped_pending_is_gone: "get_pending (drop_pending i s) i = None"
  by (simp add: pending_drop)

end

lemma tbl_get_map_row:
  "tbl_get (map (\<lambda>(k, g). (k, if k = key then f g else g)) t) k = (if k = key then map_option f (tbl_get t k) else tbl_get t k)"
  by (induction t) (auto simp: tbl_get_def)

interpretation sql_grants: grant_store sql_save_grant sql_get_grant sql_revoke_grant sql_save_pending sql_get_pending
    sql_delete_pending grant_row
  by unfold_locales
    (auto simp: sql_save_grant_def sql_get_grant_def sql_revoke_grant_def sql_save_pending_def sql_get_pending_def
      sql_delete_pending_def grant_row_def tbl_get_map_row)

interpretation mem_grants: grant_store mem_save_grant mem_get_grant mem_revoke_grant mem_save_pending mem_get_pending
    mem_delete_pending "\<lambda>g. g"
  by unfold_locales
    (auto simp: mem_save_grant_def mem_get_grant_def mem_revoke_grant_def mem_save_pending_def mem_get_pending_def
      mem_delete_pending_def update_conv' delete_conv' split: option.splits)

section \<open>The service\<close>

record auth_world =
  aw_store :: grant_db
  aw_events :: "(string \<times> pydict) list"
  aw_tick :: nat

record auth_env =
  ae_mcp :: mcp_config
  ae_now :: "nat \<Rightarrow> int"
  ae_timestamp :: "nat \<Rightarrow> string"
  ae_uuid :: "nat \<Rightarrow> string"
  ae_state_token :: "string \<Rightarrow> string"
  ae_urlencode :: "(string \<times> string) list \<Rightarrow> string"
  ae_fetch :: "nat \<Rightarrow> string \<Rightarrow> pyval result"
  ae_post :: "nat \<Rightarrow> string \<Rightarrow> (string \<times> string) list \<Rightarrow> pydict result"
  ae_govern :: "(operation_context \<Rightarrow> unit result) option"

type_synonym 'a auth_act = "(auth_world, 'a) act"

definition at_tick :: "(nat \<Rightarrow> 'a) \<Rightarrow> 'a auth_act" where
  "at_tick f = (\<lambda>w. (Inr (f (aw_tick w)), w\<lparr>aw_tick := Suc (aw_tick w)\<rparr>))"

definition auth_emit :: "string \<Rightarrow> pydict \<Rightarrow> unit auth_act" where
  "auth_emit e payload = modS (\<lambda>w. w\<lparr>aw_events := aw_events w @ [(e, payload)]\<rparr>)"

definition on_store :: "(grant_db \<Rightarrow> grant_db) \<Rightarrow> unit auth_act" where
  "on_store f = modS (\<lambda>w. w\<lparr>aw_store := f (aw_store w)\<rparr>)"

text \<open>\<open>_resolve_provider_endpoint\<close>: the configured URL, or the one the provider's discovery document names.\<close>

definition provider_endpoint :: "auth_env \<Rightarrow> oauth_provider \<Rightarrow> string \<Rightarrow> string auth_act" where
  "provider_endpoint env p endpoint =
     (if endpoint = ''authorization'' \<and> op_authorization_url p \<noteq> None then ret (the (op_authorization_url p))
      else if endpoint = ''token'' \<and> op_token_url p \<noteq> None then ret (the (op_token_url p))
      else (case op_discovery_url p of
          None \<Rightarrow> raise (ValueError (''OAuth provider '' @ op_provider_id p @ '' has no '' @ endpoint @ '' endpoint''))
        | Some url \<Rightarrow>
            (let key = (if endpoint = ''authorization'' then ''authorization_endpoint'' else ''token_endpoint'') in
             bindA (at_tick (\<lambda>n. ae_fetch env n url)) (\<lambda>answer. bindA (liftR answer) (\<lambda>payload.
             case payload of
               PDict d \<Rightarrow> (case nonblank_str (dict_get d key) of
                   Some v \<Rightarrow> ret (py_strip v)
                 | None \<Rightarrow> raise (ValueError (''OAuth discovery for '' @ op_provider_id p @ '' did not include '' @ key)))
             | _ \<Rightarrow> raise (OtherException ''object has no attribute get''))))))"

definition post_form :: "auth_env \<Rightarrow> oauth_provider \<Rightarrow> (string \<times> string) list \<Rightarrow> pydict auth_act" where
  "post_form env p form = bindA (provider_endpoint env p ''token'') (\<lambda>url.
     bindA (at_tick (\<lambda>n. ae_post env n url form)) liftR)"

definition exchange_code :: "auth_env \<Rightarrow> oauth_provider \<Rightarrow> string \<Rightarrow> pydict auth_act" where
  "exchange_code env p code = post_form env p
     [(''grant_type'', ''authorization_code''), (''code'', code), (''redirect_uri'', op_redirect_uri p),
      (''client_id'', op_client_id p), (''client_secret'', op_client_secret p)]"

definition refresh_token :: "auth_env \<Rightarrow> oauth_provider \<Rightarrow> string \<Rightarrow> pydict auth_act" where
  "refresh_token env p token = post_form env p
     [(''grant_type'', ''refresh_token''), (''refresh_token'', token), (''client_id'', op_client_id p),
      (''client_secret'', op_client_secret p)]"

definition server_named :: "auth_env \<Rightarrow> string \<Rightarrow> mcp_server result" where
  "server_named env n = (case map_of (mc_servers (ae_mcp env)) n of
     None \<Rightarrow> Inl (KeyError (''unknown MCP server: '' @ n)) | Some s \<Rightarrow> Inr s)"

definition provider_of :: "auth_env \<Rightarrow> mcp_server \<Rightarrow> oauth_provider result" where
  "provider_of env s = (case ma_provider (sv_auth s) of
     None \<Rightarrow> Inl (ValueError (''MCP server '' @ sv_name s @ '' is not configured for oauth_user_grant''))
   | Some i \<Rightarrow> (case map_of (mc_oauth_providers (ae_mcp env)) i of
       None \<Rightarrow> Inl (ValueError (''unknown oauth provider: '' @ i)) | Some p \<Rightarrow> Inr p))"

definition auth_govern ::
    "auth_env \<Rightarrow> string \<Rightarrow> string option \<Rightarrow> string option \<Rightarrow> string \<Rightarrow> string \<Rightarrow> string option \<Rightarrow> unit auth_act" where
  "auth_govern env op task run server provider target = (case (ae_govern env, task, run) of
     (Some govern, Some t, Some r) \<Rightarrow> liftR (govern
       \<lparr>oc_task_id = t, oc_run_id = r, oc_operation_type = op, oc_path_scope = target, oc_command_class = None,
        oc_memory_scope = None, oc_namespace = None, oc_agent_role = None,
        oc_metadata = Some [(''server_name'', PStr server), (''provider_id'', PStr provider)]\<rparr>)
   | _ \<Rightarrow> ret ())"

definition authorization_params :: "oauth_provider \<Rightarrow> string \<Rightarrow> (string \<times> string) list" where
  "authorization_params p token =
     [(''response_type'', ''code''), (''client_id'', op_client_id p), (''redirect_uri'', op_redirect_uri p),
      (''state'', token)]
     @ (if op_scopes p = [] then [] else [(''scope'', join_with '' '' (op_scopes p))])
     @ (case op_audience p of None \<Rightarrow> [] | Some a \<Rightarrow> [(''audience'', a)])
     @ (case op_resource p of None \<Rightarrow> [] | Some r \<Rightarrow> [(''resource'', r)])"

definition start_authorization ::
    "auth_env \<Rightarrow> string option \<Rightarrow> string option \<Rightarrow> string \<Rightarrow> string \<Rightarrow> pending_authorization auth_act" where
  "start_authorization env task run server_name user =
     bindA (liftR (server_named env server_name)) (\<lambda>server.
     bindA (liftR (provider_of env server)) (\<lambda>p.
     bindA (at_tick (ae_uuid env)) (\<lambda>hex.
     let i = ''mcpauth_'' @ hex; token = ae_state_token env i in
     bindA (provider_endpoint env p ''authorization'') (\<lambda>url.
     bindA (at_tick (ae_timestamp env)) (\<lambda>now.
     let a = \<lparr>pa_authorization_id = i, pa_server_name = server_name, pa_provider_id = op_provider_id p,
              pa_runtime_user_id = user, pa_state_token = token,
              pa_authorization_url = url @ ''?'' @ ae_urlencode env (authorization_params p token),
              pa_created_at = now, pa_run_id = run, pa_task_id = task\<rparr> in
     thenA (on_store (sql_save_pending a))
     (thenA (auth_govern env ''remote_mcp.auth.start'' task run server_name (op_provider_id p) None)
     (thenA (auth_emit ''remote_mcp.auth.started''
        [(''server_name'', PStr server_name), (''provider_id'', PStr (op_provider_id p))])
       (ret a))))))))"

text \<open>\<open>_grant_from_token_payload\<close>.\<close>

definition expires_in :: "pyval \<Rightarrow> int option" where
  "expires_in v = (case v of PInt n \<Rightarrow> if 0 < n then Some n else None | PBool True \<Rightarrow> Some 1 | _ \<Rightarrow> None)"

definition grant_from_token :: "auth_env \<Rightarrow> string \<Rightarrow> string \<Rightarrow> pydict \<Rightarrow> mcp_grant auth_act" where
  "grant_from_token env provider user d = (case nonblank_str (dict_get d ''access_token'') of
     None \<Rightarrow> raise (ValueError ''OAuth token response did not include access_token'')
   | Some access \<Rightarrow>
       bindA (case expires_in (dict_get d ''expires_in'') of None \<Rightarrow> ret None
         | Some n \<Rightarrow> bindA (at_tick (ae_now env)) (\<lambda>now. ret (Some (now + n)))) (\<lambda>expiry.
       ret \<lparr>ag_provider_id = provider, ag_runtime_user_id = user, ag_access_token = py_strip access,
            ag_refresh_token = map_option py_strip (nonblank_str (dict_get d ''refresh_token'')),
            ag_token_type = str_or (dict_get d ''token_type'') ''Bearer'',
            ag_scopes = scope_items (str_or (dict_get d ''scope'') []), ag_expires_at = expiry,
            ag_account_key = ''default'', ag_status = ''authorized''\<rparr>))"

definition complete_authorization :: "auth_env \<Rightarrow> string \<Rightarrow> string \<Rightarrow> string \<Rightarrow> mcp_grant auth_act" where
  "complete_authorization env i token code =
     bindA (getS (\<lambda>w. sql_get_pending (aw_store w) i)) (\<lambda>found. case found of
       None \<Rightarrow> raise (ValueError ''unknown remote MCP authorization request'')
     | Some pending \<Rightarrow>
         if pa_state_token pending \<noteq> token
         then raise (ValueError ''remote MCP authorization state token mismatch'')
         else
         bindA (liftR (case map_of (mc_oauth_providers (ae_mcp env)) (pa_provider_id pending) of
             None \<Rightarrow> Inl (KeyError (pa_provider_id pending)) | Some p \<Rightarrow> Inr p)) (\<lambda>p.
         bindA (provider_endpoint env p ''token'') (\<lambda>target.
         thenA (auth_govern env ''remote_mcp.auth.complete'' (pa_task_id pending) (pa_run_id pending)
            (pa_server_name pending) (pa_provider_id pending) (Some target))
         (bindA (exchange_code env p code) (\<lambda>payload.
          bindA (grant_from_token env (op_provider_id p) (pa_runtime_user_id pending) payload) (\<lambda>g.
          thenA (on_store (sql_save_grant g))
          (thenA (on_store (sql_delete_pending i))
          (thenA (auth_emit ''remote_mcp.auth.completed''
             [(''server_name'', PStr (pa_server_name pending)), (''provider_id'', PStr (op_provider_id p))])
            (ret g)))))))))"

definition revoke_authorization :: "string \<Rightarrow> string \<Rightarrow> unit auth_act" where
  "revoke_authorization provider user = thenA (on_store (sql_revoke_grant provider user))
     (auth_emit ''remote_mcp.auth.revoked'' [(''provider_id'', PStr provider)])"

section \<open>Headers for a connection\<close>

definition authorization_required_state :: "string \<Rightarrow> string \<Rightarrow> string \<Rightarrow> string \<Rightarrow> string option \<Rightarrow> remote_auth_state" where
  "authorization_required_state server provider task run summary =
     (let ids = [(''task_id'', PStr task), (''run_id'', PStr run)] in
      \<lparr>au_server_name = server, au_provider_id = provider, au_status = ''authorization_required'',
       au_summary = or_default summary (''Remote MCP server '' @ server @ '' requires authorization for provider '' @ provider @ ''.''),
       au_actions = [\<lparr>ra_action_id = ''authorize_remote_mcp'', ra_method = ''remote_mcp.authorize.start'',
           ra_title = ''Authorize remote MCP'', ra_params = ids @ [(''server_name'', PStr server)]\<rparr>,
         \<lparr>ra_action_id = ''retry_remote_mcp_connect'', ra_method = ''task.resume'',
           ra_title = ''Retry after authorization'', ra_params = ids\<rparr>]\<rparr>)"

definition reauthorization_required_state :: "string \<Rightarrow> string \<Rightarrow> string \<Rightarrow> string \<Rightarrow> remote_auth_state" where
  "reauthorization_required_state server provider task run =
     \<lparr>au_server_name = server, au_provider_id = provider, au_status = ''expired'',
      au_summary = ''Remote MCP server '' @ server @ '' requires reauthorization for provider '' @ provider @ ''.'',
      au_actions = [\<lparr>ra_action_id = ''reauthorize_remote_mcp'', ra_method = ''remote_mcp.reauthorize'',
          ra_title = ''Reauthorize remote MCP'',
          ra_params = [(''task_id'', PStr task), (''run_id'', PStr run), (''server_name'', PStr server)]\<rparr>,
        \<lparr>ra_action_id = ''complete_remote_mcp_authorization'', ra_method = ''remote_mcp.authorize.complete'',
          ra_title = ''Complete remote MCP authorization'', ra_params = []\<rparr>]\<rparr>"

text \<open>The headers, or the \<open>AuthorizationRequiredError\<close> with its state.\<close>

datatype headers_answer = Headers str_map | AuthorizationRequired remote_auth_state

definition is_expired :: "auth_env \<Rightarrow> mcp_grant \<Rightarrow> bool auth_act" where
  "is_expired env g = (case ag_expires_at g of None \<Rightarrow> ret False
     | Some t \<Rightarrow> bindA (at_tick (ae_now env)) (\<lambda>now. ret (t \<le> now)))"

definition bearer :: "mcp_grant \<Rightarrow> headers_answer" where
  "bearer g = Headers [(''Authorization'', ''Bearer '' @ ag_access_token g)]"

definition refresh_grant ::
    "auth_env \<Rightarrow> mcp_server \<Rightarrow> oauth_provider \<Rightarrow> string \<Rightarrow> string \<Rightarrow> string \<Rightarrow> mcp_grant \<Rightarrow> string \<Rightarrow> headers_answer auth_act" where
  "refresh_grant env server p user task run g token =
     bindA (provider_endpoint env p ''token'') (\<lambda>target.
     thenA (auth_govern env ''remote_mcp.auth.refresh'' (Some task) (Some run) (sv_name server) (op_provider_id p) (Some target))
     (bindA (refresh_token env p token) (\<lambda>payload.
      bindA (grant_from_token env (op_provider_id p) user payload) (\<lambda>fresh.
      let new = dict_get payload ''refresh_token'';
          g' = fresh\<lparr>ag_refresh_token := (if py_truthy new then Some (py_str new) else ag_refresh_token g)\<rparr> in
      thenA (on_store (sql_save_grant g'))
      (thenA (auth_emit ''remote_mcp.auth.refreshed''
         [(''server_name'', PStr (sv_name server)), (''provider_id'', PStr (op_provider_id p))])
        (ret (bearer g')))))))"

definition resolve_authorization_headers ::
    "auth_env \<Rightarrow> mcp_server \<Rightarrow> string \<Rightarrow> string \<Rightarrow> string \<Rightarrow> headers_answer auth_act" where
  "resolve_authorization_headers env server user task run =
     (if ma_mode (sv_auth server) = ''static_headers'' then ret (Headers (sv_headers server)) else
      bindA (liftR (provider_of env server)) (\<lambda>p.
      bindA (getS (\<lambda>w. sql_get_grant (aw_store w) (op_provider_id p) user)) (\<lambda>found.
      let required = ret (AuthorizationRequired
            (authorization_required_state (sv_name server) (op_provider_id p) task run None)) in
      case found of
        None \<Rightarrow> required
      | Some g \<Rightarrow>
          if ag_status g \<noteq> ''authorized'' then required
          else bindA (is_expired env g) (\<lambda>expired.
            if \<not> expired then ret (bearer g)
            else (case ag_refresh_token g of
                Some token \<Rightarrow>
                  if token = [] then ret (AuthorizationRequired
                    (reauthorization_required_state (sv_name server) (op_provider_id p) task run))
                  else refresh_grant env server p user task run g token
              | None \<Rightarrow> ret (AuthorizationRequired
                  (reauthorization_required_state (sv_name server) (op_provider_id p) task run)))))))"

text \<open>\<open>RemoteMCPConnectionResolver.headers_for_server\<close>; the runtime always gives it the service.\<close>

definition headers_for_server ::
    "auth_env \<Rightarrow> mcp_server \<Rightarrow> string option \<Rightarrow> string \<Rightarrow> string \<Rightarrow> headers_answer auth_act" where
  "headers_for_server env server user task run =
     (if ma_mode (sv_auth server) = ''static_headers'' then ret (Headers (sv_headers server))
      else (case user of
          None \<Rightarrow> ret (AuthorizationRequired (authorization_required_state (sv_name server)
            (or_default (ma_provider (sv_auth server)) ''unknown'') task run
            (Some ''Remote MCP authorization requires runtime_user_id.'')))
        | Some u \<Rightarrow> resolve_authorization_headers env server u task run))"

end
