(* ===== verification/Remote_Consent.thy ===== *)
theory Remote_Consent
  imports Remote_Auth
begin

text \<open>
  What the authorization service guarantees: a bearer token is sent to a remote server for a user only after that user
  started an authorization and it was completed with its state token, and not after the grant was revoked.
\<close>

section \<open>Steps that leave the store alone\<close>

definition quiet :: "'a auth_act \<Rightarrow> bool" where
  "quiet m \<longleftrightarrow> (\<forall>s. keeps (\<lambda>w. aw_store w = s) m)"

lemma quietD: "quiet m \<Longrightarrow> m w = (r, w') \<Longrightarrow> aw_store w' = aw_store w"
  by (auto simp: quiet_def keeps_def dest: spec[of _ "aw_store w"] spec[of _ w])

lemma quiet_rules [intro]:
  "quiet (ret x)" "quiet (raise e)" "quiet (liftR r)" "quiet (getS f)" "quiet (at_tick h)" "quiet (auth_emit t d)"
  by (auto simp: quiet_def keeps_def at_tick_def auth_emit_def)

lemma quiet_bind [intro]: "quiet m \<Longrightarrow> (\<And>x. quiet (f x)) \<Longrightarrow> quiet (bindA m f)"
  by (auto simp: quiet_def intro: keeps_bind)

lemma quiet_then [intro]: "quiet m \<Longrightarrow> quiet n \<Longrightarrow> quiet (thenA m n)"
  by (auto simp: thenA_def)

lemma quiet_endpoint [intro]: "quiet (provider_endpoint env p e)"
  by (auto simp: provider_endpoint_def Let_def split: option.splits pyval.splits intro!: quiet_bind)

lemma quiet_govern [intro]: "quiet (auth_govern env op task run server provider target)"
  by (auto simp: auth_govern_def split: option.splits)

lemma quiet_post [intro]: "quiet (post_form env p form)"
  by (auto simp: post_form_def)

lemma quiet_tokens [intro]: "quiet (exchange_code env p code)" "quiet (refresh_token env p token)"
  "quiet (grant_from_token env provider user d)" "quiet (is_expired env g)"
  by (auto simp: exchange_code_def refresh_token_def grant_from_token_def is_expired_def
      simp del: bindA_ret split: option.splits intro!: quiet_bind)

lemma grant_from_token_Inr:
  assumes "grant_from_token env provider user d w = (Inr g, w')"
  shows "ag_provider_id g = provider \<and> ag_runtime_user_id g = user \<and> ag_status g = ''authorized''"
  using assms by (auto simp: grant_from_token_def bindA_Inr split: option.splits)

section \<open>What the operations do to the store\<close>

lemma bind_quietE:
  assumes "bindA m f w = (r, w')" and "quiet m"
  obtains (fails) e where "r = Inl e" "aw_store w' = aw_store w"
  | (goes_on) x w1 where "m w = (Inr x, w1)" "aw_store w1 = aw_store w" "f x w1 = (r, w')"
  using assms quietD[OF assms(2)] by (cases "m w"; cases "fst (m w)") (auto simp: bindA_run)

lemma then_quietE:
  assumes "thenA m n w = (r, w')" and "quiet m"
  obtains (fails) e where "r = Inl e" "aw_store w' = aw_store w"
  | (goes_on) x w1 where "m w = (Inr x, w1)" "aw_store w1 = aw_store w" "n w1 = (r, w')"
  using assms unfolding thenA_def by (rule bind_quietE) blast+

lemma then_store:
  "thenA (on_store f) m w = (r, w') \<Longrightarrow> quiet m \<Longrightarrow> aw_store w' = f (aw_store w)"
  by (auto simp: thenA_run on_store_def dest!: quietD)

lemma start_store:
  assumes "start_authorization env task run server user w = (r, w')"
  shows "aw_store w' = aw_store w \<or>
    (\<exists>a. aw_store w' = sql_save_pending a (aw_store w) \<and> pa_runtime_user_id a = user \<and> pa_server_name a = server)"
  using assms unfolding start_authorization_def Let_def
  by (elim bind_quietE)
    ((simp; fail) | (blast; fail) | (drule then_store, blast, rule disjI2, rule exI, rule conjI, simp, simp))+

lemma complete_store:
  assumes "complete_authorization env i token code w = (r, w')"
  shows "case r of Inl e \<Rightarrow> aw_store w' = aw_store w
    | Inr g \<Rightarrow> \<exists>a. sql_get_pending (aw_store w) i = Some a \<and> pa_state_token a = token \<and>
        ag_runtime_user_id g = pa_runtime_user_id a \<and> ag_status g = ''authorized'' \<and>
        aw_store w' = sql_delete_pending i (sql_save_grant g (aw_store w))"
proof (cases "sql_get_pending (aw_store w) i")
  case None
  then show ?thesis using assms by (auto simp: complete_authorization_def bindA_run)
next
  case (Some a)
  show ?thesis
  proof (cases "pa_state_token a = token")
    case False
    then show ?thesis using assms Some by (auto simp: complete_authorization_def bindA_run)
  next
    case True
    show ?thesis
      using assms unfolding complete_authorization_def bindA_run[of "getS _"]
      by (simp add: Some True)
        (erule bind_quietE, blast, simp, erule bind_quietE, blast, simp, erule then_quietE, blast, simp,
          erule bind_quietE, blast, simp, erule bind_quietE, blast, simp,
          auto simp: Some True thenA_run on_store_def auth_emit_def dest: grant_from_token_Inr)
  qed
qed

lemma refresh_store:
  assumes "refresh_grant env server p user task run g token w = (r, w')"
  shows "aw_store w' = aw_store w \<or> (\<exists>g'. aw_store w' = sql_save_grant g' (aw_store w) \<and>
    grant_key g' = (op_provider_id p, user))"
  using assms unfolding refresh_grant_def Let_def
  by (elim bind_quietE)
    (blast, simp, erule then_quietE, blast, simp, erule bind_quietE, blast, simp, erule bind_quietE, blast, simp,
      drule then_store, blast, drule grant_from_token_Inr, rule disjI2, rule exI, rule conjI, simp,
      simp add: grant_key_def)

text \<open>A connection with OAuth: either no header is sent, or there is an authorized grant, which may be refreshed.\<close>

lemma resolve_headers:
  assumes "resolve_authorization_headers env server user task run w = (r, w')"
    and "ma_mode (sv_auth server) \<noteq> ''static_headers''"
  shows "(aw_store w' = aw_store w \<and> (\<forall>h. r \<noteq> Inr (Headers h))) \<or>
    (\<exists>p g. provider_of env server = Inr p \<and> sql_get_grant (aw_store w) (op_provider_id p) user = Some g \<and>
      ag_status g = ''authorized'' \<and> (aw_store w' = aw_store w \<or>
      (\<exists>g'. aw_store w' = sql_save_grant g' (aw_store w) \<and> grant_key g' = (op_provider_id p, user))))"
proof (cases "provider_of env server")
  case (Inl e)
  then show ?thesis using assms by (auto simp: resolve_authorization_headers_def bindA_run)
next
  case (Inr p)
  show ?thesis
  proof (cases "\<exists>g. sql_get_grant (aw_store w) (op_provider_id p) user = Some g \<and> ag_status g = ''authorized''")
    case False
    then have "aw_store w' = aw_store w \<and> (\<forall>h. r \<noteq> Inr (Headers h))"
      using assms Inr by (auto simp: resolve_authorization_headers_def bindA_run Let_def split: option.splits if_split_asm)
    then show ?thesis by blast
  next
    case True
    then obtain g where g: "sql_get_grant (aw_store w) (op_provider_id p) user = Some g" "ag_status g = ''authorized''" by blast
    have "aw_store w' = aw_store w \<or> (\<exists>g'. aw_store w' = sql_save_grant g' (aw_store w) \<and>
        grant_key g' = (op_provider_id p, user))"
    proof -
      have "bindA (is_expired env g) (\<lambda>expired. if \<not> expired then ret (bearer g)
          else (case ag_refresh_token g of
              Some token \<Rightarrow> if token = [] then ret (AuthorizationRequired
                  (reauthorization_required_state (sv_name server) (op_provider_id p) task run))
                else refresh_grant env server p user task run g token
            | None \<Rightarrow> ret (AuthorizationRequired
                (reauthorization_required_state (sv_name server) (op_provider_id p) task run)))) w = (r, w')"
        using assms Inr g by (simp add: resolve_authorization_headers_def bindA_run[of "liftR _"] bindA_run[of "getS _"] Let_def)
      then show ?thesis
      proof (rule bind_quietE)
        fix x w1 assume "aw_store w1 = aw_store w" and
          "(if \<not> x then ret (bearer g)
            else (case ag_refresh_token g of
              Some token \<Rightarrow> if token = [] then ret (AuthorizationRequired
                  (reauthorization_required_state (sv_name server) (op_provider_id p) task run))
                else refresh_grant env server p user task run g token
            | None \<Rightarrow> ret (AuthorizationRequired
                (reauthorization_required_state (sv_name server) (op_provider_id p) task run)))) w1 = (r, w')"
        then show ?thesis
          using refresh_store[of env server p user task run g _ w1 r w']
          by (auto split: if_split_asm option.split_asm)
      qed auto
    qed
    then show ?thesis using g Inr by blast
  qed
qed

section \<open>Histories\<close>

text \<open>
  What happened to the service, in order: attempts to start an authorization, authorizations completed, grants revoked.
  Connections in between refresh grants that are there.
\<close>

datatype auth_event =
    StartedFor string string
  | CompletedFor string string string
  | RevokedFor string string

inductive auth_history :: "auth_env \<Rightarrow> auth_event list \<Rightarrow> auth_world \<Rightarrow> bool" for env where
  begun: "aw_store w = empty_grants \<Longrightarrow> auth_history env [] w"
| started: "auth_history env es w \<Longrightarrow> start_authorization env task run server user w = (r, w') \<Longrightarrow>
    auth_history env (es @ [StartedFor user server]) w'"
| completed: "auth_history env es w \<Longrightarrow> complete_authorization env i token code w = (Inr g, w') \<Longrightarrow>
    auth_history env (es @ [CompletedFor i (ag_provider_id g) (ag_runtime_user_id g)]) w'"
| not_completed: "auth_history env es w \<Longrightarrow> complete_authorization env i token code w = (Inl e, w') \<Longrightarrow>
    auth_history env es w'"
| revoked: "auth_history env es w \<Longrightarrow> revoke_authorization provider user w = (r, w') \<Longrightarrow>
    auth_history env (es @ [RevokedFor provider user]) w'"
| connected: "auth_history env es w \<Longrightarrow> headers_for_server env server user task run w = (r, w') \<Longrightarrow>
    auth_history env es w'"

text \<open>The user started an authorization, one was completed for the provider, and it was not revoked since.\<close>

definition consented :: "auth_event list \<Rightarrow> string \<Rightarrow> string \<Rightarrow> bool" where
  "consented es provider user \<longleftrightarrow> (\<exists>pre i post server. es = pre @ CompletedFor i provider user # post \<and>
     RevokedFor provider user \<notin> set post \<and> StartedFor user server \<in> set pre)"

lemma consented_snoc: "consented es p u \<Longrightarrow> e \<noteq> RevokedFor p u \<Longrightarrow> consented (es @ [e]) p u"
  unfolding consented_def
proof (elim exE conjE)
  fix pre i post server
  assume "es = pre @ CompletedFor i p u # post" "RevokedFor p u \<notin> set post" "StartedFor u server \<in> set pre" "e \<noteq> RevokedFor p u"
  then show "\<exists>pre i post server. es @ [e] = pre @ CompletedFor i p u # post \<and>
     RevokedFor p u \<notin> set post \<and> StartedFor u server \<in> set pre"
    by (intro exI[of _ pre] exI[of _ i] exI[of _ "post @ [e]"] exI[of _ server]) simp
qed

lemma consented_now: "StartedFor u server \<in> set es \<Longrightarrow> consented (es @ [CompletedFor i p u]) p u"
  unfolding consented_def by (intro exI[of _ es] exI[of _ i] exI[of _ "[]"] exI[of _ server]) simp

definition grants_consented :: "auth_event list \<Rightarrow> grant_db \<Rightarrow> bool" where
  "grants_consented es s \<longleftrightarrow>
     (\<forall>p u g. sql_get_grant s p u = Some g \<longrightarrow> ag_status g = ''authorized'' \<longrightarrow> consented es p u) \<and>
     (\<forall>i a. sql_get_pending s i = Some a \<longrightarrow> (\<exists>server. StartedFor (pa_runtime_user_id a) server \<in> set es))"

lemma grants_consented_history: "auth_history env es w \<Longrightarrow> grants_consented es (aw_store w)"
proof (induction rule: auth_history.induct)
  case (begun w)
  then show ?case by (simp add: grants_consented_def empty_grants_def sql_get_grant_def sql_get_pending_def tbl_get_def)
next
  case (started es w task run server user r w')
  have keep: "consented (es @ [StartedFor user server]) p u" if "consented es p u" for p u
    using consented_snoc[OF that] by simp
  have known: "\<exists>s. StartedFor (pa_runtime_user_id b) s \<in> set (es @ [StartedFor user server])"
    if "sql_get_pending (aw_store w) j = Some b" for j b
  proof -
    from started.IH that obtain s where "StartedFor (pa_runtime_user_id b) s \<in> set es"
      unfolding grants_consented_def by blast
    then show ?thesis by auto
  qed
  have "\<exists>s. StartedFor (pa_runtime_user_id b) s \<in> set (es @ [StartedFor user server])"
    if "sql_get_pending (aw_store w') j = Some b" for j b
    using start_store[OF started.hyps(2)]
  proof (elim disjE exE conjE)
    fix a assume a: "aw_store w' = sql_save_pending a (aw_store w)" "pa_runtime_user_id a = user"
    show ?thesis
    proof (cases "j = pa_authorization_id a")
      case True
      then show ?thesis using that a by (auto simp: sql_grants.pending_put)
    next
      case False
      then show ?thesis using that a known[of j b] by (simp add: sql_grants.pending_put)
    qed
  qed (use that known in simp)
  moreover have "sql_get_grant (aw_store w') p u = sql_get_grant (aw_store w) p u" for p u
    using start_store[OF started.hyps(2)] by (auto simp: sql_grants.get_put_pending)
  ultimately show ?case using started.IH keep by (simp add: grants_consented_def)
next
  case (completed es w i token code g w')
  let ?es = "es @ [CompletedFor i (ag_provider_id g) (ag_runtime_user_id g)]"
  obtain a where a: "sql_get_pending (aw_store w) i = Some a" "ag_runtime_user_id g = pa_runtime_user_id a"
      "aw_store w' = sql_delete_pending i (sql_save_grant g (aw_store w))"
    using complete_store[OF completed.hyps(2)] by auto
  obtain server where "StartedFor (ag_runtime_user_id g) server \<in> set es"
    using completed.IH a unfolding grants_consented_def by metis
  then have "consented ?es (ag_provider_id g) (ag_runtime_user_id g)" by (rule consented_now)
  moreover have "consented ?es p u" if "consented es p u" for p u using consented_snoc[OF that] by simp
  ultimately show ?case
    using completed.IH a(3)
    by (auto simp: grants_consented_def sql_grants.get_drop_pending sql_grants.get_save sql_grants.pending_drop
        sql_grants.pending_save grant_key_def split: if_splits)
next
  case (not_completed es w i token code e w')
  then show ?case using complete_store[OF not_completed.hyps(2)] by simp
next
  case (revoked es w provider user r w')
  have store: "aw_store w' = sql_revoke_grant provider user (aw_store w)"
    using revoked.hyps(2) by (auto simp: revoke_authorization_def dest: then_store)
  have "consented (es @ [RevokedFor provider user]) p u" if "consented es p u" "(p, u) \<noteq> (provider, user)" for p u
    using consented_snoc[OF that(1), of "RevokedFor provider user"] that(2) by auto
  then show ?case
    using revoked.IH
    by (auto simp: grants_consented_def store sql_grants.get_revoke sql_grants.pending_revoke split: if_splits)
next
  case (connected es w server user task run r w')
  have "aw_store w' = aw_store w \<or> (\<exists>p u g g'. sql_get_grant (aw_store w) p u = Some g \<and> ag_status g = ''authorized'' \<and>
      aw_store w' = sql_save_grant g' (aw_store w) \<and> grant_key g' = (p, u))"
    using connected.hyps(2)
    by (auto simp: headers_for_server_def split: if_split_asm option.split_asm dest!: resolve_headers)
  then show ?case
    using connected.IH
    by (auto simp: grants_consented_def sql_grants.get_save sql_grants.pending_save split: if_split_asm)
qed

section \<open>Property\<close>


definition sample_provider :: oauth_provider where
  "sample_provider = \<lparr>op_provider_id = ''idp'', op_authorization_url = Some ''https://idp/a'', op_token_url = Some ''https://idp/t'',
     op_discovery_url = None, op_client_id = ''c'', op_client_secret = ''s'', op_redirect_uri = ''https://cb'',
     op_scopes = [''read''], op_audience = None, op_resource = None\<rparr>"

definition sample_server :: mcp_server where
  "sample_server = \<lparr>sv_name = ''docs'', sv_transport = ''streamable_http'', sv_enabled = True, sv_description = None,
     sv_command = None, sv_args = [], sv_env = [], sv_env_from_host = [], sv_url = Some ''https://docs'', sv_headers = [],
     sv_auth = \<lparr>ma_mode = ''oauth_user_grant'', ma_provider = Some ''idp''\<rparr>, sv_source = ''config'', sv_source_path = None\<rparr>"

definition sample_auth_env :: auth_env where
  "sample_auth_env = \<lparr>ae_mcp = \<lparr>mc_tool_name_prefix = False, mc_servers = [(''docs'', sample_server)],
       mc_oauth_providers = [(''idp'', sample_provider)]\<rparr>,
     ae_now = (\<lambda>_. 0), ae_timestamp = (\<lambda>_. ''now''), ae_uuid = (\<lambda>_. ''u''), ae_state_token = (\<lambda>i. ''state''),
     ae_urlencode = (\<lambda>_. ''query''), ae_fetch = (\<lambda>_ _. Inl (OtherException ''offline'')),
     ae_post = (\<lambda>_ _ _. Inr [(''access_token'', PStr ''secret''), (''expires_in'', PInt 60)]), ae_govern = None\<rparr>"

definition sample_auth_world :: auth_world where
  "sample_auth_world = \<lparr>aw_store = empty_grants, aw_events = [], aw_tick = 0\<rparr>"


end
