(* ===== verification/Subagents.thy ===== *)
theory Subagents
  imports Config_Models
begin

text \<open>
  The roles of the runtime: \<open>services/subagent_registry\<close> reads them from the directory \<open>agents/subagents\<close>,
  \<open>services/subagent_runtime\<close> gives each its model (\<open>model_routing.py\<close>), its tools (\<open>tool_scope.py\<close>) and its skills
  (\<open>skill_registry.py\<close>), and \<open>skill_catalog.py\<close> puts them together.

  The host is a parameter: what is at a path, the entries of a directory, the text of a file, and \<open>yaml.safe_load\<close>
  (\<open>None\<close> for a \<open>YAMLError\<close>). A YAML value that is not one of those of \<^typ>\<open>pyval\<close> (a date) stands as any value that is no
  string, list or dict: the checks treat it the same.
\<close>

datatype host_node = Missing | Regular_file | Directory

record asset_env =
  ax_node :: "host_path \<Rightarrow> host_node"
  ax_entries :: "host_path \<Rightarrow> string list"
  ax_text :: "host_path \<Rightarrow> string result"
  ax_yaml :: "string \<Rightarrow> pyval option"

section \<open>Names of files\<close>

text \<open>\<open>PurePath.suffix\<close> and \<open>stem\<close> of a name: a dot counts unless it is the first or the last character.\<close>

definition last_dot :: "string \<Rightarrow> nat option" where
  "last_dot name = (case filter (\<lambda>i. name ! i = CHR ''.'') (rev [0..<length name]) of
     [] \<Rightarrow> None | i # _ \<Rightarrow> if 0 < i \<and> i < length name - 1 then Some i else None)"

definition path_suffix :: "string \<Rightarrow> string" where
  "path_suffix name = (case last_dot name of None \<Rightarrow> [] | Some i \<Rightarrow> drop i name)"

definition path_stem :: "string \<Rightarrow> string" where
  "path_stem name = (case last_dot name of None \<Rightarrow> name | Some i \<Rightarrow> take i name)"

text \<open>\<open>except OSError\<close>.\<close>

fun is_os_error :: "exn \<Rightarrow> bool" where
  "is_os_error (PermissionError m) = True"
| "is_os_error (FileNotFoundError m) = True"
| "is_os_error e = False"

definition os_error_as :: "string \<Rightarrow> 'a result \<Rightarrow> 'a result" where
  "os_error_as message r = (case r of Inl e \<Rightarrow> Inl (if is_os_error e then ValueError message else e) | Inr x \<Rightarrow> Inr x)"

section \<open>Roles\<close>

record subagent_definition =
  sd_role_id :: string
  sd_name :: string
  sd_description :: string
  sd_model_profile :: "string option"
  sd_tool_scope :: "string list"
  sd_memory_scope :: "string list"
  sd_filesystem_scope :: "string list"
  sd_identity_path :: "host_path option"
  sd_system_prompt_path :: "host_path option"
  sd_skills_path :: "host_path option"
  sd_role_root_path :: "host_path option"

record asset_bundle =
  sb_definition :: subagent_definition
  sb_identity_text :: "string option"
  sb_system_prompt_text :: "string option"

record skill_descriptor =
  sk_skill_id :: string
  sk_name :: string
  sk_prompt_path :: host_path
  sk_source :: string
  sk_prompt_text :: string

record model_route =
  rt_provider :: string
  rt_model :: string
  rt_profile_name :: string
  rt_source :: string

record tool_binding =
  tl_tool_id :: string
  tl_capability_aliases :: "string list"
  tl_requires_policy :: bool

record resolved_subagent =
  ru_asset_bundle :: asset_bundle
  ru_model_route :: model_route
  ru_tool_bindings :: "tool_binding list"
  ru_skills :: "skill_descriptor list"

definition allowed_subagent_tool_ids :: "string list" where
  "allowed_subagent_tool_ids = [''artifact_inspect'', ''execute_commands'', ''memory_lookup'', ''mcp_tools'',
     ''plan_update'', ''read_files'', ''web_fetch'', ''web_search'', ''write_files'']"

definition allowed_memory_scopes :: "string list" where
  "allowed_memory_scopes = [''project'', ''run'']"

definition allowed_filesystem_scopes :: "string list" where
  "allowed_filesystem_scopes = [''memory'', ''workspace'']"

section \<open>\<open>FileSystemSubagentRegistry\<close>\<close>

definition manifest_required :: "pydict \<Rightarrow> string \<Rightarrow> host_path \<Rightarrow> string result" where
  "manifest_required d k path = (case nonblank_str (dict_get d k) of Some s \<Rightarrow> Inr s
     | None \<Rightarrow> Inl (ValueError (''Subagent manifest field '' @ [CHR 0x27] @ k @ [CHR 0x27] @
         '' must be a non-empty string: '' @ host_str path)))"

definition manifest_optional :: "pydict \<Rightarrow> string \<Rightarrow> host_path \<Rightarrow> string option result" where
  "manifest_optional d k path = (if dict_get d k = PNone then Inr None else
     (case nonblank_str (dict_get d k) of Some s \<Rightarrow> Inr (Some s)
      | None \<Rightarrow> Inl (ValueError (''Subagent manifest field '' @ [CHR 0x27] @ k @ [CHR 0x27] @
          '' must be a string when present: '' @ host_str path))))"

definition scope_item :: "string \<Rightarrow> host_path \<Rightarrow> string list \<Rightarrow> pyval \<Rightarrow> string result" where
  "scope_item k path allowed v = (case nonblank_str v of
     None \<Rightarrow> Inl (ValueError (''Subagent manifest field '' @ [CHR 0x27] @ k @ [CHR 0x27] @
       '' must contain non-empty strings: '' @ host_str path))
   | Some s \<Rightarrow> if s \<in> set allowed then Inr s
       else Inl (ValueError (''Unknown '' @ k @ '' value '' @ [CHR 0x27] @ s @ [CHR 0x27] @ '' in '' @ host_str path)))"

definition manifest_sequence :: "pydict \<Rightarrow> string \<Rightarrow> host_path \<Rightarrow> string list \<Rightarrow> string list result" where
  "manifest_sequence d k path allowed = (case dict_get d k of
     PList xs \<Rightarrow> mapR (scope_item k path allowed) xs
   | _ \<Rightarrow> Inl (ValueError (''Subagent manifest field '' @ [CHR 0x27] @ k @ [CHR 0x27] @ '' must be a list: '' @ host_str path)))"

definition load_manifest :: "asset_env \<Rightarrow> host_path \<Rightarrow> pydict result" where
  "load_manifest env path =
     bindR (os_error_as (''Unable to read subagent manifest: '' @ host_str path) (ax_text env path)) (\<lambda>text.
     case ax_yaml env text of
       None \<Rightarrow> Inl (ValueError (''Invalid YAML in subagent manifest: '' @ host_str path))
     | Some (PDict d) \<Rightarrow> Inr d
     | Some _ \<Rightarrow> Inl (ValueError (''Subagent manifest must be a mapping: '' @ host_str path)))"

definition optional_file_path :: "asset_env \<Rightarrow> host_path \<Rightarrow> host_path option result" where
  "optional_file_path env path = (case ax_node env path of Missing \<Rightarrow> Inr None | Regular_file \<Rightarrow> Inr (Some path)
     | Directory \<Rightarrow> Inl (ValueError (''Subagent asset is not a readable file: '' @ host_str path)))"

definition optional_directory_path :: "asset_env \<Rightarrow> host_path \<Rightarrow> host_path option result" where
  "optional_directory_path env path = (case ax_node env path of Missing \<Rightarrow> Inr None | Directory \<Rightarrow> Inr (Some path)
     | Regular_file \<Rightarrow> Inl (ValueError (''Subagent skills path is not a directory: '' @ host_str path)))"

definition read_optional_text :: "asset_env \<Rightarrow> host_path \<Rightarrow> string option result" where
  "read_optional_text env path = bindR (optional_file_path env path) (\<lambda>file. case file of
     None \<Rightarrow> Inr None
   | Some p \<Rightarrow> bindR (os_error_as (''Unable to read subagent asset: '' @ host_str path) (ax_text env p)) (\<lambda>t. Inr (Some t)))"

definition load_role :: "asset_env \<Rightarrow> host_path \<Rightarrow> string list \<Rightarrow> asset_bundle result" where
  "load_role env dir seen = (let path = dir @ [''manifest.yaml''] in
     if ax_node env path \<noteq> Regular_file
     then Inl (ValueError (''Subagent role '' @ [CHR 0x27] @ last dir @ [CHR 0x27] @ '' is missing manifest.yaml'')) else
     bindR (load_manifest env path) (\<lambda>d.
     bindR (manifest_required d ''role_id'' path) (\<lambda>role.
     if role \<in> set seen then Inl (ValueError (''Duplicate subagent role_id: '' @ role)) else
     bindR (manifest_required d ''name'' path) (\<lambda>name.
     bindR (manifest_required d ''description'' path) (\<lambda>description.
     bindR (manifest_optional d ''model_profile'' path) (\<lambda>profile.
     bindR (manifest_sequence d ''tool_scope'' path allowed_subagent_tool_ids) (\<lambda>tools.
     bindR (manifest_sequence d ''memory_scope'' path allowed_memory_scopes) (\<lambda>memory.
     bindR (manifest_sequence d ''filesystem_scope'' path allowed_filesystem_scopes) (\<lambda>filesystem.
     bindR (optional_file_path env (dir @ [''IDENTITY.md''])) (\<lambda>identity.
     bindR (optional_file_path env (dir @ [''SYSTEM_PROMPT.md''])) (\<lambda>prompt.
     bindR (optional_directory_path env (dir @ [''skills''])) (\<lambda>skills.
     bindR (read_optional_text env (dir @ [''IDENTITY.md''])) (\<lambda>identity_text.
     bindR (read_optional_text env (dir @ [''SYSTEM_PROMPT.md''])) (\<lambda>prompt_text.
       Inr \<lparr>sb_definition = \<lparr>sd_role_id = role, sd_name = name, sd_description = description,
              sd_model_profile = profile, sd_tool_scope = tools, sd_memory_scope = memory,
              sd_filesystem_scope = filesystem, sd_identity_path = identity, sd_system_prompt_path = prompt,
              sd_skills_path = skills, sd_role_root_path = Some dir\<rparr>,
            sb_identity_text = identity_text, sb_system_prompt_text = prompt_text\<rparr>))))))))))))))"

abbreviation bundle_role :: "asset_bundle \<Rightarrow> string" where
  "bundle_role b \<equiv> sd_role_id (sb_definition b)"

text \<open>The loop of \<open>_load\<close> over the sorted entries; the bundles keep the order in which they were loaded.\<close>

fun load_roles :: "asset_env \<Rightarrow> host_path \<Rightarrow> string list \<Rightarrow> asset_bundle list \<Rightarrow> asset_bundle list result" where
  "load_roles env root [] loaded = Inr loaded"
| "load_roles env root (name # names) loaded =
     (if ax_node env (root @ [name]) \<noteq> Directory
      then Inl (ValueError (''Subagent registry entry must be a directory: '' @ name))
      else bindR (load_role env (root @ [name]) (map bundle_role loaded)) (\<lambda>b.
        load_roles env root names (loaded @ [b])))"

definition directory_of :: "asset_bundle \<Rightarrow> string" where
  "directory_of b = (case sd_role_root_path (sb_definition b) of None \<Rightarrow> [] | Some dir \<Rightarrow> last dir)"

definition load_registry :: "asset_env \<Rightarrow> host_path \<Rightarrow> asset_bundle list result" where
  "load_registry env root =
     (case ax_node env root of
        Missing \<Rightarrow> Inl (ValueError (''Subagent root does not exist: '' @ host_str root))
      | Regular_file \<Rightarrow> Inl (ValueError (''Subagent root is not a directory: '' @ host_str root))
      | Directory \<Rightarrow> bindR (load_roles env root (sort (ax_entries env root)) []) (\<lambda>bundles.
          case List.find (\<lambda>b. bundle_role b \<noteq> directory_of b) bundles of
            Some b \<Rightarrow> Inl (ValueError (''Subagent role_id '' @ [CHR 0x27] @ bundle_role b @ [CHR 0x27] @
              '' does not match directory '' @ [CHR 0x27] @ directory_of b @ [CHR 0x27]))
          | None \<Rightarrow> Inr bundles))"

definition get_asset_bundle :: "asset_bundle list \<Rightarrow> string \<Rightarrow> asset_bundle result" where
  "get_asset_bundle bundles role = (case List.find (\<lambda>b. bundle_role b = role) bundles of
     Some b \<Rightarrow> Inr b | None \<Rightarrow> Inl (ValueError (''Unknown subagent role: '' @ role)))"

definition get_definition :: "asset_bundle list \<Rightarrow> string \<Rightarrow> subagent_definition result" where
  "get_definition bundles role = bindR (get_asset_bundle bundles role) (\<lambda>b. Inr (sb_definition b))"

section \<open>\<open>RuntimeModelResolver\<close>\<close>

definition route_to :: "model_config \<Rightarrow> string \<Rightarrow> string \<Rightarrow> model_route" where
  "route_to m profile source = \<lparr>rt_provider = mo_provider m, rt_model = mo_model m, rt_profile_name = profile, rt_source = source\<rparr>"

definition resolve_primary :: "runtime_config \<Rightarrow> model_route" where
  "resolve_primary c = route_to (rc_primary_model c) ''primary'' ''primary_model''"

definition resolve_default :: "runtime_config \<Rightarrow> model_route" where
  "resolve_default c = (case rc_default_model c of
     Some m \<Rightarrow> route_to m ''default'' ''default_model'' | None \<Rightarrow> resolve_primary c)"

definition resolve_subagent :: "runtime_config \<Rightarrow> string \<Rightarrow> string option \<Rightarrow> model_route" where
  "resolve_subagent c role profile = (case map_of (rc_subagent_models c) role of
     Some m \<Rightarrow> route_to m role ''subagent_override''
   | None \<Rightarrow> (let name = py_strip (or_default profile []) in
       if name = [] then resolve_primary c
       else (case map_of (rc_subagent_models c) name of
           Some m \<Rightarrow> route_to m name ''role_profile'' | None \<Rightarrow> resolve_primary c)))"

section \<open>\<open>RoleToolScopeResolver\<close>\<close>

definition tool_capability_aliases :: "(string \<times> string list) list" where
  "tool_capability_aliases =
     [(''read_files'', [''read_file'', ''list_files'', ''filesystem'', ''files.read'', ''files.list'']),
      (''write_files'', [''write_file'', ''filesystem'', ''files.write'']),
      (''execute_commands'', [''execute_command'', ''commands'', ''sandbox.execute'']),
      (''memory_lookup'', [''memory_lookup'', ''memory'', ''memory.read'']),
      (''plan_update'', [''plan_update'', ''planning'', ''plan.write'']),
      (''artifact_inspect'', [''artifact_inspect'', ''artifacts'', ''artifacts.read'']),
      (''mcp_tools'', [''mcp_tools'', ''mcp'', ''mcp.tools'']),
      (''web_fetch'', [''web_fetch'', ''web.fetch'', ''web'']),
      (''web_search'', [''web_search'', ''web.search'', ''web''])]"

definition requires_policy :: "string \<Rightarrow> bool" where
  "requires_policy tool =
     (tool \<in> {''read_files'', ''write_files'', ''execute_commands'', ''web_fetch'', ''web_search'', ''mcp_tools''})"

text \<open>The capabilities of the task, blank ones dropped; an empty set allows every tool.\<close>

fun resolve_tools_from :: "string list \<Rightarrow> string list \<Rightarrow> tool_binding list result" where
  "resolve_tools_from allowed [] = Inr []"
| "resolve_tools_from allowed (tool # tools) = (case map_of tool_capability_aliases tool of
     None \<Rightarrow> Inl (KeyError tool)
   | Some aliases \<Rightarrow> bindR (resolve_tools_from allowed tools) (\<lambda>rest.
       if allowed \<noteq> [] \<and> \<not> list_ex (\<lambda>a. a \<in> set allowed) aliases then Inr rest
       else Inr (\<lparr>tl_tool_id = tool, tl_capability_aliases = aliases, tl_requires_policy = requires_policy tool\<rparr> # rest)))"

definition resolve_tools :: "subagent_definition \<Rightarrow> string list \<Rightarrow> tool_binding list result" where
  "resolve_tools role capabilities =
     resolve_tools_from (filter (\<lambda>s. s \<noteq> []) (map py_strip capabilities)) (sd_tool_scope role)"

section \<open>\<open>FileSystemSkillRegistry\<close>\<close>

definition display_name :: "string \<Rightarrow> string" where
  "display_name v = (let n = py_strip (map (\<lambda>c. if c = CHR ''-'' \<or> c = CHR ''_'' then CHR '' '' else c) v) in
     if n = [] then v else n)"

definition read_prompt_text :: "asset_env \<Rightarrow> host_path \<Rightarrow> string result" where
  "read_prompt_text env path =
     bindR (os_error_as (''Unable to read skill prompt: '' @ host_str path) (ax_text env path)) (\<lambda>text.
       if py_strip text = [] then Inl (ValueError (''Skill prompt is empty: '' @ host_str path)) else Inr (py_strip text))"

definition skill_at :: "asset_env \<Rightarrow> host_path \<Rightarrow> string \<Rightarrow> skill_descriptor result" where
  "skill_at env root name = (let entry = root @ [name] in
     case ax_node env entry of
       Directory \<Rightarrow> (let prompt = entry @ [''SKILL.md''] in
         if ax_node env prompt \<noteq> Regular_file
         then Inl (ValueError (''Skill directory is missing SKILL.md: '' @ host_str entry))
         else bindR (read_prompt_text env prompt) (\<lambda>text.
           Inr \<lparr>sk_skill_id = name, sk_name = display_name (path_stem name), sk_prompt_path = prompt,
                sk_source = ''directory'', sk_prompt_text = text\<rparr>))
     | Regular_file \<Rightarrow>
         if py_lower (path_suffix name) = ''.md''
         then bindR (read_prompt_text env entry) (\<lambda>text.
           Inr \<lparr>sk_skill_id = path_stem name, sk_name = display_name (path_stem name), sk_prompt_path = entry,
                sk_source = ''file'', sk_prompt_text = text\<rparr>)
         else Inl (ValueError (''Unsupported skill asset: '' @ host_str entry))
     | Missing \<Rightarrow> Inl (ValueError (''Unsupported skill asset: '' @ host_str entry)))"

definition list_skill_descriptors :: "asset_env \<Rightarrow> host_path option \<Rightarrow> skill_descriptor list result" where
  "list_skill_descriptors env path = (case path of None \<Rightarrow> Inr []
     | Some root \<Rightarrow> (case ax_node env root of
         Missing \<Rightarrow> Inr []
       | Regular_file \<Rightarrow> Inl (ValueError (''Skill path is not a directory: '' @ host_str root))
       | Directory \<Rightarrow> mapR (skill_at env root)
           (filter (\<lambda>name. \<not> startswith name ''.'') (sort (ax_entries env root)))))"

section \<open>\<open>RuntimeSkillCatalog\<close>\<close>

text \<open>The catalog over the loaded roles and the resolved path of the identity file.\<close>

definition primary_skills_path :: "host_path \<Rightarrow> host_path" where
  "primary_skills_path identity_path = butlast identity_path @ [''skills'']"

definition load_primary_skills :: "asset_env \<Rightarrow> host_path \<Rightarrow> skill_descriptor list result" where
  "load_primary_skills env identity_path = list_skill_descriptors env (Some (primary_skills_path identity_path))"

definition skills_path_for_role :: "asset_bundle list \<Rightarrow> string \<Rightarrow> host_path result" where
  "skills_path_for_role bundles role = bindR (get_definition bundles role) (\<lambda>d.
     case sd_skills_path d of Some p \<Rightarrow> Inr p
     | None \<Rightarrow> (case sd_role_root_path d of
         None \<Rightarrow> Inl (ValueError (''Subagent role has no managed root path: '' @ role))
       | Some root \<Rightarrow> Inr (root @ [''skills''])))"

definition resolve_role :: "asset_env \<Rightarrow> runtime_config \<Rightarrow> asset_bundle list \<Rightarrow> asset_bundle \<Rightarrow> resolved_subagent result" where
  "resolve_role env c bundles b = (let d = sb_definition b in
     bindR (resolve_tools d []) (\<lambda>tools.
     bindR (skills_path_for_role bundles (sd_role_id d)) (\<lambda>path.
     bindR (list_skill_descriptors env (Some path)) (\<lambda>skills.
       Inr \<lparr>ru_asset_bundle = b, ru_model_route = resolve_subagent c (sd_role_id d) (sd_model_profile d),
            ru_tool_bindings = tools, ru_skills = skills\<rparr>))))"

definition resolve_subagents :: "asset_env \<Rightarrow> runtime_config \<Rightarrow> asset_bundle list \<Rightarrow> resolved_subagent list result" where
  "resolve_subagents env c bundles = mapR (resolve_role env c bundles) bundles"

record install_target =
  it_target_scope :: string
  it_managed_root :: host_path
  it_role_id :: "string option"

definition resolve_install_target ::
    "host_path \<Rightarrow> asset_bundle list \<Rightarrow> string \<Rightarrow> string option \<Rightarrow> install_target result" where
  "resolve_install_target identity_path bundles scope role =
     (if scope = ''primary_agent'' then
        Inr \<lparr>it_target_scope = scope, it_managed_root = primary_skills_path identity_path, it_role_id = None\<rparr>
      else if scope \<noteq> ''subagent'' then Inl (ValueError ''skill.install target_scope must be primary_agent or subagent'')
      else if py_strip (or_default role []) = []
        then Inl (ValueError ''skill.install target_role is required for subagent installs'')
      else bindR (get_definition bundles (py_strip (or_default role []))) (\<lambda>d.
        bindR (skills_path_for_role bundles (sd_role_id d)) (\<lambda>root.
          Inr \<lparr>it_target_scope = scope, it_managed_root = root, it_role_id = Some (sd_role_id d)\<rparr>)))"

section \<open>A loaded registry\<close>

text \<open>
  Role ids are distinct and the names of their directories below the root, and every scope holds only values the code
  knows.
\<close>

definition role_ok :: "host_path \<Rightarrow> asset_bundle \<Rightarrow> bool" where
  "role_ok root b \<longleftrightarrow> (let d = sb_definition b in
     sd_role_root_path d = Some (root @ [sd_role_id d]) \<and> py_strip (sd_role_id d) \<noteq> [] \<and>
     (case sd_skills_path d of None \<Rightarrow> True | Some p \<Rightarrow> p = root @ [sd_role_id d, ''skills'']) \<and>
     set (sd_tool_scope d) \<subseteq> set allowed_subagent_tool_ids \<and>
     set (sd_memory_scope d) \<subseteq> set allowed_memory_scopes \<and>
     set (sd_filesystem_scope d) \<subseteq> set allowed_filesystem_scopes)"

lemma manifest_sequence_allowed:
  "manifest_sequence d k path allowed = Inr xs \<Longrightarrow> set xs \<subseteq> set allowed"
  by (auto simp: manifest_sequence_def scope_item_def split: pyval.splits option.splits if_splits
      dest!: mapR_Inr_set)

lemma optional_directory_known: "optional_directory_path env p = Inr (Some q) \<Longrightarrow> q = p"
  by (simp add: optional_directory_path_def split: host_node.split_asm)

lemma load_role_ok:
  assumes "load_role env dir seen = Inr b" and "dir = root @ [name]"
  shows "bundle_role b \<notin> set seen \<and> directory_of b = name \<and>
    (bundle_role b = directory_of b \<longrightarrow> role_ok root b)"
proof -
  obtain d role tools memory fs skills where
      d: "manifest_required d ''role_id'' (dir @ [''manifest.yaml'']) = Inr role" "role \<notin> set seen"
      "manifest_sequence d ''tool_scope'' (dir @ [''manifest.yaml'']) allowed_subagent_tool_ids = Inr tools"
      "manifest_sequence d ''memory_scope'' (dir @ [''manifest.yaml'']) allowed_memory_scopes = Inr memory"
      "manifest_sequence d ''filesystem_scope'' (dir @ [''manifest.yaml'']) allowed_filesystem_scopes = Inr fs"
      "optional_directory_path env (dir @ [''skills'']) = Inr skills"
    and b: "sd_role_id (sb_definition b) = role" "sd_tool_scope (sb_definition b) = tools"
      "sd_memory_scope (sb_definition b) = memory" "sd_filesystem_scope (sb_definition b) = fs"
      "sd_skills_path (sb_definition b) = skills" "sd_role_root_path (sb_definition b) = Some dir"
    using assms(1) unfolding load_role_def Let_def bindR_Inr_iff
    by (simp split: if_split_asm add: bindR_Inr_iff) (clarify, simp)
  have "py_strip role \<noteq> []" using d(1) by (auto simp: manifest_required_def nonblank_str_Some split: option.split_asm)
  moreover have "skills = Some q \<Longrightarrow> q = root @ [name, ''skills'']" for q
    using d(6) optional_directory_known[of env "dir @ [''skills'']" q] assms(2) by simp
  ultimately show ?thesis
    using b d(2) manifest_sequence_allowed[OF d(3)] manifest_sequence_allowed[OF d(4)] manifest_sequence_allowed[OF d(5)] assms(2)
    by (simp add: role_ok_def directory_of_def split: option.split) auto
qed

lemma load_roles_ok:
  assumes "load_roles env root names loaded = Inr bundles" and "distinct (map bundle_role loaded)"
    and "list_all (\<lambda>b. bundle_role b = directory_of b \<longrightarrow> role_ok root b) loaded"
  shows "distinct (map bundle_role bundles) \<and> map directory_of bundles = map directory_of loaded @ names \<and>
    list_all (\<lambda>b. bundle_role b = directory_of b \<longrightarrow> role_ok root b) bundles"
  using assms
proof (induction names arbitrary: loaded)
  case (Cons name names)
  then obtain b where b: "load_role env (root @ [name]) (map bundle_role loaded) = Inr b"
      "load_roles env root names (loaded @ [b]) = Inr bundles"
    by (auto elim!: bindR_InrE split: if_split_asm)
  note ok = load_role_ok[OF b(1) refl]
  show ?case using Cons.IH[OF b(2)] Cons.prems(2,3) ok by simp
qed simp

lemma load_registry_ok:
  assumes "load_registry env root = Inr bundles"
  shows "distinct (map bundle_role bundles) \<and> list_all (role_ok root) bundles \<and>
    map bundle_role bundles = sort (ax_entries env root)"
proof -
  obtain "load_roles env root (sort (ax_entries env root)) [] = Inr bundles"
      "List.find (\<lambda>b. bundle_role b \<noteq> directory_of b) bundles = None"
    using assms by (auto simp: load_registry_def elim!: bindR_InrE split: host_node.split_asm option.split_asm)
  moreover from this(2) have same: "\<forall>b \<in> set bundles. bundle_role b = directory_of b"
    by (simp add: find_None_iff)
  ultimately have "distinct (map bundle_role bundles)" "map directory_of bundles = sort (ax_entries env root)"
      "\<forall>b \<in> set bundles. role_ok root b"
    using load_roles_ok[of env root "sort (ax_entries env root)" "[]" bundles] by (auto simp: list_all_iff)
  moreover have "map bundle_role bundles = map directory_of bundles" using same by simp
  ultimately show ?thesis by (simp only: list_all_iff simp_thms)
qed

lemma tool_aliases_complete: "list_all (\<lambda>t. t \<in> set (map fst tool_capability_aliases)) allowed_subagent_tool_ids"
  by code_simp

lemma tool_aliases_known:
  "set tools \<subseteq> set allowed_subagent_tool_ids \<Longrightarrow> t \<in> set tools \<Longrightarrow> \<exists>as. map_of tool_capability_aliases t = Some as"
  using tool_aliases_complete unfolding list_all_iff by (metis map_of_eq_None_iff not_None_eq set_map subsetD)

lemma resolve_tools_known:
  "set tools \<subseteq> set allowed_subagent_tool_ids \<Longrightarrow>
   \<exists>bs. resolve_tools_from allowed tools = Inr bs \<and>
     map tl_tool_id bs = filter (\<lambda>t. allowed = [] \<or>
       list_ex (\<lambda>a. a \<in> set allowed) (the (map_of tool_capability_aliases t))) tools"
proof (induction tools)
  case (Cons t tools)
  then obtain as where "map_of tool_capability_aliases t = Some as" using tool_aliases_known[of "t # tools" t] by force
  with Cons show ?case by auto
qed simp

lemma resolve_model:
  "\<exists>m \<in> {rc_primary_model c} \<union> snd ` set (rc_subagent_models c).
     rt_provider (resolve_subagent c role profile) = mo_provider m \<and> rt_model (resolve_subagent c role profile) = mo_model m"
  by (auto simp: resolve_subagent_def resolve_primary_def route_to_def Let_def split: option.split dest!: map_of_SomeD
      intro: rev_bexI)

lemma list_skills_below:
  "list_skill_descriptors env (Some root) = Inr skills \<Longrightarrow> list_all (\<lambda>k. prefix root (sk_prompt_path k)) skills"
  by (auto simp: list_skill_descriptors_def skill_at_def Let_def list_all_iff elim!: bindR_InrE
      split: host_node.split_asm if_split_asm dest!: mapR_Inr_set)

lemma get_loaded_definition:
  "distinct (map bundle_role bundles) \<Longrightarrow> b \<in> set bundles \<Longrightarrow> get_definition bundles (bundle_role b) = Inr (sb_definition b)"
  unfolding get_definition_def get_asset_bundle_def by (induction bundles) auto

lemma resolve_role_ok:
  assumes "resolve_role env c bundles b = Inr r" and "role_ok root b"
    and "get_definition bundles (bundle_role b) = Inr (sb_definition b)"
  shows "ru_asset_bundle r = b \<and> map tl_tool_id (ru_tool_bindings r) = sd_tool_scope (sb_definition b) \<and>
    ru_model_route r = resolve_subagent c (bundle_role b) (sd_model_profile (sb_definition b)) \<and>
    list_all (\<lambda>k. prefix (root @ [bundle_role b, ''skills'']) (sk_prompt_path k)) (ru_skills r)"
proof -
  obtain tools path where r: "resolve_tools_from [] (sd_tool_scope (sb_definition b)) = Inr tools"
      "skills_path_for_role bundles (bundle_role b) = Inr path" "list_skill_descriptors env (Some path) = Inr (ru_skills r)"
      "ru_asset_bundle r = b" "ru_tool_bindings r = tools"
      "ru_model_route r = resolve_subagent c (bundle_role b) (sd_model_profile (sb_definition b))"
    using assms(1) unfolding resolve_role_def Let_def resolve_tools_def by (auto elim!: bindR_InrE)
  have "path = root @ [bundle_role b, ''skills'']"
    using r(2) assms(2,3) by (auto simp: skills_path_for_role_def role_ok_def Let_def split: option.split_asm)
  moreover have "map tl_tool_id tools = sd_tool_scope (sb_definition b)"
    using resolve_tools_known[of "sd_tool_scope (sb_definition b)" "[]"] assms(2) r(1) by (auto simp: role_ok_def Let_def)
  ultimately show ?thesis using r list_skills_below[OF r(3)] by simp
qed

lemma mapR_map: "mapR f xs = Inr ys \<Longrightarrow> (\<And>x y. x \<in> set xs \<Longrightarrow> f x = Inr y \<Longrightarrow> g y = h x) \<Longrightarrow> map g ys = map h xs"
  by (induction xs arbitrary: ys) (auto simp: bindR_Inr_iff)

section \<open>Property\<close>


definition sample_assets :: asset_env where
  "sample_assets = \<lparr>ax_node = (\<lambda>p. if p \<in> {[''agents''], [''agents'', ''coder'']} then Directory
       else if p = [''agents'', ''coder'', ''manifest.yaml''] then Regular_file else Missing),
     ax_entries = (\<lambda>p. if p = [''agents''] then [''coder''] else []), ax_text = (\<lambda>_. Inr ''manifest''),
     ax_yaml = (\<lambda>_. Some (PDict [(''role_id'', PStr ''coder''), (''name'', PStr ''Coder''), (''description'', PStr ''Writes''),
       (''tool_scope'', PList [PStr ''read_files'', PStr ''write_files'']), (''memory_scope'', PList []),
       (''filesystem_scope'', PList [PStr ''workspace''])]))\<rparr>"

definition sample_runtime_config :: runtime_config where
  "sample_runtime_config = \<lparr>rc_name = ''runtime'', rc_log_level = ''info'', rc_identity_path = ''/id/IDENTITY.md'',
     rc_transport_mode = ''stdio'', rc_primary_model = \<lparr>mo_provider = ''p'', mo_model = ''m''\<rparr>, rc_default_model = None,
     rc_persistence = \<lparr>ps_root_path = ''/root'', ps_metadata_backend = ''sqlite'', ps_event_backend = ''sqlite'',
       ps_diagnostic_backend = ''sqlite''\<rparr>,
     rc_cli = \<lparr>cl_default_workspace_root = None, cl_virtual_workspace_root = ''/workspace''\<rparr>, rc_subagent_models = [],
     rc_policy = [(''api_token'', PStr ''t0p'')],
     rc_mcp = \<lparr>mc_tool_name_prefix = True, mc_servers = [], mc_oauth_providers = []\<rparr>, rc_compaction = default_compaction\<rparr>"


end
