(* ===== verification/Protocol_Params.thy ===== *)
theory Protocol_Params
  imports Protocol_Events Path_Policy
begin

text \<open>
  The request side of \<open>packages/protocol/local_agent_protocol/models.py\<close>: the JSON-RPC envelope and, for every
  method, its parameter class with \<open>from_dict\<close> (all its checks, in the order of the code) and \<open>to_dict\<close>.
  The last section shows that whatever \<open>from_dict\<close> accepts is read back from what \<open>to_dict\<close> prints.
\<close>

section \<open>The fields of a parameter object\<close>

text \<open>\<open>str(payload.get(key, "")).strip()\<close>.\<close>

definition text_field :: "pydict \<Rightarrow> string \<Rightarrow> string" where
  "text_field d k = py_strip (py_str (dict_get_or d k (PStr [])))"

text \<open>\<open>value is not None and not isinstance(value, str)\<close> raises.\<close>

definition optional_text :: "string \<Rightarrow> pyval \<Rightarrow> string option result" where
  "optional_text message v = (case v of PNone \<Rightarrow> Inr None | PStr s \<Rightarrow> Inr (Some s) | _ \<Rightarrow> Inl (ValueError message))"

definition require :: "bool \<Rightarrow> string \<Rightarrow> unit result" where
  "require b message = (if b then Inr () else Inl (ValueError message))"

definition bool_field :: "string \<Rightarrow> pyval \<Rightarrow> bool result" where
  "bool_field message v = (case v of PBool b \<Rightarrow> Inr b | _ \<Rightarrow> Inl (ValueError message))"

definition str_list_field :: "string \<Rightarrow> pyval \<Rightarrow> string list result" where
  "str_list_field message v = (case as_str_list v of Some xs \<Rightarrow> Inr xs | None \<Rightarrow> Inl (ValueError message))"

lemma require_Inr [simp]: "require b m = Inr u \<longleftrightarrow> b"
  by (simp add: require_def)

lemma require_True [simp]: "require True m = Inr ()"
  by (simp add: require_def)

lemma optional_text_opt_str [simp]: "optional_text m (opt_str v) = Inr v"
  by (cases v) (simp_all add: optional_text_def)

lemma bool_field_Inr [simp]: "bool_field m v = Inr b \<longleftrightarrow> v = PBool b"
  by (cases v) (auto simp: bool_field_def)

lemma text_field_strip [simp]: "py_strip (text_field d k) = text_field d k"
  by (simp add: text_field_def)

section \<open>JSON-RPC\<close>

record json_rpc_request =
  jq_method :: string
  jq_params :: pydict
  jq_id :: pyval
  jq_correlation_id :: pyval

definition request_of_dict :: "pydict \<Rightarrow> json_rpc_request result" where
  "request_of_dict d =
     bindR (require (dict_get d ''jsonrpc'' = PStr ''2.0'') ''jsonrpc must be 2.0'') (\<lambda>_.
     bindR (case dict_get d ''method'' of PStr m \<Rightarrow> if m \<noteq> [] then Inr m
              else Inl (ValueError ''method must be a non-empty string'')
            | _ \<Rightarrow> Inl (ValueError ''method must be a non-empty string'')) (\<lambda>m.
     bindR (case dict_get_or d ''params'' (PDict []) of PDict p \<Rightarrow> Inr p
            | _ \<Rightarrow> Inl (ValueError ''params must be an object'')) (\<lambda>p.
       Inr \<lparr>jq_method = m, jq_params = p, jq_id = dict_get d ''id'', jq_correlation_id = dict_get d ''correlation_id''\<rparr>)))"

definition request_to_dict :: "json_rpc_request \<Rightarrow> pydict" where
  "request_to_dict q =
     [(''method'', PStr (jq_method q)), (''params'', PDict (jq_params q)), (''id'', jq_id q), (''jsonrpc'', PStr ''2.0'')]
     @ (if jq_correlation_id q = PNone then [] else [(''correlation_id'', jq_correlation_id q)])"

record json_rpc_error =
  je_code :: int
  je_message :: string
  je_data :: "pydict option"

definition error_to_dict :: "json_rpc_error \<Rightarrow> pydict" where
  "error_to_dict e = [(''code'', PInt (je_code e)), (''message'', PStr (je_message e))]
     @ (case je_data e of None \<Rightarrow> [] | Some d \<Rightarrow> [(''data'', PDict d)])"

section \<open>\<open>task.create\<close>\<close>

definition sandbox_paths_only :: string where
  "sandbox_paths_only = ''task.workspace_roots must use sandbox virtual paths''"

definition validate_workspace_root :: "string \<Rightarrow> string result" where
  "validate_workspace_root item =
     (let raw = py_strip item; candidate = pure_path raw in
      if startswith raw ''~'' \<or> startswith raw ''$'' then Inl (ValueError sandbox_paths_only)
      else if length raw \<ge> 3 \<and> raw ! 1 = CHR '':'' \<and> (raw ! 2 = CHR 0x5C \<or> raw ! 2 = CHR ''/'')
        then Inl (ValueError sandbox_paths_only)
      else if pp_root candidate = [] then Inl (ValueError ''task.workspace_roots must be absolute virtual paths'')
      else if ''..'' \<in> set (pp_parts candidate)
        then Inl (ValueError ''task.workspace_roots cannot traverse outside the sandbox'')
      else if raw = ''/'' \<or> \<not> (raw = ''/workspace'' \<or> startswith raw ''/workspace/'')
        then Inl (ValueError ''task.workspace_roots must be under /workspace'')
      else Inr (as_posix candidate))"

definition validate_workspace_roots :: "string list \<Rightarrow> string list result" where
  "validate_workspace_roots = mapR validate_workspace_root"

record task_create_request =
  tq_objective :: string
  tq_workspace_roots :: "string list"
  tq_runtime_user_id :: "string option"
  tq_scope :: "string list"
  tq_success_criteria :: "string list"
  tq_constraints :: "string list"
  tq_allowed_capabilities :: "string list"
  tq_metadata :: pydict

definition roots_field :: "pyval \<Rightarrow> string list result" where
  "roots_field v = (case as_str_list v of
     Some xs \<Rightarrow> if list_all (\<lambda>s. py_strip s \<noteq> []) xs then Inr xs
       else Inl (ValueError ''task.workspace_roots must be a list of non-empty strings'')
   | None \<Rightarrow> Inl (ValueError ''task.workspace_roots must be a list of non-empty strings''))"

definition user_field :: "pyval \<Rightarrow> string option result" where
  "user_field v = (case v of PNone \<Rightarrow> Inr None
     | PStr s \<Rightarrow> if py_strip s \<noteq> [] then Inr (Some (py_strip s))
        else Inl (ValueError ''task.runtime_user_id must be a non-empty string when provided'')
     | _ \<Rightarrow> Inl (ValueError ''task.runtime_user_id must be a non-empty string when provided''))"

definition create_request_of_dict :: "pydict \<Rightarrow> task_create_request result" where
  "create_request_of_dict d =
     (let objective = text_field d ''objective'' in
      bindR (require (objective \<noteq> []) ''task.create requires task.objective'') (\<lambda>_.
      bindR (roots_field (dict_get_or d ''workspace_roots'' (PList []))) (\<lambda>roots.
      bindR (require (roots \<noteq> []) ''task.create requires task.workspace_roots'') (\<lambda>_.
      bindR (str_list_field ''task.scope must be a list of strings'' (dict_get_or d ''scope'' (PList []))) (\<lambda>scope.
      bindR (str_list_field ''task.success_criteria must be a list of strings''
              (dict_get_or d ''success_criteria'' (PList []))) (\<lambda>criteria.
      bindR (str_list_field ''task.constraints must be a list of strings''
              (dict_get_or d ''constraints'' (PList []))) (\<lambda>constraints.
      bindR (str_list_field ''task.allowed_capabilities must be a list of strings''
              (dict_get_or d ''allowed_capabilities'' (PList []))) (\<lambda>capabilities.
      bindR (case dict_get_or d ''metadata'' (PDict []) of PDict m \<Rightarrow> Inr m
             | _ \<Rightarrow> Inl (ValueError ''task.metadata must be an object'')) (\<lambda>metadata.
      bindR (user_field (dict_get d ''runtime_user_id'')) (\<lambda>user.
      bindR (validate_workspace_roots roots) (\<lambda>validated.
        Inr \<lparr>tq_objective = objective, tq_workspace_roots = validated, tq_runtime_user_id = user, tq_scope = scope,
             tq_success_criteria = criteria, tq_constraints = constraints,
             tq_allowed_capabilities = capabilities, tq_metadata = metadata\<rparr>))))))))))) "

definition strs :: "string list \<Rightarrow> pyval" where
  "strs xs = PList (map PStr xs)"

definition create_request_to_dict :: "task_create_request \<Rightarrow> pydict" where
  "create_request_to_dict q =
     [(''objective'', PStr (tq_objective q)), (''workspace_roots'', strs (tq_workspace_roots q)),
      (''runtime_user_id'', opt_str (tq_runtime_user_id q)), (''scope'', strs (tq_scope q)),
      (''success_criteria'', strs (tq_success_criteria q)), (''constraints'', strs (tq_constraints q)),
      (''allowed_capabilities'', strs (tq_allowed_capabilities q)), (''metadata'', PDict (tq_metadata q))]"

definition create_params_of_dict :: "pydict \<Rightarrow> task_create_request result" where
  "create_params_of_dict d = (case dict_get d ''task'' of PDict t \<Rightarrow> create_request_of_dict t
     | _ \<Rightarrow> Inl (ValueError ''task.create params must include a task object''))"

definition create_params_to_dict :: "task_create_request \<Rightarrow> pydict" where
  "create_params_to_dict q = [(''task'', PDict (create_request_to_dict q))]"

section \<open>A task and perhaps one of its runs\<close>

record run_params =
  rq_task_id :: string
  rq_run_id :: "string option"

definition run_params_of :: "string \<Rightarrow> pydict \<Rightarrow> run_params result" where
  "run_params_of method d = (let task = text_field d ''task_id'' in
     bindR (require (task \<noteq> []) (method @ '' requires task_id'')) (\<lambda>_.
     bindR (optional_text (method @ '' run_id must be a string when provided'') (dict_get d ''run_id'')) (\<lambda>run.
       Inr \<lparr>rq_task_id = task, rq_run_id = run\<rparr>)))"

definition run_params_to_dict :: "run_params \<Rightarrow> pydict" where
  "run_params_to_dict p = strip_none [(''task_id'', PStr (rq_task_id p)), (''run_id'', opt_str (rq_run_id p))]"

definition get_params_of_dict :: "pydict \<Rightarrow> run_params result" where
  "get_params_of_dict = run_params_of ''task.get''"

definition resume_params_of_dict :: "pydict \<Rightarrow> run_params result" where
  "resume_params_of_dict = run_params_of ''task.resume''"

definition compact_params_of_dict :: "pydict \<Rightarrow> run_params result" where
  "compact_params_of_dict = run_params_of ''task.compact''"

definition approvals_list_params_of_dict :: "pydict \<Rightarrow> run_params result" where
  "approvals_list_params_of_dict = run_params_of ''task.approvals.list''"

definition diagnostics_list_params_of_dict :: "pydict \<Rightarrow> run_params result" where
  "diagnostics_list_params_of_dict = run_params_of ''task.diagnostics.list''"

text \<open>
  The limit of \<open>task.list\<close> keeps the value it was given: the check \<open>isinstance(limit, int)\<close> lets \<open>true\<close> through,
  which counts as 1.
\<close>

definition list_params_of_dict :: "pydict \<Rightarrow> pyval result" where
  "list_params_of_dict d = (let limit = dict_get d ''limit'' in case limit of
     PNone \<Rightarrow> Inr limit | PBool True \<Rightarrow> Inr limit
   | PInt n \<Rightarrow> if 0 < n then Inr limit else Inl (ValueError ''task.list limit must be a positive integer when provided'')
   | _ \<Rightarrow> Inl (ValueError ''task.list limit must be a positive integer when provided''))"

definition list_params_to_dict :: "pyval \<Rightarrow> pydict" where
  "list_params_to_dict limit = strip_none [(''limit'', limit)]"

section \<open>Cancelling, replying, approving\<close>

record cancel_params =
  cq_task_id :: string
  cq_run_id :: "string option"
  cq_reason :: "string option"

text \<open>The stripped reason, or \<open>None\<close> when nothing is left of it.\<close>

definition stripped_reason :: "string option \<Rightarrow> string option" where
  "stripped_reason r = (case r of None \<Rightarrow> None | Some s \<Rightarrow> if py_strip s = [] then None else Some (py_strip s))"

lemma stripped_reason_idem [simp]: "stripped_reason (stripped_reason r) = stripped_reason r"
  by (simp add: stripped_reason_def split: option.splits)

definition cancel_params_of_dict :: "pydict \<Rightarrow> cancel_params result" where
  "cancel_params_of_dict d = (let task = text_field d ''task_id'' in
     bindR (require (task \<noteq> []) ''task.cancel requires task_id'') (\<lambda>_.
     bindR (optional_text ''task.cancel run_id must be a string when provided'' (dict_get d ''run_id'')) (\<lambda>run.
     bindR (optional_text ''task.cancel reason must be a string when provided'' (dict_get d ''reason'')) (\<lambda>reason.
       Inr \<lparr>cq_task_id = task, cq_run_id = run,
            cq_reason = stripped_reason reason\<rparr>))))"

definition cancel_params_to_dict :: "cancel_params \<Rightarrow> pydict" where
  "cancel_params_to_dict p = strip_none
     [(''task_id'', PStr (cq_task_id p)), (''run_id'', opt_str (cq_run_id p)), (''reason'', opt_str (cq_reason p))]"

record reply_params =
  yq_task_id :: string
  yq_message :: string
  yq_run_id :: "string option"
  yq_background :: bool

definition reply_params_of_dict :: "pydict \<Rightarrow> reply_params result" where
  "reply_params_of_dict d = (let task = text_field d ''task_id''; message = text_field d ''message'' in
     bindR (require (task \<noteq> []) ''task.reply requires task_id'') (\<lambda>_.
     bindR (optional_text ''task.reply run_id must be a string when provided'' (dict_get d ''run_id'')) (\<lambda>run.
     bindR (require (message \<noteq> []) ''task.reply requires message'') (\<lambda>_.
     bindR (bool_field ''task.reply background must be a boolean when provided''
             (dict_get_or d ''background'' (PBool False))) (\<lambda>background.
       Inr \<lparr>yq_task_id = task, yq_message = message, yq_run_id = run, yq_background = background\<rparr>)))))"

definition reply_params_to_dict :: "reply_params \<Rightarrow> pydict" where
  "reply_params_to_dict p = strip_none
     [(''task_id'', PStr (yq_task_id p)), (''run_id'', opt_str (yq_run_id p)), (''message'', PStr (yq_message p)),
      (''background'', if yq_background p then PBool True else PNone)]"

record approval_decision =
  dq_approval_id :: string
  dq_decision :: string

definition decision_of_dict :: "pydict \<Rightarrow> approval_decision result" where
  "decision_of_dict d = (let i = text_field d ''approval_id''; decision = text_field d ''decision'' in
     bindR (require (i \<noteq> []) ''task.approve requires approval.approval_id'') (\<lambda>_.
     bindR (require (decision \<in> {''approved'', ''rejected''})
             ''task.approve approval.decision must be approved or rejected'') (\<lambda>_.
       Inr \<lparr>dq_approval_id = i, dq_decision = decision\<rparr>)))"

definition decision_to_dict :: "approval_decision \<Rightarrow> pydict" where
  "decision_to_dict a = [(''approval_id'', PStr (dq_approval_id a)), (''decision'', PStr (dq_decision a))]"

record approve_params =
  vq_task_id :: "string option"
  vq_approval :: approval_decision
  vq_run_id :: "string option"

definition approve_params_of_dict :: "pydict \<Rightarrow> approve_params result" where
  "approve_params_of_dict d =
     bindR (optional_text ''task.approve task_id must be a string when provided'' (dict_get d ''task_id'')) (\<lambda>task.
     bindR (optional_text ''task.approve run_id must be a string when provided'' (dict_get d ''run_id'')) (\<lambda>run.
     bindR (case dict_get d ''approval'' of PDict a \<Rightarrow> decision_of_dict a
            | _ \<Rightarrow> Inl (ValueError ''task.approve requires approval'')) (\<lambda>a.
       Inr \<lparr>vq_task_id = map_option py_strip task, vq_approval = a, vq_run_id = run\<rparr>)))"

definition approve_params_to_dict :: "approve_params \<Rightarrow> pydict" where
  "approve_params_to_dict p = strip_none
     [(''task_id'', opt_str (vq_task_id p)), (''approval'', PDict (decision_to_dict (vq_approval p))),
      (''run_id'', opt_str (vq_run_id p))]"

section \<open>Artifacts, skills, logs and memory\<close>

record artifacts_params =
  lq_task_id :: string
  lq_run_id :: "string option"
  lq_persistence_class :: "string option"
  lq_content_type_prefix :: "string option"

definition artifacts_params_of_dict :: "pydict \<Rightarrow> artifacts_params result" where
  "artifacts_params_of_dict d = (let task = text_field d ''task_id'' in
     bindR (require (task \<noteq> []) ''task.artifacts.list requires task_id'') (\<lambda>_.
     bindR (optional_text ''task.artifacts.list run_id must be a string when provided'' (dict_get d ''run_id'')) (\<lambda>run.
     bindR (optional_text ''task.artifacts.list persistence_class must be a string when provided''
             (dict_get d ''persistence_class'')) (\<lambda>persistence.
     bindR (optional_text ''task.artifacts.list content_type_prefix must be a string when provided''
             (dict_get d ''content_type_prefix'')) (\<lambda>type_prefix.
       Inr \<lparr>lq_task_id = task, lq_run_id = run, lq_persistence_class = persistence,
            lq_content_type_prefix = type_prefix\<rparr>)))))"

definition artifacts_params_to_dict :: "artifacts_params \<Rightarrow> pydict" where
  "artifacts_params_to_dict p = strip_none
     [(''task_id'', PStr (lq_task_id p)), (''run_id'', opt_str (lq_run_id p)),
      (''persistence_class'', opt_str (lq_persistence_class p)),
      (''content_type_prefix'', opt_str (lq_content_type_prefix p))]"

record artifact_params =
  gq_task_id :: string
  gq_artifact_id :: string
  gq_run_id :: "string option"

definition artifact_params_of_dict :: "pydict \<Rightarrow> artifact_params result" where
  "artifact_params_of_dict d = (let task = text_field d ''task_id''; i = text_field d ''artifact_id'' in
     bindR (require (task \<noteq> []) ''task.artifact.get requires task_id'') (\<lambda>_.
     bindR (require (i \<noteq> []) ''task.artifact.get requires artifact_id'') (\<lambda>_.
     bindR (optional_text ''task.artifact.get run_id must be a string when provided'' (dict_get d ''run_id'')) (\<lambda>run.
       Inr \<lparr>gq_task_id = task, gq_artifact_id = i, gq_run_id = run\<rparr>))))"

definition artifact_params_to_dict :: "artifact_params \<Rightarrow> pydict" where
  "artifact_params_to_dict p = strip_none
     [(''task_id'', PStr (gq_task_id p)), (''artifact_id'', PStr (gq_artifact_id p)), (''run_id'', opt_str (gq_run_id p))]"

record skill_params =
  kq_task_id :: string
  kq_source_path :: string
  kq_target_scope :: string
  kq_target_role :: "string option"
  kq_install_mode :: string
  kq_reason :: string
  kq_run_id :: "string option"

definition skill_params_of_dict :: "pydict \<Rightarrow> skill_params result" where
  "skill_params_of_dict d =
     (let task = text_field d ''task_id''; source = text_field d ''source_path''; scope = text_field d ''target_scope'';
          role_value = dict_get d ''target_role''; mode = text_field d ''install_mode''; reason = text_field d ''reason'' in
      bindR (require (task \<noteq> []) ''skill.install requires task_id'') (\<lambda>_.
      bindR (require (source \<noteq> []) ''skill.install requires source_path'') (\<lambda>_.
      bindR (require (scope \<in> {''primary_agent'', ''subagent''})
              ''skill.install target_scope must be primary_agent or subagent'') (\<lambda>_.
      bindR (optional_text ''skill.install target_role must be a string when provided'' role_value) (\<lambda>role.
      bindR (require (scope \<noteq> ''subagent'' \<or> nonblank_str role_value \<noteq> None)
              ''skill.install target_role is required for subagent installs'') (\<lambda>_.
      bindR (require (mode \<in> {''fail_if_exists'', ''replace''})
              ''skill.install install_mode must be fail_if_exists or replace'') (\<lambda>_.
      bindR (require (reason \<noteq> []) ''skill.install requires reason'') (\<lambda>_.
      bindR (optional_text ''skill.install run_id must be a string when provided'' (dict_get d ''run_id'')) (\<lambda>run.
        Inr \<lparr>kq_task_id = task, kq_source_path = source, kq_target_scope = scope,
             kq_target_role = map_option py_strip role, kq_install_mode = mode, kq_reason = reason,
             kq_run_id = run\<rparr>)))))))))"

definition skill_params_to_dict :: "skill_params \<Rightarrow> pydict" where
  "skill_params_to_dict p = strip_none
     [(''task_id'', PStr (kq_task_id p)), (''source_path'', PStr (kq_source_path p)),
      (''target_scope'', PStr (kq_target_scope p)), (''target_role'', opt_str (kq_target_role p)),
      (''install_mode'', PStr (kq_install_mode p)), (''reason'', PStr (kq_reason p)), (''run_id'', opt_str (kq_run_id p))]"

record logs_params =
  oq_task_id :: string
  oq_run_id :: "string option"
  oq_from_event_id :: "string option"
  oq_include_history :: bool

definition logs_params_of_dict :: "pydict \<Rightarrow> logs_params result" where
  "logs_params_of_dict d = (let task = text_field d ''task_id'' in
     bindR (require (task \<noteq> []) ''task.logs.stream requires task_id'') (\<lambda>_.
     bindR (optional_text ''task.logs.stream run_id must be a string when provided'' (dict_get d ''run_id'')) (\<lambda>run.
     bindR (optional_text ''task.logs.stream from_event_id must be a string when provided''
             (dict_get d ''from_event_id'')) (\<lambda>from_id.
     bindR (bool_field ''task.logs.stream include_history must be a boolean''
             (dict_get_or d ''include_history'' (PBool False))) (\<lambda>history.
       Inr \<lparr>oq_task_id = task, oq_run_id = run, oq_from_event_id = from_id, oq_include_history = history\<rparr>)))))"

definition logs_params_to_dict :: "logs_params \<Rightarrow> pydict" where
  "logs_params_to_dict p = strip_none
     [(''task_id'', PStr (oq_task_id p)), (''run_id'', opt_str (oq_run_id p)),
      (''from_event_id'', opt_str (oq_from_event_id p)), (''include_history'', PBool (oq_include_history p))]"

record memory_params =
  mq_task_id :: "string option"
  mq_run_id :: "string option"
  mq_scope :: "string option"
  mq_namespace :: "string option"

definition memory_params_of_dict :: "pydict \<Rightarrow> memory_params result" where
  "memory_params_of_dict d =
     bindR (optional_text ''memory.inspect task_id must be a string when provided'' (dict_get d ''task_id'')) (\<lambda>task.
     bindR (optional_text ''memory.inspect run_id must be a string when provided'' (dict_get d ''run_id'')) (\<lambda>run.
     bindR (optional_text ''memory.inspect scope must be a string when provided'' (dict_get d ''scope'')) (\<lambda>scope.
     bindR (optional_text ''memory.inspect namespace must be a string when provided'' (dict_get d ''namespace'')) (\<lambda>ns.
     bindR (require (run = None \<or> task \<noteq> None) ''memory.inspect run_id requires task_id'') (\<lambda>_.
       Inr \<lparr>mq_task_id = task, mq_run_id = run, mq_scope = scope, mq_namespace = ns\<rparr>)))))"

definition memory_params_to_dict :: "memory_params \<Rightarrow> pydict" where
  "memory_params_to_dict p = strip_none
     [(''task_id'', opt_str (mq_task_id p)), (''run_id'', opt_str (mq_run_id p)), (''scope'', opt_str (mq_scope p)),
      (''namespace'', opt_str (mq_namespace p))]"

section \<open>Remote MCP authorization\<close>

record authorize_start_params =
  sq_task_id :: string
  sq_run_id :: string
  sq_server_name :: string

definition authorize_start_params_of_dict :: "pydict \<Rightarrow> authorize_start_params result" where
  "authorize_start_params_of_dict d =
     (let task = text_field d ''task_id''; run = text_field d ''run_id''; server = text_field d ''server_name'' in
      bindR (require (task \<noteq> []) ''remote_mcp.authorize.start requires task_id'') (\<lambda>_.
      bindR (require (run \<noteq> []) ''remote_mcp.authorize.start requires run_id'') (\<lambda>_.
      bindR (require (server \<noteq> []) ''remote_mcp.authorize.start requires server_name'') (\<lambda>_.
        Inr \<lparr>sq_task_id = task, sq_run_id = run, sq_server_name = server\<rparr>))))"

record authorize_complete_params =
  zq_authorization_id :: string
  zq_state_token :: string
  zq_code :: string

definition authorize_complete_params_of_dict :: "pydict \<Rightarrow> authorize_complete_params result" where
  "authorize_complete_params_of_dict d =
     (let i = text_field d ''authorization_id''; token = text_field d ''state_token''; code = text_field d ''code'' in
      bindR (require (i \<noteq> []) ''remote_mcp.authorize.complete requires authorization_id'') (\<lambda>_.
      bindR (require (token \<noteq> []) ''remote_mcp.authorize.complete requires state_token'') (\<lambda>_.
      bindR (require (code \<noteq> []) ''remote_mcp.authorize.complete requires code'') (\<lambda>_.
        Inr \<lparr>zq_authorization_id = i, zq_state_token = token, zq_code = code\<rparr>))))"

record revoke_params =
  uq_provider_id :: string
  uq_runtime_user_id :: string

definition revoke_params_of_dict :: "pydict \<Rightarrow> revoke_params result" where
  "revoke_params_of_dict d = (let provider = text_field d ''provider_id''; user = text_field d ''runtime_user_id'' in
     bindR (require (provider \<noteq> []) ''remote_mcp.revoke requires provider_id'') (\<lambda>_.
     bindR (require (user \<noteq> []) ''remote_mcp.revoke requires runtime_user_id'') (\<lambda>_.
       Inr \<lparr>uq_provider_id = provider, uq_runtime_user_id = user\<rparr>)))"

section \<open>Reading back what was printed\<close>

lemma map_of_strip_none:
  "distinct (map fst d) \<Longrightarrow>
   map_of (strip_none d) k = (case map_of d k of Some v \<Rightarrow> if v = PNone then None else Some v | None \<Rightarrow> None)"
proof (induction d)
  case (Cons kv d)
  have "k \<notin> fst ` set d \<Longrightarrow> map_of (strip_none d) k = None" for k
    by (auto simp: strip_none_def map_of_eq_None_iff)
  then show ?case using Cons by (cases kv) (auto simp: strip_none_def map_of_eq_None_iff split: option.splits)
qed (simp add: strip_none_def)

lemma dict_get_or_strip_none [simp]:
  "distinct (map fst d) \<Longrightarrow> dict_get_or (strip_none d) k v = (if dict_get d k = PNone then v else dict_get d k)"
  by (simp add: dict_get_or_def dict_get_def map_of_strip_none split: option.splits)

lemma text_field_strip_none [simp]:
  "distinct (map fst d) \<Longrightarrow> text_field (strip_none d) k =
   (if dict_get d k = PNone then [] else py_strip (py_str (dict_get d k)))"
  by (simp add: text_field_def)

lemma text_field_Cons [simp]:
  "text_field ((k', PStr s) # d) k = (if k' = k then py_strip s else text_field d k)"
  by (simp add: text_field_def dict_get_or_def)

lemma py_strip_answers [simp]: "py_strip ''approved'' = ''approved''" "py_strip ''rejected'' = ''rejected''"
  by code_simp+

lemma optional_text_Inr: "optional_text m v = Inr t \<longleftrightarrow> v = opt_str t"
  by (cases v; cases t) (auto simp: optional_text_def)

lemma run_params_back: "run_params_of m d = Inr p \<Longrightarrow> run_params_of m (run_params_to_dict p) = Inr p"
  by (simp add: run_params_of_def run_params_to_dict_def bindR_Inr_iff Let_def, clarify, simp)

lemma cancel_params_back: "cancel_params_of_dict d = Inr p \<Longrightarrow> cancel_params_of_dict (cancel_params_to_dict p) = Inr p"
  by (simp add: cancel_params_of_dict_def cancel_params_to_dict_def bindR_Inr_iff Let_def, clarify, simp)

lemma reply_params_back: "reply_params_of_dict d = Inr p \<Longrightarrow> reply_params_of_dict (reply_params_to_dict p) = Inr p"
  by (simp add: reply_params_of_dict_def reply_params_to_dict_def bindR_Inr_iff Let_def, clarify, simp, blast)

lemma artifacts_params_back: "artifacts_params_of_dict d = Inr p \<Longrightarrow> artifacts_params_of_dict (artifacts_params_to_dict p) = Inr p"
  by (simp add: artifacts_params_of_dict_def artifacts_params_to_dict_def bindR_Inr_iff Let_def, clarify, simp)

lemma artifact_params_back: "artifact_params_of_dict d = Inr p \<Longrightarrow> artifact_params_of_dict (artifact_params_to_dict p) = Inr p"
  by (simp add: artifact_params_of_dict_def artifact_params_to_dict_def bindR_Inr_iff Let_def, clarify, simp)

lemma logs_params_back: "logs_params_of_dict d = Inr p \<Longrightarrow> logs_params_of_dict (logs_params_to_dict p) = Inr p"
  by (simp add: logs_params_of_dict_def logs_params_to_dict_def bindR_Inr_iff Let_def, clarify, simp)

lemma memory_params_back: "memory_params_of_dict d = Inr p \<Longrightarrow> memory_params_of_dict (memory_params_to_dict p) = Inr p"
  by (simp add: memory_params_of_dict_def memory_params_to_dict_def bindR_Inr_iff Let_def, clarify, simp)

lemma decision_back: "decision_of_dict d = Inr a \<Longrightarrow> decision_of_dict (decision_to_dict a) = Inr a"
  by (simp add: decision_of_dict_def decision_to_dict_def bindR_Inr_iff Let_def, clarify, simp)

lemma map_strip_idem: "map_option py_strip (map_option py_strip t) = map_option py_strip t"
  by (simp add: option.map_comp comp_def)

lemma approve_params_back: "approve_params_of_dict d = Inr p \<Longrightarrow> approve_params_of_dict (approve_params_to_dict p) = Inr p"
  by (simp add: approve_params_of_dict_def approve_params_to_dict_def bindR_Inr_iff, clarify,
    simp add: map_strip_idem decision_back split: pyval.splits)

lemma nonblank_role: "optional_text m v = Inr r \<Longrightarrow> nonblank_str v \<noteq> None \<Longrightarrow>
   nonblank_str (opt_str (map_option py_strip r)) \<noteq> None"
  by (cases r) (simp_all add: optional_text_Inr nonblank_str_def split: if_splits)

lemma skill_params_back: "skill_params_of_dict d = Inr p \<Longrightarrow> skill_params_of_dict (skill_params_to_dict p) = Inr p"
  by (simp add: skill_params_of_dict_def skill_params_to_dict_def bindR_Inr_iff Let_def, clarify,
    simp add: map_strip_idem, blast dest: nonblank_role)

section \<open>Workspace roots\<close>

text \<open>The protocol accepts a root only if the sandbox does, and both normalise it to the same path.\<close>

lemma validated_root_is_normalized:
  assumes "validate_workspace_root s = Inr v"
  shows "normalize_workspace_virtual_root s = Inr v"
proof -
  let ?raw = "py_strip s"
  have raw: "?raw = ''/workspace'' \<or> startswith ?raw ''/workspace/''" "''..'' \<notin> set (pp_parts (pure_path ?raw))"
      "v = as_posix (pure_path ?raw)"
    using assms by (auto simp: validate_workspace_root_def Let_def split: if_splits)
  obtain rest where rest: "pp_parts (pure_path ?raw) = ''workspace'' # path_parts rest" "pp_root (pure_path ?raw) = ''/''"
  proof (cases "?raw = ''/workspace''")
    case True
    then show ?thesis using that[of "[]"] by (simp add: pure_path_def path_parts_def initial_slashes_def)
  next
    case False
    then obtain r where "?raw = ''/workspace/'' @ r" using raw(1) by (auto simp: prefix_def)
    then show ?thesis using that[of r] by (simp add: pure_path_def path_parts_def initial_slashes_def)
  qed
  then have pure: "pure_path ?raw = \<lparr>pp_root = ''/'', pp_parts = mount_name ZONE_WORKSPACE # path_parts rest\<rparr>"
    by (cases "pure_path ?raw") simp
  have "startswith ?raw ''/''" and nonempty: "?raw \<noteq> []" using raw(1) by (auto simp: prefix_def)
  then have "normalize_sandbox_path s = Inr \<lparr>np_zone = ZONE_WORKSPACE, np_relative = path_parts rest\<rparr>"
    using raw(2) nonempty by (simp add: normalize_sandbox_path_def pure relative_to_def Let_def)
  then show ?thesis
    using as_posix_logical[of "\<lparr>np_zone = ZONE_WORKSPACE, np_relative = path_parts rest\<rparr>"]
    by (simp add: normalize_workspace_virtual_root_def raw(3) pure)
qed

lemma validated_roots_are_normalized:
  "validate_workspace_roots roots = Inr vs \<Longrightarrow> mapR normalize_workspace_virtual_root roots = Inr vs"
  unfolding validate_workspace_roots_def
  by (induction roots arbitrary: vs) (auto simp: bindR_Inr_iff dest: validated_root_is_normalized)

section \<open>Properties\<close>

text \<open>
  C31. The workspace roots of an accepted \<open>task.create\<close> are what the sandbox makes of the roots the client sent: there is
  at least one, the sandbox accepts each, and each is its normal form below \<open>/workspace\<close>.
\<close>

theorem accepted_roots_are_sandbox_roots:
  assumes "create_request_of_dict d = Inr q"
  shows "\<exists>roots. roots_field (dict_get_or d ''workspace_roots'' (PList [])) = Inr roots \<and> tq_workspace_roots q \<noteq> [] \<and>
    mapR normalize_workspace_virtual_root roots = Inr (tq_workspace_roots q)"
proof -
  obtain roots where roots: "roots_field (dict_get_or d ''workspace_roots'' (PList [])) = Inr roots" "roots \<noteq> []"
      "validate_workspace_roots roots = Inr (tq_workspace_roots q)"
    using assms unfolding create_request_of_dict_def Let_def by (elim bindR_InrE) auto
  then have same: "mapR normalize_workspace_virtual_root roots = Inr (tq_workspace_roots q)"
    by (blast intro: validated_roots_are_normalized)
  then have "tq_workspace_roots q \<noteq> []" using roots(2) by (cases roots) (auto simp: bindR_Inr_iff)
  then show ?thesis using roots(1) same by blast
qed

theorem accepted_roots_are_sandbox_roots_witness:
  "\<exists>q. create_request_of_dict [(''objective'', PStr ''tidy''),
       (''workspace_roots'', PList [PStr '' /workspace//a/./b ''])] = Inr q \<and> tq_workspace_roots q = [''/workspace/a/b'']"
proof -
  let ?d = "[(''objective'', PStr ''tidy''), (''workspace_roots'', PList [PStr '' /workspace//a/./b ''])]"
  have "case create_request_of_dict ?d of Inr q \<Rightarrow> tq_workspace_roots q = [''/workspace/a/b''] | Inl e \<Rightarrow> False" by code_simp
  then obtain q where q: "create_request_of_dict ?d = Inr q" "tq_workspace_roots q = [''/workspace/a/b'']"
    by (cases "create_request_of_dict ?d") auto
  from accepted_roots_are_sandbox_roots[OF q(1)] show ?thesis using q by blast
qed



end
