(* ===== verification/Protocol_Results.thy ===== *)
theory Protocol_Results
  imports Task_Runner Protocol_Params
begin

text \<open>
  The result classes of \<open>packages/protocol/local_agent_protocol/models.py\<close> and the responses that carry them: what a
  method answers with, as the object that is written to the client. \<open>asdict\<close> keeps the order of the fields.
\<close>

section \<open>Snapshots\<close>

definition opt_int :: "int option \<Rightarrow> pyval" where
  "opt_int v = (case v of None \<Rightarrow> PNone | Some n \<Rightarrow> PInt n)"

definition opt_bool :: "bool option \<Rightarrow> pyval" where
  "opt_bool v = (case v of None \<Rightarrow> PNone | Some b \<Rightarrow> PBool b)"

definition opt_list :: "('a \<Rightarrow> pyval) \<Rightarrow> 'a list option \<Rightarrow> pyval" where
  "opt_list f v = (case v of None \<Rightarrow> PNone | Some xs \<Rightarrow> PList (map f xs))"

definition action_to_dict :: "remote_action_state \<Rightarrow> pydict" where
  "action_to_dict a = [(''action_id'', PStr (ra_action_id a)), (''method'', PStr (ra_method a)),
     (''title'', PStr (ra_title a)), (''params'', PDict (ra_params a))]"

definition authorization_to_dict :: "remote_auth_state \<Rightarrow> pydict" where
  "authorization_to_dict s = [(''server_name'', PStr (au_server_name s)), (''provider_id'', PStr (au_provider_id s)),
     (''status'', PStr (au_status s)), (''summary'', PStr (au_summary s)),
     (''actions'', PList (map (\<lambda>a. PDict (action_to_dict a)) (au_actions s)))]"

definition opt_failure :: "failure_info option \<Rightarrow> pyval" where
  "opt_failure v = (case v of None \<Rightarrow> PNone | Some f \<Rightarrow> PDict (failure_to_dict f))"

definition opt_links :: "(string \<times> string) list option \<Rightarrow> pyval" where
  "opt_links v = (case v of None \<Rightarrow> PNone | Some ls \<Rightarrow> PDict (map (\<lambda>(k, l). (k, PStr l)) ls))"

definition snapshot_to_dict :: "task_snapshot \<Rightarrow> pydict" where
  "snapshot_to_dict t = strip_none
     [(''task_id'', PStr (tn_task_id t)), (''run_id'', PStr (tn_run_id t)),
      (''status'', PStr (status_value (tn_status t))), (''objective'', PStr (tn_objective t)),
      (''created_at'', PStr (tn_created_at t)), (''updated_at'', PStr (tn_updated_at t)),
      (''scope'', opt_list PStr (tn_scope t)), (''success_criteria'', opt_list PStr (tn_success_criteria t)),
      (''constraints'', opt_list PStr (tn_constraints t)),
      (''workspace_roots'', opt_list PStr (tn_workspace_roots t)),
      (''current_phase'', opt_str (tn_current_phase t)), (''latest_summary'', opt_str (tn_latest_summary t)),
      (''todos'', opt_list (\<lambda>x. PDict (todo_to_dict x)) (tn_todos t)),
      (''awaiting_approval'', opt_bool (tn_awaiting_approval t)),
      (''pending_approval_id'', opt_str (tn_pending_approval_id t)),
      (''is_resumable'', opt_bool (tn_is_resumable t)), (''pause_reason'', opt_str (tn_pause_reason t)),
      (''checkpoint_thread_id'', opt_str (tn_thread_id t)), (''latest_checkpoint_id'', opt_str (tn_checkpoint_id t)),
      (''is_compacted'', opt_bool (tn_is_compacted t)), (''latest_compaction_id'', opt_str (tn_compaction_id t)),
      (''latest_compaction_trigger'', opt_str (tn_compaction_trigger t)),
      (''active_subagent'', opt_str (tn_active_subagent t)), (''artifact_count'', opt_int (tn_artifact_count t)),
      (''recoverable_rejection_count'', opt_int (tn_rejection_count t)),
      (''last_event_at'', opt_str (tn_last_event_at t)), (''failure'', opt_failure (tn_failure t)),
      (''last_recoverable_rejection'', opt_failure (tn_last_rejection t)),
      (''runtime_user_id'', opt_str (tn_runtime_user_id t)),
      (''remote_mcp_authorizations'', opt_list (\<lambda>x. PDict (authorization_to_dict x)) (tn_remote_auths t)),
      (''links'', opt_links (tn_links t))]"

section \<open>Entries of the lists\<close>

record approval_entry =
  ay_approval_id :: string
  ay_task_id :: string
  ay_run_id :: string
  ay_status :: string
  ay_type :: string
  ay_scope :: pydict
  ay_scope_summary :: string
  ay_description :: string
  ay_created_at :: string
  ay_decision :: "string option"
  ay_decided_at :: "string option"

definition approval_entry_to_dict :: "approval_entry \<Rightarrow> pydict" where
  "approval_entry_to_dict a = strip_none
     [(''approval_id'', PStr (ay_approval_id a)), (''task_id'', PStr (ay_task_id a)), (''run_id'', PStr (ay_run_id a)),
      (''status'', PStr (ay_status a)), (''type'', PStr (ay_type a)), (''scope'', PDict (ay_scope a)),
      (''scope_summary'', PStr (ay_scope_summary a)), (''description'', PStr (ay_description a)),
      (''created_at'', PStr (ay_created_at a)), (''decision'', opt_str (ay_decision a)),
      (''decided_at'', opt_str (ay_decided_at a))]"

text \<open>\<open>DiagnosticEntry\<close> has the fields of the stored record.\<close>

definition diagnostic_to_dict :: "diagnostic_record \<Rightarrow> pydict" where
  "diagnostic_to_dict d =
     [(''diagnostic_id'', PStr (dg_id d)), (''task_id'', PStr (dg_task_id d)), (''run_id'', PStr (dg_run_id d)),
      (''kind'', PStr (dg_kind d)), (''message'', PStr (dg_message d)), (''created_at'', PStr (dg_created_at d)),
      (''details'', PDict (dg_details d))]"

definition preview_to_dict :: "artifact_preview \<Rightarrow> pydict" where
  "preview_to_dict v = strip_none
     [(''kind'', PStr (pv_kind v)), (''text'', opt_str (pv_text v)), (''encoding'', opt_str (pv_encoding v)),
      (''truncated'', opt_bool (pv_truncated v)), (''message'', opt_str (pv_message v))]"

text \<open>\<open>MemoryInspectEntry\<close> has the fields of the stored record.\<close>

definition memory_entry_to_dict :: "string memory_record \<Rightarrow> pydict" where
  "memory_entry_to_dict m = strip_none
     [(''memory_id'', PStr (mm_id m)), (''scope'', PStr (mm_scope m)), (''namespace'', PStr (mm_namespace m)),
      (''content'', PStr (mm_content m)), (''summary'', PStr (mm_summary m)),
      (''provenance'', PDict (mm_provenance m)), (''created_at'', PStr (mm_created_at m)),
      (''updated_at'', PStr (mm_updated_at m)), (''source_run'', opt_str (mm_source_run m)),
      (''confidence'', (case mm_confidence m of None \<Rightarrow> PNone | Some r \<Rightarrow> PFloat r))]"

record config_redaction =
  cx_path :: string
  cx_reason :: string

definition redaction_to_dict :: "config_redaction \<Rightarrow> pydict" where
  "redaction_to_dict r = [(''path'', PStr (cx_path r)), (''reason'', PStr (cx_reason r))]"

section \<open>Skill installation\<close>

text \<open>The counts pass \<open>isinstance(value, int)\<close>, so they may be truth values.\<close>

record skill_validation =
  ya_status :: string
  ya_findings :: "pyval list"
  ya_has_scripts :: bool
  ya_total_bytes :: pyval
  ya_file_count :: pyval
  ya_skill_id :: "string option"

definition is_int :: "pyval \<Rightarrow> bool" where
  "is_int v = (case v of PInt n \<Rightarrow> True | PBool b \<Rightarrow> True | _ \<Rightarrow> False)"

definition skill_validation_of_dict :: "pydict \<Rightarrow> skill_validation result" where
  "skill_validation_of_dict d =
     (let status = text_field d ''status''; total = dict_get_or d ''total_bytes'' (PInt 0);
          count = dict_get_or d ''file_count'' (PInt 0) in
      bindR (require (status \<in> {''pass'', ''pass_with_warnings'', ''fail''})
        ''skill.install validation.status must be pass, pass_with_warnings, or fail'') (\<lambda>_.
      bindR (case dict_get_or d ''findings'' (PList []) of
          PList xs \<Rightarrow> if list_all (\<lambda>x. as_dict x \<noteq> None) xs then Inr xs
            else Inl (ValueError ''skill.install validation.findings must be a list of objects'')
        | _ \<Rightarrow> Inl (ValueError ''skill.install validation.findings must be a list of objects'')) (\<lambda>findings.
      bindR (bool_field ''skill.install validation.has_scripts must be a boolean''
              (dict_get_or d ''has_scripts'' (PBool False))) (\<lambda>scripts.
      bindR (require (is_int total) ''skill.install validation.total_bytes must be an integer'') (\<lambda>_.
      bindR (require (is_int count) ''skill.install validation.file_count must be an integer'') (\<lambda>_.
      bindR (optional_text ''skill.install validation.skill_id must be a string when provided'' (dict_get d ''skill_id'')) (\<lambda>i.
        Inr \<lparr>ya_status = status, ya_findings = findings, ya_has_scripts = scripts, ya_total_bytes = total,
             ya_file_count = count, ya_skill_id = i\<rparr>)))))))"

definition skill_validation_to_dict :: "skill_validation \<Rightarrow> pydict" where
  "skill_validation_to_dict v = strip_none
     [(''status'', PStr (ya_status v)), (''findings'', PList (ya_findings v)), (''has_scripts'', PBool (ya_has_scripts v)),
      (''total_bytes'', ya_total_bytes v), (''file_count'', ya_file_count v), (''skill_id'', opt_str (ya_skill_id v))]"

record skill_install_result =
  yb_status :: string
  yb_target_path :: string
  yb_validation :: skill_validation
  yb_approval_required :: bool
  yb_summary :: string
  yb_approval_id :: "string option"
  yb_artifacts :: "string list"

definition skill_result_to_dict :: "skill_install_result \<Rightarrow> pydict" where
  "skill_result_to_dict r =
     [(''status'', PStr (yb_status r)), (''target_path'', PStr (yb_target_path r)),
      (''validation'', PDict (skill_validation_to_dict (yb_validation r))),
      (''approval_required'', PBool (yb_approval_required r)), (''summary'', PStr (yb_summary r)),
      (''artifacts'', strs (yb_artifacts r))]
     @ (case yb_approval_id r of None \<Rightarrow> [] | Some i \<Rightarrow> [(''approval_id'', PStr i)])"

section \<open>Results\<close>

record health_result =
  hr_protocol_version :: string
  hr_runtime_name :: string
  hr_runtime_version :: string
  hr_status :: string
  hr_transport :: string
  hr_correlation_id :: pyval
  hr_identity :: pydict
  hr_capabilities :: "pydict option"

definition health_to_dict :: "health_result \<Rightarrow> pydict" where
  "health_to_dict h = strip_none
     [(''protocol_version'', PStr (hr_protocol_version h)), (''runtime_name'', PStr (hr_runtime_name h)),
      (''runtime_version'', PStr (hr_runtime_version h)), (''status'', PStr (hr_status h)),
      (''transport'', PStr (hr_transport h)), (''correlation_id'', hr_correlation_id h),
      (''identity'', PDict (hr_identity h)),
      (''capabilities'', (case hr_capabilities h of None \<Rightarrow> PNone | Some c \<Rightarrow> PDict c))]"

text \<open>The fields of each result class, printed by its \<open>to_dict\<close>.\<close>

definition create_result_to_dict :: "string \<Rightarrow> string \<Rightarrow> string \<Rightarrow> string \<Rightarrow> pydict" where
  "create_result_to_dict task run status at =
     [(''task_id'', PStr task), (''run_id'', PStr run), (''status'', PStr status), (''accepted_at'', PStr at)]"

definition task_list_to_dict :: "task_snapshot list \<Rightarrow> int \<Rightarrow> pydict" where
  "task_list_to_dict ts n =
     [(''tasks'', PList (map (\<lambda>t. PDict (snapshot_to_dict t)) ts)), (''count'', PInt n)]"

definition get_result_to_dict :: "task_snapshot \<Rightarrow> pydict" where
  "get_result_to_dict t = [(''task'', PDict (snapshot_to_dict t))]"

definition cancel_result_to_dict :: "string \<Rightarrow> string \<Rightarrow> string \<Rightarrow> pydict" where
  "cancel_result_to_dict task run status =
     [(''task_id'', PStr task), (''run_id'', PStr run), (''status'', PStr status)]"

definition resume_result_to_dict :: "task_snapshot \<Rightarrow> pydict" where
  "resume_result_to_dict t = [(''task'', PDict (snapshot_to_dict t))]"

definition compact_result_to_dict :: "task_snapshot \<Rightarrow> pydict" where
  "compact_result_to_dict t = [(''task'', PDict (snapshot_to_dict t))]"

definition reply_result_to_dict :: "task_snapshot \<Rightarrow> pydict" where
  "reply_result_to_dict t = [(''task'', PDict (snapshot_to_dict t))]"

definition approve_result_to_dict :: "string \<Rightarrow> bool \<Rightarrow> string \<Rightarrow> task_snapshot \<Rightarrow> pydict" where
  "approve_result_to_dict i accepted status t =
     [(''approval_id'', PStr i), (''accepted'', PBool accepted), (''status'', PStr status),
      (''task'', PDict (snapshot_to_dict t))]"

definition approvals_list_to_dict :: "approval_entry list \<Rightarrow> int \<Rightarrow> pydict" where
  "approvals_list_to_dict es n =
     [(''approvals'', PList (map (\<lambda>e. PDict (approval_entry_to_dict e)) es)), (''count'', PInt n)]"

definition diagnostics_list_to_dict :: "diagnostic_record list \<Rightarrow> int \<Rightarrow> pydict" where
  "diagnostics_list_to_dict ds n =
     [(''diagnostics'', PList (map (\<lambda>d. PDict (diagnostic_to_dict d)) ds)), (''count'', PInt n)]"

definition artifacts_list_to_dict :: "artifact list \<Rightarrow> pydict" where
  "artifacts_list_to_dict as =
     [(''artifacts'', PList (map (\<lambda>a. PDict (artifact_to_dict a)) as))]"

definition artifact_result_to_dict :: "artifact \<Rightarrow> artifact_preview \<Rightarrow> bool \<Rightarrow> pydict" where
  "artifact_result_to_dict a v external =
     [(''artifact'', PDict (artifact_to_dict a)), (''preview'', PDict (preview_to_dict v)),
      (''external_open_supported'', PBool external)]"

definition logs_result_to_dict :: "string \<Rightarrow> string \<Rightarrow> bool \<Rightarrow> pydict" where
  "logs_result_to_dict task run is_open =
     [(''task_id'', PStr task), (''run_id'', PStr run), (''stream_open'', PBool is_open)]"

definition memory_result_to_dict :: "string memory_record list \<Rightarrow> string \<Rightarrow> int \<Rightarrow> pydict" where
  "memory_result_to_dict ms scope n =
     [(''entries'', PList (map (\<lambda>m. PDict (memory_entry_to_dict m)) ms)), (''scope'', PStr scope), (''count'', PInt n)]"

definition config_result_to_dict :: "pydict \<Rightarrow> string list \<Rightarrow> string list \<Rightarrow> config_redaction list \<Rightarrow> pydict" where
  "config_result_to_dict config profiles sources redactions =
     [(''effective_config'', PDict config), (''loaded_profiles'', strs profiles), (''config_sources'', strs sources),
      (''redactions'', PList (map (\<lambda>r. PDict (redaction_to_dict r)) redactions))]"

definition authorize_start_to_dict :: "string \<Rightarrow> string \<Rightarrow> string \<Rightarrow> string \<Rightarrow> task_snapshot \<Rightarrow> pydict" where
  "authorize_start_to_dict i server provider url t =
     [(''authorization_id'', PStr i), (''server_name'', PStr server), (''provider_id'', PStr provider),
      (''authorization_url'', PStr url), (''task'', PDict (snapshot_to_dict t))]"

definition authorize_complete_to_dict :: "string \<Rightarrow> string \<Rightarrow> string \<Rightarrow> pydict" where
  "authorize_complete_to_dict provider user status =
     [(''provider_id'', PStr provider), (''runtime_user_id'', PStr user), (''status'', PStr status)]"

definition revoke_result_to_dict :: "string \<Rightarrow> string \<Rightarrow> bool \<Rightarrow> pydict" where
  "revoke_result_to_dict provider user revoked =
     [(''provider_id'', PStr provider), (''runtime_user_id'', PStr user), (''revoked'', PBool revoked)]"

text \<open>One constructor per result class, with its fields; the classes of a single snapshot differ in name only.\<close>

datatype rpc_result =
    HealthResult health_result
  | TaskCreateResult string string string string
  | TaskListResult "task_snapshot list" int
  | TaskGetResult task_snapshot
  | TaskCancelResult string string string
  | TaskResumeResult task_snapshot
  | TaskCompactResult task_snapshot
  | TaskReplyResult task_snapshot
  | TaskApproveResult string bool string task_snapshot
  | ApprovalsListResult "approval_entry list" int
  | DiagnosticsListResult "diagnostic_record list" int
  | ArtifactsListResult "artifact list"
  | ArtifactGetResult artifact artifact_preview bool
  | LogsStreamResult string string bool
  | MemoryInspectResult "string memory_record list" string int
  | ConfigGetResult pydict "string list" "string list" "config_redaction list"
  | SkillInstallResult skill_install_result
  | AuthorizeStartResult string string string string task_snapshot
  | AuthorizeCompleteResult string string string
  | RevokeResult string string bool

fun result_to_dict :: "rpc_result \<Rightarrow> pydict" where
  "result_to_dict (HealthResult h) = health_to_dict h"
| "result_to_dict (TaskCreateResult task run status at) = create_result_to_dict task run status at"
| "result_to_dict (TaskListResult ts n) = task_list_to_dict ts n"
| "result_to_dict (TaskGetResult t) = get_result_to_dict t"
| "result_to_dict (TaskCancelResult task run status) = cancel_result_to_dict task run status"
| "result_to_dict (TaskResumeResult t) = resume_result_to_dict t"
| "result_to_dict (TaskCompactResult t) = compact_result_to_dict t"
| "result_to_dict (TaskReplyResult t) = reply_result_to_dict t"
| "result_to_dict (TaskApproveResult i accepted status t) = approve_result_to_dict i accepted status t"
| "result_to_dict (ApprovalsListResult es n) = approvals_list_to_dict es n"
| "result_to_dict (DiagnosticsListResult ds n) = diagnostics_list_to_dict ds n"
| "result_to_dict (ArtifactsListResult as) = artifacts_list_to_dict as"
| "result_to_dict (ArtifactGetResult a v external) = artifact_result_to_dict a v external"
| "result_to_dict (LogsStreamResult task run is_open) = logs_result_to_dict task run is_open"
| "result_to_dict (MemoryInspectResult ms scope n) = memory_result_to_dict ms scope n"
| "result_to_dict (ConfigGetResult config profiles sources redactions) = config_result_to_dict config profiles sources redactions"
| "result_to_dict (SkillInstallResult r) = skill_result_to_dict r"
| "result_to_dict (AuthorizeStartResult i server provider url t) = authorize_start_to_dict i server provider url t"
| "result_to_dict (AuthorizeCompleteResult provider user status) = authorize_complete_to_dict provider user status"
| "result_to_dict (RevokeResult provider user revoked) = revoke_result_to_dict provider user revoked"

section \<open>Responses\<close>

text \<open>A response carries a result or an error; the id and the correlation id are those of the request.\<close>

record json_rpc_response =
  jr_id :: pyval
  jr_correlation_id :: pyval
  jr_outcome :: "json_rpc_error + rpc_result"

definition response_to_dict :: "json_rpc_response \<Rightarrow> pydict" where
  "response_to_dict r =
     [(''jsonrpc'', PStr ''2.0''), (''id'', jr_id r)]
     @ (if jr_correlation_id r = PNone then [] else [(''correlation_id'', jr_correlation_id r)])
     @ (case jr_outcome r of
          Inl e \<Rightarrow> [(''error'', PDict (error_to_dict e))]
        | Inr x \<Rightarrow> [(''result'', PDict (result_to_dict x))])"

end
