(* ===== verification/Config_Redaction.thy ===== *)
theory Config_Redaction
  imports Subagents Protocol_Results Config_Loader
begin

text \<open>
  \<open>config.get\<close> of \<open>method_handlers.py\<close>: the effective configuration as one object, with every value redacted whose
  path has a telling name.
\<close>

section \<open>Redaction\<close>

definition is_sensitive_path :: "string \<Rightarrow> bool" where
  "is_sensitive_path path = list_ex (\<lambda>t. sublist t (py_lower path)) [''secret'', ''token'', ''password'', ''api_key'']"

definition redacted :: pyval where
  "redacted = PStr ''***REDACTED***''"

definition child_path :: "string \<Rightarrow> string \<Rightarrow> string" where
  "child_path path key = (if path = [] then key else path @ ''.'' @ key)"

definition item_path :: "string \<Rightarrow> nat \<Rightarrow> string" where
  "item_path path i = path @ ''['' @ dec_nat i @ '']''"

text \<open>The value and what \<open>_redact_config\<close> appends to the list of redactions.\<close>

fun redact_config :: "string \<Rightarrow> pyval \<Rightarrow> pyval \<times> config_redaction list"
and redact_fields :: "string \<Rightarrow> pydict \<Rightarrow> pydict \<times> config_redaction list"
and redact_items :: "string \<Rightarrow> nat \<Rightarrow> pyval list \<Rightarrow> pyval list \<times> config_redaction list" where
  "redact_config path (PDict d) = (case redact_fields path d of (d', rs) \<Rightarrow> (PDict d', rs))"
| "redact_config path (PList xs) = (case redact_items path 0 xs of (xs', rs) \<Rightarrow> (PList xs', rs))"
| "redact_config path v = (if is_sensitive_path path
     then (redacted, [\<lparr>cx_path = path, cx_reason = ''sensitive-key''\<rparr>]) else (v, []))"
| "redact_fields path [] = ([], [])"
| "redact_fields path ((key, v) # d) = (case redact_config (child_path path key) v of (v', rs) \<Rightarrow>
     (case redact_fields path d of (d', rs') \<Rightarrow> ((key, v') # d', rs @ rs')))"
| "redact_items path i [] = ([], [])"
| "redact_items path i (v # xs) = (case redact_config (item_path path i) v of (v', rs) \<Rightarrow>
     (case redact_items path (Suc i) xs of (xs', rs') \<Rightarrow> (v' # xs', rs @ rs')))"

section \<open>The effective configuration\<close>

definition model_to_dict :: "model_config \<Rightarrow> pyval" where
  "model_to_dict m = PDict [(''provider'', PStr (mo_provider m)), (''model'', PStr (mo_model m))]"

definition route_to_dict :: "model_route \<Rightarrow> pyval" where
  "route_to_dict r = PDict [(''provider'', PStr (rt_provider r)), (''model'', PStr (rt_model r)),
     (''profile_name'', PStr (rt_profile_name r)), (''source'', PStr (rt_source r))]"

definition size_to_dict :: "compaction_size \<Rightarrow> pyval" where
  "size_to_dict z = PDict [(''kind'', PStr (cz_kind z)), (''value'', cz_value z)]"

definition text_map :: "str_map \<Rightarrow> pyval" where
  "text_map m = PDict (map (\<lambda>(k, v). (k, PStr v)) m)"

definition server_to_dict :: "mcp_server \<Rightarrow> pyval" where
  "server_to_dict s = PDict
     [(''transport'', PStr (sv_transport s)), (''enabled'', PBool (sv_enabled s)),
      (''description'', opt_str (sv_description s)), (''command'', opt_str (sv_command s)),
      (''args'', strs (sv_args s)), (''url'', opt_str (sv_url s)), (''headers'', text_map (sv_headers s)),
      (''auth'', PDict [(''mode'', PStr (ma_mode (sv_auth s))), (''provider'', opt_str (ma_provider (sv_auth s)))]),
      (''source'', PStr (sv_source s)), (''source_path'', opt_str (sv_source_path s))]"

definition provider_to_dict :: "oauth_provider \<Rightarrow> pyval" where
  "provider_to_dict p = PDict
     [(''authorization_url'', opt_str (op_authorization_url p)), (''token_url'', opt_str (op_token_url p)),
      (''discovery_url'', opt_str (op_discovery_url p)), (''client_id'', PStr (op_client_id p)),
      (''client_secret'', PStr (op_client_secret p)), (''redirect_uri'', PStr (op_redirect_uri p)),
      (''scopes'', strs (op_scopes p)), (''audience'', opt_str (op_audience p)), (''resource'', opt_str (op_resource p))]"

definition subagent_to_dict :: "resolved_subagent \<Rightarrow> string \<times> pyval" where
  "subagent_to_dict r = (let d = sb_definition (ru_asset_bundle r) in (sd_role_id d, PDict
     [(''role_id'', PStr (sd_role_id d)), (''model_profile'', opt_str (sd_model_profile d)),
      (''resolved_model'', route_to_dict (ru_model_route r)),
      (''tool_bindings'', strs (map tl_tool_id (ru_tool_bindings r))),
      (''skills'', strs (map sk_skill_id (ru_skills r)))]))"

text \<open>\<open>definition["resolved_model"]\<close> of the dict that is keyed by role id.\<close>

definition resolved_models :: "resolved_subagent list \<Rightarrow> pydict" where
  "resolved_models rs = dict_update [] (map (\<lambda>r.
     (sd_role_id (sb_definition (ru_asset_bundle r)), route_to_dict (ru_model_route r))) rs)"

definition models_to_dict :: "runtime_config \<Rightarrow> resolved_subagent list \<Rightarrow> pyval" where
  "models_to_dict c rs = PDict
     [(''default'', (case rc_default_model c of None \<Rightarrow> PNone | Some m \<Rightarrow> model_to_dict m)),
      (''primary'', model_to_dict (rc_primary_model c)),
      (''subagents'', PDict (map (\<lambda>(role, m). (role, model_to_dict m)) (rc_subagent_models c))),
      (''resolved'', PDict
        [(''default'', route_to_dict (resolve_default c)), (''primary'', route_to_dict (resolve_primary c)),
         (''subagents'', PDict (resolved_models rs))])]"

definition compaction_to_dict :: "compaction_config \<Rightarrow> pyval" where
  "compaction_to_dict c = PDict
     [(''enabled'', PBool (co_enabled c)), (''strategy'', PStr (co_strategy c)), (''automatic'', PBool (co_automatic c)),
      (''explicit_client'', PBool (co_explicit_client c)), (''explicit_agent_tool'', PBool (co_explicit_agent_tool c)),
      (''trigger'', size_to_dict (co_trigger c)), (''keep'', size_to_dict (co_keep c)),
      (''fallback_trigger'', size_to_dict (co_fallback_trigger c)),
      (''tool_token_limit_before_evict'', co_tool_token_limit c)]"

definition mcp_to_dict :: "mcp_config \<Rightarrow> pyval" where
  "mcp_to_dict m = PDict
     [(''tool_name_prefix'', PBool (mc_tool_name_prefix m)),
      (''servers'', PDict (map (\<lambda>(name, s). (name, server_to_dict s)) (mc_servers m))),
      (''oauth_providers'', PDict (map (\<lambda>(name, p). (name, provider_to_dict p)) (mc_oauth_providers m)))]"

definition effective_config :: "runtime_config \<Rightarrow> resolved_subagent list \<Rightarrow> pyval" where
  "effective_config c rs = PDict
     [(''runtime'', PDict [(''name'', PStr (rc_name c)), (''log_level'', PStr (rc_log_level c))]),
      (''identity'', PDict [(''path'', PStr (rc_identity_path c))]),
      (''transport'', PDict [(''mode'', PStr (rc_transport_mode c))]),
      (''models'', models_to_dict c rs),
      (''persistence'', PDict
        [(''root_path'', PStr (ps_root_path (rc_persistence c))),
         (''metadata_backend'', PStr (ps_metadata_backend (rc_persistence c))),
         (''event_backend'', PStr (ps_event_backend (rc_persistence c))),
         (''diagnostic_backend'', PStr (ps_diagnostic_backend (rc_persistence c)))]),
      (''cli'', PDict [(''virtual_workspace_root'', PStr (cl_virtual_workspace_root (rc_cli c)))]),
      (''subagents'', PDict (dict_update [] (map subagent_to_dict rs))),
      (''policy'', PDict (rc_policy c)),
      (''compaction'', compaction_to_dict (rc_compaction c)),
      (''mcp'', mcp_to_dict (rc_mcp c))]"

definition config_get :: "runtime_config \<Rightarrow> resolved_subagent list \<Rightarrow> string list option \<Rightarrow> rpc_result" where
  "config_get c rs sources = (case redact_config [] (effective_config c rs) of (v, redactions) \<Rightarrow>
     ConfigGetResult (case v of PDict d \<Rightarrow> d | _ \<Rightarrow> []) []
       (case sources of None \<Rightarrow> [rc_identity_path c] | Some s \<Rightarrow> if s = [] then [rc_identity_path c] else s) redactions)"

section \<open>What is left of a value\<close>

text \<open>The atomic values of an object with their paths, in order.\<close>

fun leaves :: "string \<Rightarrow> pyval \<Rightarrow> (string \<times> pyval) list"
and field_leaves :: "string \<Rightarrow> pydict \<Rightarrow> (string \<times> pyval) list"
and item_leaves :: "string \<Rightarrow> nat \<Rightarrow> pyval list \<Rightarrow> (string \<times> pyval) list" where
  "leaves path (PDict d) = field_leaves path d"
| "leaves path (PList xs) = item_leaves path 0 xs"
| "leaves path v = [(path, v)]"
| "field_leaves path [] = []"
| "field_leaves path ((key, v) # d) = leaves (child_path path key) v @ field_leaves path d"
| "item_leaves path i [] = []"
| "item_leaves path i (v # xs) = leaves (item_path path i) v @ item_leaves path (Suc i) xs"

definition hide :: "string \<times> pyval \<Rightarrow> string \<times> pyval" where
  "hide l = (if is_sensitive_path (fst l) then (fst l, redacted) else l)"

definition redactions_of :: "(string \<times> pyval) list \<Rightarrow> config_redaction list" where
  "redactions_of ls = map (\<lambda>l. \<lparr>cx_path = fst l, cx_reason = ''sensitive-key''\<rparr>) (filter (\<lambda>l. is_sensitive_path (fst l)) ls)"

lemma redactions_of_append [simp]: "redactions_of (a @ b) = redactions_of a @ redactions_of b"
  by (simp add: redactions_of_def)

lemma redactions_of_Nil [simp]: "redactions_of [] = []"
  by (simp add: redactions_of_def)

lemma redactions_of_one: "redactions_of [(p, v)] =
    (if is_sensitive_path p then [\<lparr>cx_path = p, cx_reason = ''sensitive-key''\<rparr>] else [])"
  by (simp add: redactions_of_def)

lemma leaves_redacted [simp]: "leaves p redacted = [(p, redacted)]"
  by (simp add: redacted_def)

lemma redact_leaves:
  "leaves path (fst (redact_config path v)) = map hide (leaves path v) \<and>
     snd (redact_config path v) = redactions_of (leaves path v)"
  "field_leaves path (fst (redact_fields path d)) = map hide (field_leaves path d) \<and>
     snd (redact_fields path d) = redactions_of (field_leaves path d)"
  "item_leaves path i (fst (redact_items path i xs)) = map hide (item_leaves path i xs) \<and>
     snd (redact_items path i xs) = redactions_of (item_leaves path i xs)"
  by (induction path v and path d and path i xs rule: redact_config_redact_fields_redact_items.induct)
    (auto simp: hide_def redactions_of_one split: prod.splits)

lemma redact_PDict: "\<exists>d'. fst (redact_config path (PDict d)) = PDict d'"
  by (simp split: prod.split)

lemma hidden: "l \<in> set (map hide ls) \<Longrightarrow> is_sensitive_path (fst l) \<Longrightarrow> snd l = redacted"
  by (auto simp: hide_def split: if_split_asm)

section \<open>What the names miss\<close>

definition header_server :: mcp_server where
  "header_server = \<lparr>sv_name = ''docs'', sv_transport = ''http'', sv_enabled = True, sv_description = None,
     sv_command = None, sv_args = [], sv_env = [], sv_env_from_host = [], sv_url = Some ''https://docs'',
     sv_headers = [(''Authorization'', ''Bearer k3y'')], sv_auth = default_mcp_authorization, sv_source = ''config'',
     sv_source_path = None\<rparr>"

definition header_config :: runtime_config where
  "header_config = sample_runtime_config\<lparr>rc_mcp :=
     \<lparr>mc_tool_name_prefix = True, mc_servers = [(''docs'', header_server)], mc_oauth_providers = []\<rparr>\<rparr>"

text \<open>A credential in the headers of a server is revealed; a bound on tokens that is no secret is redacted.\<close>

lemma headers_are_revealed:
  "case config_get header_config [] None of ConfigGetResult d _ _ _ \<Rightarrow>
     list_ex (\<lambda>l. l = (''mcp.servers.docs.headers.Authorization'', PStr ''Bearer k3y'')) (leaves [] (PDict d)) | _ \<Rightarrow> False"
  by code_simp

lemma token_limit_is_redacted:
  "case config_get sample_runtime_config [] None of ConfigGetResult d _ _ _ \<Rightarrow>
     list_ex (\<lambda>l. l = (''compaction.tool_token_limit_before_evict'', redacted)) (leaves [] (PDict d)) | _ \<Rightarrow> False"
  by code_simp

section \<open>Property\<close>



end
