(* ===== verification/Identity.thy ===== *)
theory Identity
  imports Config_Loader Memory_Service
begin

text \<open>
  The identity document (\<open>packages/identity/loader.py\<close>) and the memory it is seeded into (\<open>memory_seed.py\<close>).
\<close>

record identity_bundle =
  ib_source_path :: string
  ib_version :: string
  ib_sha256 :: string
  ib_content :: string

definition validate_identity_document :: "string \<Rightarrow> unit result" where
  "validate_identity_document content = (let stripped = py_strip content in
     if stripped = [] then Inl (ValueError ''identity file is empty'')
     else if \<not> startswith stripped ''# '' then Inl (ValueError ''identity file must start with a level-1 markdown heading'')
     else Inr ())"

definition load_identity_bundle :: "config_env \<Rightarrow> (string \<Rightarrow> string) \<Rightarrow> host_path \<Rightarrow> identity_bundle result" where
  "load_identity_bundle env sha256 path =
     (if \<not> ce_is_file env path then Inl (ValueError (''identity file not found: '' @ host_str path)) else
      bindR (ce_text env path) (\<lambda>content.
      bindR (validate_identity_document content) (\<lambda>_.
      let digest = sha256 content in
        Inr \<lparr>ib_source_path = host_str (ce_resolve env path), ib_version = ''sha256:'' @ take 12 digest,
             ib_sha256 = digest, ib_content = content\<rparr>)))"

text \<open>The line breaks of \<open>str.splitlines\<close> among the characters of the model.\<close>

definition is_line_break :: "char \<Rightarrow> bool" where
  "is_line_break c = (let n = code_point c in (10 \<le> n \<and> n \<le> 13) \<or> (28 \<le> n \<and> n \<le> 30) \<or> n = 133)"

definition summary_line :: "string \<Rightarrow> string" where
  "summary_line content = takeWhile (\<lambda>c. \<not> is_line_break c) (py_strip content)"

definition identity_record :: "identity_bundle \<Rightarrow> string \<Rightarrow> 'f memory_record" where
  "identity_record b now =
     \<lparr>mm_id = ''identity:'' @ ib_sha256 b, mm_scope = ''identity'', mm_namespace = ''identity.bundle'',
      mm_content = ib_content b,
      mm_summary = (if summary_line (ib_content b) = [] then ''Runtime identity bundle'' else summary_line (ib_content b)),
      mm_provenance = [(''source_path'', PStr (ib_source_path b)), (''version'', PStr (ib_version b)),
        (''sha256'', PStr (ib_sha256 b)), (''kind'', PStr ''identity_bundle'')],
      mm_created_at = now, mm_updated_at = now, mm_source_run = None, mm_confidence = None\<rparr>"

definition seed_identity_memory :: "identity_bundle \<Rightarrow> string \<Rightarrow> 'f memory_table \<Rightarrow> 'f memory_table result" where
  "seed_identity_memory b now t = write_memory (identity_record b now) t"

section \<open>A loaded identity\<close>

lemma valid_identity: "validate_identity_document content = Inr u \<longleftrightarrow> startswith (py_strip content) ''# ''"
  by (auto simp: validate_identity_document_def Let_def)

lemma summary_of_valid: "startswith (py_strip content) ''# '' \<Longrightarrow> startswith (summary_line content) ''# ''"
  by (auto simp: summary_line_def is_line_break_def prefix_def code_point_def Let_def)

lemma loaded_identity_seeds:
  assumes "load_identity_bundle env sha256 path = Inr b"
  shows "\<exists>t'. seed_identity_memory b now t = Inr t' \<and> startswith (mm_summary (identity_record b now :: 'f memory_record)) ''# ''"
proof -
  have "startswith (py_strip (ib_content b)) ''# ''"
    using assms by (auto simp: load_identity_bundle_def Let_def valid_identity elim!: bindR_InrE split: if_split_asm)
  then have "startswith (summary_line (ib_content b)) ''# ''" by (rule summary_of_valid)
  then show ?thesis
    by (auto simp: seed_identity_memory_def write_memory_def identity_record_def validate_scope_def prefix_def
        valid_memory_scopes_def)
qed

end
