(* ===== verification/Method_Handlers.thy ===== *)
theory Method_Handlers
  imports Config_Redaction Identity Remote_Auth Recovery_Service
begin

text \<open>
  \<open>apps/runtime/method_handlers.py\<close>: one definition per method. A handler parses the parameters, calls the task
  runner, a store or the authorization service, and returns the result class of the method. The state is the world of the
  runner and that of the authorization service. The handlers are always built with durable services.
\<close>

record server_world =
  wz_runtime :: world
  wz_auth :: auth_world

record server_env =
  hx_runtime :: runtime_env
  hx_auth :: "auth_env option"
  hx_config :: runtime_config
  hx_identity :: identity_bundle
  hx_subagents :: "resolved_subagent list"
  hx_sources :: "string list option"
  hx_json_error :: "string \<Rightarrow> string"

type_synonym 'a sact = "(server_world, 'a) act"

definition on_runtime :: "'a wact \<Rightarrow> 'a sact" where
  "on_runtime m = (\<lambda>s. case m (wz_runtime s) of (r, w) \<Rightarrow> (r, s\<lparr>wz_runtime := w\<rparr>))"

definition on_auth :: "'a auth_act \<Rightarrow> 'a sact" where
  "on_auth m = (\<lambda>s. case m (wz_auth s) of (r, w) \<Rightarrow> (r, s\<lparr>wz_auth := w\<rparr>))"

abbreviation parsing :: "'p result \<Rightarrow> ('p \<Rightarrow> 'a sact) \<Rightarrow> 'a sact" where
  "parsing r f \<equiv> bindA (liftR r) f"

text \<open>
  A correlation id reaches the events of a run as text; the protocol declares it as a string, and one that is not is
  carried by its \<open>str\<close>.
\<close>

definition correlation_text :: "pyval \<Rightarrow> string option" where
  "correlation_text v = (if v = PNone then None else Some (py_str v))"

section \<open>Health and tasks\<close>

definition runtime_health :: "server_env \<Rightarrow> pyval \<Rightarrow> rpc_result sact" where
  "runtime_health env corr = ret (HealthResult
     \<lparr>hr_protocol_version = ''1.0.0'', hr_runtime_name = rc_name (hx_config env), hr_runtime_version = ''0.1.0'',
      hr_status = ''ok'', hr_transport = rc_transport_mode (hx_config env), hr_correlation_id = corr,
      hr_identity = [(''path'', PStr (ib_source_path (hx_identity env))), (''version'', PStr (ib_version (hx_identity env))),
        (''sha256'', PStr (ib_sha256 (hx_identity env)))],
      hr_capabilities = Some (map (\<lambda>k. (k, PBool True))
        [''task_create'', ''task_cancel'', ''event_stream'', ''artifacts'', ''approvals''])\<rparr>)"

definition requires_runtime_user_id :: "runtime_config \<Rightarrow> bool" where
  "requires_runtime_user_id c =
     list_ex (\<lambda>(n, s). sv_enabled s \<and> ma_mode (sv_auth s) = ''oauth_user_grant'') (mc_servers (rc_mcp c))"

definition start_params_of :: "server_env \<Rightarrow> task_create_request \<Rightarrow> bool \<Rightarrow> start_params" where
  "start_params_of env q background =
     \<lparr>sp_objective = tq_objective q, sp_workspace_roots = tq_workspace_roots q,
      sp_identity = ib_content (hx_identity env), sp_runtime_user_id = tq_runtime_user_id q,
      sp_allowed_capabilities = tq_allowed_capabilities q, sp_metadata = tq_metadata q,
      sp_constraints = tq_constraints q, sp_success_criteria = tq_success_criteria q, sp_background = background\<rparr>"

definition task_create :: "server_env \<Rightarrow> pydict \<Rightarrow> pyval \<Rightarrow> bool \<Rightarrow> rpc_result sact" where
  "task_create env d corr background = parsing (create_params_of_dict d) (\<lambda>q.
     if requires_runtime_user_id (hx_config env) \<and> tq_runtime_user_id q = None
     then raise (ValueError ''task.create requires task.runtime_user_id when oauth-backed MCP is configured'')
     else bindA (on_runtime (start_run (hx_runtime env) (correlation_text corr) (start_params_of env q background)))
       (\<lambda>(task, run, at). ret (TaskCreateResult task run ''accepted'' at)))"

definition task_get :: "server_env \<Rightarrow> pydict \<Rightarrow> rpc_result sact" where
  "task_get env d = parsing (get_params_of_dict d) (\<lambda>q.
     bindA (on_runtime (get_task_snapshot (hx_runtime env) (rq_task_id q) (rq_run_id q))) (\<lambda>t. ret (TaskGetResult t)))"

definition task_cancel :: "server_env \<Rightarrow> pydict \<Rightarrow> rpc_result sact" where
  "task_cancel env d = parsing (cancel_params_of_dict d) (\<lambda>q.
     bindA (on_runtime (cancel_run (hx_runtime env) (cq_task_id q) (cq_run_id q) (cq_reason q)))
       (\<lambda>(task, run, status). ret (TaskCancelResult task run status)))"

text \<open>\<open>request.limit or self.TASK_LIST_LIMIT\<close>.\<close>

definition list_limit :: "pyval \<Rightarrow> int" where
  "list_limit v = (case v of PInt n \<Rightarrow> if n = 0 then 25 else n | PBool True \<Rightarrow> 1 | _ \<Rightarrow> 25)"

fun snapshots_of :: "runtime_env \<Rightarrow> run_state list \<Rightarrow> task_snapshot list wact" where
  "snapshots_of env [] = ret []"
| "snapshots_of env (s # ss) = bindA (get_task_snapshot env (rs_task_id s) (Some (rs_run_id s))) (\<lambda>t.
     bindA (snapshots_of env ss) (\<lambda>ts. ret (t # ts)))"

definition task_list :: "server_env \<Rightarrow> pydict \<Rightarrow> rpc_result sact" where
  "task_list env d = parsing (list_params_of_dict d) (\<lambda>limit.
     bindA (on_runtime (getS (\<lambda>w. list_recent (w_runs w) (list_limit limit)))) (\<lambda>states.
     bindA (on_runtime (snapshots_of (hx_runtime env) states)) (\<lambda>ts. ret (TaskListResult ts (int (length ts))))))"

definition task_approve :: "server_env \<Rightarrow> pydict \<Rightarrow> rpc_result sact" where
  "task_approve env d = parsing (approve_params_of_dict d) (\<lambda>q.
     bindA (on_runtime (approve (hx_runtime env) (vq_task_id q) (dq_approval_id (vq_approval q)) (dq_decision (vq_approval q))
         (vq_run_id q) (ib_content (hx_identity env))))
       (\<lambda>(i, accepted, status, t). ret (TaskApproveResult i accepted status t)))"

text \<open>\<open>ResumeService.resume\<close> hands over the text of the identity bundle.\<close>

definition resume_service_resume :: "server_env \<Rightarrow> string \<Rightarrow> string option \<Rightarrow> bool \<Rightarrow> task_snapshot wact" where
  "resume_service_resume env task run background =
     resume_task (hx_runtime env) task run (ib_content (hx_identity env)) background"

definition task_resume :: "server_env \<Rightarrow> pydict \<Rightarrow> bool \<Rightarrow> rpc_result sact" where
  "task_resume env d background = parsing (resume_params_of_dict d) (\<lambda>q.
     bindA (on_runtime (resume_service_resume env (rq_task_id q) (rq_run_id q) background)) (\<lambda>t. ret (TaskResumeResult t)))"

definition task_compact :: "server_env \<Rightarrow> pydict \<Rightarrow> rpc_result sact" where
  "task_compact env d = parsing (compact_params_of_dict d) (\<lambda>q.
     bindA (on_runtime (compact_task (hx_runtime env) (rq_task_id q) (rq_run_id q))) (\<lambda>t. ret (TaskCompactResult t)))"

definition task_reply :: "server_env \<Rightarrow> pydict \<Rightarrow> rpc_result sact" where
  "task_reply env d = parsing (reply_params_of_dict d) (\<lambda>q.
     bindA (on_runtime (reply_to_run (hx_runtime env) (yq_task_id q) (yq_message q) (yq_run_id q)
         (ib_content (hx_identity env)) (yq_background q))) (\<lambda>t. ret (TaskReplyResult t)))"

section \<open>Approvals, diagnostics, artifacts and logs\<close>

text \<open>\<open>f"{key}={value}"\<close> over the sorted items; the keys of a dict are distinct.\<close>

definition scope_summary :: "pydict \<Rightarrow> string" where
  "scope_summary d =
     (if map_of d ''boundary_key'' \<noteq> None then py_str (dict_get d ''boundary_key'')
      else if map_of d ''path_scope'' \<noteq> None then py_str (dict_get d ''path_scope'')
      else if map_of d ''memory_scope'' \<noteq> None then ''memory:'' @ py_str (dict_get d ''memory_scope'')
      else if d = [] then ''unspecified''
      else join_with '', '' (map (\<lambda>(k, v). k @ ''='' @ py_str v) (sort_key fst d)))"

definition approval_entry_of :: "approval_request \<Rightarrow> approval_entry" where
  "approval_entry_of a =
     \<lparr>ay_approval_id = ap_id a, ay_task_id = ap_task_id a, ay_run_id = ap_run_id a, ay_status = ap_status a,
      ay_type = ap_type a, ay_scope = ap_scope a, ay_scope_summary = scope_summary (ap_scope a),
      ay_description = ap_description a, ay_created_at = ap_created_at a, ay_decision = ap_decision a,
      ay_decided_at = ap_decided_at a\<rparr>"

definition task_approvals_list :: "server_env \<Rightarrow> pydict \<Rightarrow> rpc_result sact" where
  "task_approvals_list env d = parsing (approvals_list_params_of_dict d) (\<lambda>q.
     bindA (on_runtime (read_durable (Inr []) (\<lambda>db. list_for_task (d_approvals db) (rq_task_id q) (rq_run_id q)))) (\<lambda>found.
     bindA (liftR found) (\<lambda>as. ret (ApprovalsListResult (map approval_entry_of as) (int (length as))))))"

definition task_diagnostics_list :: "server_env \<Rightarrow> pydict \<Rightarrow> rpc_result sact" where
  "task_diagnostics_list env d = parsing (diagnostics_list_params_of_dict d) (\<lambda>q.
     bindA (on_runtime (read_durable [] (\<lambda>db. list_diagnostics (d_diagnostics db) (rq_task_id q) (rq_run_id q)))) (\<lambda>ds.
       ret (DiagnosticsListResult ds (int (length ds)))))"

definition task_artifacts_list :: "server_env \<Rightarrow> pydict \<Rightarrow> rpc_result sact" where
  "task_artifacts_list env d = parsing (artifacts_params_of_dict d) (\<lambda>q.
     bindA (on_runtime (list_task_artifacts (hx_runtime env) (lq_task_id q) (lq_run_id q) (lq_persistence_class q)
         (lq_content_type_prefix q))) (\<lambda>as. ret (ArtifactsListResult as)))"

definition task_artifact_get :: "server_env \<Rightarrow> pydict \<Rightarrow> rpc_result sact" where
  "task_artifact_get env d = parsing (artifact_params_of_dict d) (\<lambda>q.
     bindA (on_runtime (get_task_artifact_preview (hx_runtime env) (gq_task_id q) (gq_artifact_id q) (gq_run_id q)))
       (\<lambda>(a, v). ret (ArtifactGetResult a v False)))"

definition task_logs_stream :: "server_env \<Rightarrow> pydict \<Rightarrow> (rpc_result \<times> runtime_event list) sact" where
  "task_logs_stream env d = parsing (logs_params_of_dict d) (\<lambda>q.
     bindA (on_runtime (get_run (oq_task_id q) (oq_run_id q))) (\<lambda>s.
     bindA (if oq_include_history q
         then bindA (on_runtime (read_durable [] (\<lambda>db.
             get_events (d_events db) (oq_task_id q) (Some (rs_run_id s)) (oq_from_event_id q))))
           (\<lambda>es. liftR (mapR persisted_to_runtime es))
         else ret []) (\<lambda>history.
       ret (LogsStreamResult (oq_task_id q) (rs_run_id s) True, history))))"

section \<open>Memory\<close>

definition matches_memory_context :: "string memory_record \<Rightarrow> string \<Rightarrow> string option \<Rightarrow> bool" where
  "matches_memory_context m task run =
     (let owner = dict_get (mm_provenance m) ''task_id'' in
      (owner = PNone \<or> owner = PStr task) \<and>
      (case run of None \<Rightarrow> True
       | Some r \<Rightarrow> mm_source_run m = Some r \<or> dict_get (mm_provenance m) ''run_id'' = PStr r))"

definition in_context :: "memory_params \<Rightarrow> string memory_record list \<Rightarrow> string memory_record list" where
  "in_context q ms = (case mq_task_id q of None \<Rightarrow> ms | Some task \<Rightarrow> filter (\<lambda>m. matches_memory_context m task (mq_run_id q)) ms)"

definition select_memory_entries :: "string memory_table \<Rightarrow> memory_params \<Rightarrow> string memory_record list result" where
  "select_memory_entries t q = (let listed = (\<lambda>scope. list_memory t (Some scope) (mq_namespace q)) in
     case mq_scope q of
       None \<Rightarrow> Inr (sort_key (\<lambda>m. (mm_created_at m, mm_id m))
         (listed ''project'' @ (if mq_task_id q = None then [] else in_context q (listed ''run_state''))))
     | Some scope \<Rightarrow>
         if scope = ''project'' \<or> scope = ''identity'' then Inr (listed scope)
         else if scope = ''run_state'' \<or> scope = ''scratch'' then Inr (in_context q (listed scope))
         else Inl (ValueError ''memory.inspect scope must be one of project, identity, run_state, scratch''))"

definition memory_inspect :: "server_env \<Rightarrow> pydict \<Rightarrow> rpc_result sact" where
  "memory_inspect env d = parsing (memory_params_of_dict d) (\<lambda>q.
     bindA (on_runtime (read_durable [] d_memory)) (\<lambda>t.
     bindA (liftR (select_memory_entries t q)) (\<lambda>ms.
       ret (MemoryInspectResult ms (or_default (mq_scope q) ''default'') (int (length ms))))))"

section \<open>Remote MCP authorization and skills\<close>

definition with_auth :: "server_env \<Rightarrow> (auth_env \<Rightarrow> 'a sact) \<Rightarrow> 'a sact" where
  "with_auth env f = (case hx_auth env of None \<Rightarrow> raise (ValueError ''remote MCP auth is not configured'') | Some a \<Rightarrow> f a)"

definition remote_mcp_authorize_start :: "server_env \<Rightarrow> pydict \<Rightarrow> rpc_result sact" where
  "remote_mcp_authorize_start env d = with_auth env (\<lambda>auth. parsing (authorize_start_params_of_dict d) (\<lambda>q.
     bindA (on_runtime (get_run (sq_task_id q) (Some (sq_run_id q)))) (\<lambda>s. case rs_runtime_user_id s of
       None \<Rightarrow> raise (ValueError ''remote MCP authorization requires runtime_user_id on the task'')
     | Some user \<Rightarrow>
         bindA (on_auth (start_authorization auth (Some (rs_task_id s)) (Some (rs_run_id s)) (sq_server_name q) user)) (\<lambda>a.
         bindA (on_runtime (get_task_snapshot (hx_runtime env) (rs_task_id s) (Some (rs_run_id s)))) (\<lambda>t.
           ret (AuthorizeStartResult (pa_authorization_id a) (pa_server_name a) (pa_provider_id a)
             (pa_authorization_url a) t))))))"

definition remote_mcp_authorize_complete :: "server_env \<Rightarrow> pydict \<Rightarrow> rpc_result sact" where
  "remote_mcp_authorize_complete env d = with_auth env (\<lambda>auth. parsing (authorize_complete_params_of_dict d) (\<lambda>q.
     bindA (on_auth (complete_authorization auth (zq_authorization_id q) (zq_state_token q) (zq_code q))) (\<lambda>g.
       ret (AuthorizeCompleteResult (ag_provider_id g) (ag_runtime_user_id g) (ag_status g)))))"

definition remote_mcp_revoke :: "server_env \<Rightarrow> pydict \<Rightarrow> rpc_result sact" where
  "remote_mcp_revoke env d = with_auth env (\<lambda>auth. parsing (revoke_params_of_dict d) (\<lambda>q.
     bindA (on_auth (revoke_authorization (uq_provider_id q) (uq_runtime_user_id q))) (\<lambda>_.
       ret (RevokeResult (uq_provider_id q) (uq_runtime_user_id q) True))))"

definition install_skill :: "server_env \<Rightarrow> pydict \<Rightarrow> pyval \<Rightarrow> rpc_result sact" where
  "install_skill env d corr = parsing (skill_params_of_dict d) (\<lambda>q.
     bindA (on_runtime (skill_install (hx_runtime env) (correlation_text corr) (kq_task_id q) (kq_run_id q)
         \<lparr>si_source_path = kq_source_path q, si_target_scope = kq_target_scope q, si_target_role = kq_target_role q,
          si_install_mode = kq_install_mode q, si_reason = kq_reason q\<rparr>)) (\<lambda>out.
     bindA (liftR (skill_validation_of_dict (so_validation out))) (\<lambda>v.
       ret (SkillInstallResult \<lparr>yb_status = so_status out, yb_target_path = so_target_path out, yb_validation = v,
         yb_approval_required = so_approval_required out, yb_summary = so_summary out,
         yb_approval_id = so_approval_id out, yb_artifacts = so_artifacts out\<rparr>))))"

end
