(* ===== verification/Runtime_Server.thy ===== *)
theory Runtime_Server
  imports Method_Handlers Log_Stream
begin

text \<open>
  \<open>apps/runtime/runtime_server.py\<close>: a line of a session is parsed to a request, dispatched to its handler, and answered.
  Each request runs in a thread of its own; its handler is one atomic step here. The runs that \<open>task.create\<close> and
  \<open>task.resume\<close> start in the background are the workers of the runner. A stream of logs is opened behind its response and
  then goes on as in theory \<open>Log_Stream\<close>. The message of a \<open>JSONDecodeError\<close> is the parameter \<open>hx_json_error\<close>.
\<close>

section \<open>Dispatch\<close>

text \<open>The exceptions of \<open>except ValueError\<close>.\<close>

fun is_value_error :: "exn \<Rightarrow> bool" where
  "is_value_error (ValueError m) = True"
| "is_value_error (UnicodeDecodeError m) = True"
| "is_value_error e = False"

fun is_key_error :: "exn \<Rightarrow> bool" where
  "is_key_error (KeyError m) = True"
| "is_key_error e = False"

definition error_of :: "exn \<Rightarrow> json_rpc_error" where
  "error_of e =
     (if is_value_error e then \<lparr>je_code = -32602, je_message = exn_str e, je_data = None\<rparr>
      else if is_key_error e then \<lparr>je_code = -32004, je_message = exn_str e, je_data = None\<rparr>
      else \<lparr>je_code = -32000, je_message = ''runtime failure'', je_data = Some [(''detail'', PStr (exn_str e))]\<rparr>)"

definition unknown_method :: "string \<Rightarrow> json_rpc_error" where
  "unknown_method m = \<lparr>je_code = -32601, je_message = ''unknown method: '' @ m, je_data = None\<rparr>"

definition invalid_request :: "string \<Rightarrow> json_rpc_error" where
  "invalid_request m = \<lparr>je_code = -32700, je_message = ''invalid request: '' @ m, je_data = None\<rparr>"

definition answer_to :: "json_rpc_request \<Rightarrow> json_rpc_error + rpc_result \<Rightarrow> json_rpc_response" where
  "answer_to q out = \<lparr>jr_id = jq_id q, jr_correlation_id = jq_correlation_id q, jr_outcome = out\<rparr>"

definition no_events :: "rpc_result sact \<Rightarrow> (rpc_result \<times> runtime_event list) sact" where
  "no_events m = bindA m (\<lambda>x. ret (x, []))"

text \<open>The handler of a method; \<open>background\<close> is what \<open>_serve_request\<close> passes for \<open>task.create\<close> and \<open>task.resume\<close>.\<close>

definition handlers_for ::
    "server_env \<Rightarrow> json_rpc_request \<Rightarrow> bool \<Rightarrow> (string \<times> (rpc_result \<times> runtime_event list) sact) list" where
  "handlers_for env q background = (let d = jq_params q; corr = jq_correlation_id q in
     [(''runtime.health'', no_events (runtime_health env corr)),
      (''task.create'', no_events (task_create env d corr background)),
      (''task.get'', no_events (task_get env d)),
      (''task.cancel'', no_events (task_cancel env d)),
      (''task.list'', no_events (task_list env d)),
      (''task.approve'', no_events (task_approve env d)),
      (''task.approvals.list'', no_events (task_approvals_list env d)),
      (''task.diagnostics.list'', no_events (task_diagnostics_list env d)),
      (''task.resume'', no_events (task_resume env d background)),
      (''task.compact'', no_events (task_compact env d)),
      (''task.reply'', no_events (task_reply env d)),
      (''task.artifacts.list'', no_events (task_artifacts_list env d)),
      (''task.artifact.get'', no_events (task_artifact_get env d)),
      (''task.logs.stream'', task_logs_stream env d),
      (''memory.inspect'', no_events (memory_inspect env d)),
      (''skill.install'', no_events (install_skill env d corr)),
      (''config.get'', no_events (ret (config_get (hx_config env) (hx_subagents env) (hx_sources env)))),
      (''remote_mcp.authorize.start'', no_events (remote_mcp_authorize_start env d)),
      (''remote_mcp.reauthorize'', no_events (remote_mcp_authorize_start env d)),
      (''remote_mcp.authorize.complete'', no_events (remote_mcp_authorize_complete env d)),
      (''remote_mcp.revoke'', no_events (remote_mcp_revoke env d))])"

definition handled :: "json_rpc_request \<Rightarrow> (rpc_result \<times> runtime_event list) sact \<Rightarrow>
    (json_rpc_response \<times> runtime_event list) sact" where
  "handled q m = bindA (tryA m) (\<lambda>r. ret (case r of
     Inl e \<Rightarrow> (answer_to q (Inl (error_of e)), []) | Inr (x, events) \<Rightarrow> (answer_to q (Inr x), events)))"

definition dispatch_in ::
    "bool \<Rightarrow> server_env \<Rightarrow> json_rpc_request \<Rightarrow> (json_rpc_response \<times> runtime_event list) sact" where
  "dispatch_in background env q = (case map_of (handlers_for env q background) (jq_method q) of
     None \<Rightarrow> ret (answer_to q (Inl (unknown_method (jq_method q))), [])
   | Some m \<Rightarrow> handled q m)"

definition dispatch_request :: "server_env \<Rightarrow> json_rpc_request \<Rightarrow> (json_rpc_response \<times> runtime_event list) sact" where
  "dispatch_request = dispatch_in False"

text \<open>\<open>_background_response\<close>: the same mapping of exceptions, around a handler that starts its run in the background.\<close>

definition background_response :: "server_env \<Rightarrow> json_rpc_request \<Rightarrow> (json_rpc_response \<times> runtime_event list) sact" where
  "background_response = dispatch_in True"

section \<open>Lines\<close>

text \<open>
  \<open>JsonRpcRequest.from_dict(json.loads(line))\<close>: the request, or the message of the response that refuses it. A JSON
  value that is no object has no attribute \<open>get\<close>, and that exception is not caught.
\<close>

definition parse_line :: "server_env \<Rightarrow> string \<Rightarrow> (string + json_rpc_request) result" where
  "parse_line env line = (case json_loads line of
     None \<Rightarrow> Inr (Inl (hx_json_error env line))
   | Some (PDict d) \<Rightarrow> (case request_of_dict d of
       Inr q \<Rightarrow> Inr (Inr q)
     | Inl e \<Rightarrow> if is_value_error e then Inr (Inl (exn_str e)) else Inl e)
   | Some _ \<Rightarrow> Inl (OtherException ''object has no attribute get''))"

definition refusal :: "string \<Rightarrow> json_rpc_response" where
  "refusal message = \<lparr>jr_id = PNone, jr_correlation_id = PNone, jr_outcome = Inl (invalid_request message)\<rparr>"

definition handle_line :: "server_env \<Rightarrow> string \<Rightarrow> (json_rpc_response \<times> runtime_event list) sact" where
  "handle_line env line = bindA (liftR (parse_line env line)) (\<lambda>parsed. case parsed of
     Inl message \<Rightarrow> ret (refusal message, []) | Inr q \<Rightarrow> dispatch_request env q)"

text \<open>What serving a line writes: objects, and perhaps a stream of a run that goes on behind a history.\<close>

record served =
  sy_written :: "pydict list"
  sy_stream :: "(run_key \<times> runtime_event list) option"

definition stream_of :: "json_rpc_response \<Rightarrow> runtime_event list \<Rightarrow> (run_key \<times> runtime_event list) option" where
  "stream_of r history = (case jr_outcome r of
     Inr x \<Rightarrow> (let d = result_to_dict x in
       Some ((py_str (dict_get d ''task_id''), py_str (dict_get d ''run_id'')), history))
   | Inl e \<Rightarrow> None)"

definition serve_request :: "server_env \<Rightarrow> string \<Rightarrow> served sact" where
  "serve_request env line = bindA (liftR (parse_line env line)) (\<lambda>parsed. case parsed of
     Inl message \<Rightarrow> ret \<lparr>sy_written = [response_to_dict (refusal message)], sy_stream = None\<rparr>
   | Inr q \<Rightarrow>
       if jq_method q = ''task.logs.stream'' then bindA (dispatch_request env q) (\<lambda>(r, history).
         ret \<lparr>sy_written = [response_to_dict r], sy_stream = stream_of r history\<rparr>)
       else if jq_method q = ''task.create'' \<or> jq_method q = ''task.resume'' then
         bindA (background_response env q) (\<lambda>(r, events). ret \<lparr>sy_written = [response_to_dict r], sy_stream = None\<rparr>)
       else bindA (dispatch_request env q) (\<lambda>(r, events).
         ret \<lparr>sy_written = response_to_dict r # map runtime_event_to_dict events, sy_stream = None\<rparr>))"

text \<open>\<open>serve\<close>: blank lines are skipped; the thread of a request ends with an exception that is not caught.\<close>

definition serve_line :: "server_env \<Rightarrow> string \<Rightarrow> served option sact" where
  "serve_line env raw = (if py_strip raw = [] then ret None
     else bindA (tryA (serve_request env (py_strip raw))) (\<lambda>r. ret (case r of Inl e \<Rightarrow> None | Inr out \<Rightarrow> Some out)))"

inductive server_reachable :: "server_env \<Rightarrow> server_world \<Rightarrow> server_world \<Rightarrow> bool" for env s0 where
  start: "server_reachable env s0 s0"
| line: "server_reachable env s0 s \<Longrightarrow> serve_line env raw s = (r, s') \<Longrightarrow> server_reachable env s0 s'"
| worker: "server_reachable env s0 s \<Longrightarrow> on_runtime (run_worker (hx_runtime env) i) s = (r, s') \<Longrightarrow>
    server_reachable env s0 s'"

section \<open>The server drives the runner\<close>

definition follows :: "server_env \<Rightarrow> world \<Rightarrow> server_world \<Rightarrow> bool" where
  "follows env w0 s \<longleftrightarrow> reachable (hx_runtime env) w0 (wz_runtime s)"

lemma keeps_on_runtime: "(\<And>w. reachable (hx_runtime env) w0 w \<Longrightarrow> reachable (hx_runtime env) w0 (snd (m w))) \<Longrightarrow>
    keeps (follows env w0) (on_runtime m)"
  by (auto simp: keeps_def follows_def on_runtime_def split: prod.split) (metis snd_conv)

lemma keeps_on_auth: "keeps (follows env w0) (on_auth m)"
  by (auto simp: keeps_def follows_def on_auth_def split: prod.split)

lemma snd_ignore_result: "snd (ignore_result m w) = snd (m w)"
  by (simp add: ignore_result_def bindA_run split: prod.split sum.split)

lemma reach_op: "reachable env w0 w \<Longrightarrow> reachable env w0 (snd (perform env o' w))"
  by (metis reachable.move runtime_step.step prod.collapse)

lemma reach_quiet: "snd (m w) = w \<Longrightarrow> reachable env w0 w \<Longrightarrow> reachable env w0 (snd (m w))"
  by simp

lemmas reach_ops =
  reach_op[of _ _ _ "StartOp corr p" for corr p, simplified snd_ignore_result perform.simps]
  reach_op[of _ _ _ "ResumeOp t r i b" for t r i b, simplified snd_ignore_result perform.simps]
  reach_op[of _ _ _ "ReplyOp t m r i b" for t m r i b, simplified snd_ignore_result perform.simps]
  reach_op[of _ _ _ "CancelOp t r reason" for t r reason, simplified snd_ignore_result perform.simps]
  reach_op[of _ _ _ "ApproveOp t i d r ident" for t i d r ident, simplified snd_ignore_result perform.simps]
  reach_op[of _ _ _ "CompactOp t r" for t r, simplified snd_ignore_result perform.simps]
  reach_op[of _ _ _ "SkillInstallOp corr t r a" for corr t r a, simplified snd_ignore_result perform.simps]
  reach_op[of _ _ _ "ListArtifactsOp t r pc ty" for t r pc ty, simplified snd_ignore_result perform.simps]
  reach_op[of _ _ _ "PreviewOp t i r" for t i r, simplified snd_ignore_result perform.simps]
  reach_op[of _ _ _ "SnapshotOp t r" for t r, simplified snd_ignore_result perform.simps]
  reach_op[of _ _ _ "WorkerOp i" for i, simplified perform.simps]

lemma reach_reads:
  "reachable env w0 w \<Longrightarrow> reachable env w0 (snd (getS f w))"
  "reachable env w0 w \<Longrightarrow> reachable env w0 (snd (get_run t r w))"
  "reachable env w0 w \<Longrightarrow> reachable env w0 (snd (read_durable dflt g w))"
  by (simp_all add: get_run_def read_durable_def)

lemma reach_snapshots: "reachable env w0 w \<Longrightarrow> reachable env w0 (snd (snapshots_of env ss w))"
proof (induction ss arbitrary: w)
  case (Cons s ss)
  have "reachable env w0 (snd (get_task_snapshot env (rs_task_id s) (Some (rs_run_id s)) w))"
    using Cons.prems by (rule reach_ops)
  with Cons.IH show ?case by (auto simp: bindA_run split: prod.split sum.split) (metis snd_conv)+
qed simp

lemma keeps_parsing: "(\<And>q. keeps I (f q)) \<Longrightarrow> keeps I (parsing r f)"
  by (rule keeps_bind) (auto intro: keep_rules)

lemma keeps_with_auth: "(\<And>a. keeps I (f a)) \<Longrightarrow> keeps I (with_auth env f)"
  by (auto simp: with_auth_def intro: keep_rules split: option.split)

lemmas follow_rules = keeps_parsing keeps_with_auth keep_rules keeps_on_auth reach_ops reach_reads reach_snapshots
  keeps_on_runtime

lemma follows_runner_methods:
  "keeps (follows env w0) (task_create env d corr background)" "keeps (follows env w0) (task_get env d)"
  "keeps (follows env w0) (task_cancel env d)" "keeps (follows env w0) (task_list env d)"
  "keeps (follows env w0) (task_approve env d)" "keeps (follows env w0) (task_resume env d background)"
  "keeps (follows env w0) (task_compact env d)" "keeps (follows env w0) (task_reply env d)"
  "keeps (follows env w0) (task_artifacts_list env d)" "keeps (follows env w0) (task_artifact_get env d)"
  "keeps (follows env w0) (install_skill env d corr)"
  unfolding task_create_def task_get_def task_cancel_def task_list_def task_approve_def task_resume_def task_compact_def
    task_reply_def task_artifacts_list_def task_artifact_get_def install_skill_def resume_service_resume_def
  by (auto intro!: follow_rules split: prod.split)

lemma follows_other_methods:
  "keeps (follows env w0) (runtime_health env corr)" "keeps (follows env w0) (task_approvals_list env d)"
  "keeps (follows env w0) (task_diagnostics_list env d)" "keeps (follows env w0) (task_logs_stream env d)"
  "keeps (follows env w0) (memory_inspect env d)" "keeps (follows env w0) (remote_mcp_authorize_start env d)"
  "keeps (follows env w0) (remote_mcp_authorize_complete env d)" "keeps (follows env w0) (remote_mcp_revoke env d)"
  unfolding runtime_health_def task_approvals_list_def task_diagnostics_list_def task_logs_stream_def memory_inspect_def
    remote_mcp_authorize_start_def remote_mcp_authorize_complete_def remote_mcp_revoke_def
  by (auto intro!: follow_rules split: prod.split option.split)

lemma follows_no_events: "keeps I m \<Longrightarrow> keeps I (no_events m)"
  by (auto simp: no_events_def intro!: keep_rules)

lemma follows_handler: "map_of (handlers_for env q background) method = Some m \<Longrightarrow> keeps (follows env w0) m"
  by (drule map_of_SomeD)
    (auto simp: handlers_for_def Let_def intro: follows_no_events follows_runner_methods follows_other_methods keep_rules)

lemma follows_dispatch: "keeps (follows env w0) (dispatch_in background env q)"
  unfolding dispatch_in_def handled_def
  by (auto intro!: keep_rules split: option.split intro: follows_handler)

lemma follows_serve_line: "keeps (follows env w0) (serve_line env raw)"
  unfolding serve_line_def serve_request_def dispatch_request_def background_response_def
  by (auto intro!: keep_rules follows_dispatch split: sum.split prod.split)

lemma server_follows:
  "server_reachable env s0 s \<Longrightarrow> reachable (hx_runtime env) (wz_runtime s0) (wz_runtime s)"
proof (induction rule: server_reachable.induct)
  case start
  then show ?case by (rule reachable.start)
next
  case (line s raw r s')
  then show ?case using follows_serve_line[of env "wz_runtime s0" raw] by (auto simp: follows_def dest: keepsD)
next
  case (worker s i r s')
  have "keeps (follows env (wz_runtime s0)) (on_runtime (run_worker (hx_runtime env) i))"
    by (intro keeps_on_runtime reach_ops)
  with worker show ?case by (auto simp: follows_def dest: keepsD)
qed

end
