(* ===== verification/Server_Properties.thy ===== *)
theory Server_Properties
  imports Runtime_Server Sample_Runtime
begin

text \<open>
  What holds of a session with the server: it only does what the runner can do, every line is answered with the code of
  what went wrong, and a task that was created can be read back from then on.
\<close>

section \<open>Requests and their answers\<close>

lemma request_error_is_value_error: "request_of_dict d = Inl e \<Longrightarrow> \<exists>m. e = ValueError m"
  by (auto simp: request_of_dict_def bindR_Inl_iff require_def split: pyval.splits if_split_asm)

lemma request_ids: "request_of_dict d = Inr q \<Longrightarrow>
    jq_id q = dict_get d ''id'' \<and> jq_correlation_id q = dict_get d ''correlation_id''"
  by (auto simp: request_of_dict_def elim!: bindR_InrE)

definition codes :: "int list" where
  "codes = [-32602, -32004, -32000]"

lemma error_of_code: "je_code (error_of e) \<in> set codes"
  by (simp add: error_of_def codes_def)

lemma error_of_ValueError: "je_code (error_of e) = -32602 \<longleftrightarrow> is_value_error e"
  by (simp add: error_of_def)

text \<open>The handler a request gets, with \<open>task.create\<close> and \<open>task.resume\<close> in the background.\<close>

definition in_background :: "json_rpc_request \<Rightarrow> bool" where
  "in_background q \<longleftrightarrow> jq_method q = ''task.create'' \<or> jq_method q = ''task.resume''"

definition handler_of :: "server_env \<Rightarrow> json_rpc_request \<Rightarrow> (rpc_result \<times> runtime_event list) sact option" where
  "handler_of env q = map_of (handlers_for env q (in_background q)) (jq_method q)"

lemma dispatch_in_cases:
  "dispatch_in (in_background q) env q s = (case handler_of env q of
     None \<Rightarrow> (Inr (answer_to q (Inl (unknown_method (jq_method q))), []), s)
   | Some m \<Rightarrow> (case m s of (Inl e, s') \<Rightarrow> (Inr (answer_to q (Inl (error_of e)), []), s')
                | (Inr (x, events), s') \<Rightarrow> (Inr (answer_to q (Inr x), events), s')))"
  by (auto simp: dispatch_in_def handler_of_def handled_def bindA_run tryA_run split: option.split prod.split sum.split)

lemma dispatched_shape:
  obtains out events s' where "dispatch_in (in_background q) env q s = (Inr (answer_to q out, events), s')"
    "case handler_of env q of None \<Rightarrow> out = Inl (unknown_method (jq_method q)) \<and> s' = s
     | Some m \<Rightarrow> s' = snd (m s) \<and> (case fst (m s) of Inl e \<Rightarrow> out = Inl (error_of e) | Inr x \<Rightarrow> out = Inr (fst x))"
proof (cases "handler_of env q")
  case None
  then show ?thesis by (intro that[of "Inl (unknown_method (jq_method q))" "[]" s]) (simp_all add: dispatch_in_cases)
next
  case (Some m)
  show ?thesis
  proof (cases "m s")
    case (Pair r s')
    show ?thesis
    proof (cases r)
      case (Inl e)
      then show ?thesis using Some Pair by (intro that[of "Inl (error_of e)" "[]" s']) (simp_all add: dispatch_in_cases)
    next
      case (Inr x)
      then show ?thesis using Some Pair
        by (intro that[of "Inr (fst x)" "snd x" s']) (simp_all add: dispatch_in_cases split: prod.split)
    qed
  qed
qed

lemma serve_valid:
  assumes "json_loads line = Some (PDict d)" and "request_of_dict d = Inr q"
  shows "\<exists>more stream out s'. serve_request env line s =
      (Inr \<lparr>sy_written = response_to_dict (answer_to q out) # more, sy_stream = stream\<rparr>, s') \<and>
    (case handler_of env q of None \<Rightarrow> out = Inl (unknown_method (jq_method q)) \<and> s' = s
     | Some m \<Rightarrow> s' = snd (m s) \<and> (case fst (m s) of Inl e \<Rightarrow> out = Inl (error_of e) | Inr x \<Rightarrow> out = Inr (fst x)))"
proof -
  obtain out events s' where r: "dispatch_in (in_background q) env q s = (Inr (answer_to q out, events), s')"
    "case handler_of env q of None \<Rightarrow> out = Inl (unknown_method (jq_method q)) \<and> s' = s
     | Some m \<Rightarrow> s' = snd (m s) \<and> (case fst (m s) of Inl e \<Rightarrow> out = Inl (error_of e) | Inr x \<Rightarrow> out = Inr (fst x))"
    by (rule dispatched_shape)
  have p: "parse_line env line = Inr (Inr q)" using assms by (simp add: parse_line_def)
  have "\<exists>more stream. serve_request env line s =
      (Inr \<lparr>sy_written = response_to_dict (answer_to q out) # more, sy_stream = stream\<rparr>, s')"
    using r(1) by (auto simp: serve_request_def p bindA_run in_background_def dispatch_request_def background_response_def)
  then show ?thesis using r(2) by blast
qed

section \<open>Properties\<close>


text \<open>
  C22. The server refines the runner: whatever lines its clients send, in which order and however its background runs
  progress, the world of its runner is one the runner reaches by its own operations, so every property of reachable worlds
  holds of a session; in particular that world is well-formed.
\<close>

theorem session_refines_runner:
  assumes "local_harness (hx_runtime env)" and "wz_runtime s0 = initial_world dur fs"
    and "\<And>d. dur = Some d \<Longrightarrow> durable_ok d" and "server_reachable env s0 s"
  shows "reachable (hx_runtime env) (initial_world dur fs) (wz_runtime s) \<and> world_ok (wz_runtime s)"
proof -
  have "reachable (hx_runtime env) (initial_world dur fs) (wz_runtime s)" using server_follows[OF assms(4)] assms(2) by simp
  then show ?thesis using reachable_world_ok[OF assms(1)] world_ok_initial[of dur fs] assms(3) by blast
qed

section \<open>A created task\<close>

lemma started_run_is_kept:
  assumes "local_harness env" and "world_ok w" and "core_kept env k None w" and "start_run env corr p w = (Inr (t, r, at), w')"
  shows "\<exists>roots th. factory_normalize_roots (sp_workspace_roots p) = Inr roots \<and> r \<noteq> [] \<and>
    core_kept env (t, r) (Some (accepted_state p roots t r at th)) w'"
proof -
  obtain roots w1 where roots: "factory_normalize_roots (sp_workspace_roots p) = Inr roots"
    and alloc: "allocate_run env p roots w = (Inr (t, r, at), w1)"
    and rest: "thenA (write_run_metrics env t r (no_change\<lparr>mc_started_at := Some at\<rparr>))
     (thenA (seed_run_message_history env t r (sp_objective p) (sp_constraints p) (sp_success_criteria p))
     (thenA (publish env t r corr (event_value TASK_CREATED) at runner_source (created_payload p roots))
     (thenA (launch_run env t r corr (sp_identity p) False (sp_background p)) (ret (t, r, at))))) w1 = (Inr (t, r, at), w')"
    using assms(4) unfolding start_run_def by (auto simp: bindA_Inr) (auto simp: thenA_Inr)
  obtain th where runs: "w_runs w1 = store_create (accepted_state p roots t r at th) (w_runs w)" and r: "r \<noteq> []"
    by (rule allocate_run_Inr[OF alloc]) auto
  let ?s = "accepted_state p roots t r at th"
  have "core_kept env (t, r) None w" using assms(3) by (simp add: core_kept_def)
  then have "core_kept env (t, r) None w1" using core_kept_allocate alloc by blast
  moreover have "store_lookup (w_runs w1) (t, r) = Some ?s"
    by (simp add: runs lookup_create rs_key_def accepted_state_def)
  ultimately have "core_kept env (t, r) (Some ?s) w1" by (simp add: core_kept_def)
  moreover have "world_ok w1" using world_ok_allocated assms(2) alloc by blast
  moreover have "keeps (\<lambda>w. world_ok w \<and> core_kept (own_env env) (t, r) (Some ?s) w)
    (thenA (write_run_metrics (own_env env) t r (no_change\<lparr>mc_started_at := Some at\<rparr>))
     (thenA (seed_run_message_history (own_env env) t r (sp_objective p) (sp_constraints p) (sp_success_criteria p))
     (thenA (publish (own_env env) t r corr (event_value TASK_CREATED) at runner_source (created_payload p roots))
     (thenA (launch_run (own_env env) t r corr (sp_identity p) False (sp_background p)) (ret (t, r, at))))))"
    by (intro keep_rules identity.log_rules identity.k_launch TrueI r)
  ultimately have "core_kept env (t, r) (Some ?s) w'"
    using rest by (auto simp: own_env_local[OF assms(1)] dest: keepsD)
  then show ?thesis using roots r by blast
qed

lemma text_field_here [simp]: "text_field ((k, PStr s) # d) k = py_strip s"
  by simp

lemma snapshot_read:
  assumes "store_lookup (w_runs w) (t, r) = Some s" and "r \<noteq> []"
  shows "\<exists>sn. get_task_snapshot env t (Some r) w = (Inr sn, w) \<and>
    (\<exists>latest. sn = snapshot_of env s latest)"
  using assms by (auto simp: get_task_snapshot_def bindA_run get_run_known read_durable_def)

text \<open>
  C23. A task that was created is served from then on: after any later requests, of this client or others, and any progress
  of its run, \<open>task.get\<close> with the ids of the answer reads back the objective, the user, the criteria and the constraints
  the client sent, with the roots the sandbox made of its roots.
\<close>

theorem created_task_is_served:
  assumes "local_harness (hx_runtime env)" and "wz_runtime s0 = initial_world dur fs"
    and "\<And>d. dur = Some d \<Longrightarrow> durable_ok d" and "server_reachable env s0 s"
    and "task_create env d corr background s = (Inr (TaskCreateResult t r status at), s1)"
    and "server_reachable env s1 s2" and "ids_distinct (hx_runtime env) (wz_runtime s2)" and "py_strip t = t"
  shows "\<exists>q sn roots. create_params_of_dict d = Inr q \<and> factory_normalize_roots (tq_workspace_roots q) = Inr roots \<and>
    fst (task_get env [(''task_id'', PStr t), (''run_id'', PStr r)] s2) = Inr (TaskGetResult sn) \<and>
    tn_task_id sn = t \<and> tn_run_id sn = r \<and> tn_created_at sn = at \<and> tn_objective sn = tq_objective q \<and>
    tn_runtime_user_id sn = tq_runtime_user_id q \<and> tn_workspace_roots sn = list_or_none roots \<and>
    tn_constraints sn = list_or_none (tq_constraints q) \<and> tn_success_criteria sn = list_or_none (tq_success_criteria q)"
proof -
  let ?rt = "hx_runtime env"
  obtain q where q: "create_params_of_dict d = Inr q" and
      start: "start_run ?rt (correlation_text corr) (start_params_of env q background) (wz_runtime s) = (Inr (t, r, at), wz_runtime s1)"
    using assms(5) by (auto simp: task_create_def bindA_Inr on_runtime_def split: if_split_asm prod.split_asm)
  have here: "reachable ?rt (initial_world dur fs) (wz_runtime s)" "world_ok (wz_runtime s)"
    using server_follows[OF assms(4)] assms(1-3) reachable_world_ok[OF assms(1)] world_ok_initial[of dur fs] by auto
  have "core_kept ?rt k None (initial_world dur fs)" for k
    by (simp add: core_kept_def runs_numbered_def initial_world_def empty_run_store_def store_lookup_def)
  then have "core_kept ?rt k None (wz_runtime s)" for k
    using reachable_core_kept[OF assms(1) here(1)] world_ok_initial[of dur fs] assms(3) by blast
  then obtain roots th where roots: "factory_normalize_roots (tq_workspace_roots q) = Inr roots" "r \<noteq> []"
      "core_kept ?rt (t, r) (Some (accepted_state (start_params_of env q background) roots t r at th)) (wz_runtime s1)"
    using started_run_is_kept[OF assms(1) here(2) _ start] by (auto simp: start_params_of_def)
  have "world_ok (wz_runtime s1)"
    using reachable_world_ok[OF assms(1) reach_ops(1)[OF reachable.start]] here(2) start by (metis snd_conv)
  then have "core_kept ?rt (t, r) (Some (accepted_state (start_params_of env q background) roots t r at th)) (wz_runtime s2)"
    using reachable_core_kept[OF assms(1) server_follows[OF assms(6)]] roots(3) by blast
  then obtain a where a: "store_lookup (w_runs (wz_runtime s2)) (t, r) = Some a"
      "run_core a = run_core (accepted_state (start_params_of env q background) roots t r at th)"
    using assms(7) by (auto simp: core_kept_def)
  obtain sn latest where sn: "get_task_snapshot ?rt t (Some r) (wz_runtime s2) = (Inr sn, wz_runtime s2)"
      "sn = snapshot_of ?rt a latest"
    using snapshot_read[OF a(1) roots(2)] by blast
  have "t \<noteq> []" using start by (auto simp: start_run_def allocate_run_def bindA_Inr thenA_Inr new_id_def)
  then have "get_params_of_dict [(''task_id'', PStr t), (''run_id'', PStr r)] = Inr \<lparr>rq_task_id = t, rq_run_id = Some r\<rparr>"
    using assms(8) by (simp add: get_params_of_dict_def run_params_of_def Let_def optional_text_def)
  then have "fst (task_get env [(''task_id'', PStr t), (''run_id'', PStr r)] s2) = Inr (TaskGetResult sn)"
    using sn(1) by (simp add: task_get_def bindA_run on_runtime_def)
  then show ?thesis using q roots(1) sn(2) a(2)
    by (auto simp: snapshot_of_def run_core_def accepted_state_def start_params_of_def)
qed

text \<open>A line that holds a JSON value other than an object is never answered: its thread dies of the missing attribute.\<close>

lemma non_object_is_not_answered:
  assumes "json_loads (py_strip raw) = Some v" and "as_dict v = None" and "py_strip raw \<noteq> []"
  shows "serve_line env raw s = (Inr None, s)"
  using assms by (cases v) (simp_all add: serve_line_def serve_request_def parse_line_def bindA_run tryA_run)

section \<open>A sample session\<close>

definition sample_server :: server_env where
  "sample_server = \<lparr>hx_runtime = sample_env sample_harness, hx_auth = None, hx_config = sample_runtime_config,
     hx_identity = \<lparr>ib_source_path = ''/id/IDENTITY.md'', ib_version = ''sha256:0'', ib_sha256 = ''0'', ib_content = ''i''\<rparr>,
     hx_subagents = [], hx_sources = None, hx_json_error = (\<lambda>_. ''Expecting value'')\<rparr>"

definition sample_session :: server_world where
  "sample_session = \<lparr>wz_runtime = sample_start, wz_auth = \<lparr>aw_store = empty_grants, aw_events = [], aw_tick = 0\<rparr>\<rparr>"

definition sample_line :: string where
  "sample_line = map (\<lambda>c. if c = CHR ''~'' then CHR 0x22 else c) ''{~jsonrpc~:~2.0~,~method~:~task.fly~,~id~:7}''"

lemma sample_session_start: "wz_runtime sample_session = initial_world (Some sample_durable) []"
  by (simp add: sample_session_def sample_start_def)

lemma sample_request: "json_loads (py_strip sample_line) =
    Some (PDict [(''jsonrpc'', PStr ''2.0''), (''method'', PStr ''task.fly''), (''id'', PInt 7)])"
  by code_simp


theorem session_refines_runner_witness:
  "world_ok (wz_runtime (snd (serve_line sample_server sample_line sample_session)))"
proof -
  have "server_reachable sample_server sample_session (snd (serve_line sample_server sample_line sample_session))"
    by (rule server_reachable.line[OF server_reachable.start]) (rule prod.collapse[symmetric])
  moreover have "local_harness (hx_runtime sample_server)" by (simp add: sample_server_def sample_local)
  ultimately show ?thesis
    using session_refines_runner[of sample_server sample_session "Some sample_durable" "[]"] sample_session_start
      sample_durable_ok by simp
qed

definition sample_create :: pydict where
  "sample_create = [(''task'', PDict [(''objective'', PStr ''o''), (''workspace_roots'', PList [PStr ''/workspace''])])]"

lemma sample_create_params: "create_params_of_dict sample_create =
    Inr \<lparr>tq_objective = ''o'', tq_workspace_roots = [''/workspace''], tq_runtime_user_id = None, tq_scope = [],
      tq_success_criteria = [], tq_constraints = [], tq_allowed_capabilities = [], tq_metadata = []\<rparr>"
  by code_simp

lemma sample_started: "start_run (sample_env sample_harness) None sample_params sample_start =
    (Inr (fst sample_key, snd sample_key, sample_uuid 2), sample_world)"
proof -
  have "fst (start_run (sample_env sample_harness) None sample_params sample_start) =
      Inr (fst sample_key, snd sample_key, sample_uuid 2)"
    by (simp add: world_defs store_defs sample_roots_ok Let_def sample_key_def accepted_state_def numeral_2_eq_2 cong: run_weak)
  then show ?thesis
    by (simp add: sample_world_def snd_ignore_result prod_eq_iff)
qed

theorem created_task_is_served_witness:
  "\<exists>s1 sn. task_create sample_server sample_create PNone True sample_session =
      (Inr (TaskCreateResult (fst sample_key) (snd sample_key) ''accepted'' (sample_uuid 2)), s1) \<and>
    fst (task_get sample_server [(''task_id'', PStr (fst sample_key)), (''run_id'', PStr (snd sample_key))] s1) =
      Inr (TaskGetResult sn) \<and> tn_objective sn = ''o''"
proof -
  have "\<not> requires_runtime_user_id sample_runtime_config" by code_simp
  then have made: "task_create sample_server sample_create PNone True sample_session =
      (Inr (TaskCreateResult (fst sample_key) (snd sample_key) ''accepted'' (sample_uuid 2)),
       sample_session\<lparr>wz_runtime := sample_world\<rparr>)" (is "_ = (_, ?s1)")
    using sample_started
    by (simp add: task_create_def sample_create_params bindA_run on_runtime_def sample_server_def start_params_of_def
        correlation_text_def sample_params_def sample_session_def)
  have "local_harness (hx_runtime sample_server)" by (simp add: sample_server_def sample_local)
  moreover have "ids_distinct (hx_runtime sample_server) (wz_runtime ?s1)"
    using sample_ids[of sample_world] sample_world_facts by (simp add: sample_server_def)
  moreover have "py_strip (fst sample_key) = fst sample_key" by code_simp
  ultimately show ?thesis
    using created_task_is_served[OF _ sample_session_start _ server_reachable.start made server_reachable.start] made
      sample_create_params sample_durable_ok by fastforce
qed

end
