(* ===== verification/Skill_Installer.thy ===== *)
theory Skill_Installer
  imports Task_Skills Subagents
begin

text \<open>
  \<open>services/subagent_runtime/skill_installer.py\<close>: \<open>SkillInstallationService\<close> as an instance of the installer the
  runner uses. A staged directory is validated, copied beside its target and moved into place.

  The host files are those of the world, under their real paths; a directory is there when a file is below it or when the
  host says so (\<open>sh_dir\<close>). The host is a parameter: its symbolic links, its empty directories, the decoding of a text
  file, SHA-256 of a text, the error of reading a file, and where a step of the installation stops (\<open>sh_fault\<close>): the
  exception, and which files the step had dealt with by then.
\<close>

datatype host_step = Make_root | Drop_staging | Copy_source | Drop_target | Move_staging

record skill_host =
  sh_links :: "host_path list"
  sh_dir :: "host_path \<Rightarrow> bool"
  sh_decode :: "string \<Rightarrow> string result"
  sh_sha256 :: "string \<Rightarrow> string"
  sh_error :: "host_path \<Rightarrow> exn option"
  sh_fault :: "host_step \<Rightarrow> (exn \<times> (host_path \<Rightarrow> bool)) option"

section \<open>Validation results\<close>

record skill_finding =
  fi_severity :: string
  fi_code :: string
  fi_message :: string
  fi_path :: "string option"

definition finding_to_dict :: "skill_finding \<Rightarrow> pydict" where
  "finding_to_dict f = strip_none
     [(''severity'', PStr (fi_severity f)), (''code'', PStr (fi_code f)), (''message'', PStr (fi_message f)),
      (''path'', opt_str (fi_path f))]"

record skill_check =
  vk_status :: string
  vk_findings :: "skill_finding list"
  vk_has_scripts :: bool
  vk_total_bytes :: int
  vk_file_count :: int
  vk_skill_id :: "string option"

definition check_to_dict :: "skill_check \<Rightarrow> pydict" where
  "check_to_dict v =
     [(''status'', PStr (vk_status v)), (''findings'', PList (map (\<lambda>f. PDict (finding_to_dict f)) (vk_findings v))),
      (''has_scripts'', PBool (vk_has_scripts v)), (''total_bytes'', PInt (vk_total_bytes v)),
      (''file_count'', PInt (vk_file_count v)), (''skill_id'', opt_str (vk_skill_id v))]"

section \<open>Secrets\<close>

text \<open>
  \<open>_SECRET_PATTERNS\<close> and \<open>re.search\<close>: a pattern is tried at every position, with the character before it for \<open>\b\<close>. The
  characters of \<open>\w\<close> are the alphanumeric ones of Latin-1 and the underscore.
\<close>

definition is_word_char :: "char \<Rightarrow> bool" where
  "is_word_char c = (let n = code_point c in (48 \<le> n \<and> n \<le> 57) \<or> (65 \<le> n \<and> n \<le> 90) \<or> n = 95 \<or> (97 \<le> n \<and> n \<le> 122) \<or>
     n \<in> {170, 178, 179, 181, 185, 186, 188, 189, 190} \<or> (192 \<le> n \<and> n \<noteq> 215 \<and> n \<noteq> 247))"

definition is_ascii_alnum :: "char \<Rightarrow> bool" where
  "is_ascii_alnum c = (let n = code_point c in (48 \<le> n \<and> n \<le> 57) \<or> (65 \<le> n \<and> n \<le> 90) \<or> (97 \<le> n \<and> n \<le> 122))"

definition is_upper_or_blank :: "char \<Rightarrow> bool" where
  "is_upper_or_blank c = (let n = code_point c in n = 32 \<or> (65 \<le> n \<and> n \<le> 90))"

fun re_search :: "(char option \<Rightarrow> string \<Rightarrow> bool) \<Rightarrow> char option \<Rightarrow> string \<Rightarrow> bool" where
  "re_search m before [] = m before []"
| "re_search m before (c # cs) = (m before (c # cs) \<or> re_search m (Some c) cs)"

text \<open>\<open>[...]*\<close> followed by a fixed text.\<close>

fun spans_to :: "(char \<Rightarrow> bool) \<Rightarrow> string \<Rightarrow> string \<Rightarrow> bool" where
  "spans_to P rest [] = startswith [] rest"
| "spans_to P rest (c # cs) = (startswith (c # cs) rest \<or> P c \<and> spans_to P rest cs)"

definition private_key_at :: "char option \<Rightarrow> string \<Rightarrow> bool" where
  "private_key_at before s =
     (startswith s ''-----BEGIN '' \<and> spans_to is_upper_or_blank ''PRIVATE KEY-----'' (drop 11 s))"

text \<open>\<open>\bghp_[A-Za-z0-9]{20,}\b\<close>: only the longest run can end at a boundary.\<close>

definition prefixed_token_at :: "string \<Rightarrow> char option \<Rightarrow> string \<Rightarrow> bool" where
  "prefixed_token_at lead before s = (let body = drop (length lead) s in
     (case before of None \<Rightarrow> True | Some c \<Rightarrow> \<not> is_word_char c) \<and> startswith s lead \<and>
     20 \<le> length (takeWhile is_ascii_alnum body) \<and>
     (case dropWhile is_ascii_alnum body of [] \<Rightarrow> True | c # _ \<Rightarrow> \<not> is_word_char c))"

definition is_quote :: "char \<Rightarrow> bool" where
  "is_quote c = (c = CHR 0x22 \<or> c = CHR 0x27)"

definition quoted_value :: "string \<Rightarrow> bool" where
  "quoted_value s = (case s of [] \<Rightarrow> False
     | q # r \<Rightarrow> is_quote q \<and> takeWhile (\<lambda>c. \<not> is_quote c) r \<noteq> [] \<and> dropWhile (\<lambda>c. \<not> is_quote c) r \<noteq> [])"

definition assigned_value :: "string \<Rightarrow> bool" where
  "assigned_value s = (case dropWhile py_isspace s of [] \<Rightarrow> False
     | c # r \<Rightarrow> (c = CHR '':'' \<or> c = CHR ''='') \<and> quoted_value (dropWhile py_isspace r))"

definition secret_names :: "string list" where
  "secret_names = [''api_key'', ''api-key'', ''apikey'', ''secret'', ''token'']"

definition assignment_at :: "char option \<Rightarrow> string \<Rightarrow> bool" where
  "assignment_at before s =
     list_ex (\<lambda>n. startswith (py_lower s) n \<and> assigned_value (drop (length n) s)) secret_names"

definition secret_patterns :: "(char option \<Rightarrow> string \<Rightarrow> bool) list" where
  "secret_patterns = [private_key_at, prefixed_token_at ''ghp_'', prefixed_token_at ''sk-'', assignment_at]"

definition contains_secret :: "string \<Rightarrow> bool" where
  "contains_secret text = list_ex (\<lambda>m. re_search m None text) secret_patterns"

section \<open>Validation\<close>

definition file_at :: "files \<Rightarrow> host_path \<Rightarrow> bool" where
  "file_at fs p = list_ex (\<lambda>f. fst f = p) fs"

definition dir_at :: "skill_host \<Rightarrow> files \<Rightarrow> host_path \<Rightarrow> bool" where
  "dir_at host fs p = (sh_dir host p \<or> list_ex (\<lambda>f. strict_prefix p (fst f)) fs)"

definition exists_at :: "skill_host \<Rightarrow> files \<Rightarrow> host_path \<Rightarrow> bool" where
  "exists_at host fs p = (file_at fs p \<or> dir_at host fs p)"

text \<open>\<open>sorted(source_root.rglob("*"))\<close> without the directories; links are not followed.\<close>

definition bundle_entries :: "skill_host \<Rightarrow> files \<Rightarrow> host_path \<Rightarrow> host_path list" where
  "bundle_entries host fs root = sort (remdups (map (drop (length root))
     (filter (\<lambda>p. strict_prefix root p \<and> \<not> list_ex (\<lambda>l. strict_prefix root l \<and> strict_prefix l p) (sh_links host))
       (map fst fs @ sh_links host))))"

definition max_skill_bytes :: int where "max_skill_bytes = 1000000"

definition text_suffixes :: "string list" where
  "text_suffixes = [''.md'', ''.txt'', ''.py'', ''.sh'', ''.json'', ''.yaml'', ''.yml'']"

record skill_scan =
  sc_findings :: "skill_finding list"
  sc_manifest :: "string list"
  sc_total_bytes :: int
  sc_has_scripts :: bool
  sc_has_skill_md :: bool

definition finding :: "string \<Rightarrow> string \<Rightarrow> string \<Rightarrow> string option \<Rightarrow> skill_finding" where
  "finding severity code message path =
     \<lparr>fi_severity = severity, fi_code = code, fi_message = message, fi_path = path\<rparr>"

definition size_findings :: "int \<Rightarrow> skill_finding list" where
  "size_findings n = (if n > max_skill_bytes
     then [finding ''warning'' ''package_large'' (''Skill package exceeds '' @ dec_int max_skill_bytes @ '' bytes.'') None]
     else [])"

definition secret_findings :: "skill_host \<Rightarrow> files \<Rightarrow> host_path \<Rightarrow> host_path \<Rightarrow> skill_finding list result" where
  "secret_findings host fs root rel =
     (if py_lower (path_suffix (path_name rel)) \<in> set text_suffixes then
        (case sh_decode host (file_bytes fs (root @ rel)) of
           Inl (UnicodeDecodeError m) \<Rightarrow> Inr []
         | Inl e \<Rightarrow> Inl e
         | Inr text \<Rightarrow> Inr (if contains_secret text
             then [finding ''error'' ''secret_detected'' ''Skill bundle appears to contain a secret-like value.''
                     (Some (join_with ''/'' rel))] else []))
      else Inr [])"

definition scan_file :: "skill_host \<Rightarrow> files \<Rightarrow> host_path \<Rightarrow> host_path \<Rightarrow> skill_scan \<Rightarrow> skill_scan result" where
  "scan_file host fs root rel s = (case sh_error host (root @ rel) of Some e \<Rightarrow> Inl e | None \<Rightarrow>
     (let bytes = sc_total_bytes s + int (length (file_bytes fs (root @ rel))) in
      bindR (secret_findings host fs root rel) (\<lambda>secrets.
        Inr \<lparr>sc_findings = sc_findings s @ size_findings bytes @ secrets,
             sc_manifest = sc_manifest s @ [join_with ''/'' rel], sc_total_bytes = bytes,
             sc_has_scripts = (sc_has_scripts s \<or> hd rel = ''scripts''),
             sc_has_skill_md = (sc_has_skill_md s \<or> join_with ''/'' rel = ''SKILL.md'')\<rparr>)))"

definition scan_entry :: "skill_host \<Rightarrow> files \<Rightarrow> host_path \<Rightarrow> host_path \<Rightarrow> skill_scan \<Rightarrow> skill_scan result" where
  "scan_entry host fs root rel s =
     (if root @ rel \<in> set (sh_links host)
      then Inr (s\<lparr>sc_findings := sc_findings s @ [finding ''error'' ''symlink_not_allowed''
             ''Symlinks are not allowed in skill bundles.'' (Some (join_with ''/'' rel))]\<rparr>)
      else scan_file host fs root rel s)"

fun scan_entries :: "skill_host \<Rightarrow> files \<Rightarrow> host_path \<Rightarrow> host_path list \<Rightarrow> skill_scan \<Rightarrow> skill_scan result" where
  "scan_entries host fs root [] s = Inr s"
| "scan_entries host fs root (rel # rels) s = bindR (scan_entry host fs root rel s) (scan_entries host fs root rels)"

definition scan_start :: "string \<Rightarrow> skill_scan" where
  "scan_start skill = \<lparr>sc_findings = (if skill = []
       then [finding ''error'' ''invalid_name'' ''Skill directory name must be non-empty.'' None] else []),
     sc_manifest = [], sc_total_bytes = 0, sc_has_scripts = False, sc_has_skill_md = False\<rparr>"

definition status_of :: "skill_finding list \<Rightarrow> string" where
  "status_of fs = (if list_ex (\<lambda>f. fi_severity f = ''error'') fs then ''fail''
     else if fs \<noteq> [] then ''pass_with_warnings'' else ''pass'')"

definition all_findings :: "skill_scan \<Rightarrow> skill_finding list" where
  "all_findings s = sc_findings s @ (if sc_has_skill_md s then []
     else [finding ''error'' ''missing_skill_md'' ''Skill bundle must contain SKILL.md at the root.'' (Some ''SKILL.md'')])"

definition validate_skill :: "skill_host \<Rightarrow> files \<Rightarrow> host_path \<Rightarrow> (skill_check \<times> string list) result" where
  "validate_skill host fs root = (let skill = py_strip (path_name root) in
     bindR (scan_entries host fs root (bundle_entries host fs root) (scan_start skill)) (\<lambda>s.
       Inr (\<lparr>vk_status = status_of (all_findings s), vk_findings = all_findings s, vk_has_scripts = sc_has_scripts s,
              vk_total_bytes = sc_total_bytes s, vk_file_count = int (length (sc_manifest s)),
              vk_skill_id = (if skill = [] then None else Some skill)\<rparr>, sc_manifest s)))"

definition with_finding :: "skill_check \<Rightarrow> skill_finding \<Rightarrow> skill_check" where
  "with_finding v f = v\<lparr>vk_status := (if fi_severity f = ''error'' then ''fail'' else ''pass_with_warnings''),
     vk_findings := vk_findings v @ [f]\<rparr>"

section \<open>Preparing\<close>

text \<open>
  The target is a pure path: \<open>/\<close> drops a component \<open>.\<close> and keeps \<open>..\<close>, which the host resolves. The name of the skill has no
  separator, as it comes from the last component of a path.
\<close>

definition skill_target :: "host_path \<Rightarrow> string \<Rightarrow> host_path" where
  "skill_target root name = (if name = ''.'' then root else root @ [name])"

definition os_path :: "host_path \<Rightarrow> host_path" where
  "os_path p = foldl (\<lambda>q c. if c = ''..'' then butlast q else q @ [c]) [] p"

record skill_catalog =
  sg_identity_path :: host_path
  sg_bundles :: "asset_bundle list"
  sg_resolve :: "host_path \<Rightarrow> host_path"

definition prepare_install ::
    "skill_host \<Rightarrow> skill_catalog \<Rightarrow> sandbox_roots \<Rightarrow> files \<Rightarrow> skill_install_args \<Rightarrow> prepared_install result" where
  "prepare_install host cat sr fs a =
     (if si_install_mode a \<noteq> ''fail_if_exists'' \<and> si_install_mode a \<noteq> ''replace''
      then Inl (ValueError ''skill.install install_mode must be fail_if_exists or replace'') else
      bindR (sandbox_normalize (si_source_path a)) (\<lambda>source.
      bindR (sandbox_resolve (sg_resolve cat) sr source) (\<lambda>src.
      if \<not> exists_at host fs src then Inl (ValueError (''skill.install source_path does not exist: '' @ source))
      else if \<not> dir_at host fs src then Inl (ValueError (''skill.install source_path must be a directory: '' @ source)) else
      bindR (resolve_install_target (sg_identity_path cat) (sg_bundles cat) (si_target_scope a) (si_target_role a)) (\<lambda>t.
      bindR (validate_skill host fs src) (\<lambda>(v, manifest). case vk_skill_id v of
        None \<Rightarrow> Inl (ValueError ''skill.install could not derive a skill id from the staged directory'')
      | Some skill \<Rightarrow>
          (let target = skill_target (it_managed_root t) skill; overwrite = exists_at host fs (os_path target);
               v' = (if overwrite \<and> si_install_mode a = ''fail_if_exists''
                     then with_finding v (finding ''error'' ''conflict'' ''Skill already exists at the target path.''
                            (Some (host_str target)))
                     else v) in
           Inr \<lparr>pi_source_path = source, pi_target_scope = it_target_scope t, pi_role_id = it_role_id t,
                pi_install_mode = si_install_mode a, pi_reason = py_strip (si_reason a), pi_overwrite = overwrite,
                pi_target_path = host_str target, pi_status = vk_status v', pi_has_scripts = vk_has_scripts v',
                pi_skill_id = vk_skill_id v', pi_validation = check_to_dict v', pi_source_host = src,
                pi_target_host = target, pi_managed_root = it_managed_root t, pi_manifest = manifest\<rparr>))))))"

section \<open>Executing\<close>

text \<open>
  Each step acts on the host files; when the host stops it, only the files it had dealt with are changed. \<open>rmtree\<close> and
  \<open>copytree\<close> go file by file, \<open>replace\<close> is one system call.
\<close>

type_synonym host_act = "(files, unit) act"

definition stepwise :: "skill_host \<Rightarrow> host_step \<Rightarrow> ((host_path \<Rightarrow> bool) \<Rightarrow> files \<Rightarrow> files) \<Rightarrow> host_act" where
  "stepwise host step eff = (\<lambda>fs. case sh_fault host step of
     None \<Rightarrow> (Inr (), eff (\<lambda>_. True) fs) | Some (e, dealt) \<Rightarrow> (Inl e, eff dealt fs))"

definition dropped :: "host_path \<Rightarrow> (host_path \<Rightarrow> bool) \<Rightarrow> files \<Rightarrow> files" where
  "dropped p dealt fs = filter (\<lambda>f. \<not> (prefix p (fst f) \<and> dealt (fst f))) fs"

definition copied :: "host_path \<Rightarrow> host_path \<Rightarrow> (host_path \<Rightarrow> bool) \<Rightarrow> files \<Rightarrow> files" where
  "copied src dst dealt fs = map (\<lambda>f. (dst @ drop (length src) (fst f), snd f))
     (filter (\<lambda>f. strict_prefix src (fst f) \<and> dealt (fst f)) fs) @ fs"

definition moved :: "host_path \<Rightarrow> host_path \<Rightarrow> files \<Rightarrow> files" where
  "moved p q fs = map (\<lambda>f. (if prefix p (fst f) then q @ drop (length p) (fst f) else fst f, snd f)) fs"

definition remove_tree :: "skill_host \<Rightarrow> host_step \<Rightarrow> host_path \<Rightarrow> host_act" where
  "remove_tree host step p = (\<lambda>fs.
     if \<not> exists_at host fs p then (Inr (), fs)
     else if file_at fs p then (Inl (OtherException ''Not a directory''), fs)
     else stepwise host step (dropped p) fs)"

definition make_root :: "skill_host \<Rightarrow> host_path \<Rightarrow> host_act" where
  "make_root host p = (\<lambda>fs.
     if file_at fs p then (Inl (OtherException ''File exists''), fs) else stepwise host Make_root (\<lambda>dealt fs. fs) fs)"

definition copy_tree :: "skill_host \<Rightarrow> host_path \<Rightarrow> host_path \<Rightarrow> host_act" where
  "copy_tree host src dst = (\<lambda>fs.
     if \<not> dir_at host fs src then (Inl (FileNotFoundError (host_str src)), fs)
     else stepwise host Copy_source (copied src dst) fs)"

definition move_tree :: "skill_host \<Rightarrow> host_path \<Rightarrow> host_path \<Rightarrow> host_act" where
  "move_tree host p q = (\<lambda>fs. case sh_fault host Move_staging of
     Some (e, dealt) \<Rightarrow> (Inl e, fs)
   | None \<Rightarrow> if exists_at host fs p then (Inr (), moved p q fs) else (Inl (FileNotFoundError (host_str p)), fs))"

definition staging_path :: "host_path \<Rightarrow> host_path" where
  "staging_path target = butlast target @ [''.'' @ path_name target @ ''.installing'']"

definition run_install :: "skill_host \<Rightarrow> prepared_install \<Rightarrow> host_act" where
  "run_install host p = (let target = pi_target_host p; staging = staging_path target in
     thenA (make_root host (pi_managed_root p))
    (thenA (remove_tree host Drop_staging (os_path staging))
    (thenA (copy_tree host (pi_source_host p) (os_path staging))
    (thenA (remove_tree host Drop_target (os_path target))
           (move_tree host (os_path staging) (os_path target))))))"

section \<open>Artifacts\<close>

text \<open>\<open>json.dumps(v, sort_keys=True, indent=2)\<close>, with every character outside of printable ASCII escaped.\<close>

definition json_char :: "char \<Rightarrow> string" where
  "json_char c = (let n = code_point c in
     if c = CHR 0x22 \<or> n = 92 then [CHR 0x5C, c]
     else if n = 10 then [CHR 0x5C, CHR ''n''] else if n = 13 then [CHR 0x5C, CHR ''r'']
     else if n = 9 then [CHR 0x5C, CHR ''t''] else if n = 12 then [CHR 0x5C, CHR ''f'']
     else if n = 8 then [CHR 0x5C, CHR ''b'']
     else if n < 32 \<or> 126 < n then [CHR 0x5C, CHR ''u'', CHR ''0'', CHR ''0'', hex_digit (n div 16), hex_digit (n mod 16)]
     else [c])"

definition json_text :: "string \<Rightarrow> string" where
  "json_text s = [CHR 0x22] @ concat (map json_char s) @ [CHR 0x22]"

definition json_block :: "char \<Rightarrow> char \<Rightarrow> nat \<Rightarrow> string list \<Rightarrow> string" where
  "json_block l r depth items = (if items = [] then [l, r] else
     (let line = CHR 0x0A # replicate (2 * Suc depth) (CHR '' '') in
      [l] @ line @ join_with ([CHR '',''] @ line) items @ [CHR 0x0A] @ replicate (2 * depth) (CHR '' '') @ [r]))"

fun json_lines :: "nat \<Rightarrow> pyval \<Rightarrow> string" where
  "json_lines depth PNone = ''null''"
| "json_lines depth (PBool b) = (if b then ''true'' else ''false'')"
| "json_lines depth (PInt n) = dec_int n"
| "json_lines depth (PFloat r) = r"
| "json_lines depth (PStr s) = json_text s"
| "json_lines depth (PList xs) = json_block (CHR ''['') (CHR '']'') depth (map (json_lines (Suc depth)) xs)"
| "json_lines depth (PDict d) = json_block (CHR ''{'') (CHR ''}'') depth
     (map (\<lambda>kv. json_text (fst kv) @ '': '' @ json_lines (Suc depth) (snd kv)) d)"

definition json_document :: "pydict \<Rightarrow> string" where
  "json_document d = json_lines 0 (PDict (json_dict d)) @ [CHR 0x0A]"

definition manifest_hash :: "skill_host \<Rightarrow> string list \<Rightarrow> string" where
  "manifest_hash host manifest = sh_sha256 host (concat (map (\<lambda>e. e @ [CHR 0x0A]) manifest))"

definition install_summary :: "skill_host \<Rightarrow> prepared_install \<Rightarrow> pydict" where
  "install_summary host p =
     [(''source_path'', PStr (pi_source_path p)), (''target_path'', PStr (host_str (pi_target_host p))),
      (''target_scope'', PStr (pi_target_scope p)), (''target_role'', opt_str (pi_role_id p)),
      (''install_mode'', PStr (pi_install_mode p)), (''reason'', PStr (pi_reason p)),
      (''overwrite'', PBool (pi_overwrite p)), (''manifest_sha256'', PStr (manifest_hash host (pi_manifest p)))]"

definition conflict_report :: "prepared_install \<Rightarrow> pydict" where
  "conflict_report p = [(''status'', PStr (if pi_install_mode p = ''replace'' then ''replace'' else ''conflict'')),
     (''target_path'', PStr (host_str (pi_target_host p)))]"

definition artifact_payloads :: "skill_host \<Rightarrow> prepared_install \<Rightarrow> (string \<times> string) list" where
  "artifact_payloads host p =
     (let base = ''/workspace/artifacts/skill-installs/'' @ or_default (pi_skill_id p) (path_name (pi_source_host p)) in
      [(base @ ''/validation-report.json'', json_document (pi_validation p)),
       (base @ ''/install-summary.json'', json_document (install_summary host p)),
       (base @ ''/file-manifest.txt'', concat (map (\<lambda>e. e @ [CHR 0x0A]) (pi_manifest p))),
       (base @ ''/conflict-report.json'', if pi_overwrite p then json_document (conflict_report p) else [])])"

definition installation_service :: "skill_host \<Rightarrow> skill_catalog \<Rightarrow> skill_installer" where
  "installation_service host cat = \<lparr>in_prepare = prepare_install host cat, in_execute = run_install host,
     in_payloads = artifact_payloads host\<rparr>"

end
