(* ===== verification/Skill_Properties.thy ===== *)
theory Skill_Properties
  imports Skill_Installer
begin

text \<open>
  What the skill installer guarantees: a staged directory that passes the validation has a \<open>SKILL.md\<close> and neither links nor
  secrets, and an installation puts a copy of it in place or leaves what was there.
\<close>

section \<open>A bundle that passes\<close>

lemma status_passes: "status_of fs \<noteq> ''fail'' \<longleftrightarrow> list_all (\<lambda>f. fi_severity f \<noteq> ''error'') fs"
  by (auto simp: status_of_def list_ex_iff list_all_iff)

lemma status_clean: "status_of fs = ''pass'' \<longleftrightarrow> fs = []"
  by (auto simp: status_of_def)

definition entry_clean :: "skill_host \<Rightarrow> files \<Rightarrow> host_path \<Rightarrow> host_path \<Rightarrow> bool" where
  "entry_clean host fs root rel \<longleftrightarrow>
     root @ rel \<notin> set (sh_links host) \<and> secret_findings host fs root rel = Inr []"

lemma secret_findings_cases:
  "secret_findings host fs root rel = Inr xs \<Longrightarrow>
     xs = [] \<or> list_ex (\<lambda>f. fi_severity f = ''error'') xs"
  by (auto simp: secret_findings_def finding_def split: if_split_asm sum.split_asm exn.split_asm)

lemma scan_entry_ok:
  assumes "scan_entry host fs root rel s = Inr s'" and "list_all (\<lambda>f. fi_severity f \<noteq> ''error'') (sc_findings s')"
  shows "entry_clean host fs root rel \<and> list_all (\<lambda>f. fi_severity f \<noteq> ''error'') (sc_findings s) \<and>
    sc_manifest s' = sc_manifest s @ [join_with ''/'' rel] \<and>
    sc_has_skill_md s' = (sc_has_skill_md s \<or> join_with ''/'' rel = ''SKILL.md'') \<and>
    sc_total_bytes s' = sc_total_bytes s + int (length (file_bytes fs (root @ rel))) \<and>
    (sc_findings s' = [] \<longrightarrow> sc_findings s = [] \<and> sc_total_bytes s' \<le> max_skill_bytes)"
proof -
  have nolink: "root @ rel \<notin> set (sh_links host)" using assms by (auto simp: scan_entry_def finding_def)
  then have "scan_file host fs root rel s = Inr s'" using assms(1) by (simp add: scan_entry_def)
  then obtain xs where xs: "secret_findings host fs root rel = Inr xs" and
    s': "s' = \<lparr>sc_findings = sc_findings s @ size_findings (sc_total_bytes s + int (length (file_bytes fs (root @ rel)))) @ xs,
             sc_manifest = sc_manifest s @ [join_with ''/'' rel],
             sc_total_bytes = sc_total_bytes s + int (length (file_bytes fs (root @ rel))),
             sc_has_scripts = (sc_has_scripts s \<or> hd rel = ''scripts''),
             sc_has_skill_md = (sc_has_skill_md s \<or> join_with ''/'' rel = ''SKILL.md'')\<rparr>"
    by (auto simp: scan_file_def Let_def bindR_Inr_iff split: option.split_asm)
  have "xs = []" using secret_findings_cases[OF xs] assms(2) s' by (auto simp: list_ex_iff list_all_iff)
  then show ?thesis using nolink xs assms(2) s' by (simp add: entry_clean_def size_findings_def)
qed

lemma scan_entries_ok:
  assumes "scan_entries host fs root rels s = Inr s'" and "list_all (\<lambda>f. fi_severity f \<noteq> ''error'') (sc_findings s')"
  shows "list_all (entry_clean host fs root) rels \<and> list_all (\<lambda>f. fi_severity f \<noteq> ''error'') (sc_findings s) \<and>
    sc_manifest s' = sc_manifest s @ map (join_with ''/'') rels \<and>
    (sc_has_skill_md s' \<longleftrightarrow> sc_has_skill_md s \<or> ''SKILL.md'' \<in> join_with ''/'' ` set rels) \<and>
    sc_total_bytes s' = sc_total_bytes s + (\<Sum>rel\<leftarrow>rels. int (length (file_bytes fs (root @ rel)))) \<and>
    (sc_findings s' = [] \<longrightarrow> sc_findings s = [] \<and>
       (sc_total_bytes s \<le> max_skill_bytes \<longrightarrow> sc_total_bytes s' \<le> max_skill_bytes))"
  using assms
proof (induction rels arbitrary: s)
  case (Cons rel rels)
  then obtain s1 where s1: "scan_entry host fs root rel s = Inr s1" "scan_entries host fs root rels s1 = Inr s'"
    by (auto simp: bindR_Inr_iff)
  note rest = Cons.IH[OF s1(2) Cons.prems(2)]
  have "list_all (\<lambda>f. fi_severity f \<noteq> ''error'') (sc_findings s1)" using rest by blast
  note one = scan_entry_ok[OF s1(1) this]
  show ?case using one rest by (auto simp: image_iff)
qed simp

lemma join_is_skill_md: "join_with ''/'' rel = ''SKILL.md'' \<longleftrightarrow> rel = [''SKILL.md'']"
proof
  assume "join_with ''/'' rel = ''SKILL.md''"
  then show "rel = [''SKILL.md'']"
  proof (cases rel)
    case (Cons a as)
    show ?thesis
    proof (cases as)
      case (Cons b bs)
      then have "CHR ''/'' \<in> set (join_with ''/'' rel)" using \<open>rel = a # as\<close> by (simp add: join_with_Cons)
      then show ?thesis using \<open>join_with ''/'' rel = ''SKILL.md''\<close> by simp
    qed (use \<open>join_with ''/'' rel = ''SKILL.md''\<close> Cons in simp)
  qed simp
qed simp

lemma strict_prefix_rest: "strict_prefix root p \<Longrightarrow> root @ drop (length root) p = p"
  by (auto simp: strict_prefix_def prefix_def)

lemma entry_of_link:
  assumes "l \<in> set (sh_links host)" and "strict_prefix root l"
  obtains l' where "l' \<in> set (sh_links host)" "strict_prefix root l'"
    "drop (length root) l' \<in> set (bundle_entries host fs root)"
proof -
  let ?P = "\<lambda>l. l \<in> set (sh_links host) \<and> strict_prefix root l"
  obtain m where m: "?P m" "\<And>k. ?P k \<Longrightarrow> length m \<le> length k"
    using ex_has_least_nat[of ?P l length] assms by blast
  have "\<not> list_ex (\<lambda>k. strict_prefix root k \<and> strict_prefix k m) (sh_links host)"
    using m by (force simp: list_ex_iff dest: prefix_length_less)
  then have "drop (length root) m \<in> set (bundle_entries host fs root)"
    using m by (auto simp: bundle_entries_def)
  then show ?thesis using that m by blast
qed

lemma entry_of_file:
  assumes "f \<in> set fs" and "strict_prefix root (fst f)" and "\<forall>l \<in> set (sh_links host). \<not> strict_prefix root l"
  shows "drop (length root) (fst f) \<in> set (bundle_entries host fs root)"
  using assms by (auto simp: bundle_entries_def list_ex_iff)

lemma entry_is_file:
  assumes "rel \<in> set (bundle_entries host fs root)" and "root @ rel \<notin> set (sh_links host)"
  shows "rel \<noteq> [] \<and> file_at fs (root @ rel)"
proof -
  obtain q where q: "q \<in> fst ` set fs \<or> q \<in> set (sh_links host)" "strict_prefix root q" "rel = drop (length root) q"
    using assms(1) by (auto simp: bundle_entries_def)
  then have "root @ rel = q" by (simp add: strict_prefix_rest)
  then show ?thesis using q assms(2) by (auto simp: file_at_def list_ex_iff)
qed

lemma validate_skill_ok:
  assumes "validate_skill host fs root = Inr (v, manifest)" and "vk_status v \<noteq> ''fail''"
  shows "file_at fs (root @ [''SKILL.md'']) \<and> (\<forall>l \<in> set (sh_links host). \<not> strict_prefix root l) \<and>
    (\<forall>f \<in> set fs. strict_prefix root (fst f) \<longrightarrow> secret_findings host fs root (drop (length root) (fst f)) = Inr []) \<and>
    manifest = map (join_with ''/'') (bundle_entries host fs root) \<and>
    vk_total_bytes v = (\<Sum>rel\<leftarrow>bundle_entries host fs root. int (length (file_bytes fs (root @ rel)))) \<and>
    (vk_status v = ''pass'' \<longrightarrow> vk_total_bytes v \<le> max_skill_bytes)"
proof -
  let ?rels = "bundle_entries host fs root"
  obtain s where s: "scan_entries host fs root ?rels (scan_start (py_strip (path_name root))) = Inr s" and
      v: "vk_status v = status_of (all_findings s)" "vk_total_bytes v = sc_total_bytes s" and
      manifest: "manifest = sc_manifest s"
    using assms(1) by (auto simp: validate_skill_def Let_def bindR_Inr_iff)
  have "list_all (\<lambda>f. fi_severity f \<noteq> ''error'') (all_findings s)" using assms(2) v by (simp add: status_passes)
  then have found: "list_all (\<lambda>f. fi_severity f \<noteq> ''error'') (sc_findings s)" "sc_has_skill_md s"
    by (auto simp: all_findings_def finding_def split: if_split_asm)
  note scan = scan_entries_ok[OF s found(1)]
  have clean: "list_all (entry_clean host fs root) ?rels" using scan by blast
  have entry: "secret_findings host fs root rel = Inr [] \<and> root @ rel \<notin> set (sh_links host)" if "rel \<in> set ?rels" for rel
    using clean that by (auto simp: list_all_iff entry_clean_def)
  have nolink: "\<forall>l \<in> set (sh_links host). \<not> strict_prefix root l"
  proof
    fix l assume l: "l \<in> set (sh_links host)"
    show "\<not> strict_prefix root l"
    proof
      assume "strict_prefix root l"
      with l obtain k where "k \<in> set (sh_links host)" "strict_prefix root k" "drop (length root) k \<in> set ?rels"
        by (rule entry_of_link)
      then show False using entry[of "drop (length root) k"] by (simp add: strict_prefix_rest)
    qed
  qed
  have "''SKILL.md'' \<in> join_with ''/'' ` set ?rels" using scan found(2) by (simp add: scan_start_def)
  then obtain rel where rel: "''SKILL.md'' = join_with ''/'' rel" "rel \<in> set ?rels" by (rule imageE)
  have "rel = [''SKILL.md'']" using rel(1)[symmetric] by (simp only: join_is_skill_md)
  then have "[''SKILL.md''] \<in> set ?rels" using rel(2) by simp
  then have "file_at fs (root @ [''SKILL.md''])" using entry entry_is_file by blast
  moreover have "vk_status v = ''pass'' \<longrightarrow> vk_total_bytes v \<le> max_skill_bytes"
  proof
    assume "vk_status v = ''pass''"
    then have "sc_findings s = []" using v(1) by (simp add: status_clean all_findings_def)
    moreover have "sc_total_bytes (scan_start (py_strip (path_name root))) \<le> max_skill_bytes"
      by (simp add: scan_start_def max_skill_bytes_def)
    ultimately show "vk_total_bytes v \<le> max_skill_bytes" using scan v(2) by metis
  qed
  ultimately show ?thesis using scan v manifest nolink entry entry_of_file[OF _ _ nolink] by (simp add: scan_start_def)
qed

lemma prepare_install_Inr:
  assumes "prepare_install host cat sr fs a = Inr p"
  shows "\<exists>t v skill. resolve_install_target (sg_identity_path cat) (sg_bundles cat) (si_target_scope a) (si_target_role a) = Inr t \<and>
    validate_skill host fs (pi_source_host p) = Inr (v, pi_manifest p) \<and> vk_skill_id v = Some skill \<and>
    pi_managed_root p = it_managed_root t \<and> pi_target_host p = skill_target (it_managed_root t) skill \<and>
    pi_overwrite p = exists_at host fs (os_path (pi_target_host p)) \<and>
    (pi_status p \<noteq> ''fail'' \<longrightarrow> pi_status p = vk_status v \<and> (pi_overwrite p \<longrightarrow> si_install_mode a = ''replace''))"
proof -
  have mode: "si_install_mode a = ''fail_if_exists'' \<or> si_install_mode a = ''replace''"
    using assms by (auto simp: prepare_install_def split: if_split_asm)
  obtain source src t v manifest skill where *: "validate_skill host fs src = Inr (v, manifest)"
    "resolve_install_target (sg_identity_path cat) (sg_bundles cat) (si_target_scope a) (si_target_role a) = Inr t"
    "vk_skill_id v = Some skill" and
    p: "pi_source_host p = src" "pi_manifest p = manifest" "pi_managed_root p = it_managed_root t"
      "pi_target_host p = skill_target (it_managed_root t) skill"
      "pi_overwrite p = exists_at host fs (os_path (skill_target (it_managed_root t) skill))"
      "pi_status p = (if pi_overwrite p \<and> si_install_mode a = ''fail_if_exists'' then ''fail'' else vk_status v)"
    using assms unfolding prepare_install_def
    by (auto simp: Let_def with_finding_def finding_def elim!: bindR_InrE split: if_split_asm option.split_asm)
  then show ?thesis using mode by auto
qed

section \<open>An installation\<close>

lemma map_of_dropped: "map_of (dropped p dealt fs) f = (if prefix p f \<and> dealt f then None else map_of fs f)"
  unfolding dropped_def by (induction fs) auto

lemma map_of_copied_part:
  "map_of (map (\<lambda>f. (dst @ drop (length src) (fst f), snd f)) (filter (\<lambda>f. strict_prefix src (fst f) \<and> dealt (fst f)) fs)) f =
     (if strict_prefix dst f \<and> dealt (src @ drop (length dst) f) then map_of fs (src @ drop (length dst) f) else None)"
proof (induction fs)
  case (Cons x fs)
  show ?case
  proof (cases "strict_prefix src (fst x) \<and> dealt (fst x)")
    case True
    then obtain rel where "fst x = src @ rel" "rel \<noteq> []" by (auto simp: strict_prefix_def prefix_def)
    then show ?thesis using Cons True by (cases x) (auto simp: strict_prefix_def prefix_def)
  next
    case False
    then have "\<not> (strict_prefix dst f \<and> dealt (src @ drop (length dst) f) \<and> fst x = src @ drop (length dst) f)"
      by (auto simp: strict_prefix_def prefix_def)
    then show ?thesis using Cons False by (cases x) auto
  qed
qed simp

lemma map_of_copied:
  "map_of (copied src dst dealt fs) f =
     (if strict_prefix dst f \<and> dealt (src @ drop (length dst) f) \<and> map_of fs (src @ drop (length dst) f) \<noteq> None
      then map_of fs (src @ drop (length dst) f) else map_of fs f)"
  unfolding copied_def by (auto simp: map_of_append map_of_copied_part map_add_def split: option.split)

lemma map_of_moved:
  assumes "\<And>f. f \<in> set fs \<Longrightarrow> \<not> prefix q (fst f)" and "\<not> prefix p q" and "\<not> prefix q p"
  shows "map_of (moved p q fs) f =
    (if prefix q f then map_of fs (p @ drop (length q) f) else if prefix p f then None else map_of fs f)"
  using assms(1)
proof (induction fs)
  case (Cons x fs)
  then have IH: "map_of (moved p q fs) f =
      (if prefix q f then map_of fs (p @ drop (length q) f) else if prefix p f then None else map_of fs f)" by simp
  have x: "\<not> prefix q (fst x)" using Cons.prems by simp
  have apart: "\<not> (prefix p f \<and> prefix q f)" using assms(2,3) prefix_same_cases by blast
  show ?case
  proof (cases "prefix p (fst x)")
    case True
    then obtain rel where "fst x = p @ rel" by (auto simp: prefix_def)
    then show ?thesis using IH apart by (cases x) (auto simp: moved_def prefix_def)
  next
    case False
    then show ?thesis using IH x apart by (cases x) (auto simp: moved_def)
  qed
qed (simp add: moved_def)

lemma file_at_map_of: "file_at fs p \<longleftrightarrow> map_of fs p \<noteq> None"
  by (auto simp: file_at_def list_ex_iff map_of_eq_None_iff)

lemma nothing_below: "\<not> exists_at host fs p \<Longrightarrow> prefix p f \<Longrightarrow> map_of fs f = None"
  by (auto simp: exists_at_def dir_at_def file_at_def list_ex_iff map_of_eq_None_iff strict_prefix_def)

lemma file_below_exists: "map_of fs f \<noteq> None \<Longrightarrow> prefix p f \<Longrightarrow> exists_at host fs p"
  using nothing_below by metis

definition unchanged :: "(host_path \<Rightarrow> bool) \<Rightarrow> files \<Rightarrow> files \<Rightarrow> bool" where
  "unchanged P fs fs' \<longleftrightarrow> (\<forall>f. P f \<longrightarrow> map_of fs' f = map_of fs f)"

lemma remove_tree_effect:
  assumes "remove_tree host step p fs = (r, fs')"
  shows "unchanged (\<lambda>f. \<not> prefix p f) fs fs' \<and> (r = Inr () \<longrightarrow> (\<forall>f. prefix p f \<longrightarrow> map_of fs' f = None)) \<and>
    (\<forall>e. r = Inl e \<and> sh_fault host step = None \<longrightarrow> fs' = fs)"
  using assms nothing_below[of host fs p]
  by (auto simp: remove_tree_def stepwise_def unchanged_def map_of_dropped split: if_split_asm option.split_asm)

lemma make_root_effect: "make_root host p fs = (r, fs') \<Longrightarrow> fs' = fs"
  by (auto simp: make_root_def stepwise_def split: if_split_asm option.split_asm)

lemma copy_tree_effect:
  assumes "copy_tree host src dst fs = (r, fs')"
  shows "unchanged (\<lambda>f. \<not> strict_prefix dst f) fs fs' \<and> (r = Inr () \<longrightarrow> (\<forall>rel. rel \<noteq> [] \<longrightarrow>
    map_of fs' (dst @ rel) = (if map_of fs (src @ rel) \<noteq> None then map_of fs (src @ rel) else map_of fs (dst @ rel))))"
  using assms
  by (auto simp: copy_tree_def stepwise_def unchanged_def map_of_copied strict_prefix_def
      split: if_split_asm option.split_asm)

lemma move_tree_effect:
  assumes "move_tree host p q fs = (r, fs')" and "\<And>f. prefix q f \<Longrightarrow> map_of fs f = None"
    and "\<not> prefix p q" and "\<not> prefix q p"
  shows "unchanged (\<lambda>f. \<not> prefix p f \<and> \<not> prefix q f) fs fs' \<and>
    (r = Inr () \<longrightarrow> (\<forall>rel. map_of fs' (q @ rel) = map_of fs (p @ rel) \<and> map_of fs' (p @ rel) = None))"
proof -
  have "\<And>f. f \<in> set fs \<Longrightarrow> \<not> prefix q (fst f)" using assms(2) by (force simp: map_of_eq_None_iff)
  note moved = map_of_moved[OF this assms(3,4)]
  have "\<not> prefix q (p @ rel)" for rel using assms(3,4) by (auto simp: prefix_append)
  then show ?thesis using assms(1) by (auto simp: move_tree_def unchanged_def moved split: option.split_asm if_split_asm)
qed

text \<open>A target whose name is a plain component and the staging directory beside it.\<close>

lemma staging_beside:
  assumes "''..'' \<notin> set target" and "target \<noteq> []"
  shows "os_path target = target" "os_path (staging_path target) = staging_path target"
    "\<not> prefix target (staging_path target)" "\<not> prefix (staging_path target) target"
proof -
  have plain: "os_path q = q" if "''..'' \<notin> set q" for q
  proof -
    have "foldl (\<lambda>q c. if c = ''..'' then butlast q else q @ [c]) acc q = acc @ q" for acc
      using that by (induction q arbitrary: acc) auto
    then show ?thesis by (simp add: os_path_def)
  qed
  have long: "''.'' @ path_name target @ ''.installing'' \<noteq> ''..''" by (cases "path_name target") auto
  show "os_path target = target" using assms by (simp add: plain)
  show "os_path (staging_path target) = staging_path target"
    using assms long by (intro plain) (auto simp: staging_path_def dest: in_set_butlastD)
  have split: "target = butlast target @ [path_name target]" using assms by (simp add: path_name_def)
  have "''.'' @ path_name target @ ''.installing'' \<noteq> path_name target"
    by (rule notI) (drule arg_cong[of _ _ length], simp)
  then have "target \<noteq> staging_path target" by (metis split staging_path_def same_append_eq list.inject)
  moreover have "length (staging_path target) = length target" using assms by (simp add: staging_path_def)
  ultimately have "target \<parallel> staging_path target" by (intro not_equal_is_parallel) simp_all
  then show "\<not> prefix target (staging_path target)" "\<not> prefix (staging_path target) target" by (auto elim: parallelE)
qed

text \<open>The first three steps leave everything but the staging directory alone.\<close>

definition stage :: "skill_host \<Rightarrow> host_path \<Rightarrow> host_path \<Rightarrow> host_path \<Rightarrow> host_act" where
  "stage host root src staging = thenA (make_root host root)
     (thenA (remove_tree host Drop_staging staging) (copy_tree host src staging))"

lemma run_install_stage:
  "run_install host p = thenA (stage host (pi_managed_root p) (pi_source_host p) (os_path (staging_path (pi_target_host p))))
     (thenA (remove_tree host Drop_target (os_path (pi_target_host p)))
       (move_tree host (os_path (staging_path (pi_target_host p))) (os_path (pi_target_host p))))"
  by (rule ext) (simp add: run_install_def stage_def Let_def thenA_run split: prod.split sum.split)

lemma unchanged_trans:
  "unchanged P fs fs1 \<Longrightarrow> unchanged P fs1 fs2 \<Longrightarrow> unchanged P fs fs2"
  by (simp add: unchanged_def)

lemma unchanged_weaken: "unchanged P fs fs1 \<Longrightarrow> (\<And>f. Q f \<Longrightarrow> P f) \<Longrightarrow> unchanged Q fs fs1"
  by (simp add: unchanged_def)

lemma unchanged_refl [simp]: "unchanged P fs fs"
  by (simp add: unchanged_def)

lemma staged:
  assumes "stage host root src staging fs = (r, fs3)" and "\<not> prefix staging src" and "\<not> prefix src staging"
  shows "unchanged (\<lambda>f. \<not> prefix staging f) fs fs3 \<and> (r = Inr () \<longrightarrow>
    (\<forall>rel. map_of fs3 (staging @ rel) = (if rel = [] then None else map_of fs (src @ rel))))"
proof -
  obtain r1 where 1: "make_root host root fs = (r1, fs)" using make_root_effect by (metis prod.exhaust)
  obtain r2 fs2 where 2: "remove_tree host Drop_staging staging fs = (r2, fs2)" by fastforce
  obtain r3 fs4 where 3: "copy_tree host src staging fs2 = (r3, fs4)" by fastforce
  note remove = remove_tree_effect[OF 2] and copy = copy_tree_effect[OF 3]
  have outside: "unchanged (\<lambda>f. \<not> prefix staging f) fs fs2" using remove by blast
  have kept: "unchanged (\<lambda>f. \<not> prefix staging f) fs fs4"
    using outside unchanged_weaken[of _ fs2 fs4 "\<lambda>f. \<not> prefix staging f"] copy unchanged_trans
    by (metis (mono_tags, lifting) prefix_order.less_imp_le)
  have src: "\<not> prefix staging (src @ rel)" for rel
    using assms(2,3) prefix_same_cases[of staging "src @ rel" src] by auto
  show ?thesis
  proof (cases r)
    case (Inl e)
    then show ?thesis using assms(1) 1 2 3 outside kept
      by (auto simp: stage_def thenA_run split: sum.split_asm)
  next
    case (Inr u)
    then have "fs3 = fs4" "r2 = Inr ()" "r3 = Inr ()" using assms(1) 1 2 3
      by (auto simp: stage_def thenA_run split: sum.split_asm)
    moreover have "map_of fs4 (staging @ rel) = (if rel = [] then None else map_of fs (src @ rel))" for rel
    proof (cases "rel = []")
      case True
      then show ?thesis using copy remove \<open>r2 = Inr ()\<close> by (auto simp: unchanged_def)
    next
      case False
      then show ?thesis using copy remove \<open>r2 = Inr ()\<close> \<open>r3 = Inr ()\<close> outside src[of rel]
        by (auto simp: unchanged_def)
    qed
    ultimately show ?thesis using kept by blast
  qed
qed

lemma placed:
  assumes "thenA (remove_tree host Drop_target target) (move_tree host staging target) fs = (r, fs')"
    and "\<not> prefix target staging" and "\<not> prefix staging target"
  shows "unchanged (\<lambda>f. \<not> prefix target f \<and> \<not> prefix staging f) fs fs' \<and>
    (r = Inr () \<longrightarrow> (\<forall>rel. map_of fs' (target @ rel) = map_of fs (staging @ rel) \<and> map_of fs' (staging @ rel) = None)) \<and>
    (\<forall>e. r = Inl e \<and> sh_fault host Drop_target = None \<and> sh_fault host Move_staging = None \<and>
       map_of fs (staging @ rel) \<noteq> None \<longrightarrow> fs' = fs)"
proof -
  obtain r1 fs1 where 1: "remove_tree host Drop_target target fs = (r1, fs1)" by fastforce
  note remove = remove_tree_effect[OF 1]
  have beside: "\<not> prefix target (staging @ rel)" for rel
    using assms(2,3) prefix_same_cases[of target "staging @ rel" staging] by auto
  show ?thesis
  proof (cases r1)
    case (Inl e)
    then have "r = Inl e" "fs' = fs1" using assms(1) 1 by (simp_all add: thenA_run)
    then show ?thesis using remove Inl by (auto simp: unchanged_def)
  next
    case (Inr u)
    then have 2: "move_tree host staging target fs1 = (r, fs')" using assms(1) 1 by (simp add: thenA_run)
    have "map_of fs1 f = None" if "prefix target f" for f using remove Inr that by simp
    note move = move_tree_effect[OF 2 this assms(3,2)]
    have same: "map_of fs1 (staging @ rel) = map_of fs (staging @ rel)" for rel
      using remove beside by (simp add: unchanged_def)
    have "r = Inr ()" if "sh_fault host Move_staging = None" "map_of fs (staging @ rel) \<noteq> None"
      using 2 that file_below_exists[of fs1 "staging @ rel" staging host] same
      by (auto simp: move_tree_def split: if_split_asm)
    then show ?thesis using move remove same by (auto simp: unchanged_def)
  qed
qed

section \<open>Properties\<close>



section \<open>Examples\<close>

definition sample_skill_host :: skill_host where
  "sample_skill_host = \<lparr>sh_links = [], sh_dir = (\<lambda>p. False), sh_decode = Inr, sh_sha256 = (\<lambda>s. ''h''),
     sh_error = (\<lambda>p. None), sh_fault = (\<lambda>step. None)\<rparr>"

definition sample_catalog :: skill_catalog where
  "sample_catalog = \<lparr>sg_identity_path = [''agents'', ''primary'', ''IDENTITY.md''], sg_bundles = [], sg_resolve = (\<lambda>p. p)\<rparr>"

definition sample_skill_files :: files where
  "sample_skill_files = [([''agents'', ''primary'', ''IDENTITY.md''], ''# I''),
     ([''agents'', ''primary'', ''skills'', ''demo'', ''OLD.md''], ''old''),
     ([''proj'', ''a'', ''demo'', ''SKILL.md''], ''# Demo''), ([''proj'', ''a'', '' ..'', ''SKILL.md''], ''# Dots'')]"

definition sample_install :: "string \<Rightarrow> skill_install_args" where
  "sample_install path = \<lparr>si_source_path = path, si_target_scope = ''primary_agent'', si_target_role = None,
     si_install_mode = ''replace'', si_reason = ''r''\<rparr>"

lemma prepared_sample_fields:
  "case prepare_install sample_skill_host sample_catalog sample_roots sample_skill_files (sample_install ''/workspace/demo'') of
     Inl e \<Rightarrow> False
   | Inr p \<Rightarrow> pi_status p = ''pass'' \<and> pi_source_host p = [''proj'', ''a'', ''demo''] \<and> pi_overwrite p \<and>
       pi_target_host p = [''agents'', ''primary'', ''skills'', ''demo''] \<and>
       fst (run_install sample_skill_host p sample_skill_files) = Inr ()"
  by code_simp

lemma prepared_sampleE:
  obtains p where
    "prepare_install sample_skill_host sample_catalog sample_roots sample_skill_files (sample_install ''/workspace/demo'') = Inr p"
    "pi_status p = ''pass''" "pi_source_host p = [''proj'', ''a'', ''demo'']"
    "pi_target_host p = [''agents'', ''primary'', ''skills'', ''demo'']"
    "fst (run_install sample_skill_host p sample_skill_files) = Inr ()"
  using prepared_sample_fields by (auto split: sum.split_asm)

text \<open>
  The name of a staged directory is stripped before it becomes a path: one that is called \<open>..\<close> behind a blank passes the
  validation, and replacing its target removes the parent of the managed directory, identity and all.
\<close>

lemma dotted_skill_removes_the_agent:
  "case prepare_install sample_skill_host sample_catalog sample_roots sample_skill_files (sample_install ''/workspace/ ..'') of
     Inl e \<Rightarrow> False
   | Inr p \<Rightarrow> pi_status p = ''pass'' \<and> pi_target_path p = ''/agents/primary/skills/..'' \<and>
       (case run_install sample_skill_host p sample_skill_files of (r, fs) \<Rightarrow>
          map fst fs = [[''proj'', ''a'', ''demo'', ''SKILL.md''], [''proj'', ''a'', '' ..'', ''SKILL.md'']])"
  by code_simp



end
