(* ===== verification/Web_Adapters.thy ===== *)
theory Web_Adapters
  imports Tool_Bindings
begin

text \<open>
  \<open>services/web_service/adapters.py\<close>: the clients behind the web tools. \<open>urlopen\<close>, the codecs and the tokenizer of
  \<open>html.parser\<close> are parameters: what a request is answered with, the decoding of its body (\<open>errors="replace"\<close>; an unknown
  charset raises \<open>LookupError\<close>), and the tags and texts of a page in order (after \<open>feed\<close> and \<open>close\<close>, and
  after \<open>feed\<close> alone). What the handlers make of them is translated.
\<close>

datatype html_event = Start_tag string "(string \<times> string option) list" | End_tag string | Text_data string

datatype http_failure = Status_failure int | Url_failure string | Timeout_failure | Other_failure exn

record http_answer =
  ha_content_type :: "string option"
  ha_charset :: "string option"
  ha_body :: string
  ha_url :: string
  ha_status :: "int option"

record web_env =
  we_open :: "string \<Rightarrow> (string \<times> string) list \<Rightarrow> string \<Rightarrow> http_failure + http_answer"
  we_decode :: "string \<Rightarrow> string \<Rightarrow> string result"
  we_tokens :: "string \<Rightarrow> html_event list"
  we_fed_tokens :: "string \<Rightarrow> html_event list"
  we_now :: string
  we_timeout :: string
  we_max_bytes :: int
  we_user_agent :: string
  we_max_results :: int

section \<open>Text\<close>

text \<open>\<open>str.split()\<close>.\<close>

function py_words :: "string \<Rightarrow> string list" where
  "py_words s = (case dropWhile py_isspace s of [] \<Rightarrow> []
     | c # r \<Rightarrow> takeWhile (\<lambda>x. \<not> py_isspace x) (c # r) # py_words (dropWhile (\<lambda>x. \<not> py_isspace x) (c # r)))"
  by pat_completeness auto

termination
proof (relation "measure length", goal_cases)
  case (2 s c r)
  then have "\<not> py_isspace c" by (metis dropWhile_eq_Cons_conv)
  moreover have "length r < length s" using 2 length_dropWhile_le[of py_isspace s] by simp
  ultimately show ?case using length_dropWhile_le[of "\<lambda>x. \<not> py_isspace x" r] by simp
qed simp

declare py_words.simps [simp del]

definition normalize_space :: "string \<Rightarrow> string" where
  "normalize_space s = join_with '' '' (py_words s)"

definition normalized_content_type :: "string option \<Rightarrow> string" where
  "normalized_content_type v = (case v of None \<Rightarrow> ''application/octet-stream''
     | Some s \<Rightarrow> (let t = py_lower (py_strip (takeWhile (\<lambda>c. c \<noteq> CHR '';'') s)) in
         if t = [] then ''application/octet-stream'' else t))"

text \<open>\<open>urlparse(url).scheme\<close>, as \<^const>\<open>url_netloc\<close> reads the rest.\<close>

definition url_scheme :: "string \<Rightarrow> string" where
  "url_scheme url0 =
     (let url = filter (\<lambda>c. code_point c \<notin> {9, 10, 13}) (dropWhile (\<lambda>c. code_point c \<le> 32) url0);
          scheme = takeWhile (\<lambda>c. c \<noteq> CHR '':'') url in
      if scheme \<noteq> [] \<and> length scheme < length url \<and> is_alpha (hd scheme) \<and> list_all is_scheme_char scheme
      then py_lower scheme else [])"

definition normalize_http_url :: "string \<Rightarrow> string result" where
  "normalize_http_url v = (let url = py_strip v in
     bindR (url_netloc url) (\<lambda>netloc.
       if url_scheme url \<notin> {''http'', ''https''} \<or> netloc = []
       then Inl (ValueError ''web fetch requires an absolute http or https URL'') else Inr url))"

section \<open>From HTML to Markdown\<close>

record html_state =
  hs_title_parts :: "string list"
  hs_blocks :: "string list"
  hs_text_parts :: "string list"
  hs_current_href :: "string option"
  hs_list_depth :: nat
  hs_heading_level :: "nat option"
  hs_ignore_depth :: nat
  hs_in_title :: bool

definition html_start :: html_state where
  "html_start = \<lparr>hs_title_parts = [], hs_blocks = [], hs_text_parts = [], hs_current_href = None, hs_list_depth = 0,
     hs_heading_level = None, hs_ignore_depth = 0, hs_in_title = False\<rparr>"

definition ignored_tags :: "string list" where
  "ignored_tags = [''script'', ''style'', ''noscript'']"

definition block_tags :: "string list" where
  "block_tags = [''p'', ''div'', ''section'', ''article'', ''main'', ''header'', ''footer'']"

definition heading_level :: "string \<Rightarrow> nat option" where
  "heading_level tag = map_of [(''h1'', 1), (''h2'', 2), (''h3'', 3), (''h4'', 4), (''h5'', 5), (''h6'', 6)] tag"

definition flush_block :: "string \<Rightarrow> html_state \<Rightarrow> html_state" where
  "flush_block lead s = (let t = normalize_space (concat (hs_text_parts s)) in
     s\<lparr>hs_blocks := hs_blocks s @ (if t = [] then [] else [py_strip (lead @ t)]), hs_text_parts := []\<rparr>)"

definition flush_inline :: "html_state \<Rightarrow> html_state" where
  "flush_inline s = (let t = normalize_space (concat (hs_text_parts s)) in
     s\<lparr>hs_blocks := hs_blocks s @ (if t = [] then [] else [t]), hs_text_parts := []\<rparr>)"

definition finalize_link :: "html_state \<Rightarrow> html_state" where
  "finalize_link s = (case hs_current_href s of None \<Rightarrow> s
     | Some href \<Rightarrow> (let t = normalize_space (concat (hs_text_parts s)); s' = s\<lparr>hs_current_href := None\<rparr> in
         if t = [] then s' else s'\<lparr>hs_text_parts := [''['' @ t @ '']('' @ href @ '')'']\<rparr>))"

definition last_value :: "(string \<times> string option) list \<Rightarrow> string \<Rightarrow> string option" where
  "last_value attrs k = (case map_of (rev attrs) k of None \<Rightarrow> None | Some v \<Rightarrow> v)"

definition handle_starttag :: "string \<Rightarrow> (string \<times> string option) list \<Rightarrow> html_state \<Rightarrow> html_state" where
  "handle_starttag tag attrs s =
     (if tag \<in> set ignored_tags then s\<lparr>hs_ignore_depth := Suc (hs_ignore_depth s)\<rparr>
      else if hs_ignore_depth s \<noteq> 0 then s
      else if tag = ''title'' then s\<lparr>hs_in_title := True\<rparr>
      else if tag \<in> set block_tags then flush_block [] s
      else if heading_level tag \<noteq> None then (flush_block [] s)\<lparr>hs_heading_level := heading_level tag\<rparr>
      else if tag = ''br'' then flush_inline s
      else if tag = ''ul'' \<or> tag = ''ol'' then (let s' = flush_block [] s in s'\<lparr>hs_list_depth := Suc (hs_list_depth s')\<rparr>)
      else if tag = ''li'' then (let s' = flush_block [] s in
        s'\<lparr>hs_text_parts := hs_text_parts s' @ [concat (replicate (hs_list_depth s' - 1) ''  '') @ ''- '']\<rparr>)
      else if tag = ''a'' then s\<lparr>hs_current_href := last_value attrs ''href''\<rparr>
      else s)"

definition handle_endtag :: "string \<Rightarrow> html_state \<Rightarrow> html_state" where
  "handle_endtag tag s =
     (if tag \<in> set ignored_tags then s\<lparr>hs_ignore_depth := hs_ignore_depth s - 1\<rparr>
      else if hs_ignore_depth s \<noteq> 0 then s
      else if tag = ''title'' then s\<lparr>hs_in_title := False\<rparr>
      else if tag \<in> set block_tags \<or> tag = ''li'' then flush_block [] s
      else if heading_level tag \<noteq> None then
        (flush_block (replicate (case hs_heading_level s of None \<Rightarrow> 1 | Some n \<Rightarrow> n) (CHR ''#'') @ '' '') s)\<lparr>hs_heading_level := None\<rparr>
      else if tag = ''ul'' \<or> tag = ''ol'' then (let s' = flush_block [] s in s'\<lparr>hs_list_depth := hs_list_depth s' - 1\<rparr>)
      else if tag = ''a'' then finalize_link s
      else s)"

definition handle_data :: "string \<Rightarrow> html_state \<Rightarrow> html_state" where
  "handle_data d s =
     (if hs_ignore_depth s \<noteq> 0 then s
      else if hs_in_title s then s\<lparr>hs_title_parts := hs_title_parts s @ [d]\<rparr>
      else if py_strip d \<noteq> [] then s\<lparr>hs_text_parts := hs_text_parts s @ [d]\<rparr> else s)"

fun html_step :: "html_event \<Rightarrow> html_state \<Rightarrow> html_state" where
  "html_step (Start_tag tag attrs) s = handle_starttag tag attrs s"
| "html_step (End_tag tag) s = handle_endtag tag s"
| "html_step (Text_data d) s = handle_data d s"

text \<open>The title and the Markdown of a page.\<close>

definition rendered :: "html_state \<Rightarrow> string option \<times> string" where
  "rendered s =
     (let title = normalize_space (concat (hs_title_parts s));
          body = join_with [CHR 0x0A, CHR 0x0A] (filter (\<lambda>b. py_strip b \<noteq> []) (hs_blocks s));
          heading = ''# '' @ title;
          body' = (if title \<noteq> [] \<and> \<not> startswith body heading
                   then py_strip (heading @ [CHR 0x0A, CHR 0x0A] @ body) else body)
      in (if title = [] then None else Some title, py_strip body'))"

definition render_html :: "html_event list \<Rightarrow> string option \<times> string" where
  "render_html es = rendered (flush_block [] (fold html_step es html_start))"

section \<open>Fetching\<close>

definition or_number :: "int option \<Rightarrow> int \<Rightarrow> int" where
  "or_number v d = (case v of None \<Rightarrow> d | Some n \<Rightarrow> if n = 0 then d else n)"

definition or_seconds :: "string option \<Rightarrow> string \<Rightarrow> string" where
  "or_seconds v d = (case v of None \<Rightarrow> d | Some r \<Rightarrow> if py_truthy (PFloat r) then r else d)"

fun fetch_error :: "http_failure \<Rightarrow> exn" where
  "fetch_error (Status_failure code) = ValueError (''web fetch failed with status '' @ dec_int code)"
| "fetch_error (Url_failure reason) = ValueError (''web fetch failed: '' @ reason)"
| "fetch_error Timeout_failure = ValueError ''web fetch timed out''"
| "fetch_error (Other_failure e) = e"

text \<open>\<open>response.read(n)\<close>: a negative number reads everything.\<close>

definition read_bytes :: "int \<Rightarrow> string \<Rightarrow> string" where
  "read_bytes n body = (if n < 0 then body else take (nat n) body)"

definition document_of :: "web_env \<Rightarrow> string \<Rightarrow> int \<Rightarrow> http_answer \<Rightarrow> web_document result" where
  "document_of env url limit a = (let content_type = normalized_content_type (ha_content_type a) in
     if content_type \<noteq> ''text/html'' \<and> content_type \<noteq> ''text/markdown''
     then Inl (ValueError (''unsupported content type: '' @ content_type)) else
     (let payload = read_bytes (limit + 1) (ha_body a) in
      if int (length payload) > limit then Inl (ValueError ''response exceeded configured size limit'') else
      bindR (we_decode env (or_default (ha_charset a) ''utf-8'') payload) (\<lambda>decoded.
      (let (title, content) = (if content_type = ''text/markdown'' then (None, decoded)
             else render_html (we_tokens env decoded)); markdown = py_strip content in
       if markdown = [] then Inl (ValueError ''fetched page did not contain readable text content'')
       else Inr \<lparr>wd_url = url, wd_final_url = ha_url a, wd_title = title, wd_markdown_content = markdown,
              wd_fetched_at = we_now env, wd_content_type = content_type, wd_status_code = ha_status a\<rparr>))))"

definition web_fetch :: "web_env \<Rightarrow> string \<Rightarrow> int option \<Rightarrow> string option \<Rightarrow> string option \<Rightarrow> web_document result" where
  "web_fetch env url max_bytes timeout user_agent = bindR (normalize_http_url url) (\<lambda>u.
     case we_open env u [(''User-Agent'', or_default user_agent (we_user_agent env)),
            (''Accept'', ''text/markdown, text/html;q=0.9'')] (or_seconds timeout (we_timeout env)) of
       Inl failure \<Rightarrow> Inl (fetch_error failure)
     | Inr a \<Rightarrow> document_of env u (or_number max_bytes (we_max_bytes env)) a)"

section \<open>Searching\<close>

text \<open>\<open>urllib.parse.quote_plus\<close>: the UTF-8 bytes of a character, except of those that are never quoted.\<close>

definition utf8_bytes :: "char \<Rightarrow> nat list" where
  "utf8_bytes c = (let n = code_point c in if n < 128 then [n] else [192 + n div 64, 128 + n mod 64])"

definition upper_hex :: "nat \<Rightarrow> char" where
  "upper_hex n = char_of (if n < 10 then 48 + n else 55 + n)"

definition quote_plus :: "string \<Rightarrow> string" where
  "quote_plus s = concat (map (\<lambda>c. if c = CHR '' '' then ''+''
     else if is_alpha c \<or> (48 \<le> code_point c \<and> code_point c \<le> 57) \<or> c \<in> set ''_.-~'' then [c]
     else concat (map (\<lambda>b. [CHR ''%'', upper_hex (b div 16), upper_hex (b mod 16)]) (utf8_bytes c))) s)"

record search_state =
  ss_results :: "web_search_result list"
  ss_capture_title :: bool
  ss_capture_snippet :: bool
  ss_current_title :: "string list"
  ss_current_snippet :: "string list"
  ss_current_url :: "string option"

definition search_start :: search_state where
  "search_start = \<lparr>ss_results = [], ss_capture_title = False, ss_capture_snippet = False, ss_current_title = [],
     ss_current_snippet = [], ss_current_url = None\<rparr>"

definition search_starttag :: "string \<Rightarrow> (string \<times> string option) list \<Rightarrow> search_state \<Rightarrow> search_state" where
  "search_starttag tag attrs s = (let cls = or_default (last_value attrs ''class'') [] in
     if tag = ''a'' \<and> sublist ''result__a'' cls
     then s\<lparr>ss_capture_title := True, ss_current_title := [], ss_current_url := last_value attrs ''href''\<rparr>
     else if tag \<in> {''a'', ''div'', ''span''} \<and> sublist ''result__snippet'' cls
     then s\<lparr>ss_capture_snippet := True, ss_current_snippet := []\<rparr> else s)"

definition title_result :: "search_state \<Rightarrow> web_search_result list" where
  "title_result s = (let title = normalize_space (concat (ss_current_title s)); url = or_default (ss_current_url s) [] in
     if title = [] \<or> url = [] then []
     else [\<lparr>ws_title = title, ws_url = url, ws_snippet = [], ws_rank = 0, ws_source = ''duckduckgo''\<rparr>])"

definition with_snippet :: "string \<Rightarrow> web_search_result list \<Rightarrow> web_search_result list" where
  "with_snippet snippet rs = (if snippet = [] \<or> rs = [] then rs else butlast rs @ [(last rs)\<lparr>ws_snippet := snippet\<rparr>])"

definition search_endtag :: "string \<Rightarrow> search_state \<Rightarrow> search_state" where
  "search_endtag tag s =
     (if tag = ''a'' \<and> ss_capture_title s
      then s\<lparr>ss_capture_title := False, ss_results := ss_results s @ title_result s, ss_current_title := [],
             ss_current_url := None\<rparr>
      else if tag \<in> {''a'', ''div'', ''span''} \<and> ss_capture_snippet s
      then s\<lparr>ss_capture_snippet := False,
             ss_results := with_snippet (normalize_space (concat (ss_current_snippet s))) (ss_results s),
             ss_current_snippet := []\<rparr>
      else s)"

definition search_data :: "string \<Rightarrow> search_state \<Rightarrow> search_state" where
  "search_data d s = s\<lparr>ss_current_title := ss_current_title s @ (if ss_capture_title s then [d] else []),
     ss_current_snippet := ss_current_snippet s @ (if ss_capture_snippet s then [d] else [])\<rparr>"

fun search_step :: "html_event \<Rightarrow> search_state \<Rightarrow> search_state" where
  "search_step (Start_tag tag attrs) s = search_starttag tag attrs s"
| "search_step (End_tag tag) s = search_endtag tag s"
| "search_step (Text_data d) s = search_data d s"

definition search_results :: "html_event list \<Rightarrow> web_search_result list" where
  "search_results es = ss_results (fold search_step es search_start)"

fun search_error :: "http_failure \<Rightarrow> exn" where
  "search_error (Status_failure code) = ValueError (''web search failed with status '' @ dec_int code)"
| "search_error (Url_failure reason) = ValueError (''web search failed: '' @ reason)"
| "search_error Timeout_failure = ValueError ''web search timed out''"
| "search_error (Other_failure e) = e"

definition search_url :: "string \<Rightarrow> string option \<Rightarrow> string" where
  "search_url query locale_name = ''https://duckduckgo.com/html/?q='' @ quote_plus query
     @ (if or_default locale_name [] = [] then [] else ''&kl='' @ quote_plus (py_strip (or_default locale_name [])))"

definition ranked :: "web_search_result list \<Rightarrow> web_search_result list" where
  "ranked rs = map (\<lambda>(i, r). r\<lparr>ws_rank := int (Suc i)\<rparr>) (List.enumerate 0 rs)"

definition web_search :: "web_env \<Rightarrow> string \<Rightarrow> int \<Rightarrow> string option \<Rightarrow> web_search_result list result" where
  "web_search env query limit locale_name =
     (if py_strip query = [] then Inl (ValueError ''search query must not be empty'') else
      (let bound = max 1 (min limit (we_max_results env)) in
       case we_open env (search_url (py_strip query) locale_name) [(''User-Agent'', we_user_agent env)] (we_timeout env) of
         Inl failure \<Rightarrow> Inl (search_error failure)
       | Inr a \<Rightarrow> bindR (we_decode env (or_default (ha_charset a) ''utf-8'') (ha_body a)) (\<lambda>html.
           Inr (ranked (take (nat bound) (search_results (we_fed_tokens env html)))))))"

end
