(* ===== verification/Web_Properties.thy ===== *)
theory Web_Properties
  imports Web_Adapters
begin

text \<open>
  What the web clients guarantee: scripts and styles leave no trace in a document, a document is the whole answer of an
  http server within the limit, and a search answers with at most as many ranked results as asked for.
\<close>

section \<open>Ignored elements\<close>

text \<open>The events of a page outside of the elements that are ignored; \<open>d\<close> is how many of these are open.\<close>

fun visible :: "nat \<Rightarrow> html_event list \<Rightarrow> html_event list" where
  "visible d [] = []"
| "visible d (Start_tag tag attrs # es) =
     (if tag \<in> set ignored_tags then visible (Suc d) es
      else if d \<noteq> 0 then visible d es else Start_tag tag attrs # visible d es)"
| "visible d (End_tag tag # es) =
     (if tag \<in> set ignored_tags then visible (d - 1) es else if d \<noteq> 0 then visible d es else End_tag tag # visible d es)"
| "visible d (Text_data t # es) = (if d \<noteq> 0 then visible d es else Text_data t # visible d es)"

abbreviation seen :: "html_state \<Rightarrow> html_state" where
  "seen s \<equiv> s\<lparr>hs_ignore_depth := 0\<rparr>"

lemma flush_ignore [simp]:
  "hs_ignore_depth (flush_block lead s) = hs_ignore_depth s" "flush_block lead (seen s) = seen (flush_block lead s)"
  "hs_ignore_depth (flush_inline s) = hs_ignore_depth s" "flush_inline (seen s) = seen (flush_inline s)"
  "hs_ignore_depth (finalize_link s) = hs_ignore_depth s" "finalize_link (seen s) = seen (finalize_link s)"
  by (simp_all add: flush_block_def flush_inline_def finalize_link_def Let_def split: option.split)

lemma flush_fields [simp]:
  "hs_list_depth (flush_block lead s) = hs_list_depth s" "hs_text_parts (flush_block lead s) = []"
  by (simp_all add: flush_block_def Let_def)

lemma start_seen:
  "hs_ignore_depth s = 0 \<Longrightarrow> tag \<notin> set ignored_tags \<Longrightarrow>
     hs_ignore_depth (handle_starttag tag attrs s) = 0 \<and> seen (handle_starttag tag attrs s) = handle_starttag tag attrs (seen s)"
  by (simp add: handle_starttag_def Let_def)

lemma end_seen:
  "hs_ignore_depth s = 0 \<Longrightarrow> tag \<notin> set ignored_tags \<Longrightarrow>
     hs_ignore_depth (handle_endtag tag s) = 0 \<and> seen (handle_endtag tag s) = handle_endtag tag (seen s)"
  by (simp add: handle_endtag_def Let_def)

lemma data_seen:
  "hs_ignore_depth s = 0 \<Longrightarrow> hs_ignore_depth (handle_data d s) = 0 \<and> seen (handle_data d s) = handle_data d (seen s)"
  by (simp add: handle_data_def)

lemma hidden_steps:
  "tag \<in> set ignored_tags \<Longrightarrow> handle_starttag tag attrs s = s\<lparr>hs_ignore_depth := Suc (hs_ignore_depth s)\<rparr>"
  "tag \<in> set ignored_tags \<Longrightarrow> handle_endtag tag s = s\<lparr>hs_ignore_depth := hs_ignore_depth s - 1\<rparr>"
  "tag \<notin> set ignored_tags \<Longrightarrow> hs_ignore_depth s \<noteq> 0 \<Longrightarrow> handle_starttag tag attrs s = s"
  "tag \<notin> set ignored_tags \<Longrightarrow> hs_ignore_depth s \<noteq> 0 \<Longrightarrow> handle_endtag tag s = s"
  "hs_ignore_depth s \<noteq> 0 \<Longrightarrow> handle_data d s = s"
  by (simp_all add: handle_starttag_def handle_endtag_def handle_data_def)

lemma fold_visible:
  "seen (fold html_step es s) = fold html_step (visible (hs_ignore_depth s) es) (seen s)"
proof (induction es arbitrary: s)
  case (Cons e es)
  show ?case
  proof (cases e)
    case (Start_tag tag attrs)
    then show ?thesis using Cons.IH[of "handle_starttag tag attrs s"] start_seen[of s tag attrs]
      by (cases "tag \<in> set ignored_tags"; cases "hs_ignore_depth s = 0") (simp_all add: hidden_steps)
  next
    case (End_tag tag)
    then show ?thesis using Cons.IH[of "handle_endtag tag s"] end_seen[of s tag]
      by (cases "tag \<in> set ignored_tags"; cases "hs_ignore_depth s = 0") (simp_all add: hidden_steps)
  next
    case (Text_data t)
    then show ?thesis using Cons.IH[of "handle_data t s"] data_seen[of s t]
      by (cases "hs_ignore_depth s = 0") (simp_all add: hidden_steps)
  qed
qed simp

lemma rendered_seen: "rendered (seen s) = rendered s"
  by (simp add: rendered_def)

section \<open>What the Markdown loses\<close>

text \<open>
  A link takes all the text of its block as its label: what stands before it, the mark of its list item included. The
  indentation of nested lists is computed and normalised away.
\<close>

lemma link_swallows_text:
  "render_html [Start_tag ''p'' [], Text_data ''See the '', Start_tag ''a'' [(''href'', Some ''/d'')], Text_data ''docs'',
     End_tag ''a'', End_tag ''p''] = (None, ''[See the docs](/d)'')"
  by code_simp

lemma nested_items_are_flat:
  "render_html [Start_tag ''ul'' [], Start_tag ''li'' [], Text_data ''a'', Start_tag ''ul'' [], Start_tag ''li'' [],
     Text_data ''b'', End_tag ''li'', End_tag ''ul'', End_tag ''li'', End_tag ''ul''] =
   (None, ''- a'' @ [CHR 0x0A, CHR 0x0A] @ ''- b'')"
  by code_simp

section \<open>Answers\<close>

lemma normalize_http_url_Inr:
  "normalize_http_url v = Inr u \<Longrightarrow> u = py_strip v \<and> url_scheme u \<in> {''http'', ''https''} \<and> (\<exists>n. url_netloc u = Inr n \<and> n \<noteq> [])"
  by (auto simp: normalize_http_url_def Let_def bindR_Inr_iff split: if_split_asm)

lemma read_whole: "int (length (read_bytes (limit + 1) body)) \<le> limit \<Longrightarrow> read_bytes (limit + 1) body = body"
  by (auto simp: read_bytes_def split: if_split_asm)

lemma document_of_Inr:
  assumes "document_of env url limit a = Inr d"
  shows "wd_url d = url \<and> wd_final_url d = ha_url a \<and> wd_content_type d \<in> {''text/html'', ''text/markdown''} \<and>
    int (length (ha_body a)) \<le> limit \<and> (\<exists>text. we_decode env (or_default (ha_charset a) ''utf-8'') (ha_body a) = Inr text) \<and>
    wd_markdown_content d \<noteq> [] \<and> py_strip (wd_markdown_content d) = wd_markdown_content d"
proof -
  let ?payload = "read_bytes (limit + 1) (ha_body a)"
  have limit: "int (length ?payload) \<le> limit"
    using assms by (auto simp: document_of_def Let_def split: if_split_asm)
  note whole = read_whole[OF limit]
  obtain t where "we_decode env (or_default (ha_charset a) ''utf-8'') ?payload = Inr t"
    using assms by (auto simp: document_of_def Let_def bindR_Inr_iff split: if_split_asm)
  then show ?thesis using assms limit unfolding whole
    by (auto simp: document_of_def Let_def whole split: if_split_asm prod.split_asm)
qed

definition results_ok :: "web_search_result list \<Rightarrow> bool" where
  "results_ok rs \<longleftrightarrow> list_all (\<lambda>r. ws_title r \<noteq> [] \<and> ws_url r \<noteq> [] \<and> ws_source r = ''duckduckgo'') rs"

lemma with_snippet_ok: "results_ok rs \<Longrightarrow> results_ok (with_snippet t rs)"
proof (cases "t = [] \<or> rs = []")
  case False
  assume ok: "results_ok rs"
  from False obtain qs q where "rs = qs @ [q]" by (metis append_butlast_last_id)
  then show ?thesis using ok False by (simp add: results_ok_def with_snippet_def)
qed (simp add: with_snippet_def)

lemma results_ok_append [simp]: "results_ok (xs @ ys) \<longleftrightarrow> results_ok xs \<and> results_ok ys"
  by (simp add: results_ok_def)

lemma title_result_ok: "results_ok (title_result s)"
  by (simp add: title_result_def results_ok_def Let_def)

lemma search_step_ok: "results_ok (ss_results s) \<Longrightarrow> results_ok (ss_results (search_step e s))"
  by (cases e) (simp_all add: search_starttag_def search_endtag_def search_data_def with_snippet_ok title_result_ok Let_def)

lemma search_results_ok: "results_ok (search_results es)"
proof -
  have "results_ok (ss_results (fold search_step es s))" if "results_ok (ss_results s)" for s
    using that by (induction es arbitrary: s) (simp_all add: search_step_ok)
  then show ?thesis by (simp add: search_results_def search_start_def results_ok_def)
qed

lemma ranked_nth: "i < length rs \<Longrightarrow> ranked rs ! i = (rs ! i)\<lparr>ws_rank := int (Suc i)\<rparr>"
  by (simp add: ranked_def nth_enumerate_eq)

lemma length_ranked [simp]: "length (ranked rs) = length rs"
  by (simp add: ranked_def)

section \<open>Properties\<close>

text \<open>
  C14. Scripts, styles and \<open>noscript\<close> leave no trace: a page renders to the same title and Markdown as the page without
  these elements and everything in them, however they are nested or left open.
\<close>

theorem scripts_leave_no_trace:
  "render_html es = render_html (visible 0 es)"
proof -
  have "seen (fold html_step es html_start) = fold html_step (visible 0 es) html_start"
    using fold_visible[of es html_start] by (simp add: html_start_def)
  then show ?thesis unfolding render_html_def by (metis flush_ignore(2) rendered_seen)
qed


text \<open>
  A search answers with a beginning of the results of the page, at most as many as asked for and never more than the
  adapter allows, ranked from 1, each with a title and an address.
\<close>

theorem search_answers_are_bounded:
  assumes "web_search env query limit locale_name = Inr rs"
  shows "int (length rs) \<le> max 1 (min limit (we_max_results env)) \<and> map ws_rank rs = map (\<lambda>i. int (Suc i)) [0..<length rs] \<and>
    results_ok rs \<and> (\<exists>es. prefix (map (\<lambda>r. r\<lparr>ws_rank := 0\<rparr>) rs) (map (\<lambda>r. r\<lparr>ws_rank := 0\<rparr>) (search_results es)))"
proof -
  let ?bound = "max 1 (min limit (we_max_results env))"
  obtain es where rs: "rs = ranked (take (nat ?bound) (search_results es))"
    using assms by (auto simp: web_search_def Let_def bindR_Inr_iff split: if_split_asm sum.split_asm)
  let ?taken = "take (nat ?bound) (search_results es)"
  have "results_ok ?taken" using search_results_ok[of es] by (auto simp: results_ok_def list_all_iff dest: in_set_takeD)
  then have "results_ok rs" using rs by (auto simp: results_ok_def list_all_length ranked_nth)
  moreover have "map ws_rank rs = map (\<lambda>i. int (Suc i)) [0..<length rs]"
    using rs by (intro nth_equalityI) (simp_all add: ranked_nth)
  moreover have "map (\<lambda>r. r\<lparr>ws_rank := 0\<rparr>) rs = map (\<lambda>r. r\<lparr>ws_rank := 0\<rparr>) ?taken"
    using rs by (intro nth_equalityI) (simp_all add: ranked_nth)
  then have "prefix (map (\<lambda>r. r\<lparr>ws_rank := 0\<rparr>) rs) (map (\<lambda>r. r\<lparr>ws_rank := 0\<rparr>) (search_results es))"
    by (simp add: take_map[symmetric] take_is_prefix)
  moreover have "int (length rs) \<le> ?bound" using rs by simp
  ultimately show ?thesis by - (intro conjI exI[of _ es]; assumption)
qed

section \<open>Examples\<close>

definition sample_page :: "html_event list" where
  "sample_page = [Start_tag ''title'' [], Text_data ''T'', End_tag ''title'', Start_tag ''a'' [(''class'', Some ''result__a''),
     (''href'', Some ''/1'')], Text_data ''One'', End_tag ''a'', Start_tag ''a'' [(''class'', Some ''result__a''), (''href'', Some ''/2'')],
     Text_data ''Two'', End_tag ''a'']"

definition sample_web :: web_env where
  "sample_web = \<lparr>we_open = (\<lambda>url headers seconds. Inr \<lparr>ha_content_type = Some ''text/html; charset=utf-8'', ha_charset = None,
       ha_body = ''<html>'', ha_url = url, ha_status = Some 200\<rparr>), we_decode = (\<lambda>charset b. Inr b),
     we_tokens = (\<lambda>s. sample_page), we_fed_tokens = (\<lambda>s. sample_page), we_now = ''now'', we_timeout = ''10.0'',
     we_max_bytes = 40, we_user_agent = ''local-agent-harness/0.1'', we_max_results = 10\<rparr>"

lemma sample_answers:
  "case web_fetch sample_web '' https://host/x'' None None None of Inl e \<Rightarrow> False | Inr d \<Rightarrow> wd_title d = Some ''T''"
  "case web_search sample_web ''q'' 1 None of Inl e \<Rightarrow> False | Inr rs \<Rightarrow> map ws_title rs = [''One'']"
  by code_simp+


theorem search_answers_are_bounded_witness:
  "\<exists>rs. web_search sample_web ''q'' 1 None = Inr rs \<and> length rs \<le> 1 \<and> map ws_title rs = [''One'']"
proof -
  obtain rs where rs: "web_search sample_web ''q'' 1 None = Inr rs" "map ws_title rs = [''One'']"
    using sample_answers(2) by (auto split: sum.split_asm)
  have "int (length rs) \<le> 1" using search_answers_are_bounded[OF rs(1)] by (simp add: sample_web_def)
  then show ?thesis using rs by auto
qed

end
