(* ===== verification/MCP_Provider.thy ===== *)
theory MCP_Provider
  imports Remote_Consent
begin

text \<open>
  \<open>services/deepagent_runtime/mcp_provider.py\<close>: the connections of a run to MCP servers. \<open>start\<close> governs and contacts every
  enabled server, \<open>tools_for_role\<close> wraps the tools they offer, and a wrapped tool reports its calls and rejections.

  The adapter library is a parameter: what a server offers when it is contacted with a connection (\<open>mz_load\<close>), and what a
  call of one of its tools ends in (\<open>mz_call\<close>); so are the environment of the host and the answer of the policy
  (\<open>mz_govern\<close>), all of which may depend on what happened before. The trace of the state records what the provider asked
  for with success, contacted and emitted.
\<close>

datatype mcp_action = Allowed operation_context | Contacted string pydict | Emitted string pydict

datatype tool_answer = Tool_value pyval | Tool_invalid string pyval | Tool_failed string

record raw_tool =
  rw_name :: string
  rw_description :: string
  rw_metadata :: pydict

record mcp_tool =
  mt_name :: string
  mt_original_name :: string
  mt_description :: string
  mt_metadata :: pydict
  mt_role :: string
  mt_server :: mcp_server

record mcp_state =
  mv_session_tools :: "(string \<times> raw_tool list) list"
  mv_role_cache :: "(string \<times> mcp_tool list) list"
  mv_started :: bool
  mv_trace :: "mcp_action list"
  mv_auth :: auth_world

record mcp_env =
  mz_config :: mcp_config
  mz_task_id :: string
  mz_run_id :: string
  mz_runtime_user_id :: "string option"
  mz_allowed_capabilities :: "string list option"
  mz_govern :: "(mcp_action list \<Rightarrow> operation_context \<Rightarrow> unit result) option"
  mz_has_on_event :: bool
  mz_resolver :: "auth_env option"
  mz_host_env :: "string \<Rightarrow> string option"
  mz_load :: "mcp_action list \<Rightarrow> string \<Rightarrow> pydict \<Rightarrow> raw_tool list result"
  mz_call :: "mcp_action list \<Rightarrow> string \<Rightarrow> string \<Rightarrow> pydict \<Rightarrow> tool_answer"

type_synonym 'a mcp_act = "(mcp_state, 'a) act"

definition mcp_log :: "mcp_action \<Rightarrow> unit mcp_act" where
  "mcp_log a = modS (\<lambda>s. s\<lparr>mv_trace := mv_trace s @ [a]\<rparr>)"

definition mcp_emit :: "mcp_env \<Rightarrow> string \<Rightarrow> pydict \<Rightarrow> unit mcp_act" where
  "mcp_emit env event_type payload = whenA (mz_has_on_event env) (mcp_log (Emitted event_type payload))"

definition on_mcp_auth :: "'a auth_act \<Rightarrow> 'a mcp_act" where
  "on_mcp_auth m = (\<lambda>s. case m (mv_auth s) of (r, w) \<Rightarrow> (r, s\<lparr>mv_auth := w\<rparr>))"

section \<open>Connecting\<close>

definition mcp_capability_aliases :: "string list" where
  "mcp_capability_aliases = [''mcp_tools'', ''mcp'', ''mcp.tools'']"

definition is_enabled_for_run :: "mcp_env \<Rightarrow> bool" where
  "is_enabled_for_run env =
     (let allowed = filter (\<lambda>x. x \<noteq> []) (map py_strip (case mz_allowed_capabilities env of None \<Rightarrow> [] | Some cs \<Rightarrow> cs)) in
      list_ex (\<lambda>(n, s). sv_enabled s) (mc_servers (mz_config env)) \<and>
      (allowed = [] \<or> list_ex (\<lambda>a. a \<in> set mcp_capability_aliases) allowed))"

definition connect_context :: "mcp_env \<Rightarrow> mcp_server \<Rightarrow> operation_context" where
  "connect_context env server =
     \<lparr>oc_task_id = mz_task_id env, oc_run_id = mz_run_id env, oc_operation_type = ''mcp.server.connect'',
      oc_path_scope = Some (case sv_url server of Some url \<Rightarrow> url
        | None \<Rightarrow> (if or_default (sv_command server) [] = [] then sv_name server else or_default (sv_command server) [])),
      oc_command_class = None, oc_memory_scope = None, oc_namespace = None, oc_agent_role = None,
      oc_metadata = Some [(''server_name'', PStr (sv_name server)), (''transport'', PStr (sv_transport server)),
        (''source'', PStr (sv_source server)), (''source_path'', opt_str (sv_source_path server)),
        (''command'', opt_str (sv_command server)), (''url'', opt_str (sv_url server))]\<rparr>"

definition govern_server_connect :: "mcp_env \<Rightarrow> mcp_server \<Rightarrow> unit mcp_act" where
  "govern_server_connect env server = (case mz_govern env of None \<Rightarrow> ret ()
     | Some g \<Rightarrow> bindA (\<lambda>s. (g (mv_trace s) (connect_context env server), s)) (\<lambda>_.
         mcp_log (Allowed (connect_context env server))))"

definition texts_dict :: "str_map \<Rightarrow> pyval" where
  "texts_dict m = PDict (map (\<lambda>(k, v). (k, PStr v)) m)"

text \<open>\<open>env_payload.setdefault(name, os.environ[name])\<close>: the host is asked in any case.\<close>

fun with_host_env :: "(string \<Rightarrow> string option) \<Rightarrow> string list \<Rightarrow> str_map \<Rightarrow> str_map result" where
  "with_host_env host [] d = Inr d"
| "with_host_env host (n # ns) d = (case host n of None \<Rightarrow> Inl (KeyError n)
     | Some v \<Rightarrow> with_host_env host ns (if map_of d n = None then d @ [(n, v)] else d))"

definition connection_payload :: "(string \<Rightarrow> string option) \<Rightarrow> mcp_server \<Rightarrow> pydict result" where
  "connection_payload host server =
     (if sv_transport server = ''stdio'' then
        bindR (with_host_env host (sv_env_from_host server) (sv_env server)) (\<lambda>d. Inr
          ([(''transport'', PStr ''stdio''), (''command'', opt_str (sv_command server))]
           @ (if sv_args server = [] then [] else [(''args'', PList (map PStr (sv_args server)))])
           @ (if d = [] then [] else [(''env'', texts_dict d)])))
      else Inr ([(''transport'', PStr (sv_transport server)), (''url'', opt_str (sv_url server))]
        @ (if sv_headers server = [] then [] else [(''headers'', texts_dict (sv_headers server))])))"

text \<open>
  \<open>MCPToolProvider._connection_payload\<close>: the payload, or the state of the authorization that
  \<open>RemoteMCPAuthorizationRequired\<close> carries out of the provider.
\<close>

definition server_connection :: "mcp_env \<Rightarrow> mcp_server \<Rightarrow> (remote_auth_state + pydict) mcp_act" where
  "server_connection env server = bindA (liftR (connection_payload (mz_host_env env) server)) (\<lambda>payload.
     if sv_transport server = ''stdio'' then ret (Inr payload) else
     (case mz_resolver env of None \<Rightarrow> ret (Inr payload)
      | Some auth \<Rightarrow> bindA (on_mcp_auth (headers_for_server auth server (mz_runtime_user_id env) (mz_task_id env) (mz_run_id env)))
          (\<lambda>answer. ret (case answer of
             AuthorizationRequired st \<Rightarrow> Inl st
           | Headers h \<Rightarrow> Inr (AList.update ''headers'' (texts_dict h) payload)))))"

definition load_tools :: "mcp_env \<Rightarrow> string \<Rightarrow> pydict \<Rightarrow> raw_tool list mcp_act" where
  "load_tools env name payload = thenA (mcp_log (Contacted name payload))
     (\<lambda>s. (mz_load env (mv_trace s) name payload, s))"

text \<open>\<open>_startup\<close> over the servers; the state of an authorization that is required ends it.\<close>

fun startup :: "mcp_env \<Rightarrow> (string \<times> mcp_server) list \<Rightarrow> remote_auth_state option mcp_act" where
  "startup env [] = ret None"
| "startup env ((name, server) # rest) =
     (if \<not> sv_enabled server then startup env rest else
      thenA (govern_server_connect env server)
     (bindA (server_connection env server) (\<lambda>connection. case connection of
        Inl st \<Rightarrow> ret (Some st)
      | Inr payload \<Rightarrow> bindA (load_tools env name payload) (\<lambda>tools.
          thenA (modS (\<lambda>s. s\<lparr>mv_session_tools := AList.update name tools (mv_session_tools s)\<rparr>)) (startup env rest)))))"

definition mcp_start :: "mcp_env \<Rightarrow> remote_auth_state option mcp_act" where
  "mcp_start env = bindA (getS mv_started) (\<lambda>started.
     if started \<or> \<not> is_enabled_for_run env then ret None else
     bindA (startup env (mc_servers (mz_config env))) (\<lambda>st. case st of
       Some state \<Rightarrow> ret (Some state)
     | None \<Rightarrow> thenA (modS (\<lambda>s. s\<lparr>mv_started := True\<rparr>)) (ret None)))"

definition mcp_close :: "unit mcp_act" where
  "mcp_close = modS (\<lambda>s. s\<lparr>mv_session_tools := [], mv_role_cache := [], mv_started := False\<rparr>)"

section \<open>Tools\<close>

definition original_tool_name :: "string \<Rightarrow> string \<Rightarrow> bool \<Rightarrow> string" where
  "original_tool_name tool server prefixed =
     (if prefixed \<and> startswith tool (server @ ''_'') then drop (length (server @ ''_'')) tool else tool)"

definition wrap_tool :: "mcp_env \<Rightarrow> string \<Rightarrow> mcp_server \<Rightarrow> raw_tool \<Rightarrow> mcp_tool" where
  "wrap_tool env role server raw =
     (let original = original_tool_name (rw_name raw) (sv_name server) (mc_tool_name_prefix (mz_config env)) in
      \<lparr>mt_name = rw_name raw, mt_original_name = original, mt_description = rw_description raw,
       mt_metadata = AList.update ''mcp'' (PDict [(''server_name'', PStr (sv_name server)),
         (''transport'', PStr (sv_transport server)), (''tool_name'', PStr original), (''source'', PStr (sv_source server))])
         (rw_metadata raw), mt_role = role, mt_server = server\<rparr>)"

definition role_tools :: "mcp_env \<Rightarrow> string \<Rightarrow> (string \<times> raw_tool list) list \<Rightarrow> mcp_tool list result" where
  "role_tools env role sessions = bindR (mapR (\<lambda>(name, raws).
     case map_of (mc_servers (mz_config env)) name of
       None \<Rightarrow> Inl (KeyError name) | Some server \<Rightarrow> Inr (map (wrap_tool env role server) raws)) sessions) (\<lambda>ts. Inr (concat ts))"

text \<open>\<open>tools_for_role\<close>; starting may end in an authorization that is required.\<close>

definition tools_for_role :: "mcp_env \<Rightarrow> string \<Rightarrow> (remote_auth_state + mcp_tool list) mcp_act" where
  "tools_for_role env role = bindA (mcp_start env) (\<lambda>st. case st of Some state \<Rightarrow> ret (Inl state)
     | None \<Rightarrow> bindA (getS mv_role_cache) (\<lambda>cache. case map_of cache role of
         Some tools \<Rightarrow> ret (Inr tools)
       | None \<Rightarrow> bindA (getS mv_session_tools) (\<lambda>sessions.
           bindA (liftR (role_tools env role sessions)) (\<lambda>tools.
           thenA (modS (\<lambda>s. s\<lparr>mv_role_cache := AList.update role tools (mv_role_cache s)\<rparr>)) (ret (Inr tools))))))"

fun sanitize_mcp_arguments :: "pyval \<Rightarrow> pyval" where
  "sanitize_mcp_arguments (PStr s) = (let t = py_strip s in
     PStr (if startswith t ''/'' \<and> \<not> startswith t ''/workspace'' \<and> \<not> startswith t ''/tmp'' \<and> \<not> startswith t ''/.memory''
       then ''<host-native-path>'' else s))"
| "sanitize_mcp_arguments (PList xs) = PList (map sanitize_mcp_arguments xs)"
| "sanitize_mcp_arguments (PDict d) = PDict (map (\<lambda>kv. (fst kv, sanitize_mcp_arguments (snd kv))) d)"
| "sanitize_mcp_arguments v = v"

definition call_payload :: "mcp_tool \<Rightarrow> pyval \<Rightarrow> pydict" where
  "call_payload t arguments =
     [(''tool'', PStr (mt_name t)), (''arguments'', arguments), (''server_name'', PStr (sv_name (mt_server t))),
      (''transport'', PStr (sv_transport (mt_server t))), (''raw_tool_name'', PStr (mt_original_name t)),
      (''exposed_tool_name'', PStr (mt_name t)), (''tool_source'', PStr ''mcp''), (''agent_role'', PStr (mt_role t))]"

definition mcp_rejected_payload :: "mcp_tool \<Rightarrow> pyval \<Rightarrow> string \<Rightarrow> string \<Rightarrow> string \<Rightarrow> pydict \<Rightarrow> pydict" where
  "mcp_rejected_payload t arguments code category message details = call_payload t arguments @
     [(''code'', PStr code), (''category'', PStr category), (''message'', PStr message), (''retryable'', PBool True),
      (''details'', PDict details), (''summary'', PStr (mt_name t @ '' rejected: '' @ message))]"

definition mcp_validation_error :: "mcp_env \<Rightarrow> mcp_tool \<Rightarrow> string \<Rightarrow> pyval \<Rightarrow> pyval mcp_act" where
  "mcp_validation_error env t message errors = thenA
     (mcp_emit env ''tool.rejected'' (mcp_rejected_payload t (PDict []) ''invalid_arguments'' ''argument_validation'' message
        [(''errors'', errors)]))
     (ret (PStr (''TOOL_REJECTED [invalid_arguments]: '' @ message @
        '' Adjust the tool arguments to satisfy the schema and try again.'')))"

definition mcp_execution_error :: "mcp_env \<Rightarrow> mcp_tool \<Rightarrow> pydict \<Rightarrow> string \<Rightarrow> pyval mcp_act" where
  "mcp_execution_error env t arguments message = thenA
     (mcp_emit env ''tool.rejected'' (mcp_rejected_payload t (sanitize_mcp_arguments (PDict arguments)) ''tool_execution_failed''
        ''tool_execution'' message []))
     (ret (PStr (''TOOL_REJECTED [tool_execution_failed]: '' @ message @
        '' Revise the tool arguments or query syntax and try again.'')))"

definition invoke_tool :: "mcp_env \<Rightarrow> mcp_tool \<Rightarrow> pydict \<Rightarrow> pyval mcp_act" where
  "invoke_tool env t arguments = thenA (mcp_emit env ''tool.called'' (call_payload t (PDict arguments)))
     (bindA (getS (\<lambda>s. mz_call env (mv_trace s) (sv_name (mt_server t)) (mt_name t) arguments)) (\<lambda>answer. case answer of
        Tool_value v \<Rightarrow> ret v
      | Tool_invalid message errors \<Rightarrow> mcp_validation_error env t message errors
      | Tool_failed message \<Rightarrow> mcp_execution_error env t arguments message))"

text \<open>The callbacks a server may call while it is connected.\<close>

definition on_logging_message :: "mcp_env \<Rightarrow> string \<Rightarrow> string \<Rightarrow> pyval \<Rightarrow> pyval \<Rightarrow> unit mcp_act" where
  "on_logging_message env server level data logger = mcp_emit env ''mcp.log''
     [(''server_name'', PStr server), (''level'', PStr (py_lower level)), (''message'', data), (''logger'', logger)]"

definition on_progress :: "mcp_env \<Rightarrow> string \<Rightarrow> pyval \<Rightarrow> pyval \<Rightarrow> pyval \<Rightarrow> string option \<Rightarrow> unit mcp_act" where
  "on_progress env server tool progress bound message = mcp_emit env ''mcp.progress''
     [(''server_name'', PStr server), (''tool_name'', tool), (''progress'', progress), (''total'', bound),
      (''message'', opt_str message)]"

definition on_elicitation :: "mcp_env \<Rightarrow> string \<Rightarrow> pyval \<Rightarrow> pyval \<Rightarrow> unit mcp_act" where
  "on_elicitation env server tool message = thenA (mcp_emit env ''mcp.elicitation.unsupported''
     [(''server_name'', PStr server), (''tool_name'', tool), (''message'', message)])
     (raise (OtherException ''MCP elicitation is not supported by this runtime''))"

section \<open>Any use of a provider\<close>

inductive mcp_used :: "mcp_env \<Rightarrow> mcp_state \<Rightarrow> mcp_state \<Rightarrow> bool" for env s0 where
  fresh: "mcp_used env s0 s0"
| starts: "mcp_used env s0 s \<Longrightarrow> mcp_start env s = (r, s') \<Longrightarrow> mcp_used env s0 s'"
| offers: "mcp_used env s0 s \<Longrightarrow> tools_for_role env role s = (r, s') \<Longrightarrow> mcp_used env s0 s'"
| calls: "mcp_used env s0 s \<Longrightarrow> invoke_tool env t arguments s = (r, s') \<Longrightarrow> mcp_used env s0 s'"
| logs: "mcp_used env s0 s \<Longrightarrow> on_logging_message env server level data logger s = (r, s') \<Longrightarrow> mcp_used env s0 s'"
| progresses: "mcp_used env s0 s \<Longrightarrow> on_progress env server tool progress bound message s = (r, s') \<Longrightarrow> mcp_used env s0 s'"
| elicits: "mcp_used env s0 s \<Longrightarrow> on_elicitation env server tool message s = (r, s') \<Longrightarrow> mcp_used env s0 s'"
| closes: "mcp_used env s0 s \<Longrightarrow> mcp_close s = (r, s') \<Longrightarrow> mcp_used env s0 s'"

end
