(* ===== verification/MCP_Properties.thy ===== *)
theory MCP_Properties
  imports MCP_Provider
begin

text \<open>
  What the MCP provider guarantees: the servers of a run are contacted only with the consent of the policy, and of the user
  where the server acts for one; and no failure of a tool leaves it.
\<close>

section \<open>Every contact was allowed\<close>

definition contact_ok :: "mcp_env \<Rightarrow> auth_event list \<Rightarrow> mcp_action list \<Rightarrow> string \<Rightarrow> bool" where
  "contact_ok env es before name \<longleftrightarrow> is_enabled_for_run env \<and>
     (\<exists>server. (name, server) \<in> set (mc_servers (mz_config env)) \<and> sv_enabled server \<and>
       (mz_govern env \<noteq> None \<longrightarrow> before \<noteq> [] \<and> last before = Allowed (connect_context env server)) \<and>
       (\<forall>auth. mz_resolver env = Some auth \<and> sv_transport server \<noteq> ''stdio'' \<and> ma_mode (sv_auth server) = ''oauth_user_grant'' \<longrightarrow>
          (\<exists>u p. mz_runtime_user_id env = Some u \<and> provider_of auth server = Inr p \<and> consented es (op_provider_id p) u)))"

definition contacts_ok :: "mcp_env \<Rightarrow> auth_event list \<Rightarrow> mcp_action list \<Rightarrow> bool" where
  "contacts_ok env es t \<longleftrightarrow> (\<forall>before name payload after. t = before @ Contacted name payload # after \<longrightarrow> contact_ok env es before name)"

lemma contacts_ok_Nil [simp]: "contacts_ok env es []"
  by (simp add: contacts_ok_def)

lemma contacts_ok_snoc [simp]:
  "contacts_ok env es (t @ [a]) \<longleftrightarrow> contacts_ok env es t \<and> (case a of Contacted name payload \<Rightarrow> contact_ok env es t name | _ \<Rightarrow> True)"
proof -
  have "t @ [a] = before @ c # after \<longleftrightarrow> (after = [] \<and> before = t \<and> c = a) \<or> (\<exists>rest. after = rest @ [a] \<and> t = before @ c # rest)"
    for before c after by (cases after rule: rev_cases) auto
  then have "contacts_ok env es (t @ [a]) \<longleftrightarrow> contacts_ok env es t \<and>
      (\<forall>name payload. a = Contacted name payload \<longrightarrow> contact_ok env es t name)"
    unfolding contacts_ok_def by metis
  then show ?thesis by (cases a) auto
qed

definition provider_state_ok :: "mcp_env \<Rightarrow> auth_event list \<Rightarrow> mcp_state \<Rightarrow> bool" where
  "provider_state_ok env es s \<longleftrightarrow> contacts_ok env es (mv_trace s) \<and>
     (case mz_resolver env of None \<Rightarrow> True | Some auth \<Rightarrow> auth_history auth es (mv_auth s))"

lemma keeps_mcp_state:
  "(\<And>s. mv_trace (f s) = mv_trace s \<and> mv_auth (f s) = mv_auth s) \<Longrightarrow> keeps (provider_state_ok env es) (modS f)"
  by (intro keeps_modS) (auto simp: provider_state_ok_def split: option.splits)

lemma keeps_mcp_emit [keep_rules]: "keeps (provider_state_ok env es) (mcp_emit env' ty payload)"
  unfolding mcp_emit_def mcp_log_def by (intro keep_rules keeps_modS) (auto simp: provider_state_ok_def split: option.splits)

lemma govern_connect:
  assumes "provider_state_ok env es s" and "govern_server_connect env server s = (r, s')"
  shows "provider_state_ok env es s' \<and> (r = Inr () \<longrightarrow> mz_govern env \<noteq> None \<longrightarrow>
    mv_trace s' \<noteq> [] \<and> last (mv_trace s') = Allowed (connect_context env server))"
  using assms by (auto simp: govern_server_connect_def bindA_run mcp_log_def provider_state_ok_def split: option.split_asm sum.split_asm)

lemma connection_consented:
  assumes "provider_state_ok env es s" and "server_connection env server s = (r, s')"
  shows "provider_state_ok env es s' \<and> mv_trace s' = mv_trace s \<and> (\<forall>payload auth. r = Inr (Inr payload) \<and> mz_resolver env = Some auth \<and>
      sv_transport server \<noteq> ''stdio'' \<and> ma_mode (sv_auth server) = ''oauth_user_grant'' \<longrightarrow>
    (\<exists>u p. mz_runtime_user_id env = Some u \<and> provider_of auth server = Inr p \<and> consented es (op_provider_id p) u))"
proof (cases "connection_payload (mz_host_env env) server")
  case (Inl e)
  then show ?thesis using assms by (auto simp: server_connection_def bindA_run)
next
  case (Inr base)
  show ?thesis
  proof (cases "sv_transport server = ''stdio'' \<or> mz_resolver env = None")
    case True
    then show ?thesis using assms Inr by (auto simp: server_connection_def bindA_run split: if_splits)
  next
    case False
    then obtain auth where auth: "mz_resolver env = Some auth" by blast
    obtain a w where w: "headers_for_server auth server (mz_runtime_user_id env) (mz_task_id env) (mz_run_id env) (mv_auth s) = (a, w)"
      by fastforce
    have history: "auth_history auth es (mv_auth s)" using assms(1) auth by (simp add: provider_state_ok_def)
    note next_history = auth_history.connected[OF history w]
    have s': "s' = s\<lparr>mv_auth := w\<rparr>" and
        r: "r = Inr (Inr payload) \<Longrightarrow> \<exists>h. a = Inr (Headers h)" for payload
      using assms(2) Inr False auth w
      by (auto simp: server_connection_def bindA_run on_mcp_auth_def split: sum.split_asm headers_answer.split_asm)
    have "\<exists>u p. mz_runtime_user_id env = Some u \<and> provider_of auth server = Inr p \<and> consented es (op_provider_id p) u"
      if given: "r = Inr (Inr payload)" "ma_mode (sv_auth server) = ''oauth_user_grant''" for payload
    proof -
      obtain h where h: "a = Inr (Headers h)" using r[of payload] given(1) by blast
      obtain u where u: "mz_runtime_user_id env = Some u"
          "resolve_authorization_headers auth server u (mz_task_id env) (mz_run_id env) (mv_auth s) = (Inr (Headers h), w)"
        using w h given(2) by (auto simp: headers_for_server_def split: option.split_asm)
      then obtain p g where "provider_of auth server = Inr p" "sql_get_grant (aw_store (mv_auth s)) (op_provider_id p) u = Some g"
          "ag_status g = ''authorized''"
        using resolve_headers[OF u(2)] given(2) by auto
      then show ?thesis using grants_consented_history[OF history] u(1) unfolding grants_consented_def by blast
    qed
    then show ?thesis using s' auth assms(1) next_history by (auto simp: provider_state_ok_def)
  qed
qed

lemma startup_ok:
  "set servers \<subseteq> set (mc_servers (mz_config env)) \<Longrightarrow> is_enabled_for_run env \<Longrightarrow> keeps (provider_state_ok env es) (startup env servers)"
proof (induction servers)
  case (Cons x rest)
  obtain name server where x: "x = (name, server)" by fastforce
  have IH: "keeps (provider_state_ok env es) (startup env rest)" using Cons by simp
  show ?case
  proof (cases "sv_enabled server")
    case True
    let ?go = "\<lambda>payload. bindA (load_tools env name payload) (\<lambda>tools.
      thenA (modS (\<lambda>s. s\<lparr>mv_session_tools := AList.update name tools (mv_session_tools s)\<rparr>)) (startup env rest))"
    show ?thesis
    proof (rule keepsI)
      fix s assume s: "provider_state_ok env es s"
      obtain r1 s1 where 1: "govern_server_connect env server s = (r1, s1)" by fastforce
      obtain r2 s2 where 2: "server_connection env server s1 = (r2, s2)" by fastforce
      have s1: "provider_state_ok env es s1" using govern_connect[OF s 1] by blast
      note c = connection_consented[OF s1 2]
      have "provider_state_ok env es (snd (?go payload s2))" if "r1 = Inr ()" "r2 = Inr (Inr payload)" for payload
      proof -
        let ?s3 = "s2\<lparr>mv_trace := mv_trace s2 @ [Contacted name payload]\<rparr>"
        have "contact_ok env es (mv_trace s2) name"
          unfolding contact_ok_def using Cons.prems x True govern_connect[OF s 1] c that by (intro conjI exI[of _ server]) auto
        then have 3: "provider_state_ok env es ?s3" using c by (cases "mz_resolver env") (auto simp: provider_state_ok_def)
        have rest: "keeps (provider_state_ok env es) (thenA (modS (\<lambda>s. s\<lparr>mv_session_tools := AList.update name tools (mv_session_tools s)\<rparr>))
            (startup env rest))" for tools
          by (intro keeps_then keeps_mcp_state IH) simp
        show ?thesis using 3 rest[unfolded keeps_def, rule_format, OF 3]
          by (auto simp: load_tools_def mcp_log_def bindA_run thenA_run split: sum.split)
      qed
      then show "provider_state_ok env es (snd (startup env (x # rest) s))"
        using s1 c 1 2 x True by (auto simp: thenA_run bindA_run split: sum.split)
    qed
  qed (use IH x in simp)
qed (simp add: keep_rules)

lemma start_ok [keep_rules]: "keeps (provider_state_ok env es) (mcp_start env)"
proof (cases "is_enabled_for_run env")
  case True
  then show ?thesis unfolding mcp_start_def
    by (intro keep_rules startup_ok keeps_mcp_state) simp_all
next
  case False
  then have "snd (mcp_start env s) = s" for s by (simp add: mcp_start_def bindA_run)
  then show ?thesis by (simp add: keeps_def)
qed

lemma uses_ok:
  "keeps (provider_state_ok env es) (tools_for_role env role)" "keeps (provider_state_ok env es) (invoke_tool env t arguments)"
  "keeps (provider_state_ok env es) (on_logging_message env n l d g)" "keeps (provider_state_ok env es) (on_progress env n tool p b m)"
  "keeps (provider_state_ok env es) (on_elicitation env n tool message)" "keeps (provider_state_ok env es) mcp_close"
proof -
  show "keeps (provider_state_ok env es) (tools_for_role env role)" unfolding tools_for_role_def by (intro keep_rules keeps_mcp_state) simp
  show "keeps (provider_state_ok env es) (invoke_tool env t arguments)"
    unfolding invoke_tool_def mcp_validation_error_def mcp_execution_error_def
    by (intro keep_rules) (simp add: keep_rules split: tool_answer.split)
  show "keeps (provider_state_ok env es) mcp_close" unfolding mcp_close_def by (intro keeps_mcp_state) simp
qed (simp_all add: on_logging_message_def on_progress_def on_elicitation_def keep_rules)

lemma used_ok: "mcp_used env s0 s \<Longrightarrow> provider_state_ok env es s0 \<Longrightarrow> provider_state_ok env es s"
  by (induction rule: mcp_used.induct) (blast intro: keepsD start_ok uses_ok)+

section \<open>Properties\<close>

definition sample_mcp_env :: mcp_env where
  "sample_mcp_env = \<lparr>mz_config = ae_mcp sample_auth_env, mz_task_id = ''t'', mz_run_id = ''r'', mz_runtime_user_id = Some ''ann'',
     mz_allowed_capabilities = Some ['' mcp ''], mz_govern = Some (\<lambda>t oc. if oc_operation_type oc = ''mcp.server.connect'' then Inr ()
       else Inl (OtherException ''denied'')), mz_has_on_event = True, mz_resolver = Some sample_auth_env, mz_host_env = (\<lambda>_. None),
     mz_load = (\<lambda>t n p. Inr [\<lparr>rw_name = n @ ''_search'', rw_description = ''searches'', rw_metadata = []\<rparr>]),
     mz_call = (\<lambda>t n tool args. Tool_failed ''down'')\<rparr>"



text \<open>
  A tool of a server never fails the run: the call returns what the server answered, or a rejection text that starts with
  \<open>TOOL_REJECTED\<close>; it is announced with \<open>tool.called\<close>, and a rejection with \<open>tool.rejected\<close> whose arguments
  are sanitised, in this order and with nothing else.
\<close>

theorem server_tools_never_raise:
  "invoke_tool env t arguments s =
     (let called = (if mz_has_on_event env then [Emitted ''tool.called'' (call_payload t (PDict arguments))] else []) in
      case mz_call env (mv_trace s @ called) (sv_name (mt_server t)) (mt_name t) arguments of
        Tool_value v \<Rightarrow> (Inr v, s\<lparr>mv_trace := mv_trace s @ called\<rparr>)
      | Tool_invalid message errors \<Rightarrow> (Inr (PStr (''TOOL_REJECTED [invalid_arguments]: '' @ message @
          '' Adjust the tool arguments to satisfy the schema and try again.'')),
          s\<lparr>mv_trace := mv_trace s @ called @ (if mz_has_on_event env then [Emitted ''tool.rejected''
            (mcp_rejected_payload t (PDict []) ''invalid_arguments'' ''argument_validation'' message [(''errors'', errors)])] else [])\<rparr>)
      | Tool_failed message \<Rightarrow> (Inr (PStr (''TOOL_REJECTED [tool_execution_failed]: '' @ message @
          '' Revise the tool arguments or query syntax and try again.'')),
          s\<lparr>mv_trace := mv_trace s @ called @ (if mz_has_on_event env then [Emitted ''tool.rejected''
            (mcp_rejected_payload t (sanitize_mcp_arguments (PDict arguments)) ''tool_execution_failed'' ''tool_execution''
              message [])] else [])\<rparr>))"
  by (simp add: invoke_tool_def mcp_validation_error_def mcp_execution_error_def mcp_emit_def mcp_log_def whenA_def
      thenA_run bindA_run split: tool_answer.split)

text \<open>Host paths next to the virtual roots are not recognised as such.\<close>

lemma neighbours_are_not_sanitized:
  "sanitize_mcp_arguments (PStr ''/workspace-backup/key'') = PStr ''/workspace-backup/key''"
  "sanitize_mcp_arguments (PStr ''/etc/passwd'') = PStr ''<host-native-path>''"
  by code_simp+

end
