(* ===== verification/Spec2Isabelle.thy ===== *)
theory Spec2Isabelle
  imports Agent_Confinement Run_Outcomes TUI_Properties Log_Stream Config_Properties Remote_Consent Server_Properties Skill_Properties
    Web_Properties MCP_Properties
begin

text \<open>
  A verification library for the runtime of a local agent (the Python packages under \<open>src/\<close>).

  The program. A client (command line or terminal) speaks to a runtime process. The runtime accepts tasks, runs an
  agent harness for each run in a thread, governs every operation of the agent (policy, approvals, sandbox), keeps
  events, checkpoints, memory, artifacts and metrics, and rebuilds its runs after a restart.

  The model. Python code that mutates shared state is an action \<open>world \<Rightarrow> result \<times> world\<close> (theory \<open>Effects\<close>): an
  exception is a value of the sum type \<open>exn + 'a\<close> and leaves what was written before it. Values of type \<open>Any\<close> are
  the datatype \<open>pyval\<close>; strings are lists of characters; Python integers are \<open>int\<close>. Every exception, early return
  and fallback of a translated function is a branch of its definition. A harness is a \<open>prog\<close>: the tree of the calls
  it makes on the runtime, over which the theorems quantify. Time, ids, the file system, the subprocess, SHA-256,
  MIME types, the summariser, the web clients and the skill installer are fields of \<open>runtime_env\<close> or arguments.

  Theories and what they model.
  \<^item> \<open>Prelude\<close>, \<open>Py_Values\<close>, \<open>Effects\<close>, \<open>Db_Tables\<close>, \<open>Posix_Paths\<close>: results, string operations, dynamic values, the
    effect monad with its Hoare rules (\<open>keeps\<close>, \<open>ends\<close>, \<open>returns\<close>), tables of the metadata database, POSIX paths.
  \<^item> \<open>Task_Model\<close> (\<open>packages/task_model/models.py\<close>), \<open>Protocol_Events\<close> (the events of \<open>packages/protocol/models.py\<close>).
  \<^item> \<open>Path_Policy\<close>, \<open>Sandbox\<close> (\<open>services/sandbox_service\<close>): virtual paths, zones, roots, translated commands.
  \<^item> \<open>Boundary_Scope\<close>, \<open>Policy_Engine\<close>, \<open>Approval_Store\<close> (\<open>services/policy_service\<close>) and \<open>Access_Control\<close>, the policy on
    normalised sandbox paths.
  \<^item> \<open>Memory_Service\<close>, \<open>Checkpoints\<close>, \<open>Observability\<close>, \<open>Artifact_Store\<close>: the stores under \<open>services/\<close>.
  \<^item> \<open>Run_State_Store\<close>, \<open>Event_Bus\<close>, \<open>Conversation_Compaction\<close>, \<open>Recovery_Service\<close> (\<open>apps/runtime\<close>).
  \<^item> \<open>Agent_Program\<close>, \<open>Command_Text\<close>, \<open>Tool_Bindings\<close>, \<open>Tool_Access\<close>, \<open>Agent_Confinement\<close>
    (\<open>services/deepagent_runtime\<close>): the interrupt bridge, the harness, the tools with their governance, the run of an
    agent, and what it can do to the host.
  \<^item> \<open>Runtime_World\<close>, \<open>Task_Events\<close>, \<open>Task_Skills\<close>, \<open>Task_Execution\<close>, \<open>Task_Runner\<close> (\<open>apps/runtime/task_runner.py\<close>): the
    state the runner works on and all its operations. \<open>perform\<close> and \<open>reachable\<close> in \<open>Task_Runner\<close> are the runtime as a
    state machine: any client request, or the progress of a waiting run, in any order.
  \<^item> \<open>Runtime_Invariants\<close>, \<open>Runtime_Correctness\<close>, \<open>Run_Triples\<close>, \<open>Sample_Runtime\<close>, \<open>Runtime_Properties\<close>,
    \<open>Rejection_Streak\<close>, \<open>Run_Outcomes\<close>, \<open>Governance\<close>: what holds of the composed runtime.
  \<^item> \<open>Protocol_Params\<close>, \<open>Protocol_Results\<close> (\<open>packages/protocol/models.py\<close>): JSON-RPC requests and responses, the parameters
    of every method, which the handlers of the runtime parse, and the results they answer with.
  \<^item> \<open>Method_Handlers\<close>, \<open>Runtime_Server\<close>, \<open>Server_Properties\<close> (\<open>apps/runtime/method_handlers.py\<close>, \<open>runtime_server.py\<close>):
    a line of a session is parsed, dispatched to its handler and answered; \<open>server_reachable\<close> is a session as a state
    machine, and \<open>follows\<close> the simulation of the task runner by it.
  \<^item> \<open>Config_Redaction\<close> (\<open>method_handlers.py\<close>): what \<open>config.get\<close> shows of the configuration.
  \<^item> \<open>Subagents\<close> (\<open>services/subagent_registry\<close>, \<open>services/subagent_runtime\<close>): roles, their models, tools and skills.
  \<^item> \<open>Skill_Installer\<close>, \<open>Skill_Properties\<close> (\<open>skill_installer.py\<close>): validating a staged skill, and installing it step by step
    on a host that may stop it anywhere; \<open>installation_service\<close> is the installer as the runner takes it.
  \<^item> \<open>Identity\<close> (\<open>packages/identity\<close>, \<open>memory_seed.py\<close>): the identity document and the memory it becomes.
  \<^item> \<open>Log_Stream\<close> (\<open>runtime_server.py\<close>): the stream of the events of a run to a client, interleaved with publishing.
  \<^item> \<open>Config_Models\<close>, \<open>Config_Loader\<close>, \<open>Config_Properties\<close> (\<open>packages/config\<close>): the loader and what it guarantees.
  \<^item> \<open>Remote_Auth\<close>, \<open>Remote_Consent\<close> (\<open>services/remote_mcp_auth_service\<close>): OAuth grants of users for remote servers.
  \<^item> \<open>MCP_Provider\<close>, \<open>MCP_Properties\<close> (\<open>mcp_provider.py\<close>): the connections of a run to MCP servers and the tools they offer;
    \<open>mcp_used\<close> is any use of a provider.
  \<^item> \<open>Web_Adapters\<close>, \<open>Web_Properties\<close> (\<open>services/web_service\<close>): fetching and searching, the Markdown of a page.
  \<^item> \<open>TUI_State\<close>, \<open>TUI_Reducers\<close>, \<open>TUI_Properties\<close> (\<open>apps/tui/store\<close>): the state of the terminal client and how
    answers and events change it.

  Interfaces. \<open>world_part\<close> and \<open>world_invariant\<close> (\<open>Runtime_Invariants\<close>) list the writes an invariant of the world has to
  survive; each invariant is an interpretation. \<open>tool_rule\<close> (\<open>Tool_Access\<close>) is the interface between the tools and a
  constraint on their accesses; it is interpreted for governance, for clean events and for the confined agent.
  \<open>grant_store\<close> (\<open>Remote_Auth\<close>) is the store protocol of the authorization service, interpreted by its two stores.

  Bounds and fuel. \<open>json_loads\<close> reads with the length of its text as fuel, which \<open>json_loads_fuel\<close> shows to be enough.
  \<open>agent_loop\<close> takes a bound on the number of tool calls, as the agent library does; the theorems hold for every bound.
  Every other recursion is structural or has a termination proof.

  What is assumed. Theorems about several ids assume those of \<open>uuid4\<close> that were drawn to be distinct after truncation
  to twelve digits; theorems about a harness assume that it asks permission in the name of its own run
  (\<open>local_harness\<close>), which every harness under \<open>src/\<close> does.

  Not modelled. The widgets of the terminal client and the command line (printing), \<open>urlopen\<close>, the codecs
  and the tokenizer of HTML, the library that speaks to MCP servers, the TOML and YAML parsers, prompt text and the compilation of subagents, process wiring and
  the transport, the SQL text and the schema of the tables, threads (operations of the runner and requests of a session
  are atomic steps; the progress of a run interleaves with them as the steps of \<open>prog\<close> allow through
  \<open>ClientCancel\<close>). \<open>run_agent_task\<close> is the primary agent of an installation without MCP servers and without delegation.
\<close>

end
